(* ===== verification/Prelude.thy ===== *)
theory Prelude
  imports Complex_Main "HOL-Library.Word" "HOL-Library.List_Lexorder" "HOL-Library.Char_ord"
    "HOL-Library.Log_Nat" "HOL-Library.Multiset"
begin

text \<open>
  Shared vocabulary of the development: the parts of the Go language and of its standard
  library that the modelled sources use.

  \<^item> A Go \<open>map[K]V\<close> is an association list with distinct keys (\<open>gomap\<close>). The order of the list
    stands for the order in which a \<open>range\<close> loop visits the entries, which Go leaves
    unspecified: theorems quantify over all lists, hence over all visiting orders.
  \<^item> A \<open>time.Time\<close> is the number of nanoseconds since Go's zero time (1 January of year 1), so
    \<open>IsZero\<close> is equality with \<open>0\<close> and \<open>Truncate\<close> is truncation of that number.
  \<^item> \<open>uint64\<close> is a 64-bit word; \<open>int\<close> values that the sources keep small are \<open>int\<close>.
  \<^item> A Go string is a list of bytes, as \<open>string\<close> is; \<open><\<close> on strings is bytewise lexicographic.
  \<^item> An error is its text; a fallible computation returns \<open>error + 'a\<close>.
\<close>

named_theorems gomap_simps \<open>lookup laws of map operations\<close>
named_theorems handler_defs \<open>definitions of request handlers and their transactions\<close>

type_synonym uint64 = "64 word"
type_synonym gotime = int
type_synonym duration = int
type_synonym error = string
type_synonym 'v gomap = "(string \<times> 'v) list"

subsection \<open>Maps\<close>

definition mget :: "('k \<times> 'v) list \<Rightarrow> 'k \<Rightarrow> 'v option" where
  "mget m k = map_of m k"

text \<open>Reading a missing key yields the zero value \<open>z\<close> of the element type.\<close>

definition zget :: "'v \<Rightarrow> ('k \<times> 'v) list \<Rightarrow> 'k \<Rightarrow> 'v" where
  "zget z m k = (case mget m k of None \<Rightarrow> z | Some v \<Rightarrow> v)"

fun mput :: "'k \<Rightarrow> 'v \<Rightarrow> ('k \<times> 'v) list \<Rightarrow> ('k \<times> 'v) list" where
  "mput k v [] = [(k, v)]"
| "mput k v ((k', v') # m) = (if k = k' then (k, v) # m else (k', v') # mput k v m)"

definition mdel :: "'k \<Rightarrow> ('k \<times> 'v) list \<Rightarrow> ('k \<times> 'v) list" where
  "mdel k m = filter (\<lambda>kv. fst kv \<noteq> k) m"

text \<open>A loop that rewrites every entry, and one that deletes the entries failing a test.\<close>

definition mmap :: "('k \<Rightarrow> 'v \<Rightarrow> 'w) \<Rightarrow> ('k \<times> 'v) list \<Rightarrow> ('k \<times> 'w) list" where
  "mmap f m = map (\<lambda>(k, v). (k, f k v)) m"

definition mkeep :: "('k \<Rightarrow> 'v \<Rightarrow> bool) \<Rightarrow> ('k \<times> 'v) list \<Rightarrow> ('k \<times> 'v) list" where
  "mkeep P m = filter (\<lambda>(k, v). P k v) m"

definition mkeys :: "('k \<times> 'v) list \<Rightarrow> 'k list" where
  "mkeys m = map fst m"

definition mvals :: "('k \<times> 'v) list \<Rightarrow> 'v list" where
  "mvals m = map snd m"

definition mwf :: "('k \<times> 'v) list \<Rightarrow> bool" where
  "mwf m = distinct (map fst m)"

lemma mget_Nil [simp]: "mget [] k = None"
  by (simp add: mget_def)

lemma mget_Cons [simp]: "mget ((k', v) # m) k = (if k = k' then Some v else mget m k)"
  by (simp add: mget_def)

lemma mget_mput [simp, gomap_simps]: "mget (mput k v m) k' = (if k' = k then Some v else mget m k')"
  by (induction k v m rule: mput.induct) (auto simp: mget_def)

lemma mget_mdel [simp, gomap_simps]: "mget (mdel k m) k' = (if k' = k then None else mget m k')"
  by (induction m) (auto simp: mdel_def)

lemma mget_mmap [simp, gomap_simps]: "mget (mmap f m) k = map_option (f k) (mget m k)"
  by (induction m) (auto simp: mmap_def)

lemma fst_mput [simp]: "set (map fst (mput k v m)) = insert k (set (map fst m))"
  by (induction k v m rule: mput.induct) auto

lemma mwf_Nil [simp]: "mwf []"
  by (simp add: mwf_def)

lemma mwf_mput [simp, intro]: "mwf m \<Longrightarrow> mwf (mput k v m)"
  unfolding mwf_def
proof (induction k v m rule: mput.induct)
  case (2 k v k' v' m)
  then show ?case using fst_mput [of k v m] by auto
qed simp

lemma mwf_filter [intro]: "mwf m \<Longrightarrow> mwf (filter P m)"
  by (induction m) (auto simp: mwf_def)

lemma mwf_mdel [simp, intro]: "mwf m \<Longrightarrow> mwf (mdel k m)"
  by (simp add: mdel_def mwf_filter)

lemma mwf_mkeep [simp, intro]: "mwf m \<Longrightarrow> mwf (mkeep P m)"
  by (simp add: mkeep_def mwf_filter)

lemma mwf_mmap [simp]: "mwf (mmap f m) = mwf m"
  by (simp add: mwf_def mmap_def comp_def case_prod_beta)

lemma mget_mkeep [gomap_simps]:
  "mwf m \<Longrightarrow> mget (mkeep P m) k = (case mget m k of None \<Rightarrow> None | Some v \<Rightarrow> if P k v then Some v else None)"
proof (induction m)
  case (Cons kv m)
  obtain k' v where kv: "kv = (k', v)" by (cases kv)
  from Cons.prems kv have notin: "k' \<notin> set (map fst m)" and wf: "mwf m"
    by (auto simp: mwf_def)
  from notin have "mget m k' = None"
    by (simp add: mget_def map_of_eq_None_iff)
  with Cons.IH [OF wf] kv show ?case by (auto simp: mkeep_def split: option.splits)
qed (simp add: mkeep_def)

lemma mget_mkeep_key [simp]:
  "mget (mkeep (\<lambda>k v. P k) m) k = (if P k then mget m k else None)"
  by (induction m) (auto simp: mkeep_def)

lemma mget_Some_in: "mget m k = Some v \<Longrightarrow> (k, v) \<in> set m"
  by (simp add: mget_def map_of_SomeD)

lemma mget_in_iff: "mwf m \<Longrightarrow> mget m k = Some v \<longleftrightarrow> (k, v) \<in> set m"
  by (auto simp: mwf_def mget_def)

lemma mget_None_iff: "mget m k = None \<longleftrightarrow> k \<notin> set (map fst m)"
  by (simp add: mget_def map_of_eq_None_iff)

lemma mget_key_in: "mget m k = Some v \<Longrightarrow> k \<in> set (mkeys m)"
  by (auto simp: mkeys_def dest: mget_Some_in intro: rev_image_eqI)

lemma mget_val_in: "mget m k = Some v \<Longrightarrow> v \<in> set (mvals m)"
  by (auto simp: mvals_def dest: mget_Some_in intro: rev_image_eqI)

lemma mvals_mget: "mwf m \<Longrightarrow> v \<in> set (mvals m) \<Longrightarrow> \<exists>k. mget m k = Some v"
  by (auto simp: mvals_def mget_in_iff)

lemma length_mput:
  "length (mput k v m) = (if k \<in> set (map fst m) then length m else Suc (length m))"
  by (induction k v m rule: mput.induct) auto

lemma length_mdel_le: "length (mdel k m) \<le> length m"
  by (simp add: mdel_def)

lemma length_mkeep_le: "length (mkeep P m) \<le> length m"
  by (simp add: mkeep_def)

lemma length_mmap [simp]: "length (mmap f m) = length m"
  by (simp add: mmap_def)

lemma mvals_mmap: "mvals (mmap f m) = map (\<lambda>(k, v). f k v) m"
  by (induction m) (auto simp: mvals_def mmap_def)

lemma zget_simps [simp]:
  "zget z (mput k v m) k' = (if k' = k then v else zget z m k')"
  "zget z (mdel k m) k' = (if k' = k then z else zget z m k')"
  "zget z [] k' = z"
  by (simp_all add: zget_def)

lemma zget_Some: "mget m k = Some v \<Longrightarrow> zget z m k = v"
  by (simp add: zget_def)

lemma zget_None: "mget m k = None \<Longrightarrow> zget z m k = z"
  by (simp add: zget_def)

text \<open>The contract of a Go map, over its lookup function.\<close>

locale go_map =
  fixes get :: "'m \<Rightarrow> 'k \<Rightarrow> 'v option"
    and put :: "'k \<Rightarrow> 'v \<Rightarrow> 'm \<Rightarrow> 'm"
    and del :: "'k \<Rightarrow> 'm \<Rightarrow> 'm"
    and wf :: "'m \<Rightarrow> bool"
  assumes get_put: "get (put k v m) = (get m)(k \<mapsto> v)"
    and get_del: "get (del k m) = (get m)(k := None)"
    and wf_put: "wf m \<Longrightarrow> wf (put k v m)"
    and wf_del: "wf m \<Longrightarrow> wf (del k m)"
begin

lemma get_fold_put:
  "distinct (map fst kvs) \<Longrightarrow> get (fold (\<lambda>(k, v). put k v) kvs m) = get m ++ map_of kvs"
proof (induction kvs arbitrary: m)
  case (Cons kv kvs)
  obtain k v where kv: "kv = (k, v)" by (cases kv)
  from Cons.prems kv have "map_of kvs k = None" and "distinct (map fst kvs)"
    by (auto simp: map_of_eq_None_iff)
  with Cons.IH kv show ?case
    by (auto simp: get_put fun_eq_iff map_add_def split: option.splits)
qed simp

lemma get_fold_del: "get (fold del ks m) k = (if k \<in> set ks then None else get m k)"
  by (induction ks arbitrary: m) (auto simp: get_del)

lemma wf_fold_put: "wf m \<Longrightarrow> wf (fold (\<lambda>(k, v). put k v) kvs m)"
  by (induction kvs arbitrary: m) (auto intro: wf_put)

lemma wf_fold_del: "wf m \<Longrightarrow> wf (fold del ks m)"
  by (induction ks arbitrary: m) (auto intro: wf_del)

end

interpretation alist_map: go_map mget mput mdel mwf
  by unfold_locales (auto simp: fun_eq_iff)

subsection \<open>Time\<close>

abbreviation "millisecond \<equiv> (1000000::int)"
abbreviation "second \<equiv> (1000000000::int)"
abbreviation "minute \<equiv> (60000000000::int)"
abbreviation "hour \<equiv> (3600000000000::int)"

definition IsZero :: "gotime \<Rightarrow> bool" where
  "IsZero t = (t = 0)"

text \<open>\<open>Time.Sub\<close> saturates at the ends of the 64-bit \<open>Duration\<close> range.\<close>

definition time_sub :: "gotime \<Rightarrow> gotime \<Rightarrow> duration" where
  "time_sub a b = max (- (2 ^ 63)) (min (2 ^ 63 - 1) (a - b))"

definition time_truncate :: "gotime \<Rightarrow> duration \<Rightarrow> gotime" where
  "time_truncate t d = (if d \<le> 0 then t else t - t mod d)"

text \<open>Seconds since the Unix epoch: the epoch is 62135596800 seconds after the zero time.\<close>

definition time_unix :: "gotime \<Rightarrow> int" where
  "time_unix t = t div second - 62135596800"

definition unix_nano :: "gotime \<Rightarrow> int" where
  "unix_nano t = t - 62135596800 * second"

lemma time_sub_le: "- (2 ^ 63) \<le> d \<Longrightarrow> d < 2 ^ 63 - 1 \<Longrightarrow> time_sub a b \<le> d \<longleftrightarrow> a - b \<le> d"
  by (auto simp: time_sub_def)

lemma time_sub_less: "- (2 ^ 63) < d \<Longrightarrow> d \<le> 2 ^ 63 - 1 \<Longrightarrow> time_sub a b < d \<longleftrightarrow> a - b < d"
  by (auto simp: time_sub_def)

lemma time_truncate_le: "time_truncate t d \<le> t"
  by (simp add: time_truncate_def)

lemma time_truncate_idem: "time_truncate (time_truncate t d) d = time_truncate t d"
  by (simp add: time_truncate_def)

subsection \<open>Strings\<close>

definition has_prefix :: "string \<Rightarrow> string \<Rightarrow> bool" where
  "has_prefix s p = (take (length p) s = p)"

definition has_suffix :: "string \<Rightarrow> string \<Rightarrow> bool" where
  "has_suffix s p = (length p \<le> length s \<and> drop (length s - length p) s = p)"

definition trim_prefix :: "string \<Rightarrow> string \<Rightarrow> string" where
  "trim_prefix s p = (if has_prefix s p then drop (length p) s else s)"

definition trim_suffix :: "string \<Rightarrow> string \<Rightarrow> string" where
  "trim_suffix s p = (if has_suffix s p then take (length s - length p) s else s)"

text \<open>\<open>strings.ToLower\<close> on ASCII letters; the sources apply it to host names.\<close>

definition to_lower_char :: "char \<Rightarrow> char" where
  "to_lower_char c = (let n = of_char c :: nat in if 65 \<le> n \<and> n \<le> 90 then char_of (n + 32) else c)"

definition to_lower :: "string \<Rightarrow> string" where
  "to_lower s = map to_lower_char s"

lemma has_prefix_append [simp]: "has_prefix (p @ s) p"
  by (simp add: has_prefix_def)

lemma has_prefix_iff: "has_prefix s p \<longleftrightarrow> (\<exists>t. s = p @ t)"
  by (metis append_take_drop_id has_prefix_append has_prefix_def)

lemma has_suffix_append [simp]: "has_suffix (s @ p) p"
  by (simp add: has_suffix_def)

lemma has_suffix_iff: "has_suffix s p \<longleftrightarrow> (\<exists>t. s = t @ p)"
  by (metis append_take_drop_id has_suffix_append has_suffix_def)

lemma trim_prefix_append [simp]: "trim_prefix (p @ s) p = s"
  by (simp add: trim_prefix_def)

text \<open>Decimal output and \<open>strconv.Atoi\<close> (an optional sign, digits, within 64 bits).\<close>

definition digit_char :: "nat \<Rightarrow> char" where
  "digit_char d = char_of (48 + d)"

fun nat_digits :: "nat \<Rightarrow> string" where
  "nat_digits n = (if n < 10 then [digit_char n] else nat_digits (n div 10) @ [digit_char (n mod 10)])"

declare nat_digits.simps [simp del]

definition Itoa :: "int \<Rightarrow> string" where
  "Itoa i = (if i < 0 then CHR ''-'' # nat_digits (nat (- i)) else nat_digits (nat i))"

definition digit_val :: "char \<Rightarrow> nat option" where
  "digit_val c = (let n = of_char c :: nat in if 48 \<le> n \<and> n \<le> 57 then Some (n - 48) else None)"

fun digits_val :: "nat \<Rightarrow> string \<Rightarrow> nat option" where
  "digits_val acc [] = Some acc"
| "digits_val acc (c # cs) =
     (case digit_val c of None \<Rightarrow> None | Some d \<Rightarrow> digits_val (10 * acc + d) cs)"

definition ParseInt :: "string \<Rightarrow> int option" where
  "ParseInt s =
     (let (neg, body) = (case s of [] \<Rightarrow> (False, []) | c # cs \<Rightarrow>
            if c = CHR ''-'' then (True, cs) else if c = CHR ''+'' then (False, cs) else (False, s))
      in if body = [] then None
         else case digits_val 0 body of
           None \<Rightarrow> None
         | Some n \<Rightarrow> (let v = (if neg then - int n else int n)
                     in if - (2 ^ 63) \<le> v \<and> v < 2 ^ 63 then Some v else None))"

lemma digits_val_append:
  "digits_val acc (xs @ ys) = (case digits_val acc xs of None \<Rightarrow> None | Some a \<Rightarrow> digits_val a ys)"
  by (induction acc xs rule: digits_val.induct) (auto split: option.splits)

lemma digit_val_digit_char: "d < 10 \<Longrightarrow> digit_val (digit_char d) = Some d"
  by (simp add: digit_val_def digit_char_def of_char_of)

lemma digits_val_nat_digits: "digits_val 0 (nat_digits n) = Some n"
proof (induction n rule: nat_digits.induct)
  case (1 n)
  show ?case
  proof (cases "n < 10")
    case True
    then show ?thesis by (simp add: nat_digits.simps [of n] digit_val_digit_char)
  next
    case False
    with 1 show ?thesis
      by (simp add: nat_digits.simps [of n] digits_val_append digit_val_digit_char)
  qed
qed

lemma nat_digits_head: "\<exists>c cs. nat_digits n = c # cs \<and> c \<noteq> CHR ''-'' \<and> c \<noteq> CHR ''+''"
proof (induction n rule: nat_digits.induct)
  case (1 n)
  show ?case
  proof (cases "n < 10")
    case True
    have "(of_char (digit_char n) :: nat) = 48 + n"
      using True by (simp add: digit_char_def of_char_of)
    then have "digit_char n \<noteq> CHR ''-'' \<and> digit_char n \<noteq> CHR ''+''"
      by (auto dest: arg_cong [where f = "of_char :: char \<Rightarrow> nat"])
    with True show ?thesis by (simp add: nat_digits.simps [of n])
  next
    case False
    with 1 show ?thesis by (auto simp: nat_digits.simps [of n])
  qed
qed

lemma digit_chars_nat_digits: "c \<in> set (nat_digits n) \<Longrightarrow> digit_val c \<noteq> None"
proof (induction n rule: nat_digits.induct)
  case (1 n)
  show ?case
  proof (cases "n < 10")
    case True
    with 1(2) show ?thesis by (simp add: nat_digits.simps [of n] digit_val_digit_char)
  next
    case False
    with 1 show ?thesis by (auto simp: nat_digits.simps [of n] digit_val_digit_char)
  qed
qed

lemma ParseInt_Itoa: "- (2 ^ 63) \<le> i \<Longrightarrow> i < 2 ^ 63 \<Longrightarrow> ParseInt (Itoa i) = Some i"
  using nat_digits_head [of "nat i"] nat_digits_head [of "nat (- i)"]
    digits_val_nat_digits [of "nat i"] digits_val_nat_digits [of "nat (- i)"]
  by (auto simp: ParseInt_def Itoa_def Let_def split: list.splits if_splits)

subsection \<open>Floating point\<close>

text \<open>
  \<open>float64\<close> values are rationals; every operation rounds its exact result to 53 significant
  bits, ties to even. The quantities the sources compute lie far inside the normal range.
\<close>

definition round_half_even :: "int \<Rightarrow> int \<Rightarrow> int" where
  "round_half_even n d =
     (let q = n div d; r = n mod d
      in if 2 * r < d \<or> (2 * r = d \<and> even q) then q else q + 1)"

definition f64_pos :: "int \<Rightarrow> int \<Rightarrow> rat" where
  "f64_pos n d =
     (let a = int (floorlog 2 (nat n)); b = int (floorlog 2 (nat d)); k = a - b;
          ge = (if 0 \<le> k then d * 2 ^ nat k \<le> n else d \<le> n * 2 ^ nat (- k));
          e = (if ge then k else k - 1) - 52
      in if 0 \<le> e then of_int (round_half_even n (d * 2 ^ nat e) * 2 ^ nat e)
         else of_int (round_half_even (n * 2 ^ nat (- e)) d) / of_int (2 ^ nat (- e)))"

text \<open>The rounded quotient of two integers with a positive divisor.\<close>

definition f64_frac :: "int \<Rightarrow> int \<Rightarrow> rat" where
  "f64_frac n d = (if n = 0 then 0 else if n < 0 then - f64_pos (- n) d else f64_pos n d)"

definition f64 :: "rat \<Rightarrow> rat" where
  "f64 x = f64_frac (fst (quotient_of x)) (snd (quotient_of x))"

lemma round_half_even_nonneg: "0 \<le> n \<Longrightarrow> 0 < d \<Longrightarrow> 0 \<le> round_half_even n d"
  by (auto simp: round_half_even_def Let_def pos_imp_zdiv_nonneg_iff add_nonneg_nonneg)

lemma f64_pos_nonneg: "0 \<le> n \<Longrightarrow> 0 < d \<Longrightarrow> 0 \<le> f64_pos n d"
  by (auto simp: f64_pos_def Let_def intro!: mult_nonneg_nonneg round_half_even_nonneg divide_nonneg_nonneg)

lemma f64_nonneg: "0 \<le> x \<Longrightarrow> 0 \<le> f64 x"
proof -
  assume x: "0 \<le> x"
  obtain n d where q: "quotient_of x = (n, d)" by (cases "quotient_of x")
  have d: "0 < d" using q by (rule quotient_of_denom_pos)
  have "x = of_int n / of_int d" using q by (rule quotient_of_div)
  with x d have "0 \<le> n" by (simp add: zero_le_divide_iff)
  with d show ?thesis by (simp add: f64_def f64_frac_def q f64_pos_nonneg)
qed

subsection \<open>Sorting\<close>

text \<open>
  \<open>sort.Slice\<close> with the comparison \<open>lt\<close>. The library sort is not stable; the sources use
  comparisons that are total on the elements they sort, where the result is unique.
\<close>

fun insert_by :: "('a \<Rightarrow> 'a \<Rightarrow> bool) \<Rightarrow> 'a \<Rightarrow> 'a list \<Rightarrow> 'a list" where
  "insert_by lt x [] = [x]"
| "insert_by lt x (y # ys) = (if lt y x then y # insert_by lt x ys else x # y # ys)"

definition sort_slice :: "('a \<Rightarrow> 'a \<Rightarrow> bool) \<Rightarrow> 'a list \<Rightarrow> 'a list" where
  "sort_slice lt xs = foldr (insert_by lt) xs []"

lemma mset_insert_by [simp]: "mset (insert_by lt x ys) = {#x#} + mset ys"
  by (induction ys) auto

lemma mset_sort_slice [simp]: "mset (sort_slice lt xs) = mset xs"
  by (induction xs) (auto simp: sort_slice_def)

lemma set_sort_slice [simp]: "set (sort_slice lt xs) = set xs"
  by (metis mset_sort_slice set_mset_mset)

lemma length_sort_slice [simp]: "length (sort_slice lt xs) = length xs"
  by (metis mset_sort_slice size_mset)

lemma sort_slice_Nil_iff [simp]: "sort_slice lt xs = [] \<longleftrightarrow> xs = []"
  by (metis length_0_conv length_sort_slice)

text \<open>The contract a comparison must meet: a strict order whose incomparability is transitive.\<close>

locale weak_order =
  fixes lt :: "'a \<Rightarrow> 'a \<Rightarrow> bool"
  assumes asym: "lt x y \<Longrightarrow> \<not> lt y x"
    and neg_trans: "\<not> lt x y \<Longrightarrow> \<not> lt y z \<Longrightarrow> \<not> lt x z"
begin

lemma sorted_insert_by:
  "sorted_wrt (\<lambda>x y. \<not> lt y x) ys \<Longrightarrow> sorted_wrt (\<lambda>x y. \<not> lt y x) (insert_by lt x ys)"
proof (induction ys)
  case (Cons y ys)
  show ?case
  proof (cases "lt y x")
    case True
    have "set (insert_by lt x ys) = insert x (set ys)"
      by (metis mset_insert_by set_mset_add_mset_insert set_mset_mset union_mset_add_mset_left add_mset_add_single union_commute)
    with Cons True show ?thesis by (auto dest: asym)
  next
    case False
    with Cons.prems show ?thesis by simp (blast dest: neg_trans)
  qed
qed simp

lemma sorted_sort_slice: "sorted_wrt (\<lambda>x y. \<not> lt y x) (sort_slice lt xs)"
  by (induction xs) (auto simp: sort_slice_def intro: sorted_insert_by)

lemma sort_slice_hd_min:
  assumes "xs \<noteq> []" and "y \<in> set xs"
  shows "\<not> lt y (hd (sort_slice lt xs))"
proof -
  obtain z zs where zs: "sort_slice lt xs = z # zs"
    using assms(1) by (cases "sort_slice lt xs") auto
  have "y \<in> set (z # zs)" using assms(2) zs by (metis set_sort_slice)
  then show ?thesis
    using sorted_sort_slice [of xs] zs asym [of z z] by auto
qed

end

locale strict_total = weak_order +
  assumes total: "x \<noteq> y \<Longrightarrow> lt x y \<or> lt y x"
begin

lemma sorted_unique:
  "sorted_wrt (\<lambda>x y. \<not> lt y x) xs \<Longrightarrow> sorted_wrt (\<lambda>x y. \<not> lt y x) ys \<Longrightarrow>
   mset xs = mset ys \<Longrightarrow> xs = ys"
proof (induction xs arbitrary: ys)
  case (Cons x xs)
  then obtain y ys' where ys: "ys = y # ys'" by (cases ys) auto
  have "x = y"
  proof (rule ccontr)
    assume ne: "x \<noteq> y"
    from Cons.prems(3) ys have "x \<in> set ys" and "y \<in> set (x # xs)"
      by (metis list.set_intros(1) mset_eq_setD)+
    with ne ys have "x \<in> set ys'" and "y \<in> set xs" by auto
    with Cons.prems ys have "\<not> lt x y" and "\<not> lt y x" by auto
    with ne total show False by blast
  qed
  with Cons ys show ?case by simp
qed simp

lemma sort_slice_perm: "mset xs = mset ys \<Longrightarrow> sort_slice lt xs = sort_slice lt ys"
  by (rule sorted_unique) (simp_all add: sorted_sort_slice)

end

lemma string_weak_order: "weak_order (\<lambda>x y. key x < (key y :: string))"
  by unfold_locales auto

interpretation string_order: strict_total "(<) :: string \<Rightarrow> string \<Rightarrow> bool"
  by unfold_locales auto

end
