(* ===== verification/Scheduler.thy ===== *)
theory Scheduler
  imports Prelude
begin

text \<open>
  The stream scheduler of the Gateway (\<open>internal/scheduler/scheduler.go\<close>): a pool of tunnel sessions,
  the selection of a session for a new stream, and the leases that account for active streams.

  Sessions are shared by pointer: the pool maps a session ID to the address of a session object,
  a lease keeps the address it was granted on, and replacing the session of an ID leaves the old
  object to its leases. The model therefore keeps an explicit heap of session objects. The
  multiplexer connection of a session is a handle of the \<open>smux\<close> package; whether it is closed
  is the argument \<open>isClosed\<close>.
\<close>

record sessionLoad =
  sl_writeNanos :: uint64
  sl_stalls :: uint64
  sl_lastStall :: int

record Session =
  ss_ID :: string
  ss_AgentID :: string
  ss_LinkID :: string
  ss_Priority :: int
  ss_Weight :: int
  ss_MaxStreams :: int
  ss_SMux :: "nat option"
  ss_Generation :: uint64
  ss_Ready :: bool
  ss_LastOK :: gotime
  ss_LastError :: string
  ss_RTTMillis :: rat
  ss_ProbeTimeouts :: uint64
  ss_ActiveStreams :: int
  ss_WriteBlockedMillis :: uint64
  ss_WriteStalls :: uint64
  ss_active :: int
  ss_load :: "sessionLoad option"

type_synonym addr = nat

record Pool =
  p_heap :: "addr \<Rightarrow> Session"
  p_sessions :: "addr gomap"

record Lease =
  le_Session :: addr
  le_released :: bool

abbreviation ErrNoPath :: error where
  "ErrNoPath \<equiv> ''no healthy path available''"

subsection \<open>Operations\<close>

definition set_obj :: "addr \<Rightarrow> Session \<Rightarrow> Pool \<Rightarrow> Pool" where
  "set_obj a s p = p\<lparr>p_heap := (p_heap p)(a := s)\<rparr>"

definition ObserveWrite :: "gotime \<Rightarrow> duration \<Rightarrow> Session \<Rightarrow> Session" where
  "ObserveWrite now d s =
     (case ss_load s of
        None \<Rightarrow> s
      | Some l \<Rightarrow>
          if d \<ge> 20 * millisecond
          then s\<lparr>ss_load := Some \<lparr>sl_writeNanos = sl_writeNanos l + word_of_int d,
                 sl_stalls = sl_stalls l + 1, sl_lastStall = unix_nano now\<rparr>\<rparr>
          else s)"

definition NewPool :: "(addr \<Rightarrow> Session) \<Rightarrow> Pool" where
  "NewPool h = \<lparr>p_heap = h, p_sessions = []\<rparr>"

definition normalize_session :: "Session \<Rightarrow> Session" where
  "normalize_session s =
     (let s1 = (if ss_Weight s \<le> 0 then s\<lparr>ss_Weight := 1\<rparr> else s);
          s2 = (if ss_MaxStreams s1 \<le> 0 then s1\<lparr>ss_MaxStreams := 1\<rparr> else s1)
      in if ss_load s2 = None
         then s2\<lparr>ss_load := Some \<lparr>sl_writeNanos = 0, sl_stalls = 0, sl_lastStall = 0\<rparr>\<rparr> else s2)"

definition Add :: "addr \<Rightarrow> Pool \<Rightarrow> addr option \<times> Pool" where
  "Add a p =
     (let s = normalize_session (p_heap p a)
      in (mget (p_sessions p) (ss_ID s),
          (set_obj a s p)\<lparr>p_sessions := mput (ss_ID s) a (p_sessions p)\<rparr>))"

definition Remove :: "string \<Rightarrow> addr option \<Rightarrow> Pool \<Rightarrow> Pool" where
  "Remove i expected p =
     (if mget (p_sessions p) i = expected then p\<lparr>p_sessions := mdel i (p_sessions p)\<rparr> else p)"

definition UpdatePolicy :: "string \<Rightarrow> string \<Rightarrow> int \<Rightarrow> int \<Rightarrow> int \<Rightarrow> Pool \<Rightarrow> Pool" where
  "UpdatePolicy linkID agentID priority weight maxStreams p =
     (let w = (if weight \<le> 0 then 1 else weight); m = (if maxStreams \<le> 0 then 1 else maxStreams)
      in fold (\<lambda>a p. let s = p_heap p a in
            if ss_LinkID s = linkID \<and> ss_AgentID s = agentID
            then set_obj a (s\<lparr>ss_Priority := priority, ss_Weight := w, ss_MaxStreams := m\<rparr>) p
            else p) (mvals (p_sessions p)) p)"

definition SetReady :: "gotime \<Rightarrow> string \<Rightarrow> bool \<Rightarrow> string \<Rightarrow> Pool \<Rightarrow> Pool" where
  "SetReady now i ready err p =
     (case mget (p_sessions p) i of
        None \<Rightarrow> p
      | Some a \<Rightarrow>
          (let s = (p_heap p a)\<lparr>ss_Ready := ready, ss_LastError := err\<rparr>
           in set_obj a (if ready then s\<lparr>ss_LastOK := now\<rparr> else s) p))"

text \<open>\<open>Duration.Microseconds\<close> truncates towards zero; round trips are not negative.\<close>

definition measurement :: "duration \<Rightarrow> rat" where
  "measurement rtt = f64 (of_int (sgn rtt * (\<bar>rtt\<bar> div 1000)) / 1000)"

definition smooth :: "rat \<Rightarrow> rat \<Rightarrow> rat" where
  "smooth old m = f64 (f64 (old * f64 (4 / 5)) + f64 (m * f64 (1 / 5)))"

definition probe_session :: "gotime \<Rightarrow> duration \<Rightarrow> error option \<Rightarrow> Session \<Rightarrow> Session" where
  "probe_session now rtt err s =
     (case err of
        Some e \<Rightarrow>
          (let s1 = s\<lparr>ss_ProbeTimeouts := ss_ProbeTimeouts s + 1, ss_LastError := e\<rparr>
           in if ss_ProbeTimeouts s1 \<ge> 3 then s1\<lparr>ss_Ready := False\<rparr> else s1)
      | None \<Rightarrow>
          (let m = measurement rtt
           in s\<lparr>ss_RTTMillis := (if ss_RTTMillis s = 0 then m else smooth (ss_RTTMillis s) m),
                ss_ProbeTimeouts := 0, ss_Ready := True, ss_LastError := '''', ss_LastOK := now\<rparr>))"

definition UpdateProbe :: "gotime \<Rightarrow> addr option \<Rightarrow> duration \<Rightarrow> error option \<Rightarrow> Pool \<Rightarrow> Pool" where
  "UpdateProbe now expected rtt err p =
     (case expected of
        None \<Rightarrow> p
      | Some a \<Rightarrow>
          if mget (p_sessions p) (ss_ID (p_heap p a)) \<noteq> Some a then p
          else set_obj a (probe_session now rtt err (p_heap p a)) p)"

definition Release :: "Lease \<Rightarrow> Pool \<Rightarrow> Lease \<times> Pool" where
  "Release l p =
     (if le_released l then (l, p)
      else (let a = le_Session l; s = p_heap p a
            in (l\<lparr>le_released := True\<rparr>, set_obj a (s\<lparr>ss_active := ss_active s - 1\<rparr>) p)))"

definition loadScore :: "gotime \<Rightarrow> Session \<Rightarrow> rat" where
  "loadScore now s =
     (let penalty = (case ss_load s of
            None \<Rightarrow> 0
          | Some l \<Rightarrow> if sl_lastStall l > 0 \<and> unix_nano now - sl_lastStall l < 5 * second then 1 else 0)
      in f64_frac (ss_active s + 1 + penalty) (ss_Weight s))"

definition eligible :: "(nat \<Rightarrow> bool) \<Rightarrow> string \<Rightarrow> bool gomap option \<Rightarrow> Session \<Rightarrow> bool" where
  "eligible isClosed agentID allowed s =
     (\<not> (ss_AgentID s \<noteq> agentID
         \<or> (case allowed of None \<Rightarrow> False | Some m \<Rightarrow> \<not> zget False m (ss_LinkID s))
         \<or> \<not> ss_Ready s
         \<or> (case ss_SMux s of None \<Rightarrow> True | Some c \<Rightarrow> isClosed c)
         \<or> ss_active s \<ge> ss_MaxStreams s))"

text \<open>One pass over the pool keeps the eligible sessions of the best priority seen so far.\<close>

fun scan :: "(Session \<Rightarrow> bool) \<Rightarrow> (addr \<Rightarrow> Session) \<Rightarrow> addr list \<Rightarrow> int \<Rightarrow> addr list \<Rightarrow> int \<times> addr list" where
  "scan ok h [] priority candidates = (priority, candidates)"
| "scan ok h (a # as) priority candidates =
     (if \<not> ok (h a) then scan ok h as priority candidates
      else (let (priority, candidates) =
                  (if ss_Priority (h a) < priority then (ss_Priority (h a), []) else (priority, candidates))
            in scan ok h as priority
                 (if ss_Priority (h a) = priority then candidates @ [a] else candidates)))"

definition session_less :: "gotime \<Rightarrow> (addr \<Rightarrow> Session) \<Rightarrow> addr \<Rightarrow> addr \<Rightarrow> bool" where
  "session_less now h i j =
     (let left = loadScore now (h i); right = loadScore now (h j)
      in if left = right then ss_ID (h i) < ss_ID (h j) else left < right)"

abbreviation "max_int \<equiv> (2 ^ 63 - 1 :: int)"

definition AcquireLinks ::
  "(nat \<Rightarrow> bool) \<Rightarrow> gotime \<Rightarrow> string \<Rightarrow> bool gomap option \<Rightarrow> Pool \<Rightarrow> error + (Lease \<times> Pool)" where
  "AcquireLinks isClosed now agentID allowed p =
     (let (priority, candidates) =
            scan (eligible isClosed agentID allowed) (p_heap p) (mvals (p_sessions p)) max_int []
      in if candidates = [] then Inl ErrNoPath
         else (let chosen = hd (sort_slice (session_less now (p_heap p)) candidates);
                   s = p_heap p chosen
               in Inr (\<lparr>le_Session = chosen, le_released = False\<rparr>,
                       set_obj chosen (s\<lparr>ss_active := ss_active s + 1\<rparr>) p)))"

definition Acquire :: "(nat \<Rightarrow> bool) \<Rightarrow> gotime \<Rightarrow> string \<Rightarrow> Pool \<Rightarrow> error + (Lease \<times> Pool)" where
  "Acquire isClosed now agentID p = AcquireLinks isClosed now agentID None p"

definition Snapshot :: "Pool \<Rightarrow> Session list" where
  "Snapshot p =
     map (\<lambda>a. let s = p_heap p a; c = s\<lparr>ss_ActiveStreams := ss_active s\<rparr>
              in case ss_load s of
                   None \<Rightarrow> c
                 | Some l \<Rightarrow> c\<lparr>ss_WriteBlockedMillis := sl_writeNanos l div 1000000,
                              ss_WriteStalls := sl_stalls l\<rparr>) (mvals (p_sessions p))"

subsection \<open>Selection\<close>

lemma scan_filter:
  "scan ok h as priority candidates = scan (\<lambda>_. True) h (filter (\<lambda>a. ok (h a)) as) priority candidates"
  by (induction ok h as priority candidates rule: scan.induct) (auto simp: Let_def)

definition best_priority :: "(addr \<Rightarrow> Session) \<Rightarrow> addr list \<Rightarrow> int \<Rightarrow> int" where
  "best_priority h as priority = Min (insert priority (ss_Priority ` h ` set as))"

lemma best_priority_Cons:
  "best_priority h (a # as) priority = best_priority h as (min (ss_Priority (h a)) priority)"
  unfolding best_priority_def
  by (cases "as = []") (auto simp: Min_insert2 min.assoc min.left_commute min.commute)

text \<open>The pass returns the entries of least priority, in visiting order.\<close>

lemma scan_True:
  assumes "\<forall>c\<in>set candidates. ss_Priority (h c) = priority"
  shows "scan (\<lambda>_. True) h as priority candidates =
    (let b = best_priority h as priority
     in (b, filter (\<lambda>a. ss_Priority (h a) = b) (candidates @ as)))"
  using assms
proof (induction as arbitrary: priority candidates)
  case Nil
  then show ?case by (auto simp: best_priority_def Let_def)
next
  case (Cons a as)
  let ?p = "ss_Priority (h a)"
  have le: "best_priority h as (min ?p priority) \<le> min ?p priority"
    unfolding best_priority_def by (rule Min_le) auto
  show ?case
  proof (cases "?p < priority")
    case True
    have "filter (\<lambda>x. ss_Priority (h x) = best_priority h as ?p) candidates = []"
      using Cons.prems True le by (auto simp: filter_empty_conv)
    with True Cons.IH [of "[a]" ?p] show ?thesis
      by (simp add: best_priority_Cons Let_def)
  next
    case False
    then have m: "min ?p priority = priority" by simp
    show ?thesis
    proof (cases "?p = priority")
      case True
      with Cons.prems Cons.IH [of "candidates @ [a]" priority] show ?thesis
        by (simp add: best_priority_Cons Let_def)
    next
      case neq: False
      with False le m have "?p \<noteq> best_priority h as priority" by simp
      with neq False Cons.prems Cons.IH [of candidates priority] m show ?thesis
        by (simp add: best_priority_Cons Let_def)
    qed
  qed
qed

lemma scan_eq:
  "scan ok h as priority [] =
    (let es = filter (\<lambda>a. ok (h a)) as; b = best_priority h es priority
     in (b, filter (\<lambda>a. ss_Priority (h a) = b) es))"
  by (subst scan_filter, subst scan_True) (simp_all add: Let_def)

lemma session_less_weak: "weak_order (session_less now h)"
  by unfold_locales (auto simp: session_less_def Let_def split: if_splits)

text \<open>The pool's bookkeeping: distinct keys, and every object registered under its own ID.\<close>

definition pool_wf :: "Pool \<Rightarrow> bool" where
  "pool_wf p =
     (mwf (p_sessions p) \<and>
      (\<forall>(i, a)\<in>set (p_sessions p). ss_ID (p_heap p a) = i \<and> 0 < ss_Weight (p_heap p a) \<and>
         0 < ss_MaxStreams (p_heap p a) \<and> ss_Priority (p_heap p a) \<le> max_int))"

definition registered :: "Pool \<Rightarrow> addr set" where
  "registered p = set (mvals (p_sessions p))"

lemma registered_iff:
  assumes "pool_wf p"
  shows "a \<in> registered p \<longleftrightarrow> mget (p_sessions p) (ss_ID (p_heap p a)) = Some a"
proof
  assume "a \<in> registered p"
  then obtain i where "(i, a) \<in> set (p_sessions p)"
    by (auto simp: registered_def mvals_def)
  moreover from this assms have "ss_ID (p_heap p a) = i"
    by (auto simp: pool_wf_def)
  ultimately show "mget (p_sessions p) (ss_ID (p_heap p a)) = Some a"
    using assms by (simp add: mget_in_iff pool_wf_def)
qed (simp add: registered_def mget_val_in)

lemma registered_inj:
  assumes "pool_wf p" "a \<in> registered p" "b \<in> registered p" "ss_ID (p_heap p a) = ss_ID (p_heap p b)"
  shows "a = b"
  using assms registered_iff [of p a] registered_iff [of p b] by simp

lemma registered_wf:
  assumes "pool_wf p" "a \<in> registered p"
  shows "0 < ss_Weight (p_heap p a)" "0 < ss_MaxStreams (p_heap p a)" "ss_Priority (p_heap p a) \<le> max_int"
  using assms by (fastforce simp: pool_wf_def registered_def mvals_def)+

definition candidates_of ::
  "(nat \<Rightarrow> bool) \<Rightarrow> string \<Rightarrow> bool gomap option \<Rightarrow> Pool \<Rightarrow> addr list" where
  "candidates_of isClosed agentID allowed p =
     snd (scan (eligible isClosed agentID allowed) (p_heap p) (mvals (p_sessions p)) max_int [])"

lemma candidates_of_iff:
  assumes wf: "pool_wf p"
  shows "a \<in> set (candidates_of isClosed agentID allowed p) \<longleftrightarrow>
    a \<in> registered p \<and> eligible isClosed agentID allowed (p_heap p a) \<and>
    (\<forall>b\<in>registered p. eligible isClosed agentID allowed (p_heap p b) \<longrightarrow>
       ss_Priority (p_heap p a) \<le> ss_Priority (p_heap p b))" (is "?L \<longleftrightarrow> ?R")
proof -
  let ?es = "filter (\<lambda>a. eligible isClosed agentID allowed (p_heap p a)) (mvals (p_sessions p))"
  let ?b = "best_priority (p_heap p) ?es max_int"
  have L: "?L \<longleftrightarrow> a \<in> set ?es \<and> ss_Priority (p_heap p a) = ?b"
    by (auto simp: candidates_of_def scan_eq Let_def)
  have es: "x \<in> set ?es \<longleftrightarrow> x \<in> registered p \<and> eligible isClosed agentID allowed (p_heap p x)" for x
    by (auto simp: registered_def)
  have "ss_Priority (p_heap p a) = ?b \<longleftrightarrow> (\<forall>b\<in>set ?es. ss_Priority (p_heap p a) \<le> ss_Priority (p_heap p b))"
    if a: "a \<in> set ?es"
  proof
    assume "ss_Priority (p_heap p a) = ?b"
    then show "\<forall>b\<in>set ?es. ss_Priority (p_heap p a) \<le> ss_Priority (p_heap p b)"
      by (auto simp: best_priority_def intro!: Min_le)
  next
    assume min: "\<forall>b\<in>set ?es. ss_Priority (p_heap p a) \<le> ss_Priority (p_heap p b)"
    have "ss_Priority (p_heap p a) \<le> max_int"
      using wf a es registered_wf(3) by blast
    then show "ss_Priority (p_heap p a) = ?b"
      unfolding best_priority_def using min a
      by (intro Min_eqI [symmetric]) auto
  qed
  with L es show ?thesis by blast
qed

lemma AcquireLinks_eq:
  "AcquireLinks isClosed now agentID allowed p =
     (let cs = candidates_of isClosed agentID allowed p
      in if cs = [] then Inl ErrNoPath
         else (let chosen = hd (sort_slice (session_less now (p_heap p)) cs); s = p_heap p chosen
               in Inr (\<lparr>le_Session = chosen, le_released = False\<rparr>,
                       set_obj chosen (s\<lparr>ss_active := ss_active s + 1\<rparr>) p)))"
  by (simp add: AcquireLinks_def candidates_of_def case_prod_beta Let_def)

lemma chosen_in:
  assumes "cs \<noteq> []"
  shows "hd (sort_slice (session_less now h) cs) \<in> set cs"
  using assms hd_in_set [of "sort_slice (session_less now h) cs"] by simp

lemma eligible_exists_min:
  assumes "pool_wf p" "a \<in> registered p" "eligible isClosed agentID allowed (p_heap p a)"
  shows "candidates_of isClosed agentID allowed p \<noteq> []"
proof -
  let ?E = "{b \<in> registered p. eligible isClosed agentID allowed (p_heap p b)}"
  have "finite ?E" "?E \<noteq> {}"
    using assms by (auto simp: registered_def)
  then obtain b where "is_arg_min (\<lambda>x. ss_Priority (p_heap p x)) (\<lambda>x. x \<in> ?E) b"
    using ex_is_arg_min_if_finite [of ?E "\<lambda>x. ss_Priority (p_heap p x)"] by blast
  then have "b \<in> ?E" "\<forall>c\<in>?E. ss_Priority (p_heap p b) \<le> ss_Priority (p_heap p c)"
    by (auto simp: is_arg_min_linorder)
  then have "b \<in> set (candidates_of isClosed agentID allowed p)"
    using assms(1) by (simp add: candidates_of_iff)
  then show ?thesis by auto
qed

text \<open>
  C12. A successful \<open>AcquireLinks\<close> returns a fresh lease on a registered session that serves the Agent
  over an allowed Link, is ready, open and below its stream limit. Among all eligible sessions it
  has the least priority value and, within that priority, no session precedes it by load score
  and ID. Only the active-stream count of that session changes, by one, and stays within its limit.
\<close>

theorem AcquireLinks_selects:
  assumes wf: "pool_wf p" and ok: "AcquireLinks isClosed now agentID allowed p = Inr (l, p')"
  shows "let a = le_Session l; s = p_heap p a in
    a \<in> registered p \<and> \<not> le_released l \<and> eligible isClosed agentID allowed s \<and>
    (\<forall>b\<in>registered p. eligible isClosed agentID allowed (p_heap p b) \<longrightarrow>
       ss_Priority s < ss_Priority (p_heap p b) \<or>
       ss_Priority s = ss_Priority (p_heap p b) \<and> \<not> session_less now (p_heap p) b a) \<and>
    p' = set_obj a (s\<lparr>ss_active := ss_active s + 1\<rparr>) p \<and>
    ss_active (p_heap p' a) \<le> ss_MaxStreams (p_heap p' a)"
proof -
  let ?cs = "candidates_of isClosed agentID allowed p"
  have ne: "?cs \<noteq> []" using ok by (auto simp: AcquireLinks_eq Let_def split: if_splits)
  define a where "a = hd (sort_slice (session_less now (p_heap p)) ?cs)"
  have l: "le_Session l = a" "\<not> le_released l"
    and p': "p' = set_obj a ((p_heap p a)\<lparr>ss_active := ss_active (p_heap p a) + 1\<rparr>) p"
    using ok ne by (auto simp: AcquireLinks_eq Let_def a_def)
  have a: "a \<in> set ?cs" unfolding a_def using ne by (rule chosen_in)
  then have R: "a \<in> registered p" "eligible isClosed agentID allowed (p_heap p a)"
    and pri: "\<forall>b\<in>registered p. eligible isClosed agentID allowed (p_heap p b) \<longrightarrow>
       ss_Priority (p_heap p a) \<le> ss_Priority (p_heap p b)"
    using wf by (auto simp: candidates_of_iff)
  have best: "\<not> session_less now (p_heap p) b a"
    if "b \<in> registered p" "eligible isClosed agentID allowed (p_heap p b)"
      "ss_Priority (p_heap p a) = ss_Priority (p_heap p b)" for b
  proof -
    have "b \<in> set ?cs" using wf that pri by (simp add: candidates_of_iff)
    then show ?thesis
      unfolding a_def by (rule weak_order.sort_slice_hd_min [OF session_less_weak ne])
  qed
  show ?thesis
    using l p' R pri best by (auto simp: Let_def set_obj_def eligible_def order.order_iff_strict)
qed

text \<open>
  \<open>AcquireLinks\<close> fails exactly when no registered session is eligible, and then with \<open>ErrNoPath\<close>.
\<close>

theorem AcquireLinks_fails_iff:
  assumes "pool_wf p"
  shows "AcquireLinks isClosed now agentID allowed p = Inl e \<longleftrightarrow>
    e = ErrNoPath \<and> (\<forall>a\<in>registered p. \<not> eligible isClosed agentID allowed (p_heap p a))"
proof -
  have "candidates_of isClosed agentID allowed p = [] \<longleftrightarrow>
    (\<forall>a\<in>registered p. \<not> eligible isClosed agentID allowed (p_heap p a))"
    (is "?cs = [] \<longleftrightarrow> ?none")
  proof
    assume ?none
    then have "x \<notin> set ?cs" for x using assms by (simp add: candidates_of_iff)
    then show "?cs = []" by (cases ?cs) auto
  qed (use assms eligible_exists_min in blast)
  then show ?thesis by (auto simp: AcquireLinks_eq Let_def)
qed

text \<open>
  The outcome of \<open>AcquireLinks\<close> does not depend on the order in which Go visits the entries of
  the session map: two pools that hold the same entries, listed in any order, give the same
  error or the same lease on the same session.
\<close>

theorem AcquireLinks_order_independent:
  assumes wf: "pool_wf p" and perm: "mset ss = mset (p_sessions p)"
  shows "map_sum id fst (AcquireLinks isClosed now agentID allowed (p\<lparr>p_sessions := ss\<rparr>)) =
    map_sum id fst (AcquireLinks isClosed now agentID allowed p)"
proof -
  let ?q = "p\<lparr>p_sessions := ss\<rparr>"
  let ?cs = "\<lambda>p. candidates_of isClosed agentID allowed p"
  have set_eq: "set ss = set (p_sessions p)" using perm by (rule mset_eq_setD)
  have "mset (map fst ss) = mset (map fst (p_sessions p))" using perm by simp
  then have "distinct (map fst ss) \<longleftrightarrow> distinct (map fst (p_sessions p))"
    by (rule mset_eq_imp_distinct_iff)
  then have d: "mwf ss" using wf by (simp add: pool_wf_def mwf_def)
  with set_eq have wf': "pool_wf ?q" and reg: "registered ?q = registered p"
    using wf by (auto simp: pool_wf_def registered_def mvals_def)
  have cs: "set (?cs ?q) = set (?cs p)"
    using candidates_of_iff [OF wf] candidates_of_iff [OF wf'] reg by auto
  define a where "a = hd (sort_slice (session_less now (p_heap p)) (?cs p))"
  define b where "b = hd (sort_slice (session_less now (p_heap p)) (?cs ?q))"
  have "a = b" if ne: "?cs p \<noteq> []"
  proof -
    from cs ne have ne': "?cs ?q \<noteq> []" by (metis set_empty)
    have a: "a \<in> set (?cs p)" unfolding a_def using ne by (rule chosen_in)
    have b: "b \<in> set (?cs p)" unfolding b_def cs [symmetric] using ne' by (rule chosen_in)
    have "\<not> session_less now (p_heap p) a b" "\<not> session_less now (p_heap p) b a"
      using a b cs weak_order.sort_slice_hd_min [OF session_less_weak ne] 
        weak_order.sort_slice_hd_min [OF session_less_weak ne']
      unfolding a_def b_def by blast+
    then have "ss_ID (p_heap p a) = ss_ID (p_heap p b)"
      by (auto simp: session_less_def Let_def split: if_splits)
    moreover have "a \<in> registered p" "b \<in> registered p"
      using a b candidates_of_iff [OF wf] by blast+
    ultimately show ?thesis using registered_inj [OF wf] by blast
  qed
  moreover have "?cs ?q = [] \<longleftrightarrow> ?cs p = []" using cs by (metis set_empty)
  ultimately show ?thesis by (simp add: AcquireLinks_eq Let_def a_def b_def)
qed

subsection \<open>Lease accounting\<close>

text \<open>
  The pool together with every lease ever granted. A step is one call on the pool, at any time
  and by any caller, as the pool's mutex serialises them; \<open>alloc\<close> is the construction of a
  session object that no lease refers to yet.
\<close>

record Sched =
  sc_pool :: Pool
  sc_leases :: "Lease list"

inductive sched_step :: "(nat \<Rightarrow> bool) \<Rightarrow> Sched \<Rightarrow> Sched \<Rightarrow> bool" for isClosed where
  alloc: "a \<notin> registered (sc_pool x) \<Longrightarrow> a \<notin> le_Session ` set (sc_leases x) \<Longrightarrow> ss_active s = 0 \<Longrightarrow>
    ss_Priority s \<le> max_int \<Longrightarrow> sched_step isClosed x (x\<lparr>sc_pool := set_obj a s (sc_pool x)\<rparr>)"
| add: "a \<notin> registered (sc_pool x) \<Longrightarrow> ss_Priority (p_heap (sc_pool x) a) \<le> max_int \<Longrightarrow>
    sched_step isClosed x (x\<lparr>sc_pool := snd (Add a (sc_pool x))\<rparr>)"
| remove: "sched_step isClosed x (x\<lparr>sc_pool := Remove i expected (sc_pool x)\<rparr>)"
| policy: "priority \<le> max_int \<Longrightarrow>
    sched_step isClosed x (x\<lparr>sc_pool := UpdatePolicy linkID agentID priority weight maxStreams (sc_pool x)\<rparr>)"
| ready: "sched_step isClosed x (x\<lparr>sc_pool := SetReady now i r err (sc_pool x)\<rparr>)"
| probe: "sched_step isClosed x (x\<lparr>sc_pool := UpdateProbe now expected rtt perr (sc_pool x)\<rparr>)"
| observe: "sched_step isClosed x
    (x\<lparr>sc_pool := set_obj a (ObserveWrite now d (p_heap (sc_pool x) a)) (sc_pool x)\<rparr>)"
| acquire: "AcquireLinks isClosed now agentID allowed (sc_pool x) = Inr (l, p') \<Longrightarrow>
    sched_step isClosed x (x\<lparr>sc_pool := p', sc_leases := sc_leases x @ [l]\<rparr>)"
| release: "i < length (sc_leases x) \<Longrightarrow> Release (sc_leases x ! i) (sc_pool x) = (l', p') \<Longrightarrow>
    sched_step isClosed x (x\<lparr>sc_pool := p', sc_leases := (sc_leases x)[i := l']\<rparr>)"

inductive sched_reachable :: "(nat \<Rightarrow> bool) \<Rightarrow> Sched \<Rightarrow> bool" for isClosed where
  start: "\<forall>a. ss_active (h a) = 0 \<Longrightarrow> sched_reachable isClosed \<lparr>sc_pool = NewPool h, sc_leases = []\<rparr>"
| step: "sched_reachable isClosed x \<Longrightarrow> sched_step isClosed x y \<Longrightarrow> sched_reachable isClosed y"

definition outstanding :: "Lease list \<Rightarrow> addr \<Rightarrow> nat" where
  "outstanding ls a = length (filter (\<lambda>l. le_Session l = a \<and> \<not> le_released l) ls)"

definition sched_inv :: "Sched \<Rightarrow> bool" where
  "sched_inv x = (pool_wf (sc_pool x) \<and>
     (\<forall>a. ss_active (p_heap (sc_pool x) a) = int (outstanding (sc_leases x) a)))"

text \<open>Rewriting an object in place keeps the pool well formed when identity and bounds are kept.\<close>

lemma pool_wf_set_obj:
  assumes "pool_wf p"
    and "a \<in> registered p \<Longrightarrow> ss_ID s = ss_ID (p_heap p a) \<and> 0 < ss_Weight s \<and> 0 < ss_MaxStreams s \<and>
      ss_Priority s \<le> max_int"
  shows "pool_wf (set_obj a s p)"
  unfolding pool_wf_def
proof (intro conjI ballI, goal_cases)
  case 1
  show ?case using assms(1) by (simp add: pool_wf_def set_obj_def)
next
  case (2 e)
  obtain i b where e: "e = (i, b)" by (cases e)
  with 2 have b: "b \<in> registered p" and "(i, b) \<in> set (p_sessions p)"
    by (auto simp: set_obj_def registered_def mvals_def intro: rev_image_eqI)
  with assms show ?case
    by (cases "b = a") (auto simp: e set_obj_def pool_wf_def)
qed

lemma heap_set_obj [simp]: "p_heap (set_obj a s p) = (p_heap p)(a := s)"
  and sessions_set_obj [simp]: "p_sessions (set_obj a s p) = p_sessions p"
  and registered_set_obj [simp]: "registered (set_obj a s p) = registered p"
  by (simp_all add: set_obj_def registered_def)

lemma normalize_session_fields [simp]:
  "ss_ID (normalize_session s) = ss_ID s" "ss_active (normalize_session s) = ss_active s"
  "ss_Priority (normalize_session s) = ss_Priority s"
  "0 < ss_Weight (normalize_session s)" "0 < ss_MaxStreams (normalize_session s)"
  by (auto simp: normalize_session_def Let_def)

lemma ObserveWrite_fields [simp]:
  "ss_ID (ObserveWrite now d s) = ss_ID s" "ss_active (ObserveWrite now d s) = ss_active s"
  "ss_Priority (ObserveWrite now d s) = ss_Priority s" "ss_Weight (ObserveWrite now d s) = ss_Weight s"
  "ss_MaxStreams (ObserveWrite now d s) = ss_MaxStreams s"
  by (auto simp: ObserveWrite_def split: option.splits)

lemma probe_session_fields [simp]:
  "ss_ID (probe_session now rtt e s) = ss_ID s" "ss_active (probe_session now rtt e s) = ss_active s"
  "ss_Priority (probe_session now rtt e s) = ss_Priority s"
  "ss_Weight (probe_session now rtt e s) = ss_Weight s"
  "ss_MaxStreams (probe_session now rtt e s) = ss_MaxStreams s"
  by (auto simp: probe_session_def Let_def split: option.splits)

lemma pool_wf_Add:
  assumes wf: "pool_wf p" and new: "a \<notin> registered p" "ss_Priority (p_heap p a) \<le> max_int"
  shows "pool_wf (snd (Add a p))"
  unfolding pool_wf_def
proof (intro conjI ballI, goal_cases)
  case 1
  show ?case using wf by (simp add: Add_def Let_def pool_wf_def)
next
  case (2 e)
  obtain i b where e: "e = (i, b)" by (cases e)
  let ?i = "ss_ID (p_heap p a)"
  have "mwf (mput ?i a (p_sessions p))" using wf by (simp add: pool_wf_def)
  moreover have "(i, b) \<in> set (mput ?i a (p_sessions p))"
    using 2 e by (simp add: Add_def Let_def)
  ultimately have "mget (mput ?i a (p_sessions p)) i = Some b"
    by (rule mget_in_iff [THEN iffD2])
  then consider "i = ?i" "b = a" | "mget (p_sessions p) i = Some b" "b \<noteq> a"
    using new(1) mget_val_in [of "p_sessions p" i b] by (fastforce simp: registered_def split: if_splits)
  then show ?case
  proof cases
    case 1
    with new show ?thesis by (simp add: e Add_def Let_def)
  next
    case 2
    with wf show ?thesis by (auto simp: e Add_def Let_def pool_wf_def dest!: mget_Some_in)
  qed
qed

lemma pool_wf_Remove: "pool_wf p \<Longrightarrow> pool_wf (Remove i e p)"
  by (auto simp: pool_wf_def Remove_def mdel_def mwf_filter)

definition policy_obj :: "string \<Rightarrow> string \<Rightarrow> int \<Rightarrow> int \<Rightarrow> int \<Rightarrow> Session \<Rightarrow> Session" where
  "policy_obj linkID agentID priority w m s =
     (if ss_LinkID s = linkID \<and> ss_AgentID s = agentID
      then s\<lparr>ss_Priority := priority, ss_Weight := w, ss_MaxStreams := m\<rparr> else s)"

lemma policy_obj_fields [simp]:
  "ss_ID (policy_obj l ag pr w m s) = ss_ID s" "ss_active (policy_obj l ag pr w m s) = ss_active s"
  by (auto simp: policy_obj_def)

lemma UpdatePolicy_eq:
  "UpdatePolicy linkID agentID priority weight maxStreams p =
     fold (\<lambda>a p. set_obj a (policy_obj linkID agentID priority (if weight \<le> 0 then 1 else weight)
       (if maxStreams \<le> 0 then 1 else maxStreams) (p_heap p a)) p) (mvals (p_sessions p)) p"
  unfolding UpdatePolicy_def Let_def
  by (rule fold_cong) (auto simp: policy_obj_def set_obj_def)

lemma fold_set_obj_wf:
  assumes "pool_wf p" and "\<And>s. ss_ID (f s) = ss_ID s"
    and "\<And>s. 0 < ss_Weight s \<Longrightarrow> 0 < ss_Weight (f s)" "\<And>s. 0 < ss_MaxStreams s \<Longrightarrow> 0 < ss_MaxStreams (f s)"
    and "\<And>s. ss_Priority s \<le> max_int \<Longrightarrow> ss_Priority (f s) \<le> max_int"
  shows "pool_wf (fold (\<lambda>a p. set_obj a (f (p_heap p a)) p) as p)"
  using assms(1)
proof (induction as arbitrary: p)
  case (Cons a as)
  have "pool_wf (set_obj a (f (p_heap p a)) p)"
    using Cons.prems assms(2-5) registered_wf [OF Cons.prems, of a] by (intro pool_wf_set_obj) auto
  then show ?case using Cons.IH by simp
qed simp

lemma fold_set_obj_active:
  assumes "\<And>s. ss_active (f s) = ss_active s"
  shows "ss_active (p_heap (fold (\<lambda>a p. set_obj a (f (p_heap p a)) p) as p) b) = ss_active (p_heap p b)"
  using assms by (induction as arbitrary: p) auto

lemma outstanding_append [simp]:
  "outstanding (ls @ [l]) a = outstanding ls a + (if le_Session l = a \<and> \<not> le_released l then 1 else 0)"
  by (simp add: outstanding_def)

lemma outstanding_split:
  "outstanding (xs @ l # ys) a =
     outstanding xs a + (if le_Session l = a \<and> \<not> le_released l then 1 else 0) + outstanding ys a"
  by (simp add: outstanding_def)

lemma outstanding_release:
  assumes "i < length ls" "\<not> le_released (ls ! i)"
  shows "int (outstanding (ls[i := (ls ! i)\<lparr>le_released := True\<rparr>]) a) =
    int (outstanding ls a) - (if le_Session (ls ! i) = a then 1 else 0)"
proof -
  have "outstanding ls a = outstanding (take i ls @ ls ! i # drop (Suc i) ls) a"
    using id_take_nth_drop [OF assms(1)] by simp
  then show ?thesis
    using assms by (simp add: upd_conv_take_nth_drop outstanding_split)
qed

lemma sched_step_inv: "sched_step isClosed x y \<Longrightarrow> sched_inv x \<Longrightarrow> sched_inv y"
proof (induction rule: sched_step.induct)
  case (alloc a x s)
  then have "outstanding (sc_leases x) a = 0"
    by (auto simp: outstanding_def filter_empty_conv)
  with alloc show ?case by (auto simp: sched_inv_def intro!: pool_wf_set_obj)
next
  case (add a x)
  then show ?case by (auto simp: sched_inv_def pool_wf_Add) (auto simp: Add_def Let_def)
next
  case (remove x i expected)
  then show ?case by (auto simp: sched_inv_def pool_wf_Remove) (auto simp: Remove_def)
next
  case (policy priority x linkID agentID weight maxStreams)
  then show ?case
    unfolding sched_inv_def UpdatePolicy_eq
    by (auto simp: fold_set_obj_active intro!: fold_set_obj_wf) (auto simp: policy_obj_def)
next
  case (ready x now i r err)
  then show ?case
    using registered_wf
    by (auto simp: sched_inv_def SetReady_def Let_def split: option.splits intro!: pool_wf_set_obj)
next
  case (probe x now expected rtt perr)
  then show ?case
    using registered_wf
    by (auto simp: sched_inv_def UpdateProbe_def split: option.splits intro!: pool_wf_set_obj)
next
  case (observe x a now d)
  then show ?case
    using registered_wf by (auto simp: sched_inv_def intro!: pool_wf_set_obj)
next
  case (acquire now agentID allowed x l p')
  then have wf: "pool_wf (sc_pool x)" by (simp add: sched_inv_def)
  from acquire.hyps obtain a where l: "l = \<lparr>le_Session = a, le_released = False\<rparr>"
    and p': "p' = set_obj a ((p_heap (sc_pool x) a)\<lparr>ss_active := ss_active (p_heap (sc_pool x) a) + 1\<rparr>) (sc_pool x)"
    by (auto simp: AcquireLinks_eq Let_def split: if_splits)
  have "pool_wf p'"
    unfolding p' using registered_wf [OF wf, of a] wf by (intro pool_wf_set_obj) auto
  with acquire.prems l p' show ?case by (auto simp: sched_inv_def)
next
  case (release i x l' p')
  show ?case
  proof (cases "le_released (sc_leases x ! i)")
    case True
    with release show ?thesis by (auto simp: Release_def sched_inv_def)
  next
    case False
    with release have wf: "pool_wf (sc_pool x)" and l': "l' = (sc_leases x ! i)\<lparr>le_released := True\<rparr>"
      and p': "p' = (let a = le_Session (sc_leases x ! i); s = p_heap (sc_pool x) a
         in set_obj a (s\<lparr>ss_active := ss_active s - 1\<rparr>) (sc_pool x))"
      by (auto simp: Release_def Let_def sched_inv_def)
    have "pool_wf p'"
      unfolding p' Let_def using wf registered_wf [OF wf] by (intro pool_wf_set_obj) auto
    with release False l' p' show ?thesis by (auto simp: sched_inv_def Let_def outstanding_release)
  qed
qed

lemma sched_reachable_inv: "sched_reachable isClosed x \<Longrightarrow> sched_inv x"
proof (induction rule: sched_reachable.induct)
  case (start h)
  then show ?case by (simp add: sched_inv_def pool_wf_def NewPool_def outstanding_def)
next
  case (step x y)
  then show ?case by (blast intro: sched_step_inv)
qed

text \<open>
  C13. In every reachable state of the scheduler, whatever sequence of additions, replacements,
  removals, policy changes, probes, acquisitions and (possibly repeated) releases led there, the
  active-stream count of every session object, current or replaced, equals the number of leases
  granted on it and not yet released; in particular it is never negative.
\<close>

theorem active_counts_leases:
  assumes "sched_reachable isClosed x"
  shows "ss_active (p_heap (sc_pool x) a) = int (outstanding (sc_leases x) a)
    \<and> 0 \<le> ss_active (p_heap (sc_pool x) a) \<and> pool_wf (sc_pool x)"
  using sched_reachable_inv [OF assms] by (simp add: sched_inv_def)

text \<open>
  A tunnel whose probe fails three times in a row stops being ready, whatever its previous state
  with fewer than three recorded timeouts; one successful probe makes it ready again with the
  timeout count reset; and a probe result for a session object that has been replaced under its
  ID changes nothing.
\<close>

theorem UpdateProbe_readiness:
  assumes wf: "pool_wf p" and a: "a \<in> registered p"
    and few: "ss_ProbeTimeouts (p_heap p a) < 3"
  shows "ss_Ready (p_heap ((UpdateProbe t3 (Some a) r3 (Some e3) \<circ> UpdateProbe t2 (Some a) r2 (Some e2) \<circ>
        UpdateProbe t1 (Some a) r1 (Some e1)) p) a) = False
    \<and> ss_Ready (p_heap (UpdateProbe t1 (Some a) r1 None p) a)
    \<and> ss_ProbeTimeouts (p_heap (UpdateProbe t1 (Some a) r1 None p) a) = 0
    \<and> (b \<notin> registered p \<longrightarrow> UpdateProbe t1 (Some b) r1 e p = p)"
proof -
  have reg: "mget (p_sessions p) (ss_ID (p_heap p a)) = Some a"
    using wf a by (simp add: registered_iff)
  define n where "n = ss_ProbeTimeouts (p_heap p a)"
  have "n = 0 \<or> n = 1 \<or> n = 2" using few unfolding n_def by uint_arith
  then have "3 \<le> n + 1 + 1 + 1" by auto
  then show ?thesis
    using reg registered_iff [OF wf, of b]
    by (auto simp: UpdateProbe_def probe_session_def Let_def n_def [symmetric])
qed

subsection \<open>Witnesses\<close>

text \<open>Two tunnels to one Agent with equal priority; the second has twice the weight.\<close>

definition demo_session :: "string \<Rightarrow> int \<Rightarrow> Session" where
  "demo_session i w =
     \<lparr>ss_ID = i, ss_AgentID = ''agt'', ss_LinkID = ''lnk'', ss_Priority = 10, ss_Weight = w,
      ss_MaxStreams = 2, ss_SMux = Some 7, ss_Generation = 1, ss_Ready = True, ss_LastOK = 0,
      ss_LastError = '''', ss_RTTMillis = 0, ss_ProbeTimeouts = 0, ss_ActiveStreams = 0,
      ss_WriteBlockedMillis = 0, ss_WriteStalls = 0, ss_active = 0,
      ss_load = Some \<lparr>sl_writeNanos = 0, sl_stalls = 0, sl_lastStall = 0\<rparr>\<rparr>"

definition demo_pool :: Pool where
  "demo_pool = \<lparr>p_heap = (\<lambda>a. if a = 0 then demo_session ''a'' 1 else demo_session ''b'' 2),
     p_sessions = [(''a'', 0), (''b'', 1)]\<rparr>"

lemma demo_scores:
  "loadScore 0 (demo_session ''a'' 1) = 1" "loadScore 0 (demo_session ''b'' 2) = 1 / 2"
  by code_simp+

lemma demo_wf: "pool_wf demo_pool"
  by (simp add: pool_wf_def demo_pool_def demo_session_def mwf_def)

lemma demo_acquire:
  "AcquireLinks (\<lambda>_. False) 0 ''agt'' None demo_pool =
     Inr (\<lparr>le_Session = 1, le_released = False\<rparr>,
          set_obj 1 ((demo_session ''b'' 2)\<lparr>ss_active := 1\<rparr>) demo_pool)"
proof -
  have "eligible (\<lambda>_. False) ''agt'' None (demo_session i w)" "ss_Priority (demo_session i w) = 10"
    "ss_ID (demo_session i w) = i" "ss_active (demo_session i w) = 0" for i w
    by (simp_all add: eligible_def demo_session_def)
  then show ?thesis
    by (simp add: AcquireLinks_def demo_pool_def mvals_def sort_slice_def Let_def session_less_def
        demo_scores set_obj_def)
qed

theorem AcquireLinks_selects_witness:
  "pool_wf demo_pool \<and>
   (1 \<in> registered demo_pool \<and>
    \<not> session_less 0 (p_heap demo_pool) 0 1 \<and> eligible (\<lambda>_. False) ''agt'' None (p_heap demo_pool 0))"
  using AcquireLinks_selects [OF demo_wf demo_acquire] demo_wf
  by (auto simp: Let_def demo_pool_def registered_def mvals_def demo_session_def eligible_def)

theorem AcquireLinks_fails_iff_witness:
  "pool_wf demo_pool \<and>
   AcquireLinks (\<lambda>_. True) 0 ''agt'' None demo_pool = Inl ErrNoPath"
  using AcquireLinks_fails_iff [OF demo_wf, of "\<lambda>_. True" 0 "''agt''" None ErrNoPath] demo_wf
  by (simp add: eligible_def demo_pool_def registered_def mvals_def demo_session_def)

theorem AcquireLinks_order_independent_witness:
  "pool_wf demo_pool \<and> mset [(''b'', 1::nat), (''a'', 0)] = mset (p_sessions demo_pool) \<and>
   map_sum id fst (AcquireLinks (\<lambda>_. False) 0 ''agt'' None (demo_pool\<lparr>p_sessions := [(''b'', 1), (''a'', 0)]\<rparr>))
     = Inr \<lparr>le_Session = 1, le_released = False\<rparr>"
proof -
  have m: "mset [(''b'', 1::nat), (''a'', 0)] = mset (p_sessions demo_pool)"
    by (simp add: demo_pool_def)
  show ?thesis
    using AcquireLinks_order_independent [OF demo_wf m, of "\<lambda>_. False" 0 "''agt''" None] m demo_wf
    by (simp add: demo_acquire)
qed

theorem active_counts_leases_witness:
  "\<exists>x. sched_reachable (\<lambda>_. False) x \<and> length (sc_leases x) = 1 \<and>
     ss_active (p_heap (sc_pool x) 0) = 1 \<and> outstanding (sc_leases x) 0 = 1"
proof -
  let ?h = "\<lambda>_::nat. demo_session ''a'' 1"
  let ?x0 = "\<lparr>sc_pool = NewPool ?h, sc_leases = []\<rparr>"
  let ?x1 = "?x0\<lparr>sc_pool := snd (Add 0 (sc_pool ?x0))\<rparr>"
  have r0: "sched_reachable (\<lambda>_. False) ?x0"
    by (rule sched_reachable.start) (simp add: demo_session_def)
  have "sched_step (\<lambda>_. False) ?x0 ?x1"
    by (rule sched_step.add) (simp_all add: registered_def NewPool_def mvals_def demo_session_def)
  with r0 have r1: "sched_reachable (\<lambda>_. False) ?x1" by (rule sched_reachable.step)
  have "\<exists>p'. AcquireLinks (\<lambda>_. False) 0 ''agt'' None (sc_pool ?x1) =
      Inr (\<lparr>le_Session = 0, le_released = False\<rparr>, p')"
    by (simp add: AcquireLinks_def Add_def NewPool_def mvals_def eligible_def sort_slice_def
        normalize_session_def demo_session_def Let_def set_obj_def)
  then obtain p' where acq: "AcquireLinks (\<lambda>_. False) 0 ''agt'' None (sc_pool ?x1) =
      Inr (\<lparr>le_Session = 0, le_released = False\<rparr>, p')" by blast
  let ?x2 = "?x1\<lparr>sc_pool := p', sc_leases := sc_leases ?x1 @ [\<lparr>le_Session = 0, le_released = False\<rparr>]\<rparr>"
  have r2: "sched_reachable (\<lambda>_. False) ?x2"
    using r1 sched_step.acquire [OF acq] by (rule sched_reachable.step)
  show ?thesis
    using r2 active_counts_leases [OF r2, of 0] by (intro exI [of _ ?x2]) (simp add: outstanding_def)
qed

theorem UpdateProbe_readiness_witness:
  "pool_wf demo_pool \<and> 0 \<in> registered demo_pool \<and>
   \<not> ss_Ready (p_heap ((UpdateProbe 3 (Some 0) 0 (Some ''x'') \<circ> UpdateProbe 2 (Some 0) 0 (Some ''x'') \<circ>
        UpdateProbe 1 (Some 0) 0 (Some ''x'')) demo_pool) 0)"
proof -
  have a: "0 \<in> registered demo_pool" and f: "ss_ProbeTimeouts (p_heap demo_pool 0) < 3"
    by (simp_all add: demo_pool_def registered_def mvals_def demo_session_def)
  show ?thesis
    using UpdateProbe_readiness [OF demo_wf a f, of 3 0 "''x''" 2 0 "''x''" 1 0 "''x''"] a demo_wf
    by simp
qed

end
