(* ===== verification/Protocol.thy ===== *)
theory Protocol
  imports Prelude
begin

text \<open>
  The framing of \<open>src/internal/protocol/protocol.go\<close>, spoken on every tunnel stream between a
  gateway and an agent: control messages (a four byte size and a JSON body) and datagrams (a
  four byte size, a two byte metadata size, JSON metadata and the payload).

  An \<open>io.Writer\<close> is a function that takes the writer's state and the bytes to write and returns
  how many it took, an error if any, and the next state; \<open>out\<close> reads what the writer delivered
  so far. An \<open>io.Reader\<close> is the list of bytes it will still deliver. \<open>WriteMessage\<close> and the other
  operations take the JSON codec as an argument; \<open>json_print\<close> and \<open>json_parse\<close> give the codec of
  \<open>encoding/json\<close> on flat structs (the only ones on this wire), and the round-trip theorems are
  stated for it. The parser accepts flat objects; a nested value, which \<open>encoding/json\<close> would
  skip under an unknown key, is an error in the model.
\<close>

definition Version :: int where "Version = 2"
definition MaxControlFrame :: nat where "MaxControlFrame = 64 * 1024"
definition MaxDatagramPayload :: nat where "MaxDatagramPayload = 65507"
definition MaxDatagramFrame :: nat where "MaxDatagramFrame = MaxDatagramPayload + MaxControlFrame + 2"

record Message =
  m_Type :: string
  m_Version :: int
  m_AgentID :: string
  m_LinkID :: string
  m_Token :: string
  m_SessionID :: string
  m_Generation :: uint64
  m_GrantID :: string
  m_RequestID :: string
  m_Host :: string
  m_Port :: int
  m_Success :: bool
  m_ErrorCode :: string
  m_Error :: string

record Datagram =
  dg_Host :: string
  dg_Port :: int
  dg_Payload :: string

definition zero_Message :: Message where
  "zero_Message = \<lparr>m_Type = [], m_Version = 0, m_AgentID = [], m_LinkID = [], m_Token = [],
     m_SessionID = [], m_Generation = 0, m_GrantID = [], m_RequestID = [], m_Host = [], m_Port = 0,
     m_Success = False, m_ErrorCode = [], m_Error = []\<rparr>"

subsection \<open>Big-endian integers\<close>

definition PutUint32 :: "32 word \<Rightarrow> string" where
  "PutUint32 v = [char_of (unat v div 2 ^ 24), char_of (unat v div 2 ^ 16),
                  char_of (unat v div 2 ^ 8), char_of (unat v)]"

definition PutUint16 :: "16 word \<Rightarrow> string" where
  "PutUint16 v = [char_of (unat v div 2 ^ 8), char_of (unat v)]"

fun BE_Uint :: "nat \<Rightarrow> string \<Rightarrow> nat" where
  "BE_Uint acc [] = acc"
| "BE_Uint acc (c # cs) = BE_Uint (256 * acc + of_char c) cs"

lemma four_bytes_less:
  "a < 256 \<Longrightarrow> b < 256 \<Longrightarrow> c < 256 \<Longrightarrow> d < 256 \<Longrightarrow>
   ((a * 256 + b) * 256 + c) * 256 + d < (4294967296 :: nat)"
proof -
  assume "a < 256" "b < 256" "c < 256" "d < 256"
  then have "a \<le> 255" "b \<le> 255" "c \<le> 255" "d \<le> 255" by simp_all
  then have "((a * 256 + b) * 256 + c) * 256 + d \<le> ((255 * 256 + 255) * 256 + 255) * 256 + 255"
    by (intro add_mono mult_right_mono) simp_all
  then show ?thesis by simp
qed

lemma four_bytes_digits:
  assumes "n < (4294967296 :: nat)"
  shows "256 * (256 * (256 * (n div 16777216 mod 256) + n div 65536 mod 256) + n div 256 mod 256) + n mod 256 = n"
proof -
  have q: "n div 65536 = n div 256 div 256" "n div 16777216 = n div 256 div 256 div 256"
    by (simp_all flip: div_mult2_eq)
  have "n div 16777216 < 256" using assms by (simp add: less_mult_imp_div_less)
  then have "n div 256 div 256 div 256 mod 256 = n div 256 div 256 div 256"
    using q by simp
  then show ?thesis unfolding q by (simp only: mult_div_mod_eq)
qed

lemma four_bytes_split:
  fixes n :: nat
  assumes "n = ((a * 256 + b) * 256 + c) * 256 + d" "a < 256" "b < 256" "c < 256" "d < 256"
  shows "n div 16777216 mod 256 = a" "n div 65536 mod 256 = b" "n div 256 mod 256 = c" "n mod 256 = d"
proof -
  have q: "n div 65536 = n div 256 div 256" "n div 16777216 = n div 256 div 256 div 256"
    by (simp_all flip: div_mult2_eq)
  have step: "(x * 256 + y) div 256 = x" "(x * 256 + y) mod 256 = y" if "y < 256" for x y :: nat
    using that by simp_all
  have one: "n div 256 = (a * 256 + b) * 256 + c" "n mod 256 = d"
    unfolding assms(1) using step assms by blast+
  have two: "n div 256 div 256 = a * 256 + b" "n div 256 mod 256 = c"
    unfolding one using step assms by blast+
  show "n div 16777216 mod 256 = a" "n div 65536 mod 256 = b" "n div 256 mod 256 = c" "n mod 256 = d"
    unfolding q using one two assms by simp_all
qed

lemma BE_Uint_PutUint32: "BE_Uint 0 (PutUint32 v) = unat v"
proof -
  have "unat v < 4294967296" using unsigned_less [of v, where ?'a = nat] by simp
  then show ?thesis using four_bytes_digits [of "unat v"] by (simp add: PutUint32_def of_char_of)
qed

lemma BE_Uint_PutUint16: "BE_Uint 0 (PutUint16 v) = unat v"
proof -
  have "unat v < 65536" using unsigned_less [of v, where ?'a = nat] by simp
  then show ?thesis by (simp add: PutUint16_def of_char_of)
qed

lemma length_PutUint [simp]: "length (PutUint32 v) = 4" "length (PutUint16 w) = 2"
  by (simp_all add: PutUint32_def PutUint16_def)

lemma PutUint_BE_Uint:
  "length s = 4 \<Longrightarrow> PutUint32 (word_of_nat (BE_Uint 0 s)) = s"
proof -
  assume "length s = 4"
  then obtain a b c d where s: "s = [a, b, c, d]"
    by (auto simp: length_Suc_conv numeral_eq_Suc)
  have lt: "(of_char x :: nat) < 256" for x by simp
  let ?n = "BE_Uint 0 s"
  have n: "?n = ((of_char a * 256 + of_char b) * 256 + of_char c) * 256 + of_char d"
    by (simp add: s algebra_simps)
  have "?n < 4294967296"
    unfolding n by (rule four_bytes_less) simp_all
  then have u: "unat (word_of_nat ?n :: 32 word) = ?n"
    by (simp add: unsigned_of_nat take_bit_eq_mod)
  have e: "char_of x = (y :: char) \<longleftrightarrow> x mod 256 = of_char y" for x :: nat and y
    by (metis char_of_def char_of_char of_char_of)
  show ?thesis
    unfolding PutUint32_def u using four_bytes_split [OF n lt lt lt lt] by (simp add: s e)
qed

subsection \<open>The JSON codec on flat structs\<close>

datatype jval = JStr string | JInt int | JBool bool

type_synonym jobj = "(string \<times> jval) list"

definition hex_digit :: "nat \<Rightarrow> char" where
  "hex_digit d = (if d < 10 then char_of (48 + d) else char_of (87 + d))"

definition hex_val :: "char \<Rightarrow> nat option" where
  "hex_val c = (let n = of_char c :: nat in
     if 48 \<le> n \<and> n \<le> 57 then Some (n - 48)
     else if 97 \<le> n \<and> n \<le> 102 then Some (n - 87)
     else if 65 \<le> n \<and> n \<le> 70 then Some (n - 55) else None)"

text \<open>
  The escapes of \<open>json.Marshal\<close> with its default HTML escaping. Bytes above 127 are copied, as
  Go does for valid UTF-8 other than U+2028 and U+2029.
\<close>

definition json_escape :: "char \<Rightarrow> string" where
  "json_escape c = (let n = of_char c :: nat in
     if n = 34 then [CHR 0x5C, CHR 0x22]
     else if n = 92 then [CHR 0x5C, CHR 0x5C]
     else if n = 8 then [CHR 0x5C, CHR ''b'']
     else if n = 12 then [CHR 0x5C, CHR ''f'']
     else if n = 10 then [CHR 0x5C, CHR ''n'']
     else if n = 13 then [CHR 0x5C, CHR ''r'']
     else if n = 9 then [CHR 0x5C, CHR ''t'']
     else if n < 32 \<or> n = 60 \<or> n = 62 \<or> n = 38
       then [CHR 0x5C, CHR ''u'', CHR ''0'', CHR ''0'', hex_digit (n div 16), hex_digit (n mod 16)]
     else [c])"

definition json_quote :: "string \<Rightarrow> string" where
  "json_quote s = [CHR 0x22] @ concat (map json_escape s) @ [CHR 0x22]"

fun json_value :: "jval \<Rightarrow> string" where
  "json_value (JStr s) = json_quote s"
| "json_value (JInt i) = Itoa i"
| "json_value (JBool b) = (if b then ''true'' else ''false'')"

fun json_members :: "jobj \<Rightarrow> string" where
  "json_members [] = []"
| "json_members [(k, v)] = json_quote k @ '':'' @ json_value v"
| "json_members ((k, v) # m) = json_quote k @ '':'' @ json_value v @ '','' @ json_members m"

definition json_print :: "jobj \<Rightarrow> string" where
  "json_print m = ''{'' @ json_members m @ ''}''"

definition utf8_encode :: "nat \<Rightarrow> string" where
  "utf8_encode n =
     (if n < 128 then [char_of n]
      else if n < 2048 then [char_of (192 + n div 64), char_of (128 + n mod 64)]
      else [char_of (224 + n div 4096), char_of (128 + (n div 64) mod 64), char_of (128 + n mod 64)])"

text \<open>Reading a string after its opening quote; surrogate escapes are not accepted.\<close>

fun json_unescape :: "string \<Rightarrow> (string \<times> string) option" where
  "json_unescape [] = None"
| "json_unescape (c # cs) =
     (let n = of_char c :: nat in
      if n = 34 then Some ([], cs)
      else if n = 92 then
        (case cs of
           [] \<Rightarrow> None
         | e # es \<Rightarrow>
             if e = CHR ''u'' then
               (case es of
                  a # b # x # y # rest \<Rightarrow>
                    (case (hex_val a, hex_val b, hex_val x, hex_val y) of
                       (Some va, Some vb, Some vx, Some vy) \<Rightarrow>
                         (let v = va * 4096 + vb * 256 + vx * 16 + vy in
                          if 55296 \<le> v \<and> v < 57344 then None
                          else map_option (\<lambda>(s, r). (utf8_encode v @ s, r)) (json_unescape rest))
                     | _ \<Rightarrow> None)
                | _ \<Rightarrow> None)
             else
               (let one = (if of_char e = (34::nat) then Some e else if of_char e = (92::nat) then Some e
                           else if e = CHR ''/'' then Some e else if e = CHR ''b'' then Some (CHR 0x08)
                           else if e = CHR ''f'' then Some (CHR 0x0C)
                           else if e = CHR ''n'' then Some (CHR 0x0A)
                           else if e = CHR ''r'' then Some (CHR 0x0D)
                           else if e = CHR ''t'' then Some (CHR 0x09) else None)
                in case one of None \<Rightarrow> None
                   | Some d \<Rightarrow> map_option (\<lambda>(s, r). (d # s, r)) (json_unescape es)))
      else if n < 32 then None
      else map_option (\<lambda>(s, r). (c # s, r)) (json_unescape cs))"

definition is_ws :: "char \<Rightarrow> bool" where
  "is_ws c = (of_char c \<in> {32, 9, 10, 13 :: nat})"

definition skip_ws :: "string \<Rightarrow> string" where
  "skip_ws s = dropWhile is_ws s"

definition number_char :: "char \<Rightarrow> bool" where
  "number_char c = (c = CHR ''-'' \<or> digit_val c \<noteq> None)"

text \<open>Integers of any size; the field they are stored in checks its own range.\<close>

definition json_int :: "string \<Rightarrow> int option" where
  "json_int s =
     (case s of
        [] \<Rightarrow> None
      | c # cs \<Rightarrow>
          if c = CHR ''-'' then (if cs = [] then None else map_option (\<lambda>n. - int n) (digits_val 0 cs))
          else map_option int (digits_val 0 s))"

definition json_parse_value :: "string \<Rightarrow> (jval \<times> string) option" where
  "json_parse_value s =
     (case s of
        [] \<Rightarrow> None
      | c # cs \<Rightarrow>
          if of_char c = (34::nat) then map_option (\<lambda>(t, r). (JStr t, r)) (json_unescape cs)
          else if has_prefix s ''true'' then Some (JBool True, drop 4 s)
          else if has_prefix s ''false'' then Some (JBool False, drop 5 s)
          else map_option (\<lambda>i. (JInt i, dropWhile number_char s)) (json_int (takeWhile number_char s)))"

text \<open>
  The members after the opening brace. Each round consumes at least one byte, so the length of
  the input is enough fuel.
\<close>

fun json_parse_members :: "nat \<Rightarrow> string \<Rightarrow> (jobj \<times> string) option" where
  "json_parse_members 0 s = None"
| "json_parse_members (Suc fuel) s =
     (case skip_ws s of
        [] \<Rightarrow> None
      | c # cs \<Rightarrow>
          if of_char c = (34::nat) then
            (case json_unescape cs of
               None \<Rightarrow> None
             | Some (k, r) \<Rightarrow>
                 (case skip_ws r of
                    [] \<Rightarrow> None
                  | d # ds \<Rightarrow>
                      if d = CHR '':'' then
                        (case json_parse_value (skip_ws ds) of
                           None \<Rightarrow> None
                         | Some (v, r') \<Rightarrow>
                             (case skip_ws r' of
                                [] \<Rightarrow> None
                              | x # xs \<Rightarrow>
                                  if x = CHR ''}'' then Some ([(k, v)], xs)
                                  else if x = CHR '','' then
                                    map_option (\<lambda>(m, r''). ((k, v) # m, r'')) (json_parse_members fuel xs)
                                  else None))
                      else None))
          else None)"

definition json_parse :: "string \<Rightarrow> jobj option" where
  "json_parse s =
     (case skip_ws s of
        [] \<Rightarrow> None
      | c # cs \<Rightarrow>
          if c = CHR ''{'' then
            (case skip_ws cs of
               [] \<Rightarrow> None
             | d # ds \<Rightarrow>
                 if d = CHR ''}'' then (if skip_ws ds = [] then Some [] else None)
                 else (case json_parse_members (length cs) cs of
                         None \<Rightarrow> None
                       | Some (m, r) \<Rightarrow> if skip_ws r = [] then Some m else None))
          else None)"

text \<open>The struct tags of \<open>Message\<close>: every field but the first two is \<open>omitempty\<close>.\<close>

definition omitempty :: "string \<Rightarrow> jval \<Rightarrow> jobj" where
  "omitempty k v = (if v = JStr [] \<or> v = JInt 0 \<or> v = JBool False then [] else [(k, v)])"

definition message_obj :: "Message \<Rightarrow> jobj" where
  "message_obj m =
     [(''type'', JStr (m_Type m)), (''version'', JInt (m_Version m))] @
     omitempty ''agent_id'' (JStr (m_AgentID m)) @ omitempty ''link_id'' (JStr (m_LinkID m)) @
     omitempty ''token'' (JStr (m_Token m)) @ omitempty ''session_id'' (JStr (m_SessionID m)) @
     omitempty ''generation'' (JInt (uint (m_Generation m))) @
     omitempty ''grant_id'' (JStr (m_GrantID m)) @ omitempty ''request_id'' (JStr (m_RequestID m)) @
     omitempty ''host'' (JStr (m_Host m)) @ omitempty ''port'' (JInt (m_Port m)) @
     omitempty ''success'' (JBool (m_Success m)) @ omitempty ''error_code'' (JStr (m_ErrorCode m)) @
     omitempty ''error'' (JStr (m_Error m))"

definition marshal_message :: "Message \<Rightarrow> string" where
  "marshal_message m = json_print (message_obj m)"


definition in_int :: "int \<Rightarrow> bool" where
  "in_int i = (- (2 ^ 63) \<le> i \<and> i < 2 ^ 63)"

text \<open>
  \<open>json.Unmarshal\<close> into a struct: members are applied in order, names match without regard to
  case, unknown names are ignored, a value of the wrong kind or range is an error.
\<close>

definition set_str :: "(string \<Rightarrow> 'a \<Rightarrow> 'a) \<Rightarrow> jval \<Rightarrow> 'a \<Rightarrow> 'a option" where
  "set_str f v m = (case v of JStr s \<Rightarrow> Some (f s m) | _ \<Rightarrow> None)"

definition set_int :: "(int \<Rightarrow> 'a \<Rightarrow> 'a) \<Rightarrow> jval \<Rightarrow> 'a \<Rightarrow> 'a option" where
  "set_int f v m = (case v of JInt i \<Rightarrow> if in_int i then Some (f i m) else None | _ \<Rightarrow> None)"

definition set_uint64 :: "(uint64 \<Rightarrow> 'a \<Rightarrow> 'a) \<Rightarrow> jval \<Rightarrow> 'a \<Rightarrow> 'a option" where
  "set_uint64 f v m =
     (case v of JInt i \<Rightarrow> if 0 \<le> i \<and> i < 2 ^ 64 then Some (f (word_of_int i) m) else None | _ \<Rightarrow> None)"

definition set_bool :: "(bool \<Rightarrow> 'a \<Rightarrow> 'a) \<Rightarrow> jval \<Rightarrow> 'a \<Rightarrow> 'a option" where
  "set_bool f v m = (case v of JBool b \<Rightarrow> Some (f b m) | _ \<Rightarrow> None)"

definition message_field :: "string \<Rightarrow> jval \<Rightarrow> Message \<Rightarrow> Message option" where
  "message_field k v m =
     (let n = to_lower k in
      if n = ''type'' then set_str (\<lambda>x. m_Type_update (\<lambda>_. x)) v m
      else if n = ''version'' then set_int (\<lambda>x. m_Version_update (\<lambda>_. x)) v m
      else if n = ''agent_id'' then set_str (\<lambda>x. m_AgentID_update (\<lambda>_. x)) v m
      else if n = ''link_id'' then set_str (\<lambda>x. m_LinkID_update (\<lambda>_. x)) v m
      else if n = ''token'' then set_str (\<lambda>x. m_Token_update (\<lambda>_. x)) v m
      else if n = ''session_id'' then set_str (\<lambda>x. m_SessionID_update (\<lambda>_. x)) v m
      else if n = ''generation'' then set_uint64 (\<lambda>x. m_Generation_update (\<lambda>_. x)) v m
      else if n = ''grant_id'' then set_str (\<lambda>x. m_GrantID_update (\<lambda>_. x)) v m
      else if n = ''request_id'' then set_str (\<lambda>x. m_RequestID_update (\<lambda>_. x)) v m
      else if n = ''host'' then set_str (\<lambda>x. m_Host_update (\<lambda>_. x)) v m
      else if n = ''port'' then set_int (\<lambda>x. m_Port_update (\<lambda>_. x)) v m
      else if n = ''success'' then set_bool (\<lambda>x. m_Success_update (\<lambda>_. x)) v m
      else if n = ''error_code'' then set_str (\<lambda>x. m_ErrorCode_update (\<lambda>_. x)) v m
      else if n = ''error'' then set_str (\<lambda>x. m_Error_update (\<lambda>_. x)) v m
      else Some m)"

fun apply_fields :: "(string \<Rightarrow> jval \<Rightarrow> 'a \<Rightarrow> 'a option) \<Rightarrow> jobj \<Rightarrow> 'a \<Rightarrow> 'a option" where
  "apply_fields f [] m = Some m"
| "apply_fields f ((k, v) # kvs) m =
     (case f k v m of None \<Rightarrow> None | Some m' \<Rightarrow> apply_fields f kvs m')"

definition unmarshal_message :: "string \<Rightarrow> error + Message" where
  "unmarshal_message s =
     (case json_parse s of
        None \<Rightarrow> Inl ''decode control message''
      | Some kvs \<Rightarrow>
          (case apply_fields message_field kvs zero_Message of
             None \<Rightarrow> Inl ''decode control message'' | Some m \<Rightarrow> Inr m))"

definition marshal_target :: "string \<times> int \<Rightarrow> string" where
  "marshal_target t = json_print [(''host'', JStr (fst t)), (''port'', JInt (snd t))]"

definition target_field :: "string \<Rightarrow> jval \<Rightarrow> string \<times> int \<Rightarrow> (string \<times> int) option" where
  "target_field k v t =
     (let n = to_lower k in
      if n = ''host'' then set_str (\<lambda>x t. (x, snd t)) v t
      else if n = ''port'' then set_int (\<lambda>x t. (fst t, x)) v t
      else Some t)"

definition unmarshal_target :: "string \<Rightarrow> error + string \<times> int" where
  "unmarshal_target s =
     (case json_parse s of
        None \<Rightarrow> Inl ''decode datagram metadata''
      | Some kvs \<Rightarrow>
          (case apply_fields target_field kvs ([], 0) of
             None \<Rightarrow> Inl ''decode datagram metadata'' | Some t \<Rightarrow> Inr t))"

subsection \<open>Frames\<close>

type_synonym 'w writer = "'w \<Rightarrow> string \<Rightarrow> nat \<times> error option \<times> 'w"

definition ErrShortWrite :: error where "ErrShortWrite = ''short write''"
definition ErrEOF :: error where "ErrEOF = ''EOF''"
definition ErrUnexpectedEOF :: error where "ErrUnexpectedEOF = ''unexpected EOF''"
definition panic_slice :: error where "panic_slice = ''slice bounds out of range''"

function writeAll :: "'w writer \<Rightarrow> string \<Rightarrow> 'w \<Rightarrow> error option \<times> 'w" where
  "writeAll write b w =
     (if b = [] then (None, w)
      else let (n, err, w') = write w b in
        if err \<noteq> None then (err, w')
        else if n = 0 then (Some ErrShortWrite, w')
        else if length b < n then (Some panic_slice, w')
        else writeAll write (drop n b) w')"
  by pat_completeness auto
termination by (relation "measure (\<lambda>(write, b, w). length b)") auto

declare writeAll.simps [simp del]

definition WriteMessage :: "(Message \<Rightarrow> string) \<Rightarrow> 'w writer \<Rightarrow> Message \<Rightarrow> 'w \<Rightarrow> error option \<times> 'w" where
  "WriteMessage marshal write message w =
     (let b = marshal message in
      if MaxControlFrame < length b then (Some ''control message exceeds limit'', w)
      else case writeAll write (PutUint32 (word_of_nat (length b))) w of
          (Some err, w') \<Rightarrow> (Some err, w')
        | (None, w') \<Rightarrow> writeAll write b w')"

text \<open>\<open>io.ReadFull\<close>: the bytes and the rest, or the error of a stream that ended too early.\<close>

definition ReadFull :: "nat \<Rightarrow> string \<Rightarrow> error + string \<times> string" where
  "ReadFull n r =
     (if n \<le> length r then Inr (take n r, drop n r)
      else if r = [] then Inl ErrEOF else Inl ErrUnexpectedEOF)"

definition ReadMessage :: "(string \<Rightarrow> error + Message) \<Rightarrow> string \<Rightarrow> error + Message \<times> string" where
  "ReadMessage unmarshal r =
     (case ReadFull 4 r of
        Inl err \<Rightarrow> Inl err
      | Inr (sz, r1) \<Rightarrow>
          (let n = BE_Uint 0 sz in
           if n = 0 \<or> MaxControlFrame < n then Inl (''invalid control frame size '' @ Itoa (int n))
           else case ReadFull n r1 of
               Inl err \<Rightarrow> Inl err
             | Inr (b, r2) \<Rightarrow>
                 (case unmarshal b of Inl err \<Rightarrow> Inl err | Inr m \<Rightarrow> Inr (m, r2))))"

definition WriteDatagram ::
    "(string \<times> int \<Rightarrow> string) \<Rightarrow> 'w writer \<Rightarrow> Datagram \<Rightarrow> 'w \<Rightarrow> error option \<times> 'w" where
  "WriteDatagram marshal write d w =
     (if dg_Port d < 1 \<or> 65535 < dg_Port d \<or> dg_Host d = [] then (Some ''invalid datagram target'', w)
      else if MaxDatagramPayload < length (dg_Payload d) then (Some ''datagram payload exceeds limit'', w)
      else let meta = marshal (dg_Host d, dg_Port d) in
        if 65535 < length meta then (Some ''datagram metadata exceeds limit'', w)
        else let total = 2 + length meta + length (dg_Payload d);
                 header = PutUint32 (word_of_nat total) @ PutUint16 (word_of_nat (length meta)) in
          case writeAll write header w of
            (Some err, w') \<Rightarrow> (Some err, w')
          | (None, w') \<Rightarrow>
              (case writeAll write meta w' of
                 (Some err, w'') \<Rightarrow> (Some err, w'')
               | (None, w'') \<Rightarrow> writeAll write (dg_Payload d) w''))"

text \<open>
  \<open>WriteDatagramWithTimeout\<close>: \<open>setDeadline\<close> is the connection's \<open>SetWriteDeadline\<close>; the deadline is
  cleared on the way out whatever the write returned.
\<close>

definition WriteDatagramWithTimeout ::
    "(string \<times> int \<Rightarrow> string) \<Rightarrow> 'w writer \<Rightarrow> (gotime \<Rightarrow> 'w \<Rightarrow> error option \<times> 'w) \<Rightarrow> gotime \<Rightarrow> Datagram \<Rightarrow>
     duration \<Rightarrow> 'w \<Rightarrow> error option \<times> 'w" where
  "WriteDatagramWithTimeout marshal write setDeadline now d timeout w =
     (case setDeadline (now + timeout) w of
        (Some err, w') \<Rightarrow> (Some err, w')
      | (None, w') \<Rightarrow>
          (let (err, w'') = WriteDatagram marshal write d w' in (err, snd (setDeadline 0 w''))))"

definition ReadDatagram :: "(string \<Rightarrow> error + string \<times> int) \<Rightarrow> string \<Rightarrow> error + Datagram \<times> string" where
  "ReadDatagram unmarshal r =
     (case ReadFull 4 r of
        Inl err \<Rightarrow> Inl err
      | Inr (sz, r1) \<Rightarrow>
          (let n = BE_Uint 0 sz in
           if n < 2 \<or> MaxDatagramFrame < n then Inl (''invalid datagram frame size '' @ Itoa (int n))
           else case ReadFull n r1 of
               Inl err \<Rightarrow> Inl err
             | Inr (b, r2) \<Rightarrow>
                 (let metaSize = BE_Uint 0 (take 2 b) in
                  if metaSize = 0 \<or> length b - 2 < metaSize then Inl ''invalid datagram metadata size''
                  else case unmarshal (take metaSize (drop 2 b)) of
                      Inl err \<Rightarrow> Inl err
                    | Inr (host, port) \<Rightarrow>
                        if host = [] \<or> port < 1 \<or> 65535 < port then Inl ''invalid datagram endpoint''
                        else Inr (\<lparr>dg_Host = host, dg_Port = port, dg_Payload = drop (2 + metaSize) b\<rparr>, r2))))"


subsection \<open>The codec reads back what it prints\<close>

lemma hex_val_hex_digit: "d < 16 \<Longrightarrow> hex_val (hex_digit d) = Some d"
  by (auto simp: hex_val_def hex_digit_def Let_def)

lemma escaped_chars:
  "char_of (34::nat) = CHR 0x22" "char_of (92::nat) = CHR 0x5C" "char_of (8::nat) = CHR 0x08"
  "char_of (12::nat) = CHR 0x0C" "char_of (10::nat) = CHR 0x0A" "char_of (13::nat) = CHR 0x0D"
  "char_of (9::nat) = CHR 0x09"
  by (simp_all add: char_of_def bit_0)

lemma unescape_escape:
  "json_unescape (json_escape c @ r) = map_option (\<lambda>(s, r'). (c # s, r')) (json_unescape r)"
proof -
  define n where "n = (of_char c :: nat)"
  have c: "c = char_of n" by (simp add: n_def)
  have lt: "n < 256" by (simp add: n_def)
  consider (sp) "n \<in> {34, 92, 8, 12, 10, 13, 9}"
    | (hex) "n < 32 \<or> n = 60 \<or> n = 62 \<or> n = 38" "n \<notin> {34, 92, 8, 12, 10, 13, 9}"
    | (plain) "\<not> n < 32" "n \<notin> {34, 92, 60, 62, 38}" by auto
  then show ?thesis
  proof cases
    case sp
    then show ?thesis unfolding c json_escape_def by (auto simp: of_char_of escaped_chars)
  next
    case hex
    then have "n < 128" "n div 16 < 16" "n mod 16 < 16" by auto
    moreover have "n div 16 * 16 + n mod 16 = n" by simp
    ultimately show ?thesis
      using hex lt unfolding c json_escape_def
      by (simp add: of_char_of hex_val_hex_digit hex_val_def [of "CHR ''0''"] utf8_encode_def Let_def)
  next
    case plain
    then show ?thesis unfolding c json_escape_def using lt by (simp add: of_char_of Let_def)
  qed
qed

lemma unescape_body:
  "json_unescape (concat (map json_escape s) @ CHR 0x22 # r) = Some (s, r)"
proof (induction s)
  case Nil
  show ?case by simp
next
  case (Cons c s)
  then show ?case using unescape_escape [of c "concat (map json_escape s) @ CHR 0x22 # r"] by simp
qed

lemma number_chars_Itoa: "c \<in> set (Itoa i) \<Longrightarrow> number_char c"
  by (auto simp: Itoa_def number_char_def dest: digit_chars_nat_digits split: if_splits)

lemma json_int_Itoa: "json_int (Itoa i) = Some i"
  using nat_digits_head [of "nat i"] nat_digits_head [of "nat (- i)"]
    digits_val_nat_digits [of "nat i"] digits_val_nat_digits [of "nat (- i)"]
  by (auto simp: json_int_def Itoa_def split: list.splits if_splits)

lemma Itoa_head: "\<exists>c cs. Itoa i = c # cs \<and> number_char c"
  using number_chars_Itoa [of _ i] nat_digits_head [of "nat i"] by (fastforce simp: Itoa_def)

lemma number_char_code: "number_char c \<longleftrightarrow> of_char c = (45::nat) \<or> (48 \<le> (of_char c::nat) \<and> of_char c \<le> (57::nat))"
proof -
  have "c = CHR ''-'' \<longleftrightarrow> of_char c = (45::nat)" using of_char_eq_iff [of c "CHR ''-''", where ?'a = nat] by simp
  then show ?thesis by (auto simp: number_char_def digit_val_def Let_def)
qed

text \<open>A printed value is read back in front of any byte that ends it.\<close>

lemma parse_value_print:
  assumes "\<not> number_char d"
  shows "json_parse_value (json_value v @ d # r) = Some (v, d # r)"
proof (cases v)
  case (JStr s)
  then show ?thesis by (simp add: json_parse_value_def json_quote_def unescape_body)
next
  case (JBool b)
  then show ?thesis by (simp add: json_parse_value_def has_prefix_def)
next
  case (JInt i)
  obtain c cs where h: "Itoa i = c # cs" and c: "number_char c" using Itoa_head by blast
  have all: "\<forall>x\<in>set (c # cs). number_char x" using number_chars_Itoa [of _ i] h by auto
  have tw: "takeWhile number_char (Itoa i @ d # r) = Itoa i" "dropWhile number_char (Itoa i @ d # r) = d # r"
    using all assms h by (simp_all add: takeWhile_append dropWhile_append)
  have "of_char c \<noteq> (34::nat)" "c \<noteq> CHR ''t''" "c \<noteq> CHR ''f''"
    using c by (auto simp: number_char_code)
  then have "json_parse_value (Itoa i @ d # r) =
      map_option (\<lambda>i'. (JInt i', dropWhile number_char (Itoa i @ d # r)))
        (json_int (takeWhile number_char (Itoa i @ d # r)))"
    by (simp add: json_parse_value_def h has_prefix_def)
  then show ?thesis using JInt tw by (simp add: json_int_Itoa)
qed


lemma skip_ws_nonws: "\<not> is_ws c \<Longrightarrow> skip_ws (c # s) = c # s"
  by (simp add: skip_ws_def)

lemma json_quote_Cons: "json_quote s = CHR 0x22 # concat (map json_escape s) @ [CHR 0x22]"
  by (simp add: json_quote_def)

lemma value_head: "\<exists>c cs. json_value v = c # cs \<and> \<not> is_ws c"
proof (cases v)
  case (JInt i)
  obtain c cs where "Itoa i = c # cs" "number_char c" using Itoa_head by blast
  then show ?thesis using JInt by (auto simp: number_char_code is_ws_def)
qed (auto simp: json_quote_Cons is_ws_def)

lemma skip_ws_value: "skip_ws (json_value v @ s) = json_value v @ s"
  using value_head [of v] by (auto simp: skip_ws_nonws)

lemma not_number_punct [simp]: "\<not> number_char CHR ''}''" "\<not> number_char CHR '',''"
  by (simp_all add: number_char_code)

lemma not_ws_punct [simp]: "\<not> is_ws CHR ''}''" "\<not> is_ws CHR '',''" "\<not> is_ws CHR '':''"
  "\<not> is_ws CHR ''{''" "\<not> is_ws CHR 0x22"
  by (simp_all add: is_ws_def)

lemma parse_members_print:
  "m \<noteq> [] \<Longrightarrow> length m \<le> fuel \<Longrightarrow> json_parse_members fuel (json_members m @ CHR ''}'' # r) = Some (m, r)"
proof (induction m arbitrary: fuel rule: json_members.induct)
  case (2 k v)
  then obtain f where f: "fuel = Suc f" by (cases fuel) auto
  show ?case
    by (simp add: f json_quote_Cons skip_ws_nonws unescape_body skip_ws_value parse_value_print)
next
  case (3 k v kv m)
  then obtain f where f: "fuel = Suc f" by (cases fuel) auto
  with 3 have ih: "json_parse_members f (json_members (kv # m) @ CHR ''}'' # r) = Some (kv # m, r)"
    by simp
  show ?case
    by (simp add: f json_quote_Cons skip_ws_nonws unescape_body skip_ws_value parse_value_print ih)
qed simp

declare json_parse_members.simps [simp del]

lemma length_members: "length m \<le> length (json_members m)"
  by (induction m rule: json_members.induct) auto

lemma members_head: "m \<noteq> [] \<Longrightarrow> \<exists>cs. json_members m = CHR 0x22 # cs"
  by (cases m rule: json_members.cases) (auto simp: json_quote_Cons)

lemma json_parse_print: "m \<noteq> [] \<Longrightarrow> json_parse (json_print m) = Some m"
  using members_head [of m] parse_members_print [of m "length (json_members m @ ''}'')" "[]"] length_members [of m]
  by (auto simp: json_parse_def json_print_def skip_ws_nonws skip_ws_def [of "[]"])

lemma apply_fields_append:
  "apply_fields f (xs @ ys) m = (case apply_fields f xs m of None \<Rightarrow> None | Some m' \<Rightarrow> apply_fields f ys m')"
  by (induction f xs m rule: apply_fields.induct) (auto split: option.splits)

lemma apply_omitempty:
  assumes "f k v m \<noteq> None" and "v = JStr [] \<or> v = JInt 0 \<or> v = JBool False \<longrightarrow> f k v m = Some m"
  shows "apply_fields f (omitempty k v @ ys) m = apply_fields f ys (the (f k v m))"
    and "apply_fields f (omitempty k v) m = f k v m"
  using assms by (auto simp: omitempty_def apply_fields_append split: option.splits)

lemmas message_field_defs = message_field_def set_str_def set_int_def set_uint64_def set_bool_def Let_def

lemma to_lower_names:
  "to_lower ''type'' = ''type''"
  "to_lower ''version'' = ''version''"
  "to_lower ''agent_id'' = ''agent_id''"
  "to_lower ''link_id'' = ''link_id''"
  "to_lower ''token'' = ''token''"
  "to_lower ''session_id'' = ''session_id''"
  "to_lower ''generation'' = ''generation''"
  "to_lower ''grant_id'' = ''grant_id''"
  "to_lower ''request_id'' = ''request_id''"
  "to_lower ''host'' = ''host''"
  "to_lower ''port'' = ''port''"
  "to_lower ''success'' = ''success''"
  "to_lower ''error_code'' = ''error_code''"
  "to_lower ''error'' = ''error''"
  by (simp_all add: to_lower_def to_lower_char_def)

lemma message_field_simps:
  "message_field ''type'' (JStr s) m = Some (m\<lparr>m_Type := s\<rparr>)"
  "in_int i \<Longrightarrow> message_field ''version'' (JInt i) m = Some (m\<lparr>m_Version := i\<rparr>)"
  "message_field ''agent_id'' (JStr s) m = Some (m\<lparr>m_AgentID := s\<rparr>)"
  "message_field ''link_id'' (JStr s) m = Some (m\<lparr>m_LinkID := s\<rparr>)"
  "message_field ''token'' (JStr s) m = Some (m\<lparr>m_Token := s\<rparr>)"
  "message_field ''session_id'' (JStr s) m = Some (m\<lparr>m_SessionID := s\<rparr>)"
  "message_field ''generation'' (JInt (uint g)) m = Some (m\<lparr>m_Generation := g\<rparr>)"
  "message_field ''grant_id'' (JStr s) m = Some (m\<lparr>m_GrantID := s\<rparr>)"
  "message_field ''request_id'' (JStr s) m = Some (m\<lparr>m_RequestID := s\<rparr>)"
  "message_field ''host'' (JStr s) m = Some (m\<lparr>m_Host := s\<rparr>)"
  "in_int i \<Longrightarrow> message_field ''port'' (JInt i) m = Some (m\<lparr>m_Port := i\<rparr>)"
  "message_field ''success'' (JBool b) m = Some (m\<lparr>m_Success := b\<rparr>)"
  "message_field ''error_code'' (JStr s) m = Some (m\<lparr>m_ErrorCode := s\<rparr>)"
  "message_field ''error'' (JStr s) m = Some (m\<lparr>m_Error := s\<rparr>)"
  using uint_bounded [of g]
  by (simp_all add: message_field_defs to_lower_names)

lemma message_field_zeros:
  "in_int 0"
  "message_field ''generation'' (JInt 0) m = Some (m\<lparr>m_Generation := 0\<rparr>)"
  by (simp_all add: in_int_def message_field_defs to_lower_names)

definition message_ok :: "Message \<Rightarrow> bool" where
  "message_ok m = (in_int (m_Version m) \<and> in_int (m_Port m))"

lemma unmarshal_marshal_message: "message_ok m \<Longrightarrow> unmarshal_message (marshal_message m) = Inr m"
proof -
  assume ok: "message_ok m"
  have "apply_fields message_field (message_obj m) zero_Message = Some m"
    using ok
    by (simp add: message_obj_def apply_omitempty message_field_simps message_field_zeros message_ok_def zero_Message_def)
  then show ?thesis
    by (simp add: unmarshal_message_def marshal_message_def json_parse_print message_obj_def)
qed

lemma unmarshal_marshal_target: "in_int (snd t) \<Longrightarrow> unmarshal_target (marshal_target t) = Inr t"
  by (simp add: unmarshal_target_def marshal_target_def json_parse_print target_field_def to_lower_names
      set_str_def set_int_def Let_def)

lemma json_print_nonempty: "json_print m \<noteq> []"
  by (simp add: json_print_def)


subsection \<open>Frames: what is written is what is read\<close>

text \<open>The \<open>io.Writer\<close> contract: a write delivers a prefix of its argument, all of it unless it fails.\<close>

definition is_writer :: "'w writer \<Rightarrow> ('w \<Rightarrow> string) \<Rightarrow> bool" where
  "is_writer write out \<longleftrightarrow>
     (\<forall>w b n err w'. write w b = (n, err, w') \<longrightarrow> n \<le> length b \<and> out w' = out w @ take n b)"

lemma is_writerD:
  "is_writer write out \<Longrightarrow> write w b = (n, err, w') \<Longrightarrow> n \<le> length b \<and> out w' = out w @ take n b"
  by (simp add: is_writer_def)

lemma writeAll_delivers:
  assumes "is_writer write out" and "writeAll write b w = (err, w')"
  shows "\<exists>k \<le> length b. out w' = out w @ take k b \<and> (err = None \<longrightarrow> k = length b)"
  using assms
proof (induction "length b" arbitrary: b w rule: less_induct)
  case less
  show ?case
  proof (cases "b = []")
    case True
    with less.prems show ?thesis by (simp add: writeAll.simps)
  next
    case False
    obtain n e u where wr: "write w b = (n, e, u)" by (cases "write w b")
    with less.prems(1) have n: "n \<le> length b" and u: "out u = out w @ take n b"
      by (simp_all add: is_writerD)
    show ?thesis
    proof (cases "e = None \<and> n \<noteq> 0")
      case True
      with less.prems(2) False wr n have rec: "writeAll write (drop n b) u = (err, w')"
        by (simp add: writeAll.simps [of "write" b w])
      have "length (drop n b) < length b" using True False by simp
      from less.hyps [OF this less.prems(1) rec]
      obtain k where "k \<le> length b - n" "out w' = out u @ take k (drop n b)"
        "err = None \<longrightarrow> k = length b - n" by auto
      then show ?thesis using n u by (intro exI [of _ "n + k"]) (auto simp: take_add)
    next
      case False
      then show ?thesis using less.prems(2) \<open>b \<noteq> []\<close> wr n u
        by (intro exI [of _ n]) (auto simp: writeAll.simps [of "write" b w] split: if_splits)
    qed
  qed
qed


lemma writeAll_ok:
  "is_writer write out \<Longrightarrow> writeAll write b w = (None, w') \<Longrightarrow> out w' = out w @ b"
  using writeAll_delivers [of "write" out b w None w'] by auto

definition message_frame :: "string \<Rightarrow> string" where
  "message_frame b = PutUint32 (word_of_nat (length b)) @ b"

definition datagram_frame :: "string \<Rightarrow> string \<Rightarrow> string" where
  "datagram_frame meta payload =
     PutUint32 (word_of_nat (2 + length meta + length payload)) @ PutUint16 (word_of_nat (length meta)) @ meta @ payload"

lemma WriteMessage_out:
  assumes "is_writer write out" and "WriteMessage marshal write m w = (None, w')"
  shows "length (marshal m) \<le> MaxControlFrame" and "out w' = out w @ message_frame (marshal m)"
  using assms writeAll_ok [OF assms(1)]
  by (auto simp: WriteMessage_def message_frame_def Let_def split: if_splits prod.splits option.splits)

lemma WriteDatagram_out:
  assumes "is_writer write out" and "WriteDatagram marshal write d w = (None, w')"
  shows "out w' = out w @ datagram_frame (marshal (dg_Host d, dg_Port d)) (dg_Payload d)"
    and "length (marshal (dg_Host d, dg_Port d)) \<le> 65535" and "length (dg_Payload d) \<le> MaxDatagramPayload"
    and "dg_Host d \<noteq> [] \<and> 1 \<le> dg_Port d \<and> dg_Port d \<le> 65535"
  using assms writeAll_ok [OF assms(1)]
  by (auto simp: WriteDatagram_def datagram_frame_def Let_def split: if_splits prod.splits option.splits)

lemma BE_Uint_size32:
  "n < 4294967296 \<Longrightarrow> BE_Uint 0 (PutUint32 (word_of_nat n)) = n"
  by (simp add: BE_Uint_PutUint32 unsigned_of_nat take_bit_eq_mod)

lemma BE_Uint_size16:
  "n < 65536 \<Longrightarrow> BE_Uint 0 (PutUint16 (word_of_nat n)) = n"
  by (simp add: BE_Uint_PutUint16 unsigned_of_nat take_bit_eq_mod)

lemma PutUint16_BE_Uint:
  "length s = 2 \<Longrightarrow> PutUint16 (word_of_nat (BE_Uint 0 s)) = s \<and> BE_Uint 0 s < 65536"
proof -
  assume "length s = 2"
  then obtain a b where s: "s = [a, b]" by (auto simp: length_Suc_conv numeral_eq_Suc)
  have lt: "(of_char x :: nat) < 256" for x by simp
  let ?n = "BE_Uint 0 s"
  have n: "?n = 256 * of_char a + of_char b" by (simp add: s)
  have small: "?n < 65536" unfolding n using lt [of a] lt [of b] by linarith
  then have u: "unat (word_of_nat ?n :: 16 word) = ?n"
    by (simp add: unsigned_of_nat take_bit_eq_mod)
  have e: "char_of x = (y :: char) \<longleftrightarrow> x mod 256 = of_char y" for x :: nat and y
    by (metis char_of_char of_char_of)
  have "char_of (?n div 2 ^ 8) = a" "char_of ?n = b"
    unfolding e n using lt [of a] lt [of b] by simp_all
  then show ?thesis unfolding PutUint16_def u using small by (simp add: s)
qed

lemma ReadFull_Inr_iff:
  "ReadFull n r = Inr (a, rest) \<longleftrightarrow> r = a @ rest \<and> length a = n"
  by (auto simp: ReadFull_def)

lemma ReadFull_append: "ReadFull (length a) (a @ rest) = Inr (a, rest)"
  by (simp add: ReadFull_Inr_iff)

lemma ReadMessage_frame:
  assumes "0 < length b" and "length b \<le> MaxControlFrame"
  shows "ReadMessage unmarshal (message_frame b @ rest) =
    (case unmarshal b of Inl err \<Rightarrow> Inl err | Inr m \<Rightarrow> Inr (m, rest))"
proof -
  have "length b < 4294967296" using assms(2) by (simp add: MaxControlFrame_def)
  then have "BE_Uint 0 (PutUint32 (word_of_nat (length b))) = length b" by (rule BE_Uint_size32)
  moreover have "ReadFull 4 (message_frame b @ rest) = Inr (PutUint32 (word_of_nat (length b)), b @ rest)"
    by (simp add: ReadFull_Inr_iff message_frame_def)
  ultimately show ?thesis
    using assms by (simp add: ReadMessage_def ReadFull_append Let_def)
qed

lemma ReadMessage_Inr_frame:
  assumes "ReadMessage unmarshal r = Inr (m, rest)"
  shows "\<exists>b. r = message_frame b @ rest \<and> 0 < length b \<and> length b \<le> MaxControlFrame \<and> unmarshal b = Inr m"
proof -
  obtain sz r1 where 1: "ReadFull 4 r = Inr (sz, r1)"
    using assms by (cases "ReadFull 4 r") (auto simp: ReadMessage_def)
  let ?n = "BE_Uint 0 sz"
  have n: "0 < ?n" "?n \<le> MaxControlFrame"
    using assms 1 by (auto simp: ReadMessage_def Let_def split: if_splits)
  then obtain b r2 where 2: "ReadFull ?n r1 = Inr (b, r2)"
    using assms 1 by (cases "ReadFull ?n r1") (auto simp: ReadMessage_def Let_def)
  then have 3: "unmarshal b = Inr m \<and> r2 = rest"
    using assms 1 n by (auto simp: ReadMessage_def Let_def split: sum.splits)
  have "PutUint32 (word_of_nat ?n) = sz" using 1 by (intro PutUint_BE_Uint) (simp add: ReadFull_Inr_iff)
  then show ?thesis using 1 2 3 n by (intro exI [of _ b]) (auto simp: ReadFull_Inr_iff message_frame_def)
qed


lemma ReadDatagram_frame:
  assumes "0 < length meta" and "length meta \<le> 65535" and "2 + length meta + length payload \<le> MaxDatagramFrame"
  shows "ReadDatagram unmarshal (datagram_frame meta payload @ rest) =
    (case unmarshal meta of
       Inl err \<Rightarrow> Inl err
     | Inr (host, port) \<Rightarrow>
         if host = [] \<or> port < 1 \<or> 65535 < port then Inl ''invalid datagram endpoint''
         else Inr (\<lparr>dg_Host = host, dg_Port = port, dg_Payload = payload\<rparr>, rest))"
proof -
  let ?n = "2 + length meta + length payload"
  let ?b = "PutUint16 (word_of_nat (length meta)) @ meta @ payload"
  have "?n < 4294967296" using assms(3) by (simp add: MaxDatagramFrame_def MaxControlFrame_def MaxDatagramPayload_def)
  then have sz: "BE_Uint 0 (PutUint32 (word_of_nat ?n)) = ?n" by (rule BE_Uint_size32)
  have "length meta < 65536" using assms(2) by simp
  then have ms: "BE_Uint 0 (PutUint16 (word_of_nat (length meta))) = length meta" by (rule BE_Uint_size16)
  have f4: "ReadFull 4 (datagram_frame meta payload @ rest) = Inr (PutUint32 (word_of_nat ?n), ?b @ rest)"
    by (simp add: ReadFull_Inr_iff datagram_frame_def)
  have lb: "length ?b = ?n" by simp
  have fb: "ReadFull ?n (?b @ rest) = Inr (?b, rest)" by (simp add: ReadFull_Inr_iff)
  have t2: "take 2 ?b = PutUint16 (word_of_nat (length meta))" "drop 2 ?b = meta @ payload" by simp_all
  have pl: "drop (2 + length meta) ?b = payload" by simp
  show ?thesis
    unfolding ReadDatagram_def f4 sum.case prod.case Let_def sz fb t2 ms lb pl
    using assms by simp
qed

lemma ReadDatagram_Inr_frame:
  assumes "ReadDatagram unmarshal r = Inr (d, rest)"
  shows "\<exists>meta. r = datagram_frame meta (dg_Payload d) @ rest \<and> 0 < length meta \<and> length meta \<le> 65535 \<and>
           2 + length meta + length (dg_Payload d) \<le> MaxDatagramFrame \<and>
           unmarshal meta = Inr (dg_Host d, dg_Port d) \<and>
           dg_Host d \<noteq> [] \<and> 1 \<le> dg_Port d \<and> dg_Port d \<le> 65535"
proof -
  obtain sz r1 where 1: "ReadFull 4 r = Inr (sz, r1)"
    using assms by (cases "ReadFull 4 r") (auto simp: ReadDatagram_def)
  let ?n = "BE_Uint 0 sz"
  have n: "2 \<le> ?n" "?n \<le> MaxDatagramFrame"
    using assms 1 by (auto simp: ReadDatagram_def Let_def split: if_splits)
  then obtain b r2 where 2: "ReadFull ?n r1 = Inr (b, r2)"
    using assms 1 by (cases "ReadFull ?n r1") (auto simp: ReadDatagram_def Let_def)
  have lb: "length b = ?n" "r1 = b @ r2" "r = sz @ r1" "length sz = 4"
    using 1 2 by (simp_all add: ReadFull_Inr_iff)
  let ?m = "BE_Uint 0 (take 2 b)"
  have m: "0 < ?m" "?m \<le> length b - 2"
    using assms 1 2 n by (auto simp: ReadDatagram_def Let_def split: if_splits)
  let ?meta = "take ?m (drop 2 b)"
  obtain host port where u: "unmarshal ?meta = Inr (host, port)"
    using assms 1 2 n m by (cases "unmarshal ?meta") (auto simp: ReadDatagram_def Let_def)
  have ok: "host \<noteq> [] \<and> 1 \<le> port \<and> port \<le> 65535" and rest: "r2 = rest"
    and d: "d = \<lparr>dg_Host = host, dg_Port = port, dg_Payload = drop (2 + ?m) b\<rparr>"
    using assms 1 2 n m u by (auto simp: ReadDatagram_def Let_def split: if_splits)
  have s16: "PutUint16 (word_of_nat ?m) = take 2 b \<and> ?m < 65536"
    by (rule PutUint16_BE_Uint) (use lb n in simp)
  have s32: "PutUint32 (word_of_nat ?n) = sz" by (rule PutUint_BE_Uint) (use lb in simp)
  have lm: "length ?meta = ?m" using m by simp
  have b: "b = take 2 b @ ?meta @ drop (2 + ?m) b"
    by (metis add.commute append_take_drop_id drop_drop)
  have tot: "2 + length ?meta + length (drop (2 + ?m) b) = ?n" using lb n m by simp
  have pl: "dg_Payload d = drop (2 + ?m) b" by (simp add: d)
  have h: "PutUint32 (word_of_nat (2 + length ?meta + length (dg_Payload d))) = sz"
    unfolding pl tot by (rule s32)
  have "r = sz @ take 2 b @ ?meta @ dg_Payload d @ rest"
    unfolding pl using lb(2,3) rest b by (metis append.assoc)
  then have "r = datagram_frame ?meta (dg_Payload d) @ rest"
    unfolding datagram_frame_def h by (simp only: lm s16 [THEN conjunct1] append.assoc)
  then show ?thesis
    using ok u d n tot lm s16 m by (intro exI [of _ ?meta]) auto
qed


subsection \<open>Properties\<close>


text \<open>\<open>ReadMessage\<close> returns a message exactly when the stream starts with a size between 1 and
  \<open>MaxControlFrame\<close>, that many bytes, and those bytes decode to it; every other stream (short, empty,
  oversized, undecodable) is an error, and nothing past the frame is consumed.\<close>

theorem ReadMessage_accepts_iff:
  "ReadMessage unmarshal r = Inr (m, rest) \<longleftrightarrow>
   (\<exists>b. r = PutUint32 (word_of_nat (length b)) @ b @ rest \<and> b \<noteq> [] \<and> length b \<le> 65536 \<and> unmarshal b = Inr m)"
proof
  assume "ReadMessage unmarshal r = Inr (m, rest)"
  from ReadMessage_Inr_frame [OF this]
  show "\<exists>b. r = PutUint32 (word_of_nat (length b)) @ b @ rest \<and> b \<noteq> [] \<and> length b \<le> 65536 \<and> unmarshal b = Inr m"
    by (auto simp: message_frame_def MaxControlFrame_def)
next
  assume "\<exists>b. r = PutUint32 (word_of_nat (length b)) @ b @ rest \<and> b \<noteq> [] \<and> length b \<le> 65536 \<and> unmarshal b = Inr m"
  then obtain b where "r = message_frame b @ rest" "b \<noteq> []" "length b \<le> MaxControlFrame" "unmarshal b = Inr m"
    by (auto simp: message_frame_def MaxControlFrame_def)
  then show "ReadMessage unmarshal r = Inr (m, rest)"
    using ReadMessage_frame [of b unmarshal rest] by simp
qed

text \<open>A datagram that \<open>WriteDatagram\<close> accepted (valid target, payload and metadata within their
  limits) always fits the limit of \<open>ReadDatagram\<close>, which reads back its host, port and every
  payload byte, and stops at the end of the frame.\<close>

theorem datagram_roundtrip:
  assumes "is_writer write out" and "WriteDatagram marshal_target write d w = (None, w')"
  shows "\<exists>sent. out w' = out w @ sent \<and> ReadDatagram unmarshal_target (sent @ rest) = Inr (d, rest)"
proof (intro exI conjI)
  let ?meta = "marshal_target (dg_Host d, dg_Port d)"
  note out = WriteDatagram_out [OF assms]
  show "out w' = out w @ datagram_frame ?meta (dg_Payload d)" by (rule out(1))
  have "in_int (dg_Port d)" using out(4) by (simp add: in_int_def)
  then have u: "unmarshal_target ?meta = Inr (dg_Host d, dg_Port d)"
    using unmarshal_marshal_target [of "(dg_Host d, dg_Port d)"] by simp
  have "0 < length ?meta" by (simp add: marshal_target_def json_print_nonempty)
  moreover have "2 + length ?meta + length (dg_Payload d) \<le> MaxDatagramFrame"
    using out by (simp add: MaxDatagramFrame_def MaxControlFrame_def)
  ultimately show "ReadDatagram unmarshal_target (datagram_frame ?meta (dg_Payload d) @ rest) = Inr (d, rest)"
    using out u by (simp add: ReadDatagram_frame)
qed

text \<open>Whatever the peer sends, a datagram that \<open>ReadDatagram\<close> returns has a host, a port between 1
  and 65535 and a payload that is a slice of the frame, and the frame is the only input consumed.\<close>

theorem ReadDatagram_sound:
  assumes "ReadDatagram unmarshal r = Inr (d, rest)"
  shows "dg_Host d \<noteq> [] \<and> 1 \<le> dg_Port d \<and> dg_Port d \<le> 65535 \<and>
    (\<exists>meta. r = datagram_frame meta (dg_Payload d) @ rest \<and> unmarshal meta = Inr (dg_Host d, dg_Port d) \<and>
       6 + length meta + length (dg_Payload d) + length rest = length r \<and>
       length meta + length (dg_Payload d) \<le> 131043)"
  using ReadDatagram_Inr_frame [OF assms]
  by (auto simp: MaxDatagramFrame_def MaxDatagramPayload_def MaxControlFrame_def datagram_frame_def)

text \<open>A writer that takes at most seven bytes at a time, for the witnesses.\<close>

definition slow_writer :: "string writer" where
  "slow_writer w b = (min 7 (length b), None, w @ take 7 b)"

definition demo_message :: Message where
  "demo_message = zero_Message\<lparr>m_Type := ''ping'', m_Version := 2, m_Host := ''a<b'', m_Port := 443\<rparr>"

lemma slow_is_writer: "is_writer slow_writer id"
  by (auto simp: is_writer_def slow_writer_def min_def)

lemma slow_writeAll: "writeAll slow_writer b w = (None, w @ b)"
proof (induction "length b" arbitrary: b w rule: less_induct)
  case less
  show ?case
  proof (cases "b = []")
    case False
    then have "length (drop (min 7 (length b)) b) < length b" by simp
    from less [OF this, of "w @ take 7 b"] False show ?thesis
      by (simp add: writeAll.simps [of _ b w] slow_writer_def min_def split: if_splits)
  qed (simp add: writeAll.simps)
qed


lemma demo_message_written:
  "WriteMessage marshal_message slow_writer demo_message [] =
     (None, PutUint32 (word_of_nat (length (marshal_message demo_message))) @ marshal_message demo_message)"
proof -
  have "length (marshal_message demo_message) \<le> MaxControlFrame" by code_simp
  then show ?thesis by (simp add: WriteMessage_def slow_writeAll Let_def)
qed


definition demo_datagram :: Datagram where
  "demo_datagram = \<lparr>dg_Host = ''h'', dg_Port = 53, dg_Payload = ''query''\<rparr>"

lemma demo_datagram_written:
  "WriteDatagram marshal_target slow_writer demo_datagram [] =
     (None, datagram_frame (marshal_target (''h'', 53)) ''query'')"
proof -
  have "length (marshal_target (''h'', 53)) \<le> 65535" by code_simp
  then show ?thesis
    by (simp add: WriteDatagram_def slow_writeAll Let_def demo_datagram_def datagram_frame_def MaxDatagramPayload_def)
qed

theorem datagram_roundtrip_witness:
  "\<exists>sent. snd (WriteDatagram marshal_target slow_writer demo_datagram []) = sent \<and>
     ReadDatagram unmarshal_target (sent @ ''next'') = Inr (demo_datagram, ''next'')"
  using datagram_roundtrip [OF slow_is_writer demo_datagram_written, of "''next''"]
  by (simp add: demo_datagram_written)

lemma demo_datagram_read:
  "ReadDatagram unmarshal_target (datagram_frame (marshal_target (''h'', 53)) ''query'') = Inr (demo_datagram, [])"
proof -
  let ?meta = "marshal_target (''h'', 53)"
  have len: "length ?meta = 22" by code_simp
  have "in_int (snd (''h'', 53))" by (simp add: in_int_def)
  from unmarshal_marshal_target [OF this]
  have "unmarshal_target ?meta = Inr (''h'', 53)" .
  then show ?thesis
    using ReadDatagram_frame [of ?meta "''query''" unmarshal_target "[]"] len
    by (simp add: MaxDatagramFrame_def MaxDatagramPayload_def MaxControlFrame_def demo_datagram_def)
qed

theorem ReadDatagram_sound_witness:
  "dg_Port demo_datagram = 53 \<and> dg_Port demo_datagram \<le> 65535 \<and> dg_Host demo_datagram \<noteq> []"
  using ReadDatagram_sound [OF demo_datagram_read] by (simp add: demo_datagram_def)

end
