(* ===== verification/Udp_Queue.thy ===== *)
theory Udp_Queue
  imports Protocol
begin

text \<open>
  The bounded queue of datagrams of \<open>src/internal/gateway/udp_queue.go\<close>, shared by the goroutines
  that offer datagrams and the one that takes them. \<open>items\<close> is a channel of capacity 64, \<open>bytes\<close>
  an atomic counter of payload bytes.

  \<open>offer\<close> and \<open>take\<close> are sequences of atomic steps: the load of the counter, the compare-and-swap,
  the channel operation and the final adjustment. \<open>offer\<close> and \<open>take\<close> below run one operation to
  its end; \<open>queue_step\<close> is one atomic step of one goroutine, so that \<open>queue_reachable\<close> ranges over
  every interleaving of any number of goroutines.
\<close>

definition channel_cap :: nat where "channel_cap = 64"

record udpQueue =
  q_items :: "Datagram list"
  q_bytes :: int
  q_limit :: int

definition newUDPQueue :: "int \<Rightarrow> udpQueue" where
  "newUDPQueue limit =
     (let limit = (if limit \<le> 0 then 256 * 1024 else limit)
      in \<lparr>q_items = [], q_bytes = 0, q_limit = limit\<rparr>)"

definition payload_size :: "Datagram \<Rightarrow> int" where
  "payload_size d = int (length (dg_Payload d))"

subsection \<open>The operations run without interference\<close>

definition offer :: "Datagram \<Rightarrow> udpQueue \<Rightarrow> bool \<times> udpQueue" where
  "offer d q =
     (let size = payload_size d; used = q_bytes q in
      if q_limit q - used < size then (False, q)
      else let q1 = q\<lparr>q_bytes := used + size\<rparr> in
        if length (q_items q1) < channel_cap then (True, q1\<lparr>q_items := q_items q1 @ [d]\<rparr>)
        else (False, q1\<lparr>q_bytes := q_bytes q1 - size\<rparr>))"

text \<open>
  \<open>take\<close>: the context is done, or a datagram is received. With neither the goroutine blocks
  (\<open>None\<close>); with both, \<open>select\<close> picks either, \<open>pick\<close> says which.
\<close>

definition take_queue :: "bool \<Rightarrow> bool \<Rightarrow> udpQueue \<Rightarrow> (Datagram option \<times> udpQueue) option" where
  "take_queue finished pick q =
     (case q_items q of
        [] \<Rightarrow> if finished then Some (None, q) else None
      | d # ds \<Rightarrow>
          if finished \<and> \<not> pick then Some (None, q)
          else Some (Some d, q\<lparr>q_items := ds, q_bytes := q_bytes q - payload_size d\<rparr>))"

subsection \<open>Interleaved steps\<close>

text \<open>Where a goroutine stands inside \<open>offer\<close> or \<open>take\<close>.\<close>

datatype pc =
    Loaded Datagram int    \<comment> \<open>in \<open>offer\<close>, with the counter value it read\<close>
  | Reserved Datagram      \<comment> \<open>in \<open>offer\<close>, after the successful compare-and-swap\<close>
  | Rejected Datagram      \<comment> \<open>in \<open>offer\<close>, the channel was full, the reservation not yet undone\<close>
  | Received Datagram      \<comment> \<open>in \<open>take\<close>, the counter not yet reduced\<close>

record queue_system =
  qs_queue :: udpQueue
  qs_threads :: "pc list"
  qs_taken :: "Datagram list"
  qs_accepted :: "Datagram list"

inductive queue_step :: "queue_system \<Rightarrow> queue_system \<Rightarrow> bool" where
  load: "queue_step s (s\<lparr>qs_threads := Loaded d (q_bytes (qs_queue s)) # qs_threads s\<rparr>)"
| give_up: "i < length (qs_threads s) \<Longrightarrow> qs_threads s ! i = Loaded d used \<Longrightarrow>
    q_limit (qs_queue s) - used < payload_size d \<Longrightarrow>
    queue_step s (s\<lparr>qs_threads := take i (qs_threads s) @ drop (Suc i) (qs_threads s)\<rparr>)"
| cas: "i < length (qs_threads s) \<Longrightarrow> qs_threads s ! i = Loaded d used \<Longrightarrow>
    \<not> q_limit (qs_queue s) - used < payload_size d \<Longrightarrow> q_bytes (qs_queue s) = used \<Longrightarrow>
    queue_step s (s\<lparr>qs_queue := (qs_queue s)\<lparr>q_bytes := used + payload_size d\<rparr>,
                    qs_threads := (qs_threads s)[i := Reserved d]\<rparr>)"
| retry: "i < length (qs_threads s) \<Longrightarrow> qs_threads s ! i = Loaded d used \<Longrightarrow>
    \<not> q_limit (qs_queue s) - used < payload_size d \<Longrightarrow> q_bytes (qs_queue s) \<noteq> used \<Longrightarrow>
    queue_step s (s\<lparr>qs_threads := (qs_threads s)[i := Loaded d (q_bytes (qs_queue s))]\<rparr>)"
| send: "i < length (qs_threads s) \<Longrightarrow> qs_threads s ! i = Reserved d \<Longrightarrow>
    length (q_items (qs_queue s)) < channel_cap \<Longrightarrow>
    queue_step s (s\<lparr>qs_queue := (qs_queue s)\<lparr>q_items := q_items (qs_queue s) @ [d]\<rparr>,
                    qs_threads := take i (qs_threads s) @ drop (Suc i) (qs_threads s),
                    qs_accepted := qs_accepted s @ [d]\<rparr>)"
| full: "i < length (qs_threads s) \<Longrightarrow> qs_threads s ! i = Reserved d \<Longrightarrow>
    \<not> length (q_items (qs_queue s)) < channel_cap \<Longrightarrow>
    queue_step s (s\<lparr>qs_threads := (qs_threads s)[i := Rejected d]\<rparr>)"
| undo: "i < length (qs_threads s) \<Longrightarrow> qs_threads s ! i = Rejected d \<Longrightarrow>
    queue_step s (s\<lparr>qs_queue := (qs_queue s)\<lparr>q_bytes := q_bytes (qs_queue s) - payload_size d\<rparr>,
                    qs_threads := take i (qs_threads s) @ drop (Suc i) (qs_threads s)\<rparr>)"
| receive: "q_items (qs_queue s) = d # ds \<Longrightarrow>
    queue_step s (s\<lparr>qs_queue := (qs_queue s)\<lparr>q_items := ds\<rparr>,
                    qs_threads := Received d # qs_threads s,
                    qs_taken := qs_taken s @ [d]\<rparr>)"
| account: "i < length (qs_threads s) \<Longrightarrow> qs_threads s ! i = Received d \<Longrightarrow>
    queue_step s (s\<lparr>qs_queue := (qs_queue s)\<lparr>q_bytes := q_bytes (qs_queue s) - payload_size d\<rparr>,
                    qs_threads := take i (qs_threads s) @ drop (Suc i) (qs_threads s)\<rparr>)"

inductive queue_reachable :: "int \<Rightarrow> queue_system \<Rightarrow> bool" for limit where
  start: "queue_reachable limit \<lparr>qs_queue = newUDPQueue limit, qs_threads = [], qs_taken = [], qs_accepted = []\<rparr>"
| step: "queue_reachable limit s \<Longrightarrow> queue_step s s' \<Longrightarrow> queue_reachable limit s'"

text \<open>The bytes a goroutine holds in the counter.\<close>

fun held :: "pc \<Rightarrow> int" where
  "held (Loaded d used) = 0"
| "held (Reserved d) = payload_size d"
| "held (Rejected d) = payload_size d"
| "held (Received d) = payload_size d"

definition queued_bytes :: "queue_system \<Rightarrow> int" where
  "queued_bytes s = sum_list (map payload_size (q_items (qs_queue s)))"

definition queue_inv :: "int \<Rightarrow> queue_system \<Rightarrow> bool" where
  "queue_inv limit s \<longleftrightarrow>
     q_limit (qs_queue s) = q_limit (newUDPQueue limit) \<and>
     q_bytes (qs_queue s) = queued_bytes s + sum_list (map held (qs_threads s)) \<and>
     q_bytes (qs_queue s) \<le> q_limit (qs_queue s) \<and>
     length (q_items (qs_queue s)) \<le> channel_cap \<and>
     qs_accepted s = qs_taken s @ q_items (qs_queue s)"

lemma payload_size_nonneg [simp]: "0 \<le> payload_size d"
  by (simp add: payload_size_def)

lemma held_nonneg: "0 \<le> sum_list (map held ts)"
  by (rule sum_list_nonneg) (metis held.elims imageE image_set order_refl payload_size_nonneg)

lemma queued_nonneg: "0 \<le> queued_bytes s"
  unfolding queued_bytes_def by (rule sum_list_nonneg) auto

lemma sum_held_remove:
  "i < length ts \<Longrightarrow>
   sum_list (map held (take i ts)) + sum_list (map held (drop (Suc i) ts)) = sum_list (map held ts) - held (ts ! i)"
  by (subst (3) id_take_nth_drop [of i ts]) auto

lemma sum_held_update:
  "i < length ts \<Longrightarrow>
   sum_list (map held (ts[i := p])) = sum_list (map held ts) - held (ts ! i) + held p"
  by (subst (2) id_take_nth_drop [of i ts]) (auto simp: upd_conv_take_nth_drop)

lemmas queue_sums = sum_held_remove sum_held_update

lemma queue_inv_step: "queue_step s s' \<Longrightarrow> queue_inv limit s \<Longrightarrow> queue_inv limit s'"
proof (induction rule: queue_step.induct)
  case (cas i s d used)
  then show ?case by (auto simp: queue_inv_def queued_bytes_def queue_sums)
next
  case (undo i s d)
  have "0 \<le> payload_size d" by simp
  with undo show ?case by (auto simp: queue_inv_def queued_bytes_def queue_sums simp del: payload_size_nonneg)
next
  case (account i s d)
  have "0 \<le> payload_size d" by simp
  with account show ?case by (auto simp: queue_inv_def queued_bytes_def queue_sums simp del: payload_size_nonneg)
qed (auto simp: queue_inv_def queued_bytes_def queue_sums)

lemma queue_inv_start:
  "queue_inv limit \<lparr>qs_queue = newUDPQueue limit, qs_threads = [], qs_taken = [], qs_accepted = []\<rparr>"
  by (auto simp: queue_inv_def queued_bytes_def newUDPQueue_def Let_def)

lemma queue_reachable_inv: "queue_reachable limit s \<Longrightarrow> queue_inv limit s"
  by (induction rule: queue_reachable.induct) (auto simp: queue_inv_start intro: queue_inv_step)


subsection \<open>Properties\<close>

text \<open>C37. Under every interleaving of offering and taking goroutines the queue holds at most 64
  datagrams and at most \<open>limit\<close> payload bytes (256 KiB when no positive limit is given); the counter
  is exactly the queued bytes plus those of goroutines between their atomic steps, so it returns to
  the queued bytes when they are done and never drifts; and datagrams leave in the order they were
  accepted, none lost or duplicated.\<close>

theorem queue_bounded:
  assumes "queue_reachable limit s"
  shows "length (q_items (qs_queue s)) \<le> 64 \<and>
    queued_bytes s \<le> (if limit \<le> 0 then 262144 else limit) \<and>
    0 \<le> q_bytes (qs_queue s) \<and>
    (qs_threads s = [] \<longrightarrow> q_bytes (qs_queue s) = queued_bytes s) \<and>
    qs_accepted s = qs_taken s @ q_items (qs_queue s)"
  using queue_reachable_inv [OF assms] held_nonneg [of "qs_threads s"] queued_nonneg [of s]
  by (auto simp: queue_inv_def channel_cap_def newUDPQueue_def Let_def)

text \<open>Run alone, \<open>offer\<close> accepts a datagram exactly when a channel slot is free and its payload
  fits the remaining bytes; a rejected offer leaves the queue as it was, and taking from the queue
  undoes the accounting of the offer.\<close>

theorem offer_accepts_iff:
  "(fst (offer d q) \<longleftrightarrow> length (q_items q) < 64 \<and> q_bytes q + payload_size d \<le> q_limit q) \<and>
   (\<not> fst (offer d q) \<longrightarrow> snd (offer d q) = q) \<and>
   (fst (offer d q) \<and> q_items q = [] \<longrightarrow> take_queue finished True (snd (offer d q)) = Some (Some d, q))"
  by (auto simp: offer_def take_queue_def Let_def channel_cap_def)

theorem queue_bounded_witness:
  "\<exists>s. queue_reachable 3 s \<and> length (qs_threads s) = 1 \<and> queued_bytes s \<le> 3"
proof -
  let ?d = "\<lparr>dg_Host = ''h'', dg_Port = 53, dg_Payload = ''abc''\<rparr>"
  let ?s0 = "\<lparr>qs_queue = newUDPQueue 3, qs_threads = [], qs_taken = [], qs_accepted = []\<rparr>"
  let ?s1 = "?s0\<lparr>qs_threads := Loaded ?d (q_bytes (qs_queue ?s0)) # qs_threads ?s0\<rparr>"
  have "queue_reachable 3 ?s0" by (rule queue_reachable.start)
  then have r: "queue_reachable 3 ?s1" by (rule queue_reachable.step) (rule queue_step.load)
  from r queue_bounded [OF r] show ?thesis by (intro exI [of _ ?s1]) simp
qed

theorem offer_accepts_iff_witness:
  "fst (offer \<lparr>dg_Host = ''h'', dg_Port = 53, dg_Payload = ''abc''\<rparr> (newUDPQueue 3)) \<and>
   \<not> fst (offer \<lparr>dg_Host = ''h'', dg_Port = 53, dg_Payload = ''abcd''\<rparr> (newUDPQueue 3))"
  using offer_accepts_iff [of "\<lparr>dg_Host = ''h'', dg_Port = 53, dg_Payload = ''abc''\<rparr>" "newUDPQueue 3"]
    offer_accepts_iff [of "\<lparr>dg_Host = ''h'', dg_Port = 53, dg_Payload = ''abcd''\<rparr>" "newUDPQueue 3"]
  by (simp add: newUDPQueue_def payload_size_def)

end
