(* ===== verification/Model.thy ===== *)
theory Model
  imports Prelude
begin

text \<open>
  The persisted control-plane state of the Controller (\<open>internal/model/model.go\<close>): one record per
  struct, with the struct's fields in the struct's order, and \<open>zero_T\<close> the zero value of \<open>T\<close>, which
  is what Go reads from a missing map key. A \<open>nil\<close> map or slice is the empty one: the sources
  replace \<open>nil\<close> maps before they write to them (\<open>ensureMaps\<close> and the guards in the handlers).
\<close>

type_synonym Role = string

abbreviation RoleGateway :: Role where "RoleGateway \<equiv> ''gateway''"
abbreviation RoleAgent :: Role where "RoleAgent \<equiv> ''agent''"

record User =
  u_AuditEnabled :: bool
  u_AuditGeneration :: uint64
  u_AuditLimitMB :: int
  u_ID :: string
  u_Name :: string
  u_Enabled :: bool
  u_SubscriptionToken :: string
  u_SubscriptionTokenHash :: string
  u_SubscriptionTokenCipher :: string
  u_CreatedAt :: gotime

definition zero_User :: User where
  "zero_User = \<lparr>u_AuditEnabled = False, u_AuditGeneration = 0, u_AuditLimitMB = 0, u_ID = '''',
     u_Name = '''', u_Enabled = False, u_SubscriptionToken = '''', u_SubscriptionTokenHash = '''',
     u_SubscriptionTokenCipher = '''', u_CreatedAt = 0\<rparr>"

record Gateway =
  gw_AgentEnabled :: bool
  gw_ID :: string
  gw_Name :: string
  gw_PublicHost :: string
  gw_PublicHostAuto :: bool
  gw_ManualPublicHost :: string
  gw_IPv6IngressEnabled :: bool
  gw_DetectedPublicIPv6 :: string
  gw_PublicIPv6Sources :: string
  gw_PublicIPv6CheckedAt :: gotime
  gw_DetectedPublicIP :: string
  gw_PublicIPSources :: string
  gw_PublicIPCheckedAt :: gotime
  gw_ObservedPublicIP :: string
  gw_Region :: string
  gw_VMessPort :: int
  gw_VMessPath :: string
  gw_VMessHost :: string
  gw_VMessDisabled :: bool
  gw_HY2Disabled :: bool
  gw_HY2Port :: int
  gw_HY2Certificate :: string
  gw_HY2PrivateKey :: string
  gw_HY2PinSHA256 :: string
  gw_RealityTarget :: string
  gw_RealityName :: string
  gw_RealityPrivateKey :: string
  gw_RealityPublicKey :: string
  gw_Enabled :: bool
  gw_CredentialHash :: string
  gw_PreviousCredentialHash :: string
  gw_PreviousCredentialExpiresAt :: gotime
  gw_DesiredVersion :: uint64
  gw_CreatedAt :: gotime

definition zero_Gateway :: Gateway where
  "zero_Gateway = \<lparr>gw_AgentEnabled = False, gw_ID = '''', gw_Name = '''', gw_PublicHost = '''',
     gw_PublicHostAuto = False, gw_ManualPublicHost = '''', gw_IPv6IngressEnabled = False,
     gw_DetectedPublicIPv6 = '''', gw_PublicIPv6Sources = '''', gw_PublicIPv6CheckedAt = 0,
     gw_DetectedPublicIP = '''', gw_PublicIPSources = '''', gw_PublicIPCheckedAt = 0,
     gw_ObservedPublicIP = '''', gw_Region = '''', gw_VMessPort = 0, gw_VMessPath = '''',
     gw_VMessHost = '''', gw_VMessDisabled = False, gw_HY2Disabled = False, gw_HY2Port = 0,
     gw_HY2Certificate = '''', gw_HY2PrivateKey = '''', gw_HY2PinSHA256 = '''', gw_RealityTarget = '''',
     gw_RealityName = '''', gw_RealityPrivateKey = '''', gw_RealityPublicKey = '''', gw_Enabled = False,
     gw_CredentialHash = '''', gw_PreviousCredentialHash = '''', gw_PreviousCredentialExpiresAt = 0,
     gw_DesiredVersion = 0, gw_CreatedAt = 0\<rparr>"

record Agent =
  ag_GatewayID :: string
  ag_ID :: string
  ag_Name :: string
  ag_Enabled :: bool
  ag_AllowedCIDRs :: "string list"
  ag_DeniedCIDRs :: "string list"
  ag_AllowedPorts :: "int list"
  ag_CredentialHash :: string
  ag_PreviousCredentialHash :: string
  ag_PreviousCredentialExpiresAt :: gotime
  ag_DesiredVersion :: uint64
  ag_CreatedAt :: gotime

definition zero_Agent :: Agent where
  "zero_Agent = \<lparr>ag_GatewayID = '''', ag_ID = '''', ag_Name = '''', ag_Enabled = False,
     ag_AllowedCIDRs = [], ag_DeniedCIDRs = [], ag_AllowedPorts = [], ag_CredentialHash = '''',
     ag_PreviousCredentialHash = '''', ag_PreviousCredentialExpiresAt = 0, ag_DesiredVersion = 0,
     ag_CreatedAt = 0\<rparr>"

record UpstreamProbeTarget =
  pt_URL :: string
  pt_Success :: bool
  pt_HTTPStatus :: int
  pt_DurationMillis :: int
  pt_ExitIP :: string
  pt_Error :: string

definition zero_UpstreamProbeTarget :: UpstreamProbeTarget where
  "zero_UpstreamProbeTarget = \<lparr>pt_URL = '''', pt_Success = False, pt_HTTPStatus = 0,
     pt_DurationMillis = 0, pt_ExitIP = '''', pt_Error = ''''\<rparr>"

record UpstreamProbeStatus =
  ps_AttachmentID :: string
  ps_Revision :: uint64
  ps_RequestID :: string
  ps_StartedAt :: gotime
  ps_CompletedAt :: gotime
  ps_Targets :: "UpstreamProbeTarget list"

definition zero_UpstreamProbeStatus :: UpstreamProbeStatus where
  "zero_UpstreamProbeStatus = \<lparr>ps_AttachmentID = '''', ps_Revision = 0, ps_RequestID = '''',
     ps_StartedAt = 0, ps_CompletedAt = 0, ps_Targets = []\<rparr>"

record Attachment =
  at_ProbeRequestID :: string
  at_ProbeRequestedAt :: gotime
  at_UpstreamProbe :: "UpstreamProbeStatus option"
  at_UpstreamProbeFailureSince :: gotime
  at_UpstreamProbeFailureVersion :: uint64
  at_ID :: string
  at_GatewayID :: string
  at_AgentID :: string
  at_UpstreamID :: string
  at_Enabled :: bool
  at_CreatedAt :: gotime

definition zero_Attachment :: Attachment where
  "zero_Attachment = \<lparr>at_ProbeRequestID = '''', at_ProbeRequestedAt = 0, at_UpstreamProbe = None,
     at_UpstreamProbeFailureSince = 0, at_UpstreamProbeFailureVersion = 0, at_ID = '''',
     at_GatewayID = '''', at_AgentID = '''', at_UpstreamID = '''', at_Enabled = False,
     at_CreatedAt = 0\<rparr>"

record VMessEndpoint =
  ve_Name :: string
  ve_Protocol :: string
  ve_Address :: string
  ve_Port :: int
  ve_UUID :: string
  ve_Cipher :: string
  ve_Network :: string
  ve_Path :: string
  ve_Host :: string
  ve_TLS :: bool
  ve_ServerName :: string
  ve_Flow :: string
  ve_PublicKey :: string
  ve_ShortID :: string
  ve_Fingerprint :: string
  ve_SpiderX :: string

definition zero_VMessEndpoint :: VMessEndpoint where
  "zero_VMessEndpoint = \<lparr>ve_Name = '''', ve_Protocol = '''', ve_Address = '''', ve_Port = 0,
     ve_UUID = '''', ve_Cipher = '''', ve_Network = '''', ve_Path = '''', ve_Host = '''',
     ve_TLS = False, ve_ServerName = '''', ve_Flow = '''', ve_PublicKey = '''', ve_ShortID = '''',
     ve_Fingerprint = '''', ve_SpiderX = ''''\<rparr>"

record UpstreamCandidate =
  uc_Key :: string
  uc_Name :: string

definition zero_UpstreamCandidate :: UpstreamCandidate where
  "zero_UpstreamCandidate = \<lparr>uc_Key = '''', uc_Name = ''''\<rparr>"

record VMessUpstream =
  vu_ID :: string
  vu_Name :: string
  vu_Enabled :: bool
  vu_SubscriptionURL :: string
  vu_SelectedKey :: string
  vu_Endpoint :: VMessEndpoint
  vu_Candidates :: "UpstreamCandidate list"
  vu_LastRefresh :: gotime
  vu_LastError :: string
  vu_CreatedAt :: gotime

definition zero_VMessUpstream :: VMessUpstream where
  "zero_VMessUpstream = \<lparr>vu_ID = '''', vu_Name = '''', vu_Enabled = False,
     vu_SubscriptionURL = '''', vu_SelectedKey = '''', vu_Endpoint = zero_VMessEndpoint,
     vu_Candidates = [], vu_LastRefresh = 0, vu_LastError = '''', vu_CreatedAt = 0\<rparr>"

record Link =
  lk_AutoURL :: bool
  lk_URLOverride :: bool
  lk_ID :: string
  lk_AttachmentID :: string
  lk_Name :: string
  lk_URL :: string
  lk_HTTPHost :: string
  lk_TLSServerName :: string
  lk_TLSVerify :: bool
  lk_RealityUUID :: string
  lk_RealityShortID :: string
  lk_Priority :: int
  lk_Weight :: int
  lk_Connections :: int
  lk_MaxStreams :: int
  lk_Enabled :: bool
  lk_TunnelTokenHash :: string
  lk_CreatedAt :: gotime

definition zero_Link :: Link where
  "zero_Link = \<lparr>lk_AutoURL = False, lk_URLOverride = False, lk_ID = '''', lk_AttachmentID = '''',
     lk_Name = '''', lk_URL = '''', lk_HTTPHost = '''', lk_TLSServerName = '''', lk_TLSVerify = False,
     lk_RealityUUID = '''', lk_RealityShortID = '''', lk_Priority = 0, lk_Weight = 0,
     lk_Connections = 0, lk_MaxStreams = 0, lk_Enabled = False, lk_TunnelTokenHash = '''',
     lk_CreatedAt = 0\<rparr>"

record Grant =
  gr_ID :: string
  gr_UserID :: string
  gr_AttachmentID :: string
  gr_VMessUUID :: string
  gr_HY2Auth :: string
  gr_SOCKSUsername :: string
  gr_SOCKSPassword :: string
  gr_Enabled :: bool
  gr_Published :: bool
  gr_CreatedAt :: gotime

definition zero_Grant :: Grant where
  "zero_Grant = \<lparr>gr_ID = '''', gr_UserID = '''', gr_AttachmentID = '''', gr_VMessUUID = '''',
     gr_HY2Auth = '''', gr_SOCKSUsername = '''', gr_SOCKSPassword = '''', gr_Enabled = False,
     gr_Published = False, gr_CreatedAt = 0\<rparr>"

record RetiredGrant =
  rg_UserID :: string
  rg_AttachmentID :: string
  rg_GatewayID :: string
  rg_LinkNames :: "string gomap"
  rg_RetireVersion :: uint64
  rg_ExpiresAt :: gotime

definition zero_RetiredGrant :: RetiredGrant where
  "zero_RetiredGrant = \<lparr>rg_UserID = '''', rg_AttachmentID = '''', rg_GatewayID = '''',
     rg_LinkNames = [], rg_RetireVersion = 0, rg_ExpiresAt = 0\<rparr>"

record RetiredLink =
  rl_AttachmentID :: string
  rl_GatewayID :: string
  rl_AgentID :: string
  rl_Name :: string
  rl_GatewayVersion :: uint64
  rl_AgentVersion :: uint64
  rl_ExpiresAt :: gotime

definition zero_RetiredLink :: RetiredLink where
  "zero_RetiredLink = \<lparr>rl_AttachmentID = '''', rl_GatewayID = '''', rl_AgentID = '''',
     rl_Name = '''', rl_GatewayVersion = 0, rl_AgentVersion = 0, rl_ExpiresAt = 0\<rparr>"

record Enrollment =
  en_ID :: string
  en_NodeID :: string
  en_Role :: Role
  en_TokenHash :: string
  en_ExpiresAt :: gotime
  en_UsedAt :: gotime
  en_CreatedAt :: gotime

definition zero_Enrollment :: Enrollment where
  "zero_Enrollment = \<lparr>en_ID = '''', en_NodeID = '''', en_Role = '''', en_TokenHash = '''',
     en_ExpiresAt = 0, en_UsedAt = 0, en_CreatedAt = 0\<rparr>"

record NodeStatus =
  ns_EmbeddedAgent :: bool
  ns_UpstreamProbeIntervalSeconds :: int
  ns_UpstreamProbes :: bool
  ns_IngressControls :: bool
  ns_HY2Ready :: bool
  ns_IPv6IngressReady :: bool
  ns_NodeID :: string
  ns_Role :: Role
  ns_BinaryVersion :: string
  ns_InstanceID :: string
  ns_Online :: bool
  ns_Ready :: bool
  ns_DesiredVersion :: uint64
  ns_AppliedVersion :: uint64
  ns_ApplyError :: string
  ns_XrayReady :: bool
  ns_XrayError :: string
  ns_ExternalUpstreams :: bool
  ns_LastSuccess :: gotime
  ns_LastSeen :: gotime
  ns_UploadBytes :: uint64
  ns_DownloadBytes :: uint64
  ns_TunnelConnections :: int
  ns_TCPConnections :: int
  ns_UDPAssociations :: int
  ns_LastError :: string
  ns_FailureCounters :: "uint64 gomap"

definition zero_NodeStatus :: NodeStatus where
  "zero_NodeStatus = \<lparr>ns_EmbeddedAgent = False, ns_UpstreamProbeIntervalSeconds = 0,
     ns_UpstreamProbes = False, ns_IngressControls = False, ns_HY2Ready = False,
     ns_IPv6IngressReady = False, ns_NodeID = '''', ns_Role = '''', ns_BinaryVersion = '''',
     ns_InstanceID = '''', ns_Online = False, ns_Ready = False, ns_DesiredVersion = 0,
     ns_AppliedVersion = 0, ns_ApplyError = '''', ns_XrayReady = False, ns_XrayError = '''',
     ns_ExternalUpstreams = False, ns_LastSuccess = 0, ns_LastSeen = 0, ns_UploadBytes = 0,
     ns_DownloadBytes = 0, ns_TunnelConnections = 0, ns_TCPConnections = 0, ns_UDPAssociations = 0,
     ns_LastError = '''', ns_FailureCounters = []\<rparr>"

record Updater =
  up_NodeID :: string
  up_Role :: Role
  up_CredentialHash :: string
  up_PendingCredentialHash :: string
  up_PairTokenHash :: string
  up_PairExpiresAt :: gotime
  up_Mode :: string
  up_Arch :: string
  up_Version :: string
  up_Protocol :: int
  up_LastSeen :: gotime

definition zero_Updater :: Updater where
  "zero_Updater = \<lparr>up_NodeID = '''', up_Role = '''', up_CredentialHash = '''',
     up_PendingCredentialHash = '''', up_PairTokenHash = '''', up_PairExpiresAt = 0, up_Mode = '''',
     up_Arch = '''', up_Version = '''', up_Protocol = 0, up_LastSeen = 0\<rparr>"

record UpgradeTask =
  ut_ID :: string
  ut_Manual :: bool
  ut_BatchID :: string
  ut_NodeID :: string
  ut_Role :: Role
  ut_Actor :: string
  ut_FromVersion :: string
  ut_TargetVersion :: string
  ut_Asset :: string
  ut_BaselineLinks :: "string list"
  ut_SHA256 :: string
  ut_Mode :: string
  ut_Arch :: string
  ut_Stage :: string
  ut_Attempt :: int
  ut_Error :: string
  ut_CreatedAt :: gotime
  ut_ExpiresAt :: gotime
  ut_UpdatedAt :: gotime

definition zero_UpgradeTask :: UpgradeTask where
  "zero_UpgradeTask = \<lparr>ut_ID = '''', ut_Manual = False, ut_BatchID = '''', ut_NodeID = '''',
     ut_Role = '''', ut_Actor = '''', ut_FromVersion = '''', ut_TargetVersion = '''', ut_Asset = '''',
     ut_BaselineLinks = [], ut_SHA256 = '''', ut_Mode = '''', ut_Arch = '''', ut_Stage = '''',
     ut_Attempt = 0, ut_Error = '''', ut_CreatedAt = 0, ut_ExpiresAt = 0, ut_UpdatedAt = 0\<rparr>"

record UpgradeBatch =
  ub_ID :: string
  ub_TaskIDs :: "string list"
  ub_Stage :: string
  ub_Error :: string
  ub_CreatedAt :: gotime
  ub_RecoveryTaskID :: string
  ub_RecoveryDeadline :: gotime

definition zero_UpgradeBatch :: UpgradeBatch where
  "zero_UpgradeBatch = \<lparr>ub_ID = '''', ub_TaskIDs = [], ub_Stage = '''', ub_Error = '''',
     ub_CreatedAt = 0, ub_RecoveryTaskID = '''', ub_RecoveryDeadline = 0\<rparr>"

record LinkStatus =
  ls_LinkID :: string
  ls_ReporterNodeID :: string
  ls_Online :: bool
  ls_Ready :: bool
  ls_Generation :: uint64
  ls_Connections :: int
  ls_ActiveStreams :: int
  ls_TCPConnections :: int
  ls_UDPAssociations :: int
  ls_UploadBytes :: uint64
  ls_DownloadBytes :: uint64
  ls_RTTMillis :: rat
  ls_LastSuccess :: gotime
  ls_LastError :: string
  ls_ProbeTimeouts :: uint64
  ls_QueueDrops :: uint64
  ls_WriteBlockedMillis :: uint64
  ls_WriteStalls :: uint64
  ls_LastSeen :: gotime

definition zero_LinkStatus :: LinkStatus where
  "zero_LinkStatus = \<lparr>ls_LinkID = '''', ls_ReporterNodeID = '''', ls_Online = False,
     ls_Ready = False, ls_Generation = 0, ls_Connections = 0, ls_ActiveStreams = 0,
     ls_TCPConnections = 0, ls_UDPAssociations = 0, ls_UploadBytes = 0, ls_DownloadBytes = 0,
     ls_RTTMillis = 0, ls_LastSuccess = 0, ls_LastError = '''', ls_ProbeTimeouts = 0, ls_QueueDrops = 0,
     ls_WriteBlockedMillis = 0, ls_WriteStalls = 0, ls_LastSeen = 0\<rparr>"

record GrantLinkUsage =
  gl_LinkID :: string
  gl_UploadBytes :: uint64
  gl_DownloadBytes :: uint64

definition zero_GrantLinkUsage :: GrantLinkUsage where
  "zero_GrantLinkUsage = \<lparr>gl_LinkID = '''', gl_UploadBytes = 0, gl_DownloadBytes = 0\<rparr>"

record GrantStatus =
  gs_GrantID :: string
  gs_ReporterNodeID :: string
  gs_UploadBytes :: uint64
  gs_DownloadBytes :: uint64
  gs_Links :: "GrantLinkUsage list"
  gs_TCPConnections :: int
  gs_UDPAssociations :: int
  gs_LastError :: string
  gs_LastSeen :: gotime

definition zero_GrantStatus :: GrantStatus where
  "zero_GrantStatus = \<lparr>gs_GrantID = '''', gs_ReporterNodeID = '''', gs_UploadBytes = 0,
     gs_DownloadBytes = 0, gs_Links = [], gs_TCPConnections = 0, gs_UDPAssociations = 0,
     gs_LastError = '''', gs_LastSeen = 0\<rparr>"

record UsageBucket =
  bu_At :: gotime
  bu_UploadBytes :: uint64
  bu_DownloadBytes :: uint64

definition zero_UsageBucket :: UsageBucket where
  "zero_UsageBucket = \<lparr>bu_At = 0, bu_UploadBytes = 0, bu_DownloadBytes = 0\<rparr>"

record UsageCounter =
  cn_InstanceID :: string
  cn_UploadBytes :: uint64
  cn_DownloadBytes :: uint64

definition zero_UsageCounter :: UsageCounter where
  "zero_UsageCounter = \<lparr>cn_InstanceID = '''', cn_UploadBytes = 0, cn_DownloadBytes = 0\<rparr>"

record MonitorSettings =
  ms_Enabled :: bool
  ms_Nodes :: "string gomap"
  ms_Links :: "string gomap"

definition zero_MonitorSettings :: MonitorSettings where
  "zero_MonitorSettings = \<lparr>ms_Enabled = False, ms_Nodes = [], ms_Links = []\<rparr>"

record LinkSample =
  sm_At :: gotime
  sm_InstanceID :: string
  sm_Generation :: uint64
  sm_UploadBytes :: uint64
  sm_DownloadBytes :: uint64
  sm_RTTMillis :: rat
  sm_Ready :: bool

definition zero_LinkSample :: LinkSample where
  "zero_LinkSample = \<lparr>sm_At = 0, sm_InstanceID = '''', sm_Generation = 0, sm_UploadBytes = 0,
     sm_DownloadBytes = 0, sm_RTTMillis = 0, sm_Ready = False\<rparr>"

record Operation =
  op_At :: gotime
  op_Actor :: string
  op_Action :: string
  op_Status :: int

definition zero_Operation :: Operation where
  "zero_Operation = \<lparr>op_At = 0, op_Actor = '''', op_Action = '''', op_Status = 0\<rparr>"

record State =
  st_RevokedAdminSessions :: "gotime gomap"
  st_Monitor :: MonitorSettings
  st_Revision :: uint64
  st_Users :: "User gomap"
  st_Gateways :: "Gateway gomap"
  st_Agents :: "Agent gomap"
  st_Upstreams :: "VMessUpstream gomap"
  st_Attachments :: "Attachment gomap"
  st_Links :: "Link gomap"
  st_Grants :: "Grant gomap"
  st_RetiredGrants :: "RetiredGrant gomap"
  st_RetiredLinks :: "RetiredLink gomap"
  st_Enrollments :: "Enrollment gomap"
  st_NodeStatus :: "NodeStatus gomap"
  st_LinkStatus :: "LinkStatus gomap"
  st_GrantStatus :: "GrantStatus gomap"
  st_UsageHistory :: "(UsageBucket list) gomap"
  st_UsageLabels :: "string gomap"
  st_UsageCounters :: "UsageCounter gomap"
  st_LinkHistory :: "(LinkSample list) gomap"
  st_Operations :: "Operation list"
  st_Updaters :: "Updater gomap"
  st_UpgradeTasks :: "UpgradeTask gomap"
  st_UpgradeBatches :: "UpgradeBatch gomap"

definition zero_State :: State where
  "zero_State = \<lparr>st_RevokedAdminSessions = [], st_Monitor = zero_MonitorSettings,
     st_Revision = 0, st_Users = [], st_Gateways = [], st_Agents = [], st_Upstreams = [],
     st_Attachments = [], st_Links = [], st_Grants = [], st_RetiredGrants = [], st_RetiredLinks = [],
     st_Enrollments = [], st_NodeStatus = [], st_LinkStatus = [], st_GrantStatus = [],
     st_UsageHistory = [], st_UsageLabels = [], st_UsageCounters = [], st_LinkHistory = [],
     st_Operations = [], st_Updaters = [], st_UpgradeTasks = [], st_UpgradeBatches = []\<rparr>"

subsection \<open>Methods of the model types\<close>

definition VMessEnabled :: "Gateway \<Rightarrow> bool" where
  "VMessEnabled g = (\<not> gw_VMessDisabled g)"

definition HY2Enabled :: "Gateway \<Rightarrow> bool" where
  "HY2Enabled g = (\<not> gw_HY2Disabled g \<and> gw_HY2Port g > 0)"

definition GatewayAgentID :: "string \<Rightarrow> string" where
  "GatewayAgentID gatewayID = ''embedded-'' @ gatewayID"

definition UpstreamIPProbeURL :: string where
  "UpstreamIPProbeURL = ''https://api.ip.sb/ip''"

definition UpstreamMicrosoftProbeURL :: string where
  "UpstreamMicrosoftProbeURL = ''https://www.microsoft.com/''"

definition Successful :: "UpstreamProbeStatus \<Rightarrow> bool" where
  "Successful p =
     (\<not> IsZero (ps_CompletedAt p) \<and>
      (case ps_Targets p of
         [t0, t1] \<Rightarrow> pt_URL t0 = UpstreamIPProbeURL \<and> pt_URL t1 = UpstreamMicrosoftProbeURL \<and>
           pt_Success t0 \<and> pt_Success t1
       | _ \<Rightarrow> False))"

definition ManualHost :: "Gateway \<Rightarrow> string" where
  "ManualHost g =
     (if gw_ManualPublicHost g \<noteq> '''' \<or> gw_PublicHostAuto g then gw_ManualPublicHost g
      else gw_PublicHost g)"

definition NewState :: State where
  "NewState = zero_State"

lemma GatewayAgentID_nonempty [simp]: "GatewayAgentID i \<noteq> ''''"
  by (simp add: GatewayAgentID_def)

lemma GatewayAgentID_inj [simp]: "GatewayAgentID i = GatewayAgentID j \<longleftrightarrow> i = j"
  by (simp add: GatewayAgentID_def)

end
