(* ===== verification/Auth.thy ===== *)
theory Auth
  imports Prelude
begin

text \<open>
  Secrets and administrator sessions (\<open>src/internal/auth/auth.go\<close>) and the unpadded URL-safe base64
  they are written in. \<open>sha256\<close> and \<open>hmac\<close> (key, message) are arguments: the statements hold for any
  functions in their place, and those about equal hashes say so.
\<close>

subsection \<open>Unpadded URL-safe base64\<close>

definition b64_char :: "nat \<Rightarrow> char" where
  "b64_char n =
     (if n < 26 then char_of (65 + n) else if n < 52 then char_of (71 + n)
      else if n < 62 then char_of (n - 4) else if n = 62 then CHR ''-'' else CHR ''_'')"

definition b64_val :: "char \<Rightarrow> nat option" where
  "b64_val c = (let n = of_char c :: nat in
     if 65 \<le> n \<and> n \<le> 90 then Some (n - 65) else if 97 \<le> n \<and> n \<le> 122 then Some (n - 71)
     else if 48 \<le> n \<and> n \<le> 57 then Some (n + 4) else if n = 45 then Some 62
     else if n = 95 then Some 63 else None)"

fun b64_encode :: "string \<Rightarrow> string" where
  "b64_encode (a # b # c # r) =
     (let x = of_char a :: nat; y = of_char b; z = of_char c
      in b64_char (x div 4) # b64_char (x mod 4 * 16 + y div 16) # b64_char (y mod 16 * 4 + z div 64)
         # b64_char (z mod 64) # b64_encode r)"
| "b64_encode [a, b] =
     (let x = of_char a :: nat; y = of_char b
      in [b64_char (x div 4), b64_char (x mod 4 * 16 + y div 16), b64_char (y mod 16 * 4)])"
| "b64_encode [a] = (let x = of_char a :: nat in [b64_char (x div 4), b64_char (x mod 4 * 16)])"
| "b64_encode [] = []"

text \<open>
  Groups of four; a last group of two or three carries one or two bytes, its spare bits are not
  checked. Line breaks in the input are skipped, as \<open>encoding/base64\<close> does.
\<close>

fun b64_groups :: "string \<Rightarrow> string option" where
  "b64_groups (a # b # c # d # r) =
     (case (b64_val a, b64_val b, b64_val c, b64_val d, b64_groups r) of
        (Some w, Some x, Some y, Some z, Some t) \<Rightarrow>
          Some (char_of (w * 4 + x div 16) # char_of (x mod 16 * 16 + y div 4) # char_of (y mod 4 * 64 + z) # t)
      | _ \<Rightarrow> None)"
| "b64_groups [a, b, c] =
     (case (b64_val a, b64_val b, b64_val c) of
        (Some w, Some x, Some y) \<Rightarrow> Some [char_of (w * 4 + x div 16), char_of (x mod 16 * 16 + y div 4)]
      | _ \<Rightarrow> None)"
| "b64_groups [a, b] =
     (case (b64_val a, b64_val b) of (Some w, Some x) \<Rightarrow> Some [char_of (w * 4 + x div 16)] | _ \<Rightarrow> None)"
| "b64_groups [a] = None"
| "b64_groups [] = Some []"

definition b64_decode :: "string \<Rightarrow> string option" where
  "b64_decode s = b64_groups (filter (\<lambda>c. c \<noteq> CHR 0x0A \<and> c \<noteq> CHR 0x0D) s)"

lemma b64_val_char: "n < 64 \<Longrightarrow> b64_val (b64_char n) = Some n"
  by (auto simp: b64_val_def b64_char_def Let_def)

lemma b64_char_code:
  "n < 64 \<Longrightarrow> b64_char n \<noteq> CHR 0x0A \<and> b64_char n \<noteq> CHR 0x0D \<and> b64_char n \<noteq> CHR ''.''"
proof -
  assume "n < 64"
  then have "b64_val (b64_char n) \<noteq> None" by (simp add: b64_val_char)
  moreover have "b64_val CHR 0x0A = None" "b64_val CHR 0x0D = None" "b64_val CHR ''.'' = None"
    by (simp_all add: b64_val_def)
  ultimately show ?thesis by metis
qed

lemma b64_bits: "x < 256 \<Longrightarrow> y < 256 \<Longrightarrow>
    x div 4 < 64 \<and> x mod 4 * 16 + y div 16 < 64 \<and> x mod 4 * 16 < 64 \<and> y mod 16 * 4 + x div 64 < 64 \<and> y mod 16 * 4 < 64
    \<and> x mod (64::nat) < 64"
  by (auto simp: less_mult_imp_div_less intro: le_less_trans [of _ "3 * 16 + 15"] le_less_trans [of _ "15 * 4 + 3"])

lemma b64_chars: "c \<in> set (b64_encode s) \<Longrightarrow> c \<noteq> CHR 0x0A \<and> c \<noteq> CHR 0x0D \<and> c \<noteq> CHR ''.''"
proof (induction s rule: b64_encode.induct)
  case (1 a b d r)
  have "(of_char a :: nat) < 256" "(of_char b :: nat) < 256" "(of_char d :: nat) < 256" by simp_all
  with 1 b64_bits [of "of_char a" "of_char b"] b64_bits [of "of_char d" "of_char b"]
  show ?case by (auto simp: Let_def b64_char_code)
next
  case (2 a b)
  have "(of_char a :: nat) < 256" "(of_char b :: nat) < 256" by simp_all
  with 2 b64_bits [of "of_char a" "of_char b"] show ?case by (auto simp: Let_def b64_char_code)
next
  case (3 a)
  have "(of_char a :: nat) < 256" by simp
  with 3 b64_bits [of "of_char a" "of_char a"] show ?case by (auto simp: Let_def b64_char_code)
qed simp

lemma div_mod_split: "k < m \<Longrightarrow> (q * m + k) div m = q" "k < m \<Longrightarrow> (q * m + k) mod m = (k::nat)"
  by simp_all

lemma b64_join:
  fixes x y z :: nat
  assumes "y < 256" "z < 256"
  shows "x div 4 * 4 + (x mod 4 * 16 + y div 16) div 16 = x"
    and "(x mod 4 * 16 + y div 16) mod 16 * 16 + (y mod 16 * 4 + z div 64) div 4 = y"
    and "(y mod 16 * 4 + z div 64) mod 4 * 64 + z mod 64 = z"
proof -
  have y: "y div 16 < 16" and z: "z div 64 < 4" using assms by (simp_all add: less_mult_imp_div_less)
  show "x div 4 * 4 + (x mod 4 * 16 + y div 16) div 16 = x"
    unfolding div_mod_split(1) [OF y] by simp
  show "(x mod 4 * 16 + y div 16) mod 16 * 16 + (y mod 16 * 4 + z div 64) div 4 = y"
    unfolding div_mod_split(2) [OF y] div_mod_split(1) [OF z] by simp
  show "(y mod 16 * 4 + z div 64) mod 4 * 64 + z mod 64 = z"
    unfolding div_mod_split(2) [OF z] by simp
qed

lemma b64_group_vals:
  assumes "x < 256" "y < 256" "z < 256"
  shows "b64_val (b64_char (x div 4)) = Some (x div 4)"
    and "b64_val (b64_char (x mod 4 * 16 + y div 16)) = Some (x mod 4 * 16 + y div 16)"
    and "b64_val (b64_char (y mod 16 * 4 + z div 64)) = Some (y mod 16 * 4 + z div 64)"
    and "b64_val (b64_char (z mod 64)) = Some (z mod 64)"
  using b64_bits [OF assms(1,2)] b64_bits [OF assms(3,2)] by (simp_all add: b64_val_char)

lemma char_of_join:
  fixes a b d :: char
  defines "x \<equiv> of_char a :: nat" and "y \<equiv> of_char b :: nat" and "z \<equiv> of_char d :: nat"
  shows "char_of (x div 4 * 4 + (x mod 4 * 16 + y div 16) div 16) = a"
    and "char_of ((x mod 4 * 16 + y div 16) mod 16 * 16 + (y mod 16 * 4 + z div 64) div 4) = b"
    and "char_of ((y mod 16 * 4 + z div 64) mod 4 * 64 + z mod 64) = d"
proof -
  have "y < 256" "z < 256" by (simp_all add: y_def z_def)
  note j = b64_join [OF this]
  show "char_of (x div 4 * 4 + (x mod 4 * 16 + y div 16) div 16) = a"
    unfolding j(1) by (simp add: x_def)
  show "char_of ((x mod 4 * 16 + y div 16) mod 16 * 16 + (y mod 16 * 4 + z div 64) div 4) = b"
    unfolding j(2) by (simp add: y_def)
  show "char_of ((y mod 16 * 4 + z div 64) mod 4 * 64 + z mod 64) = d"
    unfolding j(3) by (simp add: z_def)
qed

lemma b64_groups_encode: "b64_groups (b64_encode s) = Some s"
proof (induction s rule: b64_encode.induct)
  case (1 a b d r)
  have lt: "(of_char a :: nat) < 256" "(of_char b :: nat) < 256" "(of_char d :: nat) < 256" by simp_all
  from 1 have ih: "b64_groups (b64_encode r) = Some r" by blast
  show ?case
    by (simp only: b64_encode.simps b64_groups.simps Let_def b64_group_vals [OF lt] ih prod.case option.case
        char_of_join)
next
  case (2 a b)
  have lt: "(of_char a :: nat) < 256" "(of_char b :: nat) < 256" "(of_char CHR 0x00 :: nat) < 256" by simp_all
  show ?case
    using b64_group_vals [OF lt] char_of_join(1) [of a b] char_of_join(2) [of a b "CHR 0x00"]
    by (simp only: b64_encode.simps b64_groups.simps Let_def prod.case option.case of_char_Char) simp
next
  case (3 a)
  have lt: "(of_char a :: nat) < 256" "(of_char CHR 0x00 :: nat) < 256" by simp_all
  show ?case
    using b64_group_vals [OF lt lt(2)] char_of_join(1) [of a "CHR 0x00"] by (simp add: Let_def)
qed simp

lemma b64_decode_encode [simp]: "b64_decode (b64_encode s) = Some s"
proof -
  have "filter (\<lambda>c. c \<noteq> CHR 0x0A \<and> c \<noteq> CHR 0x0D) (b64_encode s) = b64_encode s"
    using b64_chars [of _ s] by (simp add: filter_id_conv)
  then show ?thesis by (simp add: b64_decode_def b64_groups_encode)
qed

lemma b64_encode_inj: "b64_encode s = b64_encode t \<longleftrightarrow> s = t"
  by (metis b64_decode_encode option.inject)

subsection \<open>Secrets\<close>

definition SecretHash :: "(string \<Rightarrow> string) \<Rightarrow> string \<Rightarrow> string" where
  "SecretHash sha256 secret = b64_encode (sha256 secret)"

definition EqualSecretHash :: "(string \<Rightarrow> string) \<Rightarrow> string \<Rightarrow> string \<Rightarrow> bool" where
  "EqualSecretHash sha256 hash secret =
     (case b64_decode hash of
        None \<Rightarrow> False
      | Some want \<Rightarrow> (let got = sha256 secret in length want = length got \<and> want = got))"

definition Derive :: "(string \<Rightarrow> string \<Rightarrow> string) \<Rightarrow> string \<Rightarrow> string \<Rightarrow> string \<Rightarrow> string" where
  "Derive hmac secret purpose i = b64_encode (hmac secret (purpose @ [CHR 0x00] @ i))"

text \<open>\<open>PasswordHash\<close>: \<open>bcrypt\<close> is the third-party hash, which may fail.\<close>

definition PasswordHash :: "(string \<Rightarrow> error + string) \<Rightarrow> string \<Rightarrow> error + string" where
  "PasswordHash bcrypt password =
     (if length password < 12 then Inl ''password must contain at least 12 characters'' else bcrypt password)"

subsection \<open>Sessions\<close>

fun split_on :: "char \<Rightarrow> string \<Rightarrow> string list" where
  "split_on c [] = [[]]"
| "split_on c (x # xs) =
     (if x = c then [] # split_on c xs
      else case split_on c xs of [] \<Rightarrow> [[x]] | y # ys \<Rightarrow> (x # y) # ys)"

fun join_with :: "string \<Rightarrow> string list \<Rightarrow> string" where
  "join_with sep [] = []"
| "join_with sep [x] = x"
| "join_with sep (x # xs) = x @ sep @ join_with sep xs"

definition SignSession ::
    "(string \<Rightarrow> string \<Rightarrow> string) \<Rightarrow> (error + string) \<Rightarrow> string \<Rightarrow> string \<Rightarrow> gotime \<Rightarrow> string" where
  "SignSession hmac token secret username expires =
     (case token of
        Inl err \<Rightarrow> []
      | Inr nonce \<Rightarrow>
          (let payload = b64_encode username @ ''.'' @ Itoa (time_unix expires) @ ''.'' @ nonce
           in payload @ ''.'' @ b64_encode (hmac secret payload)))"

definition VerifySession ::
    "(string \<Rightarrow> string \<Rightarrow> string) \<Rightarrow> string \<Rightarrow> string \<Rightarrow> gotime \<Rightarrow> string option" where
  "VerifySession hmac secret v now =
     (case split_on CHR ''.'' v of
        [p0, p1, p2, p3] \<Rightarrow>
          (let payload = join_with ''.'' [p0, p1, p2] in
           case b64_decode p3 of
             None \<Rightarrow> None
           | Some want \<Rightarrow>
               if want \<noteq> hmac secret payload then None
               else (case ParseInt p1 of
                       None \<Rightarrow> None
                     | Some expires \<Rightarrow> if expires \<le> time_unix now then None else b64_decode p0))
      | _ \<Rightarrow> None)"

lemma split_on_nonempty: "split_on c s \<noteq> []"
  by (induction s) (auto split: list.splits)

lemma split_on_single: "c \<notin> set s \<Longrightarrow> split_on c s = [s]"
  by (induction s) auto

lemma split_on_append: "c \<notin> set p \<Longrightarrow> split_on c (p @ c # q) = p # split_on c q"
  by (induction p) auto

lemma join_split: "join_with [c] (split_on c s) = s"
proof (induction s)
  case (Cons x xs)
  obtain y ys where y: "split_on c xs = y # ys" using split_on_nonempty [of c xs] by (cases "split_on c xs") auto
  with Cons show ?case by (cases ys) auto
qed simp

lemma Itoa_no_dot: "CHR ''.'' \<notin> set (Itoa i)"
proof -
  have "digit_val CHR ''.'' = None" by (simp add: digit_val_def)
  then have "CHR ''.'' \<notin> set (nat_digits n)" for n using digit_chars_nat_digits [of "CHR ''.''" n] by auto
  then show ?thesis by (simp add: Itoa_def)
qed

lemma b64_no_dot: "CHR ''.'' \<notin> set (b64_encode s)"
  using b64_chars [of "CHR ''.''" s] by auto

text \<open>A token never contains the separator: it is itself base64.\<close>

definition token_ok :: "string \<Rightarrow> bool" where
  "token_ok nonce = (CHR ''.'' \<notin> set nonce)"

lemma split_session:
  assumes "token_ok nonce"
  shows "split_on CHR ''.'' (SignSession hmac (Inr nonce) secret username expires) =
    [b64_encode username, Itoa (time_unix expires), nonce,
     b64_encode (hmac secret (join_with ''.'' [b64_encode username, Itoa (time_unix expires), nonce]))]"
  using assms Itoa_no_dot [of "time_unix expires"]
  by (simp add: SignSession_def Let_def split_on_append split_on_single token_ok_def b64_no_dot)

lemma verify_signed:
  assumes "token_ok nonce" and "\<bar>time_unix expires\<bar> < 2 ^ 63"
  shows "VerifySession hmac secret (SignSession hmac (Inr nonce) secret username expires) now =
    (if time_unix now < time_unix expires then Some username else None)"
proof -
  have "ParseInt (Itoa (time_unix expires)) = Some (time_unix expires)"
    by (rule ParseInt_Itoa) (use assms(2) in auto)
  then show ?thesis by (simp add: VerifySession_def split_session [OF assms(1)] Let_def)
qed

text \<open>A session cookie that \<open>SignSession\<close> issued is accepted for exactly the user it was issued to,
  and exactly while the current Unix second is before its expiry.\<close>

theorem session_roundtrip:
  assumes "token_ok nonce" and "\<bar>time_unix expires\<bar> < 2 ^ 63"
  shows "VerifySession hmac secret (SignSession hmac (Inr nonce) secret username expires) now =
    (if time_unix now < time_unix expires then Some username else None)"
  using assms by (rule verify_signed)

text \<open>Nothing else is accepted: a cookie that verifies carries a MAC of its own first three fields
  under the session key, an expiry that has not passed, and the base64 of the user it names.\<close>

theorem VerifySession_sound:
  assumes "VerifySession hmac secret v now = Some user"
  shows "\<exists>p0 p1 p2 p3 expires. v = join_with ''.'' [p0, p1, p2, p3] \<and>
    b64_decode p3 = Some (hmac secret (join_with ''.'' [p0, p1, p2])) \<and>
    ParseInt p1 = Some expires \<and> time_unix now < expires \<and> b64_decode p0 = Some user"
proof -
  obtain p0 p1 p2 p3 where p: "split_on CHR ''.'' v = [p0, p1, p2, p3]"
    using assms by (auto simp: VerifySession_def split: list.splits)
  then have "v = join_with ''.'' [p0, p1, p2, p3]" using join_split [of "CHR ''.''" v] by simp
  moreover have "b64_decode p3 = Some (hmac secret (join_with ''.'' [p0, p1, p2]))"
    using assms p by (auto simp: VerifySession_def Let_def split: option.splits if_splits)
  moreover obtain expires where "ParseInt p1 = Some expires" "time_unix now < expires" "b64_decode p0 = Some user"
    using assms p by (auto simp: VerifySession_def Let_def split: option.splits if_splits)
  ultimately show ?thesis by blast
qed

lemma EqualSecretHash_SecretHash [simp]:
  "EqualSecretHash sha256 (SecretHash sha256 s) t \<longleftrightarrow> sha256 s = sha256 t"
  by (auto simp: EqualSecretHash_def SecretHash_def Let_def)

definition demo_hmac :: "string \<Rightarrow> string \<Rightarrow> string" where
  "demo_hmac key message = take 4 (key @ message)"

theorem session_roundtrip_witness:
  "VerifySession demo_hmac ''k'' (SignSession demo_hmac (Inr ''nonce'') ''k'' ''admin'' (62135596900 * second))
     (62135596899 * second) = Some ''admin''"
proof -
  have "token_ok ''nonce''" by (simp add: token_ok_def)
  moreover have "\<bar>time_unix (62135596900 * second)\<bar> < 2 ^ 63" by (simp add: time_unix_def)
  ultimately show ?thesis
    using session_roundtrip [of "''nonce''" "62135596900 * second" demo_hmac "''k''" "''admin''" "62135596899 * second"]
    by (simp add: time_unix_def)
qed

theorem VerifySession_sound_witness:
  "\<exists>p0 p1 p2 p3 expires. SignSession demo_hmac (Inr ''nonce'') ''k'' ''admin'' (62135596900 * second)
      = join_with ''.'' [p0, p1, p2, p3] \<and> ParseInt p1 = Some expires \<and> 99 < expires"
proof -
  let ?v = "SignSession demo_hmac (Inr ''nonce'') ''k'' ''admin'' (62135596900 * second)"
  have "VerifySession demo_hmac ''k'' ?v (62135596899 * second) = Some ''admin''"
    by (simp add: VerifySession_def split_session token_ok_def Let_def time_unix_def ParseInt_Itoa del: b64_encode.simps)
  from VerifySession_sound [OF this] show ?thesis by (auto simp: time_unix_def)
qed

end
