(* ===== verification/State_Store.thy ===== *)
theory State_Store
  imports Model Auth
begin

text \<open>
  The durable store of the control-plane state (\<open>src/internal/store/store.go\<close> and
  \<open>subscriptions.go\<close>). A transaction is a function on the state that may fail; \<open>Update\<close> runs it
  on a copy, bumps the revision, protects the subscription tokens, writes the result to disk and
  only then makes it the current state. \<open>Snapshot\<close> and \<open>View\<close> read the current state: values are
  immutable here, so \<open>Clone\<close> is the identity.

  \<open>StoreEnv\<close> gathers what the store calls outside the sources: SHA-256, the AEAD (sealing with a
  fresh nonce, which fails when no randomness is available, and opening) and the outcome of
  replacing the file on disk. The random nonce of the user stored under \<open>id\<close> is part of \<open>se_seal\<close>.
\<close>

record StoreEnv =
  se_sha256 :: "string \<Rightarrow> string"
  se_seal :: "string \<Rightarrow> string \<Rightarrow> string \<Rightarrow> error + string"   \<comment> \<open>key, user ID, token: nonce and ciphertext\<close>
  se_open :: "string \<Rightarrow> string \<Rightarrow> string \<Rightarrow> error + string"   \<comment> \<open>key, user ID, nonce and ciphertext\<close>
  se_nonceSize :: nat
  se_write :: "State \<Rightarrow> error option"                      \<comment> \<open>the outcome of \<open>writeAtomic\<close>\<close>

record Store =
  sr_state :: State
  sr_key :: string
  sr_disk :: "State option"

definition store_Snapshot :: "Store \<Rightarrow> State" where
  "store_Snapshot s = sr_state s"

text \<open>\<open>Open\<close>: \<open>file\<close> is the decoded state file, \<open>None\<close> when there is none yet.\<close>

definition store_Open :: "(error + State option) \<Rightarrow> error + Store" where
  "store_Open file =
     (case file of
        Inl err \<Rightarrow> Inl err
      | Inr None \<Rightarrow> Inr \<lparr>sr_state = NewState, sr_key = '''', sr_disk = None\<rparr>
      | Inr (Some state) \<Rightarrow> Inr \<lparr>sr_state = state, sr_key = '''', sr_disk = Some state\<rparr>)"

text \<open>One round of the loop of \<open>protectSubscriptionTokens\<close>: the user to keep in memory.\<close>

definition protect_user :: "StoreEnv \<Rightarrow> string \<Rightarrow> string \<Rightarrow> User \<Rightarrow> error + User" where
  "protect_user env key i user =
     (let opened =
        (if u_SubscriptionToken user = [] \<and> u_SubscriptionTokenCipher user \<noteq> [] then
           (case b64_decode (u_SubscriptionTokenCipher user) of
              None \<Rightarrow> Inl (''invalid subscription ciphertext for user '' @ i)
            | Some data \<Rightarrow>
                if length data < se_nonceSize env then Inl (''invalid subscription ciphertext for user '' @ i)
                else (case se_open env key i data of
                        Inl err \<Rightarrow> Inl (''decrypt subscription for user '' @ i @ '': '' @ err)
                      | Inr plain \<Rightarrow>
                          if EqualSecretHash (se_sha256 env) (u_SubscriptionTokenHash user) plain
                          then Inr (user\<lparr>u_SubscriptionToken := plain\<rparr>)
                          else Inl (''subscription hash mismatch for user '' @ i)))
         else Inr user)
      in case opened of
           Inl err \<Rightarrow> Inl err
         | Inr u \<Rightarrow>
             if u_SubscriptionToken u \<noteq> [] \<and>
                (u_SubscriptionTokenCipher u = [] \<or>
                 \<not> EqualSecretHash (se_sha256 env) (u_SubscriptionTokenHash u) (u_SubscriptionToken u))
             then (case se_seal env key i (u_SubscriptionToken u) of
                     Inl err \<Rightarrow> Inl (''generate subscription nonce: '' @ err)
                   | Inr sealed \<Rightarrow>
                       Inr (u\<lparr>u_SubscriptionTokenCipher := b64_encode sealed,
                              u_SubscriptionTokenHash := SecretHash (se_sha256 env) (u_SubscriptionToken u)\<rparr>))
             else Inr u)"

fun protect_users :: "StoreEnv \<Rightarrow> string \<Rightarrow> User gomap \<Rightarrow> error + User gomap" where
  "protect_users env key [] = Inr []"
| "protect_users env key ((i, user) # m) =
     (case protect_user env key i user of
        Inl err \<Rightarrow> Inl err
      | Inr u \<Rightarrow> (case protect_users env key m of Inl err \<Rightarrow> Inl err | Inr m' \<Rightarrow> Inr ((i, u) # m')))"

text \<open>The state to keep in memory and the one to write: the latter has no token in the clear.\<close>

definition protectSubscriptionTokens :: "StoreEnv \<Rightarrow> State \<Rightarrow> string \<Rightarrow> error + State \<times> State" where
  "protectSubscriptionTokens env state key =
     (if key = [] then
        (if list_ex (\<lambda>user. u_SubscriptionTokenCipher user \<noteq> []) (mvals (st_Users state))
         then Inl ''configure subscription encryption before updating protected state''
         else Inr (state, state))
      else if length key \<notin> {16, 24, 32} then Inl ''crypto/aes: invalid key size''
      else case protect_users env key (st_Users state) of
          Inl err \<Rightarrow> Inl err
        | Inr users \<Rightarrow>
            Inr (state\<lparr>st_Users := users\<rparr>,
                 state\<lparr>st_Users := mmap (\<lambda>_ u. u\<lparr>u_SubscriptionToken := []\<rparr>) users\<rparr>))"

type_synonym 'a tx = "State \<Rightarrow> error + 'a \<times> State"

definition Update :: "StoreEnv \<Rightarrow> 'a tx \<Rightarrow> Store \<Rightarrow> (error + 'a) \<times> Store" where
  "Update env fn s =
     (case fn (store_Snapshot s) of
        Inl err \<Rightarrow> (Inl err, s)
      | Inr (result, next) \<Rightarrow>
          (let next' = next\<lparr>st_Revision := st_Revision next + 1\<rparr> in
           case protectSubscriptionTokens env next' (sr_key s) of
             Inl err \<Rightarrow> (Inl err, s)
           | Inr (kept, persisted) \<Rightarrow>
               (case se_write env persisted of
                  Some err \<Rightarrow> (Inl err, s)
                | None \<Rightarrow> (Inr result, s\<lparr>sr_state := kept, sr_disk := Some persisted\<rparr>))))"

text \<open>\<open>ProtectSubscriptions\<close>, run when the Controller starts, and the key it derives.\<close>

definition subscription_key :: "StoreEnv \<Rightarrow> string \<Rightarrow> string" where
  "subscription_key env secret = se_sha256 env (''xmesh subscription tokens v1'' @ [CHR 0x00] @ secret)"

definition ProtectSubscriptions :: "StoreEnv \<Rightarrow> string \<Rightarrow> Store \<Rightarrow> error option \<times> Store" where
  "ProtectSubscriptions env secret s =
     (if length secret < 32 then (Some ''subscription encryption requires a 32-byte session secret'', s)
      else
        let key = subscription_key env secret;
            snapshot = store_Snapshot s;
            next = (if sr_key s \<noteq> [] \<and> sr_key s \<noteq> key
                    then snapshot\<lparr>st_Users := mmap (\<lambda>_ u. u\<lparr>u_SubscriptionTokenCipher := []\<rparr>) (st_Users snapshot)\<rparr>
                    else snapshot)
        in case protectSubscriptionTokens env next key of
             Inl err \<Rightarrow> (Some err, s)
           | Inr (kept, persisted) \<Rightarrow>
               (if st_Users kept \<noteq> [] then
                  (case se_write env persisted of
                     Some err \<Rightarrow> (Some err, s)
                   | None \<Rightarrow> (None, s\<lparr>sr_key := key, sr_state := kept, sr_disk := Some persisted\<rparr>))
                else (None, s\<lparr>sr_key := key, sr_state := kept\<rparr>)))"

subsection \<open>Protection of the tokens\<close>

text \<open>What a protected user looks like: a ciphertext beside the token, and the hash of the token.\<close>

definition user_protected :: "StoreEnv \<Rightarrow> User \<Rightarrow> bool" where
  "user_protected env u \<longleftrightarrow>
     u_SubscriptionToken u = [] \<or>
     u_SubscriptionTokenCipher u \<noteq> [] \<and>
     EqualSecretHash (se_sha256 env) (u_SubscriptionTokenHash u) (u_SubscriptionToken u)"

lemma protect_user_fields:
  "protect_user env key i user = Inr u \<Longrightarrow>
   u = user\<lparr>u_SubscriptionToken := u_SubscriptionToken u, u_SubscriptionTokenCipher := u_SubscriptionTokenCipher u,
            u_SubscriptionTokenHash := u_SubscriptionTokenHash u\<rparr>"
  by (auto simp: protect_user_def Let_def split: if_splits option.splits sum.splits)

lemma protect_user_token:
  "protect_user env key i user = Inr u \<Longrightarrow> u_SubscriptionToken user \<noteq> [] \<Longrightarrow>
   u_SubscriptionToken u = u_SubscriptionToken user"
  by (auto simp: protect_user_def Let_def split: if_splits option.splits sum.splits)

lemma b64_encode_nonempty: "s \<noteq> [] \<Longrightarrow> b64_encode s \<noteq> []"
  by (cases s rule: b64_encode.cases) (auto simp: Let_def)

lemma protect_user_protected:
  assumes "protect_user env key i user = Inr u" and "\<And>t c. se_seal env key i t = Inr c \<Longrightarrow> c \<noteq> []"
  shows "user_protected env u"
  using assms
  by (auto simp: protect_user_def user_protected_def Let_def b64_encode_nonempty
      split: if_splits option.splits sum.splits)

lemma protect_users_get:
  assumes "protect_users env key m = Inr m'"
  shows "map fst m' = map fst m"
    and "mget m' i = Some u \<Longrightarrow> \<exists>user. mget m i = Some user \<and> protect_user env key i user = Inr u"
    and "mget m i = Some user \<Longrightarrow> \<exists>u. mget m' i = Some u \<and> protect_user env key i user = Inr u"
  using assms
  by (induction env key m arbitrary: m' rule: protect_users.induct) (auto split: sum.splits if_splits)


text \<open>A user whose token can be recovered from the ciphertext, and one that \<open>protect_user\<close> brings there.\<close>

definition user_sealed :: "StoreEnv \<Rightarrow> string \<Rightarrow> string \<Rightarrow> User \<Rightarrow> bool" where
  "user_sealed env key i u \<longleftrightarrow>
     (if u_SubscriptionTokenCipher u = [] then u_SubscriptionToken u = []
      else case b64_decode (u_SubscriptionTokenCipher u) of
          None \<Rightarrow> False
        | Some data \<Rightarrow>
            se_nonceSize env \<le> length data \<and>
            se_open env key i data = Inr (u_SubscriptionToken u) \<and>
            EqualSecretHash (se_sha256 env) (u_SubscriptionTokenHash u) (u_SubscriptionToken u))"

definition user_consistent :: "StoreEnv \<Rightarrow> string \<Rightarrow> string \<Rightarrow> User \<Rightarrow> bool" where
  "user_consistent env key i u \<longleftrightarrow>
     u_SubscriptionTokenCipher u = [] \<or> u_SubscriptionToken u = [] \<or>
     \<not> EqualSecretHash (se_sha256 env) (u_SubscriptionTokenHash u) (u_SubscriptionToken u) \<or>
     user_sealed env key i u"

definition aead_ok :: "StoreEnv \<Rightarrow> string \<Rightarrow> bool" where
  "aead_ok env key \<longleftrightarrow>
     (\<forall>i t c. se_seal env key i t = Inr c \<longrightarrow>
        se_open env key i c = Inr t \<and> se_nonceSize env \<le> length c \<and> c \<noteq> [])"

lemma protect_user_sealed:
  assumes "aead_ok env key" and "protect_user env key i user = Inr u" and "user_consistent env key i user"
  shows "user_sealed env key i u"
proof -
  have seal: "se_open env key i c = Inr t \<and> se_nonceSize env \<le> length c \<and> c \<noteq> []" if "se_seal env key i t = Inr c" for t c
    using assms(1) that by (auto simp: aead_ok_def)
  consider (opened) "u_SubscriptionToken user = []" "u_SubscriptionTokenCipher user \<noteq> []"
    | (none) "u_SubscriptionToken user = []" "u_SubscriptionTokenCipher user = []"
    | (token) "u_SubscriptionToken user \<noteq> []" by blast
  then show ?thesis
  proof cases
    case opened
    with assms(2) show ?thesis
      by (auto simp: protect_user_def user_sealed_def Let_def split: if_splits option.splits sum.splits)
  next
    case none
    with assms(2) show ?thesis by (auto simp: protect_user_def user_sealed_def)
  next
    case token
    with assms(2,3) show ?thesis
      by (auto simp: protect_user_def user_consistent_def user_sealed_def Let_def b64_encode_nonempty
          dest: seal split: if_splits option.splits sum.splits)
  qed
qed

lemma protect_user_reopen:
  "user_sealed env key i u \<Longrightarrow> protect_user env key i (u\<lparr>u_SubscriptionToken := []\<rparr>) = Inr u"
  by (cases "u_SubscriptionTokenCipher u = []")
     (auto simp: user_sealed_def protect_user_def Let_def split: option.splits)

lemma protect_users_sealed:
  assumes "aead_ok env key" and "protect_users env key m = Inr m'"
    and "\<And>i user. (i, user) \<in> set m \<Longrightarrow> user_consistent env key i user"
  shows "(i, u) \<in> set m' \<Longrightarrow> user_sealed env key i u"
  using assms(2,3)
proof (induction m arbitrary: m')
  case (Cons iu m)
  obtain j user where iu: "iu = (j, user)" by (cases iu)
  obtain v mv where v: "protect_user env key j user = Inr v" and mv: "protect_users env key m = Inr mv"
    and m': "m' = (j, v) # mv"
    using Cons.prems(2) iu by (auto split: sum.splits)
  show ?case
  proof (cases "(i, u) = (j, v)")
    case True
    then show ?thesis using protect_user_sealed [OF assms(1) v] Cons.prems(3) iu by simp
  next
    case False
    then show ?thesis using Cons.IH [OF _ mv] Cons.prems m' by auto
  qed
qed simp

lemma protect_users_reopen:
  "(\<And>i u. (i, u) \<in> set m \<Longrightarrow> user_sealed env key i u) \<Longrightarrow>
   protect_users env key (mmap (\<lambda>_ u. u\<lparr>u_SubscriptionToken := []\<rparr>) m) = Inr m"
  by (induction m) (auto simp: mmap_def protect_user_reopen)

subsection \<open>Transactions\<close>

lemma Update_error: "Update env fn s = (Inl err, s') \<Longrightarrow> s' = s"
  by (auto simp: Update_def Let_def split: sum.splits prod.splits option.splits)

lemma Update_ok:
  assumes "Update env fn s = (Inr r, s')"
  obtains nxt kept persisted where "fn (sr_state s) = Inr (r, nxt)"
    and "protectSubscriptionTokens env (nxt\<lparr>st_Revision := st_Revision nxt + 1\<rparr>) (sr_key s) = Inr (kept, persisted)"
    and "se_write env persisted = None" and "s' = s\<lparr>sr_state := kept, sr_disk := Some persisted\<rparr>"
  using assms
  by (auto simp: Update_def store_Snapshot_def Let_def split: sum.splits prod.splits option.splits)

lemma protect_tokens_cases:
  assumes "protectSubscriptionTokens env state key = Inr (kept, persisted)"
  obtains "key = []" "kept = state" "persisted = state"
      "\<And>u. u \<in> set (mvals (st_Users state)) \<Longrightarrow> u_SubscriptionTokenCipher u = []"
    | users where "key \<noteq> []" "protect_users env key (st_Users state) = Inr users"
      "kept = state\<lparr>st_Users := users\<rparr>"
      "persisted = state\<lparr>st_Users := mmap (\<lambda>_ u. u\<lparr>u_SubscriptionToken := []\<rparr>) users\<rparr>"
  using assms
  by (auto simp: protectSubscriptionTokens_def list_ex_iff split: if_splits sum.splits)

text \<open>The account of a user: every field but the three that hold the token.\<close>

definition same_account :: "User \<Rightarrow> User \<Rightarrow> bool" where
  "same_account u v \<longleftrightarrow>
     v = u\<lparr>u_SubscriptionToken := u_SubscriptionToken v, u_SubscriptionTokenCipher := u_SubscriptionTokenCipher v,
            u_SubscriptionTokenHash := u_SubscriptionTokenHash v\<rparr>"

lemma same_account_refl [simp]: "same_account u u"
  by (simp add: same_account_def)

lemma same_account_fields:
  "same_account u v \<Longrightarrow> u_ID v = u_ID u \<and> u_Enabled v = u_Enabled u \<and> u_Name v = u_Name u"
  by (cases u; cases v) (simp add: same_account_def)


definition accounts_match :: "User gomap \<Rightarrow> User gomap \<Rightarrow> bool" where
  "accounts_match m m' = list_all2 (\<lambda>(i, u) (j, v). i = j \<and> same_account u v) m m'"

lemma accounts_match_refl [simp]: "accounts_match m m"
  unfolding accounts_match_def by (rule list_all2_refl) auto

lemma accounts_match_keys: "accounts_match m m' \<Longrightarrow> map fst m' = map fst m"
  unfolding accounts_match_def by (induction rule: list_all2_induct) auto

lemma accounts_match_get:
  "accounts_match m m' \<Longrightarrow> mget m' i = Some v \<Longrightarrow> \<exists>u. mget m i = Some u \<and> same_account u v"
  unfolding accounts_match_def by (induction rule: list_all2_induct) (auto simp: mget_def split: if_splits)

lemma protect_users_account: "protect_users env key m = Inr m' \<Longrightarrow> accounts_match m m'"
proof (induction m arbitrary: m')
  case (Cons p m)
  then show ?case
    using protect_user_fields [of env key "fst p" "snd p"]
    by (cases p) (auto simp: accounts_match_def same_account_def split: sum.splits)
qed (simp add: accounts_match_def)

text \<open>
  What a property of the state needs in order to survive \<open>Update\<close>: it does not look at the
  revision nor at the token fields of the users.
\<close>

locale state_invariant =
  fixes inv :: "State \<Rightarrow> bool"
  assumes revision: "inv s \<Longrightarrow> inv (s\<lparr>st_Revision := r\<rparr>)"
    and accounts: "inv s \<Longrightarrow> accounts_match (st_Users s) users \<Longrightarrow> inv (s\<lparr>st_Users := users\<rparr>)"
begin

lemma protect_kept:
  assumes "protectSubscriptionTokens env s key = Inr (kept, persisted)" and "inv s"
  shows "inv kept"
  using assms(1)
proof (cases rule: protect_tokens_cases)
  case 1
  then show ?thesis using assms(2) by simp
next
  case (2 users)
  then show ?thesis using accounts [OF assms(2) protect_users_account [OF 2(2)]] by simp
qed

lemma Update_preserves:
  assumes "inv (sr_state s)" and "\<And>r n. fn (sr_state s) = Inr (r, n) \<Longrightarrow> inv n"
  shows "inv (sr_state (snd (Update env fn s)))"
proof (cases "Update env fn s")
  case (Pair out s')
  show ?thesis
  proof (cases out)
    case (Inl err)
    then show ?thesis using Pair Update_error [of env fn s err s'] assms(1) by simp
  next
    case (Inr r)
    with Pair obtain nxt kept persisted where fn: "fn (sr_state s) = Inr (r, nxt)"
      and p: "protectSubscriptionTokens env (nxt\<lparr>st_Revision := st_Revision nxt + 1\<rparr>) (sr_key s) = Inr (kept, persisted)"
      and s': "s' = s\<lparr>sr_state := kept, sr_disk := Some persisted\<rparr>"
      by (metis Update_ok)
    have "inv kept" by (rule protect_kept [OF p]) (rule revision, rule assms(2) [OF fn])
    then show ?thesis using Pair s' by simp
  qed
qed

end


text \<open>C27. Once the subscription key is configured, no subscription token is ever written to disk in the
  clear, whatever the transaction does.\<close>

theorem disk_has_no_tokens:
  assumes "sr_key s \<noteq> []" and "Update env fn s = (Inr r, s')" and "sr_disk s' = Some d"
    and "mget (st_Users d) i = Some u"
  shows "u_SubscriptionToken u = []"
proof -
  from assms(2) obtain nxt kept persisted where
    p: "protectSubscriptionTokens env (nxt\<lparr>st_Revision := st_Revision nxt + 1\<rparr>) (sr_key s) = Inr (kept, persisted)"
    and s': "s' = s\<lparr>sr_state := kept, sr_disk := Some persisted\<rparr>"
    by (metis Update_ok)
  from p assms(1) obtain users where "persisted = nxt\<lparr>st_Revision := st_Revision nxt + 1,
      st_Users := mmap (\<lambda>_ u. u\<lparr>u_SubscriptionToken := []\<rparr>) users\<rparr>"
    by (auto elim!: protect_tokens_cases)
  then show ?thesis using s' assms(3,4) by auto
qed



text \<open>Witnesses: a store with one user, an AEAD that stores the token beside a one-byte nonce.\<close>

definition demo_env :: StoreEnv where
  "demo_env = \<lparr>se_sha256 = (\<lambda>s. take 32 (s @ replicate 32 CHR ''h'')),
     se_seal = (\<lambda>key i t. Inr (CHR ''n'' # t)),
     se_open = (\<lambda>key i c. if c = [] then Inl ''authentication failed'' else Inr (tl c)),
     se_nonceSize = 1, se_write = (\<lambda>_. None)\<rparr>"

definition demo_secret :: string where
  "demo_secret = replicate 32 CHR ''s''"

definition demo_tx :: "unit tx" where
  "demo_tx s = Inr ((), s\<lparr>st_Users := [(''u'', zero_User\<lparr>u_ID := ''u'', u_SubscriptionToken := ''token''\<rparr>)]\<rparr>)"

definition demo_store :: Store where
  "demo_store = \<lparr>sr_state = NewState, sr_key = subscription_key demo_env demo_secret, sr_disk = None\<rparr>"

lemma demo_key: "sr_key demo_store = ''xmesh subscription tokens v1'' @ [CHR 0x00] @ ''sss''"
  by (simp add: demo_store_def subscription_key_def demo_env_def demo_secret_def numeral_eq_Suc)

lemma demo_update: "\<exists>s'. Update demo_env demo_tx demo_store = (Inr (), s')"
proof -
  have "sr_key demo_store \<noteq> []" "length (sr_key demo_store) = 32" by (simp_all add: demo_key)
  then show ?thesis
    by (simp add: Update_def store_Snapshot_def demo_tx_def Let_def protectSubscriptionTokens_def
        protect_user_def zero_User_def) (simp add: demo_env_def)
qed

lemma demo_aead: "aead_ok demo_env k"
  by (auto simp: aead_ok_def demo_env_def)

theorem disk_has_no_tokens_witness:
  "\<exists>s' d. Update demo_env demo_tx demo_store = (Inr (), s') \<and> sr_disk s' = Some d \<and>
     (\<forall>u. mget (st_Users d) ''u'' = Some u \<longrightarrow> u_SubscriptionToken u = [])"
proof -
  obtain s' where s': "Update demo_env demo_tx demo_store = (Inr (), s')" using demo_update by blast
  then obtain d where d: "sr_disk s' = Some d" by (auto elim: Update_ok)
  have "sr_key demo_store \<noteq> []" by (simp add: demo_key)
  from disk_has_no_tokens [OF this s' d] s' d show ?thesis by blast
qed


end
