(* ===== verification/Http.thy ===== *)
theory Http
  imports State_Store
begin

text \<open>
  The setting of the Controller's request handlers (\<open>src/internal/controller/server.go\<close>): the
  request, the response, and \<open>Env\<close>, which gathers what a handler reads from outside the sources:
  the clock, the random source, cryptography, the parsers of \<open>net/netip\<close> and \<open>net/url\<close>, and the
  configuration. \<open>e_rand k\<close> is the \<open>k\<close>-th random string drawn while serving the request, already in
  its text form (\<open>identity.Token\<close>, \<open>identity.UUID\<close>). No theorem assumes anything about these
  functions beyond what its statement says.

  A handler is a function of the environment, the request and the store; it returns the response
  and the store. \<open>X_tx\<close> is the closure that the handler \<open>X\<close> passes to \<open>Update\<close>.
\<close>

record URL =
  url_Scheme :: string
  url_Host :: string
  url_Hostname :: string
  url_Port :: string
  url_Path :: string
  url_User :: bool
  url_RawQuery :: string
  url_Fragment :: string

record Addr =
  addr_text :: string      \<comment> \<open>\<open>String()\<close> of the unmapped address\<close>
  addr_Is6 :: bool         \<comment> \<open>\<open>Is6()\<close> of the parsed address\<close>
  addr_Is4 :: bool         \<comment> \<open>\<open>Is4()\<close> of the unmapped address\<close>
  addr_zone :: string
  addr_global :: bool      \<comment> \<open>\<open>IsGlobalUnicast()\<close>\<close>
  addr_private :: bool     \<comment> \<open>\<open>IsPrivate()\<close>\<close>
  addr_public :: bool      \<comment> \<open>the tests of \<open>model.ParsePublicIP\<close> on the unmapped address\<close>

record Env =
  e_store :: StoreEnv
  e_now :: gotime
  e_rand :: "nat \<Rightarrow> error + string"
  e_sha256 :: "string \<Rightarrow> string"
  e_hmac :: "string \<Rightarrow> string \<Rightarrow> string"
  e_sessionKey :: string
  e_ParsePrefix :: "string \<Rightarrow> string option"     \<comment> \<open>\<open>netip.ParsePrefix\<close>, masked\<close>
  e_PrefixContains :: "string \<Rightarrow> Addr \<Rightarrow> bool" \<comment> \<open>the prefix parses and contains the unmapped address\<close>
  e_ParseAddr :: "string \<Rightarrow> Addr option"          \<comment> \<open>\<open>netip.ParseAddr\<close>\<close>
  e_ParseURL :: "string \<Rightarrow> URL option"            \<comment> \<open>\<open>url.Parse\<close>\<close>
  e_SplitHostPort :: "string \<Rightarrow> (string \<times> string) option"
  e_JoinHostPort :: "string \<Rightarrow> string \<Rightarrow> string"
  e_hy2Validate :: "string \<Rightarrow> string \<Rightarrow> string \<Rightarrow> string \<Rightarrow> gotime \<Rightarrow> error option"
  e_hy2Generate :: "string \<Rightarrow> gotime \<Rightarrow> string list \<Rightarrow> error + string \<times> string \<times> string"
  e_realityKey :: "error + string \<times> string"      \<comment> \<open>a fresh X25519 key pair, base64\<close>
  e_ReleaseDir :: string
  e_ReleaseBaseURL :: string
  e_ReleaseVersion :: string
  e_AdminUsername :: string
  e_PublicURL :: string
  e_NodeOfflineAfterSeconds :: int
  e_TrustedProxyCIDRs :: "string list option"

record Request =
  rq_id :: string                       \<comment> \<open>\<open>r.PathValue("id")\<close>\<close>
  rq_form :: "(string \<times> string) list"    \<comment> \<open>\<open>r.Form\<close>, in order\<close>
  rq_header :: "string gomap"
  rq_RemoteAddr :: string

datatype Response =
    HttpError nat string
  | SeeOther string
  | NoContent
  | Created string string string    \<comment> \<open>role, node ID, credential\<close>
  | PlainText

definition FormValue :: "Request \<Rightarrow> string \<Rightarrow> string" where
  "FormValue r k = (case map_of (rq_form r) k of None \<Rightarrow> [] | Some v \<Rightarrow> v)"

definition FormHas :: "Request \<Rightarrow> string \<Rightarrow> bool" where
  "FormHas r k = (map_of (rq_form r) k \<noteq> None)"

definition FormValues :: "Request \<Rightarrow> string \<Rightarrow> string list" where
  "FormValues r k = map snd (filter (\<lambda>kv. fst kv = k) (rq_form r))"

definition HeaderGet :: "Request \<Rightarrow> string \<Rightarrow> string" where
  "HeaderGet r k = zget [] (rq_header r) k"

text \<open>\<open>strings.TrimSpace\<close> on ASCII white space.\<close>

definition is_space :: "char \<Rightarrow> bool" where
  "is_space c = (of_char c \<in> {9, 10, 11, 12, 13, 32 :: nat})"

definition TrimSpace :: "string \<Rightarrow> string" where
  "TrimSpace s = rev (dropWhile is_space (rev (dropWhile is_space s)))"

definition ContainsAny :: "string \<Rightarrow> string \<Rightarrow> bool" where
  "ContainsAny s cs = list_ex (\<lambda>c. c \<in> set cs) s"

definition Contains :: "string \<Rightarrow> string \<Rightarrow> bool" where
  "Contains s p = list_ex (\<lambda>n. has_prefix (drop n s) p) [0..<Suc (length s)]"

definition newID :: "Env \<Rightarrow> nat \<Rightarrow> string \<Rightarrow> error + string" where
  "newID env k prefix =
     (case e_rand env k of Inl err \<Rightarrow> Inl err | Inr i \<Rightarrow> Inr (prefix @ ''_'' @ i))"

definition parsePositive :: "string \<Rightarrow> int \<Rightarrow> int option" where
  "parsePositive v fallback =
     (if v = [] then Some fallback
      else case ParseInt v of None \<Rightarrow> None | Some n \<Rightarrow> if n \<le> 0 then None else Some n)"

definition validateURL :: "Env \<Rightarrow> string \<Rightarrow> error option" where
  "validateURL env v =
     (case e_ParseURL env v of
        None \<Rightarrow> Some ''link URL must be an absolute ws://, wss://, or reality:// URL''
      | Some u \<Rightarrow>
          if url_Scheme u \<notin> {''wss'', ''ws'', ''reality''} \<or> url_Host u = []
          then Some ''link URL must be an absolute ws://, wss://, or reality:// URL'' else None)"

definition splitCSV :: "string \<Rightarrow> string list" where
  "splitCSV v = filter (\<lambda>item. item \<noteq> []) (map TrimSpace (split_on CHR '','' v))"

definition env_SecretHash :: "Env \<Rightarrow> string \<Rightarrow> string" where
  "env_SecretHash env = SecretHash (e_sha256 env)"

text \<open>\<open>%q\<close> on the printable ASCII text.\<close>

definition quoted :: "string \<Rightarrow> string" where
  "quoted v = [CHR 0x22] @ concat (map (\<lambda>c. if c = CHR 0x22 \<or> c = CHR 0x5C then [CHR 0x5C, c] else [c]) v) @ [CHR 0x22]"

text \<open>The release source is configured (\<open>releases.go\<close>).\<close>

definition alnum :: "char \<Rightarrow> bool" where
  "alnum c = (let k = of_char c :: nat in 48 \<le> k \<and> k \<le> 57 \<or> 65 \<le> k \<and> k \<le> 90 \<or> 97 \<le> k \<and> k \<le> 122)"

definition releaseVersionPattern :: "string \<Rightarrow> bool" where
  "releaseVersionPattern v =
     (case v of [] \<Rightarrow> False | c # cs \<Rightarrow> alnum c \<and> list_all (\<lambda>c. alnum c \<or> c \<in> set ''._-'') cs)"

definition releaseEnabled :: "Env \<Rightarrow> bool" where
  "releaseEnabled env =
     (e_ReleaseDir env \<noteq> [] \<and> releaseVersionPattern (e_ReleaseVersion env) \<and>
      (case e_ParseURL env (e_ReleaseBaseURL env) of
         None \<Rightarrow> False
       | Some u \<Rightarrow> url_Scheme u = ''https'' \<and> url_Host u \<noteq> [] \<and> \<not> url_User u \<and> url_RawQuery u = [] \<and> url_Fragment u = []))"

text \<open>The answers of the JSON interface: an error, an empty answer, or a value.\<close>

datatype 'a Reply = Refused nat string | Done nat | Json nat 'a

text \<open>Running a transaction and answering: an error with its status, or a redirect.\<close>

definition answer :: "nat \<Rightarrow> Response \<Rightarrow> (error + 'a) \<times> Store \<Rightarrow> Response \<times> Store" where
  "answer status ok out =
     (case out of (Inl err, s) \<Rightarrow> (HttpError status err, s) | (Inr _, s) \<Rightarrow> (ok, s))"

text \<open>Every \<open>for\<close> loop over a map that rewrites or removes its own entries is a map or a filter;
  the publication flag is the one most loops clear.\<close>

definition unpublish :: "(Grant \<Rightarrow> bool) \<Rightarrow> State \<Rightarrow> State" where
  "unpublish P s = s\<lparr>st_Grants := mmap (\<lambda>_ g. if P g then g\<lparr>gr_Published := False\<rparr> else g) (st_Grants s)\<rparr>"

lemma snd_answer [simp]: "snd (answer status ok out) = snd out"
  by (auto simp: answer_def split: prod.splits sum.splits)

text \<open>How a chain of checks succeeds: no check fails, and the rest succeeds.\<close>

named_theorems result_simps

lemma check_Inr [result_simps]: "(if c then Inl a else x) = Inr y \<longleftrightarrow> \<not> c \<and> x = Inr y"
  by simp

lemma option_Inr [result_simps]:
  "(case v of None \<Rightarrow> Inl a | Some x \<Rightarrow> f x) = Inr y \<longleftrightarrow> (\<exists>x. v = Some x \<and> f x = Inr y)"
  by (cases v) simp_all

lemma result_Inr [result_simps]:
  "(case v of Inl e \<Rightarrow> Inl (g e) | Inr x \<Rightarrow> f x) = Inr y \<longleftrightarrow> (\<exists>x. v = Inr x \<and> f x = Inr y)"
  by (cases v) simp_all

lemma pair_Inr [result_simps]: "(case p of (a, b) \<Rightarrow> f a b) = Inr y \<longleftrightarrow> (\<exists>a b. p = (a, b) \<and> f a b = Inr y)"
  by (cases p) simp

text \<open>A concrete environment for worked examples: the random strings are \<open>0\<close>, \<open>1\<close>, \<open>2\<close>, and so on.\<close>

definition demo_ctx :: Env where
  "demo_ctx = \<lparr>e_store = demo_env, e_now = 1000 * second, e_rand = (\<lambda>k. Inr (nat_digits k)), e_sha256 = (\<lambda>s. s), e_hmac = (\<lambda>k m. k @ m),
     e_sessionKey = ''key'', e_ParsePrefix = Some, e_PrefixContains = (\<lambda>_ _. False), e_ParseAddr = (\<lambda>_. None),
     e_ParseURL = (\<lambda>_. Some \<lparr>url_Scheme = ''https'', url_Host = ''example.org'', url_Hostname = ''example.org'', url_Port = '''',
        url_Path = '''', url_User = False, url_RawQuery = '''', url_Fragment = ''''\<rparr>),
     e_SplitHostPort = (\<lambda>_. None), e_JoinHostPort = (\<lambda>h p. h @ '':'' @ p),
     e_hy2Validate = (\<lambda>_ _ _ _ _. None), e_hy2Generate = (\<lambda>_ _ _. Inr (''cert'', ''key'', ''pin'')), e_realityKey = Inr (''priv'', ''pub''),
     e_ReleaseDir = ''/var/releases'', e_ReleaseBaseURL = ''https://example.org'', e_ReleaseVersion = ''v1.0.0'',
     e_AdminUsername = ''admin'', e_PublicURL = ''https://example.org'', e_NodeOfflineAfterSeconds = 45, e_TrustedProxyCIDRs = None\<rparr>"

end
