(* ===== verification/Routes.thy ===== *)
theory Routes
  imports Http
begin

text \<open>
  Routes: which nodes, links and upstreams a grant's traffic may take, and the helpers with which
  the handlers of \<open>src/internal/controller\<close> mark a change (\<open>upstreams.go\<close>, \<open>embedded_agent.go\<close>,
  \<open>subscription.go\<close>, \<open>admin_handlers.go\<close>, \<open>route_management.go\<close>, \<open>gateway_address.go\<close>).

  A change of desired state bumps the version of the nodes that must apply it (\<open>bumpGateway\<close>,
  \<open>bumpAgent\<close>) and withdraws the publication of the grants it may break (\<open>unpublish\<close>).
\<close>

abbreviation gateway_at :: "State \<Rightarrow> string \<Rightarrow> Gateway" where
  "gateway_at s i \<equiv> zget zero_Gateway (st_Gateways s) i"
abbreviation agent_at :: "State \<Rightarrow> string \<Rightarrow> Agent" where
  "agent_at s i \<equiv> zget zero_Agent (st_Agents s) i"
abbreviation attachment_at :: "State \<Rightarrow> string \<Rightarrow> Attachment" where
  "attachment_at s i \<equiv> zget zero_Attachment (st_Attachments s) i"
abbreviation user_at :: "State \<Rightarrow> string \<Rightarrow> User" where
  "user_at s i \<equiv> zget zero_User (st_Users s) i"
abbreviation upstream_at :: "State \<Rightarrow> string \<Rightarrow> VMessUpstream" where
  "upstream_at s i \<equiv> zget zero_VMessUpstream (st_Upstreams s) i"
abbreviation status_at :: "State \<Rightarrow> string \<Rightarrow> NodeStatus" where
  "status_at s i \<equiv> zget zero_NodeStatus (st_NodeStatus s) i"

subsection \<open>Availability\<close>

definition agentEnabled :: "State \<Rightarrow> Agent \<Rightarrow> bool" where
  "agentEnabled s agent =
     (if \<not> ag_Enabled agent then False
      else if ag_GatewayID agent = [] then True
      else let gateway = gateway_at s (ag_GatewayID agent) in gw_Enabled gateway \<and> gw_AgentEnabled gateway)"

definition attachmentHasEnabledLink :: "State \<Rightarrow> string \<Rightarrow> bool" where
  "attachmentHasEnabledLink s attachmentID =
     list_ex (\<lambda>link. lk_AttachmentID link = attachmentID \<and> lk_Enabled link) (mvals (st_Links s))"

definition upstreamAvailable :: "State \<Rightarrow> Attachment \<Rightarrow> bool" where
  "upstreamAvailable s attachment =
     (if at_UpstreamID attachment = [] then False
      else case mget (st_Upstreams s) (at_UpstreamID attachment) of
          None \<Rightarrow> False
        | Some upstream \<Rightarrow> vu_Enabled upstream \<and> ve_UUID (vu_Endpoint upstream) \<noteq> [])"

definition routeAvailable :: "State \<Rightarrow> Attachment \<Rightarrow> bool" where
  "routeAvailable s attachment =
     (if \<not> at_Enabled attachment \<or> \<not> gw_Enabled (gateway_at s (at_GatewayID attachment)) then False
      else if at_UpstreamID attachment \<noteq> []
        then ns_ExternalUpstreams (status_at s (at_GatewayID attachment)) \<and> upstreamAvailable s attachment
      else agentEnabled s (agent_at s (at_AgentID attachment)) \<and> attachmentHasEnabledLink s (at_ID attachment))"

definition attachmentUsesNode :: "State \<Rightarrow> Attachment \<Rightarrow> string \<Rightarrow> bool" where
  "attachmentUsesNode s attachment nodeID =
     (at_GatewayID attachment = nodeID \<or> at_AgentID attachment = nodeID \<or>
      ag_GatewayID (agent_at s (at_AgentID attachment)) = nodeID)"

subsection \<open>Versions and publication\<close>

definition bumpGateway :: "string \<Rightarrow> State \<Rightarrow> State" where
  "bumpGateway i s =
     (let gateway = gateway_at s i
      in s\<lparr>st_Gateways := mput i (gateway\<lparr>gw_DesiredVersion := gw_DesiredVersion gateway + 1\<rparr>) (st_Gateways s)\<rparr>)"

definition bumpAgent :: "string \<Rightarrow> State \<Rightarrow> State" where
  "bumpAgent i s =
     (let agent = agent_at s i
      in s\<lparr>st_Agents := mput i (agent\<lparr>ag_DesiredVersion := ag_DesiredVersion agent + 1\<rparr>) (st_Agents s)\<rparr>)"

definition bumpGatewayForAttachment :: "string \<Rightarrow> State \<Rightarrow> State" where
  "bumpGatewayForAttachment attachmentID s =
     (case mget (st_Attachments s) attachmentID of
        None \<Rightarrow> s | Some attachment \<Rightarrow> bumpGateway (at_GatewayID attachment) s)"

definition unpublishGrantsWithoutLink :: "string \<Rightarrow> State \<Rightarrow> State" where
  "unpublishGrantsWithoutLink attachmentID s =
     (if list_ex (\<lambda>link. lk_AttachmentID link = attachmentID \<and> lk_Enabled link) (mvals (st_Links s)) then s
      else unpublish (\<lambda>g. gr_AttachmentID g = attachmentID) s)"

definition unpublishGatewayGrants :: "string \<Rightarrow> State \<Rightarrow> State" where
  "unpublishGatewayGrants gatewayID s =
     unpublish (\<lambda>g. at_GatewayID (attachment_at s (gr_AttachmentID g)) = gatewayID) s"

text \<open>
  The loop shared by \<open>embeddedAgentChanged\<close>, \<open>bumpUpstreamRoutes\<close> and \<open>toggleAgent\<close>: every route that
  satisfies \<open>c\<close> gets its gateway bumped and, when \<open>off\<close>, its grants withdrawn.
\<close>

definition touch_route :: "bool \<Rightarrow> Attachment \<Rightarrow> State \<Rightarrow> State" where
  "touch_route off a s =
     (let s' = bumpGateway (at_GatewayID a) s
      in if off then unpublish (\<lambda>g. gr_AttachmentID g = at_ID a) s' else s')"

definition touch_routes :: "bool \<Rightarrow> (Attachment \<Rightarrow> bool) \<Rightarrow> State \<Rightarrow> State" where
  "touch_routes off c s = fold (touch_route off) (filter c (mvals (st_Attachments s))) s"

definition embeddedAgentChanged :: "Agent \<Rightarrow> State \<Rightarrow> State" where
  "embeddedAgentChanged agent s =
     touch_routes True (\<lambda>a. at_AgentID a = ag_ID agent)
       (s\<lparr>st_Agents := mput (ag_ID agent) agent (st_Agents s)\<rparr>)"

definition bumpUpstreamRoutes :: "string \<Rightarrow> State \<Rightarrow> State" where
  "bumpUpstreamRoutes upstreamID s = touch_routes True (\<lambda>a. at_UpstreamID a = upstreamID) s"

definition tunnel_url :: "Env \<Rightarrow> string \<Rightarrow> string" where
  "tunnel_url env host = ''reality://'' @ e_JoinHostPort env host ''8443'' @ ''/tunnel''"

definition changeGatewayHost :: "Env \<Rightarrow> Gateway \<Rightarrow> string \<Rightarrow> State \<Rightarrow> Gateway \<times> State" where
  "changeGatewayHost env gateway host s =
     (if gw_PublicHost gateway = host then (gateway, s)
      else
        let oldURL = tunnel_url env (gw_PublicHost gateway);
            newURL = (if host \<noteq> [] then tunnel_url env host else []);
            follows = (\<lambda>link. at_GatewayID (attachment_at s (lk_AttachmentID link)) = gw_ID gateway \<and>
                         (lk_AutoURL link \<or> \<not> lk_URLOverride link \<and> lk_URL link = oldURL));
            s1 = s\<lparr>st_Links := mmap (\<lambda>_ link. if follows link then link\<lparr>lk_URL := newURL, lk_AutoURL := True\<rparr> else link)
                     (st_Links s)\<rparr>;
            s2 = fold (\<lambda>link. bumpAgent (at_AgentID (attachment_at s (lk_AttachmentID link))))
                   (filter follows (mvals (st_Links s))) s1
        in (gateway\<lparr>gw_PublicHost := host, gw_HY2Certificate := [], gw_HY2PrivateKey := [], gw_HY2PinSHA256 := []\<rparr>, s2))"

subsection \<open>Ports and certificates of the HY2 ingress\<close>

definition IPv6IngressHost :: "Env \<Rightarrow> Gateway \<Rightarrow> string" where
  "IPv6IngressHost env g =
     (case e_ParseAddr env (gw_DetectedPublicIPv6 g) of
        None \<Rightarrow> []
      | Some ip \<Rightarrow>
          if \<not> gw_IPv6IngressEnabled g \<or> \<not> addr_public ip \<or> addr_zone ip \<noteq> [] \<or> addr_Is4 ip then [] else addr_text ip)"

text \<open>The loop of \<open>configureHY2\<close> that gives every grant of the gateway an HY2 secret; \<open>k\<close> numbers the draws.\<close>

fun assign_hy2 :: "Env \<Rightarrow> (Grant \<Rightarrow> bool) \<Rightarrow> nat \<Rightarrow> Grant gomap \<Rightarrow> error + Grant gomap" where
  "assign_hy2 env P k [] = Inr []"
| "assign_hy2 env P k ((i, g) # m) =
     (if P g \<and> gr_HY2Auth g = [] then
        (case e_rand env k of
           Inl err \<Rightarrow> Inl err
         | Inr secret \<Rightarrow>
             (case assign_hy2 env P (Suc k) m of
                Inl err \<Rightarrow> Inl err | Inr m' \<Rightarrow> Inr ((i, g\<lparr>gr_HY2Auth := secret\<rparr>) # m')))
      else (case assign_hy2 env P k m of Inl err \<Rightarrow> Inl err | Inr m' \<Rightarrow> Inr ((i, g) # m')))"

definition configureHY2 :: "Env \<Rightarrow> nat \<Rightarrow> Gateway \<Rightarrow> int \<Rightarrow> State \<Rightarrow> error + Gateway \<times> State" where
  "configureHY2 env k gateway port s =
     (if port < 0 \<or> 65535 < port then Inl ''HY2 UDP port must be between 0 and 65535''
      else
        let g = gateway\<lparr>gw_HY2Port := port\<rparr>;
            validate = (\<lambda>g host. e_hy2Validate env (gw_HY2Certificate g) (gw_HY2PrivateKey g) (gw_HY2PinSHA256 g) host (e_now env))
        in if \<not> HY2Enabled g \<or> gw_PublicHost g = [] then Inr (g, s)
        else
          let extra = IPv6IngressHost env g in
          case (if gw_HY2Certificate g \<noteq> [] then validate g (gw_PublicHost g) else None) of
            Some err \<Rightarrow> Inl err
          | None \<Rightarrow>
              (let additional = (if extra \<noteq> [] then [extra] else []);
                   missingIPv6 = (extra \<noteq> [] \<and> gw_HY2Certificate g \<noteq> [] \<and> validate g extra \<noteq> None);
                   generated = (if gw_HY2Certificate g = [] \<or> missingIPv6
                                then (case e_hy2Generate env (gw_PublicHost g) (e_now env) additional of
                                        Inl err \<Rightarrow> Inl err
                                      | Inr (cert, key, pin) \<Rightarrow>
                                          Inr (g\<lparr>gw_HY2Certificate := cert, gw_HY2PrivateKey := key, gw_HY2PinSHA256 := pin\<rparr>))
                                else Inr g)
               in case generated of
                    Inl err \<Rightarrow> Inl err
                  | Inr g' \<Rightarrow>
                      (case validate g' (gw_PublicHost g') of
                         Some err \<Rightarrow> Inl err
                       | None \<Rightarrow>
                           (case assign_hy2 env
                                   (\<lambda>grant. at_GatewayID (attachment_at s (gr_AttachmentID grant)) = gw_ID g') k (st_Grants s) of
                              Inl err \<Rightarrow> Inl err
                            | Inr grants \<Rightarrow> Inr (g', s\<lparr>st_Grants := grants\<rparr>)))))"

definition parseHY2Port :: "Request \<Rightarrow> int \<Rightarrow> error + int" where
  "parseHY2Port r fallback =
     (if \<not> FormHas r ''hy2_port'' \<or> FormValue r ''hy2_port'' = [] then Inr fallback
      else case ParseInt (FormValue r ''hy2_port'') of
          None \<Rightarrow> Inl ''HY2 UDP port must be between 0 and 65535''
        | Some port \<Rightarrow>
            if port < 0 \<or> 65535 < port then Inl ''HY2 UDP port must be between 0 and 65535'' else Inr port)"

definition applyIngressSwitches :: "Request \<Rightarrow> Gateway \<Rightarrow> Gateway" where
  "applyIngressSwitches r gateway =
     (if \<not> FormHas r ''ingress_controls'' then gateway
      else gateway\<lparr>gw_VMessDisabled := FormValue r ''vmess_enabled'' \<noteq> ''1'',
                   gw_HY2Disabled := FormValue r ''hy2_enabled'' \<noteq> ''1''\<rparr>)"

end
