(* ===== verification/Topology.thy ===== *)
theory Topology
  imports Routes
begin

text \<open>
  The abstract specification of the Controller's desired state: who refers to whom, what is
  switched on, and what is published. \<open>topo\<close> maps a state to it. The handlers refine abstract
  operations on this view; the two invariants of the control plane are stated on it and carried
  back to the state:

  \<^item> references: every map is keyed by the identifiers of its entries and every identifier that an
    entry mentions exists;
  \<^item> publication: a published grant is enabled, belongs to an enabled user and leads to a route
    that is available end to end.
\<close>

datatype tGateway = TGateway (tg_id: string) (tg_on: bool) (tg_agent: bool)
datatype tAgent = TAgent (ta_id: string) (ta_gw: string) (ta_on: bool)
datatype tRoute = TRoute (tr_id: string) (tr_gw: string) (tr_agent: string) (tr_up: string) (tr_on: bool)
datatype tLink = TLink (tl_id: string) (tl_route: string) (tl_on: bool)
datatype tGrant = TGrant (tq_id: string) (tq_user: string) (tq_route: string) (tq_on: bool) (tq_pub: bool)
datatype tUser = TUser (tu_id: string) (tu_on: bool)
datatype tUpstream = TUpstream (tp_id: string) (tp_on: bool) (tp_node: bool)

record Topo =
  t_users :: "string \<Rightarrow> tUser option"
  t_gateways :: "string \<Rightarrow> tGateway option"
  t_agents :: "string \<Rightarrow> tAgent option"
  t_upstreams :: "string \<Rightarrow> tUpstream option"
  t_routes :: "string \<Rightarrow> tRoute option"
  t_links :: "string \<Rightarrow> tLink option"
  t_grants :: "string \<Rightarrow> tGrant option"
  t_external :: "string \<Rightarrow> bool"

definition user_core :: "User \<Rightarrow> tUser" where
  "user_core u = TUser (u_ID u) (u_Enabled u)"
definition gateway_core :: "Gateway \<Rightarrow> tGateway" where
  "gateway_core g = TGateway (gw_ID g) (gw_Enabled g) (gw_AgentEnabled g)"
definition agent_core :: "Agent \<Rightarrow> tAgent" where
  "agent_core a = TAgent (ag_ID a) (ag_GatewayID a) (ag_Enabled a)"
definition upstream_core :: "VMessUpstream \<Rightarrow> tUpstream" where
  "upstream_core u = TUpstream (vu_ID u) (vu_Enabled u) (ve_UUID (vu_Endpoint u) \<noteq> [])"
definition route_core :: "Attachment \<Rightarrow> tRoute" where
  "route_core a = TRoute (at_ID a) (at_GatewayID a) (at_AgentID a) (at_UpstreamID a) (at_Enabled a)"
definition link_core :: "Link \<Rightarrow> tLink" where
  "link_core l = TLink (lk_ID l) (lk_AttachmentID l) (lk_Enabled l)"
definition grant_core :: "Grant \<Rightarrow> tGrant" where
  "grant_core g = TGrant (gr_ID g) (gr_UserID g) (gr_AttachmentID g) (gr_Enabled g) (gr_Published g)"

lemmas core_defs = user_core_def gateway_core_def agent_core_def upstream_core_def route_core_def
  link_core_def grant_core_def

definition topo :: "State \<Rightarrow> Topo" where
  "topo s = \<lparr>
     t_users = (\<lambda>k. map_option user_core (mget (st_Users s) k)),
     t_gateways = (\<lambda>k. map_option gateway_core (mget (st_Gateways s) k)),
     t_agents = (\<lambda>k. map_option agent_core (mget (st_Agents s) k)),
     t_upstreams = (\<lambda>k. map_option upstream_core (mget (st_Upstreams s) k)),
     t_routes = (\<lambda>k. map_option route_core (mget (st_Attachments s) k)),
     t_links = (\<lambda>k. map_option link_core (mget (st_Links s) k)),
     t_grants = (\<lambda>k. map_option grant_core (mget (st_Grants s) k)),
     t_external = (\<lambda>k. ns_ExternalUpstreams (status_at s k))\<rparr>"

lemma topo_sel [simp]:
  "t_users (topo s) k = map_option user_core (mget (st_Users s) k)"
  "t_gateways (topo s) k = map_option gateway_core (mget (st_Gateways s) k)"
  "t_agents (topo s) k = map_option agent_core (mget (st_Agents s) k)"
  "t_upstreams (topo s) k = map_option upstream_core (mget (st_Upstreams s) k)"
  "t_routes (topo s) k = map_option route_core (mget (st_Attachments s) k)"
  "t_links (topo s) k = map_option link_core (mget (st_Links s) k)"
  "t_grants (topo s) k = map_option grant_core (mget (st_Grants s) k)"
  "t_external (topo s) k = ns_ExternalUpstreams (status_at s k)"
  by (simp_all add: topo_def)

text \<open>The maps a transaction may rely on being maps.\<close>

definition maps_ok :: "State \<Rightarrow> bool" where
  "maps_ok s \<longleftrightarrow> mwf (st_Users s) \<and> mwf (st_Gateways s) \<and> mwf (st_Agents s) \<and> mwf (st_Upstreams s) \<and>
     mwf (st_Attachments s) \<and> mwf (st_Links s) \<and> mwf (st_Grants s)"

subsection \<open>Availability on the abstract view\<close>

definition t_gateway_on :: "Topo \<Rightarrow> string \<Rightarrow> bool" where
  "t_gateway_on T g = (case t_gateways T g of None \<Rightarrow> False | Some gw \<Rightarrow> tg_on gw)"

definition t_agent_on :: "Topo \<Rightarrow> string \<Rightarrow> bool" where
  "t_agent_on T a =
     (case t_agents T a of
        None \<Rightarrow> False
      | Some ag \<Rightarrow> ta_on ag \<and>
          (ta_gw ag = [] \<or>
           (case t_gateways T (ta_gw ag) of None \<Rightarrow> False | Some gw \<Rightarrow> tg_on gw \<and> tg_agent gw)))"

definition t_link_on :: "Topo \<Rightarrow> string \<Rightarrow> bool" where
  "t_link_on T r = (\<exists>k l. t_links T k = Some l \<and> tl_route l = r \<and> tl_on l)"

definition t_upstream_on :: "Topo \<Rightarrow> string \<Rightarrow> bool" where
  "t_upstream_on T u = (case t_upstreams T u of None \<Rightarrow> False | Some p \<Rightarrow> tp_on p \<and> tp_node p)"

definition t_route_on :: "Topo \<Rightarrow> tRoute \<Rightarrow> bool" where
  "t_route_on T r =
     (tr_on r \<and> t_gateway_on T (tr_gw r) \<and>
      (if tr_up r \<noteq> [] then t_external T (tr_gw r) \<and> t_upstream_on T (tr_up r)
       else t_agent_on T (tr_agent r) \<and> t_link_on T (tr_id r)))"

definition t_user_on :: "Topo \<Rightarrow> string \<Rightarrow> bool" where
  "t_user_on T u = (case t_users T u of None \<Rightarrow> False | Some v \<Rightarrow> tu_on v)"

definition t_live :: "Topo \<Rightarrow> tGrant \<Rightarrow> bool" where
  "t_live T q =
     (tq_on q \<and> t_user_on T (tq_user q) \<and>
      (case t_routes T (tq_route q) of None \<Rightarrow> False | Some r \<Rightarrow> t_route_on T r))"

lemmas t_on_defs = t_gateway_on_def t_agent_on_def t_link_on_def t_upstream_on_def t_route_on_def t_user_on_def

lemma topo_gateway_on: "t_gateway_on (topo s) i = gw_Enabled (gateway_at s i)"
  by (simp add: t_gateway_on_def zget_def gateway_core_def zero_Gateway_def split: option.splits)

lemma topo_agent_on: "t_agent_on (topo s) i = agentEnabled s (agent_at s i)"
  by (auto simp: t_agent_on_def agentEnabled_def zget_def gateway_core_def agent_core_def zero_Agent_def
      zero_Gateway_def Let_def split: option.splits)

lemma topo_user_on: "t_user_on (topo s) i = u_Enabled (user_at s i)"
  by (simp add: t_user_on_def zget_def user_core_def zero_User_def split: option.splits)

lemma topo_upstream_on: "at_UpstreamID a \<noteq> [] \<Longrightarrow> t_upstream_on (topo s) (at_UpstreamID a) = upstreamAvailable s a"
  by (simp add: t_upstream_on_def upstreamAvailable_def upstream_core_def split: option.splits)

lemma topo_link_on: "mwf (st_Links s) \<Longrightarrow> t_link_on (topo s) i = attachmentHasEnabledLink s i"
proof
  assume "t_link_on (topo s) i"
  then show "attachmentHasEnabledLink s i"
    by (auto simp: t_link_on_def attachmentHasEnabledLink_def list_ex_iff link_core_def dest: mget_val_in)
next
  assume "mwf (st_Links s)" and "attachmentHasEnabledLink s i"
  then obtain l k where "mget (st_Links s) k = Some l" "lk_AttachmentID l = i" "lk_Enabled l"
    by (auto simp: attachmentHasEnabledLink_def list_ex_iff dest: mvals_mget)
  then show "t_link_on (topo s) i"
    unfolding t_link_on_def by (intro exI [of _ k] exI [of _ "link_core l"]) (simp add: link_core_def)
qed

lemma topo_route_on: "mwf (st_Links s) \<Longrightarrow> t_route_on (topo s) (route_core a) = routeAvailable s a"
  by (auto simp: t_route_on_def routeAvailable_def route_core_def topo_gateway_on topo_agent_on topo_upstream_on
      topo_link_on)

subsection \<open>The invariants\<close>

text \<open>Identifiers carry the prefix of their kind, so no gateway is an agent.\<close>

definition gateway_key :: "string \<Rightarrow> bool" where
  "gateway_key k = has_prefix k ''gw_''"

definition agent_key :: "string \<Rightarrow> bool" where
  "agent_key k = (has_prefix k ''agt_'' \<or> has_prefix k ''embedded-'')"

lemma key_nonempty: "gateway_key k \<Longrightarrow> k \<noteq> []" "agent_key k \<Longrightarrow> k \<noteq> []"
  by (auto simp: gateway_key_def agent_key_def has_prefix_iff)

lemma key_apart: "agent_key k \<Longrightarrow> \<not> gateway_key k"
  by (auto simp: gateway_key_def agent_key_def has_prefix_iff)

lemma agent_key_embedded [simp]: "agent_key (GatewayAgentID i)"
  by (simp add: agent_key_def GatewayAgentID_def has_prefix_def)

definition t_keyed :: "Topo \<Rightarrow> bool" where
  "t_keyed T \<longleftrightarrow>
     (\<forall>k u. t_users T k = Some u \<longrightarrow> tu_id u = k) \<and>
     (\<forall>k g. t_gateways T k = Some g \<longrightarrow> tg_id g = k \<and> gateway_key k) \<and>
     (\<forall>k a. t_agents T k = Some a \<longrightarrow> ta_id a = k \<and> agent_key k) \<and>
     (\<forall>k u. t_upstreams T k = Some u \<longrightarrow> tp_id u = k \<and> k \<noteq> []) \<and>
     (\<forall>k r. t_routes T k = Some r \<longrightarrow> tr_id r = k \<and> k \<noteq> []) \<and>
     (\<forall>k l. t_links T k = Some l \<longrightarrow> tl_id l = k) \<and>
     (\<forall>k q. t_grants T k = Some q \<longrightarrow> tq_id q = k)"

definition t_refs :: "Topo \<Rightarrow> bool" where
  "t_refs T \<longleftrightarrow>
     (\<forall>k a. t_agents T k = Some a \<longrightarrow> ta_gw a \<noteq> [] \<longrightarrow>
        k = GatewayAgentID (ta_gw a) \<and> t_gateways T (ta_gw a) \<noteq> None) \<and>
     (\<forall>k r. t_routes T k = Some r \<longrightarrow> t_gateways T (tr_gw r) \<noteq> None \<and>
        (if tr_up r = [] then t_agents T (tr_agent r) \<noteq> None
         else t_upstreams T (tr_up r) \<noteq> None \<and> tr_agent r = [])) \<and>
     (\<forall>k l. t_links T k = Some l \<longrightarrow> (\<exists>r. t_routes T (tl_route l) = Some r \<and> tr_up r = [])) \<and>
     (\<forall>k q. t_grants T k = Some q \<longrightarrow> t_users T (tq_user q) \<noteq> None \<and> t_routes T (tq_route q) \<noteq> None)"

definition t_published :: "(tGrant \<Rightarrow> bool) \<Rightarrow> Topo \<Rightarrow> bool" where
  "t_published P T \<longleftrightarrow> (\<forall>k q. t_grants T k = Some q \<longrightarrow> tq_pub q \<longrightarrow> P q \<or> t_live T q)"

abbreviation t_inv :: "Topo \<Rightarrow> bool" where
  "t_inv T \<equiv> t_keyed T \<and> t_refs T \<and> t_published (\<lambda>_. False) T"

text \<open>Node statuses are stored under the identifier of the node that reported them.\<close>

definition status_ok :: "State \<Rightarrow> bool" where
  "status_ok s \<longleftrightarrow> mwf (st_NodeStatus s) \<and> (\<forall>k n. mget (st_NodeStatus s) k = Some n \<longrightarrow> ns_NodeID n = k)"

definition topo_ok :: "State \<Rightarrow> bool" where
  "topo_ok s \<longleftrightarrow> maps_ok s \<and> status_ok s \<and> t_inv (topo s)"

lemma status_ok_cong: "st_NodeStatus s' = st_NodeStatus s \<Longrightarrow> status_ok s' = status_ok s"
  by (simp add: status_ok_def)

lemma topo_okI:
  "topo_ok s \<Longrightarrow> maps_ok s' \<Longrightarrow> st_NodeStatus s' = st_NodeStatus s \<Longrightarrow> t_inv (topo s') \<Longrightarrow> topo_ok s'"
  by (simp add: topo_ok_def status_ok_cong [of s' s])

text \<open>Withdrawing a publication, on the abstract view.\<close>

definition t_unpublish :: "(tGrant \<Rightarrow> bool) \<Rightarrow> Topo \<Rightarrow> Topo" where
  "t_unpublish P T = T\<lparr>t_grants := (\<lambda>k. map_option (\<lambda>q.
     if P q then TGrant (tq_id q) (tq_user q) (tq_route q) (tq_on q) False else q) (t_grants T k))\<rparr>"

lemma t_unpublish_sel [simp]:
  "t_users (t_unpublish P T) = t_users T" "t_gateways (t_unpublish P T) = t_gateways T"
  "t_agents (t_unpublish P T) = t_agents T" "t_upstreams (t_unpublish P T) = t_upstreams T"
  "t_routes (t_unpublish P T) = t_routes T" "t_links (t_unpublish P T) = t_links T"
  "t_external (t_unpublish P T) = t_external T"
  by (simp_all add: t_unpublish_def)

lemma t_route_on_unpublish [simp]: "t_route_on (t_unpublish P T) r = t_route_on T r"
  by (simp add: t_on_defs split: option.split)

lemma t_live_unpublish [simp]: "t_live (t_unpublish P T) q = t_live T q"
  by (simp add: t_live_def t_user_on_def split: option.split)

lemma t_keyed_unpublish [simp]: "t_keyed T \<Longrightarrow> t_keyed (t_unpublish P T)"
  by (auto simp: t_keyed_def t_unpublish_def split: if_splits)

lemma t_refs_unpublish [simp]: "t_refs T \<Longrightarrow> t_refs (t_unpublish P T)"
  unfolding t_refs_def by (auto simp: t_unpublish_def split: if_splits)

text \<open>Publication may be broken for the grants in \<open>P\<close> while an operation is under way; withdrawing
  them repairs it.\<close>

lemma t_published_unpublish:
  assumes "t_published (\<lambda>q. P q \<or> Q q) T"
  shows "t_published Q (t_unpublish P T)"
proof -
  have "Q q \<or> t_live T q" if "t_grants (t_unpublish P T) k = Some q" "tq_pub q" for k q
  proof -
    from that(1) obtain q' where q': "t_grants T k = Some q'"
      and q: "q = (if P q' then TGrant (tq_id q') (tq_user q') (tq_route q') (tq_on q') False else q')"
      by (auto simp: t_unpublish_def)
    from q that(2) have "\<not> P q'" and "q = q'" by (auto split: if_splits)
    with q' assms(1) that(2) show ?thesis unfolding t_published_def by blast
  qed
  then show ?thesis unfolding t_published_def by simp
qed

lemma t_route_on_cong:
  "t_gateways T' = t_gateways T \<Longrightarrow> t_agents T' = t_agents T \<Longrightarrow> t_upstreams T' = t_upstreams T \<Longrightarrow>
   t_external T' = t_external T \<Longrightarrow> t_link_on T' (tr_id r) = t_link_on T (tr_id r) \<Longrightarrow> t_route_on T' r = t_route_on T r"
  by (simp add: t_route_on_def t_gateway_on_def t_agent_on_def t_upstream_on_def cong: option.case_cong)

lemma t_published_mono: "t_published P T \<Longrightarrow> (\<And>q. P q \<Longrightarrow> Q q) \<Longrightarrow> t_published Q T"
  unfolding t_published_def by blast


subsection \<open>The primitive changes, seen from the view\<close>

lemma topo_put:
  "topo (s\<lparr>st_Users := mput k u (st_Users s)\<rparr>) = (topo s)\<lparr>t_users := (t_users (topo s))(k := Some (user_core u))\<rparr>"
  "topo (s\<lparr>st_Gateways := mput k g (st_Gateways s)\<rparr>) = (topo s)\<lparr>t_gateways := (t_gateways (topo s))(k := Some (gateway_core g))\<rparr>"
  "topo (s\<lparr>st_Agents := mput k a (st_Agents s)\<rparr>) = (topo s)\<lparr>t_agents := (t_agents (topo s))(k := Some (agent_core a))\<rparr>"
  "topo (s\<lparr>st_Upstreams := mput k p (st_Upstreams s)\<rparr>) = (topo s)\<lparr>t_upstreams := (t_upstreams (topo s))(k := Some (upstream_core p))\<rparr>"
  "topo (s\<lparr>st_Attachments := mput k r (st_Attachments s)\<rparr>) = (topo s)\<lparr>t_routes := (t_routes (topo s))(k := Some (route_core r))\<rparr>"
  "topo (s\<lparr>st_Links := mput k l (st_Links s)\<rparr>) = (topo s)\<lparr>t_links := (t_links (topo s))(k := Some (link_core l))\<rparr>"
  "topo (s\<lparr>st_Grants := mput k q (st_Grants s)\<rparr>) = (topo s)\<lparr>t_grants := (t_grants (topo s))(k := Some (grant_core q))\<rparr>"
  by (simp_all add: topo_def fun_eq_iff)

lemma topo_irrelevant [simp]:
  "topo (s\<lparr>st_RevokedAdminSessions := a1\<rparr>) = topo s" "topo (s\<lparr>st_Monitor := a2\<rparr>) = topo s"
  "topo (s\<lparr>st_Revision := a3\<rparr>) = topo s" "topo (s\<lparr>st_RetiredGrants := a4\<rparr>) = topo s"
  "topo (s\<lparr>st_RetiredLinks := a5\<rparr>) = topo s" "topo (s\<lparr>st_Enrollments := a6\<rparr>) = topo s"
  "topo (s\<lparr>st_LinkStatus := a7\<rparr>) = topo s" "topo (s\<lparr>st_GrantStatus := a8\<rparr>) = topo s"
  "topo (s\<lparr>st_UsageHistory := a9\<rparr>) = topo s" "topo (s\<lparr>st_UsageLabels := b1\<rparr>) = topo s"
  "topo (s\<lparr>st_UsageCounters := b2\<rparr>) = topo s" "topo (s\<lparr>st_LinkHistory := b3\<rparr>) = topo s"
  "topo (s\<lparr>st_Operations := b4\<rparr>) = topo s" "topo (s\<lparr>st_Updaters := b5\<rparr>) = topo s"
  "topo (s\<lparr>st_UpgradeTasks := b6\<rparr>) = topo s" "topo (s\<lparr>st_UpgradeBatches := b7\<rparr>) = topo s"
  by (simp_all add: topo_def)

lemma maps_ok_irrelevant [simp]:
  "maps_ok (s\<lparr>st_RevokedAdminSessions := a1\<rparr>) = maps_ok s" "maps_ok (s\<lparr>st_Monitor := a2\<rparr>) = maps_ok s"
  "maps_ok (s\<lparr>st_Revision := a3\<rparr>) = maps_ok s" "maps_ok (s\<lparr>st_RetiredGrants := a4\<rparr>) = maps_ok s"
  "maps_ok (s\<lparr>st_RetiredLinks := a5\<rparr>) = maps_ok s" "maps_ok (s\<lparr>st_Enrollments := a6\<rparr>) = maps_ok s"
  "maps_ok (s\<lparr>st_LinkStatus := a7\<rparr>) = maps_ok s" "maps_ok (s\<lparr>st_GrantStatus := a8\<rparr>) = maps_ok s"
  "maps_ok (s\<lparr>st_UsageHistory := a9\<rparr>) = maps_ok s" "maps_ok (s\<lparr>st_UsageLabels := b1\<rparr>) = maps_ok s"
  "maps_ok (s\<lparr>st_UsageCounters := b2\<rparr>) = maps_ok s" "maps_ok (s\<lparr>st_LinkHistory := b3\<rparr>) = maps_ok s"
  "maps_ok (s\<lparr>st_Operations := b4\<rparr>) = maps_ok s" "maps_ok (s\<lparr>st_Updaters := b5\<rparr>) = maps_ok s"
  "maps_ok (s\<lparr>st_UpgradeTasks := b6\<rparr>) = maps_ok s" "maps_ok (s\<lparr>st_UpgradeBatches := b7\<rparr>) = maps_ok s"
  "maps_ok (s\<lparr>st_NodeStatus := b8\<rparr>) = maps_ok s"
  by (simp_all add: maps_ok_def)

lemma maps_ok_put [simp]:
  "maps_ok s \<Longrightarrow> maps_ok (s\<lparr>st_Users := mput k u (st_Users s)\<rparr>)"
  "maps_ok s \<Longrightarrow> maps_ok (s\<lparr>st_Gateways := mput k g (st_Gateways s)\<rparr>)"
  "maps_ok s \<Longrightarrow> maps_ok (s\<lparr>st_Agents := mput k a (st_Agents s)\<rparr>)"
  "maps_ok s \<Longrightarrow> maps_ok (s\<lparr>st_Upstreams := mput k p (st_Upstreams s)\<rparr>)"
  "maps_ok s \<Longrightarrow> maps_ok (s\<lparr>st_Attachments := mput k r (st_Attachments s)\<rparr>)"
  "maps_ok s \<Longrightarrow> maps_ok (s\<lparr>st_Links := mput k l (st_Links s)\<rparr>)"
  "maps_ok s \<Longrightarrow> maps_ok (s\<lparr>st_Grants := mput k q (st_Grants s)\<rparr>)"
  "maps_ok s \<Longrightarrow> maps_ok (s\<lparr>st_Grants := mmap f (st_Grants s)\<rparr>)"
  "maps_ok s \<Longrightarrow> maps_ok (s\<lparr>st_Links := mmap f' (st_Links s)\<rparr>)"
  by (simp_all add: maps_ok_def)

lemma topo_unpublish:
  assumes "\<And>g. P g = P' (grant_core g)"
  shows "topo (unpublish P s) = t_unpublish P' (topo s)"
proof -
  have "grant_core (if P g then g\<lparr>gr_Published := False\<rparr> else g) =
      (let q = grant_core g in if P' q then TGrant (tq_id q) (tq_user q) (tq_route q) (tq_on q) False else q)" for g
    using assms [of g] by (simp add: grant_core_def Let_def)
  then show ?thesis
    by (simp add: topo_def unpublish_def t_unpublish_def fun_eq_iff option.map_comp comp_def Let_def)
qed

lemma maps_ok_unpublish [simp]: "maps_ok s \<Longrightarrow> maps_ok (unpublish P s)"
  by (simp add: unpublish_def)

lemma st_unpublish [simp]:
  "st_Users (unpublish P s) = st_Users s" "st_Gateways (unpublish P s) = st_Gateways s"
  "st_Agents (unpublish P s) = st_Agents s" "st_Upstreams (unpublish P s) = st_Upstreams s"
  "st_Attachments (unpublish P s) = st_Attachments s" "st_Links (unpublish P s) = st_Links s"
  "st_NodeStatus (unpublish P s) = st_NodeStatus s"
  by (simp_all add: unpublish_def)

lemma st_bump [simp]:
  "st_Users (bumpGateway i s) = st_Users s" "st_Agents (bumpGateway i s) = st_Agents s"
  "st_Upstreams (bumpGateway i s) = st_Upstreams s" "st_Attachments (bumpGateway i s) = st_Attachments s"
  "st_Links (bumpGateway i s) = st_Links s" "st_Grants (bumpGateway i s) = st_Grants s"
  "st_NodeStatus (bumpGateway i s) = st_NodeStatus s"
  "st_Users (bumpAgent i s) = st_Users s" "st_Gateways (bumpAgent i s) = st_Gateways s"
  "st_Upstreams (bumpAgent i s) = st_Upstreams s" "st_Attachments (bumpAgent i s) = st_Attachments s"
  "st_Links (bumpAgent i s) = st_Links s" "st_Grants (bumpAgent i s) = st_Grants s"
  "st_NodeStatus (bumpAgent i s) = st_NodeStatus s"
  by (simp_all add: bumpGateway_def bumpAgent_def Let_def)

lemma maps_ok_bump [simp]: "maps_ok s \<Longrightarrow> maps_ok (bumpGateway i s)" "maps_ok s \<Longrightarrow> maps_ok (bumpAgent i s)"
  by (simp_all add: bumpGateway_def bumpAgent_def Let_def)

text \<open>Bumping a node that exists does not change the view.\<close>

lemma topo_bumpGateway [simp]: "mget (st_Gateways s) i \<noteq> None \<Longrightarrow> topo (bumpGateway i s) = topo s"
  by (auto simp: bumpGateway_def Let_def topo_put fun_eq_iff zget_def gateway_core_def intro!: Topo.equality)

lemma topo_bumpAgent [simp]: "mget (st_Agents s) i \<noteq> None \<Longrightarrow> topo (bumpAgent i s) = topo s"
  by (auto simp: bumpAgent_def Let_def topo_put fun_eq_iff zget_def agent_core_def intro!: Topo.equality)

lemma mget_bump [simp]:
  "mget (st_Gateways (bumpGateway i s)) k = (if k = i then Some ((gateway_at s i)\<lparr>gw_DesiredVersion := gw_DesiredVersion (gateway_at s i) + 1\<rparr>) else mget (st_Gateways s) k)"
  "mget (st_Agents (bumpAgent i s)) k = (if k = i then Some ((agent_at s i)\<lparr>ag_DesiredVersion := ag_DesiredVersion (agent_at s i) + 1\<rparr>) else mget (st_Agents s) k)"
  by (simp_all add: bumpGateway_def bumpAgent_def Let_def)

lemma t_unpublish_twice: "t_unpublish P (t_unpublish Q T) = t_unpublish (\<lambda>q. P q \<or> Q q) T"
  if "\<And>q b. P (TGrant (tq_id q) (tq_user q) (tq_route q) (tq_on q) b) = P q" for P
  using that by (auto simp: t_unpublish_def fun_eq_iff option.map_comp comp_def intro!: Topo.equality map_option_cong)

lemma touch_route_view:
  assumes "mget (st_Gateways s) (at_GatewayID a) \<noteq> None"
  shows "topo (touch_route off a s) = (if off then t_unpublish (\<lambda>q. tq_route q = at_ID a) (topo s) else topo s)"
    and "mget (st_Gateways (touch_route off a s)) k \<noteq> None \<longleftrightarrow> mget (st_Gateways s) k \<noteq> None"
  using assms
  by (auto simp: touch_route_def Let_def topo_unpublish [where P' = "\<lambda>q. tq_route q = at_ID a"] grant_core_def)

lemma st_touch_route [simp]:
  "st_Attachments (touch_route off a s) = st_Attachments s" "st_Agents (touch_route off a s) = st_Agents s"
  "st_Users (touch_route off a s) = st_Users s" "st_Upstreams (touch_route off a s) = st_Upstreams s"
  "st_NodeStatus (touch_route off a s) = st_NodeStatus s"
  "maps_ok s \<Longrightarrow> maps_ok (touch_route off a s)"
  by (simp_all add: touch_route_def Let_def)

lemma t_unpublish_none [simp]: "t_unpublish (\<lambda>_. False) T = T"
  by (simp add: t_unpublish_def option.map_id0 [unfolded id_def])

lemma fold_touch_route:
  assumes "\<And>a. a \<in> set as \<Longrightarrow> mget (st_Gateways s) (at_GatewayID a) \<noteq> None"
  shows "topo (fold (touch_route off) as s) =
      (if off then t_unpublish (\<lambda>q. \<exists>a\<in>set as. tq_route q = at_ID a) (topo s) else topo s)"
  using assms
proof (induction as arbitrary: s)
  case (Cons a as)
  then have g: "mget (st_Gateways s) (at_GatewayID a) \<noteq> None" by simp
  have "topo (fold (touch_route off) as (touch_route off a s)) =
      (if off then t_unpublish (\<lambda>q. \<exists>a\<in>set as. tq_route q = at_ID a) (topo (touch_route off a s))
       else topo (touch_route off a s))"
    using Cons touch_route_view(2) [OF g] by simp
  then show ?case
    by (simp add: touch_route_view(1) [OF g] t_unpublish_twice disj_commute)
qed simp

lemma fold_touch_keep [simp]:
  "st_Attachments (fold (touch_route off) as s) = st_Attachments s"
  "st_Agents (fold (touch_route off) as s) = st_Agents s" "st_Users (fold (touch_route off) as s) = st_Users s"
  "st_Upstreams (fold (touch_route off) as s) = st_Upstreams s"
  "st_NodeStatus (fold (touch_route off) as s) = st_NodeStatus s"
  "maps_ok s \<Longrightarrow> maps_ok (fold (touch_route off) as s)"
  by (induction as arbitrary: s) simp_all

text \<open>What is known of the entries of a state whose view satisfies the invariants.\<close>

lemma t_keyedD:
  assumes "t_keyed T"
  shows "t_users T k = Some u \<Longrightarrow> tu_id u = k"
    and "t_gateways T k = Some g \<Longrightarrow> tg_id g = k \<and> k \<noteq> [] \<and> gateway_key k"
    and "t_agents T k = Some a \<Longrightarrow> ta_id a = k \<and> k \<noteq> [] \<and> agent_key k"
    and "t_upstreams T k = Some p \<Longrightarrow> tp_id p = k \<and> k \<noteq> []"
    and "t_routes T k = Some r \<Longrightarrow> tr_id r = k \<and> k \<noteq> []"
    and "t_links T k = Some l \<Longrightarrow> tl_id l = k"
    and "t_grants T k = Some q \<Longrightarrow> tq_id q = k"
  using assms key_nonempty unfolding t_keyed_def by blast+

lemma t_refsD:
  assumes "t_refs T"
  shows "t_agents T k = Some a \<Longrightarrow> ta_gw a \<noteq> [] \<Longrightarrow> k = GatewayAgentID (ta_gw a) \<and> t_gateways T (ta_gw a) \<noteq> None"
    and "t_routes T k = Some r \<Longrightarrow> t_gateways T (tr_gw r) \<noteq> None"
    and "t_routes T k = Some r \<Longrightarrow> tr_up r = [] \<Longrightarrow> t_agents T (tr_agent r) \<noteq> None"
    and "t_routes T k = Some r \<Longrightarrow> tr_up r \<noteq> [] \<Longrightarrow> t_upstreams T (tr_up r) \<noteq> None \<and> tr_agent r = []"
    and "t_links T k = Some l \<Longrightarrow> \<exists>r. t_routes T (tl_route l) = Some r \<and> tr_up r = []"
    and "t_grants T k = Some q \<Longrightarrow> t_users T (tq_user q) \<noteq> None \<and> t_routes T (tq_route q) \<noteq> None"
  using assms unfolding t_refs_def by (blast, presburger+)

lemma topo_keyed:
  assumes "t_keyed (topo s)"
  shows "mget (st_Users s) k = Some u \<Longrightarrow> u_ID u = k"
    and "mget (st_Gateways s) k = Some g \<Longrightarrow> gw_ID g = k \<and> k \<noteq> [] \<and> gateway_key k"
    and "mget (st_Agents s) k = Some a \<Longrightarrow> ag_ID a = k \<and> k \<noteq> [] \<and> agent_key k"
    and "mget (st_Upstreams s) k = Some p \<Longrightarrow> vu_ID p = k \<and> k \<noteq> []"
    and "mget (st_Attachments s) k = Some r \<Longrightarrow> at_ID r = k \<and> k \<noteq> []"
    and "mget (st_Links s) k = Some l \<Longrightarrow> lk_ID l = k"
    and "mget (st_Grants s) k = Some q \<Longrightarrow> gr_ID q = k"
  using t_keyedD(1) [OF assms, of k "user_core u"] t_keyedD(2) [OF assms, of k "gateway_core g"]
    t_keyedD(3) [OF assms, of k "agent_core a"] t_keyedD(4) [OF assms, of k "upstream_core p"]
    t_keyedD(5) [OF assms, of k "route_core r"] t_keyedD(6) [OF assms, of k "link_core l"]
    t_keyedD(7) [OF assms, of k "grant_core q"]
  by (simp_all add: core_defs)

lemma topo_refs:
  assumes "t_refs (topo s)"
  shows "mget (st_Agents s) k = Some a \<Longrightarrow> ag_GatewayID a \<noteq> [] \<Longrightarrow>
      k = GatewayAgentID (ag_GatewayID a) \<and> mget (st_Gateways s) (ag_GatewayID a) \<noteq> None"
    and "mget (st_Attachments s) k = Some r \<Longrightarrow> mget (st_Gateways s) (at_GatewayID r) \<noteq> None"
    and "mget (st_Attachments s) k = Some r \<Longrightarrow> at_UpstreamID r = [] \<Longrightarrow> mget (st_Agents s) (at_AgentID r) \<noteq> None"
    and "mget (st_Attachments s) k = Some r \<Longrightarrow> at_UpstreamID r \<noteq> [] \<Longrightarrow>
      mget (st_Upstreams s) (at_UpstreamID r) \<noteq> None \<and> at_AgentID r = []"
    and "mget (st_Links s) k = Some l \<Longrightarrow>
      \<exists>r. mget (st_Attachments s) (lk_AttachmentID l) = Some r \<and> at_UpstreamID r = []"
    and "mget (st_Grants s) k = Some q \<Longrightarrow>
      mget (st_Users s) (gr_UserID q) \<noteq> None \<and> mget (st_Attachments s) (gr_AttachmentID q) \<noteq> None"
  using t_refsD(1) [OF assms, of k "agent_core a"] t_refsD(2) [OF assms, of k "route_core r"]
    t_refsD(3) [OF assms, of k "route_core r"] t_refsD(4) [OF assms, of k "route_core r"]
    t_refsD(5) [OF assms, of k "link_core l"] t_refsD(6) [OF assms, of k "grant_core q"]
  by (auto simp: core_defs)

lemma topo_touch_routes:
  assumes "maps_ok s" "t_keyed (topo s)" "t_refs (topo s)" and "\<And>a. c a = c' (route_core a)"
  shows "topo (touch_routes off c s) =
    (if off then t_unpublish (\<lambda>q. case t_routes (topo s) (tq_route q) of None \<Rightarrow> False | Some r \<Rightarrow> c' r) (topo s) else topo s)"
proof -
  let ?as = "filter c (mvals (st_Attachments s))"
  have wf: "mwf (st_Attachments s)" using assms(1) by (simp add: maps_ok_def)
  have "mget (st_Gateways s) (at_GatewayID a) \<noteq> None" if "a \<in> set ?as" for a
    using that mvals_mget [OF wf] topo_refs(2) [OF assms(3)] by auto
  then have "topo (touch_routes off c s) =
      (if off then t_unpublish (\<lambda>q. \<exists>a\<in>set ?as. tq_route q = at_ID a) (topo s) else topo s)"
    unfolding touch_routes_def by (rule fold_touch_route)
  moreover have "(\<exists>a\<in>set ?as. i = at_ID a) =
      (case t_routes (topo s) i of None \<Rightarrow> False | Some r \<Rightarrow> c' r)" for i
  proof (cases "mget (st_Attachments s) i")
    case None
    have "at_ID a \<noteq> i" if "a \<in> set ?as" for a
      using that mvals_mget [OF wf, of a] topo_keyed(5) [OF assms(2)] None by auto
    then show ?thesis using None by auto
  next
    case (Some r)
    then have r: "at_ID r = i" "r \<in> set (mvals (st_Attachments s))"
      using topo_keyed(5) [OF assms(2)] mget_val_in by auto
    have "a = r" if "a \<in> set ?as" "i = at_ID a" for a
      using that mvals_mget [OF wf, of a] topo_keyed(5) [OF assms(2)] Some by auto
    then show ?thesis using Some r by (auto simp: assms(4))
  qed
  ultimately show ?thesis by simp
qed

lemma touch_routes_keep [simp]:
  "st_Attachments (touch_routes off c s) = st_Attachments s" "st_Agents (touch_routes off c s) = st_Agents s"
  "st_Users (touch_routes off c s) = st_Users s" "st_Upstreams (touch_routes off c s) = st_Upstreams s"
  "st_NodeStatus (touch_routes off c s) = st_NodeStatus s"
  "maps_ok s \<Longrightarrow> maps_ok (touch_routes off c s)"
  by (simp_all add: touch_routes_def)

end
