(* ===== verification/Removal.thy ===== *)
theory Removal
  imports Topology
begin

text \<open>
  Deleting nodes, routes, links and grants with everything that refers to them
  (\<open>src/internal/controller/node_management.go\<close>), and the usage records that outlive them until
  their gateway has reported its last counters (\<open>retired_usage.go\<close>).
\<close>

definition retiredUsageLifetime :: duration where
  "retiredUsageLifetime = 7 * 24 * hour"

text \<open>The names of the links a grant's traffic may have used.\<close>

definition route_link_names :: "Attachment \<Rightarrow> State \<Rightarrow> string gomap" where
  "route_link_names attachment s =
     (let names0 = (if at_UpstreamID attachment \<noteq> []
                    then mput (at_ID attachment) (vu_Name (upstream_at s (at_UpstreamID attachment))) [] else []);
          names1 = fold (\<lambda>(i, link). if lk_AttachmentID link = at_ID attachment then mput i (lk_Name link) else id)
                     (st_Links s) names0
      in fold (\<lambda>(i, link). if rl_AttachmentID link = at_ID attachment then mput i (rl_Name link) else id)
           (st_RetiredLinks s) names1)"

definition retireGrant :: "gotime \<Rightarrow> Grant \<Rightarrow> State \<Rightarrow> State" where
  "retireGrant now grant s =
     (case mget (st_Attachments s) (gr_AttachmentID grant) of
        None \<Rightarrow> s
      | Some attachment \<Rightarrow>
          (case mget (st_Gateways s) (at_GatewayID attachment) of
             None \<Rightarrow> s
           | Some gateway \<Rightarrow>
               s\<lparr>st_RetiredGrants := mput (gr_ID grant)
                   \<lparr>rg_UserID = gr_UserID grant, rg_AttachmentID = at_ID attachment,
                    rg_GatewayID = at_GatewayID attachment, rg_LinkNames = route_link_names attachment s,
                    rg_RetireVersion = gw_DesiredVersion gateway + 1,
                    rg_ExpiresAt = now + retiredUsageLifetime\<rparr> (st_RetiredGrants s)\<rparr>))"

definition retireLink :: "gotime \<Rightarrow> string \<Rightarrow> Attachment \<Rightarrow> string \<Rightarrow> State \<Rightarrow> State" where
  "retireLink now i attachment name s =
     (if at_ID attachment = [] then s
      else case mget (st_Gateways s) (at_GatewayID attachment) of
          None \<Rightarrow> s
        | Some gateway \<Rightarrow>
            (let agentVersion = (case mget (st_Agents s) (at_AgentID attachment) of
                                   None \<Rightarrow> 0 | Some agent \<Rightarrow> ag_DesiredVersion agent + 1)
             in s\<lparr>st_RetiredLinks := mput i
                    \<lparr>rl_AttachmentID = at_ID attachment, rl_GatewayID = at_GatewayID attachment,
                     rl_AgentID = at_AgentID attachment, rl_Name = name,
                     rl_GatewayVersion = gw_DesiredVersion gateway + 1, rl_AgentVersion = agentVersion,
                     rl_ExpiresAt = now + retiredUsageLifetime\<rparr> (st_RetiredLinks s)\<rparr>))"

definition removeLink :: "gotime \<Rightarrow> string \<Rightarrow> State \<Rightarrow> State" where
  "removeLink now i s =
     (let s1 = (case mget (st_Links s) i of
                  None \<Rightarrow> s
                | Some link \<Rightarrow> retireLink now i (attachment_at s (lk_AttachmentID link)) (lk_Name link) s);
          s2 = s1\<lparr>st_Links := mdel i (st_Links s1), st_LinkHistory := mdel i (st_LinkHistory s1)\<rparr>;
          s3 = (if mget (st_RetiredLinks s2) i = None
                then s2\<lparr>st_UsageCounters := mkeep (\<lambda>k _. \<not> has_suffix k (''/'' @ i)) (st_UsageCounters s2)\<rparr> else s2)
      in s3\<lparr>st_LinkStatus := mkeep (\<lambda>_ status. ls_LinkID status \<noteq> i) (st_LinkStatus s3)\<rparr>)"

definition removeGrant :: "gotime \<Rightarrow> string \<Rightarrow> State \<Rightarrow> State" where
  "removeGrant now i s =
     (let s1 = (case mget (st_Grants s) i of None \<Rightarrow> s | Some grant \<Rightarrow> retireGrant now grant s);
          s2 = s1\<lparr>st_Grants := mdel i (st_Grants s1)\<rparr>;
          s3 = (if mget (st_RetiredGrants s2) i = None
                then s2\<lparr>st_UsageCounters := mkeep (\<lambda>k _. \<not> has_prefix k (i @ ''/'')) (st_UsageCounters s2)\<rparr> else s2)
      in s3\<lparr>st_GrantStatus := mkeep (\<lambda>_ status. gs_GrantID status \<noteq> i) (st_GrantStatus s3)\<rparr>)"

definition removeAttachment :: "gotime \<Rightarrow> string \<Rightarrow> State \<Rightarrow> State" where
  "removeAttachment now i s =
     (case mget (st_Attachments s) i of
        None \<Rightarrow> s
      | Some attachment \<Rightarrow>
          (let s1 = fold (removeGrant now) (map fst (filter (\<lambda>(_, g). gr_AttachmentID g = i) (st_Grants s))) s;
               s2 = (if at_UpstreamID attachment \<noteq> []
                     then retireLink now i attachment (vu_Name (upstream_at s1 (at_UpstreamID attachment))) s1 else s1);
               s3 = fold (removeLink now) (map fst (filter (\<lambda>(_, l). lk_AttachmentID l = i) (st_Links s2))) s2;
               s4 = (case mget (st_Gateways s3) (at_GatewayID attachment) of
                       None \<Rightarrow> s3
                     | Some gateway \<Rightarrow>
                         s3\<lparr>st_Gateways := mput (gw_ID gateway) (gateway\<lparr>gw_DesiredVersion := gw_DesiredVersion gateway + 1\<rparr>) (st_Gateways s3)\<rparr>);
               s5 = (case mget (st_Agents s4) (at_AgentID attachment) of
                       None \<Rightarrow> s4
                     | Some agent \<Rightarrow>
                         s4\<lparr>st_Agents := mput (ag_ID agent) (agent\<lparr>ag_DesiredVersion := ag_DesiredVersion agent + 1\<rparr>) (st_Agents s4)\<rparr>);
               s6 = (if at_UpstreamID attachment \<noteq> []
                     then s5\<lparr>st_LinkStatus := mkeep (\<lambda>_ status. ls_LinkID status \<noteq> i) (st_LinkStatus s5)\<rparr> else s5)
           in s6\<lparr>st_Attachments := mdel i (st_Attachments s6)\<rparr>))"

definition removeNodeReferences :: "gotime \<Rightarrow> string list \<Rightarrow> State \<Rightarrow> State" where
  "removeNodeReferences now removed s =
     (let s1 = fold (removeAttachment now)
                 (map fst (filter (\<lambda>(_, a). at_GatewayID a \<in> set removed \<or> at_AgentID a \<in> set removed) (st_Attachments s))) s
      in s1\<lparr>st_Enrollments := mkeep (\<lambda>_ e. en_NodeID e \<notin> set removed) (st_Enrollments s1),
            st_NodeStatus := mkeep (\<lambda>_ n. ns_NodeID n \<notin> set removed) (st_NodeStatus s1),
            st_Updaters := mkeep (\<lambda>k _. k \<notin> set removed) (st_Updaters s1)\<rparr>)"

text \<open>\<open>activeUpgrade\<close> of \<open>node_upgrades.go\<close>, and whether a node is in the middle of one.\<close>

definition activeUpgrade :: "string \<Rightarrow> bool" where
  "activeUpgrade stage =
     (stage \<in> {''preparing'', ''pending'', ''running'', ''uncertain'', ''downloading'', ''prepared'', ''switching'',
                ''verifying'', ''rolling_back''})"

definition nodeHasActiveUpgrade :: "State \<Rightarrow> string \<Rightarrow> bool" where
  "nodeHasActiveUpgrade s nodeID =
     list_ex (\<lambda>task. ut_NodeID task = nodeID \<and> activeUpgrade (ut_Stage task)) (mvals (st_UpgradeTasks s))"

definition pruneRetiredUsage :: "gotime \<Rightarrow> State \<Rightarrow> State" where
  "pruneRetiredUsage now s =
     (let keepGrant = (\<lambda>grant. mget (st_Gateways s) (rg_GatewayID grant) \<noteq> None \<and> now < rg_ExpiresAt grant \<and>
            \<not> (ns_XrayReady (status_at s (rg_GatewayID grant)) \<and>
               rg_RetireVersion grant \<le> ns_AppliedVersion (status_at s (rg_GatewayID grant))));
          goneGrants = map fst (filter (\<lambda>(_, g). \<not> keepGrant g) (st_RetiredGrants s));
          s1 = s\<lparr>st_RetiredGrants := mkeep (\<lambda>k _. k \<notin> set goneGrants) (st_RetiredGrants s),
                 st_UsageCounters := mkeep (\<lambda>k _. \<not> list_ex (\<lambda>i. has_prefix k (i @ ''/'')) goneGrants) (st_UsageCounters s)\<rparr>;
          keepLink = (\<lambda>link.
            let gatewayDone = (mget (st_Gateways s1) (rl_GatewayID link) = None \<or>
                  ns_XrayReady (status_at s1 (rl_GatewayID link)) \<and>
                  rl_GatewayVersion link \<le> ns_AppliedVersion (status_at s1 (rl_GatewayID link)));
                agentDone = (mget (st_Agents s1) (rl_AgentID link) = None \<or>
                  rl_AgentVersion link \<le> ns_AppliedVersion (status_at s1 (rl_AgentID link)))
            in now < rl_ExpiresAt link \<and> \<not> (gatewayDone \<and> agentDone));
          goneLinks = map fst (filter (\<lambda>(_, l). \<not> keepLink l) (st_RetiredLinks s1))
      in s1\<lparr>st_RetiredLinks := mkeep (\<lambda>k _. k \<notin> set goneLinks) (st_RetiredLinks s1),
            st_UsageCounters := mkeep (\<lambda>k _. \<not> list_ex (\<lambda>i. has_suffix k (''/'' @ i)) goneLinks) (st_UsageCounters s1)\<rparr>)"


subsection \<open>The removals, seen from the view\<close>

lemma retire_view [simp]:
  "topo (retireGrant now g s) = topo s" "topo (retireLink now i a n s) = topo s"
  "maps_ok (retireGrant now g s) = maps_ok s" "maps_ok (retireLink now i a n s) = maps_ok s"
  "st_Links (retireGrant now g s) = st_Links s" "st_Links (retireLink now i a n s) = st_Links s"
  "st_Grants (retireGrant now g s) = st_Grants s" "st_Grants (retireLink now i a n s) = st_Grants s"
  "st_Attachments (retireGrant now g s) = st_Attachments s" "st_Attachments (retireLink now i a n s) = st_Attachments s"
  "st_Gateways (retireGrant now g s) = st_Gateways s" "st_Gateways (retireLink now i a n s) = st_Gateways s"
  "st_Agents (retireGrant now g s) = st_Agents s" "st_Agents (retireLink now i a n s) = st_Agents s"
  "st_Upstreams (retireGrant now g s) = st_Upstreams s" "st_Upstreams (retireLink now i a n s) = st_Upstreams s"
  "st_NodeStatus (retireGrant now g s) = st_NodeStatus s" "st_NodeStatus (retireLink now i a n s) = st_NodeStatus s"
  by (simp_all add: retireGrant_def retireLink_def Let_def split: option.splits)

lemma removeGrant_keep [simp]:
  "st_Grants (removeGrant now i s) = mdel i (st_Grants s)" "st_Links (removeGrant now i s) = st_Links s"
  "st_Attachments (removeGrant now i s) = st_Attachments s" "st_Gateways (removeGrant now i s) = st_Gateways s"
  "st_Agents (removeGrant now i s) = st_Agents s" "st_Upstreams (removeGrant now i s) = st_Upstreams s"
  "st_Users (removeGrant now i s) = st_Users s" "st_NodeStatus (removeGrant now i s) = st_NodeStatus s"
  by (simp_all add: removeGrant_def retireGrant_def Let_def split: option.splits)

lemma removeLink_keep [simp]:
  "st_Links (removeLink now i s) = mdel i (st_Links s)" "st_Grants (removeLink now i s) = st_Grants s"
  "st_Attachments (removeLink now i s) = st_Attachments s" "st_Gateways (removeLink now i s) = st_Gateways s"
  "st_Agents (removeLink now i s) = st_Agents s" "st_Upstreams (removeLink now i s) = st_Upstreams s"
  "st_Users (removeLink now i s) = st_Users s" "st_NodeStatus (removeLink now i s) = st_NodeStatus s"
  by (simp_all add: removeLink_def retireLink_def Let_def split: option.splits)

lemma fold_remove_keep:
  "st_Links (fold (removeGrant now) is s) = st_Links s"
  "st_Grants (fold (removeGrant now) is s) = fold mdel is (st_Grants s)"
  "st_Attachments (fold (removeGrant now) is s) = st_Attachments s"
  "st_Gateways (fold (removeGrant now) is s) = st_Gateways s"
  "st_Agents (fold (removeGrant now) is s) = st_Agents s"
  "st_Users (fold (removeGrant now) is s) = st_Users s"
  "st_Upstreams (fold (removeGrant now) is s) = st_Upstreams s"
  "st_NodeStatus (fold (removeGrant now) is s) = st_NodeStatus s"
  "st_Links (fold (removeLink now) is s) = fold mdel is (st_Links s)"
  "st_Grants (fold (removeLink now) is s) = st_Grants s"
  "st_Attachments (fold (removeLink now) is s) = st_Attachments s"
  "st_Gateways (fold (removeLink now) is s) = st_Gateways s"
  "st_Agents (fold (removeLink now) is s) = st_Agents s"
  "st_Users (fold (removeLink now) is s) = st_Users s"
  "st_Upstreams (fold (removeLink now) is s) = st_Upstreams s"
  "st_NodeStatus (fold (removeLink now) is s) = st_NodeStatus s"
  by (induction "is" arbitrary: s) simp_all

lemma retireLink_users [simp]: "st_Users (retireLink now i a n s) = st_Users s"
  by (simp add: retireLink_def Let_def split: option.splits)

text \<open>The identifiers a removal loop collects are the keys of the entries it means to remove.\<close>

lemma mget_removed:
  "mwf m \<Longrightarrow> mget (fold mdel (map fst (filter (\<lambda>(_, v). P v) m)) m) k =
     (case mget m k of None \<Rightarrow> None | Some v \<Rightarrow> if P v then None else Some v)"
proof -
  assume wf: "mwf m"
  have "k \<in> set (map fst (filter (\<lambda>(_, v). P v) m)) \<longleftrightarrow> (\<exists>v. mget m k = Some v \<and> P v)"
    using mget_in_iff [OF wf, of k] by force
  then show ?thesis by (auto simp: alist_map.get_fold_del split: option.splits)
qed

definition t_drop :: "('v \<Rightarrow> bool) \<Rightarrow> (string \<Rightarrow> 'v option) \<Rightarrow> string \<Rightarrow> 'v option" where
  "t_drop P m = (\<lambda>k. case m k of None \<Rightarrow> None | Some v \<Rightarrow> if P v then None else Some v)"

text \<open>Removing a route removes its links and grants with it.\<close>

definition t_remove_route :: "string \<Rightarrow> Topo \<Rightarrow> Topo" where
  "t_remove_route i T = T\<lparr>t_routes := (t_routes T)(i := None), t_links := t_drop (\<lambda>l. tl_route l = i) (t_links T),
     t_grants := t_drop (\<lambda>q. tq_route q = i) (t_grants T)\<rparr>"

lemma removeAttachment_fields:
  assumes "maps_ok s" "t_keyed (topo s)" and a: "mget (st_Attachments s) i = Some a"
  shows "st_Users (removeAttachment now i s) = st_Users s"
    and "st_Upstreams (removeAttachment now i s) = st_Upstreams s"
    and "st_NodeStatus (removeAttachment now i s) = st_NodeStatus s"
    and "st_Attachments (removeAttachment now i s) = mdel i (st_Attachments s)"
    and "mget (st_Links (removeAttachment now i s)) k =
      (case mget (st_Links s) k of None \<Rightarrow> None | Some l \<Rightarrow> if lk_AttachmentID l = i then None else Some l)"
    and "mget (st_Grants (removeAttachment now i s)) k =
      (case mget (st_Grants s) k of None \<Rightarrow> None | Some q \<Rightarrow> if gr_AttachmentID q = i then None else Some q)"
    and "map_option gateway_core (mget (st_Gateways (removeAttachment now i s)) k) = map_option gateway_core (mget (st_Gateways s) k)"
    and "map_option agent_core (mget (st_Agents (removeAttachment now i s)) k) = map_option agent_core (mget (st_Agents s) k)"
    and "maps_ok (removeAttachment now i s)"
proof -
  have wf: "mwf (st_Links s)" "mwf (st_Grants s)" "mwf (st_Gateways s)" "mwf (st_Agents s)" "mwf (st_Attachments s)"
    "mwf (st_Users s)" "mwf (st_Upstreams s)"
    using assms(1) by (simp_all add: maps_ok_def)
  have gid: "gw_ID g = at_GatewayID a" if "mget (st_Gateways s) (at_GatewayID a) = Some g" for g
    using topo_keyed(2) [OF assms(2) that] by simp
  have aid: "ag_ID g = at_AgentID a" if "mget (st_Agents s) (at_AgentID a) = Some g" for g
    using topo_keyed(3) [OF assms(2) that] by simp
  note def = removeAttachment_def a option.case Let_def fold_remove_keep
  show "st_Users (removeAttachment now i s) = st_Users s"
    and "st_Upstreams (removeAttachment now i s) = st_Upstreams s"
    and "st_NodeStatus (removeAttachment now i s) = st_NodeStatus s"
    and "st_Attachments (removeAttachment now i s) = mdel i (st_Attachments s)"
    unfolding def by (simp_all add: fold_remove_keep split: option.split)
  have links: "st_Links (removeAttachment now i s) =
      fold mdel (map fst (filter (\<lambda>(_, l). lk_AttachmentID l = i) (st_Links s))) (st_Links s)"
    and grants: "st_Grants (removeAttachment now i s) =
      fold mdel (map fst (filter (\<lambda>(_, l). gr_AttachmentID l = i) (st_Grants s))) (st_Grants s)"
    unfolding def by (simp_all add: fold_remove_keep split: option.split)
  show "mget (st_Links (removeAttachment now i s)) k =
      (case mget (st_Links s) k of None \<Rightarrow> None | Some l \<Rightarrow> if lk_AttachmentID l = i then None else Some l)"
    and "mget (st_Grants (removeAttachment now i s)) k =
      (case mget (st_Grants s) k of None \<Rightarrow> None | Some q \<Rightarrow> if gr_AttachmentID q = i then None else Some q)"
    unfolding links grants by (rule mget_removed, rule wf)+
  have gws: "st_Gateways (removeAttachment now i s) =
      (case mget (st_Gateways s) (at_GatewayID a) of None \<Rightarrow> st_Gateways s
       | Some g \<Rightarrow> mput (gw_ID g) (g\<lparr>gw_DesiredVersion := gw_DesiredVersion g + 1\<rparr>) (st_Gateways s))"
    unfolding def by (simp add: fold_remove_keep split: option.split)
  have ags: "st_Agents (removeAttachment now i s) =
      (case mget (st_Agents s) (at_AgentID a) of None \<Rightarrow> st_Agents s
       | Some g \<Rightarrow> mput (ag_ID g) (g\<lparr>ag_DesiredVersion := ag_DesiredVersion g + 1\<rparr>) (st_Agents s))"
    unfolding def by (simp add: fold_remove_keep split: option.split)
  show "map_option gateway_core (mget (st_Gateways (removeAttachment now i s)) k) = map_option gateway_core (mget (st_Gateways s) k)"
    unfolding gws by (auto simp: gid gateway_core_def split: option.split)
  show "map_option agent_core (mget (st_Agents (removeAttachment now i s)) k) = map_option agent_core (mget (st_Agents s) k)"
    unfolding ags by (auto simp: aid agent_core_def split: option.split)
  show "maps_ok (removeAttachment now i s)"
    using wf \<open>st_Users (removeAttachment now i s) = st_Users s\<close>
      \<open>st_Upstreams (removeAttachment now i s) = st_Upstreams s\<close>
      \<open>st_Attachments (removeAttachment now i s) = mdel i (st_Attachments s)\<close>
    unfolding maps_ok_def links grants gws ags by (auto simp: alist_map.wf_fold_del split: option.split)
qed

lemma topo_removeAttachment:
  assumes "maps_ok s" "t_keyed (topo s)" "mget (st_Attachments s) i \<noteq> None"
  shows "topo (removeAttachment now i s) = t_remove_route i (topo s)"
proof -
  obtain a where a: "mget (st_Attachments s) i = Some a" using assms(3) by auto
  note f = removeAttachment_fields [OF assms(1,2) a]
  show ?thesis
    by (rule Topo.equality)
       (auto simp: f t_remove_route_def t_drop_def fun_eq_iff link_core_def grant_core_def topo_def split: option.split)
qed

lemma t_remove_route_absent:
  assumes "t_refs T" "t_routes T i = None"
  shows "t_remove_route i T = T"
proof -
  have "tl_route l \<noteq> i" if "t_links T k = Some l" for k l using t_refsD(5) [OF assms(1) that] assms(2) by auto
  moreover have "tq_route q \<noteq> i" if "t_grants T k = Some q" for k q using t_refsD(6) [OF assms(1) that] assms(2) by auto
  ultimately show ?thesis using assms(2)
    by (intro Topo.equality) (auto simp: t_remove_route_def t_drop_def fun_eq_iff split: option.split)
qed

lemma removeAttachment_absent: "mget (st_Attachments s) i = None \<Longrightarrow> removeAttachment now i s = s"
  by (simp add: removeAttachment_def)

subsection \<open>Removing a route keeps the invariants\<close>

lemma t_drop_Some [simp]: "t_drop P m k = Some v \<longleftrightarrow> m k = Some v \<and> \<not> P v"
  by (auto simp: t_drop_def split: option.splits)

lemma t_remove_route_sel [simp]:
  "t_users (t_remove_route i T) = t_users T" "t_gateways (t_remove_route i T) = t_gateways T"
  "t_agents (t_remove_route i T) = t_agents T" "t_upstreams (t_remove_route i T) = t_upstreams T"
  "t_external (t_remove_route i T) = t_external T" "t_routes (t_remove_route i T) = (t_routes T)(i := None)"
  "t_links (t_remove_route i T) = t_drop (\<lambda>l. tl_route l = i) (t_links T)"
  "t_grants (t_remove_route i T) = t_drop (\<lambda>q. tq_route q = i) (t_grants T)"
  by (simp_all add: t_remove_route_def)

lemma t_remove_route_live:
  assumes "t_routes T (tq_route q) = Some r" "tr_id r = tq_route q" "tq_route q \<noteq> i"
  shows "t_live (t_remove_route i T) q = t_live T q"
proof -
  have "t_link_on (t_remove_route i T) (tr_id r) = t_link_on T (tr_id r)"
    using assms(2,3) by (simp add: t_link_on_def) metis
  then have "t_route_on (t_remove_route i T) r = t_route_on T r" by (intro t_route_on_cong) simp_all
  then show ?thesis using assms by (simp add: t_live_def t_user_on_def)
qed

lemma t_keyed_remove_route: "t_keyed T \<Longrightarrow> t_keyed (t_remove_route i T)"
  by (simp add: t_keyed_def)

lemma t_refs_remove_route: "t_refs T \<Longrightarrow> t_refs (t_remove_route i T)"
  unfolding t_refs_def by auto

lemma t_published_remove_route:
  assumes "t_published P T" "t_keyed T"
  shows "t_published P (t_remove_route i T)"
  unfolding t_published_def
proof (intro allI impI)
  fix k q
  assume k: "t_grants (t_remove_route i T) k = Some q" and p: "tq_pub q"
  then have "P q \<or> t_live T q" using assms(1) by (auto simp: t_published_def)
  moreover have "t_live (t_remove_route i T) q" if "t_live T q"
  proof -
    from that obtain r where r: "t_routes T (tq_route q) = Some r" by (auto simp: t_live_def split: option.splits)
    moreover have "tr_id r = tq_route q" using t_keyedD(5) [OF assms(2) r] by simp
    ultimately show ?thesis using t_remove_route_live [of T q r i] that k by simp
  qed
  ultimately show "P q \<or> t_live (t_remove_route i T) q" by blast
qed

lemma topo_ok_removeAttachment: "topo_ok s \<Longrightarrow> topo_ok (removeAttachment now i s)"
proof (cases "mget (st_Attachments s) i")
  case (Some a)
  assume ok: "topo_ok s"
  then show ?thesis
    using Some removeAttachment_fields(3,9) [of s i a now] topo_removeAttachment [of s i now]
    by (intro topo_okI [OF ok])
       (simp_all add: topo_ok_def t_keyed_remove_route t_refs_remove_route t_published_remove_route)
qed (simp add: removeAttachment_absent)

lemma topo_ok_fold_removeAttachment: "topo_ok s \<Longrightarrow> topo_ok (fold (removeAttachment now) is s)"
  by (induction "is" arbitrary: s) (simp_all add: topo_ok_removeAttachment)

text \<open>What a sequence of removals of present routes does, whatever dangles meanwhile.\<close>

lemma fold_removeAttachment_view:
  assumes "maps_ok s" "t_keyed (topo s)" "distinct is" "\<And>i. i \<in> set is \<Longrightarrow> mget (st_Attachments s) i \<noteq> None"
  shows "topo (fold (removeAttachment now) is s) = fold t_remove_route is (topo s) \<and>
    maps_ok (fold (removeAttachment now) is s) \<and>
    st_NodeStatus (fold (removeAttachment now) is s) = st_NodeStatus s"
  using assms
proof (induction "is" arbitrary: s)
  case (Cons i "is")
  obtain a where a: "mget (st_Attachments s) i = Some a" using Cons.prems(4) [of i] by auto
  note f = removeAttachment_fields [OF Cons.prems(1,2) a, of now]
  have t: "topo (removeAttachment now i s) = t_remove_route i (topo s)"
    using topo_removeAttachment [of s i now] Cons.prems a by simp
  have "topo (fold (removeAttachment now) is (removeAttachment now i s)) =
      fold t_remove_route is (topo (removeAttachment now i s)) \<and>
      maps_ok (fold (removeAttachment now) is (removeAttachment now i s)) \<and>
      st_NodeStatus (fold (removeAttachment now) is (removeAttachment now i s)) = st_NodeStatus (removeAttachment now i s)"
  proof (rule Cons.IH)
    show "maps_ok (removeAttachment now i s)" by (rule f(9))
    show "t_keyed (topo (removeAttachment now i s))" using t Cons.prems(2) by (simp add: t_keyed_remove_route)
    show "distinct is" using Cons.prems(3) by simp
    show "mget (st_Attachments (removeAttachment now i s)) j \<noteq> None" if "j \<in> set is" for j
      using that Cons.prems(3,4) f(4) by auto
  qed
  then show ?case by (simp add: t f(3))
qed simp

lemma fold_t_remove_route:
  "t_routes (fold t_remove_route is T) k = (if k \<in> set is then None else t_routes T k)"
  "t_links (fold t_remove_route is T) = t_drop (\<lambda>l. tl_route l \<in> set is) (t_links T)"
  "t_grants (fold t_remove_route is T) = t_drop (\<lambda>q. tq_route q \<in> set is) (t_grants T)"
  "t_users (fold t_remove_route is T) = t_users T" "t_gateways (fold t_remove_route is T) = t_gateways T"
  "t_agents (fold t_remove_route is T) = t_agents T" "t_upstreams (fold t_remove_route is T) = t_upstreams T"
  "t_external (fold t_remove_route is T) = t_external T"
  by (induction "is" arbitrary: T) (auto simp: t_drop_def fun_eq_iff split: option.splits)

end
