(* ===== verification/Upstreams.thy ===== *)
theory Upstreams
  imports Removal
begin

text \<open>
  External upstreams: importing VMess and VLESS nodes from links and subscriptions
  (\<open>src/internal/controller/upstream_source.go\<close>) and the handlers that create, edit, select,
  refresh, toggle, delete and attach them (\<open>upstreams.go\<close>).

  \<open>Source\<close> gathers what the importer calls outside the sources: the HTTP exchange with the
  subscription server, the JSON decoder of a VMess link, the query parser and the user part of a URL,
  and the fingerprints that the Xray library knows.

  A handler that reads the state first and fetches a subscription before its transaction passes the
  upstream it read to the transaction, which runs on whatever state the store has by then.
\<close>

datatype json_any = JNil | JString string | JNumber "int option" | JBool bool | JOther

record vmessImport =
  vi_Version :: string
  vi_Name :: string
  vi_Address :: string
  vi_Port :: json_any
  vi_UUID :: string
  vi_Cipher :: string
  vi_AlterID :: json_any
  vi_Network :: string
  vi_Path :: string
  vi_Host :: string
  vi_TLS :: string
  vi_ServerName :: string
  vi_HeaderType :: string
  vi_ALPN :: string
  vi_Fingerprint :: string
  vi_Insecure :: json_any
  vi_VCN :: string
  vi_PCS :: string

record Source =
  so_get :: "string \<Rightarrow> error + int \<times> string"                  \<comment> \<open>status and body\<close>
  so_vmess :: "string \<Rightarrow> vmessImport option"                    \<comment> \<open>a single JSON object, no unknown field\<close>
  so_query :: "string \<Rightarrow> (string \<times> string list) list option"     \<comment> \<open>\<open>url.ParseQuery\<close>\<close>
  so_user :: "string \<Rightarrow> (string \<times> bool) option"                 \<comment> \<open>user name of a URL, and whether it has a password\<close>
  so_fingerprint :: "string \<Rightarrow> bool"

subsection \<open>Text\<close>

text \<open>\<open>strings.ReplaceAll\<close> for a pattern that is not empty.\<close>

function ReplaceAll :: "string \<Rightarrow> string \<Rightarrow> string \<Rightarrow> string" where
  "ReplaceAll pat new s =
     (if pat = [] \<or> s = [] then s
      else if has_prefix s pat then new @ ReplaceAll pat new (drop (length pat) s)
      else hd s # ReplaceAll pat new (tl s))"
  by pat_completeness auto
termination
  by (relation "measure (\<lambda>(pat, new, s). length s)") auto

declare ReplaceAll.simps [simp del]

text \<open>\<open>strings.Fields\<close>.\<close>

definition Fields :: "string \<Rightarrow> string list" where
  "Fields s = filter (\<lambda>w. w \<noteq> []) (split_on CHR '' '' (map (\<lambda>c. if is_space c then CHR '' '' else c) s))"

text \<open>\<open>strings.Cut\<close>.\<close>

fun Cut :: "string \<Rightarrow> string \<Rightarrow> (string \<times> string) option" where
  "Cut [] sep = (if sep = [] then Some ([], []) else None)"
| "Cut (c # s) sep =
     (if has_prefix (c # s) sep then Some ([], drop (length sep) (c # s))
      else map_option (\<lambda>(a, b). (c # a, b)) (Cut s sep))"

definition EqualFold :: "string \<Rightarrow> string \<Rightarrow> bool" where
  "EqualFold a b = (to_lower a = to_lower b)"

definition hex_char :: "char \<Rightarrow> bool" where
  "hex_char c = (let n = of_char c :: nat in 48 \<le> n \<and> n \<le> 57 \<or> 65 \<le> n \<and> n \<le> 70 \<or> 97 \<le> n \<and> n \<le> 102)"

definition hex_string :: "string \<Rightarrow> string" where
  "hex_string s = concat (map (\<lambda>c. let n = of_char c :: nat; d = (\<lambda>k. if k < 10 then char_of (48 + k) else char_of (87 + k))
     in [d (n div 16), d (n mod 16)]) s)"

text \<open>The regular expressions of the importer.\<close>

definition vmessUUIDPattern :: "string \<Rightarrow> bool" where
  "vmessUUIDPattern s = (let parts = split_on CHR ''-'' s in
     map length parts = [8, 4, 4, 4, 12] \<and> list_all (list_all hex_char) parts)"

definition realityShortIDPattern :: "string \<Rightarrow> bool" where
  "realityShortIDPattern s = (even (length s) \<and> length s \<le> 16 \<and> list_all hex_char s)"

definition scheme_char :: "char \<Rightarrow> bool" where
  "scheme_char c = (let n = of_char c :: nat in
     48 \<le> n \<and> n \<le> 57 \<or> 65 \<le> n \<and> n \<le> 90 \<or> 97 \<le> n \<and> n \<le> 122 \<or> c \<in> set ''+.-'')"

definition subscriptionSchemePattern :: "string \<Rightarrow> bool" where
  "subscriptionSchemePattern s =
     (s \<noteq> [] \<and> (let n = of_char (hd s) :: nat in 65 \<le> n \<and> n \<le> 90 \<or> 97 \<le> n \<and> n \<le> 122) \<and> list_all scheme_char s)"

text \<open>
  The four base64 decoders in the order the importer tries them: standard and URL alphabets, each
  with padding and without. \<open>b64_decode\<close> is the last; the padded ones want full groups of four.
\<close>

definition b64_unpad :: "string \<Rightarrow> string option" where
  "b64_unpad s =
     (let t = filter (\<lambda>c. c \<noteq> CHR 0x0A \<and> c \<noteq> CHR 0x0D) s; body = takeWhile (\<lambda>c. c \<noteq> CHR ''='') t; pad = drop (length body) t
      in if length t mod 4 = 0 \<and> pad \<in> {[], ''='', ''==''} then Some body else None)"

definition b64_std :: "string \<Rightarrow> string option" where
  "b64_std s =
     (if list_ex (\<lambda>c. c = CHR ''-'' \<or> c = CHR ''_'') s then None
      else b64_decode (map (\<lambda>c. if c = CHR ''+'' then CHR ''-'' else if c = CHR ''/'' then CHR ''_'' else c) s))"

definition b64_any :: "string \<Rightarrow> string option" where
  "b64_any s =
     (case Option.bind (b64_unpad s) b64_std of
        Some x \<Rightarrow> Some x
      | None \<Rightarrow>
          (case b64_std s of
             Some x \<Rightarrow> Some x
           | None \<Rightarrow>
               (case Option.bind (b64_unpad s) b64_decode of Some x \<Rightarrow> Some x | None \<Rightarrow> b64_decode s)))"

subsection \<open>Links\<close>

definition importNumber :: "json_any \<Rightarrow> int option" where
  "importNumber v =
     (case v of JNumber n \<Rightarrow> n | JString s \<Rightarrow> ParseInt s | JNil \<Rightarrow> Some 0 | _ \<Rightarrow> None)"

definition insecure_error :: "json_any \<Rightarrow> error option" where
  "insecure_error v =
     (case v of
        JNil \<Rightarrow> None
      | JString s \<Rightarrow> if s \<noteq> [] \<and> s \<noteq> ''0'' then Some ''VMess insecure TLS is unsupported'' else None
      | JNumber n \<Rightarrow> if n \<noteq> Some 0 then Some ''VMess insecure TLS is unsupported'' else None
      | JBool b \<Rightarrow> if b then Some ''VMess insecure TLS is unsupported'' else None
      | JOther \<Rightarrow> Some ''invalid VMess insecure TLS option'')"

definition parse_IP :: "Env \<Rightarrow> string \<Rightarrow> bool" where
  "parse_IP env s = (case e_ParseAddr env s of None \<Rightarrow> False | Some ip \<Rightarrow> addr_zone ip = [])"

definition parseVMessURI :: "Source \<Rightarrow> Env \<Rightarrow> string \<Rightarrow> error + VMessEndpoint" where
  "parseVMessURI src env v =
     (let link = TrimSpace v in
      if \<not> has_prefix link ''vmess://'' then Inl ''expected vmess:// link''
      else let payload = takeWhile (\<lambda>c. c \<noteq> CHR ''?'' \<and> c \<noteq> CHR ''#'') (trim_prefix link ''vmess://'') in
      case b64_any payload of
        None \<Rightarrow> Inl ''invalid VMess base64''
      | Some decoded \<Rightarrow>
      (case so_vmess src decoded of
         None \<Rightarrow> Inl ''invalid VMess JSON''
       | Some item \<Rightarrow>
         if vi_Version item \<noteq> [] \<and> vi_Version item \<noteq> ''2'' then Inl ''unsupported VMess link version''
         else if vi_HeaderType item \<noteq> [] \<and> vi_HeaderType item \<noteq> ''none'' \<or> vi_ALPN item \<noteq> [] \<or> vi_Fingerprint item \<noteq> [] \<or>
                 vi_VCN item \<noteq> [] \<or> vi_PCS item \<noteq> []
           then Inl ''unsupported VMess header or TLS option''
         else if insecure_error (vi_Insecure item) \<noteq> None then Inl (the (insecure_error (vi_Insecure item)))
         else case importNumber (vi_Port item) of
             None \<Rightarrow> Inl ''invalid VMess port''
           | Some port \<Rightarrow>
             if port < 1 \<or> 65535 < port then Inl ''invalid VMess port''
             else if importNumber (vi_AlterID item) \<noteq> Some 0 then Inl ''only VMess alterId 0 is supported''
             else if \<not> vmessUUIDPattern (vi_UUID item) then Inl ''invalid VMess UUID''
             else let address = TrimSpace (vi_Address item) in
             if address = [] \<or> ContainsAny address (''/?#@ '' @ [CHR 0x5C, CHR 0x09, CHR 0x0D, CHR 0x0A]) \<or>
                Contains address '':'' \<and> \<not> parse_IP env address
               then Inl ''invalid VMess address''
             else let network0 = to_lower (TrimSpace (vi_Network item)); network = (if network0 = [] then ''tcp'' else network0) in
             if network \<noteq> ''tcp'' \<and> network \<noteq> ''ws'' then Inl ''only VMess TCP and WS are supported''
             else let tls = to_lower (TrimSpace (vi_TLS item)) in
             if tls \<noteq> [] \<and> tls \<noteq> ''none'' \<and> tls \<noteq> ''tls'' then Inl ''unsupported VMess TLS mode''
             else let cipher0 = to_lower (TrimSpace (vi_Cipher item)); cipher = (if cipher0 = [] then ''auto'' else cipher0) in
             if cipher \<noteq> ''auto'' \<and> cipher \<noteq> ''aes-128-gcm'' \<and> cipher \<noteq> ''chacha20-poly1305'' then Inl ''unsupported VMess cipher''
             else let path0 = TrimSpace (vi_Path item); path = (if network \<noteq> ''ws'' then [] else if path0 = [] then ''/'' else path0) in
             if network = ''ws'' \<and> (\<not> has_prefix path ''/'' \<or> ContainsAny path [CHR 0x0D, CHR 0x0A])
               then Inl ''invalid VMess WS path''
             else let host = TrimSpace (vi_Host item); serverName0 = TrimSpace (vi_ServerName item) in
             if ContainsAny (host @ serverName0) [CHR 0x0D, CHR 0x0A] then Inl ''invalid VMess host''
             else let serverName = (if tls = ''tls'' \<and> serverName0 = [] \<and> host \<noteq> [] \<and>
                                       \<not> ContainsAny host ('':, '' @ [CHR 0x09]) \<and> \<not> parse_IP env host
                                    then host else serverName0)
             in Inr (zero_VMessEndpoint\<lparr>ve_Name := TrimSpace (vi_Name item), ve_Protocol := ''vmess'', ve_Address := address,
                       ve_Port := port, ve_UUID := vi_UUID item, ve_Cipher := cipher, ve_Network := network, ve_Path := path,
                       ve_Host := host, ve_TLS := (tls = ''tls''), ve_ServerName := serverName\<rparr>)))"

definition normalizeExternalLink :: "string \<Rightarrow> string" where
  "normalizeExternalLink v =
     fold (\<lambda>(a, b) s. ReplaceAll a b s)
       [(CHR 0x5C # ''://'', ''://''), ([CHR 0x5C, CHR ''@''], ''@''), ([CHR 0x5C, CHR ''.''], ''.'')] (TrimSpace v)"

definition vless_options :: "string list" where
  "vless_options = [''encryption'', ''flow'', ''security'', ''sni'', ''fp'', ''pbk'', ''sid'', ''spx'', ''type'', ''headerType'']"

definition parse_vless :: "Source \<Rightarrow> Env \<Rightarrow> string \<Rightarrow> error + VMessEndpoint" where
  "parse_vless src env v =
     (case (e_ParseURL env v, so_user src v) of
        (Some u, Some (username, hasPassword)) \<Rightarrow>
          if url_Hostname u = [] \<or> url_Port u = [] then Inl ''invalid VLESS URL''
          else if hasPassword \<or> \<not> vmessUUIDPattern username \<or> url_Path u \<noteq> [] then Inl ''invalid VLESS identity or path''
          else (case ParseInt (url_Port u) of
             None \<Rightarrow> Inl ''invalid VLESS port''
           | Some port \<Rightarrow>
             if port < 1 \<or> 65535 < port then Inl ''invalid VLESS port''
             else case so_query src (url_RawQuery u) of
                 None \<Rightarrow> Inl ''invalid VLESS query''
               | Some q \<Rightarrow>
                 (case filter (\<lambda>(key, vs). key \<notin> set vless_options \<or> length vs \<noteq> 1) q of
                    (key, _) # _ \<Rightarrow> Inl (''unsupported VLESS option '' @ quoted key)
                  | [] \<Rightarrow>
                    (let get = (\<lambda>k. case map_of q k of Some (x # _) \<Rightarrow> x | _ \<Rightarrow> []);
                         serverName = get ''sni''; publicKey = get ''pbk''; fingerprint = get ''fp'';
                         shortID = get ''sid''; spiderX = (if get ''spx'' = [] then ''/'' else get ''spx'')
                     in if get ''encryption'' \<noteq> ''none'' \<or> get ''flow'' \<noteq> ''xtls-rprx-vision'' \<or> get ''security'' \<noteq> ''reality'' \<or>
                           get ''type'' \<noteq> ''tcp'' \<or> get ''headerType'' \<noteq> ''none''
                          then Inl ''only VLESS TCP + REALITY + Vision is supported''
                        else if serverName = [] \<or> ContainsAny serverName (''/?#@: '' @ [CHR 0x5C, CHR 0x09, CHR 0x0D, CHR 0x0A]) \<or>
                                (case b64_decode publicKey of None \<Rightarrow> True | Some bytes \<Rightarrow> length bytes \<noteq> 32) \<or> fingerprint = [] \<or>
                                ContainsAny fingerprint ('' '' @ [CHR 0x09, CHR 0x0D, CHR 0x0A]) \<or>
                                fingerprint = ''unsafe'' \<or> fingerprint = ''hellogolang'' \<or> \<not> so_fingerprint src fingerprint
                          then Inl ''invalid REALITY server name, public key or fingerprint''
                        else if \<not> realityShortIDPattern shortID then Inl ''invalid REALITY short ID''
                        else if \<not> has_prefix spiderX ''/'' \<or> ContainsAny spiderX [CHR 0x0D, CHR 0x0A]
                          then Inl ''invalid REALITY spider path''
                        else Inr (zero_VMessEndpoint\<lparr>ve_Name := TrimSpace (url_Fragment u), ve_Protocol := ''vless'',
                               ve_Address := url_Hostname u, ve_Port := port, ve_UUID := username, ve_Network := ''raw'',
                               ve_ServerName := serverName, ve_Flow := ''xtls-rprx-vision'', ve_PublicKey := publicKey,
                               ve_ShortID := shortID, ve_Fingerprint := fingerprint, ve_SpiderX := spiderX\<rparr>))))
      | _ \<Rightarrow> Inl ''invalid VLESS URL'')"

definition parseExternalURI :: "Source \<Rightarrow> Env \<Rightarrow> string \<Rightarrow> error + VMessEndpoint" where
  "parseExternalURI src env v =
     (let link = normalizeExternalLink v in
      if has_prefix link ''vmess://'' then parseVMessURI src env link
      else if \<not> has_prefix link ''vless://'' then Inl ''expected vmess:// or vless:// link''
      else parse_vless src env link)"

definition sameVMessConnection :: "VMessEndpoint \<Rightarrow> VMessEndpoint \<Rightarrow> bool" where
  "sameVMessConnection a b =
     (let strip = (\<lambda>e. e\<lparr>ve_Name := [], ve_Protocol := if ve_Protocol e = [] then ''vmess'' else ve_Protocol e\<rparr>)
      in strip a = strip b)"

subsection \<open>Subscriptions\<close>

text \<open>\<open>utf8.Valid\<close> on the codes of the bytes.\<close>

fun utf8_codes :: "nat list \<Rightarrow> bool" where
  "utf8_codes [] = True"
| "utf8_codes (a # bs) =
     (let cont = (\<lambda>b. 128 \<le> b \<and> b \<le> 191) in
      if a < 128 then utf8_codes bs
      else case bs of
          b # cs \<Rightarrow>
            if 194 \<le> a \<and> a \<le> 223 then cont b \<and> utf8_codes cs
            else (case cs of
                c # ds \<Rightarrow>
                  if 224 \<le> a \<and> a \<le> 239 then
                    (if a = 224 then 160 \<le> b else True) \<and> (if a = 237 then b \<le> 159 else True) \<and> cont b \<and> cont c \<and> utf8_codes ds
                  else (case ds of
                      d # es \<Rightarrow> 240 \<le> a \<and> a \<le> 244 \<and> (if a = 240 then 144 \<le> b else True) \<and> (if a = 244 then b \<le> 143 else True) \<and>
                        cont b \<and> cont c \<and> cont d \<and> utf8_codes es
                    | [] \<Rightarrow> False)
              | [] \<Rightarrow> False)
        | [] \<Rightarrow> False)"

definition utf8_Valid :: "string \<Rightarrow> bool" where
  "utf8_Valid s = utf8_codes (map of_char s)"

text \<open>The text of a subscription: plain links, or the whole of it in base64.\<close>

definition subscription_text :: "string \<Rightarrow> error + string" where
  "subscription_text body =
     (let content = normalizeExternalLink body in
      if content = [] \<or> Contains content ''://'' then Inr content
      else case b64_any (concat (Fields content)) of
          None \<Rightarrow> Inl ''invalid external subscription encoding''
        | Some decoded \<Rightarrow>
            if \<not> utf8_Valid decoded then Inl ''invalid external subscription text''
            else let text = TrimSpace decoded in
              if text \<noteq> [] \<and> \<not> Contains text ''://'' then Inl ''invalid external subscription text'' else Inr text)"

text \<open>One line of a subscription: an error, a node, or a line to skip; the flag says whether it was a supported scheme.\<close>

definition subscription_line :: "Source \<Rightarrow> Env \<Rightarrow> string \<Rightarrow> error + bool \<times> VMessEndpoint option" where
  "subscription_line src env line =
     (case Cut line ''://'' of
        None \<Rightarrow> Inl ''invalid external subscription text''
      | Some (scheme, target) \<Rightarrow>
          if \<not> subscriptionSchemePattern scheme \<or> target = [] \<or> ContainsAny line [CHR ''<'', CHR ''>'', CHR 0x22, CHR 0x27] \<or>
             EqualFold scheme ''http'' \<or> EqualFold scheme ''https''
          then Inl ''invalid external subscription text''
          else if \<not> EqualFold scheme ''vmess'' \<and> \<not> EqualFold scheme ''vless'' then Inr (False, None)
          else Inr (True, case parseExternalURI src env line of Inl _ \<Rightarrow> None | Inr endpoint \<Rightarrow> Some endpoint))"

fun subscription_lines ::
    "Source \<Rightarrow> Env \<Rightarrow> string list \<Rightarrow> nat \<Rightarrow> VMessEndpoint list \<Rightarrow> error + nat \<times> VMessEndpoint list" where
  "subscription_lines src env [] supported result = Inr (supported, result)"
| "subscription_lines src env (line # lines) supported result =
     (case subscription_line src env line of
        Inl err \<Rightarrow> Inl err
      | Inr (known, node) \<Rightarrow>
          subscription_lines src env lines (if known then Suc supported else supported)
            (case node of
               None \<Rightarrow> result
             | Some endpoint \<Rightarrow>
                 if list_ex (\<lambda>existing. sameVMessConnection existing endpoint) result then result else result @ [endpoint]))"

definition parseVMessSubscription :: "Source \<Rightarrow> Env \<Rightarrow> string \<Rightarrow> error + VMessEndpoint list" where
  "parseVMessSubscription src env body =
     (case subscription_text body of
        Inl err \<Rightarrow> Inl err
      | Inr content \<Rightarrow>
          (case subscription_lines src env (Fields content) 0 [] of
             Inl err \<Rightarrow> Inl err
           | Inr (supported, result) \<Rightarrow>
               if 0 < supported \<and> result = [] then Inl ''subscription has no valid VMess or VLESS node'' else Inr result))"

definition maxSubscriptionBytes :: nat where
  "maxSubscriptionBytes = 2 ^ 20"

text \<open>\<open>so_get\<close> is the exchange through the restricted dialer, with the body cut at one byte over the limit.\<close>

definition fetchVMessSubscription :: "Source \<Rightarrow> Env \<Rightarrow> string \<Rightarrow> error + VMessEndpoint list" where
  "fetchVMessSubscription src env rawURL =
     (case e_ParseURL env rawURL of
        None \<Rightarrow> Inl ''subscription URL must be absolute HTTP or HTTPS''
      | Some u \<Rightarrow>
          if url_Scheme u \<noteq> ''https'' \<and> url_Scheme u \<noteq> ''http'' \<or> url_Host u = [] \<or> url_User u \<or> url_Fragment u \<noteq> []
          then Inl ''subscription URL must be absolute HTTP or HTTPS''
          else case so_get src rawURL of
              Inl err \<Rightarrow> Inl err
            | Inr (status, body) \<Rightarrow>
                if status \<noteq> 200 then Inl (''subscription HTTP status '' @ Itoa status)
                else let read = take (maxSubscriptionBytes + 1) body in
                  if maxSubscriptionBytes < length read then Inl ''subscription exceeds 1 MiB''
                  else parseVMessSubscription src env read)"

definition FormatBool :: "bool \<Rightarrow> string" where
  "FormatBool b = (if b then ''true'' else ''false'')"

definition key_digest :: "Env \<Rightarrow> string list \<Rightarrow> string" where
  "key_digest env parts = hex_string (take 12 (e_sha256 env (join_with [CHR 0x00] parts)))"

definition upstreamKey :: "Env \<Rightarrow> VMessEndpoint \<Rightarrow> string" where
  "upstreamKey env e = ''v3-'' @ key_digest env
     [if ve_Protocol e = [] then ''vmess'' else ve_Protocol e, to_lower (ve_UUID e), to_lower (ve_Address e), Itoa (ve_Port e),
      ve_Network e, ve_Path e, to_lower (ve_Host e), FormatBool (ve_TLS e), to_lower (ve_ServerName e), ve_Cipher e, ve_Flow e,
      ve_PublicKey e, ve_ShortID e, ve_Fingerprint e, ve_SpiderX e]"

definition previousUpstreamKey :: "Env \<Rightarrow> VMessEndpoint \<Rightarrow> string" where
  "previousUpstreamKey env e = ''v2-'' @ key_digest env
     [to_lower (ve_UUID e), to_lower (ve_Address e), Itoa (ve_Port e), ve_Network e, ve_Path e, to_lower (ve_Host e),
      FormatBool (ve_TLS e), to_lower (ve_ServerName e)]"

definition endpoint_name :: "Env \<Rightarrow> VMessEndpoint \<Rightarrow> string" where
  "endpoint_name env e = (if ve_Name e = [] then e_JoinHostPort env (ve_Address e) (Itoa (ve_Port e)) else ve_Name e)"

definition legacyUpstreamKey :: "Env \<Rightarrow> VMessEndpoint \<Rightarrow> string" where
  "legacyUpstreamKey env e = key_digest env [endpoint_name env e, to_lower (ve_UUID e)]"

definition subscriptionCandidates :: "Env \<Rightarrow> VMessEndpoint list \<Rightarrow> UpstreamCandidate list" where
  "subscriptionCandidates env nodes =
     snd (fold (\<lambda>node (seen, result).
       let key = upstreamKey env node in
       if key \<in> set seen then (seen, result)
       else (key # seen, result @ [\<lparr>uc_Key = key, uc_Name = endpoint_name env node\<rparr>])) nodes ([], []))"

definition key_matches :: "Env \<Rightarrow> string \<Rightarrow> VMessEndpoint \<Rightarrow> bool" where
  "key_matches env key node =
     (upstreamKey env node = key \<or> has_prefix key ''v2-'' \<and> previousUpstreamKey env node = key \<or>
      \<not> has_prefix key ''v3-'' \<and> \<not> has_prefix key ''v2-'' \<and> legacyUpstreamKey env node = key)"

definition selectedEndpoint :: "Env \<Rightarrow> VMessEndpoint list \<Rightarrow> string \<Rightarrow> error + VMessEndpoint" where
  "selectedEndpoint env nodes key =
     (let (selected, count) = fold (\<lambda>node (selected, count).
            if key_matches env key node then
              (if 0 < count \<and> sameVMessConnection selected node then (selected, count) else (node, Suc count))
            else (selected, count)) nodes (zero_VMessEndpoint, 0)
      in if count \<noteq> 1 then Inl (''selected external node has '' @ Itoa (int count) @ '' matches'') else Inr selected)"

subsection \<open>Handlers\<close>

definition external_link :: "string \<Rightarrow> bool" where
  "external_link source = (has_prefix source ''vmess://'' \<or> has_prefix source ''vless://'')"

text \<open>The import shared by \<open>createUpstream\<close> and \<open>editUpstream\<close>: an upstream with the endpoint of a link, or
  with the candidates of a subscription and its only node selected.\<close>

definition import_source :: "Source \<Rightarrow> Env \<Rightarrow> string \<Rightarrow> VMessUpstream \<Rightarrow> error + VMessUpstream" where
  "import_source src env source upstream =
     (if external_link source then
        (case parseExternalURI src env source of
           Inl err \<Rightarrow> Inl err | Inr endpoint \<Rightarrow> Inr (upstream\<lparr>vu_Endpoint := endpoint\<rparr>))
      else case fetchVMessSubscription src env source of
          Inl err \<Rightarrow> Inl err
        | Inr nodes \<Rightarrow>
            if nodes = [] then Inl ''subscription has no supported VMess or VLESS node''
            else
              let u = upstream\<lparr>vu_SubscriptionURL := source, vu_Candidates := subscriptionCandidates env nodes, vu_LastRefresh := e_now env\<rparr>
              in Inr (if length nodes = 1
                      then u\<lparr>vu_SelectedKey := upstreamKey env (hd nodes), vu_Endpoint := hd nodes\<rparr> else u))"

definition createUpstream_tx :: "VMessUpstream \<Rightarrow> unit tx" where
  "createUpstream_tx upstream s = Inr ((), s\<lparr>st_Upstreams := mput (vu_ID upstream) upstream (st_Upstreams s)\<rparr>)"

definition createUpstream :: "Source \<Rightarrow> Env \<Rightarrow> Request \<Rightarrow> Store \<Rightarrow> Response \<times> Store" where
  "createUpstream src env r st =
     (let name = TrimSpace (FormValue r ''name''); source = normalizeExternalLink (FormValue r ''source'') in
      if name = [] \<or> source = [] then (HttpError 400 ''name and VMess or VLESS link or subscription URL are required'', st)
      else case newID env 0 ''up'' of
          Inl err \<Rightarrow> (HttpError 500 ''could not create upstream'', st)
        | Inr i \<Rightarrow>
            (case import_source src env source
                    (zero_VMessUpstream\<lparr>vu_ID := i, vu_Name := name, vu_Enabled := True, vu_CreatedAt := e_now env\<rparr>) of
               Inl err \<Rightarrow> (HttpError 400 err, st)
             | Inr upstream \<Rightarrow>
                 (case Update (e_store env) (createUpstream_tx upstream) st of
                    (Inl _, st') \<Rightarrow> (HttpError 500 ''could not save upstream'', st')
                  | (Inr _, st') \<Rightarrow> (SeeOther ''/#upstreams'', st'))))"

definition editUpstream_tx :: "string \<Rightarrow> string \<Rightarrow> bool \<Rightarrow> VMessUpstream \<Rightarrow> VMessUpstream \<Rightarrow> unit tx" where
  "editUpstream_tx i name replaceSource current updated s =
     (case mget (st_Upstreams s) i of
        None \<Rightarrow> Inl ''upstream changed during edit''
      | Some existing \<Rightarrow>
          if replaceSource \<and> (vu_SubscriptionURL existing \<noteq> vu_SubscriptionURL current \<or> vu_Endpoint existing \<noteq> vu_Endpoint current \<or>
                              vu_SelectedKey existing \<noteq> vu_SelectedKey current)
          then Inl ''upstream changed during edit''
          else
            let next0 = existing\<lparr>vu_Name := name\<rparr>;
                next1 = (if replaceSource
                         then next0\<lparr>vu_SubscriptionURL := vu_SubscriptionURL updated, vu_SelectedKey := vu_SelectedKey updated,
                                vu_Endpoint := vu_Endpoint updated, vu_Candidates := vu_Candidates updated,
                                vu_LastRefresh := vu_LastRefresh updated, vu_LastError := vu_LastError updated\<rparr>
                         else next0);
                s1 = s\<lparr>st_Upstreams := mput i next1 (st_Upstreams s)\<rparr>
            in Inr ((), if sameVMessConnection (vu_Endpoint existing) (vu_Endpoint next1) then s1 else bumpUpstreamRoutes i s1))"

definition editUpstream :: "Source \<Rightarrow> Env \<Rightarrow> Request \<Rightarrow> Store \<Rightarrow> Response \<times> Store" where
  "editUpstream src env r st =
     (let i = rq_id r; name = TrimSpace (FormValue r ''name''); source = normalizeExternalLink (FormValue r ''source'') in
      if name = [] then (HttpError 400 ''name is required'', st)
      else case mget (st_Upstreams (store_Snapshot st)) i of
          None \<Rightarrow> (HttpError 404 ''upstream not found'', st)
        | Some current \<Rightarrow>
            (let replaceSource = (source \<noteq> [] \<and> source \<noteq> vu_SubscriptionURL current);
                 blank = current\<lparr>vu_Name := name, vu_SubscriptionURL := [], vu_SelectedKey := [], vu_Endpoint := zero_VMessEndpoint,
                           vu_Candidates := [], vu_LastRefresh := 0, vu_LastError := []\<rparr>
             in case (if replaceSource then import_source src env source blank else Inr (current\<lparr>vu_Name := name\<rparr>)) of
                  Inl err \<Rightarrow> (HttpError 400 err, st)
                | Inr updated \<Rightarrow>
                    answer 409 (SeeOther ''/#upstreams'')
                      (Update (e_store env) (editUpstream_tx i name replaceSource current updated) st)))"

definition selectUpstream_tx :: "Env \<Rightarrow> string \<Rightarrow> VMessUpstream \<Rightarrow> VMessEndpoint list \<Rightarrow> VMessEndpoint \<Rightarrow> unit tx" where
  "selectUpstream_tx env i current nodes endpoint s =
     (case mget (st_Upstreams s) i of
        None \<Rightarrow> Inl ''subscription changed during selection''
      | Some upstream \<Rightarrow>
          if vu_SubscriptionURL upstream \<noteq> vu_SubscriptionURL current then Inl ''subscription changed during selection''
          else
            let changed = (\<not> sameVMessConnection (vu_Endpoint upstream) endpoint);
                u = upstream\<lparr>vu_SelectedKey := upstreamKey env endpoint, vu_Endpoint := endpoint,
                      vu_Candidates := subscriptionCandidates env nodes, vu_LastRefresh := e_now env, vu_LastError := []\<rparr>;
                s1 = s\<lparr>st_Upstreams := mput i u (st_Upstreams s)\<rparr>
            in Inr ((), if changed then bumpUpstreamRoutes i s1 else s1))"

definition selectUpstream :: "Source \<Rightarrow> Env \<Rightarrow> Request \<Rightarrow> Store \<Rightarrow> Response \<times> Store" where
  "selectUpstream src env r st =
     (let i = rq_id r; key = TrimSpace (FormValue r ''selected_key'') in
      case mget (st_Upstreams (store_Snapshot st)) i of
        None \<Rightarrow> (HttpError 404 ''subscription not found'', st)
      | Some current \<Rightarrow>
          if vu_SubscriptionURL current = [] then (HttpError 404 ''subscription not found'', st)
          else case fetchVMessSubscription src env (vu_SubscriptionURL current) of
              Inl err \<Rightarrow> (HttpError 400 err, st)
            | Inr nodes \<Rightarrow>
                (case selectedEndpoint env nodes key of
                   Inl err \<Rightarrow> (HttpError 400 err, st)
                 | Inr endpoint \<Rightarrow>
                     answer 409 (SeeOther ''/#upstreams'')
                       (Update (e_store env) (selectUpstream_tx env i current nodes endpoint) st)))"

text \<open>The endpoint that a refresh keeps selected, with the key under which it was found.\<close>

definition reselect :: "Env \<Rightarrow> VMessEndpoint list \<Rightarrow> VMessUpstream \<Rightarrow> error + VMessEndpoint" where
  "reselect env nodes upstream =
     (let selectedKey = (if \<not> has_prefix (vu_SelectedKey upstream) ''v3-'' \<and> ve_UUID (vu_Endpoint upstream) \<noteq> []
                         then upstreamKey env (vu_Endpoint upstream) else vu_SelectedKey upstream)
      in case selectedEndpoint env nodes selectedKey of
           Inr endpoint \<Rightarrow> Inr endpoint
         | Inl err \<Rightarrow> if selectedKey \<noteq> vu_SelectedKey upstream then selectedEndpoint env nodes (vu_SelectedKey upstream) else Inl err)"

definition refreshUpstream_tx :: "Env \<Rightarrow> string \<Rightarrow> VMessUpstream \<Rightarrow> (error + VMessEndpoint list) \<Rightarrow> (error option) tx" where
  "refreshUpstream_tx env i current fetched s =
     (case mget (st_Upstreams s) i of
        None \<Rightarrow> Inl ''subscription changed during refresh''
      | Some upstream \<Rightarrow>
          if vu_SubscriptionURL upstream \<noteq> vu_SubscriptionURL current then Inl ''subscription changed during refresh''
          else (case fetched of
             Inl err \<Rightarrow> Inr (Some err, s\<lparr>st_Upstreams := mput i (upstream\<lparr>vu_LastError := err\<rparr>) (st_Upstreams s)\<rparr>)
           | Inr nodes \<Rightarrow>
             (let u = upstream\<lparr>vu_Candidates := subscriptionCandidates env nodes, vu_LastRefresh := e_now env, vu_LastError := []\<rparr>;
                  put = (\<lambda>u s. s\<lparr>st_Upstreams := mput i u (st_Upstreams s)\<rparr>)
              in if vu_SelectedKey u \<noteq> [] then
                   (let (result, u1, endpoint) =
                      (case reselect env nodes u of
                         Inl err \<Rightarrow> (Some err, u\<lparr>vu_LastError := err\<rparr>, zero_VMessEndpoint)
                       | Inr endpoint \<Rightarrow> (None, u\<lparr>vu_SelectedKey := upstreamKey env endpoint\<rparr>, endpoint));
                        s1 = (if sameVMessConnection (vu_Endpoint u1) endpoint then s else bumpUpstreamRoutes i s)
                    in Inr (result, put (u1\<lparr>vu_Endpoint := endpoint\<rparr>) s1))
                 else if length nodes = 1 then
                   Inr (None, put (u\<lparr>vu_SelectedKey := upstreamKey env (hd nodes), vu_Endpoint := hd nodes\<rparr>) (bumpUpstreamRoutes i s))
                 else Inr (None, put u s))))"

definition refreshUpstream :: "Source \<Rightarrow> Env \<Rightarrow> string \<Rightarrow> Store \<Rightarrow> error option \<times> Store" where
  "refreshUpstream src env i st =
     (case mget (st_Upstreams (store_Snapshot st)) i of
        None \<Rightarrow> (Some ''subscription not found'', st)
      | Some current \<Rightarrow>
          if vu_SubscriptionURL current = [] then (Some ''subscription not found'', st)
          else case Update (e_store env)
                 (refreshUpstream_tx env i current (fetchVMessSubscription src env (vu_SubscriptionURL current))) st of
              (Inl err, st') \<Rightarrow> (Some err, st')
            | (Inr refreshErr, st') \<Rightarrow> (refreshErr, st'))"

definition refreshUpstreamHTTP :: "Source \<Rightarrow> Env \<Rightarrow> Request \<Rightarrow> Store \<Rightarrow> Response \<times> Store" where
  "refreshUpstreamHTTP src env r st =
     (case refreshUpstream src env (rq_id r) st of
        (Some err, st') \<Rightarrow> (HttpError 400 err, st') | (None, st') \<Rightarrow> (SeeOther ''/#upstreams'', st'))"

text \<open>One tick of the background refresh: every upstream of the snapshot that has a subscription.\<close>

definition RefreshUpstreamSubscriptions :: "Source \<Rightarrow> Env \<Rightarrow> Store \<Rightarrow> Store" where
  "RefreshUpstreamSubscriptions src env st =
     fold (\<lambda>(i, upstream) st. if vu_SubscriptionURL upstream = [] then st else snd (refreshUpstream src env i st))
       (st_Upstreams (store_Snapshot st)) st"

definition toggleUpstream_tx :: "string \<Rightarrow> unit tx" where
  "toggleUpstream_tx i s =
     (case mget (st_Upstreams s) i of
        None \<Rightarrow> Inl ''upstream not found''
      | Some upstream \<Rightarrow>
          (let u = upstream\<lparr>vu_Enabled := \<not> vu_Enabled upstream\<rparr>
           in Inr ((), bumpUpstreamRoutes (vu_ID u) (s\<lparr>st_Upstreams := mput (vu_ID u) u (st_Upstreams s)\<rparr>))))"

definition toggleUpstream :: "Env \<Rightarrow> Request \<Rightarrow> Store \<Rightarrow> Response \<times> Store" where
  "toggleUpstream env r st = answer 404 (SeeOther ''/#upstreams'') (Update (e_store env) (toggleUpstream_tx (rq_id r)) st)"

definition deleteUpstream_tx :: "Env \<Rightarrow> string \<Rightarrow> string \<Rightarrow> unit tx" where
  "deleteUpstream_tx env i confirm_name s =
     (case mget (st_Upstreams s) i of
        None \<Rightarrow> Inl ''upstream not found''
      | Some upstream \<Rightarrow>
          if confirm_name \<noteq> vu_Name upstream then Inl ''confirmation name does not match''
          else
            let s1 = fold (removeAttachment (e_now env))
                  (map fst (filter (\<lambda>(_, a). at_UpstreamID a = vu_ID upstream) (st_Attachments s))) s
            in Inr ((), s1\<lparr>st_Upstreams := mdel (vu_ID upstream) (st_Upstreams s1)\<rparr>))"

definition deleteUpstream :: "Env \<Rightarrow> Request \<Rightarrow> Store \<Rightarrow> Response \<times> Store" where
  "deleteUpstream env r st =
     answer 400 (SeeOther ''/#upstreams'')
       (Update (e_store env) (deleteUpstream_tx env (rq_id r) (FormValue r ''confirm_name'')) st)"

definition attachUpstream_tx :: "Env \<Rightarrow> string \<Rightarrow> string \<Rightarrow> string \<Rightarrow> unit tx" where
  "attachUpstream_tx env i gatewayID upstreamID s =
     (if mget (st_Gateways s) gatewayID = None then Inl ''gateway not found''
      else if mget (st_Upstreams s) upstreamID = None then Inl ''upstream not found''
      else if list_ex (\<lambda>route. at_GatewayID route = gatewayID \<and> at_UpstreamID route = upstreamID) (mvals (st_Attachments s))
        then Inl ''route already exists''
      else Inr ((), bumpGateway gatewayID (s\<lparr>st_Attachments := mput i
             (zero_Attachment\<lparr>at_ID := i, at_GatewayID := gatewayID, at_UpstreamID := upstreamID, at_Enabled := True,
                at_CreatedAt := e_now env\<rparr>) (st_Attachments s)\<rparr>)))"

definition attachUpstream :: "Env \<Rightarrow> Request \<Rightarrow> Store \<Rightarrow> Response \<times> Store" where
  "attachUpstream env r st =
     (case newID env 0 ''node'' of
        Inl err \<Rightarrow> (HttpError 500 ''could not create route'', st)
      | Inr i \<Rightarrow>
          answer 400 (SeeOther ''/#upstreams'')
            (Update (e_store env) (attachUpstream_tx env i (FormValue r ''gateway_id'') (FormValue r ''upstream_id'')) st))"

subsection \<open>Probes\<close>

definition currentUpstreamProbe :: "State \<Rightarrow> Attachment \<Rightarrow> UpstreamProbeStatus option" where
  "currentUpstreamProbe s attachment =
     (case at_UpstreamProbe attachment of
        None \<Rightarrow> None
      | Some probe \<Rightarrow>
          if ps_Revision probe \<noteq> gw_DesiredVersion (gateway_at s (at_GatewayID attachment)) \<or>
             ps_RequestID probe \<noteq> at_ProbeRequestID attachment then None else Some probe)"

definition requestUpstreamProbe_tx :: "Env \<Rightarrow> string \<Rightarrow> string \<Rightarrow> unit tx" where
  "requestUpstreamProbe_tx env i requestID s =
     (case mget (st_Attachments s) i of
        None \<Rightarrow> Inl ''external route not found''
      | Some attachment \<Rightarrow>
          if at_UpstreamID attachment = [] then Inl ''external route not found''
          else if \<not> at_Enabled attachment \<or> \<not> gw_Enabled (gateway_at s (at_GatewayID attachment)) \<or> \<not> upstreamAvailable s attachment
            then Inl ''external route is disabled or has no selected node''
          else let status = status_at s (at_GatewayID attachment) in
            if \<not> ns_UpstreamProbes status then Inl ''upgrade this Gateway to support upstream tests''
            else if \<not> ns_Online status \<or> IsZero (ns_LastSeen status) \<or>
                    e_NodeOfflineAfterSeconds env * second < time_sub (e_now env) (ns_LastSeen status)
              then Inl ''Gateway is offline''
            else if (case currentUpstreamProbe s attachment of None \<Rightarrow> False | Some probe \<Rightarrow> IsZero (ps_CompletedAt probe)) then Inr ((), s)
            else if at_ProbeRequestID attachment \<noteq> [] \<and> currentUpstreamProbe s attachment = None \<and>
                    time_sub (e_now env) (at_ProbeRequestedAt attachment) < minute then Inr ((), s)
            else Inr ((), s\<lparr>st_Attachments := mput i
                   (attachment\<lparr>at_ProbeRequestID := requestID, at_ProbeRequestedAt := e_now env\<rparr>) (st_Attachments s)\<rparr>))"

definition requestUpstreamProbe :: "Env \<Rightarrow> Request \<Rightarrow> Store \<Rightarrow> Response \<times> Store" where
  "requestUpstreamProbe env r st =
     (case newID env 0 ''probe'' of
        Inl err \<Rightarrow> (HttpError 500 ''could not create test request'', st)
      | Inr requestID \<Rightarrow>
          answer 409 (SeeOther ''/#upstreams'') (Update (e_store env) (requestUpstreamProbe_tx env (rq_id r) requestID) st))"

end
