(* ===== verification/Releases.thy ===== *)
theory Releases
  imports Upstreams
begin

text \<open>
  The release cache of the Controller (\<open>src/internal/controller/releases.go\<close>): the assets of a
  release, its manifest of checksums, and the directory in which verified assets are kept.

  The directory is a map from paths to files with a size, a modification time and an identity
  (\<open>os.SameFile\<close>). \<open>Net\<close> is the world outside: the HTTP exchange under a redirect policy, the
  failures of the file system, the stamp of a file just written, and what other processes do to
  the directory while an asset is being hashed.
\<close>

definition maxReleaseAsset :: nat where "maxReleaseAsset = 256 * 2 ^ 20"
definition maxReleaseManifest :: nat where "maxReleaseManifest = 64 * 2 ^ 10"
definition releaseVerificationTTL :: duration where "releaseVerificationTTL = 5 * minute"

record File =
  fl_data :: string
  fl_modified :: gotime
  fl_inode :: nat

record verifiedReleaseAsset =
  vr_assetSize :: nat
  vr_assetModified :: gotime
  vr_assetFile :: nat
  vr_manifestSize :: nat
  vr_manifestModified :: gotime
  vr_manifestFile :: nat
  vr_checkedAt :: gotime

record ReleaseCache =
  rc_files :: "File gomap"
  rc_verified :: "verifiedReleaseAsset gomap"

record HttpResult =
  hr_StatusCode :: int
  hr_Status :: string     \<comment> \<open>the status line, such as \<open>404 Not Found\<close>\<close>
  hr_length :: int        \<comment> \<open>\<open>ContentLength\<close>, -1 when it is unknown\<close>
  hr_body :: string

record Net =
  nt_do :: "(URL \<Rightarrow> URL \<Rightarrow> bool) \<Rightarrow> string \<Rightarrow> error + HttpResult"
  nt_disk :: "string \<Rightarrow> error option"
  nt_stamp :: "string \<Rightarrow> gotime \<times> nat"
  nt_meanwhile :: "File gomap \<Rightarrow> File gomap"

subsection \<open>The assets of a release\<close>

text \<open>\<open>fmt.Sscanf(version, "v%d.%d.%d", ...)\<close>: the text after the last number is not read.\<close>

definition scan_int :: "string \<Rightarrow> (int \<times> string) option" where
  "scan_int v =
     (let v1 = dropWhile (\<lambda>c. c = CHR '' '' \<or> c = CHR 0x09) v;
          negative = (v1 \<noteq> [] \<and> hd v1 = CHR ''-'');
          v2 = (if v1 \<noteq> [] \<and> hd v1 \<in> {CHR ''-'', CHR ''+''} then tl v1 else v1);
          digits = takeWhile (\<lambda>c. digit_val c \<noteq> None) v2
      in case ParseInt ((if negative then ''-'' else '''') @ digits) of
           None \<Rightarrow> None
         | Some n \<Rightarrow> if digits = [] then None else Some (n, drop (length digits) v2))"

definition scan_version :: "string \<Rightarrow> (int \<times> int \<times> int) option" where
  "scan_version v =
     (case v of
        [] \<Rightarrow> None
      | c # cs \<Rightarrow>
          if c \<noteq> CHR ''v'' then None
          else case scan_int cs of
              Some (major, d1 # rest1) \<Rightarrow>
                if d1 \<noteq> CHR ''.'' then None
                else (case scan_int rest1 of
                    Some (minor, d2 # rest2) \<Rightarrow>
                      if d2 \<noteq> CHR ''.'' then None
                      else (case scan_int rest2 of Some (patch, _) \<Rightarrow> Some (major, minor, patch) | None \<Rightarrow> None)
                  | _ \<Rightarrow> None)
            | _ \<Rightarrow> None)"

definition releaseAssets :: "string \<Rightarrow> string list" where
  "releaseAssets version =
     [''SHA256SUMS'', ''install.sh'', ''install-docker.sh'', ''install-controller.sh'', ''backup-controller.sh'',
      ''THIRD_PARTY_NOTICES.md'', ''xmesh-'' @ version @ ''-linux-amd64.tar.gz'', ''xmesh-'' @ version @ ''-linux-arm64.tar.gz'',
      ''xmesh-'' @ version @ ''-windows-amd64.exe''] @
     (case scan_version version of
        None \<Rightarrow> []
      | Some (major, minor, patch) \<Rightarrow>
          if 0 < major \<or> 3 < minor \<or> minor = 3 \<and> 2 < patch then [''install-updater.sh''] else [])"

definition isReleaseAsset :: "string \<Rightarrow> string \<Rightarrow> bool" where
  "isReleaseAsset version name = list_ex (\<lambda>asset. name = asset) (releaseAssets version)"

definition releaseDirectory :: "Env \<Rightarrow> string" where
  "releaseDirectory env = e_ReleaseDir env @ ''/'' @ e_ReleaseVersion env"

abbreviation asset_path :: "Env \<Rightarrow> string \<Rightarrow> string" where
  "asset_path env name \<equiv> releaseDirectory env @ ''/'' @ name"

definition releaseServer :: "Env \<Rightarrow> string \<Rightarrow> Env" where
  "releaseServer env version = (if version = e_ReleaseVersion env then env else env\<lparr>e_ReleaseVersion := version\<rparr>)"

definition releaseVersionAllowed :: "Env \<Rightarrow> State \<Rightarrow> string \<Rightarrow> bool" where
  "releaseVersionAllowed env s version =
     (if version = e_ReleaseVersion env then True
      else if \<not> releaseVersionPattern version then False
      else list_ex (\<lambda>task. ut_TargetVersion task = version \<and> ut_Stage task \<noteq> ''cancelled'') (mvals (st_UpgradeTasks s)))"

subsection \<open>The manifest\<close>

fun manifest_lines :: "string \<Rightarrow> string list \<Rightarrow> string gomap \<Rightarrow> error + string gomap" where
  "manifest_lines version [] hashes = Inr hashes"
| "manifest_lines version (line # rest) hashes =
     (if line = [] then manifest_lines version rest hashes
      else case Cut line ''  '' of
          None \<Rightarrow> Inl ''invalid release manifest entry''
        | Some (digest, name) \<Rightarrow>
            if length digest \<noteq> 64 \<or> \<not> isReleaseAsset version name \<or> name = ''SHA256SUMS''
            then Inl ''invalid release manifest entry''
            else if \<not> list_all hex_char digest then Inl ''invalid release manifest digest''
            else if mget hashes name \<noteq> None then Inl ''duplicate release manifest entry''
            else manifest_lines version rest (mput name (to_lower digest) hashes))"

definition parseReleaseManifest :: "string \<Rightarrow> string \<Rightarrow> error + string gomap" where
  "parseReleaseManifest version manifest =
     (if maxReleaseManifest < length manifest then Inl ''release manifest too large''
      else case manifest_lines version (split_on CHR 0x0A manifest) [] of
          Inl err \<Rightarrow> Inl err
        | Inr hashes \<Rightarrow>
            (case find (\<lambda>asset. mget hashes asset = None) (tl (releaseAssets version)) of
               Some asset \<Rightarrow> Inl (''release manifest missing '' @ asset)
             | None \<Rightarrow> Inr hashes))"

subsection \<open>The cache\<close>

definition not_found :: error where "not_found = ''file does not exist''"

definition releaseExpectedHash :: "Env \<Rightarrow> File gomap \<Rightarrow> string \<Rightarrow> error + string" where
  "releaseExpectedHash env files name =
     (case mget files (asset_path env ''SHA256SUMS'') of
        None \<Rightarrow> Inl not_found
      | Some manifest \<Rightarrow>
          (case parseReleaseManifest (e_ReleaseVersion env) (fl_data manifest) of
             Inl err \<Rightarrow> Inl err
           | Inr hashes \<Rightarrow>
               (case mget hashes name of None \<Rightarrow> Inl ''asset missing from SHA256SUMS'' | Some hash \<Rightarrow> Inr hash)))"

definition releaseCacheHit :: "Env \<Rightarrow> ReleaseCache \<Rightarrow> string \<Rightarrow> File \<Rightarrow> File \<Rightarrow> bool" where
  "releaseCacheHit env cache path asset manifest =
     (case mget (rc_verified cache) path of
        None \<Rightarrow> False
      | Some entry \<Rightarrow>
          time_sub (e_now env) (vr_checkedAt entry) < releaseVerificationTTL \<and>
          vr_assetSize entry = length (fl_data asset) \<and> vr_assetModified entry = fl_modified asset \<and>
          vr_assetFile entry = fl_inode asset \<and>
          vr_manifestSize entry = length (fl_data manifest) \<and> vr_manifestModified entry = fl_modified manifest \<and>
          vr_manifestFile entry = fl_inode manifest)"

definition fastReleaseCacheHit :: "Env \<Rightarrow> ReleaseCache \<Rightarrow> string \<Rightarrow> bool" where
  "fastReleaseCacheHit env cache name =
     (if name = ''SHA256SUMS'' \<or> \<not> releaseEnabled env \<or> \<not> isReleaseAsset (e_ReleaseVersion env) name then False
      else case (mget (rc_files cache) (asset_path env name), mget (rc_files cache) (asset_path env ''SHA256SUMS'')) of
          (Some asset, Some manifest) \<Rightarrow> releaseCacheHit env cache (asset_path env name) asset manifest
        | _ \<Rightarrow> False)"

definition unchanged_file :: "File option \<Rightarrow> File \<Rightarrow> bool" where
  "unchanged_file after info =
     (case after of
        None \<Rightarrow> False
      | Some f \<Rightarrow> length (fl_data f) = length (fl_data info) \<and> fl_modified f = fl_modified info \<and> fl_inode f = fl_inode info)"

text \<open>The result of a validation, with the cache in which a successful one is remembered.\<close>

definition validCachedAsset :: "Net \<Rightarrow> Env \<Rightarrow> string \<Rightarrow> ReleaseCache \<Rightarrow> error option \<times> ReleaseCache" where
  "validCachedAsset net env name cache =
     (let files = rc_files cache; path = asset_path env name in
      if \<not> releaseEnabled env \<or> \<not> isReleaseAsset (e_ReleaseVersion env) name then (Some ''release asset not configured'', cache)
      else if name = ''SHA256SUMS'' then
        (case mget files path of
           None \<Rightarrow> (Some not_found, cache)
         | Some manifest \<Rightarrow>
             (case parseReleaseManifest (e_ReleaseVersion env) (fl_data manifest) of Inl err \<Rightarrow> (Some err, cache) | Inr _ \<Rightarrow> (None, cache)))
      else case releaseExpectedHash env files name of
          Inl err \<Rightarrow> (Some err, cache)
        | Inr expected \<Rightarrow>
            (case (mget files path, mget files (asset_path env ''SHA256SUMS'')) of
               (Some asset, Some manifest) \<Rightarrow>
                 if releaseCacheHit env cache path asset manifest then (None, cache)
                 else if hex_string (e_sha256 env (fl_data asset)) \<noteq> expected
                   then (Some ''cached asset checksum mismatch'', cache\<lparr>rc_files := nt_meanwhile net files\<rparr>)
                 else
                   let later = nt_meanwhile net files; cache' = cache\<lparr>rc_files := later\<rparr> in
                   if \<not> unchanged_file (mget later path) asset \<or>
                      \<not> unchanged_file (mget later (asset_path env ''SHA256SUMS'')) manifest
                   then (Some ''release asset changed during verification'', cache')
                   else (None, cache'\<lparr>rc_verified := mput path
                          \<lparr>vr_assetSize = length (fl_data asset), vr_assetModified = fl_modified asset, vr_assetFile = fl_inode asset,
                           vr_manifestSize = length (fl_data manifest), vr_manifestModified = fl_modified manifest,
                           vr_manifestFile = fl_inode manifest, vr_checkedAt = e_now env\<rparr> (rc_verified cache')\<rparr>)
             | _ \<Rightarrow> (Some not_found, cache)))"

definition releaseRedirectAllowed :: "URL \<Rightarrow> URL \<Rightarrow> bool" where
  "releaseRedirectAllowed source target =
     (if url_Scheme target \<noteq> ''https'' \<or> url_User target \<or> url_Fragment target \<noteq> [] then False
      else if EqualFold (url_Host source) (url_Host target) then True
      else if \<not> EqualFold (url_Host source) ''github.com'' \<or> url_Port target \<noteq> [] \<and> url_Port target \<noteq> ''443'' then False
      else to_lower (url_Hostname target) \<in> {''release-assets.githubusercontent.com'', ''objects.githubusercontent.com'',
             ''github-releases.githubusercontent.com''})"

definition fetchReleaseAsset :: "Net \<Rightarrow> Env \<Rightarrow> string \<Rightarrow> string \<Rightarrow> nat \<Rightarrow> ReleaseCache \<Rightarrow> error option \<times> ReleaseCache" where
  "fetchReleaseAsset net env name expected limit cache =
     (let path = asset_path env name in
      case nt_disk net (releaseDirectory env) of
        Some err \<Rightarrow> (Some err, cache)
      | None \<Rightarrow>
      case nt_do net releaseRedirectAllowed (trim_suffix (e_ReleaseBaseURL env) ''/'' @ ''/'' @ e_ReleaseVersion env @ ''/'' @ name) of
        Inl err \<Rightarrow> (Some err, cache)
      | Inr response \<Rightarrow>
          if hr_StatusCode response \<noteq> 200 then (Some (''release source returned '' @ hr_Status response), cache)
          else if int limit < hr_length response then (Some ''release asset exceeds size limit'', cache)
          else
            let written = take (limit + 1) (hr_body response) in
            case nt_disk net path of
              Some err \<Rightarrow> (Some err, cache)
            | None \<Rightarrow>
                if limit < length written then (Some ''release asset exceeds size limit'', cache)
                else if expected \<noteq> [] \<and> hex_string (e_sha256 env written) \<noteq> expected
                  then (Some ''release asset checksum mismatch'', cache)
                else
                  let store = (None, cache\<lparr>rc_files := mput path
                        \<lparr>fl_data = written, fl_modified = fst (nt_stamp net path), fl_inode = snd (nt_stamp net path)\<rparr> (rc_files cache)\<rparr>)
                  in if name = ''SHA256SUMS''
                     then (case parseReleaseManifest (e_ReleaseVersion env) written of Inl err \<Rightarrow> (Some err, cache) | Inr _ \<Rightarrow> store)
                     else store)"

definition ensureReleaseAsset :: "Net \<Rightarrow> Env \<Rightarrow> string \<Rightarrow> ReleaseCache \<Rightarrow> error option \<times> ReleaseCache" where
  "ensureReleaseAsset net env name cache =
     (if fastReleaseCacheHit env cache name then (None, cache)
      else
        let (problem, c1) = validCachedAsset net env name cache in
        if problem = None then (None, c1)
        else if name = ''SHA256SUMS'' then fetchReleaseAsset net env name '''' maxReleaseManifest c1
        else
          let (manifest, c2) = validCachedAsset net env ''SHA256SUMS'' c1;
              (err, c3) = (if manifest \<noteq> None then fetchReleaseAsset net env ''SHA256SUMS'' '''' maxReleaseManifest c2 else (None, c2))
          in if err \<noteq> None then (err, c3)
             else
               let (again, c4) = (if manifest \<noteq> None then validCachedAsset net env name c3 else (Some '''', c3)) in
               if again = None then (None, c4)
               else case releaseExpectedHash env (rc_files c4) name of
                   Inl e \<Rightarrow> (Some e, c4)
                 | Inr expected \<Rightarrow>
                     let (err, c5) = fetchReleaseAsset net env name expected maxReleaseAsset c4 in
                     if err \<noteq> None then (err, c5) else validCachedAsset net env name c5)"

end
