(* ===== verification/Telemetry.thy ===== *)
theory Telemetry
  imports Upstreams
begin

text \<open>
  What the Controller keeps of the reports of its nodes: traffic per user and link
  (\<open>src/internal/controller/usage.go\<close>), the history of every link (\<open>dashboard.go\<close>), the results of
  upstream probes (\<open>upstream_probes.go\<close>), and the checks on the text of a report
  (\<open>status_validation.go\<close>). The theorems: traffic is counted exactly once whatever the number of
  reports, and the histories stay within their bounds.
\<close>

definition historyInterval :: duration where "historyInterval = 5 * minute"
definition historyRetention :: duration where "historyRetention = 24 * hour"
definition historyLimit :: nat where "historyLimit = 289"
definition usageRetention :: duration where "usageRetention = 30 * 24 * hour"

record StatusReport =
  sr_UpstreamProbes :: "UpstreamProbeStatus list"
  sr_Status :: NodeStatus
  sr_Links :: "LinkStatus list"
  sr_Grants :: "GrantStatus list"

subsection \<open>Text of a report\<close>

text \<open>The runes of a Go string: the bytes of an invalid sequence decode one at a time to U+FFFD.\<close>

fun runes :: "nat list \<Rightarrow> nat list" where
  "runes [] = []"
| "runes (a # bs) =
     (let cont = (\<lambda>b. 128 \<le> b \<and> b \<le> 191) in
      if a < 128 then a # runes bs
      else case bs of
          b # cs \<Rightarrow>
            if 194 \<le> a \<and> a \<le> 223 then (if cont b then ((a - 192) * 64 + (b - 128)) # runes cs else 65533 # runes bs)
            else (case cs of
                c # ds \<Rightarrow>
                  if 224 \<le> a \<and> a \<le> 239 then
                    (if (a = 224 \<longrightarrow> 160 \<le> b) \<and> (a = 237 \<longrightarrow> b \<le> 159) \<and> cont b \<and> cont c
                     then ((a - 224) * 4096 + (b - 128) * 64 + (c - 128)) # runes ds else 65533 # runes bs)
                  else (case ds of
                      d # es \<Rightarrow>
                        if 240 \<le> a \<and> a \<le> 244 \<and> (a = 240 \<longrightarrow> 144 \<le> b) \<and> (a = 244 \<longrightarrow> b \<le> 143) \<and> cont b \<and> cont c \<and> cont d
                        then ((a - 240) * 262144 + (b - 128) * 4096 + (c - 128) * 64 + (d - 128)) # runes es else 65533 # runes bs
                    | [] \<Rightarrow> 65533 # runes bs)
              | [] \<Rightarrow> 65533 # runes bs)
        | [] \<Rightarrow> [65533])"

text \<open>\<open>unicode.IsControl\<close> and the class \<open>Bidi_Control\<close>.\<close>

definition IsControl :: "nat \<Rightarrow> bool" where
  "IsControl r = (r < 32 \<or> 127 \<le> r \<and> r < 160)"

definition Bidi_Control :: "nat \<Rightarrow> bool" where
  "Bidi_Control r = (r = 0x61C \<or> 0x200E \<le> r \<and> r \<le> 0x200F \<or> 0x202A \<le> r \<and> r \<le> 0x202E \<or> 0x2066 \<le> r \<and> r \<le> 0x2069)"

definition hidden_rune :: "nat \<Rightarrow> bool" where
  "hidden_rune r = (IsControl r \<and> r \<noteq> 10 \<and> r \<noteq> 9 \<and> r \<noteq> 13 \<or> Bidi_Control r)"

definition validateStatusText :: "StatusReport \<Rightarrow> error option" where
  "validateStatusText report =
     (let status = sr_Status report;
          texts = [ns_LastError status, ns_ApplyError status, ns_XrayError status] @
            map ls_LastError (sr_Links report) @ map gs_LastError (sr_Grants report)
      in if 128 < length (ns_BinaryVersion status) \<or> 128 < length (ns_InstanceID status) \<or> 128 < length (ns_FailureCounters status)
         then Some ''status metadata exceeds limit''
         else if list_ex (\<lambda>key. 128 < length key) (mkeys (ns_FailureCounters status))
         then Some ''status counter name exceeds limit''
         else if list_ex (\<lambda>text. 1024 < length text \<or> list_ex hidden_rune (runes (map of_char text))) texts
         then Some ''status text must be at most 1024 bytes and contain no hidden control characters''
         else None)"

subsection \<open>Link history\<close>

definition sampleLinkHistory :: "LinkStatus \<Rightarrow> gotime \<Rightarrow> State \<Rightarrow> State" where
  "sampleLinkHistory status now s =
     (let samples = zget [] (st_LinkHistory s) (ls_LinkID status) in
      if samples \<noteq> [] \<and> time_sub now (sm_At (last samples)) < historyInterval then s
      else
        let samples1 = samples @ [\<lparr>sm_At = now, sm_InstanceID = ns_InstanceID (status_at s (ls_ReporterNodeID status)),
              sm_Generation = ls_Generation status, sm_UploadBytes = ls_UploadBytes status,
              sm_DownloadBytes = ls_DownloadBytes status, sm_RTTMillis = ls_RTTMillis status,
              sm_Ready = (ls_Online status \<and> ls_Ready status)\<rparr>];
            samples2 = (if historyLimit < length samples1 then drop (length samples1 - historyLimit) samples1 else samples1)
        in s\<lparr>st_LinkHistory := mput (ls_LinkID status) samples2 (st_LinkHistory s)\<rparr>)"

definition history_kept :: "State \<Rightarrow> string \<Rightarrow> bool" where
  "history_kept s i =
     (if has_prefix i ''external:''
      then (case mget (st_Attachments s) (trim_prefix i ''external:'') of
              None \<Rightarrow> False | Some attachment \<Rightarrow> at_UpstreamID attachment \<noteq> [])
      else mget (st_Links s) i \<noteq> None)"

definition pruneLinkHistory :: "gotime \<Rightarrow> State \<Rightarrow> State" where
  "pruneLinkHistory now s =
     s\<lparr>st_LinkHistory := mmap (\<lambda>_ samples. dropWhile (\<lambda>sample. sm_At sample < now - historyRetention) samples)
         (mkeep (\<lambda>i _. history_kept s i) (st_LinkHistory s))\<rparr>"

subsection \<open>Usage\<close>

text \<open>What one report adds to the traffic of a link: the counters start at zero for each process of the gateway.\<close>

definition usage_delta :: "UsageCounter option \<Rightarrow> string \<Rightarrow> GrantLinkUsage \<Rightarrow> (uint64 \<times> uint64) option" where
  "usage_delta previous instanceID link =
     (case previous of
        None \<Rightarrow> Some (gl_UploadBytes link, gl_DownloadBytes link)
      | Some p \<Rightarrow>
          if cn_InstanceID p \<noteq> instanceID then Some (gl_UploadBytes link, gl_DownloadBytes link)
          else if gl_UploadBytes link < cn_UploadBytes p \<or> gl_DownloadBytes link < cn_DownloadBytes p then None
          else Some (gl_UploadBytes link - cn_UploadBytes p, gl_DownloadBytes link - cn_DownloadBytes p))"

definition add_to_bucket :: "gotime \<Rightarrow> uint64 \<Rightarrow> uint64 \<Rightarrow> UsageBucket list \<Rightarrow> UsageBucket list" where
  "add_to_bucket bucketAt up down buckets0 =
     (let buckets = (if buckets0 = [] \<or> bu_At (last buckets0) \<noteq> bucketAt
                     then buckets0 @ [\<lparr>bu_At = bucketAt, bu_UploadBytes = 0, bu_DownloadBytes = 0\<rparr>] else buckets0);
          b = last buckets
      in butlast buckets @ [b\<lparr>bu_UploadBytes := bu_UploadBytes b + up, bu_DownloadBytes := bu_DownloadBytes b + down\<rparr>])"

definition sample_link_usage :: "string \<Rightarrow> string \<Rightarrow> string \<Rightarrow> string gomap \<Rightarrow> gotime \<Rightarrow> GrantLinkUsage \<Rightarrow> State \<Rightarrow> error + State" where
  "sample_link_usage instanceID grantID userID names now link s =
     (case mget names (gl_LinkID link) of
        None \<Rightarrow> Inl ''grant Link does not belong to grant route''
      | Some name \<Rightarrow>
          (let counterKey = grantID @ ''/'' @ gl_LinkID link;
               usageKey = userID @ ''/'' @ gl_LinkID link;
               previous = mget (st_UsageCounters s) counterKey;
               s1 = s\<lparr>st_UsageCounters := mput counterKey
                       \<lparr>cn_InstanceID = instanceID, cn_UploadBytes = gl_UploadBytes link,
                        cn_DownloadBytes = gl_DownloadBytes link\<rparr> (st_UsageCounters s)\<rparr>
           in case usage_delta previous instanceID link of
                None \<Rightarrow> Inr s1
              | Some (up, down) \<Rightarrow>
                  if up = 0 \<and> down = 0 then Inr s1
                  else
                    let s2 = (if name \<noteq> [] then s1\<lparr>st_UsageLabels := mput usageKey name (st_UsageLabels s1)\<rparr> else s1)
                    in Inr (s2\<lparr>st_UsageHistory := mput usageKey
                         (add_to_bucket (time_truncate now historyInterval) up down (zget [] (st_UsageHistory s2) usageKey))
                         (st_UsageHistory s2)\<rparr>)))"

fun sampleGrantUsageFor :: "string \<Rightarrow> string \<Rightarrow> string \<Rightarrow> string gomap \<Rightarrow> gotime \<Rightarrow> GrantLinkUsage list \<Rightarrow> State \<Rightarrow> error + State" where
  "sampleGrantUsageFor instanceID grantID userID names now [] s = Inr s"
| "sampleGrantUsageFor instanceID grantID userID names now (link # links) s =
     (case sample_link_usage instanceID grantID userID names now link s of
        Inl err \<Rightarrow> Inl err
      | Inr s1 \<Rightarrow> sampleGrantUsageFor instanceID grantID userID names now links s1)"

definition grant_link_names :: "Grant \<Rightarrow> gotime \<Rightarrow> State \<Rightarrow> string gomap" where
  "grant_link_names grant now s =
     (let attachment = attachment_at s (gr_AttachmentID grant);
          names1 = fold (\<lambda>(i, link). if lk_AttachmentID link = gr_AttachmentID grant then mput i (lk_Name link) else id) (st_Links s) [];
          names2 = fold (\<lambda>(i, link). if rl_AttachmentID link = gr_AttachmentID grant \<and> now < rl_ExpiresAt link
                                     then mput i (rl_Name link) else id) (st_RetiredLinks s) names1
      in if at_UpstreamID attachment \<noteq> []
         then mput (at_ID attachment) (vu_Name (upstream_at s (at_UpstreamID attachment))) names2 else names2)"

definition sampleGrantUsage :: "string \<Rightarrow> string \<Rightarrow> GrantLinkUsage list \<Rightarrow> gotime \<Rightarrow> State \<Rightarrow> error + State" where
  "sampleGrantUsage instanceID grantID links now s =
     (let grant = zget zero_Grant (st_Grants s) grantID
      in sampleGrantUsageFor instanceID grantID (gr_UserID grant) (grant_link_names grant now s) now links s)"

definition sampleRetiredGrantUsage :: "string \<Rightarrow> string \<Rightarrow> RetiredGrant \<Rightarrow> GrantLinkUsage list \<Rightarrow> gotime \<Rightarrow> State \<Rightarrow> error + State" where
  "sampleRetiredGrantUsage instanceID grantID retired links now s =
     sampleGrantUsageFor instanceID grantID (rg_UserID retired) (rg_LinkNames retired) now links s"

definition pruneUsageHistory :: "gotime \<Rightarrow> State \<Rightarrow> State" where
  "pruneUsageHistory now s =
     (let rest = (\<lambda>buckets. dropWhile (\<lambda>b. bu_At b < now - usageRetention) buckets);
          gone = map fst (filter (\<lambda>(_, buckets). rest buckets = []) (st_UsageHistory s))
      in s\<lparr>st_UsageHistory := mmap (\<lambda>_ buckets. rest buckets) (mkeep (\<lambda>_ buckets. rest buckets \<noteq> []) (st_UsageHistory s)),
           st_UsageLabels := mkeep (\<lambda>key _. key \<notin> set gone) (st_UsageLabels s)\<rparr>)"

subsection \<open>Upstream probes\<close>

text \<open>A \<open>Duration\<close> is a 64-bit integer: its arithmetic wraps around.\<close>

definition int64 :: "int \<Rightarrow> int" where
  "int64 = signed_take_bit 63"

definition upstreamProbeFreshness :: "NodeStatus \<Rightarrow> duration" where
  "upstreamProbeFreshness status =
     (let interval = int64 (ns_UpstreamProbeIntervalSeconds status * second);
          interval' = (if interval \<le> 0 then minute else interval)
      in int64 (int64 (interval' * 2) + 35 * second))"

definition probe_target_error :: "Env \<Rightarrow> bool \<Rightarrow> string \<Rightarrow> UpstreamProbeTarget \<Rightarrow> error option" where
  "probe_target_error env first expected target =
     (if pt_URL target \<noteq> expected \<or> 512 < length (pt_Error target) \<or> pt_DurationMillis target < 0 \<or>
         35000 < pt_DurationMillis target \<or> pt_HTTPStatus target < 0 \<or> 599 < pt_HTTPStatus target
      then Some ''invalid upstream test target''
      else if pt_Success target \<and> (pt_HTTPStatus target < 200 \<or> 400 \<le> pt_HTTPStatus target \<or> pt_Error target \<noteq> [])
      then Some ''inconsistent upstream test success''
      else if first \<and> pt_Success target then
        (case e_ParseAddr env (pt_ExitIP target) of
           None \<Rightarrow> Some ''invalid upstream exit IP''
         | Some ip \<Rightarrow> if \<not> addr_global ip \<or> addr_private ip then Some ''invalid upstream exit IP'' else None)
      else if pt_ExitIP target \<noteq> [] then Some ''unexpected upstream exit IP'' else None)"

definition validateUpstreamProbe :: "Env \<Rightarrow> UpstreamProbeStatus \<Rightarrow> error option" where
  "validateUpstreamProbe env result =
     (if IsZero (ps_StartedAt result) then Some ''upstream test start time is missing''
      else if IsZero (ps_CompletedAt result) then
        (if ps_Targets result \<noteq> [] then Some ''unfinished upstream test has results'' else None)
      else if ps_CompletedAt result < ps_StartedAt result then Some ''invalid upstream test completion''
      else case ps_Targets result of
          [t0, t1] \<Rightarrow>
            (case probe_target_error env True UpstreamIPProbeURL t0 of
               Some err \<Rightarrow> Some err
             | None \<Rightarrow> probe_target_error env False UpstreamMicrosoftProbeURL t1)
        | _ \<Rightarrow> Some ''invalid upstream test completion'')"

text \<open>A result that an earlier report already gave, or that a later one has replaced.\<close>

definition probe_superseded :: "UpstreamProbeStatus option \<Rightarrow> UpstreamProbeStatus \<Rightarrow> bool" where
  "probe_superseded previous result =
     (case previous of
        None \<Rightarrow> False
      | Some p \<Rightarrow>
          ps_StartedAt result = ps_StartedAt p \<and> ps_CompletedAt result = ps_CompletedAt p \<or>
          ps_StartedAt result < ps_StartedAt p \<or>
          ps_StartedAt result = ps_StartedAt p \<and> \<not> IsZero (ps_CompletedAt p) \<and> IsZero (ps_CompletedAt result))"

definition store_probe :: "string \<Rightarrow> gotime \<Rightarrow> UpstreamProbeStatus \<Rightarrow> Attachment \<Rightarrow> State \<Rightarrow> State" where
  "store_probe nodeID now result attachment s =
     (let finished = \<not> IsZero (ps_CompletedAt result);
          a1 = (if \<not> finished then attachment
                else if Successful result
                  then attachment\<lparr>at_UpstreamProbeFailureSince := 0, at_UpstreamProbeFailureVersion := 0\<rparr>
                else if IsZero (at_UpstreamProbeFailureSince attachment) \<or> at_UpstreamProbeFailureVersion attachment \<noteq> ps_Revision result
                  then attachment\<lparr>at_UpstreamProbeFailureSince := now, at_UpstreamProbeFailureVersion := ps_Revision result\<rparr>
                else attachment);
          a2 = a1\<lparr>at_UpstreamProbe := Some result\<rparr>;
          s1 = s\<lparr>st_Attachments := mput (at_ID a2) a2 (st_Attachments s)\<rparr>
      in if finished
         then sampleLinkHistory (zero_LinkStatus\<lparr>ls_LinkID := ''external:'' @ at_ID a2, ls_ReporterNodeID := nodeID,
                ls_Generation := ps_Revision result, ls_Online := True, ls_Ready := Successful result,
                ls_RTTMillis := of_int (case ps_Targets result of [] \<Rightarrow> 0 | t # _ \<Rightarrow> pt_DurationMillis t)\<rparr>) now s1
         else s1)"

definition accept_probe :: "Env \<Rightarrow> string \<Rightarrow> StatusReport \<Rightarrow> gotime \<Rightarrow> string list \<Rightarrow> UpstreamProbeStatus \<Rightarrow> State \<Rightarrow> error + string list \<times> State" where
  "accept_probe env nodeID report now seen result s =
     (case mget (st_Attachments s) (ps_AttachmentID result) of
        None \<Rightarrow> Inr (seen, s)
      | Some attachment \<Rightarrow>
          if at_GatewayID attachment \<noteq> nodeID \<or> at_UpstreamID attachment = []
          then Inl (''upstream test '' @ ps_AttachmentID result @ '' does not belong to Gateway'')
          else if ps_AttachmentID result \<in> set seen then Inl ''duplicate upstream test result''
          else
            let seen' = ps_AttachmentID result # seen;
                gateway = gateway_at s nodeID
            in if ps_Revision result \<noteq> gw_DesiredVersion gateway \<or> ps_RequestID result \<noteq> at_ProbeRequestID attachment \<or>
                  ns_AppliedVersion (sr_Status report) \<noteq> ps_Revision result \<or> \<not> ns_XrayReady (sr_Status report) \<or>
                  \<not> at_Enabled attachment \<or> \<not> gw_Enabled gateway \<or> \<not> upstreamAvailable s attachment
               then Inr (seen', s)
               else case validateUpstreamProbe env result of
                   Some err \<Rightarrow> Inl err
                 | None \<Rightarrow>
                     if now + minute < ps_StartedAt result then Inl ''upstream test time is in the future''
                     else if probe_superseded (currentUpstreamProbe s attachment) result then Inr (seen', s)
                     else Inr (seen', store_probe nodeID now result attachment s))"

fun accept_probes :: "Env \<Rightarrow> string \<Rightarrow> StatusReport \<Rightarrow> gotime \<Rightarrow> string list \<Rightarrow> UpstreamProbeStatus list \<Rightarrow> State \<Rightarrow> error + State" where
  "accept_probes env nodeID report now seen [] s = Inr s"
| "accept_probes env nodeID report now seen (result # results) s =
     (case accept_probe env nodeID report now seen result s of
        Inl err \<Rightarrow> Inl err
      | Inr (seen', s') \<Rightarrow> accept_probes env nodeID report now seen' results s')"

definition acceptUpstreamProbes :: "Env \<Rightarrow> Role \<Rightarrow> string \<Rightarrow> StatusReport \<Rightarrow> gotime \<Rightarrow> State \<Rightarrow> error + State" where
  "acceptUpstreamProbes env role nodeID report now s =
     (if sr_UpstreamProbes report = [] then Inr s
      else if role \<noteq> RoleGateway \<or> \<not> ns_UpstreamProbes (sr_Status report)
      then Inl ''only capable Gateways may report upstream tests''
      else accept_probes env nodeID report now [] (sr_UpstreamProbes report) s)"


subsection \<open>Traffic is counted once\<close>

definition usage_up :: "State \<Rightarrow> string \<Rightarrow> uint64" where
  "usage_up s key = sum_list (map bu_UploadBytes (zget [] (st_UsageHistory s) key))"

definition usage_down :: "State \<Rightarrow> string \<Rightarrow> uint64" where
  "usage_down s key = sum_list (map bu_DownloadBytes (zget [] (st_UsageHistory s) key))"

lemma add_to_bucket_sum [simp]:
  "sum_list (map bu_UploadBytes (add_to_bucket t up down bs)) = sum_list (map bu_UploadBytes bs) + up"
  "sum_list (map bu_DownloadBytes (add_to_bucket t up down bs)) = sum_list (map bu_DownloadBytes bs) + down"
  by (induction bs rule: rev_induct) (simp_all add: add_to_bucket_def Let_def butlast_append)

lemma sample_link_usage_ok:
  assumes "gl_LinkID link \<in> set (mkeys names)"
  obtains s' where "sample_link_usage I g u names now link s = Inr s'"
    "\<And>k. mget (st_UsageCounters s') k = (if k = g @ ''/'' @ gl_LinkID link
        then Some \<lparr>cn_InstanceID = I, cn_UploadBytes = gl_UploadBytes link, cn_DownloadBytes = gl_DownloadBytes link\<rparr>
        else mget (st_UsageCounters s) k)"
    "\<And>k. usage_up s' k = usage_up s k + (if k = u @ ''/'' @ gl_LinkID link
        then (case usage_delta (mget (st_UsageCounters s) (g @ ''/'' @ gl_LinkID link)) I link of None \<Rightarrow> 0 | Some d \<Rightarrow> fst d) else 0)"
    "\<And>k. usage_down s' k = usage_down s k + (if k = u @ ''/'' @ gl_LinkID link
        then (case usage_delta (mget (st_UsageCounters s) (g @ ''/'' @ gl_LinkID link)) I link of None \<Rightarrow> 0 | Some d \<Rightarrow> snd d) else 0)"
proof -
  obtain name where n: "mget names (gl_LinkID link) = Some name"
    using assms mget_None_iff [of names "gl_LinkID link"] by (auto simp: mkeys_def)
  show thesis
    by (rule that [of "projr (sample_link_usage I g u names now link s)"])
      (auto simp: sample_link_usage_def n Let_def usage_up_def usage_down_def zget_def split: option.splits)
qed

text \<open>The reports of one process of a gateway on a grant, in the order they arrive.\<close>

fun usage_reports :: "string \<Rightarrow> string \<Rightarrow> string \<Rightarrow> string gomap \<Rightarrow> (gotime \<times> GrantLinkUsage list) list \<Rightarrow> State \<Rightarrow> error + State" where
  "usage_reports I g u names [] s = Inr s"
| "usage_reports I g u names ((now, links) # reports) s =
     (case sampleGrantUsageFor I g u names now links s of
        Inl err \<Rightarrow> Inl err | Inr s' \<Rightarrow> usage_reports I g u names reports s')"

definition link_counters :: "string \<Rightarrow> (gotime \<times> GrantLinkUsage list) list \<Rightarrow> GrantLinkUsage list" where
  "link_counters i reports = filter (\<lambda>l. gl_LinkID l = i) (concat (map snd reports))"

definition counters_grow :: "GrantLinkUsage list \<Rightarrow> bool" where
  "counters_grow ls = sorted_wrt (\<lambda>a b. gl_UploadBytes a \<le> gl_UploadBytes b \<and> gl_DownloadBytes a \<le> gl_DownloadBytes b) ls"

text \<open>The counters from which the next report of process \<open>I\<close> is measured.\<close>

definition base_of :: "string \<Rightarrow> UsageCounter option \<Rightarrow> uint64 \<times> uint64" where
  "base_of I p = (case p of None \<Rightarrow> (0, 0)
     | Some c \<Rightarrow> if cn_InstanceID c = I then (cn_UploadBytes c, cn_DownloadBytes c) else (0, 0))"

lemma usage_delta_base:
  "usage_delta p I l = (if gl_UploadBytes l < fst (base_of I p) \<or> gl_DownloadBytes l < snd (base_of I p) then None
     else Some (gl_UploadBytes l - fst (base_of I p), gl_DownloadBytes l - snd (base_of I p)))"
  by (auto simp: usage_delta_def base_of_def split: option.splits)

text \<open>One list of entries: the totals of link \<open>i\<close> grow from the counter sampled before to the last one.\<close>

lemma sampleGrantUsageFor_total:
  assumes "\<forall>l \<in> set links. gl_LinkID l \<in> set (mkeys names)"
    "counters_grow (filter (\<lambda>l. gl_LinkID l = i) links)"
    "\<forall>l \<in> set links. gl_LinkID l = i \<longrightarrow> fst b \<le> gl_UploadBytes l \<and> snd b \<le> gl_DownloadBytes l"
    "b = base_of I (mget (st_UsageCounters s) (g @ ''/'' @ i))"
  shows "\<exists>s'. sampleGrantUsageFor I g u names now links s = Inr s' \<and>
    (let c = filter (\<lambda>l. gl_LinkID l = i) links;
         b' = (if c = [] then b else (gl_UploadBytes (last c), gl_DownloadBytes (last c)))
     in base_of I (mget (st_UsageCounters s') (g @ ''/'' @ i)) = b' \<and>
        usage_up s' (u @ ''/'' @ i) = usage_up s (u @ ''/'' @ i) + (fst b' - fst b) \<and>
        usage_down s' (u @ ''/'' @ i) = usage_down s (u @ ''/'' @ i) + (snd b' - snd b))"
  using assms
proof (induction links arbitrary: s b)
  case Nil
  then show ?case by simp
next
  case (Cons l links)
  obtain s1 where s1: "sample_link_usage I g u names now l s = Inr s1"
    and c1: "\<And>k. mget (st_UsageCounters s1) k = (if k = g @ ''/'' @ gl_LinkID l
        then Some \<lparr>cn_InstanceID = I, cn_UploadBytes = gl_UploadBytes l, cn_DownloadBytes = gl_DownloadBytes l\<rparr>
        else mget (st_UsageCounters s) k)"
    and u1: "\<And>k. usage_up s1 k = usage_up s k + (if k = u @ ''/'' @ gl_LinkID l
        then (case usage_delta (mget (st_UsageCounters s) (g @ ''/'' @ gl_LinkID l)) I l of None \<Rightarrow> 0 | Some d \<Rightarrow> fst d) else 0)"
    and d1: "\<And>k. usage_down s1 k = usage_down s k + (if k = u @ ''/'' @ gl_LinkID l
        then (case usage_delta (mget (st_UsageCounters s) (g @ ''/'' @ gl_LinkID l)) I l of None \<Rightarrow> 0 | Some d \<Rightarrow> snd d) else 0)"
    using sample_link_usage_ok [of l names I g u now s] Cons.prems(1) by auto
  let ?b1 = "if gl_LinkID l = i then (gl_UploadBytes l, gl_DownloadBytes l) else b"
  have b1: "?b1 = base_of I (mget (st_UsageCounters s1) (g @ ''/'' @ i))"
    using Cons.prems(4) by (auto simp: c1 base_of_def)
  have grow: "counters_grow (filter (\<lambda>l. gl_LinkID l = i) links)"
    "\<forall>l' \<in> set links. gl_LinkID l' = i \<longrightarrow> fst ?b1 \<le> gl_UploadBytes l' \<and> snd ?b1 \<le> gl_DownloadBytes l'"
    using Cons.prems(2,3) by (auto simp: counters_grow_def split: if_splits)
  obtain s' where s': "sampleGrantUsageFor I g u names now links s1 = Inr s'"
    and tot: "let c = filter (\<lambda>l. gl_LinkID l = i) links;
         b' = (if c = [] then ?b1 else (gl_UploadBytes (last c), gl_DownloadBytes (last c)))
     in base_of I (mget (st_UsageCounters s') (g @ ''/'' @ i)) = b' \<and>
        usage_up s' (u @ ''/'' @ i) = usage_up s1 (u @ ''/'' @ i) + (fst b' - fst ?b1) \<and>
        usage_down s' (u @ ''/'' @ i) = usage_down s1 (u @ ''/'' @ i) + (snd b' - snd ?b1)"
    using Cons.IH [OF _ grow b1] Cons.prems(1) by auto
  show ?case
    using s1 s' tot Cons.prems(3,4)
    by (auto simp: Let_def u1 d1 usage_delta_base not_less algebra_simps split: if_splits)
qed

text \<open>All the reports of the process: nothing is lost between them and nothing is counted twice.\<close>

lemma usage_reports_total:
  assumes "\<forall>l \<in> set (concat (map snd reports)). gl_LinkID l \<in> set (mkeys names)"
    "counters_grow (link_counters i reports)"
    "\<forall>l \<in> set (link_counters i reports). fst b \<le> gl_UploadBytes l \<and> snd b \<le> gl_DownloadBytes l"
    "b = base_of I (mget (st_UsageCounters s) (g @ ''/'' @ i))"
  shows "\<exists>s'. usage_reports I g u names reports s = Inr s' \<and>
    (let c = link_counters i reports;
         b' = (if c = [] then b else (gl_UploadBytes (last c), gl_DownloadBytes (last c)))
     in usage_up s' (u @ ''/'' @ i) = usage_up s (u @ ''/'' @ i) + (fst b' - fst b) \<and>
        usage_down s' (u @ ''/'' @ i) = usage_down s (u @ ''/'' @ i) + (snd b' - snd b))"
  using assms
proof (induction reports arbitrary: s b)
  case Nil
  then show ?case by (simp add: link_counters_def)
next
  case (Cons r reports)
  obtain now links where r: "r = (now, links)"
    by fastforce
  let ?c = "filter (\<lambda>l. gl_LinkID l = i) links" and ?rest = "link_counters i reports"
  let ?b1 = "if ?c = [] then b else (gl_UploadBytes (last ?c), gl_DownloadBytes (last ?c))"
  have split: "link_counters i (r # reports) = ?c @ ?rest"
    by (simp add: link_counters_def r)
  have grow: "counters_grow ?c" "counters_grow ?rest"
    "\<forall>x \<in> set ?c. \<forall>y \<in> set ?rest. gl_UploadBytes x \<le> gl_UploadBytes y \<and> gl_DownloadBytes x \<le> gl_DownloadBytes y"
    using Cons.prems(2) by (auto simp: split counters_grow_def sorted_wrt_append)
  have "\<forall>l \<in> set links. gl_LinkID l \<in> set (mkeys names)"
    "\<forall>l \<in> set links. gl_LinkID l = i \<longrightarrow> fst b \<le> gl_UploadBytes l \<and> snd b \<le> gl_DownloadBytes l"
    using Cons.prems(1,3) unfolding split by (simp_all add: r)
  from sampleGrantUsageFor_total [OF this(1) grow(1) this(2) Cons.prems(4), of u now, unfolded Let_def]
  obtain s1 where s1: "sampleGrantUsageFor I g u names now links s = Inr s1"
    and b1: "?b1 = base_of I (mget (st_UsageCounters s1) (g @ ''/'' @ i))"
    and t1: "usage_up s1 (u @ ''/'' @ i) = usage_up s (u @ ''/'' @ i) + (fst ?b1 - fst b)"
      "usage_down s1 (u @ ''/'' @ i) = usage_down s (u @ ''/'' @ i) + (snd ?b1 - snd b)"
    by auto
  have "\<forall>l \<in> set ?rest. fst ?b1 \<le> gl_UploadBytes l \<and> snd ?b1 \<le> gl_DownloadBytes l"
    using Cons.prems(3) grow(3) last_in_set [of ?c] by (auto simp: split)
  then obtain s' where s': "usage_reports I g u names reports s1 = Inr s'"
    and t': "let b' = (if ?rest = [] then ?b1 else (gl_UploadBytes (last ?rest), gl_DownloadBytes (last ?rest)))
       in usage_up s' (u @ ''/'' @ i) = usage_up s1 (u @ ''/'' @ i) + (fst b' - fst ?b1) \<and>
          usage_down s' (u @ ''/'' @ i) = usage_down s1 (u @ ''/'' @ i) + (snd b' - snd ?b1)"
    using Cons.IH [OF _ grow(2) _ b1] Cons.prems(1) by (auto simp: r Let_def)
  have "usage_reports I g u names (r # reports) s = Inr s'"
    by (simp add: r s1 s')
  then show ?case
    using t1 t' by (intro exI [of _ s']) (simp add: split Let_def)
qed

text \<open>C11. The traffic of a link is counted exactly once. Whatever the number of reports that a process of a
  gateway sends, and however the links of the grant are interleaved in them, once its growing
  counters are sampled the user's history of the link has grown by the last value of the counters
  (modulo 2^64, as the counters themselves), and every report is accepted.\<close>

theorem usage_counted_once:
  assumes "\<forall>l \<in> set (concat (map snd reports)). gl_LinkID l \<in> set (mkeys names)"
    and "counters_grow (link_counters i reports)"
    and "link_counters i reports \<noteq> []"
    and "\<forall>c. mget (st_UsageCounters s) (g @ ''/'' @ i) = Some c \<longrightarrow> cn_InstanceID c \<noteq> I"
  shows "\<exists>s'. usage_reports I g u names reports s = Inr s' \<and>
    usage_up s' (u @ ''/'' @ i) = usage_up s (u @ ''/'' @ i) + gl_UploadBytes (last (link_counters i reports)) \<and>
    usage_down s' (u @ ''/'' @ i) = usage_down s (u @ ''/'' @ i) + gl_DownloadBytes (last (link_counters i reports))"
proof -
  have b: "(0, 0) = base_of I (mget (st_UsageCounters s) (g @ ''/'' @ i))"
    using assms(4) by (auto simp: base_of_def split: option.splits)
  show ?thesis
    using usage_reports_total [OF assms(1,2) _ b, of u] assms(3) unfolding Let_def by simp
qed

text \<open>Two reports of one process: 100 and then 250 bytes are up in all, not 350.\<close>

definition demo_usage :: "(gotime \<times> GrantLinkUsage list) list" where
  "demo_usage =
     [(minute, [\<lparr>gl_LinkID = ''lnk_1'', gl_UploadBytes = 100, gl_DownloadBytes = 7\<rparr>]),
      (hour, [\<lparr>gl_LinkID = ''lnk_2'', gl_UploadBytes = 1, gl_DownloadBytes = 1\<rparr>,
              \<lparr>gl_LinkID = ''lnk_1'', gl_UploadBytes = 250, gl_DownloadBytes = 9\<rparr>])]"

theorem usage_counted_once_witness:
  "\<exists>s'. usage_reports ''process'' ''gr_1'' ''usr_1'' [(''lnk_1'', ''one''), (''lnk_2'', ''two'')] demo_usage NewState = Inr s' \<and>
    usage_up s' ''usr_1/lnk_1'' = 250 \<and> usage_down s' ''usr_1/lnk_1'' = 9"
  using usage_counted_once [of demo_usage "[(''lnk_1'', ''one''), (''lnk_2'', ''two'')]" "''lnk_1''" NewState "''gr_1''" "''process''" "''usr_1''"]
  by (simp add: demo_usage_def link_counters_def counters_grow_def mkeys_def NewState_def zero_State_def usage_up_def usage_down_def)

subsection \<open>The history of a link\<close>

definition spaced :: "LinkSample list \<Rightarrow> bool" where
  "spaced samples = sorted_wrt (\<lambda>a b. sm_At a + historyInterval \<le> sm_At b) samples"

definition history_ok :: "State \<Rightarrow> bool" where
  "history_ok s = list_all (\<lambda>(_, samples). length samples \<le> historyLimit \<and> spaced samples) (st_LinkHistory s)"

lemma historyInterval_pos: "0 < historyInterval" "historyInterval \<le> 2 ^ 63 - 1" "- (2 ^ 63) < historyInterval"
  by (simp_all add: historyInterval_def)

lemma spaced_last: "spaced samples \<Longrightarrow> x \<in> set samples \<Longrightarrow> sm_At x \<le> sm_At (last samples)"
  using historyInterval_pos(1) by (induction samples rule: rev_induct) (auto simp: spaced_def sorted_wrt_append)

lemma spaced_append:
  assumes "spaced samples" "samples = [] \<or> \<not> time_sub (sm_At y) (sm_At (last samples)) < historyInterval"
  shows "spaced (samples @ [y])"
proof -
  have "sm_At x + historyInterval \<le> sm_At y" if x: "x \<in> set samples" for x
  proof -
    have "samples \<noteq> []" using x by auto
    then show ?thesis
      using assms(2) spaced_last [OF assms(1) x] time_sub_less [of historyInterval] historyInterval_pos by fastforce
  qed
  with assms(1) show ?thesis
    by (simp add: spaced_def sorted_wrt_append)
qed

lemma spaced_drop: "spaced samples \<Longrightarrow> spaced (drop n samples)"
  unfolding spaced_def by (metis append_take_drop_id sorted_wrt_append)

lemma spaced_dropWhile: "spaced samples \<Longrightarrow> spaced (dropWhile P samples)"
  by (metis dropWhile_eq_drop spaced_drop)

text \<open>Samples that far apart reach far back.\<close>

lemma spaced_reach:
  "spaced samples \<Longrightarrow> j < length samples \<Longrightarrow>
    sm_At (samples ! j) + int (length samples - 1 - j) * historyInterval \<le> sm_At (last samples)"
proof (induction samples arbitrary: j)
  case Nil
  then show ?case by simp
next
  case (Cons y ys)
  have ys: "spaced ys"
    using Cons.prems(1) by (simp add: spaced_def)
  show ?case
  proof (cases "j = 0 \<and> ys \<noteq> []")
    case True
    then obtain z zs where z: "ys = z # zs"
      by (cases ys) auto
    have "sm_At y + historyInterval \<le> sm_At z"
      using Cons.prems(1) by (simp add: z spaced_def)
    moreover have "sm_At z + int (length zs) * historyInterval \<le> sm_At (last ys)"
      using Cons.IH [OF ys, of 0] by (simp add: z)
    ultimately show ?thesis
      using True by (simp add: z algebra_simps)
  next
    case False
    then show ?thesis
      using Cons.IH [OF ys, of "j - 1"] Cons.prems(2) by (cases j) auto
  qed
qed

lemma sample_keeps_recent:
  assumes "spaced samples" "x \<in> set samples" "sm_At (last samples) - historyRetention \<le> sm_At x"
  shows "x \<in> set (drop (length samples - historyLimit) samples)"
proof (rule ccontr)
  assume "x \<notin> set (drop (length samples - historyLimit) samples)"
  then have "x \<in> set (take (length samples - historyLimit) samples)"
    using assms(2) by (metis UnE append_take_drop_id set_append)
  then obtain j where j: "j < length samples - historyLimit" "x = samples ! j"
    by (auto simp: in_set_conv_nth)
  have "sm_At x + int (length samples - 1 - j) * historyInterval \<le> sm_At (last samples)"
    using spaced_reach [OF assms(1), of j] j by auto
  moreover have "int historyLimit * historyInterval \<le> int (length samples - 1 - j) * historyInterval"
    using j historyInterval_pos(1) by (intro mult_right_mono) (auto simp: historyLimit_def)
  ultimately show False
    using assms(3) by (simp add: historyLimit_def historyInterval_def historyRetention_def)
qed

text \<open>What one sample does to the history of its link, and of the others.\<close>

lemma sampleLinkHistory_get:
  obtains y where "sm_At y = now"
    "\<And>i. zget [] (st_LinkHistory (sampleLinkHistory status now s)) i =
     (let samples = zget [] (st_LinkHistory s) i in
      if i \<noteq> ls_LinkID status \<or> samples \<noteq> [] \<and> time_sub now (sm_At (last samples)) < historyInterval then samples
      else drop (length (samples @ [y]) - historyLimit) (samples @ [y]))"
  by (rule that [of "\<lparr>sm_At = now, sm_InstanceID = ns_InstanceID (status_at s (ls_ReporterNodeID status)),
      sm_Generation = ls_Generation status, sm_UploadBytes = ls_UploadBytes status,
      sm_DownloadBytes = ls_DownloadBytes status, sm_RTTMillis = ls_RTTMillis status,
      sm_Ready = (ls_Online status \<and> ls_Ready status)\<rparr>"]) (simp_all add: sampleLinkHistory_def Let_def)

lemma set_mput: "set (mput k v m) \<subseteq> insert (k, v) (set m)"
  by (induction k v m rule: mput.induct) auto

lemma history_okD: "history_ok s \<Longrightarrow> length (zget [] (st_LinkHistory s) i) \<le> historyLimit \<and> spaced (zget [] (st_LinkHistory s) i)"
  using mget_Some_in [of "st_LinkHistory s" i]
  by (cases "mget (st_LinkHistory s) i") (auto simp: history_ok_def list_all_iff zget_def spaced_def)

lemma history_ok_put:
  "history_ok s \<Longrightarrow> length v \<le> historyLimit \<Longrightarrow> spaced v \<Longrightarrow> history_ok (s\<lparr>st_LinkHistory := mput i v (st_LinkHistory s)\<rparr>)"
  using set_mput [of i v "st_LinkHistory s"] by (fastforce simp: history_ok_def list_all_iff)

lemma history_ok_sample: "history_ok s \<Longrightarrow> history_ok (sampleLinkHistory status now s)"
  unfolding sampleLinkHistory_def Let_def
  by (auto intro!: history_ok_put spaced_append spaced_drop dest: history_okD [of s "ls_LinkID status"]
        simp: spaced_def)

lemma history_ok_prune: "history_ok s \<Longrightarrow> history_ok (pruneLinkHistory now s)"
  by (fastforce simp: history_ok_def pruneLinkHistory_def list_all_iff mmap_def mkeep_def
        intro: spaced_dropWhile order_trans [OF length_dropWhile_le])

lemma history_kept_sample [simp]: "history_kept (sampleLinkHistory status now s) = history_kept s"
  by (auto simp: history_kept_def sampleLinkHistory_def Let_def fun_eq_iff)

lemma pruneLinkHistory_get:
  "zget [] (st_LinkHistory (pruneLinkHistory now s)) i =
     (if history_kept s i then dropWhile (\<lambda>x. sm_At x < now - historyRetention) (zget [] (st_LinkHistory s) i) else [])"
  by (auto simp: pruneLinkHistory_def zget_def split: option.splits)

lemma spaced_dropWhile_recent:
  "spaced samples \<Longrightarrow> x \<in> set (dropWhile (\<lambda>x. sm_At x < t) samples) \<longleftrightarrow> x \<in> set samples \<and> t \<le> sm_At x"
  using historyInterval_pos(1) by (induction samples) (auto simp: spaced_def dest: bspec)

lemma sampleLinkHistory_recent:
  assumes "history_ok s" "x \<in> set (zget [] (st_LinkHistory s) i)" "now - historyRetention \<le> sm_At x"
  shows "x \<in> set (zget [] (st_LinkHistory (sampleLinkHistory status now s)) i)"
proof -
  obtain y where y: "sm_At y = now"
    "\<And>i. zget [] (st_LinkHistory (sampleLinkHistory status now s)) i =
     (let samples = zget [] (st_LinkHistory s) i in
      if i \<noteq> ls_LinkID status \<or> samples \<noteq> [] \<and> time_sub now (sm_At (last samples)) < historyInterval then samples
      else drop (length (samples @ [y]) - historyLimit) (samples @ [y]))"
    using sampleLinkHistory_get [of now status s] by blast
  let ?all = "zget [] (st_LinkHistory s) i @ [y]"
  have "x \<in> set (drop (length ?all - historyLimit) ?all)" if "spaced ?all"
    using sample_keeps_recent [OF that, of x] assms(2,3) y(1) by simp
  then show ?thesis
    using assms(2) spaced_append [OF conjunct2 [OF history_okD [OF assms(1)]], of i y] y(1)
    unfolding y(2) Let_def by (auto simp del: length_append drop_append)
qed

text \<open>C38. The history of a link covers the retention period and no more. After a report at time \<open>now\<close> is
  sampled and the history pruned, every history still has at most 289 samples at least five minutes
  apart; a history that is kept contains every earlier sample of the last 24 hours, so the limit never
  drops one too early, and nothing older. The clock may even run backwards between reports.\<close>

theorem link_history_bounded:
  assumes "history_ok s"
  shows "let s' = pruneLinkHistory now (sampleLinkHistory status now s) in
    history_ok s' \<and>
    (\<forall>i x. x \<in> set (zget [] (st_LinkHistory s') i) \<longrightarrow> now - historyRetention \<le> sm_At x) \<and>
    (\<forall>i x. history_kept s i \<and> x \<in> set (zget [] (st_LinkHistory s) i) \<and> now - historyRetention \<le> sm_At x \<longrightarrow>
       x \<in> set (zget [] (st_LinkHistory s') i))"
proof -
  let ?s1 = "sampleLinkHistory status now s"
  have "spaced (zget [] (st_LinkHistory ?s1) i)" for i
    using history_okD [OF history_ok_sample [OF assms]] by blast
  then show ?thesis
    using history_ok_prune [OF history_ok_sample [OF assms]] sampleLinkHistory_recent [OF assms]
    unfolding Let_def pruneLinkHistory_get
    by (intro conjI allI impI; auto simp: spaced_dropWhile_recent split: if_splits)
qed

definition demo_history :: State where
  "demo_history = zero_State\<lparr>st_Links := [(''lnk_1'', zero_Link)],
     st_LinkHistory := [(''lnk_1'', [zero_LinkSample\<lparr>sm_At := 1\<rparr>, zero_LinkSample\<lparr>sm_At := 90000000000000\<rparr>])]\<rparr>"

lemma demo_history_ok: "history_ok demo_history"
  by (simp add: history_ok_def demo_history_def spaced_def historyLimit_def historyInterval_def)

theorem link_history_bounded_witness:
  "let now = 90000000000000 + 10 * minute;
       s' = pruneLinkHistory now (sampleLinkHistory (zero_LinkStatus\<lparr>ls_LinkID := ''lnk_1''\<rparr>) now demo_history)
   in history_ok demo_history \<and> history_ok s' \<and> map sm_At (zget [] (st_LinkHistory s') ''lnk_1'') = [90000000000000, now]"
  using demo_history_ok link_history_bounded [OF demo_history_ok, of "90000000000000 + 10 * minute" "zero_LinkStatus\<lparr>ls_LinkID := ''lnk_1''\<rparr>"]
  by (simp add: Let_def pruneLinkHistory_get) (simp add: demo_history_def history_kept_def sampleLinkHistory_def Let_def
      has_prefix_def zero_LinkSample_def zero_LinkStatus_def historyLimit_def historyInterval_def historyRetention_def time_sub_def zget_def)

end
