(* ===== verification/Upgrades.thy ===== *)
theory Upgrades
  imports Releases Telemetry
begin

text \<open>
  Node upgrades (\<open>src/internal/controller/node_upgrades.go\<close>, \<open>node_upgrade_recovery.go\<close>): pairing of the
  updater of a node, batches of upgrade tasks, their claim, report and recovery.

  A task goes from \<open>preparing\<close> to \<open>pending\<close>, is claimed by the updater of its node (\<open>running\<close>), and ends
  \<open>succeeded\<close>, \<open>rolled_back\<close>, \<open>failed\<close> or \<open>manual_intervention\<close>; a batch is worked off in order, and after each success
  it waits (\<open>recovering\<close>) until the links that were healthy before are healthy again.
\<close>

definition updaterProtocol :: int where "updaterProtocol = 1"
definition upgradeLinkRecoveryTimeout :: duration where "upgradeLinkRecoveryTimeout = 2 * minute"
definition upgradeLinkRecoveryError :: string where "upgradeLinkRecoveryError = ''previously healthy Link ''"

abbreviation task_at :: "State \<Rightarrow> string \<Rightarrow> UpgradeTask" where
  "task_at s i \<equiv> zget zero_UpgradeTask (st_UpgradeTasks s) i"
abbreviation batch_at :: "State \<Rightarrow> string \<Rightarrow> UpgradeBatch" where
  "batch_at s i \<equiv> zget zero_UpgradeBatch (st_UpgradeBatches s) i"
abbreviation updater_at :: "State \<Rightarrow> string \<Rightarrow> Updater" where
  "updater_at s i \<equiv> zget zero_Updater (st_Updaters s) i"
abbreviation put_task :: "string \<Rightarrow> UpgradeTask \<Rightarrow> State \<Rightarrow> State" where
  "put_task i task s \<equiv> s\<lparr>st_UpgradeTasks := mput i task (st_UpgradeTasks s)\<rparr>"
abbreviation put_batch :: "string \<Rightarrow> UpgradeBatch \<Rightarrow> State \<Rightarrow> State" where
  "put_batch i batch s \<equiv> s\<lparr>st_UpgradeBatches := mput i batch (st_UpgradeBatches s)\<rparr>"
abbreviation put_updater :: "string \<Rightarrow> Updater \<Rightarrow> State \<Rightarrow> State" where
  "put_updater i up s \<equiv> s\<lparr>st_Updaters := mput i up (st_Updaters s)\<rparr>"

definition env_EqualSecretHash :: "Env \<Rightarrow> string \<Rightarrow> string \<Rightarrow> bool" where
  "env_EqualSecretHash env = EqualSecretHash (e_sha256 env)"

definition nodeExists :: "State \<Rightarrow> Role \<Rightarrow> string \<Rightarrow> bool" where
  "nodeExists s role i =
     (if role = RoleGateway then mget (st_Gateways s) i \<noteq> None
      else if role = RoleAgent then (case mget (st_Agents s) i of None \<Rightarrow> False | Some agent \<Rightarrow> ag_GatewayID agent = [])
      else False)"

definition pairingInProgress :: "Updater \<Rightarrow> gotime \<Rightarrow> bool" where
  "pairingInProgress up now = (up_PairTokenHash up \<noteq> [] \<and> now < up_PairExpiresAt up)"

subsection \<open>Recovery\<close>

definition link_report_problem :: "Env \<Rightarrow> UpgradeTask \<Rightarrow> gotime \<Rightarrow> LinkStatus option \<Rightarrow> string" where
  "link_report_problem env task now report =
     (case report of
        None \<Rightarrow> ''has not reported''
      | Some status \<Rightarrow>
          if IsZero (ls_LastSeen status) \<or> int64 (e_NodeOfflineAfterSeconds env * second) < time_sub now (ls_LastSeen status)
            then ''report is older than '' @ Itoa (e_NodeOfflineAfterSeconds env) @ '' seconds''
          else if ls_LastSeen status < ut_UpdatedAt task then ''has not reported since upgrade completion''
          else if \<not> ls_Online status then ''is offline''
          else if \<not> ls_Ready status then ''is not ready''
          else [])"

definition endpoint_problem :: "Env \<Rightarrow> State \<Rightarrow> UpgradeTask \<Rightarrow> gotime \<Rightarrow> string \<Rightarrow> Role \<times> string \<Rightarrow> string" where
  "endpoint_problem env s task now linkID endpoint =
     (let report = mget (st_LinkStatus s) (snd endpoint @ ''/'' @ linkID);
          problem = link_report_problem env task now report;
          lastError = (case report of None \<Rightarrow> [] | Some status \<Rightarrow> ls_LastError status)
      in if problem = [] then []
         else upgradeLinkRecoveryError @ linkID @ '' did not recover: '' @ fst endpoint @ '' '' @ snd endpoint @ '' '' @
              (if lastError \<noteq> [] then problem @ '' ('' @ lastError @ '')'' else problem))"

definition link_recovery_problem :: "Env \<Rightarrow> State \<Rightarrow> UpgradeTask \<Rightarrow> gotime \<Rightarrow> string \<Rightarrow> string" where
  "link_recovery_problem env s task now linkID =
     (let unavailable = upgradeLinkRecoveryError @ linkID @ '' did not recover: Link configuration is unavailable''
      in case mget (st_Links s) linkID of
           None \<Rightarrow> unavailable
         | Some link \<Rightarrow>
             (case mget (st_Attachments s) (lk_AttachmentID link) of
                None \<Rightarrow> unavailable
              | Some attachment \<Rightarrow>
                  if \<not> lk_Enabled link \<or> \<not> at_Enabled attachment \<or> \<not> attachmentUsesNode s attachment (ut_NodeID task) then unavailable
                  else
                    let gateway = endpoint_problem env s task now linkID (RoleGateway, at_GatewayID attachment)
                    in if gateway \<noteq> [] then gateway
                       else endpoint_problem env s task now linkID (RoleAgent, at_AgentID attachment)))"

definition first_text :: "string list \<Rightarrow> string" where
  "first_text texts = (case find (\<lambda>t. t \<noteq> []) texts of None \<Rightarrow> [] | Some t \<Rightarrow> t)"

definition upgradeRecoveryProblem :: "Env \<Rightarrow> State \<Rightarrow> UpgradeTask \<Rightarrow> gotime \<Rightarrow> string" where
  "upgradeRecoveryProblem env s task now = first_text (map (link_recovery_problem env s task now) (ut_BaselineLinks task))"

definition finishUpgradeRecovery :: "UpgradeBatch \<Rightarrow> State \<Rightarrow> State" where
  "finishUpgradeRecovery batch s =
     (let allDone = (ub_TaskIDs batch \<noteq> [] \<and> list_all (\<lambda>i. ut_Stage (task_at s i) = ''succeeded'') (ub_TaskIDs batch))
      in put_batch (ub_ID batch)
           (batch\<lparr>ub_Stage := (if allDone then ''succeeded'' else ''running''), ub_Error := [], ub_RecoveryTaskID := [],
                  ub_RecoveryDeadline := 0\<rparr>) s)"

definition reconcile_batch :: "Env \<Rightarrow> gotime \<Rightarrow> UpgradeBatch \<Rightarrow> State \<Rightarrow> State" where
  "reconcile_batch env now batch s =
     (if ub_Stage batch \<noteq> ''recovering'' then s
      else case mget (st_UpgradeTasks s) (ub_RecoveryTaskID batch) of
          None \<Rightarrow> put_batch (ub_ID batch) (batch\<lparr>ub_Stage := ''paused'', ub_Error := ''upgrade recovery task is unavailable''\<rparr>) s
        | Some task \<Rightarrow>
            if ut_BatchID task \<noteq> ub_ID batch \<or> ut_Stage task \<noteq> ''succeeded''
            then put_batch (ub_ID batch) (batch\<lparr>ub_Stage := ''paused'', ub_Error := ''upgrade recovery task is unavailable''\<rparr>) s
            else
              let problem = upgradeRecoveryProblem env s task now in
              if problem = [] then finishUpgradeRecovery batch s
              else if \<not> now < ub_RecoveryDeadline batch
                then put_batch (ub_ID batch) (batch\<lparr>ub_Error := problem, ub_Stage := ''paused''\<rparr>) s
              else put_batch (ub_ID batch) (batch\<lparr>ub_Error := ''waiting for Link recovery: '' @ problem\<rparr>) s)"

definition reconcileUpgradeRecovery :: "Env \<Rightarrow> gotime \<Rightarrow> State \<Rightarrow> State" where
  "reconcileUpgradeRecovery env now s = fold (reconcile_batch env now) (mvals (st_UpgradeBatches s)) s"

text \<open>The stages of the tasks of a batch: completed ones and then pending ones, or no task to resume from.\<close>

fun resume_scan :: "State \<Rightarrow> string \<Rightarrow> string list \<Rightarrow> bool \<Rightarrow> string \<Rightarrow> string" where
  "resume_scan s batchID [] pending lastCompleted = lastCompleted"
| "resume_scan s batchID (i # ids) pending lastCompleted =
     (case mget (st_UpgradeTasks s) i of
        None \<Rightarrow> []
      | Some task \<Rightarrow>
          if ut_BatchID task \<noteq> batchID then []
          else if ut_Stage task = ''succeeded'' then (if pending then [] else resume_scan s batchID ids pending i)
          else if ut_Stage task = ''pending'' then resume_scan s batchID ids True lastCompleted
          else [])"

definition upgradeResumeTaskID :: "State \<Rightarrow> UpgradeBatch \<Rightarrow> string" where
  "upgradeResumeTaskID s batch =
     (if ub_Stage batch \<noteq> ''paused'' \<or> \<not> has_prefix (ub_Error batch) upgradeLinkRecoveryError then []
      else resume_scan s (ub_ID batch) (ub_TaskIDs batch) False [])"

definition canResumeUpgrade :: "UpgradeTask \<Rightarrow> State \<Rightarrow> bool" where
  "canResumeUpgrade task s = (ut_ID task \<noteq> [] \<and> ut_ID task = upgradeResumeTaskID s (batch_at s (ut_BatchID task)))"

definition resume_problem :: "Env \<Rightarrow> State \<Rightarrow> gotime \<Rightarrow> string \<Rightarrow> string" where
  "resume_problem env s now i =
     (let task = task_at s i in
      if ut_Stage task = ''pending''
      then (if \<not> now < ut_ExpiresAt task then ''pending task expired; create a new upgrade batch'' else [])
      else upgradeRecoveryProblem env s task now)"

definition resumeUpgrade_tx :: "Env \<Rightarrow> string \<Rightarrow> unit tx" where
  "resumeUpgrade_tx env i s =
     (let task = task_at s i; batch = batch_at s (ut_BatchID task) in
      if mget (st_UpgradeTasks s) i = None \<or> upgradeResumeTaskID s batch = []
      then Inl ''only batches paused for Link recovery can be resumed''
      else
        let problem = first_text (map (resume_problem env s (e_now env)) (ub_TaskIDs batch)) in
        if problem \<noteq> [] then Inl problem else Inr ((), finishUpgradeRecovery batch s))"

definition resumeUpgrade :: "Env \<Rightarrow> Request \<Rightarrow> Store \<Rightarrow> Response \<times> Store" where
  "resumeUpgrade env r st = answer 409 (SeeOther ''/?notice=Link+recovery+confirmed%3B+upgrade+batch+resumed'') (Update (e_store env) (resumeUpgrade_tx env (rq_id r)) st)"

subsection \<open>Pairing\<close>

definition pairUpdater_tx :: "Env \<Rightarrow> Role \<Rightarrow> string \<Rightarrow> string \<Rightarrow> unit tx" where
  "pairUpdater_tx env role i token s =
     (if \<not> nodeExists s role i then Inl ''node not found''
      else if nodeHasActiveUpgrade s i then Inl ''updater has an active task''
      else Inr ((), put_updater i ((updater_at s i)\<lparr>up_NodeID := i, up_Role := role, up_PairTokenHash := env_SecretHash env token,
             up_PairExpiresAt := e_now env + 30 * minute, up_PendingCredentialHash := []\<rparr>) s))"

definition pairUpdater :: "Env \<Rightarrow> Role \<Rightarrow> Request \<Rightarrow> Store \<Rightarrow> Response \<times> Store" where
  "pairUpdater env role r st =
     (if \<not> releaseEnabled env \<or> \<not> isReleaseAsset (e_ReleaseVersion env) ''install-updater.sh''
      then (HttpError 409 ''configure a release that includes the node updater first'', st)
      else case e_rand env 0 of
          Inl err \<Rightarrow> (HttpError 500 ''token generation failed'', st)
        | Inr token \<Rightarrow> answer 400 PlainText (Update (e_store env) (pairUpdater_tx env role (rq_id r) token) st))"

record updaterPairRequest =
  pr_Token :: string
  pr_NodeID :: string
  pr_Role :: Role

definition updaterPair_tx :: "Env \<Rightarrow> updaterPairRequest \<Rightarrow> string \<Rightarrow> unit tx" where
  "updaterPair_tx env req credential s =
     (case mget (st_Updaters s) (pr_NodeID req) of
        None \<Rightarrow> Inl ''invalid or expired pairing token''
      | Some up \<Rightarrow>
          if up_Role up \<noteq> pr_Role req \<or> \<not> nodeExists s (up_Role up) (up_NodeID up) \<or> up_PairTokenHash up = [] \<or>
             \<not> e_now env < up_PairExpiresAt up \<or> \<not> env_EqualSecretHash env (up_PairTokenHash up) (pr_Token req)
          then Inl ''invalid or expired pairing token''
          else Inr ((), put_updater (up_NodeID up) (up\<lparr>up_PendingCredentialHash := env_SecretHash env credential\<rparr>) s))"

definition updaterPair :: "Env \<Rightarrow> updaterPairRequest \<Rightarrow> Store \<Rightarrow> string Reply \<times> Store" where
  "updaterPair env req st =
     (case e_rand env 0 of
        Inl err \<Rightarrow> (Refused 500 ''credential generation failed'', st)
      | Inr credential \<Rightarrow>
          (case Update (e_store env) (updaterPair_tx env req credential) st of
             (Inl err, st') \<Rightarrow> (Refused 401 err, st') | (Inr _, st') \<Rightarrow> (Json 200 credential, st')))"

text \<open>The bearer credential of a request, if it has one.\<close>

definition bearer :: "Request \<Rightarrow> string option" where
  "bearer r =
     (let header = HeaderGet r ''Authorization'' in
      if \<not> has_prefix header ''Bearer '' then None
      else let credential = TrimSpace (trim_prefix header ''Bearer '') in if credential = [] then None else Some credential)"

definition promote_tx :: "Env \<Rightarrow> string \<Rightarrow> string \<Rightarrow> Updater tx" where
  "promote_tx env nodeID credential s =
     (let candidate = updater_at s nodeID in
      if \<not> nodeExists s (up_Role candidate) (up_NodeID candidate) \<or> \<not> pairingInProgress candidate (e_now env) \<or>
         up_PendingCredentialHash candidate = [] \<or> \<not> env_EqualSecretHash env (up_PendingCredentialHash candidate) credential
      then Inl ''pairing changed''
      else
        let promoted = candidate\<lparr>up_CredentialHash := up_PendingCredentialHash candidate, up_PendingCredentialHash := [],
              up_PairTokenHash := [], up_PairExpiresAt := 0\<rparr>
        in Inr (promoted, put_updater (up_NodeID promoted) promoted s))"

definition accepts_credential :: "Env \<Rightarrow> State \<Rightarrow> string \<Rightarrow> Updater \<Rightarrow> bool" where
  "accepts_credential env s credential up =
     (nodeExists s (up_Role up) (up_NodeID up) \<and>
      (up_CredentialHash up \<noteq> [] \<and> env_EqualSecretHash env (up_CredentialHash up) credential \<or>
       pairingInProgress up (e_now env) \<and> up_PendingCredentialHash up \<noteq> [] \<and>
       env_EqualSecretHash env (up_PendingCredentialHash up) credential))"

definition authenticateUpdater :: "Env \<Rightarrow> Request \<Rightarrow> Store \<Rightarrow> Updater option \<times> Store" where
  "authenticateUpdater env r st =
     (case bearer r of
        None \<Rightarrow> (None, st)
      | Some credential \<Rightarrow>
          (let s = store_Snapshot st in
           case find (accepts_credential env s credential) (mvals (st_Updaters s)) of
             None \<Rightarrow> (None, st)
           | Some up \<Rightarrow>
               if up_CredentialHash up \<noteq> [] \<and> env_EqualSecretHash env (up_CredentialHash up) credential then (Some up, st)
               else (case Update (e_store env) (promote_tx env (up_NodeID up) credential) st of
                   (Inl _, st') \<Rightarrow> (None, st') | (Inr promoted, st') \<Rightarrow> (Some promoted, st'))))"

record updaterHeartbeatRequest =
  hb_Mode :: string
  hb_Arch :: string
  hb_Version :: string
  hb_Protocol :: int

definition updaterHeartbeat_tx :: "Env \<Rightarrow> string \<Rightarrow> updaterHeartbeatRequest \<Rightarrow> unit tx" where
  "updaterHeartbeat_tx env nodeID req s =
     Inr ((), reconcileUpgradeRecovery env (e_now env)
       (put_updater nodeID ((updater_at s nodeID)\<lparr>up_Mode := hb_Mode req, up_Arch := hb_Arch req, up_Version := hb_Version req,
          up_Protocol := hb_Protocol req, up_LastSeen := e_now env\<rparr>) s))"

definition updaterHeartbeat :: "Env \<Rightarrow> Request \<Rightarrow> updaterHeartbeatRequest \<Rightarrow> Store \<Rightarrow> Response \<times> Store" where
  "updaterHeartbeat env r req st =
     (case authenticateUpdater env r st of
        (None, st1) \<Rightarrow> (HttpError 401 ''unauthorized'', st1)
      | (Some up, st1) \<Rightarrow>
          if hb_Mode req \<notin> {''systemd'', ''docker''} \<or> hb_Arch req \<notin> {''amd64'', ''arm64''} \<or> hb_Protocol req \<noteq> updaterProtocol
          then (HttpError 400 ''unsupported updater'', st1)
          else (case Update (e_store env) (updaterHeartbeat_tx env (up_NodeID up) req) st1 of
              (Inl _, st2) \<Rightarrow> (HttpError 500 ''failed to record heartbeat'', st2) | (Inr _, st2) \<Rightarrow> (NoContent, st2)))"

subsection \<open>Batches\<close>

definition sortedUpgradeTasks :: "State \<Rightarrow> UpgradeTask list" where
  "sortedUpgradeTasks s = sort_slice (\<lambda>a b. ut_CreatedAt b < ut_CreatedAt a) (mvals (st_UpgradeTasks s))"

definition listUpgrades :: "Store \<Rightarrow> UpgradeTask list Reply" where
  "listUpgrades st = Json 200 (sortedUpgradeTasks (store_Snapshot st))"

definition draft_task :: "Env \<Rightarrow> string \<Rightarrow> string \<Rightarrow> string \<Rightarrow> string \<Rightarrow> UpgradeTask" where
  "draft_task env version batchID taskID nodeID =
     zero_UpgradeTask\<lparr>ut_ID := taskID, ut_BatchID := batchID, ut_NodeID := nodeID, ut_Actor := e_AdminUsername env,
       ut_TargetVersion := version, ut_Stage := ''preparing'', ut_CreatedAt := e_now env, ut_UpdatedAt := e_now env,
       ut_ExpiresAt := e_now env + 24 * hour\<rparr>"

fun draft_tasks :: "Env \<Rightarrow> string \<Rightarrow> string \<Rightarrow> nat \<Rightarrow> string list \<Rightarrow> string list \<Rightarrow> (nat \<times> error) + UpgradeTask list" where
  "draft_tasks env version batchID k seen [] = Inr []"
| "draft_tasks env version batchID k seen (i # ids) =
     (if i \<in> set seen then Inl (400, ''duplicate node'')
      else case e_rand env k of
          Inl err \<Rightarrow> Inl (500, ''task generation failed'')
        | Inr taskID \<Rightarrow>
            (case draft_tasks env version batchID (Suc k) (i # seen) ids of
               Inl err \<Rightarrow> Inl err | Inr tasks \<Rightarrow> Inr (draft_task env version batchID taskID i # tasks)))"

definition healthy_report :: "Env \<Rightarrow> State \<Rightarrow> string \<Rightarrow> string \<Rightarrow> bool" where
  "healthy_report env s nodeID linkID =
     (let status = zget zero_LinkStatus (st_LinkStatus s) (nodeID @ ''/'' @ linkID)
      in ls_Ready status \<and> ls_Online status \<and> time_sub (e_now env) (ls_LastSeen status) < 45 * second)"

definition baseline_links :: "Env \<Rightarrow> State \<Rightarrow> string \<Rightarrow> string list" where
  "baseline_links env s nodeID =
     sort_slice (<) (concat (map (\<lambda>attachment.
       if \<not> attachmentUsesNode s attachment nodeID then []
       else map lk_ID (filter (\<lambda>link. lk_AttachmentID link = at_ID attachment \<and> lk_Enabled link \<and>
              healthy_report env s (at_GatewayID attachment) (lk_ID link) \<and>
              healthy_report env s (at_AgentID attachment) (lk_ID link)) (mvals (st_Links s))))
       (mvals (st_Attachments s))))"

definition complete_task :: "Env \<Rightarrow> string \<Rightarrow> State \<Rightarrow> UpgradeTask \<Rightarrow> error + UpgradeTask" where
  "complete_task env version s t =
     (let nodeID = ut_NodeID t in
      case mget (st_Updaters s) nodeID of
        None \<Rightarrow> Inl (''updater for '' @ nodeID @ '' is unavailable'')
      | Some up \<Rightarrow>
          if up_CredentialHash up = [] \<or> up_Protocol up \<noteq> updaterProtocol \<or> 45 * second < time_sub (e_now env) (up_LastSeen up)
            then Inl (''updater for '' @ nodeID @ '' is unavailable'')
          else if pairingInProgress up (e_now env) then Inl (''updater for '' @ nodeID @ '' has an unfinished pairing'')
          else if \<not> nodeExists s (up_Role up) nodeID then Inl (''node '' @ nodeID @ '' not found'')
          else if up_Role up = RoleGateway \<and> \<not> gw_Enabled (gateway_at s nodeID) \<or>
                  up_Role up = RoleAgent \<and> \<not> ag_Enabled (agent_at s nodeID) then Inl (''node '' @ nodeID @ '' is disabled'')
          else if nodeHasActiveUpgrade s nodeID then Inl (''node '' @ nodeID @ '' already has an upgrade'')
          else
            let status = status_at s nodeID in
            if ns_NodeID status \<noteq> nodeID \<or> ns_Role status \<noteq> up_Role up \<or> ns_BinaryVersion status = [] \<or> IsZero (ns_LastSeen status) \<or>
               45 * second < time_sub (e_now env) (ns_LastSeen status) then Inl (''node '' @ nodeID @ '' has no fresh version status'')
            else if ns_BinaryVersion status = version then Inl (''node '' @ nodeID @ '' already runs '' @ version)
            else Inr (t\<lparr>ut_Role := up_Role up, ut_Mode := up_Mode up, ut_Arch := up_Arch up, ut_FromVersion := ns_BinaryVersion status,
                   ut_Asset := ''xmesh-'' @ version @ ''-linux-'' @ up_Arch up @ ''.tar.gz'',
                   ut_BaselineLinks := baseline_links env s nodeID\<rparr>))"

fun complete_tasks :: "Env \<Rightarrow> string \<Rightarrow> State \<Rightarrow> UpgradeTask list \<Rightarrow> error + UpgradeTask list" where
  "complete_tasks env version s [] = Inr []"
| "complete_tasks env version s (t # ts) =
     (case complete_task env version s t of
        Inl err \<Rightarrow> Inl err
      | Inr t' \<Rightarrow> (case complete_tasks env version s ts of Inl err \<Rightarrow> Inl err | Inr ts' \<Rightarrow> Inr (t' # ts')))"

definition createUpgrade_tx :: "Env \<Rightarrow> string \<Rightarrow> string \<Rightarrow> UpgradeTask list \<Rightarrow> unit tx" where
  "createUpgrade_tx env version batchID drafts s =
     (case complete_tasks env version s drafts of
        Inl err \<Rightarrow> Inl err
      | Inr tasks \<Rightarrow>
          Inr ((), put_batch batchID (zero_UpgradeBatch\<lparr>ub_ID := batchID, ub_Stage := ''preparing'', ub_CreatedAt := e_now env,
                 ub_TaskIDs := map ut_ID tasks\<rparr>) (fold (\<lambda>t. put_task (ut_ID t) t) tasks s)))"

definition createUpgrade :: "Env \<Rightarrow> Request \<Rightarrow> Store \<Rightarrow> Response \<times> Store" where
  "createUpgrade env r st =
     (let version = TrimSpace (FormValue r ''version''); ids = FormValues r ''node_id'' in
      if \<not> releaseVersionPattern version \<or> \<not> has_prefix version ''v'' \<or> \<not> releaseEnabled env \<or>
         \<not> isReleaseAsset version ''install-updater.sh'' then (HttpError 400 ''invalid release version or release source'', st)
      else if ids = [] \<or> 100 < length ids then (HttpError 400 ''select 1 to 100 nodes'', st)
      else case e_rand env 0 of
          Inl err \<Rightarrow> (HttpError 500 ''task generation failed'', st)
        | Inr batchID \<Rightarrow>
            (case draft_tasks env version batchID 1 [] ids of
               Inl (status, err) \<Rightarrow> (HttpError status err, st)
             | Inr drafts \<Rightarrow>
                 answer 409 (SeeOther (''/?notice=Upgrade+batch+queued%3A+'' @ batchID))
                   (Update (e_store env) (createUpgrade_tx env version batchID drafts) st)))"

text \<open>The goroutine that caches the assets of a batch: their checksums, or the first error.\<close>

fun prepare_assets :: "Net \<Rightarrow> Env \<Rightarrow> string list \<Rightarrow> string gomap \<Rightarrow> ReleaseCache \<Rightarrow> (error + string gomap) \<times> ReleaseCache" where
  "prepare_assets net env [] hashes cache = (Inr hashes, cache)"
| "prepare_assets net env (asset # assets) hashes cache =
     (if zget [] hashes asset \<noteq> [] then prepare_assets net env assets hashes cache
      else case ensureReleaseAsset net env asset cache of
          (Some err, cache1) \<Rightarrow> (Inl err, cache1)
        | (None, cache1) \<Rightarrow>
            (case releaseExpectedHash env (rc_files cache1) asset of
               Inl err \<Rightarrow> (Inl err, cache1)
             | Inr hash \<Rightarrow> prepare_assets net env assets (mput asset hash hashes) cache1))"

definition prepare_task :: "Env \<Rightarrow> error + string gomap \<Rightarrow> string \<Rightarrow> State \<Rightarrow> State" where
  "prepare_task env prepared i s =
     (let task = task_at s i in
      if ut_Stage task \<noteq> ''preparing'' then s
      else put_task i ((case prepared of
             Inl err \<Rightarrow> task\<lparr>ut_Stage := ''failed'', ut_Error := err\<rparr>
           | Inr hashes \<Rightarrow> task\<lparr>ut_Stage := ''pending'', ut_SHA256 := zget [] hashes (ut_Asset task)\<rparr>)
           \<lparr>ut_UpdatedAt := e_now env\<rparr>) s)"

definition prepareUpgradeBatch_tx :: "Env \<Rightarrow> error + string gomap \<Rightarrow> string \<Rightarrow> unit tx" where
  "prepareUpgradeBatch_tx env prepared i s =
     (let batch = batch_at s i in
      if ub_Stage batch \<noteq> ''preparing'' then Inr ((), s)
      else
        let batch' = (case prepared of
              Inl err \<Rightarrow> batch\<lparr>ub_Stage := ''failed'', ub_Error := err\<rparr> | Inr _ \<Rightarrow> batch\<lparr>ub_Stage := ''running''\<rparr>)
        in Inr ((), put_batch i batch' (fold (prepare_task env prepared) (ub_TaskIDs batch) s)))"

definition prepareUpgradeBatch :: "Net \<Rightarrow> Env \<Rightarrow> string \<Rightarrow> ReleaseCache \<Rightarrow> Store \<Rightarrow> ReleaseCache \<times> Store" where
  "prepareUpgradeBatch net env i cache st =
     (let s = store_Snapshot st in
      case mget (st_UpgradeBatches s) i of
        None \<Rightarrow> (cache, st)
      | Some batch \<Rightarrow>
          if ub_Stage batch \<noteq> ''preparing'' \<or> ub_TaskIDs batch = [] then (cache, st)
          else
            let provider = releaseServer env (ut_TargetVersion (task_at s (hd (ub_TaskIDs batch))));
                (problem, cache1) = ensureReleaseAsset net provider ''SHA256SUMS'' cache;
                (prepared, cache2) = (case problem of
                   Some err \<Rightarrow> (Inl err, cache1)
                 | None \<Rightarrow> prepare_assets net provider (map (\<lambda>t. ut_Asset (task_at s t)) (ub_TaskIDs batch)) [] cache1)
            in (cache2, snd (Update (e_store env) (prepareUpgradeBatch_tx env prepared i) st)))"

definition cancel_task :: "Env \<Rightarrow> string \<Rightarrow> State \<Rightarrow> State" where
  "cancel_task env i s =
     (let pending = task_at s i in
      if ut_Stage pending = ''pending'' \<or> ut_Stage pending = ''preparing''
      then put_task i (pending\<lparr>ut_Stage := ''cancelled'', ut_UpdatedAt := e_now env\<rparr>) s else s)"

definition cancelUpgrade_tx :: "Env \<Rightarrow> string \<Rightarrow> unit tx" where
  "cancelUpgrade_tx env i s =
     (case mget (st_UpgradeTasks s) i of
        None \<Rightarrow> Inl ''only unclaimed tasks can be cancelled''
      | Some task \<Rightarrow>
          if ut_Stage task \<noteq> ''pending'' \<and> ut_Stage task \<noteq> ''preparing'' then Inl ''only unclaimed tasks can be cancelled''
          else if ut_BatchID task \<noteq> [] then
            let batch = (batch_at s (ut_BatchID task))\<lparr>ub_Stage := ''paused'', ub_Error := ''cancelled by administrator'',
                  ub_RecoveryTaskID := [], ub_RecoveryDeadline := 0\<rparr>
            in Inr ((), fold (cancel_task env) (ub_TaskIDs batch) (put_batch (ub_ID batch) batch s))
          else Inr ((), put_task (ut_ID task) (task\<lparr>ut_Stage := ''cancelled'', ut_UpdatedAt := e_now env\<rparr>) s))"

definition cancelUpgrade :: "Env \<Rightarrow> Request \<Rightarrow> Store \<Rightarrow> Response \<times> Store" where
  "cancelUpgrade env r st =
     answer 409 (SeeOther ''/?notice=Upgrade+cancelled'') (Update (e_store env) (cancelUpgrade_tx env (rq_id r)) st)"

subsection \<open>The updater's side\<close>

record manualUpgradeRequest =
  mu_ID :: string
  mu_FromVersion :: string
  mu_TargetVersion :: string
  mu_SHA256 :: string
  mu_Mode :: string
  mu_Arch :: string

definition validManualTaskID :: "string \<Rightarrow> bool" where
  "validManualTaskID i = (12 \<le> length i \<and> length i \<le> 64 \<and> list_all (\<lambda>c. alnum c \<or> c = CHR ''_'' \<or> c = CHR ''-'') i)"

definition same_manual_task :: "Updater \<Rightarrow> manualUpgradeRequest \<Rightarrow> UpgradeTask \<Rightarrow> bool" where
  "same_manual_task up req existing =
     (ut_Manual existing \<and> ut_NodeID existing = up_NodeID up \<and> ut_Role existing = up_Role up \<and>
      ut_FromVersion existing = mu_FromVersion req \<and> ut_TargetVersion existing = mu_TargetVersion req \<and>
      ut_SHA256 existing = to_lower (mu_SHA256 req) \<and> ut_Mode existing = mu_Mode req \<and> ut_Arch existing = mu_Arch req)"

definition manual_task :: "Env \<Rightarrow> Updater \<Rightarrow> manualUpgradeRequest \<Rightarrow> UpgradeTask" where
  "manual_task env up req =
     zero_UpgradeTask\<lparr>ut_ID := mu_ID req, ut_Manual := True, ut_NodeID := up_NodeID up, ut_Role := up_Role up,
       ut_Actor := ''local installer'', ut_FromVersion := mu_FromVersion req, ut_TargetVersion := mu_TargetVersion req,
       ut_Asset := ''xmesh-'' @ mu_TargetVersion req @ ''-linux-'' @ mu_Arch req @ ''.tar.gz'', ut_SHA256 := to_lower (mu_SHA256 req),
       ut_Mode := mu_Mode req, ut_Arch := mu_Arch req, ut_Stage := ''running'', ut_Attempt := 1, ut_CreatedAt := e_now env,
       ut_UpdatedAt := e_now env, ut_ExpiresAt := e_now env + 24 * hour\<rparr>"

definition startManualUpgrade_tx :: "Env \<Rightarrow> Updater \<Rightarrow> manualUpgradeRequest \<Rightarrow> UpgradeTask tx" where
  "startManualUpgrade_tx env up req s =
     (case mget (st_UpgradeTasks s) (mu_ID req) of
        Some existing \<Rightarrow>
          if \<not> same_manual_task up req existing then Inl ''manual task ID already used for another upgrade'' else Inr (existing, s)
      | None \<Rightarrow>
          (case mget (st_Updaters s) (up_NodeID up) of
             None \<Rightarrow> Inl ''updater unavailable or pairing in progress''
           | Some current \<Rightarrow>
               if up_CredentialHash current \<noteq> up_CredentialHash up \<or> \<not> nodeExists s (up_Role up) (up_NodeID up) \<or>
                  pairingInProgress current (e_now env) then Inl ''updater unavailable or pairing in progress''
               else if up_Mode current \<noteq> [] \<and> up_Mode current \<noteq> mu_Mode req \<or> up_Arch current \<noteq> [] \<and> up_Arch current \<noteq> mu_Arch req
                 then Inl ''installation mode or architecture changed''
               else if nodeHasActiveUpgrade s (up_NodeID up) then Inl ''node already has an active upgrade''
               else
                 let status = status_at s (up_NodeID up) in
                 if ns_NodeID status \<noteq> up_NodeID up \<or> ns_Role status \<noteq> up_Role up \<or> ns_BinaryVersion status \<noteq> mu_FromVersion req \<or>
                    IsZero (ns_LastSeen status) \<or> 45 * second < time_sub (e_now env) (ns_LastSeen status)
                 then Inl ''node has no fresh matching version status''
                 else Inr (manual_task env up req, put_task (mu_ID req) (manual_task env up req) s)))"

definition startManualUpgrade :: "Env \<Rightarrow> Request \<Rightarrow> manualUpgradeRequest \<Rightarrow> Store \<Rightarrow> UpgradeTask Reply \<times> Store" where
  "startManualUpgrade env r req st =
     (case authenticateUpdater env r st of
        (None, st1) \<Rightarrow> (Refused 401 ''unauthorized'', st1)
      | (Some up, st1) \<Rightarrow>
          if \<not> validManualTaskID (mu_ID req) \<or> \<not> releaseVersionPattern (mu_TargetVersion req) \<or> \<not> has_prefix (mu_TargetVersion req) ''v'' \<or>
             mu_FromVersion req = [] \<or> mu_FromVersion req = mu_TargetVersion req \<or> mu_Arch req \<notin> {''amd64'', ''arm64''} \<or>
             mu_Mode req \<notin> {''systemd'', ''docker''} then (Refused 400 ''invalid manual upgrade'', st1)
          else if length (mu_SHA256 req) \<noteq> 64 \<or> \<not> list_all hex_char (mu_SHA256 req) then (Refused 400 ''invalid archive hash'', st1)
          else (case Update (e_store env) (startManualUpgrade_tx env up req) st1 of
              (Inl err, st2) \<Rightarrow> (Refused 409 err, st2) | (Inr task, st2) \<Rightarrow> (Json 200 task, st2)))"

definition offered_stage :: "string \<Rightarrow> bool" where
  "offered_stage stage =
     (stage \<in> {''pending'', ''running'', ''uncertain'', ''downloading'', ''prepared'', ''switching'', ''verifying'', ''rolling_back''})"

text \<open>Every earlier task of the batch has succeeded.\<close>

definition prior_done :: "State \<Rightarrow> UpgradeBatch \<Rightarrow> string \<Rightarrow> bool" where
  "prior_done s batch i = list_all (\<lambda>prior. ut_Stage (task_at s prior) = ''succeeded'') (takeWhile (\<lambda>prior. prior \<noteq> i) (ub_TaskIDs batch))"

fun offer_task :: "Env \<Rightarrow> Updater \<Rightarrow> UpgradeTask list \<Rightarrow> (UpgradeTask option) tx" where
  "offer_task env up [] s = Inr (None, s)"
| "offer_task env up (task # tasks) s =
     (if ut_NodeID task \<noteq> up_NodeID up \<or> ut_Manual task \<or> \<not> offered_stage (ut_Stage task) then offer_task env up tasks s
      else if ut_Mode task \<noteq> up_Mode up \<or> ut_Arch task \<noteq> up_Arch up then Inl ''installation changed after task creation''
      else if ut_Stage task = ''pending'' then
        let batch = batch_at s (ut_BatchID task) in
        if ub_Stage batch \<noteq> ''running'' then offer_task env up tasks s
        else if \<not> prior_done s batch (ut_ID task) then Inr (None, s)
        else if \<not> e_now env < ut_ExpiresAt task then
          Inr (None, put_batch (ub_ID batch) (batch\<lparr>ub_Stage := ''paused'', ub_Error := ''task expired before claim''\<rparr>)
                 (put_task (ut_ID task) (task\<lparr>ut_Stage := ''expired''\<rparr>) s))
        else
          let claimed = task\<lparr>ut_Stage := ''running'', ut_Attempt := ut_Attempt task + 1, ut_UpdatedAt := e_now env\<rparr>
          in Inr (Some claimed, put_task (ut_ID task) claimed s)
      else Inr (Some task, s))"

definition updaterTask_tx :: "Env \<Rightarrow> Updater \<Rightarrow> (UpgradeTask option) tx" where
  "updaterTask_tx env up s =
     (if 45 * second < time_sub (e_now env) (up_LastSeen (updater_at s (up_NodeID up))) then Inl ''updater heartbeat expired''
      else let s1 = reconcileUpgradeRecovery env (e_now env) s in offer_task env up (mvals (st_UpgradeTasks s1)) s1)"

definition updaterTask :: "Env \<Rightarrow> Request \<Rightarrow> Store \<Rightarrow> UpgradeTask Reply \<times> Store" where
  "updaterTask env r st =
     (case authenticateUpdater env r st of
        (None, st1) \<Rightarrow> (Refused 401 ''unauthorized'', st1)
      | (Some up, st1) \<Rightarrow>
          if \<not> list_ex (\<lambda>task. ut_NodeID task = up_NodeID up \<and> \<not> ut_Manual task \<and> activeUpgrade (ut_Stage task) \<and>
                ut_Stage task \<noteq> ''preparing'') (mvals (st_UpgradeTasks (store_Snapshot st1))) then (Done 204, st1)
          else (case Update (e_store env) (updaterTask_tx env up) st1 of
              (Inl err, st2) \<Rightarrow> (Refused 409 err, st2)
            | (Inr None, st2) \<Rightarrow> (Done 204, st2)
            | (Inr (Some task), st2) \<Rightarrow> (Json 200 task, st2)))"

record updaterReportRequest =
  ur_Stage :: string
  ur_Error :: string
  ur_Attempt :: int

definition reported_stage :: "string \<Rightarrow> bool" where
  "reported_stage stage =
     (stage \<in> {''downloading'', ''prepared'', ''switching'', ''verifying'', ''uncertain'', ''rolling_back'', ''succeeded'', ''rolled_back'',
        ''manual_intervention'', ''failed''})"

definition updaterReport_tx :: "Env \<Rightarrow> Updater \<Rightarrow> string \<Rightarrow> updaterReportRequest \<Rightarrow> unit tx" where
  "updaterReport_tx env up i req s =
     (case mget (st_UpgradeTasks s) i of
        None \<Rightarrow> Inl ''task does not belong to updater''
      | Some task \<Rightarrow>
          if ut_NodeID task \<noteq> up_NodeID up \<or> ut_Attempt task \<noteq> ur_Attempt req then Inl ''task does not belong to updater''
          else if ut_Stage task = ur_Stage req then Inr ((), s)
          else if ut_Stage task = ''pending'' \<or> \<not> offered_stage (ut_Stage task) then Inl ''task is already terminal''
          else
            let task' = task\<lparr>ut_Stage := ur_Stage req, ut_Error := ur_Error req, ut_UpdatedAt := e_now env\<rparr>;
                s1 = put_task (ut_ID task') task' s;
                batch = batch_at s1 (ut_BatchID task')
            in if ut_BatchID task' = [] then Inr ((), s1)
               else if ur_Stage req \<in> {''rolled_back'', ''failed'', ''manual_intervention''} then
                 Inr ((), put_batch (ub_ID batch) (batch\<lparr>ub_Stage := ''paused'', ub_Error := ur_Stage req @ '': '' @ ur_Error req,
                        ub_RecoveryTaskID := [], ub_RecoveryDeadline := 0\<rparr>) s1)
               else if ur_Stage req = ''succeeded'' \<and> ub_Stage batch = ''running'' then
                 Inr ((), reconcileUpgradeRecovery env (e_now env)
                   (put_batch (ub_ID batch) (batch\<lparr>ub_Stage := ''recovering'', ub_RecoveryTaskID := ut_ID task',
                      ub_RecoveryDeadline := ut_UpdatedAt task' + upgradeLinkRecoveryTimeout\<rparr>) s1))
               else Inr ((), s1))"

definition updaterReport :: "Env \<Rightarrow> Request \<Rightarrow> updaterReportRequest \<Rightarrow> Store \<Rightarrow> Response \<times> Store" where
  "updaterReport env r req st =
     (case authenticateUpdater env r st of
        (None, st1) \<Rightarrow> (HttpError 401 ''unauthorized'', st1)
      | (Some up, st1) \<Rightarrow>
          if \<not> reported_stage (ur_Stage req) \<or> 1024 < length (ur_Error req) then (HttpError 400 ''invalid report'', st1)
          else answer 409 NoContent (Update (e_store env) (updaterReport_tx env up (rq_id r) req) st1))"

end
