(* ===== verification/Upgrade_Invariant.thy ===== *)
theory Upgrade_Invariant
  imports Upgrades
begin

text \<open>
  Safety of node upgrades: in every state that the handlers of \<open>Upgrades\<close> can reach, no node has two
  active upgrades, and a batch is rolled out strictly in order. The invariant \<open>rollout_ok\<close> is stated on
  the two tables alone, and each way in which the handlers rewrite an entry keeps it.
\<close>

definition in_flight :: "string \<Rightarrow> bool" where
  "in_flight stage = (offered_stage stage \<and> stage \<noteq> ''pending'')"

definition rollout_ok :: "(string \<Rightarrow> UpgradeTask option) \<Rightarrow> (string \<Rightarrow> UpgradeBatch option) \<Rightarrow> bool" where
  "rollout_ok T B \<longleftrightarrow>
     (\<forall>i t. T i = Some t \<longrightarrow> ut_ID t = i \<and> 0 \<le> ut_Attempt t \<and> (in_flight (ut_Stage t) \<longrightarrow> 0 < ut_Attempt t)) \<and>
     (\<forall>i b. B i = Some b \<longrightarrow> ub_ID b = i \<and> distinct (ub_TaskIDs b) \<and>
        (\<forall>j \<in> set (ub_TaskIDs b). \<exists>t. T j = Some t \<and> ut_BatchID t = i)) \<and>
     (\<forall>i j t u. T i = Some t \<longrightarrow> T j = Some u \<longrightarrow> activeUpgrade (ut_Stage t) \<longrightarrow> activeUpgrade (ut_Stage u) \<longrightarrow>
        ut_NodeID t = ut_NodeID u \<longrightarrow> i = j) \<and>
     (\<forall>i b before j t after k u. B i = Some b \<longrightarrow> ub_TaskIDs b = before @ j # after \<longrightarrow> T j = Some t \<longrightarrow> 0 < ut_Attempt t \<longrightarrow>
        k \<in> set before \<longrightarrow> T k = Some u \<longrightarrow> ut_Stage u = ''succeeded'')"

lemma rollout_okD:
  assumes "rollout_ok T B"
  shows "T i = Some t \<Longrightarrow> ut_ID t = i" "T i = Some t \<Longrightarrow> 0 \<le> ut_Attempt t"
    "T i = Some t \<Longrightarrow> in_flight (ut_Stage t) \<Longrightarrow> 0 < ut_Attempt t"
    "B i = Some b \<Longrightarrow> ub_ID b = i" "B i = Some b \<Longrightarrow> distinct (ub_TaskIDs b)"
    "B i = Some b \<Longrightarrow> j \<in> set (ub_TaskIDs b) \<Longrightarrow> \<exists>t. T j = Some t \<and> ut_BatchID t = i"
    "T i = Some t \<Longrightarrow> T j = Some u \<Longrightarrow> activeUpgrade (ut_Stage t) \<Longrightarrow> activeUpgrade (ut_Stage u) \<Longrightarrow>
       ut_NodeID t = ut_NodeID u \<Longrightarrow> i = j"
    "B i = Some b \<Longrightarrow> ub_TaskIDs b = before @ j # after \<Longrightarrow> T j = Some t \<Longrightarrow> 0 < ut_Attempt t \<Longrightarrow>
       k \<in> set before \<Longrightarrow> T k = Some u \<Longrightarrow> ut_Stage u = ''succeeded''"
  using assms unfolding rollout_ok_def by blast+

lemma rollout_okI:
  assumes "\<And>i t. T i = Some t \<Longrightarrow> ut_ID t = i" "\<And>i t. T i = Some t \<Longrightarrow> 0 \<le> ut_Attempt t"
    "\<And>i t. T i = Some t \<Longrightarrow> in_flight (ut_Stage t) \<Longrightarrow> 0 < ut_Attempt t"
    "\<And>i b. B i = Some b \<Longrightarrow> ub_ID b = i" "\<And>i b. B i = Some b \<Longrightarrow> distinct (ub_TaskIDs b)"
    "\<And>i b j. B i = Some b \<Longrightarrow> j \<in> set (ub_TaskIDs b) \<Longrightarrow> \<exists>t. T j = Some t \<and> ut_BatchID t = i"
    "\<And>i j t u. T i = Some t \<Longrightarrow> T j = Some u \<Longrightarrow> activeUpgrade (ut_Stage t) \<Longrightarrow> activeUpgrade (ut_Stage u) \<Longrightarrow>
       ut_NodeID t = ut_NodeID u \<Longrightarrow> i = j"
    "\<And>i b before j t after k u. B i = Some b \<Longrightarrow> ub_TaskIDs b = before @ j # after \<Longrightarrow> T j = Some t \<Longrightarrow> 0 < ut_Attempt t \<Longrightarrow>
       k \<in> set before \<Longrightarrow> T k = Some u \<Longrightarrow> ut_Stage u = ''succeeded''"
  shows "rollout_ok T B"
  unfolding rollout_ok_def by (intro conjI allI impI ballI) (fact assms)+

subsection \<open>Rewriting one entry\<close>

text \<open>A task may take a later stage: it stays active only if it was, it never leaves \<open>succeeded\<close>, and it is
  claimed only when the tasks before it are done.\<close>

lemma rollout_task:
  assumes ok: "rollout_ok T B" and t: "T i = Some t"
    and same: "ut_ID t' = ut_ID t" "ut_BatchID t' = ut_BatchID t" "ut_NodeID t' = ut_NodeID t"
    and attempt: "ut_Attempt t \<le> ut_Attempt t'" "in_flight (ut_Stage t') \<Longrightarrow> 0 < ut_Attempt t'"
    and stage: "activeUpgrade (ut_Stage t') \<Longrightarrow> activeUpgrade (ut_Stage t)"
      "ut_Stage t = ''succeeded'' \<Longrightarrow> ut_Stage t' = ''succeeded''"
    and claim: "\<And>b before after k u. B (ut_BatchID t) = Some b \<Longrightarrow> ub_TaskIDs b = before @ i # after \<Longrightarrow> ut_Attempt t < ut_Attempt t' \<Longrightarrow>
       k \<in> set before \<Longrightarrow> T k = Some u \<Longrightarrow> ut_Stage u = ''succeeded''"
  shows "rollout_ok (T(i := Some t')) B"
proof (rule rollout_okI)
  note D = rollout_okD [OF ok]
  show "ut_ID u = j" if "(T(i := Some t')) j = Some u" for j u
    using that D(1) t same(1) by (auto split: if_splits)
  show "0 \<le> ut_Attempt u" if "(T(i := Some t')) j = Some u" for j u
    using that D(2) [of j u] D(2) [OF t] attempt(1) by (auto split: if_splits)
  show "0 < ut_Attempt u" if "(T(i := Some t')) j = Some u" "in_flight (ut_Stage u)" for j u
    using that D(3) [of j u] attempt(2) by (auto split: if_splits)
  show "ub_ID b = j" "distinct (ub_TaskIDs b)" if "B j = Some b" for j b
    using that D(4,5) by blast+
  show "\<exists>t. (T(i := Some t')) k = Some t \<and> ut_BatchID t = j" if "B j = Some b" "k \<in> set (ub_TaskIDs b)" for j b k
    using D(6) [OF that] t same(2) by auto
  show "j = k" if "(T(i := Some t')) j = Some u" "(T(i := Some t')) k = Some v" "activeUpgrade (ut_Stage u)" "activeUpgrade (ut_Stage v)"
    "ut_NodeID u = ut_NodeID v" for j k u v
  proof -
    have "\<exists>x. T l = Some x \<and> activeUpgrade (ut_Stage x) \<and> ut_NodeID x = ut_NodeID y"
      if "(T(i := Some t')) l = Some y" "activeUpgrade (ut_Stage y)" for l y
      using that t stage(1) same(3) by (auto split: if_splits)
    from this [OF that(1,3)] this [OF that(2,4)] show ?thesis
      using D(7) that(5) by metis
  qed
  show "ut_Stage w = ''succeeded''"
    if b: "B j = Some b" "ub_TaskIDs b = before @ m # after" and m: "(T(i := Some t')) m = Some v" "0 < ut_Attempt v"
      and k: "k \<in> set before" "(T(i := Some t')) k = Some w" for j b before m v after k w
  proof -
    have "k \<noteq> m"
      using D(5) [OF b(1)] b(2) k(1) by auto
    have w: "ut_Stage w = ''succeeded''" if "\<And>u. T k = Some u \<Longrightarrow> ut_Stage u = ''succeeded''"
      using that k(2) t stage(2) by (auto split: if_splits)
    show ?thesis
    proof (cases "m = i \<and> \<not> 0 < ut_Attempt t")
      case True
      have "ut_BatchID t = j"
        using D(6) [OF b(1), of i] b(2) t True by auto
      moreover have "ut_Attempt t < ut_Attempt t'"
        using True m D(2) [OF t] by (auto split: if_splits)
      ultimately show ?thesis
        using b True k(1) by (intro w claim [of b before after k]) simp_all
    next
      case False
      then obtain x where "T m = Some x" "0 < ut_Attempt x"
        using m t by (auto split: if_splits)
      then show ?thesis
        using D(8) [OF b _ _ k(1)] by (intro w)
    qed
  qed
qed

lemma rollout_batch:
  assumes ok: "rollout_ok T B" and b': "ub_ID b' = i"
    and ids: "ub_TaskIDs b' = [] \<or> (\<exists>b. B i = Some b \<and> ub_TaskIDs b' = ub_TaskIDs b)"
  shows "rollout_ok T (B(i := Some b'))"
proof (rule rollout_okI)
  note D = rollout_okD [OF ok]
  show "ub_ID b = j" "distinct (ub_TaskIDs b)" if "(B(i := Some b')) j = Some b" for j b
    using that D(4,5) b' ids by (auto split: if_splits)
  show "\<exists>t. T k = Some t \<and> ut_BatchID t = j" if "(B(i := Some b')) j = Some b" "k \<in> set (ub_TaskIDs b)" for j b k
    using that D(6) ids by (auto split: if_splits)
  show "ut_Stage u = ''succeeded''"
    if "(B(i := Some b')) j = Some b" "ub_TaskIDs b = before @ m # after" "T m = Some t" "0 < ut_Attempt t" "k \<in> set before" "T k = Some u"
    for j b before m t after k u
    using that D(8) [of j _ before m after t k u] ids by (auto split: if_splits)
qed (use rollout_okD [OF ok] in blast)+

text \<open>New tasks and batches.\<close>

lemma rollout_add_task:
  assumes ok: "rollout_ok T B" and new: "T i = None" "ut_ID t = i" "0 \<le> ut_Attempt t" "in_flight (ut_Stage t) \<Longrightarrow> 0 < ut_Attempt t"
    and free: "\<And>j u. T j = Some u \<Longrightarrow> activeUpgrade (ut_Stage u) \<Longrightarrow> ut_NodeID u \<noteq> ut_NodeID t"
  shows "rollout_ok (T(i := Some t)) B"
proof (rule rollout_okI)
  note D = rollout_okD [OF ok]
  have absent: "B j = Some b \<Longrightarrow> i \<notin> set (ub_TaskIDs b)" for j b
    using D(6) [of j b i] new(1) by auto
  show "ut_Stage u = ''succeeded''"
    if "B j = Some b" "ub_TaskIDs b = before @ m # after" "(T(i := Some t)) m = Some v" "0 < ut_Attempt v" "k \<in> set before"
      "(T(i := Some t)) k = Some u" for j b before m v after k u
    using that D(8) [OF that(1,2) _ that(4,5)] absent [OF that(1)] by (auto split: if_splits)
  show "\<exists>t'. (T(i := Some t)) k = Some t' \<and> ut_BatchID t' = j" if "B j = Some b" "k \<in> set (ub_TaskIDs b)" for j b k
    using D(6) [OF that] new(1) by auto
  show "j = k" if "(T(i := Some t)) j = Some u" "(T(i := Some t)) k = Some v" "activeUpgrade (ut_Stage u)" "activeUpgrade (ut_Stage v)"
    "ut_NodeID u = ut_NodeID v" for j k u v
    using that D(7) [of j u k v] free by (auto split: if_splits)
qed (use new rollout_okD [OF ok] in \<open>auto split: if_splits\<close>)

lemma rollout_add_batch:
  assumes ok: "rollout_ok T B" and b': "ub_ID b' = i" "distinct (ub_TaskIDs b')"
    and tasks: "\<And>j. j \<in> set (ub_TaskIDs b') \<Longrightarrow> \<exists>t. T j = Some t \<and> ut_BatchID t = i \<and> ut_Attempt t = 0"
  shows "rollout_ok T (B(i := Some b'))"
proof (rule rollout_okI)
  note D = rollout_okD [OF ok]
  show "ub_ID b = j" "distinct (ub_TaskIDs b)" if "(B(i := Some b')) j = Some b" for j b
    using that D(4,5) b' by (auto split: if_splits)
  show "\<exists>t. T k = Some t \<and> ut_BatchID t = j" if "(B(i := Some b')) j = Some b" "k \<in> set (ub_TaskIDs b)" for j b k
    using that D(6) tasks by (fastforce split: if_splits)
  show "ut_Stage u = ''succeeded''"
    if "(B(i := Some b')) j = Some b" "ub_TaskIDs b = before @ m # after" "T m = Some t" "0 < ut_Attempt t" "k \<in> set before" "T k = Some u"
    for j b before m t after k u
    using that D(8) [of j _ before m after t k u] tasks [of m] by (auto split: if_splits)
qed (use rollout_okD [OF ok] in blast)+

subsection \<open>The handlers\<close>

definition upgrades_ok :: "State \<Rightarrow> bool" where
  "upgrades_ok s \<longleftrightarrow> mwf (st_UpgradeTasks s) \<and> mwf (st_UpgradeBatches s) \<and>
     rollout_ok (mget (st_UpgradeTasks s)) (mget (st_UpgradeBatches s))"

lemma mget_mput_upd: "mget (mput k v m) = (mget m)(k := Some v)"
  by (simp add: fun_eq_iff)

lemma upgrades_ok_put_task:
  "upgrades_ok s \<Longrightarrow> rollout_ok ((mget (st_UpgradeTasks s))(i := Some t)) (mget (st_UpgradeBatches s)) \<Longrightarrow> upgrades_ok (put_task i t s)"
  by (simp add: upgrades_ok_def mget_mput_upd mwf_mput)

lemma upgrades_ok_put_batch:
  "upgrades_ok s \<Longrightarrow> rollout_ok (mget (st_UpgradeTasks s)) ((mget (st_UpgradeBatches s))(i := Some b)) \<Longrightarrow> upgrades_ok (put_batch i b s)"
  by (simp add: upgrades_ok_def mget_mput_upd mwf_mput)

lemmas upgrades_okD = rollout_okD [OF conjunct2 [OF conjunct2 [OF upgrades_ok_def [THEN iffD1]]]]

lemma upgrades_ok_view:
  "st_UpgradeTasks s' = st_UpgradeTasks s \<Longrightarrow> st_UpgradeBatches s' = st_UpgradeBatches s \<Longrightarrow> upgrades_ok s' = upgrades_ok s"
  by (simp add: upgrades_ok_def)

text \<open>A batch is rewritten in place: its ID and its tasks stay.\<close>

definition batch_like :: "State \<Rightarrow> UpgradeBatch \<Rightarrow> bool" where
  "batch_like s b \<longleftrightarrow> ub_TaskIDs b = [] \<or> (\<exists>b'. mget (st_UpgradeBatches s) (ub_ID b) = Some b' \<and> ub_TaskIDs b = ub_TaskIDs b')"

lemma put_batch_ok:
  "upgrades_ok s \<Longrightarrow> batch_like s b \<Longrightarrow> upgrades_ok (put_batch (ub_ID b) b s)"
  by (rule upgrades_ok_put_batch) (auto simp: upgrades_ok_def batch_like_def intro!: rollout_batch)

lemma batch_at_like: "upgrades_ok s \<Longrightarrow> batch_like s (batch_at s i)"
  by (cases "mget (st_UpgradeBatches s) i")
    (auto simp: batch_like_def zget_def zero_UpgradeBatch_def dest: upgrades_okD(4))

lemma batch_like_fields [simp]:
  "batch_like s (b\<lparr>ub_Stage := x\<rparr>) = batch_like s b" "batch_like s (b\<lparr>ub_Error := e\<rparr>) = batch_like s b"
  "batch_like s (b\<lparr>ub_RecoveryTaskID := r\<rparr>) = batch_like s b" "batch_like s (b\<lparr>ub_RecoveryDeadline := d\<rparr>) = batch_like s b"
  "batch_like (put_task i t s) b = batch_like s b"
  by (simp_all add: batch_like_def)

lemma batch_like_put: "batch_like s b \<Longrightarrow> batch_like s c \<Longrightarrow> ub_ID b = ub_ID c \<longrightarrow> ub_TaskIDs b = ub_TaskIDs c \<Longrightarrow> batch_like (put_batch (ub_ID c) c s) b"
  by (auto simp: batch_like_def)

definition batch_rewritten :: "UpgradeBatch \<Rightarrow> State \<Rightarrow> State set" where
  "batch_rewritten b s = (\<lambda>b'. put_batch (ub_ID b) b' s) ` {b'. ub_ID b' = ub_ID b \<and> ub_TaskIDs b' = ub_TaskIDs b}"

lemma batch_rewrittenI: "ub_ID b' = ub_ID b \<Longrightarrow> ub_TaskIDs b' = ub_TaskIDs b \<Longrightarrow> put_batch (ub_ID b) b' s \<in> batch_rewritten b s"
  by (simp add: batch_rewritten_def)

lemma finish_rewrites: "finishUpgradeRecovery b s \<in> batch_rewritten b s"
  unfolding finishUpgradeRecovery_def Let_def by (rule batch_rewrittenI) simp_all

lemma reconcile_rewrites: "reconcile_batch env now b s \<in> insert s (batch_rewritten b s)"
  unfolding reconcile_batch_def Let_def
  by (simp add: finish_rewrites batch_rewrittenI split: option.split)

text \<open>A whole pass of the reconciliation keeps the tasks, and of every batch the ID and the tasks.\<close>

definition batches_kept :: "State \<Rightarrow> State \<Rightarrow> bool" where
  "batches_kept s s' \<longleftrightarrow> st_UpgradeTasks s' = st_UpgradeTasks s \<and> mwf (st_UpgradeBatches s') \<and>
     (\<forall>i. map_option (\<lambda>b. (ub_ID b, ub_TaskIDs b)) (mget (st_UpgradeBatches s') i) =
          map_option (\<lambda>b. (ub_ID b, ub_TaskIDs b)) (mget (st_UpgradeBatches s) i))"

lemma batches_kept_ok:
  assumes "upgrades_ok s" "batches_kept s s'"
  shows "upgrades_ok s'"
proof -
  have "\<exists>b0. mget (st_UpgradeBatches s) i = Some b0 \<and> ub_ID b = ub_ID b0 \<and> ub_TaskIDs b = ub_TaskIDs b0"
    if "mget (st_UpgradeBatches s') i = Some b" for i b
    using assms(2) that by (cases "mget (st_UpgradeBatches s) i") (auto simp: batches_kept_def dest!: spec [of _ i])
  note B = this
  have "rollout_ok (mget (st_UpgradeTasks s)) (mget (st_UpgradeBatches s'))"
  proof (rule rollout_okI)
    note D = upgrades_okD [OF assms(1)]
    show "ub_ID b = i" "distinct (ub_TaskIDs b)" if "mget (st_UpgradeBatches s') i = Some b" for i b
      using B [OF that] D(4,5) by metis+
    show "\<exists>t. mget (st_UpgradeTasks s) j = Some t \<and> ut_BatchID t = i"
      if "mget (st_UpgradeBatches s') i = Some b" "j \<in> set (ub_TaskIDs b)" for i b j
      using B [OF that(1)] that(2) D(6) by metis
    show "ut_Stage u = ''succeeded''"
      if "mget (st_UpgradeBatches s') i = Some b" "ub_TaskIDs b = before @ j # after" "mget (st_UpgradeTasks s) j = Some t"
        "0 < ut_Attempt t" "k \<in> set before" "mget (st_UpgradeTasks s) k = Some u" for i b before j t after k u
      using B [OF that(1)] D(8) [OF _ _ that(3-6)] that(2) by metis
  qed (use upgrades_okD [OF assms(1)] in blast)+
  with assms show ?thesis
    by (simp add: upgrades_ok_def batches_kept_def)
qed

lemma reconcile_kept:
  assumes "upgrades_ok s"
  shows "batches_kept s (reconcileUpgradeRecovery env now s)"
proof -
  have "batches_kept s (fold (reconcile_batch env now) bs s')"
    if "batches_kept s s'" "\<And>b. b \<in> set bs \<Longrightarrow> mget (st_UpgradeBatches s) (ub_ID b) = Some b" for bs s'
    using that
  proof (induction bs arbitrary: s')
    case (Cons b bs)
    have b: "mget (st_UpgradeBatches s) (ub_ID b) = Some b"
      by (rule Cons.prems(2)) simp
    have "batches_kept s (reconcile_batch env now b s')"
      using reconcile_rewrites [of env now b s'] Cons.prems(1) b by (auto simp: batches_kept_def batch_rewritten_def)
    then show ?case
      using Cons.IH Cons.prems(2) by simp
  qed simp
  moreover have "mget (st_UpgradeBatches s) (ub_ID b) = Some b" if "b \<in> set (mvals (st_UpgradeBatches s))" for b
    using mvals_mget [OF _ that] assms upgrades_okD(4) [OF assms] by (auto simp: upgrades_ok_def)
  ultimately show ?thesis
    using assms by (simp add: reconcileUpgradeRecovery_def batches_kept_def upgrades_ok_def)
qed

lemma reconcile_ok: "upgrades_ok s \<Longrightarrow> upgrades_ok (reconcileUpgradeRecovery env now s)"
  using batches_kept_ok reconcile_kept by blast

text \<open>A task that is already stored moves to a later stage.\<close>

lemma put_task_ok:
  assumes "upgrades_ok s" "mget (st_UpgradeTasks s) i = Some t"
    and "ut_ID t' = ut_ID t" "ut_BatchID t' = ut_BatchID t" "ut_NodeID t' = ut_NodeID t"
    and "ut_Attempt t \<le> ut_Attempt t'" "in_flight (ut_Stage t') \<Longrightarrow> 0 < ut_Attempt t'"
    and "activeUpgrade (ut_Stage t') \<Longrightarrow> activeUpgrade (ut_Stage t)"
      "ut_Stage t = ''succeeded'' \<Longrightarrow> ut_Stage t' = ''succeeded''"
    and "ut_Attempt t < ut_Attempt t' \<Longrightarrow> prior_done s (batch_at s (ut_BatchID t)) i"
  shows "upgrades_ok (put_task i t' s)"
proof (rule upgrades_ok_put_task [OF assms(1)], rule rollout_task [where t = t])
  show "rollout_ok (mget (st_UpgradeTasks s)) (mget (st_UpgradeBatches s))"
    using assms(1) by (simp add: upgrades_ok_def)
  show "ut_Stage u = ''succeeded''"
    if "mget (st_UpgradeBatches s) (ut_BatchID t) = Some b" "ub_TaskIDs b = before @ i # after" "ut_Attempt t < ut_Attempt t'"
      "k \<in> set before" "mget (st_UpgradeTasks s) k = Some u" for b before after k u
  proof -
    have "i \<notin> set before"
      using upgrades_okD(5) [OF assms(1) that(1)] that(2) by simp
    then have "takeWhile (\<lambda>prior. prior \<noteq> i) (ub_TaskIDs b) = before"
      unfolding that(2) by (subst takeWhile_append2) auto
    then show ?thesis
      using assms(10) [OF that(3)] that(1,4,5) by (auto simp: prior_done_def zget_def list_all_iff)
  qed
qed (use assms in auto)

lemmas stage_defs = in_flight_def offered_stage_def activeUpgrade_def reported_stage_def

lemma task_at_stage: "ut_Stage (task_at s i) \<noteq> [] \<Longrightarrow> mget (st_UpgradeTasks s) i = Some (task_at s i)"
  by (cases "mget (st_UpgradeTasks s) i") (auto simp: zget_def zero_UpgradeTask_def)

lemma prepare_task_ok: "upgrades_ok s \<Longrightarrow> upgrades_ok (prepare_task env prepared i s)"
  unfolding prepare_task_def Let_def
  by (cases prepared; simp; intro impI put_task_ok [where t = "task_at s i"])
    (simp_all add: task_at_stage stage_defs)

lemma cancel_task_ok: "upgrades_ok s \<Longrightarrow> upgrades_ok (cancel_task env i s)"
  unfolding cancel_task_def Let_def
  by (cases "ut_Stage (task_at s i) \<in> {''pending'', ''preparing''}"; simp; rule put_task_ok [where t = "task_at s i"])
    (auto simp: task_at_stage stage_defs)

lemma fold_task_ok:
  "(\<And>i s. upgrades_ok s \<Longrightarrow> upgrades_ok (f i s)) \<Longrightarrow> upgrades_ok s \<Longrightarrow> upgrades_ok (fold f is s)"
  by (induction "is" arbitrary: s) auto

lemma fold_task_batches:
  "st_UpgradeBatches (fold (prepare_task env prepared) is s) = st_UpgradeBatches s"
  "st_UpgradeBatches (fold (cancel_task env) is s) = st_UpgradeBatches s"
  by (induction "is" arbitrary: s) (simp_all add: prepare_task_def cancel_task_def Let_def)

lemma prepareUpgradeBatch_ok:
  assumes "upgrades_ok s" "prepareUpgradeBatch_tx env prepared i s = Inr ((), s')"
  shows "upgrades_ok s'"
proof (cases "ub_Stage (batch_at s i) = ''preparing''")
  case True
  let ?b = "batch_at s i" and ?s1 = "fold (prepare_task env prepared) (ub_TaskIDs (batch_at s i)) s"
  have i: "mget (st_UpgradeBatches s) i = Some ?b"
    using True by (cases "mget (st_UpgradeBatches s) i") (auto simp: zget_def zero_UpgradeBatch_def)
  have s1: "upgrades_ok ?s1"
    by (intro fold_task_ok prepare_task_ok assms(1))
  obtain b' where s': "s' = put_batch i b' ?s1" and b': "ub_ID b' = ub_ID ?b" "ub_TaskIDs b' = ub_TaskIDs ?b"
    using assms(2) True by (auto simp: prepareUpgradeBatch_tx_def Let_def split: sum.splits)
  have "batch_like ?s1 b'"
    using i b' upgrades_okD(4) [OF assms(1) i] by (simp add: batch_like_def fold_task_batches)
  then show ?thesis
    using put_batch_ok [OF s1, of b'] s' b'(1) upgrades_okD(4) [OF assms(1) i] by simp
qed (use assms in \<open>auto simp: prepareUpgradeBatch_tx_def Let_def\<close>)

lemma cancelUpgrade_ok:
  assumes "upgrades_ok s" "cancelUpgrade_tx env i s = Inr ((), s')"
  shows "upgrades_ok s'"
proof -
  obtain task where t: "mget (st_UpgradeTasks s) i = Some task" "ut_Stage task \<in> {''pending'', ''preparing''}"
    using assms(2) by (auto simp: cancelUpgrade_tx_def split: option.splits if_splits)
  show ?thesis
  proof (cases "ut_BatchID task = []")
    case True
    have "s' = put_task i (task\<lparr>ut_Stage := ''cancelled'', ut_UpdatedAt := e_now env\<rparr>) s"
      using assms(2) t True upgrades_okD(1) [OF assms(1) t(1)] by (auto simp: cancelUpgrade_tx_def)
    with t show ?thesis
      by (auto intro!: put_task_ok [OF assms(1) t(1)] simp: stage_defs)
  next
    case False
    let ?b = "(batch_at s (ut_BatchID task))\<lparr>ub_Stage := ''paused'', ub_Error := ''cancelled by administrator'',
                  ub_RecoveryTaskID := [], ub_RecoveryDeadline := 0\<rparr>"
    have "s' = fold (cancel_task env) (ub_TaskIDs ?b) (put_batch (ub_ID ?b) ?b s)"
      using assms(2) t False by (auto simp: cancelUpgrade_tx_def Let_def)
    moreover have "upgrades_ok (put_batch (ub_ID ?b) ?b s)"
      by (rule put_batch_ok) (simp_all only: batch_like_fields batch_at_like assms(1))
    ultimately show ?thesis
      by (simp only: fold_task_ok cancel_task_ok)
  qed
qed

lemma resumeUpgrade_ok:
  assumes "upgrades_ok s" "resumeUpgrade_tx env i s = Inr ((), s')"
  shows "upgrades_ok s'"
proof -
  let ?b = "batch_at s (ut_BatchID (task_at s i))"
  have "s' = finishUpgradeRecovery ?b s"
    using assms(2) by (simp add: resumeUpgrade_tx_def Let_def split: if_splits)
  then obtain b' where s': "s' = put_batch (ub_ID b') b' s" and b': "ub_ID b' = ub_ID ?b" "ub_TaskIDs b' = ub_TaskIDs ?b"
    using finish_rewrites [of ?b s] by (auto simp: batch_rewritten_def)
  show ?thesis
    unfolding s' using batch_at_like [OF assms(1), of "ut_BatchID (task_at s i)"] b'
    by (intro put_batch_ok assms(1)) (simp add: batch_like_def)
qed

lemma startManualUpgrade_ok:
  assumes "upgrades_ok s" "startManualUpgrade_tx env up req s = Inr (t, s')"
  shows "upgrades_ok s'"
proof (cases "mget (st_UpgradeTasks s) (mu_ID req)")
  case None
  then have s': "s' = put_task (mu_ID req) (manual_task env up req) s" and free: "\<not> nodeHasActiveUpgrade s (up_NodeID up)"
    using assms(2) by (auto simp: startManualUpgrade_tx_def Let_def split: option.splits if_splits)
  show ?thesis
    unfolding s'
    using assms(1) None free mget_val_in [of "st_UpgradeTasks s"]
    by (intro upgrades_ok_put_task rollout_add_task)
      (fastforce simp: upgrades_ok_def manual_task_def zero_UpgradeTask_def nodeHasActiveUpgrade_def list_ex_iff)+
qed (use assms in \<open>auto simp: startManualUpgrade_tx_def split: if_splits\<close>)

lemma stored_task: "upgrades_ok s \<Longrightarrow> t \<in> set (mvals (st_UpgradeTasks s)) \<Longrightarrow> mget (st_UpgradeTasks s) (ut_ID t) = Some t"
  using mvals_mget [of "st_UpgradeTasks s" t] upgrades_okD(1) [of s] by (auto simp: upgrades_ok_def)

text \<open>How an offer ends: with no task, with one that is in flight already, with one that is claimed, or with one that has expired.\<close>

lemma offer_task_cases:
  assumes "offer_task env up tasks s = Inr (r, s')" "set tasks \<subseteq> A"
  obtains (none) "r = None" "s' = s"
  | (resumed) t where "t \<in> A" "r = Some t" "s' = s" "ut_NodeID t = up_NodeID up" "in_flight (ut_Stage t)"
  | (expired) t b where "t \<in> A" "r = None" "ut_Stage t = ''pending''" "b = batch_at s (ut_BatchID t)"
      "s' = put_batch (ub_ID b) (b\<lparr>ub_Stage := ''paused'', ub_Error := ''task expired before claim''\<rparr>)
         (put_task (ut_ID t) (t\<lparr>ut_Stage := ''expired''\<rparr>) s)"
  | (claimed) t t' where "t \<in> A" "r = Some t'" "ut_NodeID t = up_NodeID up" "ut_Stage t = ''pending''"
      "ub_Stage (batch_at s (ut_BatchID t)) = ''running''" "prior_done s (batch_at s (ut_BatchID t)) (ut_ID t)"
      "e_now env < ut_ExpiresAt t" "ut_Mode t = up_Mode up" "ut_Arch t = up_Arch up"
      "t' = t\<lparr>ut_Stage := ''running'', ut_Attempt := ut_Attempt t + 1, ut_UpdatedAt := e_now env\<rparr>"
      "s' = put_task (ut_ID t) t' s"
  using assms
proof (induction tasks arbitrary: thesis)
  case (Cons t tasks)
  show ?case
  proof (cases "ut_NodeID t \<noteq> up_NodeID up \<or> ut_Manual t \<or> \<not> offered_stage (ut_Stage t) \<or>
      ut_Mode t = up_Mode up \<and> ut_Arch t = up_Arch up \<and> ut_Stage t = ''pending'' \<and> ub_Stage (batch_at s (ut_BatchID t)) \<noteq> ''running''")
    case True
    then have rest: "offer_task env up tasks s = Inr (r, s')" "set tasks \<subseteq> A"
      using Cons.prems(5,6) by (auto simp: Let_def split: if_splits)
    show ?thesis
      by (rule Cons.IH) (fact Cons.prems rest)+
  next
    case False
    have t: "t \<in> A" "ut_NodeID t = up_NodeID up" "offered_stage (ut_Stage t)" "ut_Mode t = up_Mode up" "ut_Arch t = up_Arch up"
      using Cons.prems(5,6) False by (auto split: if_splits)
    consider "ut_Stage t \<noteq> ''pending''"
      | "ut_Stage t = ''pending''" "\<not> prior_done s (batch_at s (ut_BatchID t)) (ut_ID t)"
      | "ut_Stage t = ''pending''" "prior_done s (batch_at s (ut_BatchID t)) (ut_ID t)" "\<not> e_now env < ut_ExpiresAt t"
      | "ut_Stage t = ''pending''" "prior_done s (batch_at s (ut_BatchID t)) (ut_ID t)" "e_now env < ut_ExpiresAt t"
      by blast
    then show ?thesis
    proof cases
      case 1
      then show ?thesis
        using Cons.prems(5) False t by (intro Cons.prems(2) [of t]) (simp_all add: in_flight_def)
    next
      case 2
      then show ?thesis
        using Cons.prems(5) False t by (intro Cons.prems(1)) (simp_all add: Let_def)
    next
      case 3
      then show ?thesis
        using Cons.prems(5) False t by (intro Cons.prems(3) [of t]) (auto simp: Let_def)
    next
      case 4
      then show ?thesis
        using Cons.prems(5) False t by (intro Cons.prems(4) [of t]) (auto simp: Let_def)
    qed
  qed
next
  case Nil
  show ?case by (rule Nil.prems(1)) (use Nil.prems(5) in simp_all)
qed

lemma offer_task_ok:
  assumes "upgrades_ok s" "offer_task env up (mvals (st_UpgradeTasks s)) s = Inr (r, s')"
  shows "upgrades_ok s'"
  using assms(2) subset_refl [of "set (mvals (st_UpgradeTasks s))"]
proof (cases rule: offer_task_cases)
  case (expired t b)
  let ?s1 = "put_task (ut_ID t) (t\<lparr>ut_Stage := ''expired''\<rparr>) s" and ?b = "b\<lparr>ub_Stage := ''paused'', ub_Error := ''task expired before claim''\<rparr>"
  have "upgrades_ok ?s1"
    using expired(3) by (intro put_task_ok [OF assms(1) stored_task [OF assms(1) expired(1)]]) (simp_all add: stage_defs)
  moreover have "batch_like ?s1 ?b"
    using batch_at_like [OF assms(1)] by (simp only: expired(4) batch_like_fields)
  ultimately show ?thesis
    using put_batch_ok [of ?s1 ?b] expired(5) by simp
next
  case (claimed t t')
  show ?thesis
    unfolding claimed(11) using claimed(4,6,10) upgrades_okD(2) [OF assms(1) stored_task [OF assms(1) claimed(1)]]
    by (intro put_task_ok [OF assms(1) stored_task [OF assms(1) claimed(1)]]) (simp_all add: stage_defs)
qed (use assms(1) in simp_all)

lemma updaterTask_ok:
  "upgrades_ok s \<Longrightarrow> updaterTask_tx env up s = Inr (r, s') \<Longrightarrow> upgrades_ok s'"
  by (auto simp: updaterTask_tx_def Let_def split: if_splits intro: offer_task_ok reconcile_ok)

lemma updaterReport_ok:
  assumes "upgrades_ok s" "reported_stage (ur_Stage req)" "updaterReport_tx env up i req s = Inr ((), s')"
  shows "upgrades_ok s'"
proof (cases "s' = s")
  case False
  then obtain task where t: "mget (st_UpgradeTasks s) i = Some task" and flight: "in_flight (ut_Stage task)"
    using assms(3) by (auto simp: updaterReport_tx_def in_flight_def split: option.splits if_splits)
  let ?t = "task\<lparr>ut_Stage := ur_Stage req, ut_Error := ur_Error req, ut_UpdatedAt := e_now env\<rparr>"
  let ?s1 = "put_task i ?t s" and ?b = "batch_at s (ut_BatchID task)"
  have ID: "ut_ID task = i"
    by (rule upgrades_okD(1) [OF assms(1) t])
  have "activeUpgrade (ut_Stage task)" "ut_Stage task \<noteq> ''succeeded''" "0 < ut_Attempt task"
    using flight upgrades_okD(3) [OF assms(1) t flight] by (auto simp: stage_defs)
  then have s1: "upgrades_ok ?s1"
    by (intro put_task_ok [OF assms(1) t]) simp_all
  have like: "batch_like ?s1 ?b"
    using batch_at_like [OF assms(1)] by (simp only: batch_like_fields)
  have "upgrades_ok (put_batch (ub_ID ?b) b' ?s1)" if "ub_ID b' = ub_ID ?b" "ub_TaskIDs b' = ub_TaskIDs ?b" for b'
    using put_batch_ok [OF s1, of b'] like that by (simp add: batch_like_def)
  note put = this
  consider "s' = ?s1"
    | b' where "s' = put_batch (ub_ID ?b) b' ?s1" "ub_ID b' = ub_ID ?b" "ub_TaskIDs b' = ub_TaskIDs ?b"
    | b' where "s' = reconcileUpgradeRecovery env (e_now env) (put_batch (ub_ID ?b) b' ?s1)"
        "ub_ID b' = ub_ID ?b" "ub_TaskIDs b' = ub_TaskIDs ?b"
  proof (cases "ut_BatchID task = [] \<or> ur_Stage req \<notin> {''rolled_back'', ''failed'', ''manual_intervention'', ''succeeded''} \<or>
      ur_Stage req = ''succeeded'' \<and> ub_Stage ?b \<noteq> ''running''")
    case True
    then have "s' = ?s1"
      using assms(3) t flight False by (auto simp: updaterReport_tx_def ID Let_def split: if_splits)
    then show ?thesis
      by (rule that(1))
  next
    case paused: False
    show ?thesis
    proof (cases "ur_Stage req = ''succeeded''")
      case True
      with paused show ?thesis
        using assms(3) t flight False
        by (intro that(3) [of "?b\<lparr>ub_Stage := ''recovering'', ub_RecoveryTaskID := i,
              ub_RecoveryDeadline := e_now env + upgradeLinkRecoveryTimeout\<rparr>"])
          (auto simp: updaterReport_tx_def ID Let_def split: if_splits)
    next
      case nsucc: False
      with paused show ?thesis
        using assms(3) t flight False
        by (intro that(2) [of "?b\<lparr>ub_Stage := ''paused'', ub_Error := ur_Stage req @ '': '' @ ur_Error req,
              ub_RecoveryTaskID := [], ub_RecoveryDeadline := 0\<rparr>"])
          (auto simp: updaterReport_tx_def ID Let_def split: if_splits)
    qed
  qed
  then show ?thesis
    by cases (simp_all only: s1 put reconcile_ok)
qed (use assms(1) in simp)

subsection \<open>New batches\<close>

lemma draft_tasks_fields:
  "draft_tasks env version batchID k seen ids = Inr drafts \<Longrightarrow>
     map ut_NodeID drafts = ids \<and> distinct ids \<and> set ids \<inter> set seen = {} \<and>
     (\<forall>d \<in> set drafts. ut_BatchID d = batchID \<and> ut_Stage d = ''preparing'' \<and> ut_Attempt d = 0)"
proof (induction env version batchID k seen ids arbitrary: drafts rule: draft_tasks.induct)
  case (2 env version batchID k seen i ids)
  then obtain taskID ds where "i \<notin> set seen" "draft_tasks env version batchID (Suc k) (i # seen) ids = Inr ds"
    "drafts = draft_task env version batchID taskID i # ds" "e_rand env k = Inr taskID"
    by (auto split: if_splits sum.splits)
  with 2(1) [of taskID ds] show ?case
    by (auto simp: draft_task_def zero_UpgradeTask_def)
qed simp

definition completed_from :: "UpgradeTask \<Rightarrow> UpgradeTask \<Rightarrow> bool" where
  "completed_from t' t \<longleftrightarrow> ut_ID t' = ut_ID t \<and> ut_NodeID t' = ut_NodeID t \<and> ut_BatchID t' = ut_BatchID t \<and>
     ut_Stage t' = ut_Stage t \<and> ut_Attempt t' = ut_Attempt t"

lemma complete_tasks_fields:
  "complete_tasks env version s drafts = Inr tasks \<Longrightarrow>
     list_all2 completed_from tasks drafts \<and> (\<forall>t \<in> set tasks. \<not> nodeHasActiveUpgrade s (ut_NodeID t))"
proof (induction drafts arbitrary: tasks)
  case (Cons d drafts)
  then obtain t ts where ts: "tasks = t # ts" "complete_task env version s d = Inr t" "complete_tasks env version s drafts = Inr ts"
    by (auto split: sum.splits)
  then have "completed_from t d \<and> \<not> nodeHasActiveUpgrade s (ut_NodeID t)"
    by (auto simp: complete_task_def completed_from_def Let_def split: option.splits if_splits)
  with Cons.IH ts show ?case by simp
qed simp

text \<open>Storing tasks under new IDs, on distinct nodes that have no active upgrade.\<close>

lemma fold_put_tasks:
  assumes "upgrades_ok s" "distinct (map ut_ID tasks)" "distinct (map ut_NodeID tasks)"
    "\<And>t. t \<in> set tasks \<Longrightarrow> mget (st_UpgradeTasks s) (ut_ID t) = None \<and> ut_Attempt t = 0 \<and> \<not> in_flight (ut_Stage t)"
    "\<And>t j u. t \<in> set tasks \<Longrightarrow> mget (st_UpgradeTasks s) j = Some u \<Longrightarrow> activeUpgrade (ut_Stage u) \<Longrightarrow> ut_NodeID u \<noteq> ut_NodeID t"
  shows "upgrades_ok (fold (\<lambda>t. put_task (ut_ID t) t) tasks s) \<and>
    st_UpgradeBatches (fold (\<lambda>t. put_task (ut_ID t) t) tasks s) = st_UpgradeBatches s \<and>
    (\<forall>k. mget (st_UpgradeTasks (fold (\<lambda>t. put_task (ut_ID t) t) tasks s)) k =
      (case find (\<lambda>t. ut_ID t = k) tasks of Some t \<Rightarrow> Some t | None \<Rightarrow> mget (st_UpgradeTasks s) k))"
  using assms
proof (induction tasks arbitrary: s)
  case (Cons t tasks)
  let ?s1 = "put_task (ut_ID t) t s"
  have t: "mget (st_UpgradeTasks s) (ut_ID t) = None" "ut_Attempt t = 0" "\<not> in_flight (ut_Stage t)"
    using Cons.prems(4) [of t] by auto
  have "upgrades_ok ?s1"
    using Cons.prems(1,5) t by (intro upgrades_ok_put_task rollout_add_task) (auto simp: upgrades_ok_def)
  then have "upgrades_ok (fold (\<lambda>t. put_task (ut_ID t) t) tasks ?s1) \<and>
    st_UpgradeBatches (fold (\<lambda>t. put_task (ut_ID t) t) tasks ?s1) = st_UpgradeBatches ?s1 \<and>
    (\<forall>k. mget (st_UpgradeTasks (fold (\<lambda>t. put_task (ut_ID t) t) tasks ?s1)) k =
      (case find (\<lambda>t. ut_ID t = k) tasks of Some t \<Rightarrow> Some t | None \<Rightarrow> mget (st_UpgradeTasks ?s1) k))"
  proof (rule Cons.IH)
    show "distinct (map ut_ID tasks)" "distinct (map ut_NodeID tasks)"
      using Cons.prems(2,3) by simp_all
    show "mget (st_UpgradeTasks ?s1) (ut_ID u) = None \<and> ut_Attempt u = 0 \<and> \<not> in_flight (ut_Stage u)" if "u \<in> set tasks" for u
    proof -
      have "ut_ID u \<noteq> ut_ID t"
        using Cons.prems(2) that by (metis distinct.simps(2) image_eqI list.set_map list.simps(9))
      then show ?thesis
        using Cons.prems(4) [of u] that by simp
    qed
    show "ut_NodeID v \<noteq> ut_NodeID u" if "u \<in> set tasks" "mget (st_UpgradeTasks ?s1) j = Some v" "activeUpgrade (ut_Stage v)" for u j v
      using Cons.prems(3) Cons.prems(5) [of u j v] that by (auto split: if_splits)
  qed
  moreover have "find (\<lambda>u. ut_ID u = ut_ID t) tasks = None"
    using Cons.prems(2) by (simp add: find_None_iff) (metis image_eqI)
  ultimately show ?case
    by (auto split: option.splits)
qed simp

lemma createUpgrade_ok:
  assumes "upgrades_ok s" "draft_tasks env version batchID k [] ids = Inr drafts"
    and fresh: "distinct (map ut_ID drafts)" "\<And>d. d \<in> set drafts \<Longrightarrow> mget (st_UpgradeTasks s) (ut_ID d) = None"
    and "createUpgrade_tx env version batchID drafts s = Inr ((), s')"
  shows "upgrades_ok s'"
proof -
  obtain tasks where c: "complete_tasks env version s drafts = Inr tasks"
    using assms(5) by (auto simp: createUpgrade_tx_def split: sum.splits)
  let ?s1 = "fold (\<lambda>t. put_task (ut_ID t) t) tasks s"
  let ?b = "zero_UpgradeBatch\<lparr>ub_ID := batchID, ub_Stage := ''preparing'', ub_CreatedAt := e_now env, ub_TaskIDs := map ut_ID tasks\<rparr>"
  have s': "s' = put_batch batchID ?b ?s1"
    using assms(5) by (simp add: createUpgrade_tx_def c)
  note d = draft_tasks_fields [OF assms(2)] and f = complete_tasks_fields [OF c]
  have maps: "map ut_ID tasks = map ut_ID drafts" "map ut_NodeID tasks = map ut_NodeID drafts"
    using f by (auto simp: list_all2_conv_all_nth completed_from_def intro!: nth_equalityI)
  have task: "mget (st_UpgradeTasks s) (ut_ID t) = None \<and> ut_Attempt t = 0 \<and> ut_Stage t = ''preparing'' \<and> ut_BatchID t = batchID"
    if t: "t \<in> set tasks" for t
  proof -
    obtain e where "e \<in> set drafts" "completed_from t e"
      using f t unfolding list_all2_conv_all_nth in_set_conv_nth by metis
    then show ?thesis
      using d fresh(2) by (auto simp: completed_from_def)
  qed
  have s1: "upgrades_ok ?s1 \<and> st_UpgradeBatches ?s1 = st_UpgradeBatches s \<and>
    (\<forall>k. mget (st_UpgradeTasks ?s1) k = (case find (\<lambda>t. ut_ID t = k) tasks of Some t \<Rightarrow> Some t | None \<Rightarrow> mget (st_UpgradeTasks s) k))"
  proof (rule fold_put_tasks [OF assms(1)])
    show "distinct (map ut_ID tasks)" "distinct (map ut_NodeID tasks)"
      using fresh(1) d maps by simp_all
    show "mget (st_UpgradeTasks s) (ut_ID t) = None \<and> ut_Attempt t = 0 \<and> \<not> in_flight (ut_Stage t)" if "t \<in> set tasks" for t
      using task [OF that] by (simp add: stage_defs)
    show "ut_NodeID u \<noteq> ut_NodeID t"
      if "t \<in> set tasks" "mget (st_UpgradeTasks s) j = Some u" "activeUpgrade (ut_Stage u)" for t j u
      using f that mget_val_in [OF that(2)] by (auto simp: nodeHasActiveUpgrade_def list_ex_iff)
  qed
  have "rollout_ok (mget (st_UpgradeTasks ?s1)) ((mget (st_UpgradeBatches ?s1))(batchID := Some ?b))"
  proof (rule rollout_add_batch)
    show "\<exists>t. mget (st_UpgradeTasks ?s1) j = Some t \<and> ut_BatchID t = batchID \<and> ut_Attempt t = 0" if "j \<in> set (ub_TaskIDs ?b)" for j
    proof (cases "find (\<lambda>t. ut_ID t = j) tasks")
      case None
      with that show ?thesis by (auto simp: find_None_iff)
    next
      case (Some t)
      then have "t \<in> set tasks"
        by (auto simp: find_Some_iff)
      with Some show ?thesis
        using s1 task by simp
    qed
  qed (use s1 fresh(1) maps in \<open>auto simp: upgrades_ok_def\<close>)
  then show ?thesis
    unfolding s' using s1 by (intro upgrades_ok_put_batch) simp_all
qed

subsection \<open>Every reachable state\<close>

text \<open>One step of the upgrade tables: a handler, with any environment, or any change elsewhere in the state. A
  new batch draws task IDs that no task has.\<close>

inductive upgrade_step :: "State \<Rightarrow> State \<Rightarrow> bool" where
  create: "draft_tasks env version batchID k [] ids = Inr drafts \<Longrightarrow> distinct (map ut_ID drafts) \<Longrightarrow>
     list_all (\<lambda>d. mget (st_UpgradeTasks s) (ut_ID d) = None) drafts \<Longrightarrow>
     createUpgrade_tx env version batchID drafts s = Inr ((), s') \<Longrightarrow> upgrade_step s s'"
| prepare: "prepareUpgradeBatch_tx env prepared i s = Inr ((), s') \<Longrightarrow> upgrade_step s s'"
| cancel: "cancelUpgrade_tx env i s = Inr ((), s') \<Longrightarrow> upgrade_step s s'"
| resume: "resumeUpgrade_tx env i s = Inr ((), s') \<Longrightarrow> upgrade_step s s'"
| manual: "startManualUpgrade_tx env up req s = Inr (task, s') \<Longrightarrow> upgrade_step s s'"
| offer: "updaterTask_tx env up s = Inr (task, s') \<Longrightarrow> upgrade_step s s'"
| report: "reported_stage (ur_Stage req) \<Longrightarrow> updaterReport_tx env up i req s = Inr ((), s') \<Longrightarrow> upgrade_step s s'"
| heartbeat: "updaterHeartbeat_tx env nodeID req s = Inr ((), s') \<Longrightarrow> upgrade_step s s'"
| reconcile: "upgrade_step s (reconcileUpgradeRecovery env now s)"
| elsewhere: "st_UpgradeTasks s' = st_UpgradeTasks s \<Longrightarrow> st_UpgradeBatches s' = st_UpgradeBatches s \<Longrightarrow> upgrade_step s s'"

lemma upgrade_step_ok: "upgrade_step s s' \<Longrightarrow> upgrades_ok s \<Longrightarrow> upgrades_ok s'"
proof (induction rule: upgrade_step.induct)
  case (create env version batchID k ids drafts s s')
  then show ?case
    by (intro createUpgrade_ok [of s env version batchID k ids drafts s']) (auto simp: list_all_iff)
next
  case (heartbeat env nodeID req s s')
  let ?s1 = "put_updater nodeID ((updater_at s nodeID)\<lparr>up_Mode := hb_Mode req, up_Arch := hb_Arch req, up_Version := hb_Version req,
          up_Protocol := hb_Protocol req, up_LastSeen := e_now env\<rparr>) s"
  have "upgrades_ok ?s1"
    using heartbeat(2) by (simp add: upgrades_ok_def)
  then show ?case
    using heartbeat(1) reconcile_ok by (auto simp: updaterHeartbeat_tx_def)
next
  case (elsewhere s' s)
  then show ?case using upgrades_ok_view by blast
qed (auto intro: prepareUpgradeBatch_ok cancelUpgrade_ok resumeUpgrade_ok startManualUpgrade_ok updaterTask_ok updaterReport_ok reconcile_ok)

lemma upgrade_reachable_ok: "upgrade_step\<^sup>*\<^sup>* NewState s \<Longrightarrow> upgrades_ok s"
proof (induction rule: rtranclp_induct)
  case base
  show ?case by (simp add: upgrades_ok_def rollout_ok_def NewState_def zero_State_def)
next
  case (step s s')
  then show ?case using upgrade_step_ok by blast
qed

text \<open>C20. Upgrades are exclusive and rolled out in order. Whatever sequence of requests the Controller serves, no
  node ever has two active upgrade tasks, and a task of a batch has been claimed (its attempt counter is positive)
  only if every task before it in the batch has succeeded.\<close>

theorem upgrade_rollout_safe:
  assumes "upgrade_step\<^sup>*\<^sup>* NewState s"
  shows "(\<forall>i j t u. mget (st_UpgradeTasks s) i = Some t \<and> mget (st_UpgradeTasks s) j = Some u \<and>
       activeUpgrade (ut_Stage t) \<and> activeUpgrade (ut_Stage u) \<and> ut_NodeID t = ut_NodeID u \<longrightarrow> i = j) \<and>
     (\<forall>i b m n. mget (st_UpgradeBatches s) i = Some b \<and> m < n \<and> n < length (ub_TaskIDs b) \<and>
       0 < ut_Attempt (task_at s (ub_TaskIDs b ! n)) \<longrightarrow> ut_Stage (task_at s (ub_TaskIDs b ! m)) = ''succeeded'')"
proof (intro conjI allI impI; elim conjE)
  note ok = upgrade_reachable_ok [OF assms]
  note D = upgrades_okD [OF ok]
  show "i = j" if "mget (st_UpgradeTasks s) i = Some t" "mget (st_UpgradeTasks s) j = Some u" "activeUpgrade (ut_Stage t)"
    "activeUpgrade (ut_Stage u)" "ut_NodeID t = ut_NodeID u" for i j t u
    by (rule D(7) [OF that])
  show "ut_Stage (task_at s (ub_TaskIDs b ! m)) = ''succeeded''"
    if b: "mget (st_UpgradeBatches s) i = Some b" and mn: "m < n" "n < length (ub_TaskIDs b)"
      and a: "0 < ut_Attempt (task_at s (ub_TaskIDs b ! n))" for i b m n
  proof -
    obtain t u where t: "mget (st_UpgradeTasks s) (ub_TaskIDs b ! n) = Some t" and u: "mget (st_UpgradeTasks s) (ub_TaskIDs b ! m) = Some u"
      using D(6) [OF b] mn by (meson nth_mem order.strict_trans)
    have "ub_TaskIDs b ! m \<in> set (take n (ub_TaskIDs b))"
      using mn by (auto simp: in_set_conv_nth intro!: exI [of _ m])
    then show ?thesis
      using D(8) [OF b id_take_nth_drop [OF mn(2)] t _ _ u] a t u by (simp add: zget_def)
  qed
qed

text \<open>From which batches the reconciliation makes a running one.\<close>

definition resumes :: "Env \<Rightarrow> gotime \<Rightarrow> State \<Rightarrow> UpgradeBatch \<Rightarrow> bool" where
  "resumes env now s b \<longleftrightarrow> ub_Stage b = ''running'' \<or>
     ub_Stage b = ''recovering'' \<and>
     (\<exists>done. mget (st_UpgradeTasks s) (ub_RecoveryTaskID b) = Some done \<and> ut_Stage done = ''succeeded'' \<and>
        upgradeRecoveryProblem env s done now = [])"

lemma problem_batches [simp]:
  "attachmentUsesNode (s\<lparr>st_UpgradeBatches := x\<rparr>) = attachmentUsesNode s"
  "endpoint_problem env (s\<lparr>st_UpgradeBatches := x\<rparr>) = endpoint_problem env s"
  by (simp_all add: attachmentUsesNode_def endpoint_problem_def fun_eq_iff)

lemma link_problem_batches [simp]: "link_recovery_problem env (s\<lparr>st_UpgradeBatches := x\<rparr>) = link_recovery_problem env s"
  by (simp add: link_recovery_problem_def fun_eq_iff Let_def split: option.split)

lemma recovery_problem_batches [simp]: "upgradeRecoveryProblem env (s\<lparr>st_UpgradeBatches := x\<rparr>) = upgradeRecoveryProblem env s"
  by (simp add: upgradeRecoveryProblem_def fun_eq_iff)

lemma reconcile_batch_running:
  "\<exists>y. reconcile_batch env now b (s\<lparr>st_UpgradeBatches := x\<rparr>) = s\<lparr>st_UpgradeBatches := y\<rparr> \<and>
    (\<forall>i b1. mget y i = Some b1 \<and> ub_Stage b1 = ''running'' \<longrightarrow> mget x i = Some b1 \<or> i = ub_ID b \<and> resumes env now s b)"
proof (cases "ub_Stage b = ''recovering''")
  case rec: True
  let ?T = "mget (st_UpgradeTasks s) (ub_RecoveryTaskID b)"
  show ?thesis
  proof (cases "\<exists>task. ?T = Some task \<and> ut_BatchID task = ub_ID b \<and> ut_Stage task = ''succeeded'' \<and> upgradeRecoveryProblem env s task now = []")
    case True
    then have "resumes env now s b"
      using rec by (auto simp: resumes_def)
    moreover obtain b' where "reconcile_batch env now b (s\<lparr>st_UpgradeBatches := x\<rparr>) = s\<lparr>st_UpgradeBatches := mput (ub_ID b) b' x\<rparr>"
      using True rec by (auto simp: reconcile_batch_def finishUpgradeRecovery_def Let_def)
    ultimately show ?thesis
      by (intro exI [of _ "mput (ub_ID b) b' x"]) simp
  next
    case False
    then obtain b' where "reconcile_batch env now b (s\<lparr>st_UpgradeBatches := x\<rparr>) = s\<lparr>st_UpgradeBatches := mput (ub_ID b) b' x\<rparr>"
      "ub_Stage b' \<noteq> ''running''"
    proof (cases ?T)
      case None
      then show ?thesis
        by (intro that [of "b\<lparr>ub_Stage := ''paused'', ub_Error := ''upgrade recovery task is unavailable''\<rparr>"])
          (simp_all add: reconcile_batch_def rec)
    next
      case (Some task)
      let ?p = "upgradeRecoveryProblem env s task now"
      show ?thesis
      proof (cases "ut_BatchID task \<noteq> ub_ID b \<or> ut_Stage task \<noteq> ''succeeded''")
        case True
        with Some show ?thesis
          by (intro that [of "b\<lparr>ub_Stage := ''paused'', ub_Error := ''upgrade recovery task is unavailable''\<rparr>"])
            (simp_all add: reconcile_batch_def rec)
      next
        case n: False
        then have "?p \<noteq> []"
          using False Some by auto
        with n Some show ?thesis
          by (intro that [of "if now < ub_RecoveryDeadline b then b\<lparr>ub_Error := ''waiting for Link recovery: '' @ ?p\<rparr>
                else b\<lparr>ub_Error := ?p, ub_Stage := ''paused''\<rparr>"])
            (simp_all add: reconcile_batch_def rec Let_def)
      qed
    qed
    then show ?thesis
      by (intro exI [of _ "mput (ub_ID b) b' x"]) simp
  qed
qed (auto simp: reconcile_batch_def intro!: exI [of _ x])

lemma reconcile_running:
  assumes "upgrades_ok s" "mget (st_UpgradeBatches (reconcileUpgradeRecovery env now s)) i = Some b1" "ub_Stage b1 = ''running''"
  shows "\<exists>b. mget (st_UpgradeBatches s) i = Some b \<and> resumes env now s b"
proof -
  have "\<exists>y. fold (reconcile_batch env now) bs (s\<lparr>st_UpgradeBatches := x\<rparr>) = s\<lparr>st_UpgradeBatches := y\<rparr> \<and>
    (\<forall>i b1. mget y i = Some b1 \<and> ub_Stage b1 = ''running'' \<longrightarrow> (\<exists>b. mget (st_UpgradeBatches s) i = Some b \<and> resumes env now s b))"
    if "\<And>b. b \<in> set bs \<Longrightarrow> mget (st_UpgradeBatches s) (ub_ID b) = Some b"
      "\<forall>i b1. mget x i = Some b1 \<and> ub_Stage b1 = ''running'' \<longrightarrow> (\<exists>b. mget (st_UpgradeBatches s) i = Some b \<and> resumes env now s b)" for bs x
    using that
  proof (induction bs arbitrary: x)
    case (Cons b bs)
    obtain y where y: "reconcile_batch env now b (s\<lparr>st_UpgradeBatches := x\<rparr>) = s\<lparr>st_UpgradeBatches := y\<rparr>"
      "\<forall>i b1. mget y i = Some b1 \<and> ub_Stage b1 = ''running'' \<longrightarrow> mget x i = Some b1 \<or> i = ub_ID b \<and> resumes env now s b"
      using reconcile_batch_running [of env now b x s] by blast
    have "mget (st_UpgradeBatches s) (ub_ID b) = Some b"
      by (rule Cons.prems(1)) simp
    with y(2) Cons.prems(2)
    have "\<forall>i b1. mget y i = Some b1 \<and> ub_Stage b1 = ''running'' \<longrightarrow> (\<exists>b. mget (st_UpgradeBatches s) i = Some b \<and> resumes env now s b)"
      by blast
    then show ?case
      using Cons.IH Cons.prems(1) y(1) by simp
  next
    case Nil
    then show ?case by (intro exI [of _ x]) simp
  qed
  note run = this
  have "mget (st_UpgradeBatches s) (ub_ID b) = Some b" if "b \<in> set (mvals (st_UpgradeBatches s))" for b
    using mvals_mget [OF _ that] assms(1) upgrades_okD(4) [OF assms(1)] by (auto simp: upgrades_ok_def)
  moreover have "\<forall>i b1. mget (st_UpgradeBatches s) i = Some b1 \<and> ub_Stage b1 = ''running'' \<longrightarrow>
      (\<exists>b. mget (st_UpgradeBatches s) i = Some b \<and> resumes env now s b)"
    by (auto simp: resumes_def)
  ultimately obtain y where "reconcileUpgradeRecovery env now s = s\<lparr>st_UpgradeBatches := y\<rparr>"
    "\<forall>i b1. mget y i = Some b1 \<and> ub_Stage b1 = ''running'' \<longrightarrow> (\<exists>b. mget (st_UpgradeBatches s) i = Some b \<and> resumes env now s b)"
    using run [of "mvals (st_UpgradeBatches s)" "st_UpgradeBatches s"] by (auto simp: reconcileUpgradeRecovery_def)
  with assms(2,3) show ?thesis
    by simp
qed


subsection \<open>A run\<close>

text \<open>Two gateways upgraded in one batch: the first is claimed while the second waits.\<close>

definition demo_node :: "string \<Rightarrow> State \<Rightarrow> State" where
  "demo_node i s =
     s\<lparr>st_Gateways := mput i (zero_Gateway\<lparr>gw_ID := i, gw_Enabled := True\<rparr>) (st_Gateways s),
       st_NodeStatus := mput i (zero_NodeStatus\<lparr>ns_NodeID := i, ns_Role := RoleGateway, ns_BinaryVersion := ''v1.0.0'',
          ns_LastSeen := 999 * second\<rparr>) (st_NodeStatus s),
       st_Updaters := mput i (zero_Updater\<lparr>up_NodeID := i, up_Role := RoleGateway, up_CredentialHash := ''h'',
          up_Protocol := updaterProtocol, up_LastSeen := 999 * second\<rparr>) (st_Updaters s)\<rparr>"

definition demo_fleet :: State where
  "demo_fleet = demo_node ''gw_2'' (demo_node ''gw_1'' NewState)"

definition demo_drafts :: "UpgradeTask list" where
  "demo_drafts = projr (draft_tasks demo_ctx ''v1.1.0'' ''b'' 1 [] [''gw_1'', ''gw_2''])"

definition demo_created :: State where
  "demo_created = snd (projr (createUpgrade_tx demo_ctx ''v1.1.0'' ''b'' demo_drafts demo_fleet))"

definition demo_prepared :: State where
  "demo_prepared = snd (projr (prepareUpgradeBatch_tx demo_ctx (Inr []) ''b'' demo_created))"

definition demo_claimed :: State where
  "demo_claimed = snd (projr (updaterTask_tx demo_ctx (updater_at demo_prepared ''gw_1'') demo_prepared))"

lemma demo_run:
  "\<not> isl (draft_tasks demo_ctx ''v1.1.0'' ''b'' 1 [] [''gw_1'', ''gw_2''])"
  "distinct (map ut_ID demo_drafts) \<and> list_all (\<lambda>d. mget (st_UpgradeTasks demo_fleet) (ut_ID d) = None) demo_drafts"
  "\<not> isl (createUpgrade_tx demo_ctx ''v1.1.0'' ''b'' demo_drafts demo_fleet)"
  "\<not> isl (prepareUpgradeBatch_tx demo_ctx (Inr []) ''b'' demo_created)"
  "\<not> isl (updaterTask_tx demo_ctx (updater_at demo_prepared ''gw_1'') demo_prepared)"
  "map ut_Stage (mvals (st_UpgradeTasks demo_claimed)) = [''running'', ''pending'']"
  by code_simp+

lemma Inr_pair: "\<not> isl y \<Longrightarrow> y = Inr (fst (projr y), snd (projr y))"
  by (cases y) simp_all

lemma Inr_unit: "\<not> isl x \<Longrightarrow> x = Inr ((), snd (projr x))"
  using Inr_pair [of x] by simp

lemma demo_reachable: "upgrade_step\<^sup>*\<^sup>* NewState demo_prepared" "upgrade_step\<^sup>*\<^sup>* NewState demo_claimed"
proof -
  have "upgrade_step NewState demo_fleet"
    by (rule elsewhere) (simp_all add: demo_fleet_def demo_node_def)
  moreover have "upgrade_step demo_fleet demo_created"
    using demo_run(1-3) Inr_unit [OF demo_run(3)]
    by (intro create [of demo_ctx "''v1.1.0''" "''b''" 1 "[''gw_1'', ''gw_2'']" demo_drafts])
      (auto simp: demo_drafts_def demo_created_def)
  moreover have "upgrade_step demo_created demo_prepared"
    using Inr_unit [OF demo_run(4)] by (intro prepare [of demo_ctx "Inr []" "''b''"]) (simp add: demo_prepared_def)
  ultimately show r: "upgrade_step\<^sup>*\<^sup>* NewState demo_prepared"
    by simp
  have "upgrade_step demo_prepared demo_claimed"
    unfolding demo_claimed_def by (rule offer, rule Inr_pair [OF demo_run(5)])
  with r show "upgrade_step\<^sup>*\<^sup>* NewState demo_claimed"
    by simp
qed

theorem upgrade_rollout_safe_witness:
  "upgrade_step\<^sup>*\<^sup>* NewState demo_claimed \<and> ut_Stage (task_at demo_claimed ''1'') = ''running'' \<and>
   \<not> 0 < ut_Attempt (task_at demo_claimed ''2'')"
proof -
  have "map_option ub_TaskIDs (mget (st_UpgradeBatches demo_claimed) ''b'') = Some [''1'', ''2''] \<and>
    ut_Stage (task_at demo_claimed ''1'') = ''running''"
    by code_simp
  then obtain b where b: "mget (st_UpgradeBatches demo_claimed) ''b'' = Some b" "ub_TaskIDs b = [''1'', ''2'']"
    and running: "ut_Stage (task_at demo_claimed ''1'') = ''running''"
    by (auto simp: map_option_eq_Some)
  have "\<not> 0 < ut_Attempt (task_at demo_claimed (ub_TaskIDs b ! 1))"
    using upgrade_rollout_safe [OF demo_reachable(2), THEN conjunct2, rule_format, of "''b''" b 0 1] b running by auto
  with demo_reachable(2) running b(2) show ?thesis
    by simp
qed


end
