(* ===== verification/Integrity.thy ===== *)
theory Integrity
  imports Removal
begin

text \<open>
  How the primitive changes of a transaction act on the invariants of the control plane. A
  transaction may break publication for some grants and repair it by withdrawing them:
  \<open>t_ok P\<close> is the invariant of the abstract view with the grants in \<open>P\<close> exempt from publication
  safety, and \<open>sound P\<close> the same of a state. Each lemma says which exemption a change needs; the
  handlers' proofs chain them.
\<close>

definition t_ok :: "(tGrant \<Rightarrow> bool) \<Rightarrow> Topo \<Rightarrow> bool" where
  "t_ok P T \<longleftrightarrow> t_keyed T \<and> t_refs T \<and> t_published P T"

definition sound :: "(tGrant \<Rightarrow> bool) \<Rightarrow> State \<Rightarrow> bool" where
  "sound P s \<longleftrightarrow> maps_ok s \<and> status_ok s \<and> t_ok P (topo s)"

abbreviation nobody :: "tGrant \<Rightarrow> bool" where
  "nobody \<equiv> (\<lambda>_. False)"

lemma topo_ok_sound: "topo_ok s \<longleftrightarrow> sound nobody s"
  by (simp add: topo_ok_def sound_def t_ok_def)

lemma t_ok_mono: "t_ok P T \<Longrightarrow> (\<And>q. P q \<Longrightarrow> Q q) \<Longrightarrow> t_ok Q T"
  unfolding t_ok_def using t_published_mono by blast

lemma sound_mono: "sound P s \<Longrightarrow> (\<And>q. P q \<Longrightarrow> Q q) \<Longrightarrow> sound Q s"
  unfolding sound_def using t_ok_mono by blast

lemma soundI: "sound P s \<Longrightarrow> maps_ok s' \<Longrightarrow> st_NodeStatus s' = st_NodeStatus s \<Longrightarrow> t_ok Q (topo s') \<Longrightarrow> sound Q s'"
  by (simp add: sound_def status_ok_cong [of s' s])

lemma sound_view: "sound P s \<Longrightarrow> maps_ok s' \<Longrightarrow> st_NodeStatus s' = st_NodeStatus s \<Longrightarrow> topo s' = topo s \<Longrightarrow> sound P s'"
  by (simp add: sound_def status_ok_cong [of s' s])

lemma soundD:
  assumes "sound P s"
  shows "maps_ok s" "status_ok s" "t_keyed (topo s)" "t_refs (topo s)" "t_published P (topo s)" "t_ok P (topo s)"
  using assms by (simp_all add: sound_def t_ok_def)

lemmas sound_keyed = topo_keyed [OF soundD(3)]
lemmas sound_refs = topo_refs [OF soundD(4)]

subsection \<open>Liveness of grants under a change of the view\<close>

lemma t_live_mono:
  assumes "t_live T q" "\<And>u. t_user_on T u \<Longrightarrow> u = tq_user q \<Longrightarrow> t_user_on T' u"
    and "\<And>r. t_routes T (tq_route q) = Some r \<Longrightarrow> t_route_on T r \<Longrightarrow>
      \<exists>r'. t_routes T' (tq_route q) = Some r' \<and> t_route_on T' r'"
  shows "t_live T' q"
  using assms by (fastforce simp: t_live_def split: option.splits)

lemma t_route_on_mono:
  assumes "t_route_on T r" "t_gateway_on T (tr_gw r) \<Longrightarrow> t_gateway_on T' (tr_gw r)"
    "tr_up r = [] \<Longrightarrow> t_agent_on T (tr_agent r) \<Longrightarrow> t_agent_on T' (tr_agent r)"
    "tr_up r = [] \<Longrightarrow> t_link_on T (tr_id r) \<Longrightarrow> t_link_on T' (tr_id r)"
    "tr_up r \<noteq> [] \<Longrightarrow> t_external T (tr_gw r) \<Longrightarrow> t_external T' (tr_gw r)"
    "tr_up r \<noteq> [] \<Longrightarrow> t_upstream_on T (tr_up r) \<Longrightarrow> t_upstream_on T' (tr_up r)"
  shows "t_route_on T' r"
  using assms by (auto simp: t_route_on_def)

lemma t_published_step:
  assumes "t_published P T" and "\<And>k q. t_grants T' k = Some q \<Longrightarrow> tq_pub q \<Longrightarrow> t_grants T k = Some q \<or> Q q"
    and "\<And>q. t_live T q \<Longrightarrow> Q q \<or> t_live T' q" and "\<And>q. P q \<Longrightarrow> Q q"
  shows "t_published Q T'"
  unfolding t_published_def
proof (intro allI impI)
  fix k q
  assume "t_grants T' k = Some q" "tq_pub q"
  then consider "t_grants T k = Some q" | "Q q" using assms(2) by blast
  then show "Q q \<or> t_live T' q"
    using assms(1,3,4) \<open>tq_pub q\<close> by cases (auto simp: t_published_def)
qed

lemma t_on_update [simp]:
  "t_user_on (T\<lparr>t_gateways := gs\<rparr>) = t_user_on T" "t_user_on (T\<lparr>t_agents := as\<rparr>) = t_user_on T"
  "t_user_on (T\<lparr>t_routes := rs\<rparr>) = t_user_on T" "t_user_on (T\<lparr>t_links := ls\<rparr>) = t_user_on T"
  "t_user_on (T\<lparr>t_upstreams := us\<rparr>) = t_user_on T" "t_user_on (T\<lparr>t_grants := qs\<rparr>) = t_user_on T"
  "t_user_on (T\<lparr>t_external := xs\<rparr>) = t_user_on T"
  "t_gateway_on (T\<lparr>t_agents := as\<rparr>) = t_gateway_on T" "t_gateway_on (T\<lparr>t_users := vs\<rparr>) = t_gateway_on T"
  "t_gateway_on (T\<lparr>t_routes := rs\<rparr>) = t_gateway_on T" "t_gateway_on (T\<lparr>t_links := ls\<rparr>) = t_gateway_on T"
  "t_gateway_on (T\<lparr>t_upstreams := us\<rparr>) = t_gateway_on T" "t_gateway_on (T\<lparr>t_grants := qs\<rparr>) = t_gateway_on T"
  "t_gateway_on (T\<lparr>t_external := xs\<rparr>) = t_gateway_on T"
  "t_agent_on (T\<lparr>t_users := vs\<rparr>) = t_agent_on T" "t_agent_on (T\<lparr>t_routes := rs\<rparr>) = t_agent_on T"
  "t_agent_on (T\<lparr>t_links := ls\<rparr>) = t_agent_on T" "t_agent_on (T\<lparr>t_upstreams := us\<rparr>) = t_agent_on T"
  "t_agent_on (T\<lparr>t_grants := qs\<rparr>) = t_agent_on T" "t_agent_on (T\<lparr>t_external := xs\<rparr>) = t_agent_on T"
  "t_link_on (T\<lparr>t_users := vs\<rparr>) = t_link_on T" "t_link_on (T\<lparr>t_routes := rs\<rparr>) = t_link_on T"
  "t_link_on (T\<lparr>t_gateways := gs\<rparr>) = t_link_on T" "t_link_on (T\<lparr>t_agents := as\<rparr>) = t_link_on T"
  "t_link_on (T\<lparr>t_upstreams := us\<rparr>) = t_link_on T" "t_link_on (T\<lparr>t_grants := qs\<rparr>) = t_link_on T"
  "t_link_on (T\<lparr>t_external := xs\<rparr>) = t_link_on T"
  "t_upstream_on (T\<lparr>t_users := vs\<rparr>) = t_upstream_on T" "t_upstream_on (T\<lparr>t_routes := rs\<rparr>) = t_upstream_on T"
  "t_upstream_on (T\<lparr>t_gateways := gs\<rparr>) = t_upstream_on T" "t_upstream_on (T\<lparr>t_agents := as\<rparr>) = t_upstream_on T"
  "t_upstream_on (T\<lparr>t_links := ls\<rparr>) = t_upstream_on T" "t_upstream_on (T\<lparr>t_grants := qs\<rparr>) = t_upstream_on T"
  "t_upstream_on (T\<lparr>t_external := xs\<rparr>) = t_upstream_on T"
  by (simp_all add: fun_eq_iff t_user_on_def t_gateway_on_def t_agent_on_def t_link_on_def t_upstream_on_def
      cong: option.case_cong)

lemma t_route_on_update [simp]:
  "t_route_on (T\<lparr>t_users := vs\<rparr>) = t_route_on T" "t_route_on (T\<lparr>t_routes := rs\<rparr>) = t_route_on T"
  "t_route_on (T\<lparr>t_grants := qs\<rparr>) = t_route_on T"
  by (simp_all add: fun_eq_iff t_route_on_def)

lemma t_refsI:
  assumes "\<And>k a. t_agents T k = Some a \<Longrightarrow> ta_gw a \<noteq> [] \<Longrightarrow> k = GatewayAgentID (ta_gw a) \<and> t_gateways T (ta_gw a) \<noteq> None"
    and "\<And>k r. t_routes T k = Some r \<Longrightarrow> t_gateways T (tr_gw r) \<noteq> None"
    and "\<And>k r. t_routes T k = Some r \<Longrightarrow> tr_up r = [] \<Longrightarrow> t_agents T (tr_agent r) \<noteq> None"
    and "\<And>k r. t_routes T k = Some r \<Longrightarrow> tr_up r \<noteq> [] \<Longrightarrow> t_upstreams T (tr_up r) \<noteq> None \<and> tr_agent r = []"
    and "\<And>k l. t_links T k = Some l \<Longrightarrow> \<exists>r. t_routes T (tl_route l) = Some r \<and> tr_up r = []"
    and "\<And>k q. t_grants T k = Some q \<Longrightarrow> t_users T (tq_user q) \<noteq> None \<and> t_routes T (tq_route q) \<noteq> None"
  shows "t_refs T"
  unfolding t_refs_def using assms by presburger

subsection \<open>Changes of one entry\<close>

lemma t_ok_put_user:
  assumes "t_ok P T" "tu_id u = k"
  shows "t_ok (\<lambda>q. P q \<or> tq_user q = k \<and> \<not> tu_on u) (T\<lparr>t_users := (t_users T)(k := Some u)\<rparr>)"
proof -
  let ?T = "T\<lparr>t_users := (t_users T)(k := Some u)\<rparr>"
  have T: "t_keyed T" "t_refs T" "t_published P T" using assms(1) by (simp_all add: t_ok_def)
  have "t_keyed ?T" using T(1) assms(2) by (simp add: t_keyed_def)
  moreover have "t_refs ?T" by (rule t_refsI) (auto dest: t_refsD [OF T(2)] split: if_splits)
  moreover have "t_published (\<lambda>q. P q \<or> tq_user q = k \<and> \<not> tu_on u) ?T"
  proof (rule t_published_step [OF T(3)])
    show "(P q \<or> tq_user q = k \<and> \<not> tu_on u) \<or> t_live ?T q" if "t_live T q" for q
      using t_live_mono [OF that, of ?T] by (cases "tq_user q = k") (auto simp: t_user_on_def)
  qed simp_all
  ultimately show ?thesis by (simp add: t_ok_def)
qed

text \<open>The grants whose route runs through a gateway, as its entry or as the host of its agent.\<close>

definition t_through :: "Topo \<Rightarrow> string \<Rightarrow> tGrant \<Rightarrow> bool" where
  "t_through T k q = (case t_routes T (tq_route q) of None \<Rightarrow> False | Some r \<Rightarrow> tr_gw r = k)"

definition t_hosted :: "Topo \<Rightarrow> string \<Rightarrow> tGrant \<Rightarrow> bool" where
  "t_hosted T k q =
     (case t_routes T (tq_route q) of None \<Rightarrow> False
      | Some r \<Rightarrow> (case t_agents T (tr_agent r) of None \<Rightarrow> False | Some a \<Rightarrow> ta_gw a = k))"

definition t_gateway_le :: "tGateway option \<Rightarrow> tGateway \<Rightarrow> bool" where
  "t_gateway_le old g = (case old of None \<Rightarrow> True | Some g0 \<Rightarrow> tg_on g0 \<longrightarrow> tg_on g)"

definition t_host_le :: "tGateway option \<Rightarrow> tGateway \<Rightarrow> bool" where
  "t_host_le old g = (case old of None \<Rightarrow> True | Some g0 \<Rightarrow> tg_on g0 \<and> tg_agent g0 \<longrightarrow> tg_on g \<and> tg_agent g)"

lemma t_ok_put_gateway:
  assumes "t_ok P T" "tg_id g = k" "gateway_key k"
  shows "t_ok (\<lambda>q. P q \<or> \<not> t_gateway_le (t_gateways T k) g \<and> t_through T k q \<or>
      \<not> t_host_le (t_gateways T k) g \<and> t_hosted T k q) (T\<lparr>t_gateways := (t_gateways T)(k := Some g)\<rparr>)"
proof -
  let ?T = "T\<lparr>t_gateways := (t_gateways T)(k := Some g)\<rparr>"
  let ?R = "\<lambda>q. \<not> t_gateway_le (t_gateways T k) g \<and> t_through T k q \<or> \<not> t_host_le (t_gateways T k) g \<and> t_hosted T k q"
  have T: "t_keyed T" "t_refs T" "t_published P T" using assms(1) by (simp_all add: t_ok_def)
  have "t_keyed ?T" using T(1) assms(2,3) by (simp add: t_keyed_def)
  moreover have "t_refs ?T" by (rule t_refsI) (auto dest: t_refsD [OF T(2)] split: if_splits)
  moreover have "t_published (\<lambda>q. P q \<or> ?R q) ?T"
  proof (rule t_published_step [OF T(3)])
    fix q
    assume live: "t_live T q"
    show "(P q \<or> ?R q) \<or> t_live ?T q"
    proof (cases "?R q")
      case False
      have "t_route_on ?T r" if r: "t_routes T (tq_route q) = Some r" "t_route_on T r" for r
      proof (rule t_route_on_mono [OF r(2)])
        show "t_gateway_on ?T (tr_gw r)" if "t_gateway_on T (tr_gw r)"
          using that False r(1)
          by (cases "tr_gw r = k") (auto simp: t_gateway_on_def t_gateway_le_def t_through_def split: option.splits)
        show "t_agent_on ?T (tr_agent r)" if "t_agent_on T (tr_agent r)"
          using that False r(1)
          by (auto simp: t_agent_on_def t_host_le_def t_hosted_def split: option.splits)
      qed (simp_all)
      then show ?thesis using t_live_mono [OF live, of ?T] by simp
    qed simp
  qed simp_all
  ultimately show ?thesis by (simp add: t_ok_def)
qed

definition t_by_agent :: "Topo \<Rightarrow> string \<Rightarrow> tGrant \<Rightarrow> bool" where
  "t_by_agent T k q = (case t_routes T (tq_route q) of None \<Rightarrow> False | Some r \<Rightarrow> tr_agent r = k)"

definition t_agent_le :: "tAgent option \<Rightarrow> tAgent \<Rightarrow> bool" where
  "t_agent_le old a =
     (case old of None \<Rightarrow> True
      | Some a0 \<Rightarrow> (ta_on a0 \<longrightarrow> ta_on a) \<and> (ta_gw a = [] \<or> ta_gw a = ta_gw a0))"

lemma t_ok_put_agent:
  assumes "t_ok P T" "ta_id a = k" "agent_key k"
    and "ta_gw a \<noteq> [] \<Longrightarrow> k = GatewayAgentID (ta_gw a) \<and> t_gateways T (ta_gw a) \<noteq> None"
  shows "t_ok (\<lambda>q. P q \<or> \<not> t_agent_le (t_agents T k) a \<and> t_by_agent T k q)
    (T\<lparr>t_agents := (t_agents T)(k := Some a)\<rparr>)"
proof -
  let ?T = "T\<lparr>t_agents := (t_agents T)(k := Some a)\<rparr>"
  let ?Q = "\<lambda>q. P q \<or> \<not> t_agent_le (t_agents T k) a \<and> t_by_agent T k q"
  have T: "t_keyed T" "t_refs T" "t_published P T" using assms(1) by (simp_all add: t_ok_def)
  have "t_keyed ?T" using T(1) assms(2,3) by (simp add: t_keyed_def)
  moreover have "t_refs ?T"
    by (rule t_refsI) (use assms(4) in \<open>auto dest: t_refsD [OF T(2)] split: if_splits\<close>)
  moreover have "t_published ?Q ?T"
  proof (rule t_published_step [OF T(3)])
    fix q
    assume live: "t_live T q"
    show "?Q q \<or> t_live ?T q"
    proof (cases "\<not> t_agent_le (t_agents T k) a \<and> t_by_agent T k q")
      case False
      have "t_route_on ?T r" if r: "t_routes T (tq_route q) = Some r" "t_route_on T r" for r
      proof (rule t_route_on_mono [OF r(2)])
        show "t_agent_on ?T (tr_agent r)" if "t_agent_on T (tr_agent r)"
          using that False r(1)
          by (cases "tr_agent r = k") (auto simp: t_agent_on_def t_agent_le_def t_by_agent_def split: option.splits)
      qed (simp_all)
      then show ?thesis using t_live_mono [OF live, of ?T] by simp
    qed simp
  qed simp_all
  ultimately show ?thesis by (simp add: t_ok_def)
qed

definition t_by_upstream :: "Topo \<Rightarrow> string \<Rightarrow> tGrant \<Rightarrow> bool" where
  "t_by_upstream T k q = (case t_routes T (tq_route q) of None \<Rightarrow> False | Some r \<Rightarrow> tr_up r = k)"

lemma t_ok_put_upstream:
  assumes "t_ok P T" "tp_id p = k" "k \<noteq> []"
  shows "t_ok (\<lambda>q. P q \<or> \<not> (tp_on p \<and> tp_node p) \<and> t_by_upstream T k q)
    (T\<lparr>t_upstreams := (t_upstreams T)(k := Some p)\<rparr>)"
proof -
  let ?T = "T\<lparr>t_upstreams := (t_upstreams T)(k := Some p)\<rparr>"
  let ?Q = "\<lambda>q. P q \<or> \<not> (tp_on p \<and> tp_node p) \<and> t_by_upstream T k q"
  have T: "t_keyed T" "t_refs T" "t_published P T" using assms(1) by (simp_all add: t_ok_def)
  have "t_keyed ?T" using T(1) assms(2,3) by (simp add: t_keyed_def)
  moreover have "t_refs ?T" by (rule t_refsI) (auto dest: t_refsD [OF T(2)] split: if_splits)
  moreover have "t_published ?Q ?T"
  proof (rule t_published_step [OF T(3)])
    fix q
    assume live: "t_live T q"
    show "?Q q \<or> t_live ?T q"
    proof (cases "\<not> (tp_on p \<and> tp_node p) \<and> t_by_upstream T k q")
      case False
      have "t_route_on ?T r" if r: "t_routes T (tq_route q) = Some r" "t_route_on T r" for r
      proof (rule t_route_on_mono [OF r(2)])
        show "t_upstream_on ?T (tr_up r)" if "t_upstream_on T (tr_up r)"
          using that False r(1) by (auto simp: t_upstream_on_def t_by_upstream_def)
      qed (simp_all)
      then show ?thesis using t_live_mono [OF live, of ?T] by simp
    qed simp
  qed simp_all
  ultimately show ?thesis by (simp add: t_ok_def)
qed

lemma t_ok_put_route:
  assumes "t_ok P T" "tr_id r = k" "k \<noteq> []" "t_gateways T (tr_gw r) \<noteq> None"
    and "tr_up r = [] \<Longrightarrow> t_agents T (tr_agent r) \<noteq> None"
    and "tr_up r \<noteq> [] \<Longrightarrow> t_upstreams T (tr_up r) \<noteq> None \<and> tr_agent r = []"
    and same: "\<And>r0. t_routes T k = Some r0 \<Longrightarrow> tr_gw r0 = tr_gw r \<and> tr_agent r0 = tr_agent r \<and> tr_up r0 = tr_up r"
  shows "t_ok (\<lambda>q. P q \<or> tq_route q = k \<and> \<not> tr_on r) (T\<lparr>t_routes := (t_routes T)(k := Some r)\<rparr>)"
proof -
  let ?T = "T\<lparr>t_routes := (t_routes T)(k := Some r)\<rparr>"
  let ?Q = "\<lambda>q. P q \<or> tq_route q = k \<and> \<not> tr_on r"
  have T: "t_keyed T" "t_refs T" "t_published P T" using assms(1) by (simp_all add: t_ok_def)
  have "t_keyed ?T" using T(1) assms(2,3) by (simp add: t_keyed_def)
  moreover have "t_refs ?T"
  proof (rule t_refsI)
    show "\<exists>r'. t_routes ?T (tl_route l) = Some r' \<and> tr_up r' = []" if "t_links ?T k' = Some l" for k' l
      using t_refsD(5) [OF T(2), of k' l] that same by (cases "tl_route l = k") auto
  qed (use assms(4-6) in \<open>auto dest: t_refsD [OF T(2)] split: if_splits\<close>)
  moreover have "t_published ?Q ?T"
  proof (rule t_published_step [OF T(3)])
    fix q
    assume live: "t_live T q"
    show "?Q q \<or> t_live ?T q"
    proof (cases "tq_route q = k \<and> \<not> tr_on r")
      case False
      have "\<exists>r'. t_routes ?T (tq_route q) = Some r' \<and> t_route_on ?T r'"
        if r0: "t_routes T (tq_route q) = Some r0" "t_route_on T r0" for r0
      proof (cases "tq_route q = k")
        case True
        then have "tr_id r0 = tr_id r" using t_keyedD(5) [OF T(1) r0(1)] assms(2) by simp
        then show ?thesis using True False same [of r0] r0 by (auto simp: t_route_on_def)
      qed (use r0 in simp)
      then show ?thesis using t_live_mono [OF live, of ?T] by simp
    qed simp
  qed simp_all
  ultimately show ?thesis by (simp add: t_ok_def)
qed

lemma t_published_links:
  assumes "t_published P T" and "\<And>i. t_link_on T i \<Longrightarrow> i = k \<or> t_link_on (T\<lparr>t_links := ls\<rparr>) i" and "t_keyed T"
  shows "t_published (\<lambda>q. P q \<or> tq_route q = k \<and> \<not> t_link_on (T\<lparr>t_links := ls\<rparr>) k) (T\<lparr>t_links := ls\<rparr>)"
proof (rule t_published_step [OF assms(1)])
  let ?T = "T\<lparr>t_links := ls\<rparr>"
  fix q
  assume live: "t_live T q"
  show "(P q \<or> tq_route q = k \<and> \<not> t_link_on ?T k) \<or> t_live ?T q"
  proof (cases "tq_route q = k \<and> \<not> t_link_on ?T k")
    case False
    have "t_route_on ?T r" if r: "t_routes T (tq_route q) = Some r" "t_route_on T r" for r
    proof (rule t_route_on_mono [OF r(2)])
      show "t_link_on ?T (tr_id r)" if "t_link_on T (tr_id r)"
        using assms(2) [OF that] False t_keyedD(5) [OF assms(3) r(1)] by auto
    qed simp_all
    then show ?thesis using t_live_mono [OF live, of ?T] by simp
  qed simp
qed simp_all

lemma t_link_onI: "t_links T k = Some l \<Longrightarrow> tl_route l = i \<Longrightarrow> tl_on l \<Longrightarrow> t_link_on T i"
  by (auto simp: t_link_on_def)

lemma t_ok_put_link:
  assumes "t_ok P T" "tl_id l = k" and "\<exists>r. t_routes T (tl_route l) = Some r \<and> tr_up r = []"
    and same: "\<And>l0. t_links T k = Some l0 \<Longrightarrow> tl_route l0 = tl_route l"
  shows "t_ok (\<lambda>q. P q \<or> tq_route q = tl_route l \<and> \<not> t_link_on (T\<lparr>t_links := (t_links T)(k := Some l)\<rparr>) (tl_route l))
    (T\<lparr>t_links := (t_links T)(k := Some l)\<rparr>)"
proof -
  let ?T = "T\<lparr>t_links := (t_links T)(k := Some l)\<rparr>"
  have T: "t_keyed T" "t_refs T" "t_published P T" using assms(1) by (simp_all add: t_ok_def)
  have "t_keyed ?T" using T(1) assms(2) by (simp add: t_keyed_def)
  moreover have "t_refs ?T"
    by (rule t_refsI) (use assms(3) in \<open>auto dest: t_refsD [OF T(2)] split: if_splits\<close>)
  moreover have "i = tl_route l \<or> t_link_on ?T i" if "t_link_on T i" for i
  proof -
    obtain k' l' where l': "t_links T k' = Some l'" "tl_route l' = i" "tl_on l'"
      using \<open>t_link_on T i\<close> by (auto simp: t_link_on_def)
    then show ?thesis
      using same t_link_onI [of ?T k' l' i] by (cases "k' = k") auto
  qed
  ultimately show ?thesis using t_published_links [OF T(3) _ T(1)] by (simp add: t_ok_def)
qed

lemma t_ok_del_link:
  assumes "t_ok P T" "t_links T k = Some l"
  shows "t_ok (\<lambda>q. P q \<or> tq_route q = tl_route l \<and> \<not> t_link_on (T\<lparr>t_links := (t_links T)(k := None)\<rparr>) (tl_route l))
    (T\<lparr>t_links := (t_links T)(k := None)\<rparr>)"
proof -
  let ?T = "T\<lparr>t_links := (t_links T)(k := None)\<rparr>"
  have T: "t_keyed T" "t_refs T" "t_published P T" using assms(1) by (simp_all add: t_ok_def)
  have "t_keyed ?T" using T(1) by (simp add: t_keyed_def)
  moreover have "t_refs ?T"
    by (rule t_refsI) (auto dest: t_refsD [OF T(2)] split: if_splits)
  moreover have "i = tl_route l \<or> t_link_on ?T i" if "t_link_on T i" for i
  proof -
    obtain k' l' where l': "t_links T k' = Some l'" "tl_route l' = i" "tl_on l'"
      using \<open>t_link_on T i\<close> by (auto simp: t_link_on_def)
    then show ?thesis
      using assms(2) t_link_onI [of ?T k' l' i] by (cases "k' = k") auto
  qed
  ultimately show ?thesis using t_published_links [OF T(3) _ T(1)] by (simp add: t_ok_def)
qed

lemma t_live_grants [simp]: "t_live (T\<lparr>t_grants := qs\<rparr>) q = t_live T q"
  by (simp add: t_live_def cong: option.case_cong)

lemma t_ok_put_grant:
  assumes "t_ok P T" "tq_id q = k" "t_users T (tq_user q) \<noteq> None" "t_routes T (tq_route q) \<noteq> None"
    and "tq_pub q \<Longrightarrow> P q \<or> t_live T q"
  shows "t_ok P (T\<lparr>t_grants := (t_grants T)(k := Some q)\<rparr>)"
proof -
  let ?T = "T\<lparr>t_grants := (t_grants T)(k := Some q)\<rparr>"
  have T: "t_keyed T" "t_refs T" "t_published P T" using assms(1) by (simp_all add: t_ok_def)
  have "t_keyed ?T" using T(1) assms(2) by (simp add: t_keyed_def)
  moreover have "t_refs ?T"
    by (rule t_refsI) (use assms(3,4) in \<open>auto dest: t_refsD [OF T(2)] split: if_splits\<close>)
  moreover have "t_published P ?T" using T(3) assms(5) by (auto simp: t_published_def)
  ultimately show ?thesis by (simp add: t_ok_def)
qed

lemma t_ok_del_grant:
  assumes "t_ok P T"
  shows "t_ok P (T\<lparr>t_grants := (t_grants T)(k := None)\<rparr>)"
proof -
  let ?T = "T\<lparr>t_grants := (t_grants T)(k := None)\<rparr>"
  have T: "t_keyed T" "t_refs T" "t_published P T" using assms(1) by (simp_all add: t_ok_def)
  have "t_keyed ?T" using T(1) by (simp add: t_keyed_def)
  moreover have "t_refs ?T" by (rule t_refsI) (auto dest: t_refsD [OF T(2)] split: if_splits)
  moreover have "t_published P ?T" using T(3) by (auto simp: t_published_def)
  ultimately show ?thesis by (simp add: t_ok_def)
qed

lemma t_ok_unpublish: "t_ok (\<lambda>q. R q \<or> P q) T \<Longrightarrow> t_ok P (t_unpublish R T)"
  by (simp add: t_ok_def t_published_unpublish)

text \<open>The grants that need an upstream of a gateway that no longer offers external upstreams.\<close>

definition t_cut_off :: "Topo \<Rightarrow> (string \<Rightarrow> bool) \<Rightarrow> tGrant \<Rightarrow> bool" where
  "t_cut_off T xs q =
     (case t_routes T (tq_route q) of None \<Rightarrow> False
      | Some r \<Rightarrow> tr_up r \<noteq> [] \<and> t_external T (tr_gw r) \<and> \<not> xs (tr_gw r))"

lemma t_ok_external:
  assumes "t_ok P T"
  shows "t_ok (\<lambda>q. P q \<or> t_cut_off T xs q) (T\<lparr>t_external := xs\<rparr>)"
proof -
  let ?T = "T\<lparr>t_external := xs\<rparr>"
  have T: "t_keyed T" "t_refs T" "t_published P T" using assms(1) by (simp_all add: t_ok_def)
  have "t_keyed ?T" using T(1) by (simp add: t_keyed_def)
  moreover have "t_refs ?T" by (rule t_refsI) (auto dest: t_refsD [OF T(2)])
  moreover have "t_published (\<lambda>q. P q \<or> t_cut_off T xs q) ?T"
  proof (rule t_published_step [OF T(3)])
    fix q
    assume live: "t_live T q"
    show "(P q \<or> t_cut_off T xs q) \<or> t_live ?T q"
    proof (cases "t_cut_off T xs q")
      case False
      have "t_route_on ?T r" if r: "t_routes T (tq_route q) = Some r" "t_route_on T r" for r
        using r False by (auto simp: t_route_on_def t_cut_off_def)
      then show ?thesis using t_live_mono [OF live, of ?T] by simp
    qed simp
  qed simp_all
  ultimately show ?thesis by (simp add: t_ok_def)
qed

subsection \<open>The same on states\<close>

lemma sound_put_user:
  "sound P s \<Longrightarrow> u_ID u = k \<Longrightarrow>
   sound (\<lambda>q. P q \<or> tq_user q = k \<and> \<not> u_Enabled u) (s\<lparr>st_Users := mput k u (st_Users s)\<rparr>)"
  by (rule soundI [of P s]) (use t_ok_put_user [of P "topo s" "user_core u" k] in \<open>simp_all add: sound_def topo_put user_core_def\<close>)

lemma sound_put_gateway:
  "sound P s \<Longrightarrow> gw_ID g = k \<Longrightarrow> gateway_key k \<Longrightarrow>
   sound (\<lambda>q. P q \<or> \<not> t_gateway_le (t_gateways (topo s) k) (gateway_core g) \<and> t_through (topo s) k q \<or>
       \<not> t_host_le (t_gateways (topo s) k) (gateway_core g) \<and> t_hosted (topo s) k q)
     (s\<lparr>st_Gateways := mput k g (st_Gateways s)\<rparr>)"
  by (rule soundI [of P s]) (use t_ok_put_gateway [of P "topo s" "gateway_core g" k] in \<open>simp_all add: sound_def topo_put gateway_core_def\<close>)

lemma hosted_by_agent:
  assumes "t_refs T" "t_hosted T k q" "k \<noteq> []"
  shows "t_by_agent T (GatewayAgentID k) q"
  using assms(2,3) t_refsD(1) [OF assms(1)] by (auto simp: t_hosted_def t_by_agent_def split: option.splits)

lemma hosted_agent:
  assumes "t_refs T" "t_hosted T k q" "k \<noteq> []"
  shows "\<exists>a. t_agents T (GatewayAgentID k) = Some a \<and> ta_gw a = k"
  using assms(2,3) t_refsD(1) [OF assms(1)] by (auto simp: t_hosted_def split: option.splits)

text \<open>A gateway written back with its switches unchanged.\<close>

lemma sound_put_gateway_same:
  assumes "sound P s" "mget (st_Gateways s) k = Some g0" "gateway_core g = gateway_core g0"
  shows "sound P (s\<lparr>st_Gateways := mput k g (st_Gateways s)\<rparr>)"
proof (rule sound_view [OF assms(1)])
  show "topo (s\<lparr>st_Gateways := mput k g (st_Gateways s)\<rparr>) = topo s"
    using assms(2,3) by (auto simp: topo_put fun_eq_iff intro!: Topo.equality)
qed (use assms(1) in \<open>simp_all add: sound_def\<close>)

lemma sound_put_agent_same:
  assumes "sound P s" "mget (st_Agents s) k = Some a0" "agent_core a = agent_core a0"
  shows "sound P (s\<lparr>st_Agents := mput k a (st_Agents s)\<rparr>)"
proof (rule sound_view [OF assms(1)])
  show "topo (s\<lparr>st_Agents := mput k a (st_Agents s)\<rparr>) = topo s"
    using assms(2,3) by (auto simp: topo_put fun_eq_iff intro!: Topo.equality)
qed (use assms(1) in \<open>simp_all add: sound_def\<close>)

lemma sound_put_agent:
  assumes "sound P s" "ag_ID a = k" "agent_key k"
    and "ag_GatewayID a \<noteq> [] \<Longrightarrow> k = GatewayAgentID (ag_GatewayID a) \<and> mget (st_Gateways s) (ag_GatewayID a) \<noteq> None"
  shows "sound (\<lambda>q. P q \<or> \<not> t_agent_le (t_agents (topo s) k) (agent_core a) \<and> t_by_agent (topo s) k q)
     (s\<lparr>st_Agents := mput k a (st_Agents s)\<rparr>)"
  by (rule soundI [of P s]) (use t_ok_put_agent [of P "topo s" "agent_core a" k] assms in \<open>simp_all add: sound_def topo_put agent_core_def\<close>)

lemma sound_put_upstream:
  "sound P s \<Longrightarrow> vu_ID p = k \<Longrightarrow> k \<noteq> [] \<Longrightarrow>
   sound (\<lambda>q. P q \<or> \<not> (vu_Enabled p \<and> ve_UUID (vu_Endpoint p) \<noteq> []) \<and> t_by_upstream (topo s) k q)
     (s\<lparr>st_Upstreams := mput k p (st_Upstreams s)\<rparr>)"
  by (rule soundI [of P s]) (use t_ok_put_upstream [of P "topo s" "upstream_core p" k] in \<open>simp_all add: sound_def topo_put upstream_core_def\<close>)

lemma sound_put_route:
  assumes "sound P s" "at_ID r = k" "k \<noteq> []" "mget (st_Gateways s) (at_GatewayID r) \<noteq> None"
    and "at_UpstreamID r = [] \<Longrightarrow> mget (st_Agents s) (at_AgentID r) \<noteq> None"
    and "at_UpstreamID r \<noteq> [] \<Longrightarrow> mget (st_Upstreams s) (at_UpstreamID r) \<noteq> None \<and> at_AgentID r = []"
    and "\<And>r0. mget (st_Attachments s) k = Some r0 \<Longrightarrow>
      at_GatewayID r0 = at_GatewayID r \<and> at_AgentID r0 = at_AgentID r \<and> at_UpstreamID r0 = at_UpstreamID r"
  shows "sound (\<lambda>q. P q \<or> tq_route q = k \<and> \<not> at_Enabled r) (s\<lparr>st_Attachments := mput k r (st_Attachments s)\<rparr>)"
proof -
  have "t_ok (\<lambda>q. P q \<or> tq_route q = k \<and> \<not> tr_on (route_core r))
      ((topo s)\<lparr>t_routes := (t_routes (topo s))(k := Some (route_core r))\<rparr>)"
    by (rule t_ok_put_route) (use assms in \<open>auto simp: sound_def route_core_def\<close>)
  then show ?thesis
    using assms(1) by - (rule soundI [of P s], simp_all add: sound_def topo_put route_core_def)
qed

lemma sound_put_link:
  assumes "sound P s" "lk_ID l = k" "mget (st_Attachments s) (lk_AttachmentID l) = Some r" "at_UpstreamID r = []"
    and "\<And>l0. mget (st_Links s) k = Some l0 \<Longrightarrow> lk_AttachmentID l0 = lk_AttachmentID l"
  shows "sound (\<lambda>q. P q \<or> tq_route q = lk_AttachmentID l \<and>
      \<not> t_link_on (topo (s\<lparr>st_Links := mput k l (st_Links s)\<rparr>)) (lk_AttachmentID l)) (s\<lparr>st_Links := mput k l (st_Links s)\<rparr>)"
proof -
  have "t_ok (\<lambda>q. P q \<or> tq_route q = tl_route (link_core l) \<and>
      \<not> t_link_on ((topo s)\<lparr>t_links := (t_links (topo s))(k := Some (link_core l))\<rparr>) (tl_route (link_core l)))
      ((topo s)\<lparr>t_links := (t_links (topo s))(k := Some (link_core l))\<rparr>)"
    by (rule t_ok_put_link) (use assms in \<open>auto simp: sound_def route_core_def link_core_def\<close>)
  then show ?thesis
    using assms(1) by - (rule soundI [of P s], simp_all add: sound_def topo_put link_core_def)
qed

lemma sound_put_link_on:
  assumes "sound P s" "lk_ID l = k" "mget (st_Attachments s) (lk_AttachmentID l) = Some r" "at_UpstreamID r = []"
    and "\<And>l0. mget (st_Links s) k = Some l0 \<Longrightarrow> lk_AttachmentID l0 = lk_AttachmentID l" and "lk_Enabled l"
  shows "sound P (s\<lparr>st_Links := mput k l (st_Links s)\<rparr>)"
proof (rule sound_mono [OF sound_put_link [OF assms(1-5)]])
  have "t_link_on (topo (s\<lparr>st_Links := mput k l (st_Links s)\<rparr>)) (lk_AttachmentID l)"
    unfolding t_link_on_def by (intro exI [of _ k] exI [of _ "link_core l"]) (simp add: link_core_def assms(6))
  then show "P q" if "P q \<or> tq_route q = lk_AttachmentID l \<and>
      \<not> t_link_on (topo (s\<lparr>st_Links := mput k l (st_Links s)\<rparr>)) (lk_AttachmentID l)" for q
    using that by simp
qed simp_all

lemma sound_put_link_same:
  assumes "sound P s" "mget (st_Links s) k = Some l0" "link_core l = link_core l0"
  shows "sound P (s\<lparr>st_Links := mput k l (st_Links s)\<rparr>)"
proof (rule sound_view [OF assms(1)])
  show "topo (s\<lparr>st_Links := mput k l (st_Links s)\<rparr>) = topo s"
    using assms(2,3) by (auto simp: topo_put fun_eq_iff intro!: Topo.equality)
qed (use assms(1) in \<open>simp_all add: sound_def\<close>)

lemma sound_put_grant:
  assumes "sound P s" "gr_ID g = k" "mget (st_Users s) (gr_UserID g) \<noteq> None"
    "mget (st_Attachments s) (gr_AttachmentID g) \<noteq> None" "\<not> gr_Published g"
  shows "sound P (s\<lparr>st_Grants := mput k g (st_Grants s)\<rparr>)"
proof -
  have "t_ok P ((topo s)\<lparr>t_grants := (t_grants (topo s))(k := Some (grant_core g))\<rparr>)"
    by (rule t_ok_put_grant) (use assms in \<open>auto simp: sound_def grant_core_def\<close>)
  then show ?thesis
    using assms(1) by - (rule soundI [of P s], simp_all add: sound_def topo_put)
qed

lemma sound_unpublish:
  assumes "sound (\<lambda>q. R' q \<or> P q) s" "\<And>g. R g = R' (grant_core g)"
  shows "sound P (unpublish R s)"
  by (rule soundI [OF assms(1)]) (use assms t_ok_unpublish [of R' P "topo s"] in \<open>simp_all add: sound_def topo_unpublish [of R R']\<close>)

lemma sound_bump:
  "sound P s \<Longrightarrow> mget (st_Gateways s) i \<noteq> None \<Longrightarrow> sound P (bumpGateway i s)"
  "sound P s \<Longrightarrow> mget (st_Agents s) i \<noteq> None \<Longrightarrow> sound P (bumpAgent i s)"
  using sound_view [of P s "bumpGateway i s"] sound_view [of P s "bumpAgent i s"] soundD(1) [of P s] by simp_all

lemma sound_bump_for: "sound P s \<Longrightarrow> sound P (bumpGatewayForAttachment i s)"
  using sound_refs(2) [of P s i] sound_bump(1) [of P s]
  by (auto simp: bumpGatewayForAttachment_def split: option.split)

lemma sound_fold:
  assumes "sound P s" "\<And>x s. x \<in> set xs \<Longrightarrow> sound P s \<Longrightarrow> I s \<Longrightarrow> sound P (f x s) \<and> I (f x s)" "I s"
  shows "sound P (fold f xs s) \<and> I (fold f xs s)"
  using assms by (induction xs arbitrary: s) auto

lemma sound_withdraw:
  assumes "sound P s" "\<And>g. R g = R' (grant_core g)"
  shows "sound P (unpublish R s)"
  by (rule sound_unpublish [of R']) (use assms in \<open>auto intro: sound_mono\<close>)

lemma t_ok_grants:
  assumes "t_ok P T"
    and new: "\<And>k q'. qs k = Some q' \<Longrightarrow> \<exists>q. t_grants T k = Some q \<and> tq_id q' = tq_id q \<and> tq_user q' = tq_user q \<and>
      tq_route q' = tq_route q \<and> (tq_pub q' \<longrightarrow> q' = q)"
  shows "t_ok P (T\<lparr>t_grants := qs\<rparr>)"
proof -
  let ?T = "T\<lparr>t_grants := qs\<rparr>"
  have T: "t_keyed T" "t_refs T" "t_published P T" using assms(1) by (simp_all add: t_ok_def)
  have "tq_id q' = k" if "qs k = Some q'" for k q'
    using new [OF that] t_keyedD(7) [OF T(1), of k] by auto
  then have "t_keyed ?T" using T(1) by (simp add: t_keyed_def)
  moreover have "t_refs ?T"
  proof (rule t_refsI)
    show "t_users ?T (tq_user q) \<noteq> None \<and> t_routes ?T (tq_route q) \<noteq> None" if "t_grants ?T k = Some q" for k q
    proof -
      obtain q0 where "t_grants T k = Some q0" "tq_user q = tq_user q0" "tq_route q = tq_route q0"
        using new [of k q] \<open>t_grants ?T k = Some q\<close> by auto
      then show ?thesis using t_refsD(6) [OF T(2), of k q0] by simp
    qed
  qed (auto dest: t_refsD [OF T(2)])
  moreover have "t_published P ?T"
    by (rule t_published_step [OF T(3)]) (use new in \<open>fastforce+\<close>)
  ultimately show ?thesis by (simp add: t_ok_def)
qed

text \<open>Replacing the grants by ones that differ only in what the view does not see, or are withdrawn, or are gone.\<close>

lemma sound_grants:
  assumes "sound P s" "mwf grants"
    and "\<And>i g'. mget grants i = Some g' \<Longrightarrow> \<exists>g. mget (st_Grants s) i = Some g \<and> gr_ID g' = gr_ID g \<and>
      gr_UserID g' = gr_UserID g \<and> gr_AttachmentID g' = gr_AttachmentID g \<and>
      (gr_Published g' \<longrightarrow> gr_Published g \<and> gr_Enabled g' = gr_Enabled g)"
  shows "sound P (s\<lparr>st_Grants := grants\<rparr>)"
proof -
  let ?qs = "\<lambda>k. map_option grant_core (mget grants k)"
  have "t_ok P ((topo s)\<lparr>t_grants := ?qs\<rparr>)"
  proof (rule t_ok_grants [OF soundD(6) [OF assms(1)]])
    show "\<exists>q. t_grants (topo s) k = Some q \<and> tq_id q' = tq_id q \<and> tq_user q' = tq_user q \<and> tq_route q' = tq_route q \<and>
        (tq_pub q' \<longrightarrow> q' = q)" if "?qs k = Some q'" for k q'
      using that assms(3) [of k] by (auto simp: grant_core_def)
  qed
  moreover have "topo (s\<lparr>st_Grants := grants\<rparr>) = (topo s)\<lparr>t_grants := ?qs\<rparr>" by (simp add: topo_def)
  ultimately show ?thesis
    by - (rule soundI [OF assms(1)], use soundD(1) [OF assms(1)] assms(2) in \<open>simp_all add: maps_ok_def\<close>)
qed

lemma sound_touch_routes:
  assumes "sound (\<lambda>q. (case t_routes (topo s) (tq_route q) of None \<Rightarrow> False | Some r \<Rightarrow> c' r) \<and> off \<or> P q) s"
    and "\<And>a. c a = c' (route_core a)"
  shows "sound P (touch_routes off c s)"
proof -
  note T = soundD [OF assms(1)]
  have view: "topo (touch_routes off c s) = (if off
      then t_unpublish (\<lambda>q. case t_routes (topo s) (tq_route q) of None \<Rightarrow> False | Some r \<Rightarrow> c' r) (topo s) else topo s)"
    by (rule topo_touch_routes [OF T(1,3,4)]) (rule assms(2))
  show ?thesis
  proof (rule soundI [OF assms(1)])
    show "t_ok P (topo (touch_routes off c s))"
      using T(6) unfolding view by (cases off) (simp_all add: t_ok_unpublish)
  qed (use T(1) in simp_all)
qed

lemma sound_embeddedAgentChanged:
  assumes "sound (\<lambda>q. t_by_agent (topo s) (ag_ID agent) q \<or> P q) s" "agent_key (ag_ID agent)"
    and "ag_GatewayID agent \<noteq> [] \<Longrightarrow>
      ag_ID agent = GatewayAgentID (ag_GatewayID agent) \<and> mget (st_Gateways s) (ag_GatewayID agent) \<noteq> None"
  shows "sound P (embeddedAgentChanged agent s)"
  unfolding embeddedAgentChanged_def
proof (rule sound_touch_routes [where c' = "\<lambda>r. tr_agent r = ag_ID agent"])
  let ?s = "s\<lparr>st_Agents := mput (ag_ID agent) agent (st_Agents s)\<rparr>"
  have "t_routes (topo ?s) = t_routes (topo s)" by (simp add: topo_put)
  then show "sound (\<lambda>q. (case t_routes (topo ?s) (tq_route q) of None \<Rightarrow> False | Some r \<Rightarrow> tr_agent r = ag_ID agent) \<and> True \<or> P q) ?s"
    by (intro sound_mono [OF sound_put_agent [OF assms(1) refl assms(2,3)]]) (auto simp: t_by_agent_def)
qed (simp add: route_core_def)

subsection \<open>Removing nodes\<close>

text \<open>Gateways \<open>G\<close> and agents \<open>A\<close> go, with every route that names one of them and its links and grants.\<close>

definition t_lost :: "string set \<Rightarrow> tRoute \<Rightarrow> bool" where
  "t_lost R r = (tr_gw r \<in> R \<or> tr_agent r \<in> R)"

definition t_remove_nodes :: "string set \<Rightarrow> string set \<Rightarrow> Topo \<Rightarrow> Topo" where
  "t_remove_nodes G A T =
     (let lost = (\<lambda>i. case t_routes T i of None \<Rightarrow> False | Some r \<Rightarrow> t_lost (G \<union> A) r) in
      T\<lparr>t_gateways := (\<lambda>k. if k \<in> G then None else t_gateways T k),
        t_agents := (\<lambda>k. if k \<in> A then None else t_agents T k),
        t_routes := t_drop (t_lost (G \<union> A)) (t_routes T),
        t_links := t_drop (\<lambda>l. lost (tl_route l)) (t_links T),
        t_grants := t_drop (\<lambda>q. lost (tq_route q)) (t_grants T),
        t_external := (\<lambda>k. t_external T k \<and> k \<notin> G \<union> A)\<rparr>)"

lemma t_remove_nodes_sel [simp]:
  "t_users (t_remove_nodes G A T) = t_users T" "t_upstreams (t_remove_nodes G A T) = t_upstreams T"
  "t_gateways (t_remove_nodes G A T) = (\<lambda>k. if k \<in> G then None else t_gateways T k)"
  "t_agents (t_remove_nodes G A T) = (\<lambda>k. if k \<in> A then None else t_agents T k)"
  "t_routes (t_remove_nodes G A T) = t_drop (t_lost (G \<union> A)) (t_routes T)"
  "t_external (t_remove_nodes G A T) = (\<lambda>k. t_external T k \<and> k \<notin> G \<union> A)"
  by (simp_all add: t_remove_nodes_def Let_def)

lemma t_remove_nodes_Some:
  "t_links (t_remove_nodes G A T) k = Some l \<longleftrightarrow>
     t_links T k = Some l \<and> \<not> (case t_routes T (tl_route l) of None \<Rightarrow> False | Some r \<Rightarrow> t_lost (G \<union> A) r)"
  "t_grants (t_remove_nodes G A T) k = Some q \<longleftrightarrow>
     t_grants T k = Some q \<and> \<not> (case t_routes T (tq_route q) of None \<Rightarrow> False | Some r \<Rightarrow> t_lost (G \<union> A) r)"
  by (simp_all add: t_remove_nodes_def Let_def)

lemma t_route_on_remove_nodes:
  assumes keyed: "t_keyed T" and r: "t_routes T i = Some r" "\<not> t_lost (G \<union> A) r" "t_route_on T r"
    and hosts: "\<And>k a. t_agents T k = Some a \<Longrightarrow> k \<notin> A \<Longrightarrow> ta_gw a \<notin> G"
  shows "t_route_on (t_remove_nodes G A T) r"
proof (rule t_route_on_mono [OF r(3)])
  let ?T = "t_remove_nodes G A T"
  have n: "tr_gw r \<notin> G \<union> A" "tr_agent r \<notin> G \<union> A" using r(2) by (auto simp: t_lost_def)
  show "t_gateway_on ?T (tr_gw r)" if "t_gateway_on T (tr_gw r)" using that n by (simp add: t_gateway_on_def)
  show "t_agent_on ?T (tr_agent r)" if "t_agent_on T (tr_agent r)"
    using that n hosts [of "tr_agent r"] by (auto simp: t_agent_on_def split: option.splits)
  show "t_link_on ?T (tr_id r)" if "t_link_on T (tr_id r)"
  proof -
    obtain k l where l: "t_links T k = Some l" "tl_route l = tr_id r" "tl_on l"
      using \<open>t_link_on T (tr_id r)\<close> by (auto simp: t_link_on_def)
    moreover have "t_routes T (tl_route l) = Some r" using r(1) t_keyedD(5) [OF keyed r(1)] l(2) by simp
    ultimately show ?thesis
      using r(2) by (intro t_link_onI [of ?T k l]) (simp_all add: t_remove_nodes_Some)
  qed
  show "t_external ?T (tr_gw r)" if "t_external T (tr_gw r)" using that n by simp
  show "t_upstream_on ?T (tr_up r)" if "t_upstream_on T (tr_up r)" using that by (simp add: t_upstream_on_def)
qed

lemma t_ok_remove_nodes:
  assumes "t_ok P T" and hosts: "\<And>k a. t_agents T k = Some a \<Longrightarrow> k \<notin> A \<Longrightarrow> ta_gw a \<notin> G"
    and gone: "\<And>q. P q \<Longrightarrow> (case t_routes T (tq_route q) of None \<Rightarrow> False | Some r \<Rightarrow> t_lost (G \<union> A) r)"
  shows "t_ok nobody (t_remove_nodes G A T)"
proof -
  let ?T = "t_remove_nodes G A T"
  have T: "t_keyed T" "t_refs T" "t_published P T" using assms(1) by (simp_all add: t_ok_def)
  have "t_keyed ?T" using T(1) by (simp add: t_keyed_def t_remove_nodes_Some)
  moreover have "t_refs ?T"
  proof (rule t_refsI)
    show "k = GatewayAgentID (ta_gw a) \<and> t_gateways ?T (ta_gw a) \<noteq> None"
      if "t_agents ?T k = Some a" "ta_gw a \<noteq> []" for k a
      using that t_refsD(1) [OF T(2), of k a] hosts [of k a] by (auto split: if_splits)
    show "\<exists>r. t_routes ?T (tl_route l) = Some r \<and> tr_up r = []" if "t_links ?T k = Some l" for k l
      using that t_refsD(5) [OF T(2), of k l] by (auto simp: t_remove_nodes_Some)
    show "t_users ?T (tq_user q) \<noteq> None \<and> t_routes ?T (tq_route q) \<noteq> None" if "t_grants ?T k = Some q" for k q
      using that t_refsD(6) [OF T(2), of k q] by (auto simp: t_remove_nodes_Some)
  qed (auto simp: t_lost_def dest: t_refsD [OF T(2)])
  moreover have "t_live ?T q" if q: "t_grants ?T k = Some q" "tq_pub q" for k q
  proof -
    have nl: "t_grants T k = Some q" "\<not> (case t_routes T (tq_route q) of None \<Rightarrow> False | Some r \<Rightarrow> t_lost (G \<union> A) r)"
      using q(1) unfolding t_remove_nodes_Some by blast+
    then have "t_live T q" using T(3) q(2) gone unfolding t_published_def by blast
    then show ?thesis
    proof (rule t_live_mono)
      show "\<exists>r'. t_routes ?T (tq_route q) = Some r' \<and> t_route_on ?T r'"
        if "t_routes T (tq_route q) = Some r" "t_route_on T r" for r
        using that nl(2) t_route_on_remove_nodes [OF T(1), of "tq_route q" r G A] hosts by auto
    qed (simp add: t_user_on_def)
  qed
  ultimately show ?thesis by (simp add: t_ok_def t_published_def)
qed

text \<open>\<open>removeNodeReferences\<close> after the nodes themselves are gone refines the abstract removal.\<close>

lemma sound_removeNodeReferences:
  assumes s0: "sound P s0" and A: "\<And>k. k \<in> set A \<Longrightarrow> k \<in> set removed" and G: "\<And>k. k \<in> set G \<Longrightarrow> k \<in> set removed"
    and R: "set removed \<subseteq> set G \<union> set A"
    and s: "s = s0\<lparr>st_Agents := fold mdel A (st_Agents s0), st_Gateways := fold mdel G (st_Gateways s0)\<rparr>"
    and hosts: "\<And>k a. mget (st_Agents s0) k = Some a \<Longrightarrow> k \<notin> set A \<Longrightarrow> ag_GatewayID a \<notin> set G"
    and gone: "\<And>q. P q \<Longrightarrow> (case t_routes (topo s0) (tq_route q) of None \<Rightarrow> False | Some r \<Rightarrow> t_lost (set removed) r)"
  shows "sound nobody (removeNodeReferences now removed s) \<and>
    topo (removeNodeReferences now removed s) = t_remove_nodes (set G) (set A) (topo s0)"
proof -
  have R': "set G \<union> set A = set removed" using A G R by auto
  note T = soundD [OF s0]
  have wf: "mwf (st_Attachments s0)" using T(1) by (simp add: maps_ok_def)
  let ?P = "\<lambda>a. at_GatewayID a \<in> set removed \<or> at_AgentID a \<in> set removed"
  define L where "L = map fst (filter (\<lambda>(_, a). ?P a) (st_Attachments s0))"
  have maps: "maps_ok s" using T(1) by (simp add: s maps_ok_def alist_map.wf_fold_del)
  have t: "topo s = (topo s0)\<lparr>t_agents := (\<lambda>k. if k \<in> set A then None else t_agents (topo s0) k),
      t_gateways := (\<lambda>k. if k \<in> set G then None else t_gateways (topo s0) k)\<rparr>"
    by (simp add: s topo_def alist_map.get_fold_del fun_eq_iff)
  have keyed: "t_keyed (topo s)" using T(3) unfolding t by (simp add: t_keyed_def)
  have att: "st_Attachments s = st_Attachments s0" by (simp add: s)
  have in_is: "i \<in> set L \<longleftrightarrow> (\<exists>a. mget (st_Attachments s0) i = Some a \<and> ?P a)" for i
    using mget_in_iff [OF wf, of i] by (force simp: L_def)
  have dist: "distinct L" using wf mwf_filter [of "st_Attachments s0" "\<lambda>(_, a). ?P a"] by (simp add: mwf_def L_def)
  have fold: "topo (fold (removeAttachment now) L s) = fold t_remove_route L (topo s) \<and>
      maps_ok (fold (removeAttachment now) L s) \<and>
      st_NodeStatus (fold (removeAttachment now) L s) = st_NodeStatus s"
    by (rule fold_removeAttachment_view [OF maps keyed dist]) (use in_is att in auto)
  have lost: "(case t_routes (topo s0) i of None \<Rightarrow> False | Some r \<Rightarrow> t_lost (set removed) r) \<longleftrightarrow> i \<in> set L" for i
    unfolding in_is by (auto simp: t_lost_def route_core_def split: option.splits)
  have lost': "(case mget (st_Attachments s0) i of None \<Rightarrow> False | Some a \<Rightarrow> t_lost (set removed) (route_core a)) \<longleftrightarrow> i \<in> set L" for i
    using lost [of i] by (simp split: option.splits)
  let ?s1 = "fold (removeAttachment now) L s"
  have status: "mget (st_NodeStatus (removeNodeReferences now removed s)) k =
      (if k \<in> set removed then None else mget (st_NodeStatus s0) k)" for k
    using T(2) fold
    by (auto simp: removeNodeReferences_def Let_def att L_def [symmetric] mget_mkeep status_ok_def s split: option.splits)
  have "topo (removeNodeReferences now removed s) = t_remove_nodes (set G) (set A) (topo s0)"
  proof -
    have "t_external (topo (removeNodeReferences now removed s)) =
        t_external (t_remove_nodes (set G) (set A) (topo s0))"
      by (simp add: fun_eq_iff zget_def status R' zero_NodeStatus_def split: option.split)
    moreover have "topo (removeNodeReferences now removed s) = (topo ?s1)\<lparr>t_external := t_external (topo (removeNodeReferences now removed s))\<rparr>"
      by (simp add: removeNodeReferences_def Let_def att L_def [symmetric] topo_def)
    moreover have "(fold t_remove_route L (topo s))\<lparr>t_external := t_external (t_remove_nodes (set G) (set A) (topo s0))\<rparr> =
        t_remove_nodes (set G) (set A) (topo s0)"
    proof (rule Topo.equality)
      have "t_routes (fold t_remove_route L (topo s)) k = t_drop (t_lost (set removed)) (t_routes (topo s0)) k" for k
        using lost [of k] unfolding fold_t_remove_route t t_drop_def by (auto split: option.split)
      then show "t_routes ((fold t_remove_route L (topo s))\<lparr>t_external := t_external (t_remove_nodes (set G) (set A) (topo s0))\<rparr>) =
          t_routes (t_remove_nodes (set G) (set A) (topo s0))"
        by (simp add: R' fun_eq_iff)
    qed (simp_all add: t_remove_nodes_def Let_def R' lost' fold_t_remove_route t cong: option.case_cong)
    ultimately show ?thesis using fold by simp
  qed
  moreover have "t_ok nobody (t_remove_nodes (set G) (set A) (topo s0))"
  proof (rule t_ok_remove_nodes [OF T(6)])
    show "ta_gw a \<notin> set G" if "t_agents (topo s0) k = Some a" "k \<notin> set A" for k a
      using that hosts by (auto simp: agent_core_def)
  qed (use gone in \<open>simp only: R'\<close>)
  moreover have "maps_ok (removeNodeReferences now removed s)"
    using fold by (simp add: removeNodeReferences_def Let_def att L_def [symmetric] maps_ok_def)
  moreover have "status_ok (removeNodeReferences now removed s)"
    using T(2) fold by (auto simp: removeNodeReferences_def Let_def att L_def [symmetric] status_ok_def s mget_mkeep split: option.splits if_splits)
  ultimately show ?thesis by (simp add: sound_def)
qed

lemma t_ok_del_upstream:
  assumes "t_ok P T" and unused: "\<And>k r. t_routes T k = Some r \<Longrightarrow> tr_up r \<noteq> i"
  shows "t_ok P (T\<lparr>t_upstreams := (t_upstreams T)(i := None)\<rparr>)"
proof -
  let ?T = "T\<lparr>t_upstreams := (t_upstreams T)(i := None)\<rparr>"
  have T: "t_keyed T" "t_refs T" "t_published P T" using assms(1) by (simp_all add: t_ok_def)
  have "t_keyed ?T" using T(1) by (simp add: t_keyed_def)
  moreover have "t_refs ?T"
    by (rule t_refsI) (use unused in \<open>auto dest: t_refsD [OF T(2)] split: if_splits\<close>)
  moreover have "t_published P ?T"
  proof (rule t_published_step [OF T(3)])
    fix q
    assume live: "t_live T q"
    have "t_route_on ?T r" if r: "t_routes T (tq_route q) = Some r" "t_route_on T r" for r
      by (rule t_route_on_mono [OF r(2)]) (use unused [OF r(1)] in \<open>simp_all add: t_upstream_on_def\<close>)
    then show "P q \<or> t_live ?T q" using t_live_mono [OF live, of ?T] by simp
  qed simp_all
  ultimately show ?thesis by (simp add: t_ok_def)
qed

lemma sound_put_upstream_same:
  assumes "sound P s" "mget (st_Upstreams s) k = Some u0" "upstream_core u = upstream_core u0"
  shows "sound P (s\<lparr>st_Upstreams := mput k u (st_Upstreams s)\<rparr>)"
proof (rule sound_view [OF assms(1)])
  show "topo (s\<lparr>st_Upstreams := mput k u (st_Upstreams s)\<rparr>) = topo s"
    using assms(2,3) by (auto simp: topo_put fun_eq_iff intro!: Topo.equality)
qed (use assms(1) in \<open>simp_all add: sound_def\<close>)

lemma sound_put_route_same:
  assumes "sound P s" "mget (st_Attachments s) k = Some a0" "route_core a = route_core a0"
  shows "sound P (s\<lparr>st_Attachments := mput k a (st_Attachments s)\<rparr>)"
proof (rule sound_view [OF assms(1)])
  show "topo (s\<lparr>st_Attachments := mput k a (st_Attachments s)\<rparr>) = topo s"
    using assms(2,3) by (auto simp: topo_put fun_eq_iff intro!: Topo.equality)
qed (use assms(1) in \<open>simp_all add: sound_def\<close>)

text \<open>Storing an upstream and withdrawing the grants of its routes, in either order.\<close>

lemma touch_route_upstreams: "touch_route off a (s\<lparr>st_Upstreams := us\<rparr>) = (touch_route off a s)\<lparr>st_Upstreams := us\<rparr>"
  by (simp add: touch_route_def bumpGateway_def unpublish_def Let_def)

lemma fold_touch_upstreams:
  "fold (touch_route off) as (s\<lparr>st_Upstreams := us\<rparr>) = (fold (touch_route off) as s)\<lparr>st_Upstreams := us\<rparr>"
  by (induction as arbitrary: s) (simp_all add: touch_route_upstreams)

lemma bumpUpstreamRoutes_put:
  "bumpUpstreamRoutes i (s\<lparr>st_Upstreams := us\<rparr>) = (bumpUpstreamRoutes i s)\<lparr>st_Upstreams := us\<rparr>"
  by (simp add: bumpUpstreamRoutes_def touch_routes_def fold_touch_upstreams)

lemma sound_store_upstream:
  assumes "sound P s" "vu_ID u = i" "i \<noteq> []"
  shows "sound P (bumpUpstreamRoutes i (s\<lparr>st_Upstreams := mput i u (st_Upstreams s)\<rparr>))"
  unfolding bumpUpstreamRoutes_def
proof (rule sound_touch_routes [where c' = "\<lambda>r. tr_up r = i"])
  let ?s = "s\<lparr>st_Upstreams := mput i u (st_Upstreams s)\<rparr>"
  have "t_routes (topo ?s) = t_routes (topo s)" by (simp add: topo_put)
  then show "sound (\<lambda>q. (case t_routes (topo ?s) (tq_route q) of None \<Rightarrow> False | Some r \<Rightarrow> tr_up r = i) \<and> True \<or> P q) ?s"
    by (intro sound_mono [OF sound_put_upstream [OF assms]]) (auto simp: t_by_upstream_def)
qed (simp add: route_core_def)

end
