(* ===== verification/Upstream_Invariant.thy ===== *)
theory Upstream_Invariant
  imports Upstreams Integrity
begin

text \<open>
  What the importer of external nodes guarantees of its results, and that the transactions on
  upstreams keep the invariants of the control plane, whatever another request did between reading
  the state and the transaction.
\<close>

subsection \<open>Imported nodes\<close>

text \<open>What every imported node satisfies.\<close>

definition endpoint_wf :: "VMessEndpoint \<Rightarrow> bool" where
  "endpoint_wf e \<longleftrightarrow> vmessUUIDPattern (ve_UUID e) \<and> 1 \<le> ve_Port e \<and> ve_Port e \<le> 65535 \<and> ve_Address e \<noteq> [] \<and>
     (ve_Protocol e = ''vmess'' \<and> ve_Network e \<in> {''tcp'', ''ws''} \<and>
        ve_Cipher e \<in> {''auto'', ''aes-128-gcm'', ''chacha20-poly1305''} \<and> (ve_Network e = ''ws'' \<longrightarrow> has_prefix (ve_Path e) ''/'') \<or>
      ve_Protocol e = ''vless'' \<and> ve_Network e = ''raw'' \<and> ve_Flow e = ''xtls-rprx-vision'' \<and> ve_ServerName e \<noteq> [] \<and>
        realityShortIDPattern (ve_ShortID e) \<and> has_prefix (ve_SpiderX e) ''/'')"

lemma parseVMessURI_wf: "parseVMessURI src env v = Inr e \<Longrightarrow> endpoint_wf e"
  unfolding parseVMessURI_def Let_def result_simps
  by (elim conjE exE, unfold sum.inject, hypsubst, unfold endpoint_wf_def)
     (simp split del: if_split)

lemma list_Inr:
  "(case xs of [] \<Rightarrow> u | p # _ \<Rightarrow> (case p of (k, _) \<Rightarrow> Inl (g k))) = Inr y \<longleftrightarrow> xs = [] \<and> u = Inr y"
  by (cases xs) (simp_all add: split_beta)

lemma parse_vless_wf:
  assumes "parse_vless src env v = Inr e"
  shows "endpoint_wf e"
proof -
  obtain u n b where "e_ParseURL env v = Some u" "so_user src v = Some (n, b)"
    using assms by (auto simp: parse_vless_def split: option.splits)
  with assms show ?thesis
    unfolding parse_vless_def
    by (simp only: prod.case option.case Let_def result_simps list_Inr)
       (elim conjE exE, unfold sum.inject, hypsubst, simp add: endpoint_wf_def split del: if_split)
qed

lemma parseExternalURI_wf: "parseExternalURI src env v = Inr e \<Longrightarrow> endpoint_wf e"
  by (auto simp: parseExternalURI_def Let_def parseVMessURI_wf parse_vless_wf split: if_splits)

lemma subscription_lines_wf:
  "subscription_lines src env lines n acc = Inr (m, nodes) \<Longrightarrow> list_all endpoint_wf acc \<Longrightarrow>
   sorted_wrt (\<lambda>a b. \<not> sameVMessConnection a b) acc \<Longrightarrow>
   list_all endpoint_wf nodes \<and> sorted_wrt (\<lambda>a b. \<not> sameVMessConnection a b) nodes"
proof (induction lines arbitrary: n acc)
  case (Cons line lines)
  obtain known node where l: "subscription_line src env line = Inr (known, node)"
    using Cons.prems(1) by (auto split: sum.splits)
  have wf: "endpoint_wf e" if "node = Some e" for e
    using l that parseExternalURI_wf [of src env line e]
    by (auto simp: subscription_line_def split: option.splits if_splits sum.splits)
  let ?acc = "case node of None \<Rightarrow> acc
    | Some e \<Rightarrow> if list_ex (\<lambda>x. sameVMessConnection x e) acc then acc else acc @ [e]"
  have "list_all endpoint_wf ?acc" "sorted_wrt (\<lambda>a b. \<not> sameVMessConnection a b) ?acc"
    using Cons.prems(2,3) wf by (auto simp: sorted_wrt_append list_ex_iff split: option.splits)
  then show ?case using Cons.IH [of _ ?acc] Cons.prems(1) l by simp
qed simp

lemma parseVMessSubscription_wf:
  "parseVMessSubscription src env body = Inr nodes \<Longrightarrow>
   list_all endpoint_wf nodes \<and> sorted_wrt (\<lambda>a b. \<not> sameVMessConnection a b) nodes"
  using subscription_lines_wf [of src env _ 0 "[]" _ nodes]
  by (fastforce simp: parseVMessSubscription_def split: sum.splits if_splits)

text \<open>
  C36. What the importer lets in has the shape the gateways rely on: every node of a subscription, whatever the
  provider sent, has a UUID, a port, an address, a known transport and cipher (VMess) or the fixed Vision and
  REALITY parameters (VLESS), and no two of them are the same connection.
\<close>

theorem import_well_formed:
  assumes "parseVMessSubscription src env body = Inr nodes"
  shows "list_all endpoint_wf nodes \<and> (\<forall>i < length nodes. \<forall>k < i. \<not> sameVMessConnection (nodes ! k) (nodes ! i))"
  using parseVMessSubscription_wf [OF assms] by (auto simp: sorted_wrt_iff_nth_less)

definition demo_source :: Source where
  "demo_source = \<lparr>so_get = (\<lambda>_. Inl []), so_vmess = (\<lambda>s. Some \<lparr>vi_Version = ''2'', vi_Name = s, vi_Address = ''node.example'', vi_Port = JNumber (Some 443),
     vi_UUID = ''6f0c1c1e-0000-4000-8000-000000000001'', vi_Cipher = [], vi_AlterID = JNumber (Some 0), vi_Network = ''ws'', vi_Path = [], vi_Host = [],
     vi_TLS = ''tls'', vi_ServerName = [], vi_HeaderType = [], vi_ALPN = [], vi_Fingerprint = [], vi_Insecure = JNil, vi_VCN = [], vi_PCS = []\<rparr>),
     so_query = (\<lambda>_. None), so_user = (\<lambda>_. None), so_fingerprint = (\<lambda>_. False)\<rparr>"

definition demo_subscription :: string where
  "demo_subscription = ''vmess://YQ ss://other vmess://Yg''"

theorem import_well_formed_witness:
  "\<exists>e. parseVMessSubscription demo_source demo_ctx demo_subscription = Inr [e] \<and> list_all endpoint_wf [e]"
proof -
  have "map_sum (\<lambda>_. ()) (map ve_Path) (parseVMessSubscription demo_source demo_ctx demo_subscription) = Inr [''/'']" by code_simp
  then obtain e where e: "parseVMessSubscription demo_source demo_ctx demo_subscription = Inr [e]"
    by (cases "parseVMessSubscription demo_source demo_ctx demo_subscription") auto
  then show ?thesis using import_well_formed [OF e] by blast
qed

lemma uuid_nonempty: "vmessUUIDPattern u \<Longrightarrow> u \<noteq> []"
  by (auto simp: vmessUUIDPattern_def Let_def)

text \<open>Selecting by key.\<close>

definition select_step :: "Env \<Rightarrow> string \<Rightarrow> VMessEndpoint \<Rightarrow> VMessEndpoint \<times> nat \<Rightarrow> VMessEndpoint \<times> nat" where
  "select_step env key node p =
     (case p of (selected, n) \<Rightarrow>
        if key_matches env key node then
          (if 0 < n \<and> sameVMessConnection selected node then (selected, n) else (node, Suc n))
        else (selected, n))"

lemma sameVMess_equiv: "sameVMessConnection a a" "sameVMessConnection a b = sameVMessConnection b a"
  "sameVMessConnection a b \<Longrightarrow> sameVMessConnection b c \<Longrightarrow> sameVMessConnection a c"
  by (auto simp: sameVMessConnection_def Let_def)

lemma select_fold:
  "fold (select_step env key) nodes (sel, n) = (e, m) \<Longrightarrow> n \<le> m \<and>
   (m = n \<longrightarrow> e = sel \<and> (\<forall>x\<in>set nodes. key_matches env key x \<longrightarrow> 0 < n \<and> sameVMessConnection sel x)) \<and>
   (n = 0 \<longrightarrow> m = 1 \<longrightarrow> e \<in> set nodes \<and> key_matches env key e \<and>
      (\<forall>x\<in>set nodes. key_matches env key x \<longrightarrow> sameVMessConnection e x))"
proof (induction nodes arbitrary: sel n)
  case (Cons x xs)
  from Cons.prems obtain sel' n' where s: "select_step env key x (sel, n) = (sel', n')"
    and f: "fold (select_step env key) xs (sel', n') = (e, m)" by (cases "select_step env key x (sel, n)") auto
  note ih = Cons.IH [OF f]
  show ?case using ih s sameVMess_equiv by (auto simp: select_step_def split: if_splits)
qed simp

lemma selectedEndpoint_eq:
  "selectedEndpoint env nodes key =
     (case fold (select_step env key) nodes (zero_VMessEndpoint, 0) of (selected, n) \<Rightarrow>
        if n \<noteq> 1 then Inl (''selected external node has '' @ Itoa (int n) @ '' matches'') else Inr selected)"
proof -
  have "select_step env key = (\<lambda>node (selected, count). if key_matches env key node
      then (if 0 < count \<and> sameVMessConnection selected node then (selected, count) else (node, Suc count)) else (selected, count))"
    by (auto simp: fun_eq_iff select_step_def)
  then show ?thesis by (simp add: selectedEndpoint_def)
qed

subsection \<open>The invariants\<close>

lemma sameVMessConnection_UUID: "sameVMessConnection a b \<Longrightarrow> ve_UUID a = ve_UUID b"
  by (cases a; cases b) (simp add: sameVMessConnection_def)

lemma createUpstream_ok:
  assumes "topo_ok s" "createUpstream_tx u s = Inr (r, s')" "mget (st_Upstreams s) (vu_ID u) = None" "vu_ID u \<noteq> []"
  shows "topo_ok s'"
proof -
  have s: "sound nobody s" using assms(1) by (simp add: topo_ok_sound)
  have "\<not> t_by_upstream (topo s) (vu_ID u) q" for q
    using sound_refs(4) [OF s, of "tq_route q"] assms(3,4)
    by (auto simp: t_by_upstream_def route_core_def split: option.splits)
  then show ?thesis
    using assms(2,4) by (auto simp: createUpstream_tx_def topo_ok_sound intro!: sound_mono [OF sound_put_upstream [OF s]])
qed

text \<open>An upstream stored over an existing one with the same switch, withdrawing its routes unless the endpoint is the same.\<close>

lemma replace_upstream_ok:
  assumes "sound P s" "mget (st_Upstreams s) i = Some u0" "vu_ID u = vu_ID u0" "vu_Enabled u = vu_Enabled u0"
    and "c \<or> sameVMessConnection (vu_Endpoint u0) (vu_Endpoint u)"
  shows "sound P (if c then bumpUpstreamRoutes i (s\<lparr>st_Upstreams := mput i u (st_Upstreams s)\<rparr>)
    else s\<lparr>st_Upstreams := mput i u (st_Upstreams s)\<rparr>)"
proof (cases c)
  case True
  then show ?thesis using sound_store_upstream [OF assms(1), of u i] assms(3) sound_keyed(4) [OF assms(1,2)] by simp
next
  case False
  then have "upstream_core u = upstream_core u0"
    using assms(3-5) sameVMessConnection_UUID [of "vu_Endpoint u0" "vu_Endpoint u"] by (simp add: upstream_core_def)
  then show ?thesis using sound_put_upstream_same [OF assms(1,2)] False by simp
qed

lemma editUpstream_ok:
  assumes "topo_ok s" "editUpstream_tx i name rep current updated s = Inr (r, s')"
  shows "topo_ok s'"
proof -
  have s: "sound nobody s" using assms(1) by (simp add: topo_ok_sound)
  obtain u0 where u0: "mget (st_Upstreams s) i = Some u0" using assms(2) by (auto simp: editUpstream_tx_def split: option.splits)
  define u where "u = (if rep then u0\<lparr>vu_Name := name, vu_SubscriptionURL := vu_SubscriptionURL updated,
    vu_SelectedKey := vu_SelectedKey updated, vu_Endpoint := vu_Endpoint updated, vu_Candidates := vu_Candidates updated,
    vu_LastRefresh := vu_LastRefresh updated, vu_LastError := vu_LastError updated\<rparr> else u0\<lparr>vu_Name := name\<rparr>)"
  have "s' = (if \<not> sameVMessConnection (vu_Endpoint u0) (vu_Endpoint u)
      then bumpUpstreamRoutes i (s\<lparr>st_Upstreams := mput i u (st_Upstreams s)\<rparr>) else s\<lparr>st_Upstreams := mput i u (st_Upstreams s)\<rparr>)"
    using assms(2) by (auto simp: editUpstream_tx_def u0 Let_def u_def split: if_splits)
  moreover have "vu_ID u = vu_ID u0" "vu_Enabled u = vu_Enabled u0" by (simp_all add: u_def)
  ultimately show ?thesis
    using replace_upstream_ok [OF s u0, of u "\<not> sameVMessConnection (vu_Endpoint u0) (vu_Endpoint u)"]
    by (simp add: topo_ok_sound)
qed

lemma selectUpstream_ok:
  assumes "topo_ok s" "selectUpstream_tx env i current nodes endpoint s = Inr (r, s')"
  shows "topo_ok s'"
proof -
  have s: "sound nobody s" using assms(1) by (simp add: topo_ok_sound)
  obtain u0 where u0: "mget (st_Upstreams s) i = Some u0" using assms(2) by (auto simp: selectUpstream_tx_def split: option.splits)
  define u where "u = u0\<lparr>vu_SelectedKey := upstreamKey env endpoint, vu_Endpoint := endpoint,
    vu_Candidates := subscriptionCandidates env nodes, vu_LastRefresh := e_now env, vu_LastError := []\<rparr>"
  have "s' = (if \<not> sameVMessConnection (vu_Endpoint u0) (vu_Endpoint u)
      then bumpUpstreamRoutes i (s\<lparr>st_Upstreams := mput i u (st_Upstreams s)\<rparr>) else s\<lparr>st_Upstreams := mput i u (st_Upstreams s)\<rparr>)"
    using assms(2) by (auto simp: selectUpstream_tx_def u0 Let_def u_def split: if_splits)
  then show ?thesis
    using replace_upstream_ok [OF s u0, of u "\<not> sameVMessConnection (vu_Endpoint u0) (vu_Endpoint u)"]
    by (simp add: topo_ok_sound u_def)
qed

lemma bumpUpstreamRoutes_keep [simp]: "st_Upstreams (bumpUpstreamRoutes i s) = st_Upstreams s"
  by (simp add: bumpUpstreamRoutes_def)

text \<open>A refresh stores the upstream after the withdrawal, which is the same.\<close>

lemma refresh_step_ok:
  assumes "sound P s" "mget (st_Upstreams s) i = Some u0" "vu_ID u = vu_ID u0" "vu_Enabled u = vu_Enabled u0"
    and "c \<or> sameVMessConnection (vu_Endpoint u0) (vu_Endpoint u)"
  shows "sound P (let s1 = (if c then bumpUpstreamRoutes i s else s) in s1\<lparr>st_Upstreams := mput i u (st_Upstreams s1)\<rparr>)"
  using replace_upstream_ok [OF assms(1-5)] by (cases c) (simp_all add: bumpUpstreamRoutes_put Let_def)

lemma refreshUpstream_ok:
  assumes "topo_ok s" "refreshUpstream_tx env i current fetched s = Inr (r, s')"
  shows "topo_ok s'"
proof -
  have s: "sound nobody s" using assms(1) by (simp add: topo_ok_sound)
  obtain u0 where u0: "mget (st_Upstreams s) i = Some u0" using assms(2) by (auto simp: refreshUpstream_tx_def split: option.splits)
  have "\<exists>u c. vu_ID u = vu_ID u0 \<and> vu_Enabled u = vu_Enabled u0 \<and> (c \<or> sameVMessConnection (vu_Endpoint u0) (vu_Endpoint u)) \<and>
      s' = (let s1 = (if c then bumpUpstreamRoutes i s else s) in s1\<lparr>st_Upstreams := mput i u (st_Upstreams s1)\<rparr>)"
  proof (cases fetched)
    case (Inl err)
    then show ?thesis
      using assms(2) by (intro exI [of _ "u0\<lparr>vu_LastError := err\<rparr>"] exI [of _ False])
        (auto simp: refreshUpstream_tx_def u0 sameVMessConnection_def split: if_splits)
  next
    case (Inr nodes)
    define u where "u = u0\<lparr>vu_Candidates := subscriptionCandidates env nodes, vu_LastRefresh := e_now env, vu_LastError := []\<rparr>"
    have u: "vu_ID u = vu_ID u0" "vu_Enabled u = vu_Enabled u0" "vu_Endpoint u = vu_Endpoint u0" by (simp_all add: u_def)
    consider (selected) "vu_SelectedKey u \<noteq> []" | (single) "vu_SelectedKey u = []" "length nodes = 1"
      | (none) "vu_SelectedKey u = []" "length nodes \<noteq> 1" by blast
    then show ?thesis
    proof cases
      case selected
      show ?thesis
      proof (cases "reselect env nodes u")
        case (Inl err)
        then show ?thesis
          using assms(2) u selected \<open>fetched = Inr nodes\<close>
          by (intro exI [of _ "u\<lparr>vu_LastError := err, vu_Endpoint := zero_VMessEndpoint\<rparr>"]
                exI [of _ "\<not> sameVMessConnection (vu_Endpoint u) zero_VMessEndpoint"])
             (auto simp: refreshUpstream_tx_def u0 u_def [symmetric] Let_def split: if_splits)
      next
        case (Inr e)
        then show ?thesis
          using assms(2) u selected \<open>fetched = Inr nodes\<close>
          by (intro exI [of _ "u\<lparr>vu_SelectedKey := upstreamKey env e, vu_Endpoint := e\<rparr>"]
                exI [of _ "\<not> sameVMessConnection (vu_Endpoint u) e"])
             (auto simp: refreshUpstream_tx_def u0 u_def [symmetric] Let_def split: if_splits)
      qed
    next
      case single
      then show ?thesis
        using assms(2) u
        by (intro exI [of _ "u\<lparr>vu_SelectedKey := upstreamKey env (hd nodes), vu_Endpoint := hd nodes\<rparr>"] exI [of _ True])
           (auto simp: refreshUpstream_tx_def u0 Inr u_def [symmetric] Let_def split: if_splits)
    next
      case none
      then show ?thesis
        using assms(2) u by (intro exI [of _ u] exI [of _ False])
          (auto simp: refreshUpstream_tx_def u0 Inr u_def [symmetric] Let_def sameVMessConnection_def split: if_splits)
    qed
  qed
  then show ?thesis using refresh_step_ok [OF s u0] by (auto simp: topo_ok_sound simp del: Let_def)
qed

lemma toggleUpstream_ok:
  assumes "topo_ok s" "toggleUpstream_tx i s = Inr (r, s')"
  shows "topo_ok s'"
proof -
  have s: "sound nobody s" using assms(1) by (simp add: topo_ok_sound)
  obtain u where u: "mget (st_Upstreams s) i = Some u" using assms(2) by (auto simp: toggleUpstream_tx_def split: option.splits)
  have "vu_ID u = i" "i \<noteq> []" using sound_keyed(4) [OF s u] by simp_all
  then show ?thesis
    using assms(2) u by (auto simp: toggleUpstream_tx_def topo_ok_sound intro!: sound_store_upstream [OF s])
qed

lemma removeAttachment_upstreams [simp]: "st_Upstreams (removeAttachment now i s) = st_Upstreams s"
  by (auto simp: removeAttachment_def Let_def fold_remove_keep split: option.split)

lemma fold_removeAttachment_upstreams [simp]: "st_Upstreams (fold (removeAttachment now) is s) = st_Upstreams s"
  by (induction "is" arbitrary: s) simp_all

lemma deleteUpstream_ok:
  assumes "topo_ok s" "deleteUpstream_tx env i name s = Inr (r, s')"
  shows "topo_ok s'" and "mget (st_Upstreams s') i = None"
    and "t_routes (topo s') = t_drop (\<lambda>r. tr_up r = i) (t_routes (topo s))"
proof -
  have s: "sound nobody s" using assms(1) by (simp add: topo_ok_sound)
  obtain u where u: "mget (st_Upstreams s) i = Some u" using assms(2) by (auto simp: deleteUpstream_tx_def split: option.splits)
  have uid: "vu_ID u = i" "i \<noteq> []" using sound_keyed(4) [OF s u] by simp_all
  define L where "L = map fst (filter (\<lambda>(_, a). at_UpstreamID a = i) (st_Attachments s))"
  define s1 where "s1 = fold (removeAttachment (e_now env)) L s"
  have s': "s' = s1\<lparr>st_Upstreams := mdel i (st_Upstreams s1)\<rparr>"
    using assms(2) by (auto simp: deleteUpstream_tx_def u uid Let_def s1_def L_def split: if_splits)
  have wf: "mwf (st_Attachments s)" using soundD(1) [OF s] by (simp add: maps_ok_def)
  have in_L: "k \<in> set L \<longleftrightarrow> (\<exists>a. mget (st_Attachments s) k = Some a \<and> at_UpstreamID a = i)" for k
    using mget_in_iff [OF wf, of k] by (force simp: L_def)
  have dist: "distinct L" using wf mwf_filter [of "st_Attachments s" "\<lambda>(_, a). at_UpstreamID a = i"] by (simp add: mwf_def L_def)
  have view: "topo s1 = fold t_remove_route L (topo s) \<and> maps_ok s1 \<and> st_NodeStatus s1 = st_NodeStatus s"
    unfolding s1_def by (rule fold_removeAttachment_view [OF soundD(1,3) [OF s] dist]) (use in_L in auto)
  have routes: "t_routes (topo s1) = t_drop (\<lambda>r. tr_up r = i) (t_routes (topo s))"
    using view in_L by (auto simp: fun_eq_iff fold_t_remove_route t_drop_def route_core_def split: option.split)
  have s1: "sound nobody s1" using topo_ok_fold_removeAttachment [OF assms(1)] by (simp add: s1_def topo_ok_sound)
  have t: "topo s' = (topo s1)\<lparr>t_upstreams := (t_upstreams (topo s1))(i := None)\<rparr>"
    by (simp add: s' topo_def fun_eq_iff)
  have "t_ok nobody (topo s')"
    unfolding t by (rule t_ok_del_upstream [OF soundD(6) [OF s1]]) (use routes in \<open>auto simp del: topo_sel\<close>)
  then have "sound nobody s'"
    by (rule soundI [OF s1, rotated 2]) (use soundD(1) [OF s1] in \<open>simp_all add: s' maps_ok_def\<close>)
  then show "topo_ok s'" by (simp add: topo_ok_sound)
  show "mget (st_Upstreams s') i = None" by (simp add: s')
  show "t_routes (topo s') = t_drop (\<lambda>r. tr_up r = i) (t_routes (topo s))" using t routes by simp
qed

lemma attachUpstream_ok:
  assumes "topo_ok s" "attachUpstream_tx env i gatewayID upstreamID s = Inr (r, s')"
    and "mget (st_Attachments s) i = None" "i \<noteq> []"
  shows "topo_ok s'"
proof -
  have s: "sound nobody s" using assms(1) by (simp add: topo_ok_sound)
  define a where "a = zero_Attachment\<lparr>at_ID := i, at_GatewayID := gatewayID, at_UpstreamID := upstreamID, at_Enabled := True,
    at_CreatedAt := e_now env\<rparr>"
  let ?s1 = "s\<lparr>st_Attachments := mput i a (st_Attachments s)\<rparr>"
  obtain u where ex: "mget (st_Gateways s) gatewayID \<noteq> None" "mget (st_Upstreams s) upstreamID = Some u"
    and s': "s' = bumpGateway gatewayID ?s1"
    using assms(2) by (auto simp: attachUpstream_tx_def a_def split: if_splits)
  have "upstreamID \<noteq> []" using sound_keyed(4) [OF s ex(2)] by simp
  then have "sound nobody ?s1"
    by (intro sound_mono [OF sound_put_route [OF s]]) (use ex assms(3,4) in \<open>auto simp: a_def zero_Attachment_def\<close>)
  then show ?thesis unfolding s' topo_ok_sound using ex by (intro sound_bump) simp_all
qed

lemma requestUpstreamProbe_ok:
  assumes "topo_ok s" "requestUpstreamProbe_tx env i requestID s = Inr (r, s')"
  shows "topo_ok s'"
proof -
  have s: "sound nobody s" using assms(1) by (simp add: topo_ok_sound)
  obtain a where a: "mget (st_Attachments s) i = Some a" using assms(2) by (auto simp: requestUpstreamProbe_tx_def split: option.splits)
  have "s' = s \<or> s' = s\<lparr>st_Attachments := mput i (a\<lparr>at_ProbeRequestID := requestID, at_ProbeRequestedAt := e_now env\<rparr>) (st_Attachments s)\<rparr>"
    using assms(2) by (auto simp: requestUpstreamProbe_tx_def a Let_def split: if_splits)
  then show ?thesis
    using s sound_put_route_same [OF s a] by (auto simp: topo_ok_sound route_core_def)
qed

end
