(* ===== verification/Node_Api.thy ===== *)
theory Node_Api
  imports Upgrades
begin

text \<open>
  The interface of the nodes (\<open>src/internal/controller/api_handlers.go\<close>, \<open>dto.go\<close>): enrollment,
  authentication, configuration and status reports, and the announcement of a gateway's public
  address (\<open>gateway_address.go\<close>).

  A status report is where grants become published: a gateway that has applied its desired version
  and is ready publishes the grants whose route is available.
\<close>

subsection \<open>Messages\<close>

record GatewayUpstreamConfig =
  gu_ProbeRequestID :: string
  gu_AttachmentID :: string
  gu_UpstreamID :: string
  gu_Endpoint :: VMessEndpoint

record GatewayLinkConfig =
  gk_Link :: Link
  gk_AgentID :: string
  gk_TunnelToken :: string

record GatewayConfig =
  gc_Revision :: uint64
  gc_Gateway :: Gateway
  gc_Grants :: "Grant list"
  gc_Links :: "GatewayLinkConfig list"
  gc_Upstreams :: "GatewayUpstreamConfig list"

record AgentLinkConfig =
  al_Link :: Link
  al_GrantIDs :: "string list"
  al_GatewayID :: string
  al_TunnelToken :: string
  al_RealityPublicKey :: string
  al_RealityName :: string

record AgentConfig =
  ac_AuditGrants :: "uint64 gomap"
  ac_Revision :: uint64
  ac_Agent :: Agent
  ac_Links :: "AgentLinkConfig list"
  ac_GrantIDs :: "string list"

record EnrollmentRequest =
  er_Token :: string
  er_Role :: Role
  er_NodeID :: string
  er_WantUpdater :: bool

record EnrollmentResponse =
  es_Role :: Role
  es_NodeID :: string
  es_Credential :: string
  es_ConfigURL :: string
  es_UpdaterCredential :: string

subsection \<open>Enrollment\<close>

text \<open>The new credential replaces the current one, which stays valid for a quarter of an hour.\<close>

definition enroll_gateway :: "Env \<Rightarrow> string \<Rightarrow> Gateway \<Rightarrow> Gateway" where
  "enroll_gateway env credential node =
     (let node1 = (if gw_CredentialHash node \<noteq> []
                   then node\<lparr>gw_PreviousCredentialHash := gw_CredentialHash node, gw_PreviousCredentialExpiresAt := e_now env + 15 * minute\<rparr>
                   else node)
      in node1\<lparr>gw_CredentialHash := env_SecretHash env credential\<rparr>)"

definition enroll_agent :: "Env \<Rightarrow> string \<Rightarrow> Agent \<Rightarrow> Agent" where
  "enroll_agent env credential node =
     (let node1 = (if ag_CredentialHash node \<noteq> []
                   then node\<lparr>ag_PreviousCredentialHash := ag_CredentialHash node, ag_PreviousCredentialExpiresAt := e_now env + 15 * minute\<rparr>
                   else node)
      in node1\<lparr>ag_CredentialHash := env_SecretHash env credential\<rparr>)"

definition store_credential :: "Env \<Rightarrow> string \<Rightarrow> Enrollment \<Rightarrow> State \<Rightarrow> error + State" where
  "store_credential env credential enrollment s =
     (if en_Role enrollment = RoleGateway then
        (case mget (st_Gateways s) (en_NodeID enrollment) of
           None \<Rightarrow> Inl ''gateway no longer exists''
         | Some node \<Rightarrow> Inr (s\<lparr>st_Gateways := mput (gw_ID node) (enroll_gateway env credential node) (st_Gateways s)\<rparr>))
      else if en_Role enrollment = RoleAgent then
        (case mget (st_Agents s) (en_NodeID enrollment) of
           None \<Rightarrow> Inl ''agent no longer exists''
         | Some node \<Rightarrow>
             if ag_GatewayID node \<noteq> [] then Inl ''embedded Agent cannot enroll separately''
             else Inr (s\<lparr>st_Agents := mput (ag_ID node) (enroll_agent env credential node) (st_Agents s)\<rparr>))
      else Inl ''invalid enrollment role'')"

definition errEnrollmentUpgradeActive :: error where
  "errEnrollmentUpgradeActive = ''node has an active upgrade; retry credential rotation after it finishes''"

definition enroll_tx :: "Env \<Rightarrow> EnrollmentRequest \<Rightarrow> string \<Rightarrow> string \<Rightarrow> EnrollmentResponse tx" where
  "enroll_tx env request credential updaterCredential s =
     (case find (\<lambda>candidate. env_EqualSecretHash env (en_TokenHash candidate) (er_Token request)) (mvals (st_Enrollments s)) of
        None \<Rightarrow> Inl ''invalid or expired enrollment token''
      | Some enrollment \<Rightarrow>
          if \<not> IsZero (en_UsedAt enrollment) \<or> \<not> e_now env < en_ExpiresAt enrollment then Inl ''invalid or expired enrollment token''
          else if er_Role request \<noteq> [] \<and> er_Role request \<noteq> en_Role enrollment \<or>
                  er_NodeID request \<noteq> [] \<and> er_NodeID request \<noteq> en_NodeID enrollment
            then Inl ''enrollment token is for a different node''
          else if nodeHasActiveUpgrade s (en_NodeID enrollment) then Inl errEnrollmentUpgradeActive
          else case store_credential env credential enrollment s of
              Inl err \<Rightarrow> Inl err
            | Inr s1 \<Rightarrow>
                (let s2 = s1\<lparr>st_Enrollments := mput (en_ID enrollment) (enrollment\<lparr>en_UsedAt := e_now env\<rparr>) (st_Enrollments s1)\<rparr>;
                     s3 = (if er_WantUpdater request
                           then put_updater (en_NodeID enrollment) (zero_Updater\<lparr>up_NodeID := en_NodeID enrollment,
                                  up_Role := en_Role enrollment, up_CredentialHash := env_SecretHash env updaterCredential\<rparr>) s2
                           else s2)
                 in Inr (\<lparr>es_Role = en_Role enrollment, es_NodeID = en_NodeID enrollment, es_Credential = credential,
                          es_ConfigURL = trim_suffix (e_PublicURL env) ''/'' @ ''/api/v1/config'',
                          es_UpdaterCredential = updaterCredential\<rparr>, s3)))"

definition enroll :: "Env \<Rightarrow> EnrollmentRequest \<Rightarrow> Store \<Rightarrow> EnrollmentResponse Reply \<times> Store" where
  "enroll env request st =
     (if er_Token request = [] then (Refused 400 ''token is required'', st)
      else case e_rand env 0 of
          Inl err \<Rightarrow> (Refused 500 ''credential generation failed'', st)
        | Inr credential \<Rightarrow>
            (case (if er_WantUpdater request then e_rand env 1 else Inr []) of
               Inl err \<Rightarrow> (Refused 500 ''credential generation failed'', st)
             | Inr updaterCredential \<Rightarrow>
                 (case Update (e_store env) (enroll_tx env request credential updaterCredential) st of
                    (Inl err, st') \<Rightarrow> (Refused (if err = errEnrollmentUpgradeActive then 409 else 401) err, st')
                  | (Inr response, st') \<Rightarrow> (Json 201 response, st'))))"

subsection \<open>Authentication\<close>

definition matches_hash :: "string \<Rightarrow> string \<Rightarrow> bool" where
  "matches_hash candidateHash stored = (stored \<noteq> [] \<and> stored = candidateHash)"

definition gateway_accepts :: "Env \<Rightarrow> bool \<Rightarrow> string \<Rightarrow> Gateway \<Rightarrow> bool" where
  "gateway_accepts env includeDisabled candidateHash gateway =
     ((includeDisabled \<or> gw_Enabled gateway) \<and>
      (matches_hash candidateHash (gw_CredentialHash gateway) \<or>
       e_now env < gw_PreviousCredentialExpiresAt gateway \<and> matches_hash candidateHash (gw_PreviousCredentialHash gateway)))"

definition agent_accepts :: "Env \<Rightarrow> bool \<Rightarrow> string \<Rightarrow> Agent \<Rightarrow> bool" where
  "agent_accepts env includeDisabled candidateHash agent =
     (ag_GatewayID agent = [] \<and> (includeDisabled \<or> ag_Enabled agent) \<and>
      (matches_hash candidateHash (ag_CredentialHash agent) \<or>
       e_now env < ag_PreviousCredentialExpiresAt agent \<and> matches_hash candidateHash (ag_PreviousCredentialHash agent)))"

definition embedded_identity :: "State \<Rightarrow> bool \<Rightarrow> string \<Rightarrow> (Role \<times> string) option" where
  "embedded_identity s includeDisabled i =
     (let agentID = GatewayAgentID i; agent = agent_at s agentID in
      if ag_ID agent \<noteq> [] \<and> ag_GatewayID agent \<noteq> i then None
      else if includeDisabled \<or> ag_GatewayID agent = i \<and> agentEnabled s agent then Some (RoleAgent, agentID)
      else None)"

definition identify_node :: "Env \<Rightarrow> State \<Rightarrow> bool \<Rightarrow> bool \<Rightarrow> string \<Rightarrow> (Role \<times> string) option" where
  "identify_node env s includeDisabled embedded credential =
     (let candidateHash = env_SecretHash env credential in
      case find (\<lambda>(_, gateway). gateway_accepts env includeDisabled candidateHash gateway) (st_Gateways s) of
        Some (i, _) \<Rightarrow> if embedded then embedded_identity s includeDisabled i else Some (RoleGateway, i)
      | None \<Rightarrow>
          if embedded then None
          else map_option (\<lambda>(i, _). (RoleAgent, i))
                 (find (\<lambda>(_, agent). agent_accepts env includeDisabled candidateHash agent) (st_Agents s)))"

definition authenticateNodeIdentity :: "Env \<Rightarrow> Request \<Rightarrow> bool \<Rightarrow> State \<Rightarrow> (Role \<times> string) option" where
  "authenticateNodeIdentity env r includeDisabled s =
     (case bearer r of
        None \<Rightarrow> None
      | Some credential \<Rightarrow>
          if 256 < length credential then None
          else case identify_node env s includeDisabled (HeaderGet r ''X-XMesh-Embedded-Agent'' = ''1'') credential of
              None \<Rightarrow> None
            | Some (role, nodeID) \<Rightarrow> if nodeID = [] then None else Some (role, nodeID))"

definition authenticateNode :: "Env \<Rightarrow> Request \<Rightarrow> State \<Rightarrow> (Role \<times> string) option" where
  "authenticateNode env r s = authenticateNodeIdentity env r False s"

definition selfStatus :: "Env \<Rightarrow> Request \<Rightarrow> Store \<Rightarrow> NodeStatus Reply" where
  "selfStatus env r st =
     (case authenticateNode env r (store_Snapshot st) of
        None \<Rightarrow> Refused 401 ''unauthorized''
      | Some (_, nodeID) \<Rightarrow> Json 200 (status_at (store_Snapshot st) nodeID))"

subsection \<open>Configuration\<close>

definition tunnel_token :: "Env \<Rightarrow> string \<Rightarrow> string" where
  "tunnel_token env linkID = Derive (e_hmac env) (e_sessionKey env) ''tunnel'' linkID"

text \<open>The part of a gateway's configuration that one of its routes contributes.\<close>

definition route_upstreams :: "State \<Rightarrow> Attachment \<Rightarrow> GatewayUpstreamConfig list" where
  "route_upstreams s attachment =
     (if at_UpstreamID attachment \<noteq> [] \<and> upstreamAvailable s attachment
      then let upstream = upstream_at s (at_UpstreamID attachment)
           in [\<lparr>gu_ProbeRequestID = at_ProbeRequestID attachment, gu_AttachmentID = at_ID attachment,
                gu_UpstreamID = vu_ID upstream, gu_Endpoint = vu_Endpoint upstream\<rparr>]
      else [])"

definition route_links :: "Env \<Rightarrow> State \<Rightarrow> Attachment \<Rightarrow> GatewayLinkConfig list" where
  "route_links env s attachment =
     (if at_UpstreamID attachment \<noteq> [] then []
      else map (\<lambda>link. \<lparr>gk_Link = link\<lparr>lk_TunnelTokenHash := []\<rparr>, gk_AgentID = at_AgentID attachment,
                         gk_TunnelToken = tunnel_token env (lk_ID link)\<rparr>)
             (filter (\<lambda>link. lk_AttachmentID link = at_ID attachment \<and> lk_Enabled link) (mvals (st_Links s))))"

definition route_grants :: "State \<Rightarrow> bool \<Rightarrow> Attachment \<Rightarrow> Grant list" where
  "route_grants s ingress attachment =
     filter (\<lambda>grant. gr_AttachmentID grant = at_ID attachment \<and> gr_Enabled grant \<and> u_Enabled (user_at s (gr_UserID grant)) \<and>
       routeAvailable s attachment \<and> ingress) (mvals (st_Grants s))"

definition gateway_config :: "Env \<Rightarrow> bool \<Rightarrow> string \<Rightarrow> State \<Rightarrow> GatewayConfig" where
  "gateway_config env controls nodeID s =
     (let gateway = gateway_at s nodeID in
      if \<not> gw_Enabled gateway
      then \<lparr>gc_Revision = gw_DesiredVersion gateway, gc_Gateway = zero_Gateway\<lparr>gw_ID := nodeID\<rparr>, gc_Grants = [], gc_Links = [], gc_Upstreams = []\<rparr>
      else
        let g1 = gateway\<lparr>gw_CredentialHash := [], gw_PreviousCredentialHash := [], gw_PreviousCredentialExpiresAt := 0\<rparr>;
            g2 = (if gw_PublicHost g1 = [] then g1\<lparr>gw_HY2Port := 0\<rparr> else g1);
            g3 = (if \<not> controls \<and> gw_HY2Disabled g2 then g2\<lparr>gw_HY2Port := 0\<rparr> else g2);
            routes = filter (\<lambda>a. at_GatewayID a = nodeID \<and> at_Enabled a) (mvals (st_Attachments s))
        in \<lparr>gc_Revision = gw_DesiredVersion gateway, gc_Gateway = g3,
            gc_Grants = sort_slice (\<lambda>a b. gr_ID a < gr_ID b) (concat (map (route_grants s (\<not> gw_VMessDisabled gateway \<or> controls)) routes)),
            gc_Links = sort_slice (\<lambda>a b. lk_ID (gk_Link a) < lk_ID (gk_Link b)) (concat (map (route_links env s) routes)),
            gc_Upstreams = sort_slice (\<lambda>a b. gu_AttachmentID a < gu_AttachmentID b) (concat (map (route_upstreams s) routes))\<rparr>)"

definition live_grants :: "State \<Rightarrow> Attachment \<Rightarrow> Grant list" where
  "live_grants s attachment =
     filter (\<lambda>grant. gr_AttachmentID grant = at_ID attachment \<and> gr_Enabled grant \<and> u_Enabled (user_at s (gr_UserID grant)))
       (mvals (st_Grants s))"

definition agent_links :: "Env \<Rightarrow> State \<Rightarrow> Attachment \<Rightarrow> AgentLinkConfig list" where
  "agent_links env s attachment =
     (let grantIDs = sort_slice (<) (map gr_ID (live_grants s attachment));
          gateway = gateway_at s (at_GatewayID attachment)
      in map (\<lambda>link. \<lparr>al_Link = link\<lparr>lk_TunnelTokenHash := []\<rparr>, al_GrantIDs = grantIDs, al_GatewayID = at_GatewayID attachment,
                al_TunnelToken = tunnel_token env (lk_ID link), al_RealityPublicKey = gw_RealityPublicKey gateway,
                al_RealityName = gw_RealityName gateway\<rparr>)
           (filter (\<lambda>link. lk_AttachmentID link = at_ID attachment \<and> lk_Enabled link \<and> \<not> (lk_AutoURL link \<and> lk_URL link = []))
              (mvals (st_Links s))))"

definition agent_config :: "Env \<Rightarrow> string \<Rightarrow> State \<Rightarrow> AgentConfig" where
  "agent_config env nodeID s =
     (let agent = agent_at s nodeID in
      if \<not> agentEnabled s agent
      then \<lparr>ac_AuditGrants = [], ac_Revision = ag_DesiredVersion agent, ac_Agent = zero_Agent\<lparr>ag_ID := nodeID\<rparr>, ac_Links = [], ac_GrantIDs = []\<rparr>
      else
        let routes = filter (\<lambda>a. at_AgentID a = nodeID \<and> routeAvailable s a) (mvals (st_Attachments s));
            grants = concat (map (live_grants s) routes)
        in \<lparr>ac_AuditGrants = fold (\<lambda>grant m. let user = user_at s (gr_UserID grant) in
                if u_AuditEnabled user then mput (gr_ID grant) (u_AuditGeneration user) m else m) grants [],
            ac_Revision = ag_DesiredVersion agent,
            ac_Agent = agent\<lparr>ag_CredentialHash := [], ag_PreviousCredentialHash := [], ag_PreviousCredentialExpiresAt := 0\<rparr>,
            ac_Links = sort_slice (\<lambda>a b. lk_ID (al_Link a) < lk_ID (al_Link b)) (concat (map (agent_links env s) routes)),
            ac_GrantIDs = sort_slice (<) (map gr_ID grants)\<rparr>)"

datatype NodeConfig = Gateway_Config GatewayConfig | Agent_Config AgentConfig

definition nodeConfig :: "Env \<Rightarrow> Request \<Rightarrow> Store \<Rightarrow> NodeConfig Reply" where
  "nodeConfig env r st =
     (let s = store_Snapshot st in
      case authenticateNodeIdentity env r True s of
        None \<Rightarrow> Refused 401 ''unauthorized''
      | Some (role, nodeID) \<Rightarrow>
          if role = RoleGateway then Json 200 (Gateway_Config (gateway_config env (HeaderGet r ''X-XMesh-Ingress-Controls'' = ''1'') nodeID s))
          else Json 200 (Agent_Config (agent_config env nodeID s)))"

subsection \<open>Status\<close>

text \<open>A change of capability alters the users in the gateway's configuration: the version is bumped if it does.\<close>

definition bump_external :: "bool \<Rightarrow> string \<Rightarrow> State \<Rightarrow> State" where
  "bump_external externalChanged nodeID s =
     (if externalChanged \<and> list_ex (\<lambda>grant. let attachment = attachment_at s (gr_AttachmentID grant) in
           at_GatewayID attachment = nodeID \<and> at_Enabled attachment \<and> gw_Enabled (gateway_at s nodeID) \<and> gr_Enabled grant \<and>
           u_Enabled (user_at s (gr_UserID grant)) \<and> upstreamAvailable s attachment) (mvals (st_Grants s))
      then bumpGateway nodeID s else s)"

definition withdraw_external :: "string \<Rightarrow> State \<Rightarrow> State" where
  "withdraw_external nodeID s =
     unpublish (\<lambda>grant. let attachment = attachment_at s (gr_AttachmentID grant) in
       at_GatewayID attachment = nodeID \<and> at_UpstreamID attachment \<noteq> []) s"

text \<open>The first report with the new credential ends the grace period of the old one.\<close>

definition confirm_credential :: "Env \<Rightarrow> Role \<Rightarrow> string \<Rightarrow> string \<Rightarrow> State \<Rightarrow> State" where
  "confirm_credential env role nodeID credential s =
     (if role = RoleGateway then
        let gateway = gateway_at s nodeID in
        if env_EqualSecretHash env (gw_CredentialHash gateway) credential
        then s\<lparr>st_Gateways := mput nodeID (gateway\<lparr>gw_PreviousCredentialHash := [], gw_PreviousCredentialExpiresAt := 0\<rparr>) (st_Gateways s)\<rparr>
        else s
      else
        let agent = agent_at s nodeID in
        if env_EqualSecretHash env (ag_CredentialHash agent) credential
        then s\<lparr>st_Agents := mput nodeID (agent\<lparr>ag_PreviousCredentialHash := [], ag_PreviousCredentialExpiresAt := 0\<rparr>) (st_Agents s)\<rparr>
        else s)"

definition allowed_link :: "Role \<Rightarrow> string \<Rightarrow> gotime \<Rightarrow> State \<Rightarrow> string \<Rightarrow> bool" where
  "allowed_link role nodeID now s i =
     (list_ex (\<lambda>attachment.
         (role = RoleGateway \<and> at_GatewayID attachment = nodeID \<or> role = RoleAgent \<and> at_AgentID attachment = nodeID) \<and>
         (role = RoleGateway \<and> at_UpstreamID attachment \<noteq> [] \<and> at_ID attachment = i \<or>
          list_ex (\<lambda>link. lk_AttachmentID link = at_ID attachment \<and> lk_ID link = i) (mvals (st_Links s)))) (mvals (st_Attachments s)) \<or>
      list_ex (\<lambda>(k, link). k = i \<and> now < rl_ExpiresAt link \<and>
         (role = RoleGateway \<and> rl_GatewayID link = nodeID \<or> role = RoleAgent \<and> rl_AgentID link = nodeID)) (st_RetiredLinks s))"

definition live_link :: "State \<Rightarrow> string \<Rightarrow> bool" where
  "live_link s i = (mget (st_Links s) i \<noteq> None \<or> (case mget (st_Attachments s) i of None \<Rightarrow> False | Some a \<Rightarrow> at_UpstreamID a \<noteq> []))"

fun store_links :: "Role \<Rightarrow> string \<Rightarrow> gotime \<Rightarrow> (string \<Rightarrow> bool) \<Rightarrow> LinkStatus list \<Rightarrow> State \<Rightarrow> error + State" where
  "store_links role nodeID now allowed [] s = Inr s"
| "store_links role nodeID now allowed (status # rest) s =
     (if \<not> allowed (ls_LinkID status) then Inl (''link '' @ ls_LinkID status @ '' does not belong to node'')
      else if \<not> live_link s (ls_LinkID status) then store_links role nodeID now allowed rest s
      else
        let status' = status\<lparr>ls_LastSeen := now, ls_ReporterNodeID := nodeID\<rparr>;
            s1 = s\<lparr>st_LinkStatus := mput (nodeID @ ''/'' @ ls_LinkID status') status' (st_LinkStatus s)\<rparr>;
            s2 = (if role = RoleGateway \<and> lk_ID (zget zero_Link (st_Links s1) (ls_LinkID status')) \<noteq> []
                  then sampleLinkHistory status' now s1 else s1)
        in store_links role nodeID now allowed rest s2)"

definition store_grant :: "Role \<Rightarrow> string \<Rightarrow> string \<Rightarrow> gotime \<Rightarrow> GrantStatus \<Rightarrow> State \<Rightarrow> error + State" where
  "store_grant role nodeID instanceID now status s =
     (case mget (st_Grants s) (gs_GrantID status) of
        None \<Rightarrow>
          (case mget (st_RetiredGrants s) (gs_GrantID status) of
             None \<Rightarrow> Inl (''grant '' @ gs_GrantID status @ '' does not exist'')
           | Some retired \<Rightarrow>
               if role \<noteq> RoleGateway \<or> rg_GatewayID retired \<noteq> nodeID \<or> \<not> now < rg_ExpiresAt retired
               then Inl (''grant '' @ gs_GrantID status @ '' does not exist'')
               else sampleRetiredGrantUsage instanceID (gs_GrantID status) retired (gs_Links status) now s)
      | Some grant \<Rightarrow>
          if role \<noteq> RoleGateway \<or> at_GatewayID (attachment_at s (gr_AttachmentID grant)) \<noteq> nodeID
          then Inl (''grant '' @ gs_GrantID status @ '' does not belong to gateway'')
          else (case sampleGrantUsage instanceID (gs_GrantID status) (gs_Links status) now s of
              Inl err \<Rightarrow> Inl err
            | Inr s1 \<Rightarrow> Inr (s1\<lparr>st_GrantStatus := mput (nodeID @ ''/'' @ gs_GrantID status)
                  (status\<lparr>gs_ReporterNodeID := nodeID, gs_LastSeen := now\<rparr>) (st_GrantStatus s1)\<rparr>)))"

fun store_grants :: "Role \<Rightarrow> string \<Rightarrow> string \<Rightarrow> gotime \<Rightarrow> GrantStatus list \<Rightarrow> State \<Rightarrow> error + State" where
  "store_grants role nodeID instanceID now [] s = Inr s"
| "store_grants role nodeID instanceID now (status # rest) s =
     (case store_grant role nodeID instanceID now status s of
        Inl err \<Rightarrow> Inl err | Inr s1 \<Rightarrow> store_grants role nodeID instanceID now rest s1)"

text \<open>A gateway that is ready on its desired version serves the grants of its available routes.\<close>

definition serves_desired :: "Role \<Rightarrow> NodeStatus \<Rightarrow> Gateway \<Rightarrow> bool" where
  "serves_desired role status gateway =
     (role = RoleGateway \<and> ns_Ready status \<and> ns_XrayReady status \<and> ns_ApplyError status = [] \<and> ns_XrayError status = [] \<and>
      gw_DesiredVersion gateway \<le> ns_AppliedVersion status)"

definition publish_grants :: "Role \<Rightarrow> string \<Rightarrow> NodeStatus \<Rightarrow> State \<Rightarrow> State" where
  "publish_grants role nodeID status s =
     (let gateway = gateway_at s nodeID;
          ingressAvailable = (VMessEnabled gateway \<or> HY2Enabled gateway \<and> ns_HY2Ready status \<and> ns_IngressControls status)
      in if \<not> serves_desired role status gateway then s
         else s\<lparr>st_Grants := mmap (\<lambda>_ grant.
                let attachment = attachment_at s (gr_AttachmentID grant) in
                if at_GatewayID attachment = nodeID \<and> gr_Enabled grant \<and> u_Enabled (user_at s (gr_UserID grant)) \<and> routeAvailable s attachment
                then grant\<lparr>gr_Published := ingressAvailable\<rparr> else grant) (st_Grants s)\<rparr>)"

definition nodeStatus_tx :: "Env \<Rightarrow> Role \<Rightarrow> string \<Rightarrow> string \<Rightarrow> StatusReport \<Rightarrow> unit tx" where
  "nodeStatus_tx env role nodeID credential report0 s =
     (let now = e_now env;
          status = (sr_Status report0)\<lparr>ns_NodeID := nodeID, ns_Role := role, ns_LastSeen := now\<rparr>;
          report = report0\<lparr>sr_Status := status\<rparr>;
          externalChanged = (role = RoleGateway \<and> ns_ExternalUpstreams (status_at s nodeID) \<noteq> ns_ExternalUpstreams status);
          s1 = s\<lparr>st_NodeStatus := mput nodeID status (st_NodeStatus s)\<rparr>
      in case acceptUpstreamProbes env role nodeID report now s1 of
           Inl err \<Rightarrow> Inl err
         | Inr s2 \<Rightarrow>
             (let s3 = bump_external externalChanged nodeID s2;
                  s4 = (if role = RoleGateway \<and> (externalChanged \<or> \<not> ns_ExternalUpstreams status) then withdraw_external nodeID s3 else s3);
                  s5 = confirm_credential env role nodeID credential s4
              in case store_links role nodeID now (allowed_link role nodeID now s5) (sr_Links report) s5 of
                   Inl err \<Rightarrow> Inl err
                 | Inr s6 \<Rightarrow>
                     (case store_grants role nodeID (ns_InstanceID status) now (sr_Grants report) s6 of
                        Inl err \<Rightarrow> Inl err
                      | Inr s7 \<Rightarrow>
                          Inr ((), reconcileUpgradeRecovery env now (pruneRetiredUsage now
                            (publish_grants role nodeID status (pruneLinkHistory now (pruneUsageHistory now s7))))))))"

definition nodeStatus :: "Env \<Rightarrow> Request \<Rightarrow> StatusReport \<Rightarrow> Store \<Rightarrow> Response \<times> Store" where
  "nodeStatus env r report st =
     (case authenticateNode env r (store_Snapshot st) of
        None \<Rightarrow> (HttpError 401 ''unauthorized'', st)
      | Some (role, nodeID) \<Rightarrow>
          (case validateStatusText report of
             Some err \<Rightarrow> (HttpError 400 err, st)
           | None \<Rightarrow>
               if ns_NodeID (sr_Status report) \<noteq> [] \<and> ns_NodeID (sr_Status report) \<noteq> nodeID then (HttpError 403 ''status node mismatch'', st)
               else if ns_Role (sr_Status report) \<noteq> [] \<and> ns_Role (sr_Status report) \<noteq> role then (HttpError 403 ''status role mismatch'', st)
               else answer 400 NoContent (Update (e_store env)
                      (nodeStatus_tx env role nodeID (TrimSpace (trim_prefix (HeaderGet r ''Authorization'') ''Bearer '')) report) st)))"

end
