(* ===== verification/Node_Invariant.thy ===== *)
theory Node_Invariant
  imports Node_Api Integrity
begin

text \<open>
  What the interface of the nodes keeps and promises: a report or an enrollment preserves the
  integrity of the state, an enrollment token is good for one credential, a report publishes exactly
  the grants the gateway can serve, and a configuration contains exactly the live grants of a node
  and none of the Controller's secrets.
\<close>

subsection \<open>Changes outside the view\<close>

definition view_kept :: "State \<Rightarrow> State \<Rightarrow> bool" where
  "view_kept s s' \<longleftrightarrow> st_Users s' = st_Users s \<and> st_Gateways s' = st_Gateways s \<and> st_Agents s' = st_Agents s \<and>
     st_Upstreams s' = st_Upstreams s \<and> st_Attachments s' = st_Attachments s \<and> st_Links s' = st_Links s \<and>
     st_Grants s' = st_Grants s \<and> st_NodeStatus s' = st_NodeStatus s"

named_theorems view_kept_intros

lemma view_kept_refl [simp, view_kept_intros]: "view_kept s s"
  by (simp add: view_kept_def)

lemma view_kept_trans: "view_kept s s' \<Longrightarrow> view_kept s' s'' \<Longrightarrow> view_kept s s''"
  by (simp add: view_kept_def)

lemma view_kept_topo: "view_kept s s' \<Longrightarrow> topo s' = topo s \<and> maps_ok s' = maps_ok s \<and> st_NodeStatus s' = st_NodeStatus s"
  by (simp add: view_kept_def topo_def maps_ok_def)

lemma view_kept_sound: "sound P s \<Longrightarrow> view_kept s s' \<Longrightarrow> sound P s'"
  using view_kept_topo [of s s'] soundD(1) [of P s] by (intro sound_view [of P s s']) simp_all

lemma view_kept_route: "view_kept s s' \<Longrightarrow> routeAvailable s' = routeAvailable s"
  by (simp add: fun_eq_iff view_kept_def routeAvailable_def agentEnabled_def attachmentHasEnabledLink_def upstreamAvailable_def
      split: option.split)

lemma view_kept_sample [view_kept_intros]: "view_kept s (sampleLinkHistory status now s)"
  by (simp add: view_kept_def sampleLinkHistory_def Let_def)

lemma view_kept_usage: "sample_link_usage I g u names now link s = Inr s' \<Longrightarrow> view_kept s s'"
  by (auto simp: sample_link_usage_def view_kept_def Let_def split: option.splits if_splits)

lemma view_kept_usage_for: "sampleGrantUsageFor I g u names now links s = Inr s' \<Longrightarrow> view_kept s s'"
  by (induction links arbitrary: s) (auto split: sum.splits intro: view_kept_trans view_kept_usage)

lemma view_kept_store_grants: "store_grants role nodeID I now grants s = Inr s' \<Longrightarrow> view_kept s s'"
proof (induction grants arbitrary: s)
  case (Cons g grants)
  obtain s1 where s1: "store_grant role nodeID I now g s = Inr s1" "store_grants role nodeID I now grants s1 = Inr s'"
    using Cons.prems by (auto split: sum.splits)
  have "view_kept s s1"
    using s1(1) view_kept_usage_for [of I "gs_GrantID g" _ _ now "gs_Links g" s]
    by (fastforce simp: store_grant_def sampleGrantUsage_def sampleRetiredGrantUsage_def Let_def view_kept_def
        split: option.splits if_splits sum.splits)
  then show ?case
    using Cons.IH [OF s1(2)] by (rule view_kept_trans)
qed simp

lemma view_kept_store_links: "store_links role nodeID now allowed links s = Inr s' \<Longrightarrow> view_kept s s'"
proof (induction links arbitrary: s)
  case (Cons l links)
  show ?case
  proof (cases "live_link s (ls_LinkID l)")
    case True
    let ?s1 = "s\<lparr>st_LinkStatus := mput (nodeID @ ''/'' @ ls_LinkID l) (l\<lparr>ls_LastSeen := now, ls_ReporterNodeID := nodeID\<rparr>) (st_LinkStatus s)\<rparr>"
    let ?s2 = "if role = RoleGateway \<and> lk_ID (zget zero_Link (st_Links ?s1) (ls_LinkID l)) \<noteq> []
               then sampleLinkHistory (l\<lparr>ls_LastSeen := now, ls_ReporterNodeID := nodeID\<rparr>) now ?s1 else ?s1"
    have "view_kept s ?s1"
      by (simp add: view_kept_def)
    then have "view_kept s ?s2"
      using view_kept_trans view_kept_sample by auto
    moreover have "store_links role nodeID now allowed links ?s2 = Inr s'"
      using Cons.prems True by (auto simp: Let_def split: if_splits)
    ultimately show ?thesis
      using Cons.IH view_kept_trans by blast
  next
    case False
    then show ?thesis
      using Cons.prems Cons.IH by (simp split: if_splits)
  qed
qed simp

lemma view_kept_prune [view_kept_intros]:
  "view_kept s (pruneUsageHistory now s)" "view_kept s (pruneLinkHistory now s)" "view_kept s (pruneRetiredUsage now s)"
  by (simp_all add: view_kept_def pruneUsageHistory_def pruneLinkHistory_def pruneRetiredUsage_def Let_def)

lemma view_kept_reconcile [view_kept_intros]: "view_kept s (reconcileUpgradeRecovery env now s)"
proof -
  have "view_kept s (fold (reconcile_batch env now) bs s)" for bs s
  proof (induction bs arbitrary: s)
    case (Cons b bs)
    have "view_kept s (reconcile_batch env now b s)"
      by (simp add: view_kept_def reconcile_batch_def finishUpgradeRecovery_def Let_def split: option.splits)
    then show ?case
      using Cons.IH view_kept_trans by fastforce
  qed simp
  then show ?thesis
    by (simp add: reconcileUpgradeRecovery_def)
qed

subsection \<open>Reports\<close>

text \<open>The probes of a report change only what the view of a route does not show.\<close>

lemma store_probe_core:
  assumes "sound P s" "mget (st_Attachments s) k = Some a"
  shows "sound P (store_probe nodeID now result a s) \<and> topo (store_probe nodeID now result a s) = topo s"
proof -
  have k: "at_ID a = k"
    using sound_keyed(5) [OF assms] by simp
  have "\<exists>a'. view_kept (s\<lparr>st_Attachments := mput k a' (st_Attachments s)\<rparr>) (store_probe nodeID now result a s) \<and> route_core a' = route_core a"
    unfolding store_probe_def Let_def
    by (rule exI [of _ "(if IsZero (ps_CompletedAt result) then a else if Successful result
            then a\<lparr>at_UpstreamProbeFailureSince := 0, at_UpstreamProbeFailureVersion := 0\<rparr>
          else if IsZero (at_UpstreamProbeFailureSince a) \<or> at_UpstreamProbeFailureVersion a \<noteq> ps_Revision result
            then a\<lparr>at_UpstreamProbeFailureSince := now, at_UpstreamProbeFailureVersion := ps_Revision result\<rparr>
          else a)\<lparr>at_UpstreamProbe := Some result\<rparr>"])
      (auto simp: k route_core_def view_kept_sample)
  then obtain a' where a': "view_kept (s\<lparr>st_Attachments := mput k a' (st_Attachments s)\<rparr>) (store_probe nodeID now result a s)"
    "route_core a' = route_core a" by blast
  have "topo (s\<lparr>st_Attachments := mput k a' (st_Attachments s)\<rparr>) = topo s"
    using assms(2) a'(2) by (auto simp: topo_put fun_eq_iff intro!: Topo.equality)
  then show ?thesis
    using view_kept_sound [OF sound_put_route_same [OF assms a'(2)] a'(1)] view_kept_topo [OF a'(1)] by simp
qed

lemma accept_probes_sound:
  "sound P s \<Longrightarrow> accept_probes env nodeID report now seen results s = Inr s' \<Longrightarrow> sound P s' \<and> topo s' = topo s"
proof (induction results arbitrary: s seen)
  case (Cons r results)
  obtain seen1 s1 where s1: "accept_probe env nodeID report now seen r s = Inr (seen1, s1)"
    "accept_probes env nodeID report now seen1 results s1 = Inr s'"
    using Cons.prems(2) by (auto split: sum.splits)
  have "s1 = s \<or> (\<exists>a. mget (st_Attachments s) (ps_AttachmentID r) = Some a \<and> s1 = store_probe nodeID now r a s)"
    using s1(1) by (auto simp: accept_probe_def Let_def split: option.splits if_splits)
  then have "sound P s1 \<and> topo s1 = topo s"
    using Cons.prems(1) store_probe_core [OF Cons.prems(1)] by blast
  then show ?case
    using Cons.IH s1(2) by metis
qed simp

text \<open>The report's status is stored, and with it whether the gateway supports external upstreams.\<close>

lemma sound_status:
  assumes "sound P s" "ns_NodeID status = nodeID"
  shows "sound (\<lambda>q. P q \<or> t_cut_off (topo s) ((t_external (topo s))(nodeID := ns_ExternalUpstreams status)) q)
    (s\<lparr>st_NodeStatus := mput nodeID status (st_NodeStatus s)\<rparr>)"
proof -
  let ?s = "s\<lparr>st_NodeStatus := mput nodeID status (st_NodeStatus s)\<rparr>"
  let ?xs = "(t_external (topo s))(nodeID := ns_ExternalUpstreams status)"
  have "topo ?s = (topo s)\<lparr>t_external := ?xs\<rparr>"
    by (auto simp: topo_def fun_eq_iff)
  moreover have "status_ok ?s"
    using assms by (auto simp: sound_def status_ok_def)
  ultimately show ?thesis
    using t_ok_external [OF soundD(6) [OF assms(1)], of ?xs] soundD(1) [OF assms(1)] by (simp add: sound_def)
qed

lemma bump_external_sound: "sound P s \<Longrightarrow> sound P (bump_external changed nodeID s)"
proof -
  assume s: "sound P s"
  have "mget (st_Gateways s) nodeID \<noteq> None" if "gw_Enabled (gateway_at s nodeID)"
    using that by (cases "mget (st_Gateways s) nodeID") (auto simp: zget_def zero_Gateway_def)
  then show ?thesis
    using s sound_bump(1) [OF s, of nodeID] by (auto simp: bump_external_def Let_def list_ex_iff)
qed

lemma withdraw_external_sound:
  assumes "sound P s" "\<And>q. P q \<Longrightarrow> \<exists>r. t_routes (topo s) (tq_route q) = Some r \<and> tr_gw r = nodeID \<and> tr_up r \<noteq> []"
  shows "sound nobody (withdraw_external nodeID s)"
  unfolding withdraw_external_def
proof (rule sound_unpublish [where R' = "\<lambda>q. case t_routes (topo s) (tq_route q) of None \<Rightarrow> nodeID = [] \<and> False | Some r \<Rightarrow> tr_gw r = nodeID \<and> tr_up r \<noteq> []"])
  show "sound (\<lambda>q. (case t_routes (topo s) (tq_route q) of None \<Rightarrow> nodeID = [] \<and> False | Some r \<Rightarrow> tr_gw r = nodeID \<and> tr_up r \<noteq> []) \<or> False) s"
    by (rule sound_mono [OF assms(1)]) (use assms(2) in fastforce)
  show "(let attachment = attachment_at s (gr_AttachmentID g) in at_GatewayID attachment = nodeID \<and> at_UpstreamID attachment \<noteq> []) =
      (case t_routes (topo s) (tq_route (grant_core g)) of None \<Rightarrow> nodeID = [] \<and> False | Some r \<Rightarrow> tr_gw r = nodeID \<and> tr_up r \<noteq> [])" for g
    by (cases "mget (st_Attachments s) (gr_AttachmentID g)")
      (auto simp: grant_core_def route_core_def zget_def zero_Attachment_def)
qed

lemma bump_external_routes: "t_routes (topo (bump_external changed nodeID s)) = t_routes (topo s)"
  by (simp add: bump_external_def bumpGateway_def topo_def Let_def)

text \<open>A digest is never empty, so an empty hash matches no credential.\<close>

definition digests :: "Env \<Rightarrow> bool" where
  "digests env \<longleftrightarrow> (\<forall>x. e_sha256 env x \<noteq> [])"

lemma no_empty_hash: "digests env \<Longrightarrow> \<not> env_EqualSecretHash env [] x"
  by (simp add: env_EqualSecretHash_def EqualSecretHash_def digests_def b64_decode_def)

lemma confirm_credential_sound:
  assumes "sound P s" "digests env"
  shows "sound P (confirm_credential env role nodeID credential s)"
proof (cases "role = RoleGateway")
  case True
  show ?thesis
  proof (cases "mget (st_Gateways s) nodeID")
    case None
    then show ?thesis
      using True assms no_empty_hash by (simp add: confirm_credential_def zget_def zero_Gateway_def)
  next
    case (Some g)
    then show ?thesis
      using True assms(1) sound_put_gateway_same [OF assms(1) Some]
      by (auto simp: confirm_credential_def zget_def gateway_core_def Let_def)
  qed
next
  case False
  show ?thesis
  proof (cases "mget (st_Agents s) nodeID")
    case None
    then show ?thesis
      using False assms no_empty_hash by (simp add: confirm_credential_def zget_def zero_Agent_def)
  next
    case (Some a)
    then show ?thesis
      using False assms(1) sound_put_agent_same [OF assms(1) Some]
      by (auto simp: confirm_credential_def zget_def agent_core_def Let_def)
  qed
qed

text \<open>Only grants that are live become published.\<close>

lemma t_ok_publish:
  assumes "t_ok P T"
    and new: "\<And>k q'. qs k = Some q' \<Longrightarrow> \<exists>q. t_grants T k = Some q \<and> tq_id q' = tq_id q \<and> tq_user q' = tq_user q \<and> tq_route q' = tq_route q"
    and live: "\<And>k q'. qs k = Some q' \<Longrightarrow> tq_pub q' \<Longrightarrow> P q' \<or> t_live T q'"
  shows "t_ok P (T\<lparr>t_grants := qs\<rparr>)"
proof -
  let ?T = "T\<lparr>t_grants := qs\<rparr>"
  have T: "t_keyed T" "t_refs T" using assms(1) by (simp_all add: t_ok_def)
  have "tq_id q' = k" if "qs k = Some q'" for k q'
    using new [OF that] t_keyedD(7) [OF T(1), of k] by auto
  then have "t_keyed ?T" using T(1) by (simp add: t_keyed_def)
  moreover have "t_refs ?T"
  proof (rule t_refsI)
    show "t_users ?T (tq_user q) \<noteq> None \<and> t_routes ?T (tq_route q) \<noteq> None" if "t_grants ?T k = Some q" for k q
    proof -
      obtain q0 where "t_grants T k = Some q0" "tq_user q = tq_user q0" "tq_route q = tq_route q0"
        using new [of k q] \<open>t_grants ?T k = Some q\<close> by auto
      then show ?thesis using t_refsD(6) [OF T(2), of k q0] by simp
    qed
  qed (auto dest: t_refsD [OF T(2)])
  moreover have "t_published P ?T"
    using live by (simp add: t_published_def)
  ultimately show ?thesis by (simp add: t_ok_def)
qed

definition servable :: "State \<Rightarrow> string \<Rightarrow> Grant \<Rightarrow> bool" where
  "servable s nodeID grant =
     (let attachment = attachment_at s (gr_AttachmentID grant) in
      at_GatewayID attachment = nodeID \<and> gr_Enabled grant \<and> u_Enabled (user_at s (gr_UserID grant)) \<and> routeAvailable s attachment)"

lemma servable_live:
  assumes "sound P s" "mget (st_Grants s) k = Some g" "servable s nodeID g"
  shows "t_live (topo s) (grant_core (g\<lparr>gr_Published := x\<rparr>))"
proof -
  have "mget (st_Attachments s) (gr_AttachmentID g) \<noteq> None"
    using sound_refs(6) [OF assms(1,2)] by simp
  then obtain a where "mget (st_Attachments s) (gr_AttachmentID g) = Some a" by blast
  then show ?thesis
    using assms(3) soundD(1) [OF assms(1)] topo_route_on [of s a] topo_user_on [of s "gr_UserID g"]
    by (simp add: t_live_def grant_core_def zget_def maps_ok_def servable_def)
qed

lemma publish_grants_eq:
  "publish_grants role nodeID status s =
     (if serves_desired role status (gateway_at s nodeID)
      then s\<lparr>st_Grants := mmap (\<lambda>_ g. if servable s nodeID g
             then g\<lparr>gr_Published := VMessEnabled (gateway_at s nodeID) \<or>
                    HY2Enabled (gateway_at s nodeID) \<and> ns_HY2Ready status \<and> ns_IngressControls status\<rparr> else g) (st_Grants s)\<rparr>
      else s)"
  by (simp add: publish_grants_def servable_def Let_def)

lemma publish_grants_sound:
  assumes "sound nobody s"
  shows "sound nobody (publish_grants role nodeID status s)"
proof -
  let ?g = "\<lambda>x g. if servable s nodeID g then g\<lparr>gr_Published := x\<rparr> else g"
  have "sound nobody (s\<lparr>st_Grants := mmap (\<lambda>_. ?g x) (st_Grants s)\<rparr>)" for x
  proof (rule soundI [OF assms])
    have view: "topo (s\<lparr>st_Grants := mmap (\<lambda>_. ?g x) (st_Grants s)\<rparr>) =
        (topo s)\<lparr>t_grants := (\<lambda>k. map_option (\<lambda>g. grant_core (?g x g)) (mget (st_Grants s) k))\<rparr>"
      by (simp add: topo_def fun_eq_iff option.map_comp comp_def)
    show "t_ok nobody (topo (s\<lparr>st_Grants := mmap (\<lambda>_. ?g x) (st_Grants s)\<rparr>))"
      unfolding view
    proof (rule t_ok_publish [OF soundD(6) [OF assms]])
      fix k q
      assume "map_option (\<lambda>g. grant_core (?g x g)) (mget (st_Grants s) k) = Some q"
      then obtain g where g: "mget (st_Grants s) k = Some g" "q = grant_core (?g x g)"
        by auto
      then show "\<exists>q0. t_grants (topo s) k = Some q0 \<and> tq_id q = tq_id q0 \<and> tq_user q = tq_user q0 \<and> tq_route q = tq_route q0"
        by (simp add: grant_core_def)
      show "False \<or> t_live (topo s) q" if "tq_pub q"
      proof (cases "servable s nodeID g")
        case True
        then show ?thesis using servable_live [OF assms g(1)] g(2) by simp
      next
        case False
        then have "t_grants (topo s) k = Some q" using g by simp
        then show ?thesis using soundD(5) [OF assms] that by (auto simp: t_published_def)
      qed
    qed
  qed (use soundD(1) [OF assms] in simp_all)
  then show ?thesis
    using assms by (simp add: publish_grants_eq)
qed

text \<open>The state after a report that is accepted, stage by stage.\<close>

lemma nodeStatus_stages:
  assumes "nodeStatus_tx env role nodeID credential report s = Inr ((), s')"
    and "status = (sr_Status report)\<lparr>ns_NodeID := nodeID, ns_Role := role, ns_LastSeen := e_now env\<rparr>"
    and "changed = (role = RoleGateway \<and> ns_ExternalUpstreams (status_at s nodeID) \<noteq> ns_ExternalUpstreams status)"
  obtains s2 s4 s5 s7 where
    "acceptUpstreamProbes env role nodeID (report\<lparr>sr_Status := status\<rparr>) (e_now env)
       (s\<lparr>st_NodeStatus := mput nodeID status (st_NodeStatus s)\<rparr>) = Inr s2"
    "s4 = (if role = RoleGateway \<and> (changed \<or> \<not> ns_ExternalUpstreams status)
           then withdraw_external nodeID (bump_external changed nodeID s2) else bump_external changed nodeID s2)"
    "s5 = confirm_credential env role nodeID credential s4"
    "view_kept s5 s7"
    "s' = reconcileUpgradeRecovery env (e_now env) (pruneRetiredUsage (e_now env) (publish_grants role nodeID status s7))"
proof -
  let ?now = "e_now env"
  obtain s2 where s2: "acceptUpstreamProbes env role nodeID (report\<lparr>sr_Status := status\<rparr>) ?now
       (s\<lparr>st_NodeStatus := mput nodeID status (st_NodeStatus s)\<rparr>) = Inr s2"
    using assms by (cases "acceptUpstreamProbes env role nodeID (report\<lparr>sr_Status := status\<rparr>) ?now
       (s\<lparr>st_NodeStatus := mput nodeID status (st_NodeStatus s)\<rparr>)") (simp_all add: nodeStatus_tx_def Let_def)
  define s4 where "s4 = (if role = RoleGateway \<and> (changed \<or> \<not> ns_ExternalUpstreams status)
           then withdraw_external nodeID (bump_external changed nodeID s2) else bump_external changed nodeID s2)"
  define s5 where "s5 = confirm_credential env role nodeID credential s4"
  have rest: "(case store_links role nodeID ?now (allowed_link role nodeID ?now s5) (sr_Links report) s5 of
       Inl err \<Rightarrow> Inl err
     | Inr s6 \<Rightarrow> (case store_grants role nodeID (ns_InstanceID status) ?now (sr_Grants report) s6 of
         Inl err \<Rightarrow> Inl err
       | Inr s7 \<Rightarrow> Inr ((), reconcileUpgradeRecovery env ?now (pruneRetiredUsage ?now
           (publish_grants role nodeID status (pruneLinkHistory ?now (pruneUsageHistory ?now s7))))))) = Inr ((), s')"
    using assms(1) s2 unfolding nodeStatus_tx_def Let_def s4_def s5_def assms(2,3)
    by (simp split del: if_split cong: sum.case_cong)
  obtain s6 where s6: "store_links role nodeID ?now (allowed_link role nodeID ?now s5) (sr_Links report) s5 = Inr s6"
    using rest by (cases "store_links role nodeID ?now (allowed_link role nodeID ?now s5) (sr_Links report) s5") simp_all
  obtain s7 where s7: "store_grants role nodeID (ns_InstanceID status) ?now (sr_Grants report) s6 = Inr s7"
    using rest s6 by (cases "store_grants role nodeID (ns_InstanceID status) ?now (sr_Grants report) s6") simp_all
  have "view_kept s5 (pruneLinkHistory ?now (pruneUsageHistory ?now s7))"
    using view_kept_store_links [OF s6] view_kept_store_grants [OF s7] view_kept_prune view_kept_trans by meson
  then show thesis
    using that [OF s2 s4_def s5_def] rest s6 s7 by simp
qed

lemma nodeStatus_ok:
  assumes ok: "topo_ok s" and env: "digests env" and role: "role \<noteq> RoleGateway \<Longrightarrow> mget (st_Gateways s) nodeID = None"
    and tx: "nodeStatus_tx env role nodeID credential report s = Inr ((), s')"
  shows "topo_ok s'"
proof -
  define status where "status = (sr_Status report)\<lparr>ns_NodeID := nodeID, ns_Role := role, ns_LastSeen := e_now env\<rparr>"
  define changed where "changed = (role = RoleGateway \<and> ns_ExternalUpstreams (status_at s nodeID) \<noteq> ns_ExternalUpstreams status)"
  let ?s1 = "s\<lparr>st_NodeStatus := mput nodeID status (st_NodeStatus s)\<rparr>"
  let ?cut = "\<lambda>q. False \<or> t_cut_off (topo s) ((t_external (topo s))(nodeID := ns_ExternalUpstreams status)) q"
  have s: "sound nobody s" using ok by (simp add: topo_ok_sound)
  obtain s2 s4 s5 s7 where
    s2: "acceptUpstreamProbes env role nodeID (report\<lparr>sr_Status := status\<rparr>) (e_now env) ?s1 = Inr s2"
    and s4: "s4 = (if role = RoleGateway \<and> (changed \<or> \<not> ns_ExternalUpstreams status)
           then withdraw_external nodeID (bump_external changed nodeID s2) else bump_external changed nodeID s2)"
    and s5: "s5 = confirm_credential env role nodeID credential s4" and s7: "view_kept s5 s7"
    and s': "s' = reconcileUpgradeRecovery env (e_now env) (pruneRetiredUsage (e_now env) (publish_grants role nodeID status s7))"
    by (rule nodeStatus_stages [OF tx status_def changed_def])
  have "sound ?cut ?s1"
    by (rule sound_status [OF s]) (simp add: status_def)
  then have "sound ?cut s2 \<and> topo s2 = topo ?s1"
    using s2 accept_probes_sound by (auto simp: acceptUpstreamProbes_def split: if_splits)
  then have s3: "sound ?cut (bump_external changed nodeID s2)"
    and routes: "t_routes (topo (bump_external changed nodeID s2)) = t_routes (topo s)"
    using bump_external_sound bump_external_routes by (auto simp: topo_def)
  have cut: "\<exists>r. t_routes (topo s) (tq_route q) = Some r \<and> tr_gw r = nodeID \<and> tr_up r \<noteq> [] \<and>
      ns_ExternalUpstreams (status_at s nodeID) \<and> \<not> ns_ExternalUpstreams status \<and> mget (st_Gateways s) nodeID \<noteq> None" if "?cut q" for q
    using that t_refsD(2) [of "topo s" "tq_route q"] soundD(6) [OF s]
    by (auto simp: t_cut_off_def t_ok_def split: option.splits if_splits)
  have "sound nobody s4"
  proof (cases "role = RoleGateway \<and> (changed \<or> \<not> ns_ExternalUpstreams status)")
    case True
    have "sound nobody (withdraw_external nodeID (bump_external changed nodeID s2))"
      by (rule withdraw_external_sound [OF s3]) (unfold routes, use cut in blast)
    then show ?thesis using True s4 by simp
  next
    case False
    have "sound nobody (bump_external changed nodeID s2)"
      by (rule sound_mono [OF s3]) (use cut role False in blast)
    then show ?thesis unfolding s4 if_not_P [OF False] .
  qed
  then have "sound nobody s7"
    using confirm_credential_sound env s5 s7 view_kept_sound by blast
  then have "sound nobody (publish_grants role nodeID status s7)"
    by (rule publish_grants_sound)
  then show ?thesis
    unfolding s' topo_ok_sound using view_kept_sound view_kept_prune(3) view_kept_reconcile by blast
qed

text \<open>Who is authenticated as an agent is not a gateway.\<close>

lemma authenticated_role:
  assumes "topo_ok s" "authenticateNodeIdentity env r b s = Some (role, nodeID)" "role \<noteq> RoleGateway"
  shows "mget (st_Gateways s) nodeID = None"
proof -
  have s: "sound nobody s" using assms(1) by (simp add: topo_ok_sound)
  have "agent_key nodeID"
  proof (rule ccontr)
    assume no: "\<not> agent_key nodeID"
    have agents: "agent_key k" if "(k, a) \<in> set (st_Agents s)" for k a
      using that sound_keyed(3) [OF s, of k a] mget_in_iff [of "st_Agents s" k a] soundD(1) [OF s] by (simp add: maps_ok_def)
    have "embedded_identity s b i \<noteq> Some (role, nodeID)" for i
      using no by (auto simp: embedded_identity_def Let_def)
    moreover have "nodeID \<noteq> k" if "find P (st_Agents s) = Some (k, a)" for P k a
      using that no agents [of k a] by (metis find_Some_iff nth_mem)
    ultimately have "identify_node env s b e c \<noteq> Some (role, nodeID)" for e c
      using assms(3) unfolding identify_node_def Let_def
      by (cases "find (\<lambda>(_, gateway). gateway_accepts env b (env_SecretHash env c) gateway) (st_Gateways s)";
          cases "find (\<lambda>(_, agent). agent_accepts env b (env_SecretHash env c) agent) (st_Agents s)"; cases e) auto
    then show False
      using assms(2) by (auto simp: authenticateNodeIdentity_def split: option.splits if_splits)
  qed
  then show ?thesis
    using key_apart sound_keyed(2) [OF s, of nodeID] by (cases "mget (st_Gateways s) nodeID") auto
qed

subsection \<open>Enrollment\<close>

lemma enroll_tx_Inr:
  assumes "enroll_tx env request credential updater s = Inr (response, s')"
  obtains e s1 where "e \<in> set (mvals (st_Enrollments s))" "env_EqualSecretHash env (en_TokenHash e) (er_Token request)"
    "IsZero (en_UsedAt e)" "e_now env < en_ExpiresAt e" "store_credential env credential e s = Inr s1"
    "view_kept (s1\<lparr>st_Enrollments := mput (en_ID e) (e\<lparr>en_UsedAt := e_now env\<rparr>) (st_Enrollments s1)\<rparr>) s'"
    "st_Enrollments s' = mput (en_ID e) (e\<lparr>en_UsedAt := e_now env\<rparr>) (st_Enrollments s1)"
    "es_Role response = en_Role e" "es_NodeID response = en_NodeID e" "es_Credential response = credential"
proof -
  let ?find = "find (\<lambda>c. env_EqualSecretHash env (en_TokenHash c) (er_Token request)) (mvals (st_Enrollments s))"
  obtain e where e: "?find = Some e" using assms by (cases ?find) (simp_all add: enroll_tx_def)
  obtain s1 where s1: "store_credential env credential e s = Inr s1"
    using assms e by (cases "store_credential env credential e s") (simp_all add: enroll_tx_def split: if_splits)
  have "e \<in> set (mvals (st_Enrollments s))" "env_EqualSecretHash env (en_TokenHash e) (er_Token request)"
    using e by (auto simp: find_Some_iff)
  then show thesis
    using assms e s1 by (intro that [of e s1]) (auto simp: enroll_tx_def view_kept_def Let_def split: if_splits)
qed

lemma store_credential_kept:
  "store_credential env credential e s = Inr s1 \<Longrightarrow> st_Enrollments s1 = st_Enrollments s"
  by (auto simp: store_credential_def split: if_splits option.splits)

lemma enroll_core [simp]:
  "gateway_core (enroll_gateway env credential g) = gateway_core g"
  "agent_core (enroll_agent env credential a) = agent_core a"
  by (simp_all add: gateway_core_def agent_core_def enroll_gateway_def enroll_agent_def Let_def)

lemma store_credential_sound:
  assumes "sound P s" "store_credential env credential e s = Inr s1"
  shows "sound P s1"
proof (cases "en_Role e = RoleGateway")
  case True
  then obtain g where "mget (st_Gateways s) (en_NodeID e) = Some g"
    "s1 = s\<lparr>st_Gateways := mput (gw_ID g) (enroll_gateway env credential g) (st_Gateways s)\<rparr>"
    using assms(2) by (auto simp: store_credential_def split: option.splits)
  then show ?thesis
    using sound_put_gateway_same [OF assms(1), of "en_NodeID e" g] sound_keyed(2) [OF assms(1), of "en_NodeID e" g] by simp
next
  case False
  then obtain a where "mget (st_Agents s) (en_NodeID e) = Some a"
    "s1 = s\<lparr>st_Agents := mput (ag_ID a) (enroll_agent env credential a) (st_Agents s)\<rparr>"
    using assms(2) by (auto simp: store_credential_def split: option.splits if_splits)
  then show ?thesis
    using sound_put_agent_same [OF assms(1), of "en_NodeID e" a] sound_keyed(3) [OF assms(1), of "en_NodeID e" a] by simp
qed

lemma enroll_ok:
  assumes "topo_ok s" "enroll_tx env request credential updater s = Inr (response, s')"
  shows "topo_ok s'"
proof -
  obtain e s1 where "store_credential env credential e s = Inr s1"
    "view_kept (s1\<lparr>st_Enrollments := mput (en_ID e) (e\<lparr>en_UsedAt := e_now env\<rparr>) (st_Enrollments s1)\<rparr>) s'"
    using enroll_tx_Inr [OF assms(2)] by metis
  moreover have "view_kept s1 (s1\<lparr>st_Enrollments := es\<rparr>)" for es
    by (simp add: view_kept_def)
  ultimately show ?thesis
    using assms(1) store_credential_sound view_kept_sound unfolding topo_ok_sound by blast
qed

text \<open>Both ends of \<open>enroll\<close> at the store: a granted request is a transaction that was committed.\<close>

lemma enroll_Json:
  assumes "enroll env request st = (Json 201 response, st')"
  obtains s' users updater r where
    "enroll_tx env request (es_Credential response) updater (sr_state st) = Inr (response, s')"
    "sr_state st' = s'\<lparr>st_Revision := r, st_Users := users\<rparr>" "accounts_match (st_Users s') users"
proof -
  obtain credential updater where out: "Update (e_store env) (enroll_tx env request credential updater) st = (Inr response, st')"
    using assms by (auto simp: enroll_def split: if_splits sum.splits prod.splits)
  obtain s' kept persisted where tx: "enroll_tx env request credential updater (sr_state st) = Inr (response, s')"
    and p: "protectSubscriptionTokens (e_store env) (s'\<lparr>st_Revision := st_Revision s' + 1\<rparr>) (sr_key st) = Inr (kept, persisted)"
    and st': "st' = st\<lparr>sr_state := kept, sr_disk := Some persisted\<rparr>"
    using Update_ok [OF out] by metis
  have "es_Credential response = credential"
    using enroll_tx_Inr [OF tx] by metis
  moreover obtain users where "kept = s'\<lparr>st_Revision := st_Revision s' + 1, st_Users := users\<rparr>" "accounts_match (st_Users s') users"
    using p
  proof (cases rule: protect_tokens_cases)
    case 1
    then show ?thesis by (intro that [of "st_Users s'"]) simp_all
  next
    case (2 users)
    then show ?thesis using protect_users_account [OF 2(2)] by (intro that [of users]) simp_all
  qed
  ultimately show thesis
    using that [where r = "st_Revision s' + 1"] tx st' by simp
qed

definition one_enrollment :: "Env \<Rightarrow> string \<Rightarrow> State \<Rightarrow> bool" where
  "one_enrollment env token s \<longleftrightarrow>
     mwf (st_Enrollments s) \<and> list_all (\<lambda>(k, e). en_ID e = k) (st_Enrollments s) \<and>
     length (filter (\<lambda>e. env_EqualSecretHash env (en_TokenHash e) token) (mvals (st_Enrollments s))) \<le> 1"

lemma filter_le_1: "length (filter P xs) \<le> 1 \<Longrightarrow> x \<in> set xs \<Longrightarrow> y \<in> set xs \<Longrightarrow> P x \<Longrightarrow> P y \<Longrightarrow> x = y"
proof -
  assume a: "length (filter P xs) \<le> 1" "x \<in> set xs" "y \<in> set xs" "P x" "P y"
  then have "x \<in> set (filter P xs)" "y \<in> set (filter P xs)" by simp_all
  then show ?thesis using a(1) by (cases "filter P xs") auto
qed


lemma find_mput: "P v \<Longrightarrow> list_all (\<lambda>x. \<not> P x) (mvals m) \<Longrightarrow> find (\<lambda>(_, x). P x) (mput k v m) = Some (k, v)"
  by (induction m) (auto simp: mvals_def)

definition unused_hash :: "string \<Rightarrow> State \<Rightarrow> bool" where
  "unused_hash hash s \<longleftrightarrow>
     list_all (\<lambda>g. gw_CredentialHash g \<noteq> hash \<and> gw_PreviousCredentialHash g \<noteq> hash) (mvals (st_Gateways s)) \<and>
     list_all (\<lambda>a. ag_CredentialHash a \<noteq> hash \<and> ag_PreviousCredentialHash a \<noteq> hash) (mvals (st_Agents s))"

definition node_enabled :: "State \<Rightarrow> Role \<Rightarrow> string \<Rightarrow> bool" where
  "node_enabled s role i = (if role = RoleGateway then gw_Enabled (gateway_at s i) else ag_Enabled (agent_at s i))"

lemma no_node_accepts:
  assumes "unused_hash hash s"
  shows "list_all (\<lambda>g. \<not> gateway_accepts env b hash g) (mvals (st_Gateways s))"
    and "list_all (\<lambda>a. \<not> agent_accepts env b hash a) (mvals (st_Agents s))"
  using assms by (auto simp: unused_hash_def list_all_iff gateway_accepts_def agent_accepts_def matches_hash_def)

lemma b64_encode_Nil [simp]: "b64_encode s = [] \<longleftrightarrow> s = []"
  by (cases s rule: b64_encode.cases) (simp_all add: Let_def)

lemma SecretHash_nonempty: "digests env \<Longrightarrow> env_SecretHash env credential \<noteq> []"
  by (simp add: env_SecretHash_def SecretHash_def digests_def)

lemma identify_enrolled:
  assumes s: "sound P s" and unused: "unused_hash (env_SecretHash env credential) s" and d: "digests env"
    and c: "store_credential env credential e s = Inr s1" and on: "b \<or> node_enabled s (en_Role e) (en_NodeID e)"
    and st: "st_Gateways t = st_Gateways s1" "st_Agents t = st_Agents s1" and h: "e_sha256 env' = e_sha256 env"
  shows "identify_node env' t b False credential = Some (en_Role e, en_NodeID e) \<and> en_NodeID e \<noteq> []"
proof -
  let ?hash = "env_SecretHash env credential"
  have hash: "env_SecretHash env' credential = ?hash" using h by (simp add: env_SecretHash_def)
  have ne: "?hash \<noteq> []" by (rule SecretHash_nonempty [OF d])
  show ?thesis
  proof (cases "en_Role e = RoleGateway")
    case True
    then obtain g where g: "mget (st_Gateways s) (en_NodeID e) = Some g"
      and s1: "s1 = s\<lparr>st_Gateways := mput (gw_ID g) (enroll_gateway env credential g) (st_Gateways s)\<rparr>"
      using c by (auto simp: store_credential_def split: option.splits)
    let ?g = "enroll_gateway env credential g"
    let ?m = "mput (en_NodeID e) ?g (st_Gateways s)"
    have key: "gw_ID g = en_NodeID e" "en_NodeID e \<noteq> []" using sound_keyed(2) [OF s g] by simp_all
    have "gateway_accepts env' b ?hash ?g"
      using on True g ne by (auto simp: gateway_accepts_def enroll_gateway_def matches_hash_def node_enabled_def zget_def Let_def)
    then have "find (\<lambda>(_, gateway). gateway_accepts env' b ?hash gateway) ?m = Some (en_NodeID e, ?g)"
      using no_node_accepts(1) [OF unused] by (rule find_mput)
    then show ?thesis using True key s1 st(1) hash by (simp add: identify_node_def Let_def)
  next
    case False
    then obtain a where a: "mget (st_Agents s) (en_NodeID e) = Some a" "ag_GatewayID a = []" and role: "en_Role e = RoleAgent"
      and s1: "s1 = s\<lparr>st_Agents := mput (ag_ID a) (enroll_agent env credential a) (st_Agents s)\<rparr>"
      using c by (auto simp: store_credential_def split: option.splits if_splits)
    let ?a = "enroll_agent env credential a"
    let ?m = "mput (en_NodeID e) ?a (st_Agents s)"
    have key: "ag_ID a = en_NodeID e" "en_NodeID e \<noteq> []" using sound_keyed(3) [OF s a(1)] by simp_all
    have "find (\<lambda>(_, gateway). gateway_accepts env' b ?hash gateway) (st_Gateways s) = None"
      using no_node_accepts(1) [OF unused] by (fastforce simp: find_None_iff list_all_iff mvals_def)
    moreover have "agent_accepts env' b ?hash ?a"
      using on False a ne by (auto simp: agent_accepts_def enroll_agent_def matches_hash_def node_enabled_def zget_def Let_def)
    then have "find (\<lambda>(_, agent). agent_accepts env' b ?hash agent) ?m = Some (en_NodeID e, ?a)"
      using no_node_accepts(2) [OF unused] by (rule find_mput)
    ultimately show ?thesis using role key s1 st hash by (simp add: identify_node_def Let_def)
  qed
qed

text \<open>The credential that an enrollment returns is the node's: a request that bears it is
  recognised as that node in that role, at once, when the node is enabled or disabled nodes are
  admitted, provided no stored hash was already the credential's.\<close>

theorem enrolled_node_authenticates:
  assumes "enroll env request st = (Json 201 response, st')" and "topo_ok (sr_state st)" and "digests env"
    and "unused_hash (env_SecretHash env (es_Credential response)) (sr_state st)"
    and "includeDisabled \<or> node_enabled (sr_state st) (es_Role response) (es_NodeID response)"
    and "bearer r = Some (es_Credential response)" and "length (es_Credential response) \<le> 256"
    and "HeaderGet r ''X-XMesh-Embedded-Agent'' \<noteq> ''1''" and "e_sha256 env' = e_sha256 env"
  shows "authenticateNodeIdentity env' r includeDisabled (sr_state st') = Some (es_Role response, es_NodeID response)"
proof -
  obtain s' users updater n where tx: "enroll_tx env request (es_Credential response) updater (sr_state st) = Inr (response, s')"
    and st': "sr_state st' = s'\<lparr>st_Revision := n, st_Users := users\<rparr>"
    using enroll_Json [OF assms(1)] by metis
  obtain e s1 where e: "store_credential env (es_Credential response) e (sr_state st) = Inr s1"
    "view_kept (s1\<lparr>st_Enrollments := mput (en_ID e) (e\<lparr>en_UsedAt := e_now env\<rparr>) (st_Enrollments s1)\<rparr>) s'"
    "es_Role response = en_Role e" "es_NodeID response = en_NodeID e"
    using enroll_tx_Inr [OF tx] by metis
  have "st_Gateways (sr_state st') = st_Gateways s1" "st_Agents (sr_state st') = st_Agents s1"
    using e(2) st' by (simp_all add: view_kept_def)
  then have "identify_node env' (sr_state st') includeDisabled False (es_Credential response) = Some (en_Role e, en_NodeID e) \<and> en_NodeID e \<noteq> []"
    using assms(2,5) e(3,4) by (intro identify_enrolled [OF _ assms(4,3) e(1) _ _ _ assms(9)]) (simp_all add: topo_ok_sound)
  then show ?thesis
    using assms(6-8) e(3,4) by (simp add: authenticateNodeIdentity_def)
qed

subsection \<open>Publication\<close>

lemma publish_view:
  "st_Attachments (publish_grants role nodeID status s) = st_Attachments s"
  "user_at (publish_grants role nodeID status s) = user_at s"
  "gateway_at (publish_grants role nodeID status s) = gateway_at s"
  "routeAvailable (publish_grants role nodeID status s) = routeAvailable s"
  by (simp_all add: publish_grants_def Let_def fun_eq_iff routeAvailable_def agentEnabled_def attachmentHasEnabledLink_def
      upstreamAvailable_def split: option.split)

lemma view_kept_at:
  "view_kept s s' \<Longrightarrow> user_at s' = user_at s \<and> gateway_at s' = gateway_at s \<and> attachment_at s' = attachment_at s"
  by (simp add: view_kept_def)

text \<open>A ready gateway publishes. When a gateway's report is accepted and says that the gateway
  and its Xray are ready, without error, on at least the version desired after the report, then every
  enabled grant of an enabled user on an available route of the gateway is published after it exactly
  when one of its ingresses is available: VMess, or Hysteria 2 when the gateway reports it ready.\<close>

theorem ready_report_publishes:
  assumes "nodeStatus_tx env RoleGateway nodeID credential report s = Inr ((), s')"
    and "serves_desired RoleGateway (sr_Status report) (gateway_at s' nodeID)"
    and "mget (st_Grants s') k = Some grant" and "servable s' nodeID grant"
  shows "gr_Published grant \<longleftrightarrow> VMessEnabled (gateway_at s' nodeID) \<or>
    HY2Enabled (gateway_at s' nodeID) \<and> ns_HY2Ready (sr_Status report) \<and> ns_IngressControls (sr_Status report)"
proof -
  define status where "status = (sr_Status report)\<lparr>ns_NodeID := nodeID, ns_Role := RoleGateway, ns_LastSeen := e_now env\<rparr>"
  obtain s7 where s': "s' = reconcileUpgradeRecovery env (e_now env) (pruneRetiredUsage (e_now env) (publish_grants RoleGateway nodeID status s7))"
    by (rule nodeStatus_stages [OF assms(1) status_def refl])
  let ?p = "publish_grants RoleGateway nodeID status s7"
  have kept: "view_kept ?p s'"
    unfolding s' using view_kept_prune(3) view_kept_reconcile view_kept_trans by blast
  have same: "gateway_at s' = gateway_at s7" "user_at s' = user_at s7" "attachment_at s' = attachment_at s7"
    "routeAvailable s' = routeAvailable s7"
    using view_kept_at [OF kept] view_kept_route [OF kept] publish_view by simp_all
  then have "serves_desired RoleGateway status (gateway_at s7 nodeID)"
    using assms(2) by (simp add: serves_desired_def status_def)
  then obtain g where g: "mget (st_Grants s7) k = Some g"
    "grant = (if servable s7 nodeID g then g\<lparr>gr_Published := VMessEnabled (gateway_at s7 nodeID) \<or>
       HY2Enabled (gateway_at s7 nodeID) \<and> ns_HY2Ready status \<and> ns_IngressControls status\<rparr> else g)"
    using assms(3) kept by (auto simp: view_kept_def publish_grants_eq)
  have "servable s7 nodeID grant"
    using assms(4) same by (simp add: servable_def)
  then have "servable s7 nodeID g"
    using g(2) by (auto simp: servable_def Let_def split: if_splits)
  then show ?thesis
    using g(2) same by (simp add: status_def)
qed

subsection \<open>Configuration\<close>

lemma distinct_sort_slice: "distinct (sort_slice lt xs) = distinct xs"
  by (metis mset_eq_imp_distinct_iff mset_sort_slice)

lemma keyed_distinct: "mwf m \<Longrightarrow> (\<And>k v. mget m k = Some v \<Longrightarrow> f v = k) \<Longrightarrow> distinct (map f (mvals m))"
proof -
  assume m: "mwf m" "\<And>k v. mget m k = Some v \<Longrightarrow> f v = k"
  have "f v = k" if "(k, v) \<in> set m" for k v
    using m(2) mget_in_iff [OF m(1), of k v] that by blast
  then have "map f (mvals m) = map fst m"
    by (auto simp: mvals_def)
  then show ?thesis using m(1) by (simp add: mwf_def)
qed

lemma distinct_routed:
  "distinct xs \<Longrightarrow> distinct (map key as) \<Longrightarrow> distinct (concat (map (\<lambda>a. filter (\<lambda>x. f x = key a \<and> Q a x) xs) as))"
  by (induction as) (fastforce simp: image_iff)+

lemma route_grants_iff:
  assumes s: "sound nobody s" and routes_def: "routes = filter (\<lambda>a. at_GatewayID a = nodeID \<and> at_Enabled a) (mvals (st_Attachments s))"
  shows "grant \<in> set (concat (map (route_grants s ingress) routes)) \<longleftrightarrow>
      (\<exists>k. mget (st_Grants s) k = Some grant) \<and> servable s nodeID grant \<and> ingress"
proof -
  have wf: "mwf (st_Attachments s)" "mwf (st_Grants s)" using soundD(1) [OF s] by (simp_all add: maps_ok_def)
  show ?thesis
  proof
    assume "grant \<in> set (concat (map (route_grants s ingress) routes))"
    then obtain a where a: "a \<in> set (mvals (st_Attachments s))" "at_GatewayID a = nodeID" "grant \<in> set (route_grants s ingress a)"
      by (auto simp: routes_def)
    obtain k where "mget (st_Attachments s) k = Some a" using mvals_mget [OF wf(1) a(1)] by blast
    then have "attachment_at s (at_ID a) = a" using sound_keyed(5) [OF s] by (auto simp: zget_def)
    then show "(\<exists>k. mget (st_Grants s) k = Some grant) \<and> servable s nodeID grant \<and> ingress"
      using a mvals_mget [OF wf(2), of grant] by (auto simp: route_grants_def servable_def)
  next
    assume g: "(\<exists>k. mget (st_Grants s) k = Some grant) \<and> servable s nodeID grant \<and> ingress"
    then obtain k a where k: "mget (st_Grants s) k = Some grant" "mget (st_Attachments s) (gr_AttachmentID grant) = Some a"
      using sound_refs(6) [OF s] by blast
    have "attachment_at s (gr_AttachmentID grant) = a" "at_ID a = gr_AttachmentID grant"
      using k(2) sound_keyed(5) [OF s k(2)] by (simp_all add: zget_def)
    moreover have "at_Enabled a" if "routeAvailable s a"
      using that by (simp add: routeAvailable_def split: if_splits)
    ultimately have "grant \<in> set (route_grants s ingress a)" "a \<in> set routes"
      using g mget_val_in [OF k(1)] mget_val_in [OF k(2)]
      by (auto simp: route_grants_def servable_def routes_def)
    then show "grant \<in> set (concat (map (route_grants s ingress) routes))"
      by (simp only: set_concat set_map) (rule UN_I, rule imageI)
  qed
qed

text \<open>C23. A gateway's configuration serves exactly the grants that are live. It lists, once
  each, the enabled grants of enabled users on the gateway's available routes, and no other; nothing at all when
  neither VMess is enabled nor the gateway understands ingress switches. No credential or token hash
  leaves the Controller with it.\<close>

theorem gateway_config_exact:
  assumes "topo_ok s" and "gw_Enabled (gateway_at s nodeID)"
  shows "let config = gateway_config env controls nodeID s in
    distinct (gc_Grants config) \<and>
    (\<forall>grant. grant \<in> set (gc_Grants config) \<longleftrightarrow>
       (\<exists>k. mget (st_Grants s) k = Some grant) \<and> servable s nodeID grant \<and>
       (\<not> gw_VMessDisabled (gateway_at s nodeID) \<or> controls)) \<and>
    gw_CredentialHash (gc_Gateway config) = [] \<and> gw_PreviousCredentialHash (gc_Gateway config) = [] \<and>
    list_all (\<lambda>link. lk_TunnelTokenHash (gk_Link link) = []) (gc_Links config)"
proof -
  let ?ingress = "\<not> gw_VMessDisabled (gateway_at s nodeID) \<or> controls"
  let ?routes = "filter (\<lambda>a. at_GatewayID a = nodeID \<and> at_Enabled a) (mvals (st_Attachments s))"
  let ?config = "gateway_config env controls nodeID s"
  have s: "sound nobody s" using assms(1) by (simp add: topo_ok_sound)
  have wf: "mwf (st_Attachments s)" "mwf (st_Grants s)" using soundD(1) [OF s] by (simp_all add: maps_ok_def)
  have grants: "gc_Grants ?config = sort_slice (\<lambda>a b. gr_ID a < gr_ID b) (concat (map (route_grants s ?ingress) ?routes))"
    using assms(2) by (simp add: gateway_config_def Let_def)
  have "grant \<in> set (concat (map (route_grants s ?ingress) ?routes)) \<longleftrightarrow>
      (\<exists>k. mget (st_Grants s) k = Some grant) \<and> servable s nodeID grant \<and> ?ingress" for grant
    by (rule route_grants_iff [OF s refl])
  moreover have "distinct (gc_Grants ?config)"
  proof -
    have "distinct (map gr_ID (mvals (st_Grants s)))" "distinct (map at_ID (mvals (st_Attachments s)))"
      using keyed_distinct wf sound_keyed(5,7) [OF s] by metis+
    then have "distinct (mvals (st_Grants s))" "distinct (map at_ID ?routes)"
      by (auto simp: distinct_map intro: inj_on_subset)
    then show ?thesis
      unfolding grants route_grants_def distinct_sort_slice by (rule distinct_routed)
  qed
  moreover have "gw_CredentialHash (gc_Gateway ?config) = [] \<and> gw_PreviousCredentialHash (gc_Gateway ?config) = []"
    using assms(2) by (simp add: gateway_config_def Let_def)
  moreover have "list_all (\<lambda>link. lk_TunnelTokenHash (gk_Link link) = []) (gc_Links ?config)"
    using assms(2) by (auto simp: gateway_config_def route_links_def Let_def list_all_iff)
  ultimately show ?thesis
    unfolding Let_def grants by simp
qed

lemma enabled_link_in:
  assumes "topo_ok s" "mget (st_Links s) k = Some link" "lk_Enabled link"
    and "mget (st_Attachments s) (lk_AttachmentID link) = Some a"
  shows "link \<in> set (filter (\<lambda>link. lk_AttachmentID link = at_ID a \<and> lk_Enabled link) (mvals (st_Links s)))"
    and "a \<in> set (mvals (st_Attachments s))" and "at_UpstreamID a = []"
proof -
  have s: "sound nobody s" using assms(1) by (simp add: topo_ok_sound)
  show "link \<in> set (filter (\<lambda>link. lk_AttachmentID link = at_ID a \<and> lk_Enabled link) (mvals (st_Links s)))"
    using assms(3) mget_val_in [OF assms(2)] sound_keyed(5) [OF s assms(4)] by simp
  show "a \<in> set (mvals (st_Attachments s))" by (rule mget_val_in [OF assms(4)])
  show "at_UpstreamID a = []" using sound_refs(5) [OF s assms(2)] assms(4) by auto
qed

text \<open>C24. The two ends of a tunnel agree. For every enabled link, with a known URL, of an available
  route, the gateway's configuration admits the route's agent with a token, and the configuration of
  that agent presents the very same token on the same link to the same gateway.\<close>

theorem tunnel_ends_agree:
  assumes "topo_ok s" and "mget (st_Links s) k = Some link" and "lk_Enabled link" and "lk_URL link \<noteq> []"
    and "mget (st_Attachments s) (lk_AttachmentID link) = Some a" and "routeAvailable s a"
  shows "\<exists>g\<in>set (gc_Links (gateway_config env controls (at_GatewayID a) s)).
    \<exists>c\<in>set (ac_Links (agent_config env (at_AgentID a) s)).
      gk_Link g = link\<lparr>lk_TunnelTokenHash := []\<rparr> \<and> al_Link c = gk_Link g \<and> al_TunnelToken c = gk_TunnelToken g \<and>
      gk_AgentID g = at_AgentID a \<and> al_GatewayID c = at_GatewayID a"
proof -
  let ?blank = "link\<lparr>lk_TunnelTokenHash := []\<rparr>"
  note a = enabled_link_in [OF assms(1-3,5)]
  have on: "gw_Enabled (gateway_at s (at_GatewayID a))" "at_Enabled a" "agentEnabled s (agent_at s (at_AgentID a))"
    using assms(6) a(3) by (auto simp: routeAvailable_def split: if_splits)
  have "\<lparr>gk_Link = ?blank, gk_AgentID = at_AgentID a, gk_TunnelToken = tunnel_token env (lk_ID link)\<rparr>
      \<in> set (gc_Links (gateway_config env controls (at_GatewayID a) s))" (is "?g \<in> _")
    using on a by (auto simp: gateway_config_def route_links_def Let_def intro!: bexI [of _ a])
  moreover have "\<exists>c\<in>set (agent_links env s a). al_Link c = ?blank \<and> al_TunnelToken c = tunnel_token env (lk_ID link) \<and>
      al_GatewayID c = at_GatewayID a"
    using a assms(4) by (auto simp: agent_links_def Let_def intro!: bexI [of _ link])
  then have "\<exists>c\<in>set (ac_Links (agent_config env (at_AgentID a) s)). al_Link c = ?blank \<and>
      al_TunnelToken c = tunnel_token env (lk_ID link) \<and> al_GatewayID c = at_GatewayID a"
    using on a assms(6) by (fastforce simp: agent_config_def Let_def)
  ultimately show ?thesis by (intro bexI [of _ ?g]) simp_all
qed

subsection \<open>A worked example\<close>

definition node_ctx :: Env where
  "node_ctx = demo_ctx\<lparr>e_sha256 := (\<lambda>s. CHR ''h'' # s)\<rparr>"

definition demo_site :: State where
  "demo_site = zero_State\<lparr>
     st_Users := [(''usr_1'', zero_User\<lparr>u_ID := ''usr_1'', u_Enabled := True\<rparr>)],
     st_Gateways := [(''gw_1'', zero_Gateway\<lparr>gw_ID := ''gw_1'', gw_Enabled := True, gw_DesiredVersion := 1\<rparr>)],
     st_Agents := [(''agt_1'', zero_Agent\<lparr>ag_ID := ''agt_1'', ag_Enabled := True, ag_DesiredVersion := 1\<rparr>)],
     st_Attachments := [(''att_1'', zero_Attachment\<lparr>at_ID := ''att_1'', at_GatewayID := ''gw_1'', at_AgentID := ''agt_1'', at_Enabled := True\<rparr>)],
     st_Links := [(''lnk_1'', zero_Link\<lparr>lk_ID := ''lnk_1'', lk_AttachmentID := ''att_1'', lk_URL := ''wss://gw'', lk_Enabled := True\<rparr>)],
     st_Grants := [(''grt_1'', zero_Grant\<lparr>gr_ID := ''grt_1'', gr_UserID := ''usr_1'', gr_AttachmentID := ''att_1'', gr_Enabled := True\<rparr>)],
     st_Enrollments := [(''enr_1'', zero_Enrollment\<lparr>en_ID := ''enr_1'', en_NodeID := ''gw_1'', en_Role := RoleGateway,
        en_TokenHash := env_SecretHash node_ctx ''token'', en_ExpiresAt := 2000 * second\<rparr>)]\<rparr>"

definition demo_site_store :: Store where
  "demo_site_store = \<lparr>sr_state = demo_site, sr_key = [], sr_disk = None\<rparr>"

lemma demo_site_ok: "topo_ok demo_site"
  by (auto simp: topo_ok_def maps_ok_def status_ok_def t_keyed_def t_refs_def t_published_def demo_site_def mwf_def
      zero_State_def zero_User_def zero_Gateway_def zero_Agent_def zero_Attachment_def zero_Link_def zero_Grant_def
      user_core_def gateway_core_def agent_core_def route_core_def link_core_def grant_core_def gateway_key_def agent_key_def
      has_prefix_def split: if_splits)

lemma node_ctx_digests: "digests node_ctx"
  by (simp add: digests_def node_ctx_def demo_ctx_def)

definition demo_enroll :: EnrollmentRequest where
  "demo_enroll = \<lparr>er_Token = ''token'', er_Role = [], er_NodeID = [], er_WantUpdater = False\<rparr>"

definition demo_credential :: EnrollmentResponse where
  "demo_credential = \<lparr>es_Role = RoleGateway, es_NodeID = ''gw_1'', es_Credential = ''0'',
     es_ConfigURL = ''https://example.org/api/v1/config'', es_UpdaterCredential = []\<rparr>"

lemma demo_enrolled:
  "enroll node_ctx demo_enroll demo_site_store = (Json 201 demo_credential, snd (enroll node_ctx demo_enroll demo_site_store))"
proof -
  have "fst (enroll node_ctx demo_enroll demo_site_store) = Json 201 demo_credential" by code_simp
  then show ?thesis by (metis prod.collapse)
qed


definition demo_bearer :: Request where
  "demo_bearer = \<lparr>rq_id = [], rq_form = [], rq_header = [(''Authorization'', ''Bearer 0'')], rq_RemoteAddr = []\<rparr>"

theorem enrolled_node_authenticates_witness:
  "authenticateNode node_ctx demo_bearer (sr_state (snd (enroll node_ctx demo_enroll demo_site_store))) = Some (RoleGateway, ''gw_1'')"
proof -
  have "unused_hash (env_SecretHash node_ctx ''0'') demo_site" "node_enabled demo_site RoleGateway ''gw_1''"
    "bearer demo_bearer = Some ''0''" "HeaderGet demo_bearer ''X-XMesh-Embedded-Agent'' \<noteq> ''1''"
    by code_simp+
  then show ?thesis
    using enrolled_node_authenticates [OF demo_enrolled _ node_ctx_digests, where r = demo_bearer and includeDisabled = False
        and env' = node_ctx] demo_site_ok
    by (simp add: authenticateNode_def demo_site_store_def demo_credential_def)
qed

definition demo_report :: StatusReport where
  "demo_report = \<lparr>sr_UpstreamProbes = [], sr_Status = zero_NodeStatus\<lparr>ns_Ready := True, ns_XrayReady := True, ns_AppliedVersion := 1\<rparr>,
     sr_Links = [], sr_Grants = []\<rparr>"

definition demo_reported :: State where
  "demo_reported = snd (projr (nodeStatus_tx node_ctx RoleGateway ''gw_1'' ''0'' demo_report demo_site))"

theorem ready_report_publishes_witness:
  "(\<exists>grant. mget (st_Grants demo_site) ''grt_1'' = Some grant \<and> \<not> gr_Published grant) \<and>
   nodeStatus_tx node_ctx RoleGateway ''gw_1'' ''0'' demo_report demo_site = Inr ((), demo_reported) \<and>
   (\<exists>grant. mget (st_Grants demo_reported) ''grt_1'' = Some grant \<and> gr_Published grant)"
proof -
  have tx: "nodeStatus_tx node_ctx RoleGateway ''gw_1'' ''0'' demo_report demo_site = Inr ((), demo_reported)"
  proof -
    have "isl (nodeStatus_tx node_ctx RoleGateway ''gw_1'' ''0'' demo_report demo_site) = False" by code_simp
    then show ?thesis by (cases "nodeStatus_tx node_ctx RoleGateway ''gw_1'' ''0'' demo_report demo_site") (auto simp: demo_reported_def)
  qed
  have run: "serves_desired RoleGateway (sr_Status demo_report) (gateway_at demo_reported ''gw_1'')"
    "VMessEnabled (gateway_at demo_reported ''gw_1'')"
    "map_option (servable demo_reported ''gw_1'') (mget (st_Grants demo_reported) ''grt_1'') = Some True"
    by code_simp+
  then obtain grant where grant: "mget (st_Grants demo_reported) ''grt_1'' = Some grant" "servable demo_reported ''gw_1'' grant" by auto
  have "gr_Published grant"
    using ready_report_publishes [OF tx run(1) grant] run(2) by simp
  moreover have "\<exists>grant. mget (st_Grants demo_site) ''grt_1'' = Some grant \<and> \<not> gr_Published grant"
    by (simp add: demo_site_def zero_Grant_def)
  ultimately show ?thesis using tx grant(1) by blast
qed

theorem gateway_config_exact_witness:
  "let config = gateway_config node_ctx False ''gw_1'' demo_site in
   map gr_ID (gc_Grants config) = [''grt_1''] \<and> distinct (gc_Grants config) \<and> gw_CredentialHash (gc_Gateway config) = []"
proof -
  have "gw_Enabled (gateway_at demo_site ''gw_1'')"
    "map gr_ID (gc_Grants (gateway_config node_ctx False ''gw_1'' demo_site)) = [''grt_1'']" by code_simp+
  then show ?thesis
    using gateway_config_exact [OF demo_site_ok, of "''gw_1''" node_ctx False] by (simp add: Let_def)
qed

theorem tunnel_ends_agree_witness:
  "\<exists>g c. g \<in> set (gc_Links (gateway_config node_ctx False ''gw_1'' demo_site)) \<and>
    c \<in> set (ac_Links (agent_config node_ctx ''agt_1'' demo_site)) \<and>
    lk_ID (gk_Link g) = ''lnk_1'' \<and> al_TunnelToken c = gk_TunnelToken g"
proof -
  define link where "link = zero_Link\<lparr>lk_ID := ''lnk_1'', lk_AttachmentID := ''att_1'', lk_URL := ''wss://gw'', lk_Enabled := True\<rparr>"
  define a where "a = zero_Attachment\<lparr>at_ID := ''att_1'', at_GatewayID := ''gw_1'', at_AgentID := ''agt_1'', at_Enabled := True\<rparr>"
  have "mget (st_Links demo_site) ''lnk_1'' = Some link" "lk_Enabled link" "lk_URL link \<noteq> []"
    "mget (st_Attachments demo_site) (lk_AttachmentID link) = Some a"
    by (simp_all add: demo_site_def link_def a_def)
  moreover have "routeAvailable demo_site a" unfolding a_def by code_simp
  ultimately have "\<exists>g\<in>set (gc_Links (gateway_config node_ctx False (at_GatewayID a) demo_site)).
    \<exists>c\<in>set (ac_Links (agent_config node_ctx (at_AgentID a) demo_site)).
      gk_Link g = link\<lparr>lk_TunnelTokenHash := []\<rparr> \<and> al_Link c = gk_Link g \<and> al_TunnelToken c = gk_TunnelToken g \<and>
      gk_AgentID g = at_AgentID a \<and> al_GatewayID c = at_GatewayID a"
    by (rule tunnel_ends_agree [OF demo_site_ok])
  moreover have "at_GatewayID a = ''gw_1''" "at_AgentID a = ''agt_1''" "lk_ID link = ''lnk_1''"
    by (simp_all add: a_def link_def)
  ultimately show ?thesis by force
qed

end
