(* ===== verification/Admin_Nodes.thy ===== *)
theory Admin_Nodes
  imports Removal
begin

text \<open>
  The administrator's handlers for users, gateways, agents and enrollments:
  \<open>src/internal/controller/admin_handlers.go\<close>, \<open>node_management.go\<close>, \<open>gateway_address.go\<close>,
  \<open>gateway_version.go\<close>, \<open>ingress.go\<close> and \<open>embedded_agent.go\<close>. Each handler \<open>X\<close> checks its form, draws
  its identifiers and runs the transaction \<open>X_tx\<close>.
\<close>

subsection \<open>Users\<close>

definition createUser_tx :: "Env \<Rightarrow> string \<Rightarrow> string \<Rightarrow> string \<Rightarrow> unit tx" where
  "createUser_tx env i name token s =
     Inr ((), s\<lparr>st_Users := mput i (zero_User\<lparr>u_ID := i, u_Name := name, u_Enabled := True,
       u_SubscriptionToken := token, u_CreatedAt := e_now env\<rparr>) (st_Users s)\<rparr>)"

definition createUser :: "Env \<Rightarrow> Request \<Rightarrow> Store \<Rightarrow> Response \<times> Store" where
  "createUser env r st =
     (let name = TrimSpace (FormValue r ''name'') in
      if name = [] then (HttpError 400 ''name is required'', st)
      else case newID env 0 ''usr'' of
          Inl err \<Rightarrow> (HttpError 500 err, st)
        | Inr i \<Rightarrow>
            (case e_rand env 1 of
               Inl err \<Rightarrow> (HttpError 500 err, st)
             | Inr token \<Rightarrow>
                 answer 500 (SeeOther ''/'') (Update (e_store env) (createUser_tx env i name token) st)))"

definition toggleUser_tx :: "string \<Rightarrow> unit tx" where
  "toggleUser_tx i s =
     (case mget (st_Users s) i of
        None \<Rightarrow> Inl ''user not found''
      | Some user \<Rightarrow>
          (let s1 = s\<lparr>st_Users := mput i (user\<lparr>u_Enabled := \<not> u_Enabled user\<rparr>) (st_Users s)\<rparr>;
               s2 = unpublish (\<lambda>g. gr_UserID g = i) s1
           in Inr ((), fold (\<lambda>g. bumpGatewayForAttachment (gr_AttachmentID g))
                (filter (\<lambda>g. gr_UserID g = i) (mvals (st_Grants s))) s2)))"

definition toggleUser :: "Env \<Rightarrow> Request \<Rightarrow> Store \<Rightarrow> Response \<times> Store" where
  "toggleUser env r st = answer 404 (SeeOther ''/'') (Update (e_store env) (toggleUser_tx (rq_id r)) st)"

text \<open>The loop of \<open>resetSubscription\<close>: three draws for every grant of the user.\<close>

fun reset_grants :: "Env \<Rightarrow> string \<Rightarrow> nat \<Rightarrow> Grant gomap \<Rightarrow> error + Grant gomap" where
  "reset_grants env userID k [] = Inr []"
| "reset_grants env userID k ((i, g) # m) =
     (if gr_UserID g \<noteq> userID
      then (case reset_grants env userID k m of Inl err \<Rightarrow> Inl err | Inr m' \<Rightarrow> Inr ((i, g) # m'))
      else case e_rand env k of
          Inl err \<Rightarrow> Inl err
        | Inr uuid \<Rightarrow>
            (case e_rand env (k + 1) of
               Inl err \<Rightarrow> Inl err
             | Inr password \<Rightarrow>
                 (case e_rand env (k + 2) of
                    Inl err \<Rightarrow> Inl err
                  | Inr hy2 \<Rightarrow>
                      (case reset_grants env userID (k + 3) m of
                         Inl err \<Rightarrow> Inl err
                       | Inr m' \<Rightarrow> Inr ((i, g\<lparr>gr_VMessUUID := uuid, gr_SOCKSPassword := password,
                                         gr_Published := False, gr_HY2Auth := hy2\<rparr>) # m')))))"

definition resetSubscription_tx :: "Env \<Rightarrow> string \<Rightarrow> string \<Rightarrow> unit tx" where
  "resetSubscription_tx env i token s =
     (case mget (st_Users s) i of
        None \<Rightarrow> Inl ''user not found''
      | Some user \<Rightarrow>
          (case reset_grants env (u_ID user) 1 (st_Grants s) of
             Inl err \<Rightarrow> Inl err
           | Inr grants \<Rightarrow>
               (let s1 = s\<lparr>st_Users := mput (u_ID user) (user\<lparr>u_SubscriptionToken := token\<rparr>) (st_Users s),
                           st_Grants := grants\<rparr>;
                    gateways = remdups (map (\<lambda>g. at_GatewayID (attachment_at s (gr_AttachmentID g)))
                                 (filter (\<lambda>g. gr_UserID g = u_ID user) (mvals (st_Grants s))))
                in Inr ((), fold (\<lambda>gatewayID s. if mget (st_Gateways s) gatewayID \<noteq> None then bumpGateway gatewayID s else s)
                          gateways s1))))"

definition resetSubscription :: "Env \<Rightarrow> Request \<Rightarrow> Store \<Rightarrow> Response \<times> Store" where
  "resetSubscription env r st =
     (case e_rand env 0 of
        Inl err \<Rightarrow> (HttpError 500 err, st)
      | Inr token \<Rightarrow>
          answer 404 (SeeOther ''/'') (Update (e_store env) (resetSubscription_tx env (rq_id r) token) st))"

subsection \<open>Addresses and versions of gateways\<close>

definition validGatewayRegion :: "string \<Rightarrow> bool" where
  "validGatewayRegion region = (region = [] \<or> region = ''cn'' \<or> region = ''overseas'')"

definition normalizeGatewayPublicHost :: "Env \<Rightarrow> string \<Rightarrow> error + string" where
  "normalizeGatewayPublicHost env v =
     (let host = TrimSpace v in
      if host = [] then Inr []
      else if has_prefix host ''['' \<and> has_suffix host '']'' then
        (case e_ParseAddr env (butlast (tl host)) of
           Some ip \<Rightarrow> if addr_Is6 ip \<and> addr_zone ip = [] then Inr (addr_text ip)
                     else Inl ''invalid bracketed IPv6 address''
         | None \<Rightarrow> Inl ''invalid bracketed IPv6 address'')
      else
        let plain = (if ContainsAny host (''[]:/?#@% '' @ [CHR 0x5C, CHR 0x09, CHR 0x0D, CHR 0x0A])
                     then Inl ''public host must be a hostname or IP address without a scheme or port'' else Inr host)
        in case e_ParseAddr env host of
             Some ip \<Rightarrow> if addr_zone ip = [] then Inr (addr_text ip) else plain
           | None \<Rightarrow> plain)"

definition gatewayAddressForm :: "Env \<Rightarrow> Request \<Rightarrow> Gateway \<Rightarrow> error + string \<times> Gateway" where
  "gatewayAddressForm env r gateway =
     (let manual = TrimSpace (FormValue r ''public_host'');
          controls = FormHas r ''address_controls'';
          auto = (if controls then FormValue r ''public_host_auto'' = ''1'' else manual = []);
          g = (if controls then gateway\<lparr>gw_IPv6IngressEnabled := FormValue r ''ipv6_ingress_enabled'' = ''1''\<rparr> else gateway)
      in if auto then
           (let g' = g\<lparr>gw_ManualPublicHost := manual, gw_PublicHostAuto := True\<rparr>
            in if gw_DetectedPublicIP g' \<noteq> [] then Inr (gw_DetectedPublicIP g', g') else Inr (gw_PublicHost g', g'))
         else case normalizeGatewayPublicHost env manual of
             Inl err \<Rightarrow> Inl err
           | Inr host \<Rightarrow>
               if host = [] then Inl ''manual public host is required when automatic discovery is disabled''
               else Inr (host, g\<lparr>gw_ManualPublicHost := host, gw_PublicHostAuto := False\<rparr>))"

text \<open>
  Release versions \<open>v?MAJOR.MINOR.PATCH(+BUILD)?\<close>: numbers without leading zeros that fit 64 bits,
  and a build part of dot-separated identifiers.
\<close>

definition version_number :: "string \<Rightarrow> nat option" where
  "version_number s =
     (if s = [] \<or> (length s > 1 \<and> hd s = CHR ''0'') then None
      else case digits_val 0 s of None \<Rightarrow> None | Some n \<Rightarrow> if n < 2 ^ 64 then Some n else None)"

definition build_char :: "char \<Rightarrow> bool" where
  "build_char c = (let n = of_char c :: nat in
     48 \<le> n \<and> n \<le> 57 \<or> 65 \<le> n \<and> n \<le> 90 \<or> 97 \<le> n \<and> n \<le> 122 \<or> n = 45)"

definition release_version :: "string \<Rightarrow> (nat \<times> nat \<times> nat) option" where
  "release_version v =
     (let body = (if has_prefix v ''v'' then tl v else v);
          core = takeWhile (\<lambda>c. c \<noteq> CHR ''+'') body;
          build = drop (length core) body
      in if build \<noteq> [] \<and> \<not> list_all (\<lambda>p. p \<noteq> [] \<and> list_all build_char p) (split_on CHR ''.'' (tl build)) then None
         else case split_on CHR ''.'' core of
             [a, b, c] \<Rightarrow>
               (case (version_number a, version_number b, version_number c) of
                  (Some x, Some y, Some z) \<Rightarrow> Some (x, y, z) | _ \<Rightarrow> None)
           | _ \<Rightarrow> None)"

definition gatewayVersionAtLeast :: "string \<Rightarrow> nat \<times> nat \<times> nat \<Rightarrow> bool" where
  "gatewayVersionAtLeast version minimum =
     (case release_version version of
        None \<Rightarrow> False
      | Some (a, b, c) \<Rightarrow>
          (case minimum of (x, y, z) \<Rightarrow>
             if a \<noteq> x then x < a else if b \<noteq> y then y < b else if c \<noteq> z then z < c else True))"

definition gatewayAutoIPSupported :: "string \<Rightarrow> bool" where
  "gatewayAutoIPSupported version = gatewayVersionAtLeast version (0, 4, 6)"

definition gatewayIPv6Supported :: "string \<Rightarrow> bool" where
  "gatewayIPv6Supported version = gatewayVersionAtLeast version (0, 4, 7)"

definition validateGatewayAddressActivation :: "Gateway \<Rightarrow> Gateway \<Rightarrow> NodeStatus \<Rightarrow> error option" where
  "validateGatewayAddressActivation previous nxt status =
     (if gw_CredentialHash previous = [] then None
      else if gw_PublicHostAuto nxt \<and> \<not> gw_PublicHostAuto previous \<and> \<not> gatewayAutoIPSupported (ns_BinaryVersion status)
        then Some (''public IP discovery requires Gateway v0.4.6 or newer; reported version: '' @ quoted (ns_BinaryVersion status))
      else if gw_IPv6IngressEnabled nxt \<and> \<not> gw_IPv6IngressEnabled previous \<and> \<not> gatewayIPv6Supported (ns_BinaryVersion status)
        then Some (''IPv6 ingress requires Gateway v0.4.7 or newer; reported version: '' @ quoted (ns_BinaryVersion status))
      else None)"

subsection \<open>Gateways\<close>

definition new_gateway ::
    "Env \<Rightarrow> Request \<Rightarrow> string \<Rightarrow> string \<Rightarrow> string \<Rightarrow> Gateway \<Rightarrow> string \<Rightarrow> int \<Rightarrow> string \<Rightarrow> Gateway" where
  "new_gateway env r i name host address region port path =
     zero_Gateway\<lparr>gw_ID := i, gw_Name := name, gw_PublicHost := host,
       gw_PublicHostAuto := gw_PublicHostAuto address, gw_ManualPublicHost := gw_ManualPublicHost address,
       gw_IPv6IngressEnabled := gw_IPv6IngressEnabled address, gw_Region := region, gw_VMessPort := port,
       gw_VMessPath := path, gw_VMessHost := TrimSpace (FormValue r ''vmess_host''), gw_Enabled := True,
       gw_DesiredVersion := 1, gw_CreatedAt := e_now env\<rparr>"

definition createGateway_tx :: "Env \<Rightarrow> Request \<Rightarrow> Gateway \<Rightarrow> int \<Rightarrow> unit tx" where
  "createGateway_tx env r gateway hy2Port s =
     (let s1 = s\<lparr>st_Gateways := mput (gw_ID gateway) gateway (st_Gateways s)\<rparr> in
      case configureHY2 env 1 (applyIngressSwitches r gateway) hy2Port s1 of
        Inl err \<Rightarrow> Inl err
      | Inr (g, s2) \<Rightarrow> Inr ((), s2\<lparr>st_Gateways := mput (gw_ID gateway) g (st_Gateways s2)\<rparr>))"

definition createGateway :: "Env \<Rightarrow> Request \<Rightarrow> Store \<Rightarrow> Response \<times> Store" where
  "createGateway env r st =
     (let region = TrimSpace (FormValue r ''region''); name = TrimSpace (FormValue r ''name'') in
      if \<not> validGatewayRegion region then (HttpError 400 ''invalid Gateway region'', st)
      else case gatewayAddressForm env r zero_Gateway of
          Inl err \<Rightarrow> (HttpError 400 err, st)
        | Inr (host, address) \<Rightarrow>
            (let path0 = TrimSpace (FormValue r ''vmess_path'');
                 parsed = parsePositive (FormValue r ''vmess_port'') 8080;
                 port = (case parsed of None \<Rightarrow> 0 | Some p \<Rightarrow> p)
             in case parseHY2Port r port of
                  Inl err \<Rightarrow> (HttpError 400 err, st)
                | Inr hy2Port \<Rightarrow>
                    if parsed = None \<or> 65535 < port \<or> name = [] then (HttpError 400 ''valid name and port are required'', st)
                    else let path = (if path0 = [] then ''/proxy'' else path0) in
                      if \<not> has_prefix path ''/'' then (HttpError 400 ''VMess path must start with /'', st)
                      else case newID env 0 ''gw'' of
                          Inl err \<Rightarrow> (HttpError 500 err, st)
                        | Inr i \<Rightarrow>
                            answer 500 (SeeOther ''/'') (Update (e_store env)
                              (createGateway_tx env r (new_gateway env r i name host address region port path) hy2Port) st)))"

definition toggleGateway_tx :: "string \<Rightarrow> unit tx" where
  "toggleGateway_tx i s =
     (case mget (st_Gateways s) i of
        None \<Rightarrow> Inl ''gateway not found''
      | Some gateway0 \<Rightarrow>
          (let gateway = gateway0\<lparr>gw_Enabled := \<not> gw_Enabled gateway0, gw_DesiredVersion := gw_DesiredVersion gateway0 + 1\<rparr>;
               s1 = s\<lparr>st_Gateways := mput (gw_ID gateway) gateway (st_Gateways s)\<rparr>;
               s2 = (case mget (st_Agents s1) (GatewayAgentID (gw_ID gateway)) of
                       None \<Rightarrow> s1
                     | Some agent \<Rightarrow>
                         if ag_GatewayID agent = gw_ID gateway
                         then embeddedAgentChanged (agent\<lparr>ag_DesiredVersion := ag_DesiredVersion agent + 1\<rparr>) s1 else s1)
           in Inr ((), if gw_Enabled gateway then s2
                else unpublish (\<lambda>g. at_GatewayID (attachment_at s2 (gr_AttachmentID g)) = gw_ID gateway) s2)))"

definition toggleGateway :: "Env \<Rightarrow> Request \<Rightarrow> Store \<Rightarrow> Response \<times> Store" where
  "toggleGateway env r st = answer 404 (SeeOther ''/'') (Update (e_store env) (toggleGateway_tx (rq_id r)) st)"

definition toggleEmbeddedAgent_tx :: "Env \<Rightarrow> string \<Rightarrow> unit tx" where
  "toggleEmbeddedAgent_tx env gatewayID s =
     (case mget (st_Gateways s) gatewayID of
        None \<Rightarrow> Inl ''gateway not found''
      | Some gateway0 \<Rightarrow>
          (let i = GatewayAgentID (gw_ID gateway0);
               existing = mget (st_Agents s) i
           in if (case existing of None \<Rightarrow> False | Some a \<Rightarrow> ag_GatewayID a \<noteq> gw_ID gateway0)
              then Inl ''embedded Agent identity conflict''
              else
                let agent0 = (case existing of
                                Some a \<Rightarrow> a
                              | None \<Rightarrow> zero_Agent\<lparr>ag_ID := i, ag_GatewayID := gw_ID gateway0,
                                  ag_Name := gw_Name gateway0 @ '' (Gateway)'', ag_AllowedCIDRs := [''0.0.0.0/0'', ''::/0''],
                                  ag_CreatedAt := e_now env\<rparr>);
                    gateway = gateway0\<lparr>gw_AgentEnabled := \<not> gw_AgentEnabled gateway0,
                                gw_DesiredVersion := gw_DesiredVersion gateway0 + 1\<rparr>;
                    agent = agent0\<lparr>ag_Enabled := gw_AgentEnabled gateway, ag_DesiredVersion := ag_DesiredVersion agent0 + 1\<rparr>
                in Inr ((), embeddedAgentChanged agent (s\<lparr>st_Gateways := mput (gw_ID gateway) gateway (st_Gateways s)\<rparr>))))"

definition toggleEmbeddedAgent :: "Env \<Rightarrow> Request \<Rightarrow> Store \<Rightarrow> Response \<times> Store" where
  "toggleEmbeddedAgent env r st =
     answer 400 (SeeOther ''/#gateways'') (Update (e_store env) (toggleEmbeddedAgent_tx env (rq_id r)) st)"


text \<open>The end of \<open>editGateway\<close>: a change of what clients connect to bumps the gateway and withdraws its grants.\<close>

definition finish_gateway_edit :: "Request \<Rightarrow> string \<Rightarrow> bool \<Rightarrow> Gateway \<Rightarrow> State \<Rightarrow> State" where
  "finish_gateway_edit r region connectionChanged g4 s =
     (let g5 = (if FormHas r ''region'' then g4\<lparr>gw_Region := region\<rparr> else g4);
          g6 = (if connectionChanged then g5\<lparr>gw_DesiredVersion := gw_DesiredVersion g5 + 1\<rparr> else g5);
          s1 = s\<lparr>st_Gateways := mput (gw_ID g6) g6 (st_Gateways s)\<rparr>
      in if connectionChanged
         then unpublish (\<lambda>g. at_GatewayID (attachment_at s1 (gr_AttachmentID g)) = gw_ID g6) s1 else s1)"

definition editGateway_tx :: "Env \<Rightarrow> Request \<Rightarrow> string \<Rightarrow> string \<Rightarrow> int \<Rightarrow> string \<Rightarrow> unit tx" where
  "editGateway_tx env r name path port region s =
     (case mget (st_Gateways s) (rq_id r) of
        None \<Rightarrow> Inl ''gateway not found''
      | Some previous \<Rightarrow>
          (let vmessHost = TrimSpace (FormValue r ''vmess_host''); previousIPv6 = IPv6IngressHost env previous in
           case gatewayAddressForm env r previous of
             Inl err \<Rightarrow> Inl err
           | Inr (host, g0) \<Rightarrow>
               (case validateGatewayAddressActivation previous g0 (status_at s (gw_ID g0)) of
                  Some err \<Rightarrow> Inl err
                | None \<Rightarrow>
                    (let g1 = applyIngressSwitches r g0 in
                     case parseHY2Port r (gw_HY2Port g1) of
                       Inl err \<Rightarrow> Inl err
                     | Inr hy2Port0 \<Rightarrow>
                         (let hy2Port = (if FormHas r ''ingress_controls'' \<and> \<not> gw_HY2Disabled g1 \<and> hy2Port0 = 0
                                         then port else hy2Port0);
                              connectionChanged = (gw_PublicHost g1 \<noteq> host \<or> previousIPv6 \<noteq> IPv6IngressHost env g1 \<or>
                                gw_VMessPort g1 \<noteq> port \<or> gw_VMessPath g1 \<noteq> path \<or> gw_VMessHost g1 \<noteq> vmessHost \<or>
                                gw_HY2Port g1 \<noteq> hy2Port \<or> gw_VMessDisabled previous \<noteq> gw_VMessDisabled g1 \<or>
                                gw_HY2Disabled previous \<noteq> gw_HY2Disabled g1);
                              (g2, s1) = changeGatewayHost env g1 host s;
                              g3 = g2\<lparr>gw_Name := name, gw_PublicHost := host, gw_VMessPort := port, gw_VMessPath := path,
                                      gw_VMessHost := vmessHost\<rparr>
                          in case configureHY2 env 0 g3 hy2Port s1 of
                               Inl err \<Rightarrow> Inl err
                             | Inr (g4, s2) \<Rightarrow>
                                 Inr ((), finish_gateway_edit r region connectionChanged g4 s2))))))"

definition editGateway :: "Env \<Rightarrow> Request \<Rightarrow> Store \<Rightarrow> Response \<times> Store" where
  "editGateway env r st =
     (let region = TrimSpace (FormValue r ''region''); name = TrimSpace (FormValue r ''name'');
          path = TrimSpace (FormValue r ''vmess_path''); parsed = parsePositive (FormValue r ''vmess_port'') 0;
          port = (case parsed of None \<Rightarrow> 0 | Some p \<Rightarrow> p)
      in if \<not> validGatewayRegion region then (HttpError 400 ''invalid Gateway region'', st)
         else if name = [] \<or> port < 1 \<or> 65535 < port \<or> parsed = None \<or> \<not> has_prefix path ''/''
           then (HttpError 400 ''valid name, port, and WS path are required'', st)
         else case Update (e_store env) (editGateway_tx env r name path port region) st of
             (Inl err, st') \<Rightarrow> (HttpError (if err = ''gateway not found'' then 404 else 400) err, st')
           | (Inr _, st') \<Rightarrow> (SeeOther ''/'', st'))"

definition saveGatewayIngress_tx :: "Env \<Rightarrow> Request \<Rightarrow> unit tx" where
  "saveGatewayIngress_tx env r s =
     (case mget (st_Gateways s) (rq_id r) of
        None \<Rightarrow> Inl ''gateway not found''
      | Some previous \<Rightarrow>
          (let g1 = applyIngressSwitches r previous;
               port = (if \<not> gw_HY2Disabled g1 \<and> gw_HY2Port g1 = 0
                       then (if gw_VMessPort g1 = 0 then 8080 else gw_VMessPort g1) else gw_HY2Port g1)
           in case configureHY2 env 0 g1 port s of
                Inl err \<Rightarrow> Inl err
              | Inr (g2, s1) \<Rightarrow>
                  (let s2 = s1\<lparr>st_Gateways := mput (gw_ID g2) g2 (st_Gateways s1)\<rparr>
                   in Inr ((), if gw_VMessDisabled previous \<noteq> gw_VMessDisabled g2 \<or>
                          gw_HY2Disabled previous \<noteq> gw_HY2Disabled g2 \<or> gw_HY2Port previous \<noteq> gw_HY2Port g2
                        then let s3 = bumpGateway (gw_ID g2) s2
                             in unpublish (\<lambda>g. at_GatewayID (attachment_at s3 (gr_AttachmentID g)) = gw_ID g2) s3
                        else s2))))"

definition saveGatewayIngress :: "Env \<Rightarrow> Request \<Rightarrow> Store \<Rightarrow> Response \<times> Store" where
  "saveGatewayIngress env r st =
     (if FormValue r ''ingress_controls'' \<noteq> ''1'' then (HttpError 400 ''ingress controls required'', st)
      else answer 400 (SeeOther ''/'') (Update (e_store env) (saveGatewayIngress_tx env r) st))"

subsection \<open>Agents\<close>

definition invalid_cidrs :: "Env \<Rightarrow> string list \<Rightarrow> string list" where
  "invalid_cidrs env cidrs = filter (\<lambda>c. e_ParsePrefix env c = None) cidrs"

definition createAgent_tx :: "Env \<Rightarrow> string \<Rightarrow> string \<Rightarrow> string list \<Rightarrow> string list \<Rightarrow> unit tx" where
  "createAgent_tx env i name allowed denied s =
     Inr ((), s\<lparr>st_Agents := mput i (zero_Agent\<lparr>ag_ID := i, ag_Name := name, ag_Enabled := True,
       ag_AllowedCIDRs := allowed, ag_DeniedCIDRs := denied, ag_DesiredVersion := 1, ag_CreatedAt := e_now env\<rparr>) (st_Agents s)\<rparr>)"

definition createAgent :: "Env \<Rightarrow> Request \<Rightarrow> Store \<Rightarrow> Response \<times> Store" where
  "createAgent env r st =
     (let name = TrimSpace (FormValue r ''name'');
          allowed0 = splitCSV (FormValue r ''allowed_cidrs'');
          allowed = (if allowed0 = [] then [''0.0.0.0/0'', ''::/0''] else allowed0);
          denied = splitCSV (FormValue r ''denied_cidrs'')
      in if name = [] then (HttpError 400 ''name is required'', st)
         else case invalid_cidrs env (allowed @ denied) of
             cidr # _ \<Rightarrow> (HttpError 400 (''invalid CIDR: '' @ cidr), st)
           | [] \<Rightarrow>
               (case newID env 0 ''agt'' of
                  Inl err \<Rightarrow> (HttpError 500 err, st)
                | Inr i \<Rightarrow>
                    answer 500 (SeeOther ''/'') (Update (e_store env) (createAgent_tx env i name allowed denied) st)))"

text \<open>\<open>sameCIDRs\<close> compares the sets of masked prefixes; entries that do not parse are ignored.\<close>

definition sameCIDRs :: "Env \<Rightarrow> string list \<Rightarrow> string list \<Rightarrow> bool" where
  "sameCIDRs env left right =
     (let prefixes = (\<lambda>values. remdups (List.map_filter (e_ParsePrefix env) values));
          a = prefixes left; b = prefixes right
      in length a = length b \<and> list_all (\<lambda>p. p \<in> set b) a)"

definition editAgent_tx :: "Env \<Rightarrow> string \<Rightarrow> string \<Rightarrow> string list \<Rightarrow> string list \<Rightarrow> unit tx" where
  "editAgent_tx env i name allowed denied s =
     (case mget (st_Agents s) i of
        None \<Rightarrow> Inl ''agent not found''
      | Some agent0 \<Rightarrow>
          (let policyChanged = (\<not> sameCIDRs env (ag_AllowedCIDRs agent0) allowed \<or> \<not> sameCIDRs env (ag_DeniedCIDRs agent0) denied);
               agent1 = agent0\<lparr>ag_Name := name, ag_AllowedCIDRs := allowed, ag_DeniedCIDRs := denied\<rparr>;
               agent = (if policyChanged then agent1\<lparr>ag_DesiredVersion := ag_DesiredVersion agent1 + 1\<rparr> else agent1)
           in Inr ((), s\<lparr>st_Agents := mput (ag_ID agent) agent (st_Agents s)\<rparr>)))"

definition editAgent :: "Env \<Rightarrow> Request \<Rightarrow> Store \<Rightarrow> Response \<times> Store" where
  "editAgent env r st =
     (let name = TrimSpace (FormValue r ''name''); allowed = splitCSV (FormValue r ''allowed_cidrs'');
          denied = splitCSV (FormValue r ''denied_cidrs'')
      in if name = [] then (HttpError 400 ''name is required'', st)
         else if allowed = [] then (HttpError 400 ''at least one allowed CIDR is required'', st)
         else case invalid_cidrs env (allowed @ denied) of
             cidr # _ \<Rightarrow> (HttpError 400 (''invalid CIDR: '' @ cidr), st)
           | [] \<Rightarrow> answer 404 (SeeOther ''/'') (Update (e_store env) (editAgent_tx env (rq_id r) name allowed denied) st))"

definition toggleAgent_tx :: "string \<Rightarrow> unit tx" where
  "toggleAgent_tx i s =
     (case mget (st_Agents s) i of
        None \<Rightarrow> Inl ''agent not found''
      | Some agent0 \<Rightarrow>
          (let agent = agent0\<lparr>ag_Enabled := \<not> ag_Enabled agent0, ag_DesiredVersion := ag_DesiredVersion agent0 + 1\<rparr>;
               s1 = s\<lparr>st_Agents := mput (ag_ID agent) agent (st_Agents s)\<rparr>;
               s2 = (if ag_GatewayID agent \<noteq> [] then
                       (let gateway0 = gateway_at s1 (ag_GatewayID agent);
                            gateway = gateway0\<lparr>gw_AgentEnabled := ag_Enabled agent, gw_DesiredVersion := gw_DesiredVersion gateway0 + 1\<rparr>
                        in s1\<lparr>st_Gateways := mput (gw_ID gateway) gateway (st_Gateways s1)\<rparr>)
                     else s1)
           in Inr ((), touch_routes (\<not> ag_Enabled agent) (\<lambda>a. at_AgentID a = ag_ID agent) s2)))"

definition toggleAgent :: "Env \<Rightarrow> Request \<Rightarrow> Store \<Rightarrow> Response \<times> Store" where
  "toggleAgent env r st = answer 404 (SeeOther ''/'') (Update (e_store env) (toggleAgent_tx (rq_id r)) st)"

subsection \<open>Deleting nodes\<close>

definition deleteGateway_tx :: "Env \<Rightarrow> string \<Rightarrow> string \<Rightarrow> unit tx" where
  "deleteGateway_tx env i confirm_name s =
     (case mget (st_Gateways s) i of
        None \<Rightarrow> Inl ''gateway not found''
      | Some gateway \<Rightarrow>
          if confirm_name \<noteq> gw_Name gateway then Inl ''confirmation name does not match''
          else if nodeHasActiveUpgrade s (gw_ID gateway)
            then Inl ''gateway has an active upgrade; wait for completion or cancel the pending task''
          else
            let embedded = (case mget (st_Agents s) (GatewayAgentID (gw_ID gateway)) of
                              None \<Rightarrow> [] | Some agent \<Rightarrow> if ag_GatewayID agent = gw_ID gateway then [ag_ID agent] else []);
                s1 = s\<lparr>st_Agents := fold mdel embedded (st_Agents s)\<rparr>;
                s2 = s1\<lparr>st_Gateways := mdel (gw_ID gateway) (st_Gateways s1)\<rparr>
            in Inr ((), removeNodeReferences (e_now env) (gw_ID gateway # embedded) s2))"

definition deleteGateway :: "Env \<Rightarrow> Request \<Rightarrow> Store \<Rightarrow> Response \<times> Store" where
  "deleteGateway env r st =
     answer 400 (SeeOther ''/'') (Update (e_store env) (deleteGateway_tx env (rq_id r) (FormValue r ''confirm_name'')) st)"

definition deleteAgent_tx :: "Env \<Rightarrow> string \<Rightarrow> string \<Rightarrow> unit tx" where
  "deleteAgent_tx env i confirm_name s =
     (case mget (st_Agents s) i of
        None \<Rightarrow> Inl ''agent not found''
      | Some agent \<Rightarrow>
          if confirm_name \<noteq> ag_Name agent then Inl ''confirmation name does not match''
          else if nodeHasActiveUpgrade s (ag_ID agent) \<or>
                  ag_GatewayID agent \<noteq> [] \<and> nodeHasActiveUpgrade s (ag_GatewayID agent)
            then Inl ''agent has an active upgrade; wait for completion or cancel the pending task''
          else
            let s1 = s\<lparr>st_Agents := mdel (ag_ID agent) (st_Agents s)\<rparr>;
                s2 = (if ag_GatewayID agent \<noteq> [] then
                        (let gateway0 = gateway_at s1 (ag_GatewayID agent);
                             gateway = gateway0\<lparr>gw_AgentEnabled := False, gw_DesiredVersion := gw_DesiredVersion gateway0 + 1\<rparr>
                         in s1\<lparr>st_Gateways := mput (gw_ID gateway) gateway (st_Gateways s1)\<rparr>)
                      else s1)
            in Inr ((), removeNodeReferences (e_now env) [ag_ID agent] s2))"

definition deleteAgent :: "Env \<Rightarrow> Request \<Rightarrow> Store \<Rightarrow> Response \<times> Store" where
  "deleteAgent env r st =
     answer 400 (SeeOther ''/'') (Update (e_store env) (deleteAgent_tx env (rq_id r) (FormValue r ''confirm_name'')) st)"

subsection \<open>Enrollments\<close>

definition createEnrollment_tx :: "Env \<Rightarrow> Role \<Rightarrow> string \<Rightarrow> string \<Rightarrow> string \<Rightarrow> unit tx" where
  "createEnrollment_tx env role nodeID token i s =
     (if role = RoleGateway \<and> mget (st_Gateways s) nodeID = None then Inl ''gateway no longer exists''
      else if role \<noteq> RoleGateway \<and> mget (st_Agents s) nodeID = None then Inl ''agent no longer exists''
      else
        let expired = mmap (\<lambda>_ e. if en_NodeID e = nodeID \<and> en_Role e = role \<and> IsZero (en_UsedAt e)
                                  then e\<lparr>en_ExpiresAt := e_now env\<rparr> else e) (st_Enrollments s)
        in Inr ((), s\<lparr>st_Enrollments := mput i
             \<lparr>en_ID = i, en_NodeID = nodeID, en_Role = role, en_TokenHash = env_SecretHash env token,
              en_ExpiresAt = e_now env + 30 * minute, en_UsedAt = 0, en_CreatedAt = e_now env\<rparr> expired\<rparr>))"

definition createEnrollment :: "Env \<Rightarrow> Request \<Rightarrow> Store \<Rightarrow> Response \<times> Store" where
  "createEnrollment env r st =
     (let role = FormValue r ''role''; nodeID = FormValue r ''node_id''; state = store_Snapshot st in
      if role \<noteq> RoleGateway \<and> role \<noteq> RoleAgent then (HttpError 400 ''invalid role'', st)
      else if role = RoleGateway \<and> mget (st_Gateways state) nodeID = None then (HttpError 404 ''gateway not found'', st)
      else if role = RoleAgent \<and> ag_GatewayID (agent_at state nodeID) \<noteq> []
        then (HttpError 409 ''embedded Agent shares its Gateway process; enroll the Gateway instead'', st)
      else if role = RoleAgent \<and> mget (st_Agents state) nodeID = None then (HttpError 404 ''agent not found'', st)
      else if \<not> releaseEnabled env
        then (HttpError 409 ''configure a release version and a GitHub or Controller release source'', st)
      else case e_rand env 0 of
          Inl err \<Rightarrow> (HttpError 500 err, st)
        | Inr token \<Rightarrow>
            (case newID env 1 ''enr'' of
               Inl err \<Rightarrow> (HttpError 500 err, st)
             | Inr i \<Rightarrow> answer 500 PlainText (Update (e_store env) (createEnrollment_tx env role nodeID token i) st)))"

definition revokeEnrollment_tx :: "Env \<Rightarrow> string \<Rightarrow> unit tx" where
  "revokeEnrollment_tx env i s =
     (case mget (st_Enrollments s) i of
        None \<Rightarrow> Inl ''enrollment not found''
      | Some enrollment \<Rightarrow>
          Inr ((), s\<lparr>st_Enrollments := mput (en_ID enrollment) (enrollment\<lparr>en_ExpiresAt := e_now env\<rparr>) (st_Enrollments s)\<rparr>))"

definition revokeEnrollment :: "Env \<Rightarrow> Request \<Rightarrow> Store \<Rightarrow> Response \<times> Store" where
  "revokeEnrollment env r st = answer 404 (SeeOther ''/'') (Update (e_store env) (revokeEnrollment_tx env (rq_id r)) st)"

end
