(* ===== verification/Admin_Routes.thy ===== *)
theory Admin_Routes
  imports Admin_Nodes
begin

text \<open>
  The administrator's handlers for routes (attachments), links and grants:
  \<open>src/internal/controller/admin_handlers.go\<close>, \<open>route_management.go\<close>, \<open>connections.go\<close>,
  \<open>automation.go\<close> and \<open>reality.go\<close>.
\<close>

subsection \<open>REALITY identities\<close>

definition defaultRealityTarget :: "string \<Rightarrow> string" where
  "defaultRealityTarget region =
     (if region = ''cn'' then ''api.bilibili.com:443'' else if region = ''overseas'' then ''www.swift.com:443'' else [])"

text \<open>\<open>net.ParseIP\<close> accepts what \<open>netip.ParseAddr\<close> does, zones apart.\<close>

definition is_IP :: "Env \<Rightarrow> string \<Rightarrow> bool" where
  "is_IP env name = (case e_ParseAddr env name of None \<Rightarrow> False | Some ip \<Rightarrow> addr_zone ip = [])"

definition realityTargetName :: "Env \<Rightarrow> string \<Rightarrow> error + string" where
  "realityTargetName env target =
     (case e_SplitHostPort env target of
        None \<Rightarrow> Inl ''REALITY target must be a DNS name on port 443''
      | Some (name, port) \<Rightarrow>
          if name = [] \<or> port \<noteq> ''443'' \<or> \<not> Contains name ''.'' \<or> has_prefix name ''.'' \<or> has_suffix name ''.'' \<or>
             ContainsAny name (''/?#@ '' @ [CHR 0x5C, CHR 0x09, CHR 0x0D, CHR 0x0A]) \<or> is_IP env name
          then Inl ''REALITY target must be a DNS name on port 443'' else Inr name)"

definition reality_url_ok :: "URL \<Rightarrow> bool" where
  "reality_url_ok u =
     (url_Hostname u \<noteq> [] \<and> url_Port u \<noteq> [] \<and> url_Path u \<noteq> [] \<and> \<not> url_User u \<and> url_RawQuery u = [] \<and> url_Fragment u = [])"

text \<open>
  \<open>provisionReality\<close>: the key pair of the gateway on first use, then an identity for the link. The
  UUID and the short ID are the draws \<open>k\<close> and \<open>k + 1\<close>.
\<close>

definition provisionReality :: "Env \<Rightarrow> nat \<Rightarrow> string \<Rightarrow> string \<Rightarrow> string \<Rightarrow> (string \<times> string) tx" where
  "provisionReality env k gatewayID target0 linkURL s =
     (case mget (st_Gateways s) gatewayID of
        None \<Rightarrow> Inl ''Gateway not found''
      | Some gateway \<Rightarrow>
          (let target = (if target0 \<noteq> [] then target0
                         else if gw_RealityTarget gateway \<noteq> [] then gw_RealityTarget gateway
                         else defaultRealityTarget (gw_Region gateway))
           in case e_ParseURL env linkURL of
                None \<Rightarrow> Inl ''REALITY URL must be reality://host:port/tunnel-path''
              | Some u \<Rightarrow>
                  if url_Scheme u \<noteq> ''reality'' \<or> \<not> reality_url_ok u
                  then Inl ''REALITY URL must be reality://host:port/tunnel-path''
                  else if (case ParseInt (url_Port u) of None \<Rightarrow> True | Some p \<Rightarrow> p \<le> 0 \<or> 65535 < p)
                    then Inl ''invalid REALITY Link port''
                  else if target = [] then Inl ''REALITY target is required''
                  else case realityTargetName env target of
                      Inl err \<Rightarrow> Inl err
                    | Inr name \<Rightarrow>
                        (let provisioned =
                           (if gw_RealityPrivateKey gateway = [] then
                              (case e_realityKey env of
                                 Inl err \<Rightarrow> Inl (''generate REALITY key: '' @ err)
                               | Inr (priv, pub) \<Rightarrow>
                                   Inr (s\<lparr>st_Gateways := mput gatewayID
                                     (gateway\<lparr>gw_RealityPrivateKey := priv, gw_RealityPublicKey := pub,
                                              gw_RealityTarget := target, gw_RealityName := name\<rparr>) (st_Gateways s)\<rparr>))
                            else if gw_RealityTarget gateway \<noteq> target
                              then Inl ''Gateway already uses a different REALITY target''
                            else Inr s)
                         in case provisioned of
                              Inl err \<Rightarrow> Inl err
                            | Inr s1 \<Rightarrow>
                                (case e_rand env k of
                                   Inl err \<Rightarrow> Inl err
                                 | Inr uuid \<Rightarrow>
                                     (case e_rand env (Suc k) of
                                        Inl err \<Rightarrow> Inl err
                                      | Inr shortID \<Rightarrow> Inr ((uuid, shortID), s1))))))"

definition tunnel_hash :: "Env \<Rightarrow> string \<Rightarrow> string" where
  "tunnel_hash env linkID = env_SecretHash env (Derive (e_hmac env) (e_sessionKey env) ''tunnel'' linkID)"

subsection \<open>Attachments\<close>

definition createAttachment_tx :: "Env \<Rightarrow> string \<Rightarrow> string \<Rightarrow> string \<Rightarrow> unit tx" where
  "createAttachment_tx env i gatewayID agentID s =
     (if mget (st_Gateways s) gatewayID = None then Inl ''gateway not found''
      else if mget (st_Agents s) agentID = None then Inl ''agent not found''
      else if list_ex (\<lambda>a. at_GatewayID a = gatewayID \<and> at_AgentID a = agentID) (mvals (st_Attachments s))
        then Inl ''attachment already exists''
      else
        let s1 = s\<lparr>st_Attachments := mput i (zero_Attachment\<lparr>at_ID := i, at_GatewayID := gatewayID, at_AgentID := agentID,
                    at_Enabled := True, at_CreatedAt := e_now env\<rparr>) (st_Attachments s)\<rparr>
        in Inr ((), bumpAgent agentID (bumpGateway gatewayID s1)))"

definition createAttachment :: "Env \<Rightarrow> Request \<Rightarrow> Store \<Rightarrow> Response \<times> Store" where
  "createAttachment env r st =
     (case newID env 0 ''node'' of
        Inl err \<Rightarrow> (HttpError 500 err, st)
      | Inr i \<Rightarrow>
          answer 400 (SeeOther ''/'') (Update (e_store env)
            (createAttachment_tx env i (FormValue r ''gateway_id'') (FormValue r ''agent_id'')) st))"

definition toggleAttachment_tx :: "string \<Rightarrow> unit tx" where
  "toggleAttachment_tx i s =
     (case mget (st_Attachments s) i of
        None \<Rightarrow> Inl ''attachment not found''
      | Some attachment0 \<Rightarrow>
          (let attachment = attachment0\<lparr>at_Enabled := \<not> at_Enabled attachment0\<rparr>;
               s1 = s\<lparr>st_Attachments := mput (at_ID attachment) attachment (st_Attachments s)\<rparr>;
               s2 = bumpGateway (at_GatewayID attachment) s1;
               s3 = (if at_AgentID attachment \<noteq> [] then bumpAgent (at_AgentID attachment) s2 else s2)
           in Inr ((), if at_Enabled attachment then s3 else unpublish (\<lambda>g. gr_AttachmentID g = at_ID attachment) s3)))"

definition toggleAttachment :: "Env \<Rightarrow> Request \<Rightarrow> Store \<Rightarrow> Response \<times> Store" where
  "toggleAttachment env r st = answer 404 (SeeOther ''/'') (Update (e_store env) (toggleAttachment_tx (rq_id r)) st)"

definition deleteAttachment_tx :: "Env \<Rightarrow> string \<Rightarrow> string \<Rightarrow> unit tx" where
  "deleteAttachment_tx env i confirm_id s =
     (if mget (st_Attachments s) i = None then Inl ''assignment not found''
      else if confirm_id \<noteq> i then Inl ''confirmation ID does not match''
      else Inr ((), removeAttachment (e_now env) i s))"

definition deleteAttachment :: "Env \<Rightarrow> Request \<Rightarrow> Store \<Rightarrow> Response \<times> Store" where
  "deleteAttachment env r st =
     answer 400 (SeeOther ''/'') (Update (e_store env) (deleteAttachment_tx env (rq_id r) (FormValue r ''confirm_id'')) st)"

subsection \<open>Links\<close>

definition toggleLink_tx :: "string \<Rightarrow> unit tx" where
  "toggleLink_tx i s =
     (case mget (st_Links s) i of
        None \<Rightarrow> Inl ''link not found''
      | Some link0 \<Rightarrow>
          (let link = link0\<lparr>lk_Enabled := \<not> lk_Enabled link0\<rparr>;
               s1 = s\<lparr>st_Links := mput (lk_ID link) link (st_Links s)\<rparr>;
               attachment = attachment_at s1 (lk_AttachmentID link);
               s2 = unpublishGrantsWithoutLink (lk_AttachmentID link) s1
           in Inr ((), bumpAgent (at_AgentID attachment) (bumpGateway (at_GatewayID attachment) s2))))"

definition toggleLink :: "Env \<Rightarrow> Request \<Rightarrow> Store \<Rightarrow> Response \<times> Store" where
  "toggleLink env r st = answer 404 (SeeOther ''/'') (Update (e_store env) (toggleLink_tx (rq_id r)) st)"

definition updateLinkPolicy_tx :: "string \<Rightarrow> int \<Rightarrow> int \<Rightarrow> int \<Rightarrow> int \<Rightarrow> unit tx" where
  "updateLinkPolicy_tx i priority weight connections maxStreams s =
     (case mget (st_Links s) i of
        None \<Rightarrow> Inl ''link not found''
      | Some link \<Rightarrow>
          (let schedulingChanged = (lk_Priority link \<noteq> priority \<or> lk_Weight link \<noteq> weight \<or> lk_MaxStreams link \<noteq> maxStreams);
               connectionsChanged = (lk_Connections link \<noteq> connections);
               s1 = s\<lparr>st_Links := mput (lk_ID link) (link\<lparr>lk_Priority := priority, lk_Weight := weight,
                       lk_Connections := connections, lk_MaxStreams := maxStreams\<rparr>) (st_Links s)\<rparr>;
               attachment = attachment_at s1 (lk_AttachmentID link);
               s2 = (if schedulingChanged then bumpGateway (at_GatewayID attachment) s1 else s1)
           in Inr ((), if connectionsChanged then bumpAgent (at_AgentID attachment) s2 else s2)))"

definition updateLinkPolicy :: "Env \<Rightarrow> Request \<Rightarrow> Store \<Rightarrow> Response \<times> Store" where
  "updateLinkPolicy env r st =
     (case ParseInt (FormValue r ''priority'') of
        None \<Rightarrow> (HttpError 400 ''invalid priority'', st)
      | Some priority \<Rightarrow>
          if priority < 0 then (HttpError 400 ''invalid priority'', st)
          else case parsePositive (FormValue r ''weight'') 1 of
              None \<Rightarrow> (HttpError 400 ''invalid weight'', st)
            | Some weight \<Rightarrow>
                (case parsePositive (FormValue r ''connections'') 2 of
                   None \<Rightarrow> (HttpError 400 ''invalid connections'', st)
                 | Some connections \<Rightarrow>
                     (case parsePositive (FormValue r ''max_streams'') 256 of
                        None \<Rightarrow> (HttpError 400 ''invalid max streams'', st)
                      | Some maxStreams \<Rightarrow>
                          answer 404 (SeeOther ''/'') (Update (e_store env)
                            (updateLinkPolicy_tx (rq_id r) priority weight connections maxStreams) st))))"

definition createLink_tx :: "Env \<Rightarrow> Request \<Rightarrow> Link \<Rightarrow> unit tx" where
  "createLink_tx env r link s =
     (case mget (st_Attachments s) (lk_AttachmentID link) of
        None \<Rightarrow> Inl ''attachment not found''
      | Some attachment \<Rightarrow>
          if at_UpstreamID attachment \<noteq> [] then Inl ''external VMess routes do not use Links''
          else
            let provisioned =
              (if has_prefix (lk_URL link) ''reality://'' then
                 (case provisionReality env 1 (at_GatewayID attachment) (TrimSpace (FormValue r ''reality_target'')) (lk_URL link) s of
                    Inl err \<Rightarrow> Inl err
                  | Inr ((uuid, shortID), s1) \<Rightarrow> Inr (link\<lparr>lk_RealityUUID := uuid, lk_RealityShortID := shortID\<rparr>, s1))
               else Inr (link, s))
            in case provisioned of
                 Inl err \<Rightarrow> Inl err
               | Inr (l, s1) \<Rightarrow>
                   Inr ((), bumpAgent (at_AgentID attachment) (bumpGateway (at_GatewayID attachment)
                     (s1\<lparr>st_Links := mput (lk_ID l) l (st_Links s1)\<rparr>))))"

definition createLink :: "Env \<Rightarrow> Request \<Rightarrow> Store \<Rightarrow> Response \<times> Store" where
  "createLink env r st =
     (case ParseInt (FormValue r ''priority'') of
        None \<Rightarrow> (HttpError 400 ''priority must be zero or greater'', st)
      | Some priority \<Rightarrow>
          if priority < 0 then (HttpError 400 ''priority must be zero or greater'', st)
          else case parsePositive (FormValue r ''weight'') 1 of
              None \<Rightarrow> (HttpError 400 ''invalid weight'', st)
            | Some weight \<Rightarrow>
                (case parsePositive (FormValue r ''connections'') 2 of
                   None \<Rightarrow> (HttpError 400 ''invalid connections'', st)
                 | Some connections \<Rightarrow>
                     (case parsePositive (FormValue r ''max_streams'') 256 of
                        None \<Rightarrow> (HttpError 400 ''invalid max streams'', st)
                      | Some maxStreams \<Rightarrow>
                          (let name = TrimSpace (FormValue r ''name''); linkURL = TrimSpace (FormValue r ''url'') in
                           if name = [] then (HttpError 400 ''name is required'', st)
                           else case validateURL env linkURL of
                               Some err \<Rightarrow> (HttpError 400 err, st)
                             | None \<Rightarrow>
                                 (case newID env 0 ''lnk'' of
                                    Inl err \<Rightarrow> (HttpError 500 err, st)
                                  | Inr i \<Rightarrow>
                                      answer 400 (SeeOther ''/'') (Update (e_store env) (createLink_tx env r
                                        (zero_Link\<lparr>lk_ID := i, lk_AttachmentID := FormValue r ''attachment_id'', lk_Name := name,
                                           lk_URL := linkURL, lk_URLOverride := True,
                                           lk_HTTPHost := TrimSpace (FormValue r ''http_host''),
                                           lk_TLSServerName := TrimSpace (FormValue r ''tls_server_name''),
                                           lk_TLSVerify := FormValue r ''tls_verify'' = ''on'', lk_Priority := priority,
                                           lk_Weight := weight, lk_Connections := connections, lk_MaxStreams := maxStreams,
                                           lk_Enabled := True, lk_TunnelTokenHash := tunnel_hash env i,
                                           lk_CreatedAt := e_now env\<rparr>)) st))))))"

text \<open>
  The REALITY part of \<open>editLink\<close>: a new target is stored in the gateway, and the agents of all
  routes of the gateway are bumped.
\<close>

definition retarget_reality :: "Env \<Rightarrow> string \<Rightarrow> string \<Rightarrow> Attachment \<Rightarrow> State \<Rightarrow> error + State" where
  "retarget_reality env target0 linkURL attachment s =
     (if linkURL \<noteq> [] \<and> (case e_ParseURL env linkURL of None \<Rightarrow> True | Some u \<Rightarrow> \<not> reality_url_ok u)
      then Inl ''REALITY URL must be reality://host:port/path''
      else if linkURL \<noteq> [] \<and>
              (case e_ParseURL env linkURL of None \<Rightarrow> True
               | Some u \<Rightarrow> (case ParseInt (url_Port u) of None \<Rightarrow> True | Some p \<Rightarrow> p < 1 \<or> 65535 < p))
        then Inl ''invalid REALITY port''
      else
        let gateway = gateway_at s (at_GatewayID attachment);
            target = (if target0 = [] then gw_RealityTarget gateway else target0)
        in if target = gw_RealityTarget gateway then Inr s
           else case realityTargetName env target of
               Inl err \<Rightarrow> Inl err
             | Inr realityName \<Rightarrow>
                 (let gateway' = gateway\<lparr>gw_RealityTarget := target, gw_RealityName := realityName,
                                  gw_DesiredVersion := gw_DesiredVersion gateway + 1\<rparr>;
                      s1 = s\<lparr>st_Gateways := mput (gw_ID gateway') gateway' (st_Gateways s)\<rparr>
                  in Inr (fold (\<lambda>route. bumpAgent (at_AgentID route))
                       (filter (\<lambda>route. at_GatewayID route = gw_ID gateway') (mvals (st_Attachments s1))) s1)))"

definition finish_link_edit :: "Request \<Rightarrow> string \<Rightarrow> string \<Rightarrow> Link \<Rightarrow> Attachment \<Rightarrow> State \<Rightarrow> State" where
  "finish_link_edit r name linkURL link attachment s =
     (let link1 = (if lk_URL link \<noteq> linkURL then link\<lparr>lk_AutoURL := False, lk_URLOverride := True\<rparr> else link);
          link2 = link1\<lparr>lk_Name := name, lk_URL := linkURL,
                    lk_HTTPHost := TrimSpace (FormValue r ''http_host''),
                    lk_TLSServerName := TrimSpace (FormValue r ''tls_server_name''),
                    lk_TLSVerify := FormValue r ''tls_verify'' = ''on''\<rparr>;
          s1 = s\<lparr>st_Links := mput (lk_ID link2) link2 (st_Links s)\<rparr>
      in if lk_URL link2 \<noteq> lk_URL link \<or> lk_HTTPHost link2 \<noteq> lk_HTTPHost link \<or>
            lk_TLSServerName link2 \<noteq> lk_TLSServerName link \<or> lk_TLSVerify link2 \<noteq> lk_TLSVerify link
         then bumpAgent (at_AgentID attachment) (bumpGateway (at_GatewayID attachment) s1) else s1)"

definition editLink_tx :: "Env \<Rightarrow> Request \<Rightarrow> string \<Rightarrow> string \<Rightarrow> unit tx" where
  "editLink_tx env r name linkURL s =
     (case mget (st_Links s) (rq_id r) of
        None \<Rightarrow> Inl ''link not found''
      | Some link \<Rightarrow>
          (let pending = (lk_AutoURL link \<and> lk_URL link = []) in
           if \<not> (pending \<and> linkURL = []) \<and> validateURL env linkURL \<noteq> None then Inl ''valid Link URL is required''
           else
             let oldReality = (has_prefix (lk_URL link) ''reality://'' \<or> pending \<and> lk_RealityUUID link \<noteq> []);
                 newReality = (has_prefix linkURL ''reality://'' \<or> pending \<and> linkURL = [] \<and> oldReality)
             in if oldReality \<noteq> newReality then Inl ''changing between REALITY and legacy WS requires a new Link''
             else
               let attachment = attachment_at s (lk_AttachmentID link) in
               if at_UpstreamID attachment \<noteq> [] then Inl ''external VMess routes do not use Links''
               else case (if newReality then retarget_reality env (TrimSpace (FormValue r ''reality_target'')) linkURL attachment s
                          else Inr s) of
                   Inl err \<Rightarrow> Inl err
                 | Inr s1 \<Rightarrow> Inr ((), finish_link_edit r name linkURL link attachment s1)))"

definition editLink :: "Env \<Rightarrow> Request \<Rightarrow> Store \<Rightarrow> Response \<times> Store" where
  "editLink env r st =
     (let name = TrimSpace (FormValue r ''name''); linkURL = TrimSpace (FormValue r ''url'') in
      if name = [] then (HttpError 400 ''valid name and Link URL are required'', st)
      else answer 400 (SeeOther ''/'') (Update (e_store env) (editLink_tx env r name linkURL) st))"

definition deleteLink_tx :: "Env \<Rightarrow> string \<Rightarrow> string \<Rightarrow> unit tx" where
  "deleteLink_tx env i confirm_name s =
     (case mget (st_Links s) i of
        None \<Rightarrow> Inl ''link not found''
      | Some link \<Rightarrow>
          if confirm_name \<noteq> lk_Name link then Inl ''confirmation name does not match''
          else
            let attachment = attachment_at s (lk_AttachmentID link);
                s1 = unpublishGrantsWithoutLink (at_ID attachment) (removeLink (e_now env) (lk_ID link) s)
            in Inr ((), bumpAgent (at_AgentID attachment) (bumpGateway (at_GatewayID attachment) s1)))"

definition deleteLink :: "Env \<Rightarrow> Request \<Rightarrow> Store \<Rightarrow> Response \<times> Store" where
  "deleteLink env r st =
     answer 400 (SeeOther ''/'') (Update (e_store env) (deleteLink_tx env (rq_id r) (FormValue r ''confirm_name'')) st)"


subsection \<open>Grants\<close>

definition new_grant :: "Env \<Rightarrow> string \<Rightarrow> string \<Rightarrow> string \<Rightarrow> string \<Rightarrow> string \<Rightarrow> Grant" where
  "new_grant env i userID attachmentID uuid password =
     zero_Grant\<lparr>gr_ID := i, gr_UserID := userID, gr_AttachmentID := attachmentID, gr_VMessUUID := uuid,
       gr_SOCKSUsername := i, gr_SOCKSPassword := password, gr_Enabled := True, gr_CreatedAt := e_now env\<rparr>"

definition createGrant_tx :: "Env \<Rightarrow> Grant \<Rightarrow> unit tx" where
  "createGrant_tx env grant s =
     (if mget (st_Users s) (gr_UserID grant) = None then Inl ''user not found''
      else if mget (st_Attachments s) (gr_AttachmentID grant) = None then Inl ''attachment not found''
      else if list_ex (\<lambda>g. gr_UserID g = gr_UserID grant \<and> gr_AttachmentID g = gr_AttachmentID grant) (mvals (st_Grants s))
        then Inl ''grant already exists''
      else
        let s1 = s\<lparr>st_Grants := mput (gr_ID grant) grant (st_Grants s)\<rparr>;
            gateway = gateway_at s1 (at_GatewayID (attachment_at s1 (gr_AttachmentID grant)))
        in case configureHY2 env 3 gateway (gw_HY2Port gateway) s1 of
             Inl err \<Rightarrow> Inl err
           | Inr (g, s2) \<Rightarrow>
               Inr ((), bumpGatewayForAttachment (gr_AttachmentID grant)
                 (s2\<lparr>st_Gateways := mput (gw_ID g) g (st_Gateways s2)\<rparr>)))"

definition createGrant :: "Env \<Rightarrow> Request \<Rightarrow> Store \<Rightarrow> Response \<times> Store" where
  "createGrant env r st =
     (case newID env 0 ''grt'' of
        Inl err \<Rightarrow> (HttpError 500 err, st)
      | Inr i \<Rightarrow>
          (case e_rand env 1 of
             Inl err \<Rightarrow> (HttpError 500 err, st)
           | Inr uuid \<Rightarrow>
               (case e_rand env 2 of
                  Inl err \<Rightarrow> (HttpError 500 err, st)
                | Inr password \<Rightarrow>
                    answer 400 (SeeOther ''/'') (Update (e_store env) (createGrant_tx env
                      (new_grant env i (FormValue r ''user_id'') (FormValue r ''attachment_id'') uuid password)) st))))"

definition toggleGrant_tx :: "string \<Rightarrow> unit tx" where
  "toggleGrant_tx i s =
     (case mget (st_Grants s) i of
        None \<Rightarrow> Inl ''grant not found''
      | Some grant0 \<Rightarrow>
          (let grant = grant0\<lparr>gr_Enabled := \<not> gr_Enabled grant0, gr_Published := False\<rparr>
           in Inr ((), bumpGatewayForAttachment (gr_AttachmentID grant)
                (s\<lparr>st_Grants := mput (gr_ID grant) grant (st_Grants s)\<rparr>))))"

definition toggleGrant :: "Env \<Rightarrow> Request \<Rightarrow> Store \<Rightarrow> Response \<times> Store" where
  "toggleGrant env r st = answer 404 (SeeOther ''/'') (Update (e_store env) (toggleGrant_tx (rq_id r)) st)"

definition deleteGrant_tx :: "Env \<Rightarrow> string \<Rightarrow> string \<Rightarrow> unit tx" where
  "deleteGrant_tx env i confirm_id s =
     (case mget (st_Grants s) i of
        None \<Rightarrow> Inl ''grant not found''
      | Some grant \<Rightarrow>
          if confirm_id \<noteq> i then Inl ''confirmation ID does not match''
          else Inr ((), bumpGatewayForAttachment (gr_AttachmentID grant) (removeGrant (e_now env) i s)))"

definition deleteGrant :: "Env \<Rightarrow> Request \<Rightarrow> Store \<Rightarrow> Response \<times> Store" where
  "deleteGrant env r st =
     answer 400 (SeeOther ''/'') (Update (e_store env) (deleteGrant_tx env (rq_id r) (FormValue r ''confirm_id'')) st)"

subsection \<open>Opening a subscription\<close>

record subscription_counts =
  sc_created :: nat
  sc_reenabled :: nat
  sc_unchanged :: nat

text \<open>
  One round of the loop of \<open>openSubscription\<close>. \<open>k\<close> numbers the draws; a new grant takes three, and
  \<open>configureHY2\<close> one for every grant of the gateway without an HY2 secret, at most all of them.
  The \<open>for\<close> loop over the grants stops at the first one of this user and route.
\<close>

definition open_route ::
    "Env \<Rightarrow> string \<Rightarrow> nat \<Rightarrow> string \<Rightarrow> subscription_counts \<Rightarrow> State \<Rightarrow> error + subscription_counts \<times> State" where
  "open_route env userID k attachmentID counts s =
     (case mget (st_Attachments s) attachmentID of
        None \<Rightarrow> Inl (''route '' @ attachmentID @ '' unavailable'')
      | Some attachment \<Rightarrow>
          if \<not> routeAvailable s attachment then Inl (''route '' @ attachmentID @ '' unavailable'')
          else case filter (\<lambda>(_, g). gr_UserID g = userID \<and> gr_AttachmentID g = attachmentID) (st_Grants s) of
              (i, grant) # _ \<Rightarrow>
                if gr_Enabled grant then Inr (counts\<lparr>sc_unchanged := Suc (sc_unchanged counts)\<rparr>, s)
                else Inr (counts\<lparr>sc_reenabled := Suc (sc_reenabled counts)\<rparr>,
                       bumpGateway (at_GatewayID attachment)
                         (s\<lparr>st_Grants := mput i (grant\<lparr>gr_Enabled := True, gr_Published := False\<rparr>) (st_Grants s)\<rparr>))
            | [] \<Rightarrow>
                (case newID env k ''grt'' of
                   Inl err \<Rightarrow> Inl err
                 | Inr i \<Rightarrow>
                     (case e_rand env (k + 1) of
                        Inl err \<Rightarrow> Inl err
                      | Inr uuid \<Rightarrow>
                          (case e_rand env (k + 2) of
                             Inl err \<Rightarrow> Inl err
                           | Inr password \<Rightarrow>
                               (let s1 = s\<lparr>st_Grants := mput i (new_grant env i userID attachmentID uuid password) (st_Grants s)\<rparr>;
                                    gateway = gateway_at s1 (at_GatewayID attachment)
                                in case configureHY2 env (k + 3) gateway (gw_HY2Port gateway) s1 of
                                     Inl err \<Rightarrow> Inl err
                                   | Inr (g, s2) \<Rightarrow>
                                       Inr (counts\<lparr>sc_created := Suc (sc_created counts)\<rparr>,
                                         bumpGateway (at_GatewayID attachment)
                                           (s2\<lparr>st_Gateways := mput (gw_ID g) g (st_Gateways s2)\<rparr>)))))))"

fun open_routes ::
    "Env \<Rightarrow> string \<Rightarrow> nat \<Rightarrow> string list \<Rightarrow> subscription_counts \<Rightarrow> State \<Rightarrow> error + subscription_counts \<times> State" where
  "open_routes env userID k [] counts s = Inr (counts, s)"
| "open_routes env userID k (a # as) counts s =
     (case open_route env userID k a counts s of
        Inl err \<Rightarrow> Inl err
      | Inr (counts', s') \<Rightarrow> open_routes env userID (k + 4 + length (st_Grants s)) as counts' s')"

definition openSubscription_tx :: "Env \<Rightarrow> string \<Rightarrow> string list \<Rightarrow> subscription_counts tx" where
  "openSubscription_tx env userID selected s =
     (case mget (st_Users s) userID of
        None \<Rightarrow> Inl ''user unavailable''
      | Some user \<Rightarrow>
          if \<not> u_Enabled user then Inl ''user unavailable''
          else open_routes env userID 0 (rev (remdups (rev selected))) \<lparr>sc_created = 0, sc_reenabled = 0, sc_unchanged = 0\<rparr> s)"

definition openSubscription :: "Env \<Rightarrow> Request \<Rightarrow> Store \<Rightarrow> Response \<times> Store" where
  "openSubscription env r st =
     (let userID = (if rq_id r = [] then FormValue r ''user_id'' else rq_id r);
          selected = FormValues r ''attachment_id''
      in if selected = [] then (HttpError 400 ''select at least one route'', st)
         else answer 400 (SeeOther ''/?notice='') (Update (e_store env) (openSubscription_tx env userID selected) st))"

subsection \<open>Connecting agents and gateways\<close>

definition routeDisplayName :: "State \<Rightarrow> Attachment \<Rightarrow> string" where
  "routeDisplayName s route =
     (if at_UpstreamID route \<noteq> []
      then gw_Name (gateway_at s (at_GatewayID route)) @ '' / '' @ vu_Name (upstream_at s (at_UpstreamID route))
      else gw_Name (gateway_at s (at_GatewayID route)) @ '' / '' @ ag_Name (agent_at s (at_AgentID route)))"

definition routeNameLess :: "string \<Rightarrow> string \<Rightarrow> string \<Rightarrow> string \<Rightarrow> bool" where
  "routeNameLess leftName leftID rightName rightID =
     (let left = to_lower leftName; right = to_lower rightName in
      if left \<noteq> right then left < right
      else if leftName \<noteq> rightName then leftName < rightName
      else leftID < rightID)"

definition sortedAttachments :: "State \<Rightarrow> Attachment list" where
  "sortedAttachments s =
     sort_slice (\<lambda>a b. routeNameLess (routeDisplayName s a) (at_ID a) (routeDisplayName s b) (at_ID b))
       (mvals (st_Attachments s))"

definition sortedLinks :: "State \<Rightarrow> Link list" where
  "sortedLinks s = sort_slice (\<lambda>a b. lk_ID a < lk_ID b) (mvals (st_Links s))"

record connectionCounts =
  cc_Created :: nat
  cc_Reenabled :: nat
  cc_Unchanged :: nat

text \<open>The tables of existing routes and links that \<open>enableConnections\<close> builds before its loop.\<close>

definition route_table :: "State \<Rightarrow> ((string \<times> string) \<times> Attachment) list" where
  "route_table s =
     fold (\<lambda>route routes.
       let pair = (at_AgentID route, at_GatewayID route) in
       if at_AgentID route \<noteq> [] \<and> at_UpstreamID route = [] \<and> at_ID (zget zero_Attachment routes pair) = []
       then mput pair route routes else routes) (sortedAttachments s) []"

definition link_table :: "State \<Rightarrow> Link gomap" where
  "link_table s =
     fold (\<lambda>link links.
       let previous = zget zero_Link links (lk_AttachmentID link) in
       if lk_ID previous = [] \<or> \<not> lk_Enabled previous \<and> lk_Enabled link
       then mput (lk_AttachmentID link) link links else links) (sortedLinks s) []"

definition new_connection_link :: "Env \<Rightarrow> Agent \<Rightarrow> Gateway \<Rightarrow> string \<Rightarrow> string \<Rightarrow> string \<Rightarrow> string \<Rightarrow> Link" where
  "new_connection_link env agent gateway attachmentID linkID uuid shortID =
     zero_Link\<lparr>lk_ID := linkID, lk_AttachmentID := attachmentID,
       lk_Name := gw_Name gateway @ '' / '' @ ag_Name agent, lk_URL := tunnel_url env (gw_PublicHost gateway),
       lk_AutoURL := True, lk_TLSVerify := True, lk_RealityUUID := uuid,
       lk_RealityShortID := shortID, lk_Priority := 10, lk_Weight := 1,
       lk_Connections := 2, lk_MaxStreams := 256, lk_Enabled := True,
       lk_TunnelTokenHash := tunnel_hash env linkID, lk_CreatedAt := e_now env\<rparr>"

text \<open>The second half of a round: the route is stored enabled, with its link, new or enabled again.\<close>

definition open_connection ::
    "Env \<Rightarrow> string \<Rightarrow> nat \<Rightarrow> Agent \<Rightarrow> Gateway \<Rightarrow> Attachment \<Rightarrow> Link \<Rightarrow> connectionCounts \<Rightarrow> State \<Rightarrow>
     error + connectionCounts \<times> State" where
  "open_connection env target k agent gateway attachment0 existingLink counts s =
     (let attachment = attachment0\<lparr>at_Enabled := True\<rparr>;
          s1 = s\<lparr>st_Attachments := mput (at_ID attachment) attachment (st_Attachments s)\<rparr>;
          bumped = (\<lambda>s. bumpAgent (ag_ID agent) (bumpGateway (gw_ID gateway) s))
      in if lk_ID existingLink \<noteq> [] then
           Inr (counts\<lparr>cc_Reenabled := Suc (cc_Reenabled counts)\<rparr>,
                bumped (s1\<lparr>st_Links := mput (lk_ID existingLink) (existingLink\<lparr>lk_Enabled := True\<rparr>) (st_Links s1)\<rparr>))
         else case newID env (k + 1) ''lnk'' of
             Inl err \<Rightarrow> Inl err
           | Inr linkID \<Rightarrow>
               (let linkURL = tunnel_url env (gw_PublicHost gateway);
                    linkTarget = (if gw_RealityTarget gateway \<noteq> [] then gw_RealityTarget gateway else target)
                in case provisionReality env (k + 2) (gw_ID gateway) linkTarget linkURL s1 of
                     Inl err \<Rightarrow> Inl (''Gateway '' @ gw_Name gateway @ '': '' @ err)
                   | Inr ((uuid, shortID), s2) \<Rightarrow>
                       Inr (counts\<lparr>cc_Created := Suc (cc_Created counts)\<rparr>,
                         bumped (s2\<lparr>st_Links := mput linkID
                           (new_connection_link env agent gateway (at_ID attachment) linkID uuid shortID) (st_Links s2)\<rparr>))))"

definition enable_connection ::
    "Env \<Rightarrow> ((string \<times> string) \<times> Attachment) list \<Rightarrow> Link gomap \<Rightarrow> string \<Rightarrow> nat \<Rightarrow> string \<times> string \<Rightarrow> connectionCounts \<Rightarrow>
     State \<Rightarrow> error + connectionCounts \<times> State" where
  "enable_connection env routes links target k pair counts s =
     (case mget (st_Agents s) (fst pair) of
        None \<Rightarrow> Inl (''Agent '' @ fst pair @ '' unavailable'')
      | Some agent \<Rightarrow>
          if \<not> agentEnabled s agent then Inl (''Agent '' @ fst pair @ '' unavailable'')
          else case mget (st_Gateways s) (snd pair) of
              None \<Rightarrow> Inl (''Gateway '' @ snd pair @ '' unavailable'')
            | Some gateway \<Rightarrow>
                if \<not> gw_Enabled gateway \<or> gw_PublicHost gateway = [] then Inl (''Gateway '' @ snd pair @ '' unavailable'')
                else
                  let attachment0 = zget zero_Attachment routes pair;
                      existingLink = (if at_ID attachment0 \<noteq> [] then zget zero_Link links (at_ID attachment0) else zero_Link)
                  in if at_ID attachment0 \<noteq> [] \<and> at_Enabled attachment0 \<and> lk_ID existingLink \<noteq> [] \<and> lk_Enabled existingLink
                     then Inr (counts\<lparr>cc_Unchanged := Suc (cc_Unchanged counts)\<rparr>, s)
                     else if at_ID attachment0 \<noteq> []
                       then open_connection env target k agent gateway attachment0 existingLink counts s
                     else case newID env k ''node'' of
                         Inl err \<Rightarrow> Inl err
                       | Inr i \<Rightarrow>
                           open_connection env target k agent gateway
                             (zero_Attachment\<lparr>at_ID := i, at_AgentID := ag_ID agent, at_GatewayID := gw_ID gateway,
                                at_CreatedAt := e_now env\<rparr>) existingLink counts s)"

fun enable_pairs ::
    "Env \<Rightarrow> ((string \<times> string) \<times> Attachment) list \<Rightarrow> Link gomap \<Rightarrow> string \<Rightarrow> nat \<Rightarrow> (string \<times> string) list \<Rightarrow> connectionCounts \<Rightarrow>
     State \<Rightarrow> error + connectionCounts \<times> State" where
  "enable_pairs env routes links target k [] counts s = Inr (counts, s)"
| "enable_pairs env routes links target k (p # ps) counts s =
     (case enable_connection env routes links target k p counts s of
        Inl err \<Rightarrow> Inl err
      | Inr (counts', s') \<Rightarrow> enable_pairs env routes links target (k + 4) ps counts' s')"

text \<open>Pairs are (agent, gateway); a pair listed twice is handled once, at its first place.\<close>

definition enableConnections :: "Env \<Rightarrow> (string \<times> string) list \<Rightarrow> string \<Rightarrow> connectionCounts tx" where
  "enableConnections env pairs target s =
     enable_pairs env (route_table s) (link_table s) target 0 (rev (remdups (rev pairs)))
       \<lparr>cc_Created = 0, cc_Reenabled = 0, cc_Unchanged = 0\<rparr> s"

text \<open>\<open>ids\<close> decodes one value of the form field \<open>connection\<close>, a JSON array of strings.\<close>

definition assignConnections :: "(string \<Rightarrow> string list option) \<Rightarrow> Env \<Rightarrow> Request \<Rightarrow> Store \<Rightarrow> Response \<times> Store" where
  "assignConnections ids env r st =
     (let parsed = map (\<lambda>v. case ids v of Some [a, g] \<Rightarrow> if a = [] \<or> g = [] then None else Some (a, g) | _ \<Rightarrow> None)
                     (FormValues r ''connection'')
      in if None \<in> set parsed then (HttpError 400 ''invalid Agent/Gateway connection'', st)
         else if parsed = [] then (HttpError 400 ''select at least one connection'', st)
         else answer 400 (SeeOther ''/?notice='') (Update (e_store env)
           (enableConnections env (map the parsed) (TrimSpace (FormValue r ''reality_target''))) st))"

definition assignGateways :: "Env \<Rightarrow> Request \<Rightarrow> Store \<Rightarrow> Response \<times> Store" where
  "assignGateways env r st =
     (let agentID = (if rq_id r = [] then FormValue r ''agent_id'' else rq_id r);
          selected = FormValues r ''gateway_id''
      in if selected = [] then (HttpError 400 ''select at least one Gateway'', st)
         else answer 400 (SeeOther ''/?notice='') (Update (e_store env)
           (enableConnections env (map (\<lambda>g. (agentID, g)) selected) (TrimSpace (FormValue r ''reality_target''))) st))"

end
