(* ===== verification/Gateway_Setup.thy ===== *)
theory Gateway_Setup
  imports Admin_Routes Node_Api
begin

text \<open>
  How gateways get their public address and how a whole route is set up at once:
  the address reports of \<open>src/internal/controller/gateway_address.go\<close>, with
  \<open>src/internal/model/public_ip.go\<close>, and \<open>quickSetup\<close> of \<open>admin_handlers.go\<close>.

  \<open>netip.ParseAddr\<close> inverts \<open>Addr.String\<close>, so \<open>model.ParsePublicIP(peer.String())\<close> tests \<open>peer\<close> itself.
\<close>

subsection \<open>Public addresses\<close>

record PublicIPReport =
  pr_IP :: string
  pr_Sources :: "string list"
  pr_IPv6 :: string
  pr_IPv6Sources :: "string list"

definition PublicIPSources :: "(string \<times> string) list" where
  "PublicIPSources = [(''ip.sb'', ''https://api.ip.sb/ip''), (''ipify'', ''https://api64.ipify.org''), (''ifconfig.co'', ''https://ifconfig.co/ip'')]"

text \<open>The parsed address and whether it is public; no address when the text does not parse.\<close>

definition ParsePublicIP :: "Env \<Rightarrow> string \<Rightarrow> Addr option \<times> bool" where
  "ParsePublicIP env v =
     (case e_ParseAddr env v of None \<Rightarrow> (None, False) | Some ip \<Rightarrow> (Some ip, addr_zone ip = [] \<and> addr_public ip))"

definition parsed_Is6 :: "Env \<Rightarrow> string \<Rightarrow> bool" where
  "parsed_Is6 env v = (case fst (ParsePublicIP env v) of None \<Rightarrow> False | Some ip \<Rightarrow> \<not> addr_Is4 ip)"

definition confirmedPublicIP :: "Env \<Rightarrow> string \<Rightarrow> string list \<Rightarrow> error + string \<times> string" where
  "confirmedPublicIP env v sources =
     (if \<not> list_all (\<lambda>source. source \<in> fst ` set PublicIPSources) sources then Inl ''unknown public IP source''
      else case ParsePublicIP env v of
          (Some ip, True) \<Rightarrow>
            if length (remdups sources) < 2 then Inl ''a public IP confirmed by at least two independent sources is required''
            else Inr (addr_text ip, join_with '', '' (sort_slice (<) (remdups sources)))
        | _ \<Rightarrow> Inl ''a public IP confirmed by at least two independent sources is required'')"

definition trusted_proxy :: "Env \<Rightarrow> Addr \<Rightarrow> bool" where
  "trusted_proxy env ip =
     list_ex (\<lambda>cidr. e_PrefixContains env cidr ip)
       (case e_TrustedProxyCIDRs env of None \<Rightarrow> [''127.0.0.0/8'', ''::1/128''] | Some cidrs \<Rightarrow> cidrs)"

text \<open>The walk from the nearest hop, as long as the peer is a trusted proxy.\<close>

fun walk_hops :: "Env \<Rightarrow> Addr \<Rightarrow> string list \<Rightarrow> Addr option" where
  "walk_hops env peer [] = Some peer"
| "walk_hops env peer (hop # hops) =
     (if \<not> trusted_proxy env peer then Some peer
      else case e_ParseAddr env (TrimSpace hop) of None \<Rightarrow> None | Some nxt \<Rightarrow> walk_hops env nxt hops)"

definition observedPublicIP :: "Env \<Rightarrow> Request \<Rightarrow> string" where
  "observedPublicIP env r =
     (let host = (case e_SplitHostPort env (rq_RemoteAddr r) of None \<Rightarrow> rq_RemoteAddr r | Some (h, _) \<Rightarrow> h) in
      case e_ParseAddr env host of
        None \<Rightarrow> []
      | Some peer \<Rightarrow>
          (let forwarded = HeaderGet r ''X-Forwarded-For'';
               chain = (if forwarded = [] then HeaderGet r ''X-Real-IP'' else forwarded);
               seen = (if \<not> trusted_proxy env peer then Some peer
                       else if 4096 < length chain then None
                       else walk_hops env peer (rev (split_on CHR '','' chain)))
           in case seen of
                None \<Rightarrow> []
              | Some ip \<Rightarrow> if addr_zone ip = [] \<and> addr_public ip then addr_text ip else []))"

definition is_IPv4 :: "Env \<Rightarrow> string \<Rightarrow> bool" where
  "is_IPv4 env v = (case ParsePublicIP env v of (Some ip, True) \<Rightarrow> addr_Is4 ip | _ \<Rightarrow> False)"

text \<open>The gateway with the reported addresses, and the address that becomes its primary one: an IPv4
  address is not replaced by an IPv6 one when both families are wanted.\<close>

definition record_address :: "Env \<Rightarrow> Request \<Rightarrow> string \<Rightarrow> string \<Rightarrow> string \<Rightarrow> string \<Rightarrow> Gateway \<Rightarrow> Gateway \<times> string" where
  "record_address env r ip sources ipv6 ipv6Sources gateway =
     (let (g1, primary) =
            (if gw_IPv6IngressEnabled gateway \<and> CHR '':'' \<in> set ip \<and> is_IPv4 env (gw_DetectedPublicIP gateway)
             then (gateway, gw_DetectedPublicIP gateway)
             else (gateway\<lparr>gw_DetectedPublicIP := ip, gw_PublicIPSources := sources, gw_PublicIPCheckedAt := e_now env\<rparr>, ip));
          g2 = (if ipv6 \<noteq> [] then g1\<lparr>gw_DetectedPublicIPv6 := ipv6, gw_PublicIPv6Sources := ipv6Sources, gw_PublicIPv6CheckedAt := e_now env\<rparr>
                else g1)
      in (g2\<lparr>gw_ObservedPublicIP := observedPublicIP env r\<rparr>, primary))"

definition gatewayAddress_tx :: "Env \<Rightarrow> Request \<Rightarrow> string \<Rightarrow> PublicIPReport \<Rightarrow> string \<Rightarrow> string \<Rightarrow> string \<Rightarrow> string \<Rightarrow> unit tx" where
  "gatewayAddress_tx env r nodeID report ip sources ipv6 ipv6Sources s =
     (case mget (st_Gateways s) nodeID of
        None \<Rightarrow> Inl ''Gateway no longer exists''
      | Some gateway \<Rightarrow>
          (let version = ns_BinaryVersion (status_at s nodeID) in
           if \<not> gatewayAutoIPSupported version
           then Inl (''public IP discovery requires Gateway v0.4.6 or newer; reported version: '' @ quoted version)
           else if (pr_IPv6 report \<noteq> [] \<or> pr_IPv6Sources report \<noteq> []) \<and> \<not> gatewayIPv6Supported version
           then Inl (''dual-stack discovery requires Gateway v0.4.7 or newer; reported version: '' @ quoted version)
           else
             let (g1, primary) = record_address env r ip sources ipv6 ipv6Sources gateway;
                 moved = (gw_PublicHostAuto g1 \<and> gw_PublicHost g1 \<noteq> primary);
                 (g2, s1) = (if moved then changeGatewayHost env g1 primary s else (g1, s));
                 changed = (IPv6IngressHost env gateway \<noteq> IPv6IngressHost env g1 \<or> moved)
             in if \<not> changed then Inr ((), s1\<lparr>st_Gateways := mput nodeID g2 (st_Gateways s1)\<rparr>)
                else case configureHY2 env 0 g2 (gw_HY2Port g2) s1 of
                    Inl err \<Rightarrow> Inl err
                  | Inr (g3, s2) \<Rightarrow>
                      (let s3 = unpublishGatewayGrants nodeID s2
                       in Inr ((), s3\<lparr>st_Gateways := mput nodeID (g3\<lparr>gw_DesiredVersion := gw_DesiredVersion g3 + 1\<rparr>) (st_Gateways s3)\<rparr>))))"

definition gatewayAddress :: "Env \<Rightarrow> Request \<Rightarrow> PublicIPReport \<Rightarrow> Store \<Rightarrow> Response \<times> Store" where
  "gatewayAddress env r report st =
     (case authenticateNodeIdentity env r True (store_Snapshot st) of
        None \<Rightarrow> (HttpError 401 ''Gateway authentication required'', st)
      | Some (role, nodeID) \<Rightarrow>
          if role \<noteq> RoleGateway then (HttpError 401 ''Gateway authentication required'', st)
          else case confirmedPublicIP env (pr_IP report) (pr_Sources report) of
              Inl err \<Rightarrow> (HttpError 400 err, st)
            | Inr (ip, sources) \<Rightarrow>
                (let dual =
                   (if pr_IPv6 report \<noteq> [] \<or> pr_IPv6Sources report \<noteq> [] then
                      (case confirmedPublicIP env (pr_IPv6 report) (pr_IPv6Sources report) of
                         Inl err \<Rightarrow> None
                       | Inr (ipv6, ipv6Sources) \<Rightarrow>
                           if \<not> parsed_Is6 env ipv6 \<or> CHR '':'' \<in> set ip \<and> ip \<noteq> ipv6 then None else Some (ipv6, ipv6Sources))
                    else if parsed_Is6 env ip then Some (ip, sources) else Some ([], []))
                 in case dual of
                      None \<Rightarrow> (HttpError 400 ''invalid IPv6 consensus'', st)
                    | Some (ipv6, ipv6Sources) \<Rightarrow>
                        answer 400 NoContent (Update (e_store env)
                          (gatewayAddress_tx env r nodeID report ip sources ipv6 ipv6Sources) st)))"

subsection \<open>A gateway, an agent and their route in one step\<close>

record quick_setup =
  qs_gwID :: string
  qs_agtID :: string
  qs_attachmentID :: string
  qs_linkID :: string
  qs_gwName :: string
  qs_agtName :: string
  qs_publicHost :: string
  qs_address :: Gateway
  qs_region :: string
  qs_vmessPort :: int
  qs_vmessPath :: string
  qs_hy2Port :: int
  qs_allowed :: "string list"
  qs_denied :: "string list"
  qs_linkURL :: string
  qs_autoURL :: bool

definition quick_agent :: "Env \<Rightarrow> quick_setup \<Rightarrow> Agent" where
  "quick_agent env q = zero_Agent\<lparr>ag_ID := qs_agtID q, ag_Name := qs_agtName q, ag_Enabled := True, ag_AllowedCIDRs := qs_allowed q,
     ag_DeniedCIDRs := qs_denied q, ag_DesiredVersion := 1, ag_CreatedAt := e_now env\<rparr>"

definition quick_route :: "Env \<Rightarrow> quick_setup \<Rightarrow> Attachment" where
  "quick_route env q = zero_Attachment\<lparr>at_ID := qs_attachmentID q, at_GatewayID := qs_gwID q, at_AgentID := qs_agtID q,
     at_Enabled := True, at_CreatedAt := e_now env\<rparr>"

definition quick_link :: "Env \<Rightarrow> Request \<Rightarrow> quick_setup \<Rightarrow> Link" where
  "quick_link env r q = zero_Link\<lparr>lk_ID := qs_linkID q, lk_AttachmentID := qs_attachmentID q,
     lk_Name := qs_gwName q @ '' / '' @ qs_agtName q, lk_URL := qs_linkURL q,
     lk_HTTPHost := TrimSpace (FormValue r ''link_http_host''), lk_TLSServerName := TrimSpace (FormValue r ''tls_server_name''),
     lk_TLSVerify := True, lk_Priority := 10, lk_Weight := 1, lk_Connections := 2, lk_MaxStreams := 256, lk_Enabled := True,
     lk_TunnelTokenHash := tunnel_hash env (qs_linkID q), lk_CreatedAt := e_now env\<rparr>"

definition finish_quick_link :: "quick_setup \<Rightarrow> Link \<Rightarrow> State \<Rightarrow> State" where
  "finish_quick_link q link s =
     (let l = link\<lparr>lk_AutoURL := qs_autoURL q, lk_URLOverride := \<not> qs_autoURL q,
                lk_URL := (if qs_autoURL q \<and> qs_publicHost q = [] then [] else lk_URL link)\<rparr>
      in s\<lparr>st_Links := mput (qs_linkID q) l (st_Links s)\<rparr>)"

definition quickSetup_tx :: "Env \<Rightarrow> Request \<Rightarrow> quick_setup \<Rightarrow> unit tx" where
  "quickSetup_tx env r q s =
     (let gateway = new_gateway env r (qs_gwID q) (qs_gwName q) (qs_publicHost q) (qs_address q) (qs_region q) (qs_vmessPort q) (qs_vmessPath q);
          s1 = s\<lparr>st_Gateways := mput (qs_gwID q) gateway (st_Gateways s)\<rparr>
      in case configureHY2 env 4 (applyIngressSwitches r gateway) (qs_hy2Port q) s1 of
           Inl err \<Rightarrow> Inl err
         | Inr (g, s2) \<Rightarrow>
             (let s3 = s2\<lparr>st_Gateways := mput (qs_gwID q) g (st_Gateways s2)\<rparr>;
                  s4 = s3\<lparr>st_Agents := mput (qs_agtID q) (quick_agent env q) (st_Agents s3)\<rparr>;
                  s5 = s4\<lparr>st_Attachments := mput (qs_attachmentID q) (quick_route env q) (st_Attachments s4)\<rparr>;
                  link = quick_link env r q
              in if has_prefix (qs_linkURL q) ''reality://'' then
                   (case provisionReality env 4 (qs_gwID q) (TrimSpace (FormValue r ''reality_target'')) (qs_linkURL q) s5 of
                      Inl err \<Rightarrow> Inl err
                    | Inr ((uuid, shortID), s6) \<Rightarrow> Inr ((), finish_quick_link q (link\<lparr>lk_RealityUUID := uuid, lk_RealityShortID := shortID\<rparr>) s6))
                 else Inr ((), finish_quick_link q link s5)))"

text \<open>The form of \<open>quickSetup\<close>: what it asks for, without identifiers, or the error.\<close>

definition quick_form :: "Env \<Rightarrow> Request \<Rightarrow> error + quick_setup" where
  "quick_form env r =
     (let region = TrimSpace (FormValue r ''region'') in
      if \<not> validGatewayRegion region then Inl ''invalid Gateway region''
      else case gatewayAddressForm env r zero_Gateway of
          Inl err \<Rightarrow> Inl err
        | Inr (publicHost, address) \<Rightarrow>
            (let gwName = TrimSpace (FormValue r ''gateway_name''); agtName = TrimSpace (FormValue r ''agent_name'');
                 linkURL0 = TrimSpace (FormValue r ''link_url''); autoURL = (linkURL0 = []);
                 linkURL = (if autoURL then tunnel_url env (if publicHost = [] then ''pending.invalid'' else publicHost) else linkURL0);
                 vmessPath = TrimSpace (FormValue r ''vmess_path'');
                 parsed = parsePositive (FormValue r ''vmess_port'') 8080;
                 vmessPort = (case parsed of None \<Rightarrow> 0 | Some p \<Rightarrow> p)
             in case parseHY2Port r vmessPort of
                  Inl err \<Rightarrow> Inl err
                | Inr hy2Port \<Rightarrow>
                    (let allowed = splitCSV (FormValue r ''allowed_cidrs''); denied = splitCSV (FormValue r ''denied_cidrs'');
                         spaces = [CHR '' '', CHR 0x09, CHR 0x0D, CHR 0x0A]
                     in if gwName = [] \<or> agtName = [] \<or> ContainsAny publicHost (''/?#@'' @ spaces) \<or> 65535 < vmessPort \<or> parsed = None \<or>
                           \<not> has_prefix vmessPath ''/'' \<or> ContainsAny vmessPath spaces \<or> validateURL env linkURL \<noteq> None \<or>
                           \<not> has_prefix linkURL ''wss://'' \<and> \<not> has_prefix linkURL ''reality://'' \<or> allowed = []
                        then Inl ''valid node names, public host, VMess port/path, allowed CIDRs and wss:// or reality:// Link URL are required''
                        else case invalid_cidrs env (allowed @ denied) of
                            cidr # _ \<Rightarrow> Inl (''invalid CIDR: '' @ cidr)
                          | [] \<Rightarrow> Inr \<lparr>qs_gwID = [], qs_agtID = [], qs_attachmentID = [], qs_linkID = [], qs_gwName = gwName, qs_agtName = agtName,
                              qs_publicHost = publicHost, qs_address = address, qs_region = region, qs_vmessPort = vmessPort,
                              qs_vmessPath = vmessPath, qs_hy2Port = hy2Port, qs_allowed = allowed, qs_denied = denied,
                              qs_linkURL = linkURL, qs_autoURL = autoURL\<rparr>)))"

definition quickSetup :: "Env \<Rightarrow> Request \<Rightarrow> Store \<Rightarrow> Response \<times> Store" where
  "quickSetup env r st =
     (case quick_form env r of
        Inl err \<Rightarrow> (HttpError 400 err, st)
      | Inr q \<Rightarrow>
          (case newID env 0 ''gw'' of Inl err \<Rightarrow> (HttpError 500 err, st) | Inr gwID \<Rightarrow>
          (case newID env 1 ''agt'' of Inl err \<Rightarrow> (HttpError 500 err, st) | Inr agtID \<Rightarrow>
          (case newID env 2 ''node'' of Inl err \<Rightarrow> (HttpError 500 err, st) | Inr attachmentID \<Rightarrow>
          (case newID env 3 ''lnk'' of Inl err \<Rightarrow> (HttpError 500 err, st) | Inr linkID \<Rightarrow>
             answer 500 (SeeOther ''/'') (Update (e_store env) (quickSetup_tx env r
               (q\<lparr>qs_gwID := gwID, qs_agtID := agtID, qs_attachmentID := attachmentID, qs_linkID := linkID\<rparr>)) st))))))"

end
