(* ===== verification/Admin_Invariant.thy ===== *)
theory Admin_Invariant
  imports Admin_Routes Integrity
begin

text \<open>
  Every transaction of the administrator's handlers keeps the invariants of the control plane:
  each lemma \<open>X_ok\<close> takes a state in which they hold and a successful run of \<open>X_tx\<close>. Creations
  assume that the identifier they draw is not in use.
\<close>

named_theorems tx_ok

subsection \<open>Helpers of the handlers\<close>

lemma assign_hy2_get:
  "assign_hy2 env P k m = Inr m' \<Longrightarrow> map fst m' = map fst m \<and>
   (\<forall>i g'. mget m' i = Some g' \<longrightarrow> (\<exists>g. mget m i = Some g \<and> grant_core g' = grant_core g))"
proof (induction env P k m arbitrary: m' rule: assign_hy2.induct)
  case (2 env P k i g m)
  then show ?case by (auto simp: grant_core_def split: if_splits sum.splits)
qed simp

lemma sound_grants_core:
  assumes "sound P s" "map fst grants = map fst (st_Grants s)"
    and "\<forall>i g'. mget grants i = Some g' \<longrightarrow> (\<exists>g. mget (st_Grants s) i = Some g \<and> grant_core g' = grant_core g)"
  shows "sound P (s\<lparr>st_Grants := grants\<rparr>)"
proof (rule sound_grants [OF assms(1)])
  show "mwf grants" using assms(2) soundD(1) [OF assms(1)] by (simp add: maps_ok_def mwf_def)
qed (use assms(3) in \<open>fastforce simp: grant_core_def\<close>)

text \<open>\<open>configureHY2\<close> changes neither the switches of the gateway nor any map but the grants.\<close>

lemma configureHY2_ok:
  assumes "configureHY2 env k g port s = Inr (g', s')" and "sound P s"
  shows "sound P s'" and "gateway_core g' = gateway_core g" and "gw_ID g' = gw_ID g"
    and "st_Gateways s' = st_Gateways s" and "st_Attachments s' = st_Attachments s" and "st_Agents s' = st_Agents s"
    and "st_Users s' = st_Users s" and "st_Links s' = st_Links s" and "map fst (st_Grants s') = map fst (st_Grants s)"
proof -
  have "s' = s \<or> (\<exists>R grants. assign_hy2 env R k (st_Grants s) = Inr grants \<and> s' = s\<lparr>st_Grants := grants\<rparr>)"
    and "gateway_core g' = gateway_core g \<and> gw_ID g' = gw_ID g"
    using assms(1) by (auto simp: configureHY2_def Let_def gateway_core_def split: if_splits option.splits sum.splits prod.splits)
  moreover have "sound P (s\<lparr>st_Grants := grants\<rparr>)" "map fst grants = map fst (st_Grants s)"
    if "assign_hy2 env R k (st_Grants s) = Inr grants" for R grants
    using assign_hy2_get [OF that] sound_grants_core [OF assms(2)] by simp_all
  ultimately show "sound P s'" "gateway_core g' = gateway_core g" "gw_ID g' = gw_ID g"
    "st_Gateways s' = st_Gateways s" "st_Attachments s' = st_Attachments s" "st_Agents s' = st_Agents s"
    "st_Users s' = st_Users s" "st_Links s' = st_Links s" "map fst (st_Grants s') = map fst (st_Grants s)"
    using assms(2) by auto
qed

lemma provisionReality_ok:
  assumes "provisionReality env k i target url s = Inr (x, s')" and "sound P s"
  shows "sound P s' \<and> (\<exists>gateways. s' = s\<lparr>st_Gateways := gateways\<rparr> \<and> map_option gateway_core \<circ> mget gateways = map_option gateway_core \<circ> mget (st_Gateways s))"
proof -
  let ?put = "\<lambda>g'. s\<lparr>st_Gateways := mput i g' (st_Gateways s)\<rparr>"
  have "s' = s \<or> (\<exists>g. mget (st_Gateways s) i = Some g \<and> s' \<in> ?put ` {g'. gateway_core g' = gateway_core g})"
    using assms(1)
    by (simp add: provisionReality_def Let_def split: if_splits option.splits sum.splits prod.splits)
       (auto simp: gateway_core_def)
  then consider "s' = s" | g g' where "mget (st_Gateways s) i = Some g" "gateway_core g' = gateway_core g"
      "s' = s\<lparr>st_Gateways := mput i g' (st_Gateways s)\<rparr>" by blast
  then show ?thesis
  proof cases
    case 1
    then show ?thesis using assms(2) by (intro conjI exI [of _ "st_Gateways s"]) simp_all
  next
    case 2
    then show ?thesis
      using sound_put_gateway_same [OF assms(2) 2(1,2)] by (auto simp: fun_eq_iff)
  qed
qed

subsection \<open>Users\<close>

lemma createUser_ok [tx_ok]: "topo_ok s \<Longrightarrow> createUser_tx env i name token s = Inr (r, s') \<Longrightarrow> topo_ok s'"
  by (auto simp: createUser_tx_def topo_ok_sound intro!: sound_mono [OF sound_put_user])

lemma toggleUser_ok [tx_ok]:
  assumes "topo_ok s" "toggleUser_tx i s = Inr (r, s')"
  shows "topo_ok s'"
proof -
  obtain u where u: "mget (st_Users s) i = Some u" using assms(2) by (auto simp: toggleUser_tx_def split: option.splits)
  have s: "sound nobody s" using assms(1) by (simp add: topo_ok_sound)
  have "u_ID u = i" using sound_keyed(1) [OF s u] .
  then have "sound (\<lambda>q. tq_user q = i \<or> False) (s\<lparr>st_Users := mput i (u\<lparr>u_Enabled := \<not> u_Enabled u\<rparr>) (st_Users s)\<rparr>)"
    by (intro sound_mono [OF sound_put_user [OF s]]) auto
  then have "sound nobody (unpublish (\<lambda>g. gr_UserID g = i) (s\<lparr>st_Users := mput i (u\<lparr>u_Enabled := \<not> u_Enabled u\<rparr>) (st_Users s)\<rparr>))"
    by (rule sound_unpublish) (simp add: grant_core_def)
  then have "sound nobody s' \<and> True"
    using assms(2) u unfolding toggleUser_tx_def
    by (auto simp: Let_def intro!: sound_fold [where I = "\<lambda>_. True", THEN conjunct1] sound_bump_for)
  then show ?thesis by (simp add: topo_ok_sound)
qed

lemma reset_grants_get:
  "reset_grants env u k m = Inr m' \<Longrightarrow> map fst m' = map fst m \<and>
   (\<forall>i g'. mget m' i = Some g' \<longrightarrow> (\<exists>g. mget m i = Some g \<and> gr_ID g' = gr_ID g \<and> gr_UserID g' = gr_UserID g \<and>
     gr_AttachmentID g' = gr_AttachmentID g \<and> gr_Enabled g' = gr_Enabled g \<and>
     (gr_Published g' \<longrightarrow> gr_Published g)))"
proof (induction env u k m arbitrary: m' rule: reset_grants.induct)
  case (2 env u k i g m)
  then show ?case by (auto split: if_splits sum.splits)
qed simp

lemma resetSubscription_ok [tx_ok]:
  assumes "topo_ok s" "resetSubscription_tx env i token s = Inr (r, s')"
  shows "topo_ok s'"
proof -
  obtain u grants where u: "mget (st_Users s) i = Some u"
    and g: "reset_grants env (u_ID u) 1 (st_Grants s) = Inr grants"
    using assms(2) by (auto simp: resetSubscription_tx_def split: option.splits sum.splits)
  have s: "sound nobody s" using assms(1) by (simp add: topo_ok_sound)
  have "u_ID u = i" using sound_keyed(1) [OF s u] .
  let ?s1 = "s\<lparr>st_Grants := grants\<rparr>"
  let ?s2 = "s\<lparr>st_Users := mput (u_ID u) (u\<lparr>u_SubscriptionToken := token\<rparr>) (st_Users s), st_Grants := grants\<rparr>"
  have "mwf grants" using reset_grants_get [OF g] soundD(1) [OF s] by (simp add: mwf_def maps_ok_def)
  then have "sound nobody ?s1"
    by (rule sound_grants [OF s]) (use reset_grants_get [OF g] in blast)
  then have "sound nobody ?s2"
  proof (rule sound_view)
    show "topo ?s2 = topo ?s1" using u \<open>u_ID u = i\<close> by (simp add: topo_def fun_eq_iff user_core_def)
    show "maps_ok ?s2" using soundD(1) [OF s] \<open>mwf grants\<close> by (simp add: maps_ok_def)
  qed simp
  then have "sound nobody (fold (\<lambda>gatewayID s. if mget (st_Gateways s) gatewayID \<noteq> None then bumpGateway gatewayID s else s) gws ?s2)" for gws
    by (auto intro!: sound_fold [where I = "\<lambda>_. True", THEN conjunct1] sound_bump(1))
  then show ?thesis using assms(2) u g by (auto simp: resetSubscription_tx_def Let_def topo_ok_sound)
qed

subsection \<open>Gateways\<close>

lemma sound_links_core:
  assumes "sound P s" "\<And>i l. link_core (f i l) = link_core l"
  shows "sound P (s\<lparr>st_Links := mmap f (st_Links s)\<rparr>)"
proof (rule sound_view [OF assms(1)])
  show "topo (s\<lparr>st_Links := mmap f (st_Links s)\<rparr>) = topo s"
    by (simp add: topo_def fun_eq_iff option.map_comp comp_def assms(2))
qed (use soundD(1) [OF assms(1)] in simp_all)

lemma link_agent:
  assumes "sound P s" "l \<in> set (mvals (st_Links s))"
  shows "mget (st_Agents s) (at_AgentID (attachment_at s (lk_AttachmentID l))) \<noteq> None"
    and "mget (st_Gateways s) (at_GatewayID (attachment_at s (lk_AttachmentID l))) \<noteq> None"
proof -
  have "mwf (st_Links s)" using soundD(1) [OF assms(1)] by (simp add: maps_ok_def)
  then obtain k where "mget (st_Links s) k = Some l" using mvals_mget assms(2) by fastforce
  then obtain r where r: "mget (st_Attachments s) (lk_AttachmentID l) = Some r" "at_UpstreamID r = []"
    using sound_refs(5) [OF assms(1)] by blast
  then show "mget (st_Agents s) (at_AgentID (attachment_at s (lk_AttachmentID l))) \<noteq> None"
    and "mget (st_Gateways s) (at_GatewayID (attachment_at s (lk_AttachmentID l))) \<noteq> None"
    using sound_refs(2,3) [OF assms(1) r(1)] by (simp_all add: zget_Some)
qed

lemma sound_fold_bumpAgent:
  assumes "sound P s" "\<And>x. x \<in> set xs \<Longrightarrow> mget (st_Agents s) (f x) \<noteq> None"
  shows "sound P (fold (\<lambda>x. bumpAgent (f x)) xs s) \<and>
    st_Gateways (fold (\<lambda>x. bumpAgent (f x)) xs s) = st_Gateways s \<and>
    st_Attachments (fold (\<lambda>x. bumpAgent (f x)) xs s) = st_Attachments s \<and>
    st_Links (fold (\<lambda>x. bumpAgent (f x)) xs s) = st_Links s"
  using assms
proof (induction xs arbitrary: s)
  case (Cons x xs)
  have "sound P (bumpAgent (f x) s)" using Cons.prems by (simp add: sound_bump)
  then show ?case using Cons.IH [of "bumpAgent (f x) s"] Cons.prems(2) by simp
qed simp

lemma changeGatewayHost_ok:
  assumes "changeGatewayHost env g host s = (g', s')" and "sound P s"
  shows "sound P s' \<and> gateway_core g' = gateway_core g \<and> gw_ID g' = gw_ID g \<and> st_Gateways s' = st_Gateways s \<and>
    st_Attachments s' = st_Attachments s"
proof (cases "gw_PublicHost g = host")
  case False
  define follows where "follows = (\<lambda>link :: Link. at_GatewayID (attachment_at s (lk_AttachmentID link)) = gw_ID g \<and>
    (lk_AutoURL link \<or> \<not> lk_URLOverride link \<and> lk_URL link = tunnel_url env (gw_PublicHost g)))"
  define newURL where "newURL = (if host \<noteq> [] then tunnel_url env host else [])"
  let ?f = "\<lambda>_ (link :: Link). if follows link then link\<lparr>lk_URL := newURL, lk_AutoURL := True\<rparr> else link"
  let ?s1 = "s\<lparr>st_Links := mmap ?f (st_Links s)\<rparr>"
  have "sound P ?s1" by (rule sound_links_core [OF assms(2)]) (simp add: link_core_def)
  note fold = sound_fold_bumpAgent [OF this, where f = "\<lambda>link. at_AgentID (attachment_at s (lk_AttachmentID link))"
      and xs = "filter follows (mvals (st_Links s))"]
  have g': "g' = g\<lparr>gw_PublicHost := host, gw_HY2Certificate := [], gw_HY2PrivateKey := [], gw_HY2PinSHA256 := []\<rparr>"
    and s': "s' = fold (\<lambda>link. bumpAgent (at_AgentID (attachment_at s (lk_AttachmentID link))))
      (filter follows (mvals (st_Links s))) ?s1"
    using False assms(1) unfolding changeGatewayHost_def Let_def follows_def newURL_def by simp_all
  show ?thesis
    unfolding s' using fold link_agent(1) [OF assms(2)] by (simp add: g' gateway_core_def)
qed (use assms in \<open>auto simp: changeGatewayHost_def\<close>)

lemma gatewayAddressForm_core:
  "gatewayAddressForm env r g = Inr (host, g') \<Longrightarrow> gateway_core g' = gateway_core g"
  by (auto simp: gatewayAddressForm_def Let_def gateway_core_def split: if_splits sum.splits)

lemma applyIngressSwitches_core [simp]: "gateway_core (applyIngressSwitches r g) = gateway_core g"
  by (simp add: applyIngressSwitches_def gateway_core_def)

lemma gateway_core_ID: "gateway_core g' = gateway_core g \<Longrightarrow> gw_ID g' = gw_ID g"
  by (simp add: gateway_core_def)

lemma createGateway_ok [tx_ok]:
  assumes "topo_ok s" "createGateway_tx env r g port s = Inr (x, s')"
    and fresh: "mget (st_Gateways s) (gw_ID g) = None" and "gateway_key (gw_ID g)"
  shows "topo_ok s'"
proof -
  have s: "sound nobody s" using assms(1) by (simp add: topo_ok_sound)
  let ?s1 = "s\<lparr>st_Gateways := mput (gw_ID g) g (st_Gateways s)\<rparr>"
  have s1: "sound nobody ?s1"
    by (rule sound_mono [OF sound_put_gateway [OF s refl assms(4)]]) (simp add: fresh t_gateway_le_def t_host_le_def)
  obtain g' s2 where c: "configureHY2 env 1 (applyIngressSwitches r g) port ?s1 = Inr (g', s2)"
    and s': "s' = s2\<lparr>st_Gateways := mput (gw_ID g) g' (st_Gateways s2)\<rparr>"
    using assms(2) by (auto simp: createGateway_tx_def Let_def split: sum.splits)
  from configureHY2_ok(1,2,4) [OF c s1] have "sound nobody s2" "gateway_core g' = gateway_core g"
    "st_Gateways s2 = st_Gateways ?s1" by simp_all
  then have "sound nobody s'" unfolding s' using sound_put_gateway_same [of nobody s2 "gw_ID g" g g'] by simp
  then show ?thesis by (simp add: topo_ok_sound)
qed

text \<open>Withdrawing the grants of a gateway, as most handlers that change one do.\<close>

lemma sound_withdraw_gateway:
  "sound P s \<Longrightarrow> sound P (unpublish (\<lambda>g. at_GatewayID (attachment_at s0 (gr_AttachmentID g)) = i) s)"
  by (erule sound_withdraw [where R' = "\<lambda>q. at_GatewayID (attachment_at s0 (tq_route q)) = i"]) (simp add: grant_core_def)

lemma sound_unpublish_gateway:
  assumes "sound (\<lambda>q. t_through (topo s) i q \<or> P q) s"
  shows "sound P (unpublish (\<lambda>g. at_GatewayID (attachment_at s (gr_AttachmentID g)) = i) s)"
proof (rule sound_unpublish [where R' = "\<lambda>q. at_GatewayID (attachment_at s (tq_route q)) = i"])
  have "at_GatewayID (attachment_at s (tq_route q)) = i" if "t_through (topo s) i q" for q
    using that by (auto simp: t_through_def zget_def route_core_def split: option.splits)
  then show "sound (\<lambda>q. at_GatewayID (attachment_at s (tq_route q)) = i \<or> P q) s"
    using assms by (blast intro: sound_mono)
qed (simp add: grant_core_def)

lemma unpublishGatewayGrants_ok: "sound P s \<Longrightarrow> sound P (unpublishGatewayGrants i s)"
  unfolding unpublishGatewayGrants_def by (rule sound_withdraw_gateway)

lemma finish_gateway_edit_ok:
  assumes "sound P s" "mget (st_Gateways s) i = Some g" "gateway_core g4 = gateway_core g" "gw_ID g = i"
  shows "sound P (finish_gateway_edit r region b g4 s)"
proof -
  have "gw_ID g4 = i" using assms(3,4) by (simp add: gateway_core_def)
  then show ?thesis
    using sound_put_gateway_same [OF assms(1,2)] assms(3)
    by (auto simp: finish_gateway_edit_def Let_def gateway_core_def intro!: sound_withdraw_gateway)
qed

lemma editGateway_ok [tx_ok]:
  assumes "topo_ok s" "editGateway_tx env r name path port region s = Inr (x, s')"
  shows "topo_ok s'"
proof -
  have s: "sound nobody s" using assms(1) by (simp add: topo_ok_sound)
  obtain g where g: "mget (st_Gateways s) (rq_id r) = Some g"
    using assms(2) by (auto simp: editGateway_tx_def split: option.splits)
  obtain host g0 where a: "gatewayAddressForm env r g = Inr (host, g0)"
    using assms(2) g by (auto simp: editGateway_tx_def Let_def split: sum.splits)
  obtain g2 s1 where h: "changeGatewayHost env (applyIngressSwitches r g0) host s = (g2, s1)" by fastforce
  note c1 = gatewayAddressForm_core [OF a]
  note c2 = changeGatewayHost_ok [OF h s]
  define g3 where "g3 = g2\<lparr>gw_Name := name, gw_PublicHost := host, gw_VMessPort := port, gw_VMessPath := path,
    gw_VMessHost := TrimSpace (FormValue r ''vmess_host'')\<rparr>"
  obtain p g4 s2 b where q: "configureHY2 env 0 g3 p s1 = Inr (g4, s2)" and s': "finish_gateway_edit r region b g4 s2 = s'"
    using assms(2) unfolding editGateway_tx_def
    by (simp add: g a h g3_def Let_def split: option.splits sum.splits prod.splits)
  have c3: "gateway_core g3 = gateway_core g2" by (simp add: g3_def gateway_core_def)
  note c4 = configureHY2_ok [OF q, of nobody]
  have "gateway_core g4 = gateway_core g" using c1 c2 c3 c4(2) by simp
  then have "sound nobody s'"
    unfolding s' [symmetric] using sound_keyed(2) [OF s g] g c2 c4(1,4) by (auto intro!: finish_gateway_edit_ok)
  then show ?thesis by (simp add: topo_ok_sound)
qed

lemma saveGatewayIngress_ok [tx_ok]:
  assumes "topo_ok s" "saveGatewayIngress_tx env r s = Inr (x, s')"
  shows "topo_ok s'"
proof -
  have s: "sound nobody s" using assms(1) by (simp add: topo_ok_sound)
  obtain g p g2 s1 b where g: "mget (st_Gateways s) (rq_id r) = Some g"
    and c: "configureHY2 env 0 (applyIngressSwitches r g) p s = Inr (g2, s1)"
    and s': "let s2 = s1\<lparr>st_Gateways := mput (gw_ID g2) g2 (st_Gateways s1)\<rparr>; s3 = bumpGateway (gw_ID g2) s2 in
      s' = (if b then unpublish (\<lambda>q. at_GatewayID (attachment_at s3 (gr_AttachmentID q)) = gw_ID g2) s3 else s2)"
    using assms(2) unfolding saveGatewayIngress_tx_def Let_def by (auto split: option.splits sum.splits)
  note c1 = configureHY2_ok [OF c s]
  have "gateway_core g2 = gateway_core g" using c1(2) by simp
  moreover from this have "gw_ID g2 = rq_id r" using gateway_core_ID [of g2 g] sound_keyed(2) [OF s g] by simp
  ultimately have s2: "sound nobody (s1\<lparr>st_Gateways := mput (gw_ID g2) g2 (st_Gateways s1)\<rparr>)"
    using sound_put_gateway_same [OF c1(1), of "rq_id r" g g2] g c1(4) by simp
  then have "sound nobody (bumpGateway (gw_ID g2) (s1\<lparr>st_Gateways := mput (gw_ID g2) g2 (st_Gateways s1)\<rparr>))"
    by (rule sound_bump) simp
  then have "sound nobody s'" using s2 s' by (auto simp: Let_def intro: sound_withdraw_gateway)
  then show ?thesis by (simp add: topo_ok_sound)
qed

lemma topo_put_gateway_sel [simp]:
  "t_routes (topo (s\<lparr>st_Gateways := gs\<rparr>)) = t_routes (topo s)" "t_agents (topo (s\<lparr>st_Gateways := gs\<rparr>)) = t_agents (topo s)"
  "t_routes (topo (s\<lparr>st_Agents := as\<rparr>)) = t_routes (topo s)" "t_gateways (topo (s\<lparr>st_Agents := as\<rparr>)) = t_gateways (topo s)"
  by (simp_all add: topo_def)

lemma embeddedAgentChanged_keep [simp]:
  "st_Attachments (embeddedAgentChanged a s) = st_Attachments s" "st_NodeStatus (embeddedAgentChanged a s) = st_NodeStatus s"
  by (simp_all add: embeddedAgentChanged_def)

lemma t_through_routes: "t_routes T' = t_routes T \<Longrightarrow> t_through T' = t_through T"
  by (simp add: t_through_def fun_eq_iff)

lemma t_by_agent_routes: "t_routes T' = t_routes T \<Longrightarrow> t_by_agent T' = t_by_agent T"
  by (simp add: t_by_agent_def fun_eq_iff)

text \<open>Switching a gateway off withdraws what enters through it and, by its embedded agent, what leaves through it.\<close>

lemma toggleGateway_ok [tx_ok]:
  assumes "topo_ok s" "toggleGateway_tx i s = Inr (r, s')"
  shows "topo_ok s'"
proof -
  have s: "sound nobody s" using assms(1) by (simp add: topo_ok_sound)
  obtain g where g: "mget (st_Gateways s) i = Some g" using assms(2) by (auto simp: toggleGateway_tx_def split: option.splits)
  have gid: "gw_ID g = i" "gateway_key i" "i \<noteq> []" using sound_keyed(2) [OF s g] by simp_all
  define g' where "g' = g\<lparr>gw_Enabled := \<not> gw_Enabled g, gw_DesiredVersion := gw_DesiredVersion g + 1\<rparr>"
  define s1 where "s1 = s\<lparr>st_Gateways := mput i g' (st_Gateways s)\<rparr>"
  define s2 where "s2 = (case mget (st_Agents s1) (GatewayAgentID i) of None \<Rightarrow> s1
    | Some a \<Rightarrow> if ag_GatewayID a = i then embeddedAgentChanged (a\<lparr>ag_DesiredVersion := ag_DesiredVersion a + 1\<rparr>) s1 else s1)"
  have s': "s' = (if gw_Enabled g' then s2
      else unpublish (\<lambda>q. at_GatewayID (attachment_at s2 (gr_AttachmentID q)) = i) s2)"
    using assms(2) unfolding toggleGateway_tx_def g s2_def s1_def g'_def
    by (cases "mget (st_Agents s) (GatewayAgentID i)") (auto simp: Let_def gid)
  define Q where "Q = (\<lambda>q. t_through (topo s) i q \<and> \<not> gw_Enabled g')"
  have s1: "sound (\<lambda>q. t_hosted (topo s) i q \<or> Q q) s1"
    unfolding s1_def
    by (rule sound_mono [OF sound_put_gateway [OF s _ gid(2)]])
       (use g in \<open>auto simp: g'_def gid Q_def t_gateway_le_def t_host_le_def gateway_core_def\<close>)
  have routes: "t_by_agent (topo s1) = t_by_agent (topo s)" by (rule t_by_agent_routes) (simp add: s1_def)
  have "sound Q s2"
  proof (cases "\<exists>a. mget (st_Agents s) (GatewayAgentID i) = Some a \<and> ag_GatewayID a = i")
    case True
    then obtain a where a: "mget (st_Agents s) (GatewayAgentID i) = Some a" "ag_GatewayID a = i" by blast
    have "ag_ID a = GatewayAgentID i" using sound_keyed(3) [OF s a(1)] by simp
    moreover have "sound (\<lambda>q. t_by_agent (topo s1) (GatewayAgentID i) q \<or> Q q) s1"
      using hosted_by_agent [OF soundD(4) [OF s] _ gid(3)] routes
      by (intro sound_mono [OF s1]) auto
    ultimately show ?thesis
      using a gid by (auto simp: s2_def s1_def intro!: sound_embeddedAgentChanged)
  next
    case False
    then have "\<not> t_hosted (topo s) i q" for q using hosted_agent [OF soundD(4) [OF s] _ gid(3), of q] by (auto simp: agent_core_def)
    then have "sound Q s1" by (intro sound_mono [OF s1]) simp
    then show ?thesis using False by (auto simp: s2_def s1_def split: option.splits)
  qed
  moreover have "t_through (topo s2) = t_through (topo s)"
    by (rule t_through_routes) (auto simp: s2_def s1_def topo_def fun_eq_iff split: option.split)
  ultimately have "sound nobody s'"
    unfolding s' by (auto simp: Q_def intro!: sound_unpublish_gateway elim!: sound_mono)
  then show ?thesis by (simp add: topo_ok_sound)
qed

lemma toggleEmbeddedAgent_ok [tx_ok]:
  assumes "topo_ok s" "toggleEmbeddedAgent_tx env i s = Inr (r, s')"
  shows "topo_ok s'"
proof -
  have s: "sound nobody s" using assms(1) by (simp add: topo_ok_sound)
  obtain g where g: "mget (st_Gateways s) i = Some g" using assms(2) by (auto simp: toggleEmbeddedAgent_tx_def split: option.splits)
  have gid: "gw_ID g = i" "gateway_key i" "i \<noteq> []" using sound_keyed(2) [OF s g] by simp_all
  define g' where "g' = g\<lparr>gw_AgentEnabled := \<not> gw_AgentEnabled g, gw_DesiredVersion := gw_DesiredVersion g + 1\<rparr>"
  define s1 where "s1 = s\<lparr>st_Gateways := mput i g' (st_Gateways s)\<rparr>"
  have "s' \<in> (\<lambda>a. embeddedAgentChanged a s1) ` {a. ag_ID a = GatewayAgentID i \<and> ag_GatewayID a = i}"
    using assms(2) sound_keyed(3) [OF s, of "GatewayAgentID i"]
    by (auto simp: toggleEmbeddedAgent_tx_def g Let_def gid s1_def g'_def split: option.splits if_splits)
  then obtain a where a: "ag_ID a = GatewayAgentID i" "ag_GatewayID a = i" and s': "s' = embeddedAgentChanged a s1"
    by blast
  have "sound (\<lambda>q. t_hosted (topo s) i q) s1"
    unfolding s1_def
    by (rule sound_mono [OF sound_put_gateway [OF s _ gid(2)]])
       (use g in \<open>auto simp: g'_def gid t_gateway_le_def gateway_core_def\<close>)
  moreover have routes: "t_by_agent (topo s1) = t_by_agent (topo s)" by (rule t_by_agent_routes) (simp add: s1_def)
  ultimately have "sound (\<lambda>q. t_by_agent (topo s1) (ag_ID a) q \<or> False) s1"
    using hosted_by_agent [OF soundD(4) [OF s] _ gid(3)]
    by (elim sound_mono) (auto simp: routes a(1))
  then have "sound nobody s'"
    unfolding s' by (rule sound_embeddedAgentChanged) (use a gid in \<open>simp_all add: s1_def\<close>)
  then show ?thesis by (simp add: topo_ok_sound)
qed

subsection \<open>Agents\<close>

lemma createAgent_ok [tx_ok]:
  assumes "topo_ok s" "createAgent_tx env i name allowed denied s = Inr (r, s')" and "agent_key i"
  shows "topo_ok s'"
proof -
  have s: "sound nobody s" using assms(1) by (simp add: topo_ok_sound)
  show ?thesis
    using assms(2,3)
    by (auto simp: createAgent_tx_def topo_ok_sound t_agent_le_def agent_core_def zero_Agent_def split: option.splits
        intro!: sound_mono [OF sound_put_agent [OF s]])
qed

lemma editAgent_ok [tx_ok]:
  assumes "topo_ok s" "editAgent_tx env i name allowed denied s = Inr (r, s')"
  shows "topo_ok s'"
proof -
  have s: "sound nobody s" using assms(1) by (simp add: topo_ok_sound)
  obtain a where a: "mget (st_Agents s) i = Some a" using assms(2) by (auto simp: editAgent_tx_def split: option.splits)
  have "ag_ID a = i" using sound_keyed(3) [OF s a] by simp
  then have "s' \<in> (\<lambda>a'. s\<lparr>st_Agents := mput i a' (st_Agents s)\<rparr>) ` {a'. agent_core a' = agent_core a}"
    using assms(2) by (auto simp: editAgent_tx_def a Let_def agent_core_def)
  then show ?thesis using sound_put_agent_same [OF s a] by (auto simp: topo_ok_sound)
qed

lemma toggleAgent_ok [tx_ok]:
  assumes "topo_ok s" "toggleAgent_tx i s = Inr (r, s')"
  shows "topo_ok s'"
proof -
  have s: "sound nobody s" using assms(1) by (simp add: topo_ok_sound)
  obtain a where a: "mget (st_Agents s) i = Some a" using assms(2) by (auto simp: toggleAgent_tx_def split: option.splits)
  have aid: "ag_ID a = i" "agent_key i" using sound_keyed(3) [OF s a] by simp_all
  define a' where "a' = a\<lparr>ag_Enabled := \<not> ag_Enabled a, ag_DesiredVersion := ag_DesiredVersion a + 1\<rparr>"
  define s1 where "s1 = s\<lparr>st_Agents := mput i a' (st_Agents s)\<rparr>"
  define k where "k = ag_GatewayID a"
  define g' where "g' = (gateway_at s k)\<lparr>gw_AgentEnabled := ag_Enabled a', gw_DesiredVersion := gw_DesiredVersion (gateway_at s k) + 1\<rparr>"
  define s2 where "s2 = (if k \<noteq> [] then s1\<lparr>st_Gateways := mput (gw_ID g') g' (st_Gateways s1)\<rparr> else s1)"
  have s': "s' = touch_routes (\<not> ag_Enabled a') (\<lambda>r. at_AgentID r = i) s2"
    using assms(2) unfolding toggleAgent_tx_def a s2_def g'_def s1_def a'_def k_def
    by (cases "ag_GatewayID a = []") (auto simp: Let_def aid)
  let ?Q = "\<lambda>q. t_by_agent (topo s) i q \<and> \<not> ag_Enabled a'"
  have refs: "k \<noteq> [] \<Longrightarrow> i = GatewayAgentID k \<and> mget (st_Gateways s) k \<noteq> None"
    using sound_refs(1) [OF s a] by (simp add: k_def)
  have s1: "sound ?Q s1"
    unfolding s1_def
    by (rule sound_mono [OF sound_put_agent [OF s _ aid(2)]])
       (use a aid refs in \<open>auto simp: a'_def k_def t_agent_le_def agent_core_def\<close>)
  have "sound ?Q s2"
  proof (cases "k = []")
    case False
    then obtain g where g: "mget (st_Gateways s) k = Some g" using refs by auto
    have gid: "gw_ID g' = k" "gateway_key k" using sound_keyed(2) [OF s g] g by (simp_all add: g'_def zget_def)
    have hosted: "t_by_agent (topo s) i q" if "t_hosted (topo s1) k q" for q
      using hosted_by_agent [OF soundD(4) [OF s1] that False] refs [OF False]
        t_by_agent_routes [of "topo s1" "topo s"] by (simp add: s1_def)
    have "sound ?Q (s1\<lparr>st_Gateways := mput k g' (st_Gateways s1)\<rparr>)"
      by (rule sound_mono [OF sound_put_gateway [OF s1 gid]])
         (use hosted g in \<open>auto simp: s1_def g'_def zget_def t_gateway_le_def t_host_le_def gateway_core_def\<close>)
    then show ?thesis using False gid by (simp add: s2_def)
  qed (simp add: s2_def s1)
  moreover have "t_routes (topo s2) = t_routes (topo s)" by (simp add: s2_def s1_def)
  ultimately have "sound nobody s'"
    unfolding s'
    by (intro sound_touch_routes [where c' = "\<lambda>r. tr_agent r = i"])
       (auto simp: t_by_agent_def route_core_def elim!: sound_mono)
  then show ?thesis by (simp add: topo_ok_sound)
qed

subsection \<open>Deleting nodes\<close>

lemma deleteGateway_sound:
  assumes "sound nobody s" "deleteGateway_tx env i name s = Inr (r, s')"
  obtains A where "set A \<subseteq> {GatewayAgentID i}" "sound nobody s'" "topo s' = t_remove_nodes {i} (set A) (topo s)"
proof -
  obtain g where g: "mget (st_Gateways s) i = Some g"
    using assms(2) by (auto simp: deleteGateway_tx_def split: option.splits)
  have gid: "gw_ID g = i" "i \<noteq> []" using sound_keyed(2) [OF assms(1) g] by simp_all
  define A where "A = (case mget (st_Agents s) (GatewayAgentID i) of None \<Rightarrow> []
    | Some a \<Rightarrow> if ag_GatewayID a = i then [GatewayAgentID i] else [])"
  have A: "(case mget (st_Agents s) (GatewayAgentID i) of None \<Rightarrow> []
    | Some a \<Rightarrow> if ag_GatewayID a = i then [ag_ID a] else []) = A"
    using sound_keyed(3) [OF assms(1), of "GatewayAgentID i"] by (auto simp: A_def split: option.split)
  let ?s2 = "s\<lparr>st_Agents := fold mdel A (st_Agents s), st_Gateways := fold mdel [i] (st_Gateways s)\<rparr>"
  have s': "s' = removeNodeReferences (e_now env) (i # A) ?s2"
    using assms(2) unfolding deleteGateway_tx_def g option.case gid Let_def A by (auto split: if_splits)
  have "sound nobody s' \<and> topo s' = t_remove_nodes (set [i]) (set A) (topo s)"
    unfolding s'
  proof (rule sound_removeNodeReferences [OF assms(1)])
    show "ag_GatewayID a \<notin> set [i]" if "mget (st_Agents s) k = Some a" "k \<notin> set A" for k a
      using that sound_refs(1) [OF assms(1), of k a] gid(2) by (auto simp: A_def)
  qed auto
  moreover have "set A \<subseteq> {GatewayAgentID i}" by (auto simp: A_def split: option.split)
  ultimately show ?thesis using that by simp
qed

lemma deleteGateway_ok [tx_ok]: "topo_ok s \<Longrightarrow> deleteGateway_tx env i name s = Inr (r, s') \<Longrightarrow> topo_ok s'"
  by (auto simp: topo_ok_sound elim: deleteGateway_sound)

lemma deleteAgent_sound:
  assumes "sound nobody s" "deleteAgent_tx env i name s = Inr (r, s')"
  shows "sound nobody s' \<and> (\<exists>gs. topo s' = t_remove_nodes {} {i} ((topo s)\<lparr>t_gateways := gs\<rparr>) \<and> dom gs = dom (t_gateways (topo s)))"
proof -
  obtain a where a: "mget (st_Agents s) i = Some a" using assms(2) by (auto simp: deleteAgent_tx_def split: option.splits)
  have aid: "ag_ID a = i" "i \<noteq> []" using sound_keyed(3) [OF assms(1) a] by simp_all
  define k where "k = ag_GatewayID a"
  define g' where "g' = (gateway_at s k)\<lparr>gw_AgentEnabled := False, gw_DesiredVersion := gw_DesiredVersion (gateway_at s k) + 1\<rparr>"
  define s0 where "s0 = (if k = [] then s else s\<lparr>st_Gateways := mput k g' (st_Gateways s)\<rparr>)"
  have refs: "i = GatewayAgentID k \<and> (\<exists>g. mget (st_Gateways s) k = Some g \<and> gw_ID g = k)" if "k \<noteq> []"
    using that sound_refs(1) [OF assms(1) a] sound_keyed(2) [OF assms(1), of k] by (auto simp: k_def)
  let ?s2 = "s0\<lparr>st_Agents := fold mdel [i] (st_Agents s0), st_Gateways := fold mdel [] (st_Gateways s0)\<rparr>"
  have gid: "gw_ID g' = k" if "k \<noteq> []" using refs [OF that] by (auto simp: g'_def zget_def)
  have s': "s' = removeNodeReferences (e_now env) [i] ?s2"
    using assms(2) gid unfolding deleteAgent_tx_def a s0_def g'_def k_def
    by (cases "ag_GatewayID a = []") (auto simp: Let_def aid split: if_splits)
  have s0: "sound (\<lambda>q. t_by_agent (topo s) i q) s0"
  proof (cases "k = []")
    case False
    obtain g where g: "mget (st_Gateways s) k = Some g" using refs [OF False] by blast
    then show ?thesis
      unfolding s0_def using sound_keyed(2) [OF assms(1) g] False hosted_by_agent [OF soundD(4) [OF assms(1)] _ False] refs [OF False]
      by (auto simp: g'_def zget_def t_gateway_le_def gateway_core_def intro!: sound_mono [OF sound_put_gateway [OF assms(1)]])
  qed (use assms(1) in \<open>auto simp: s0_def elim: sound_mono\<close>)
  have "sound nobody s' \<and> topo s' = t_remove_nodes (set []) (set [i]) (topo s0)"
    unfolding s'
  proof (rule sound_removeNodeReferences [OF s0])
    show "case t_routes (topo s0) (tq_route q) of None \<Rightarrow> False | Some r \<Rightarrow> t_lost (set [i]) r"
      if "t_by_agent (topo s) i q" for q
      using that by (auto simp: s0_def t_by_agent_def t_lost_def split: option.splits if_splits)
  qed auto
  moreover have "topo s0 = (topo s)\<lparr>t_gateways := t_gateways (topo s0)\<rparr>"
    by (auto simp: s0_def topo_def)
  moreover have "dom (t_gateways (topo s0)) = dom (t_gateways (topo s))"
    using refs by (auto simp: s0_def topo_def dom_def)
  ultimately show ?thesis by (metis list.set(1) list.set(2))
qed

lemma deleteAgent_ok [tx_ok]: "topo_ok s \<Longrightarrow> deleteAgent_tx env i name s = Inr (r, s') \<Longrightarrow> topo_ok s'"
  by (simp add: topo_ok_sound deleteAgent_sound)

subsection \<open>Enrollments\<close>

lemma topo_ok_enrollments: "topo_ok (s\<lparr>st_Enrollments := es\<rparr>) = topo_ok s"
  by (simp add: topo_ok_def status_ok_def)

lemma createEnrollment_ok [tx_ok]:
  "topo_ok s \<Longrightarrow> createEnrollment_tx env role n token i s = Inr (r, s') \<Longrightarrow> topo_ok s'"
  by (auto simp: createEnrollment_tx_def Let_def topo_ok_enrollments split: if_splits)

lemma revokeEnrollment_ok [tx_ok]: "topo_ok s \<Longrightarrow> revokeEnrollment_tx env i s = Inr (r, s') \<Longrightarrow> topo_ok s'"
  by (auto simp: revokeEnrollment_tx_def topo_ok_enrollments split: option.splits)

subsection \<open>Attachments\<close>

lemma createAttachment_ok [tx_ok]:
  assumes "topo_ok s" "createAttachment_tx env i gatewayID agentID s = Inr (r, s')"
    and "mget (st_Attachments s) i = None" "i \<noteq> []"
  shows "topo_ok s'"
proof -
  have s: "sound nobody s" using assms(1) by (simp add: topo_ok_sound)
  define a where "a = zero_Attachment\<lparr>at_ID := i, at_GatewayID := gatewayID, at_AgentID := agentID, at_Enabled := True,
    at_CreatedAt := e_now env\<rparr>"
  let ?s1 = "s\<lparr>st_Attachments := mput i a (st_Attachments s)\<rparr>"
  have ex: "mget (st_Gateways s) gatewayID \<noteq> None" "mget (st_Agents s) agentID \<noteq> None"
    and s': "s' = bumpAgent agentID (bumpGateway gatewayID ?s1)"
    using assms(2) by (auto simp: createAttachment_tx_def a_def Let_def split: if_splits)
  have "sound nobody ?s1"
    by (rule sound_mono [OF sound_put_route [OF s]]) (use ex assms(3,4) in \<open>auto simp: a_def zero_Attachment_def\<close>)
  then show ?thesis unfolding s' topo_ok_sound using ex by (intro sound_bump) simp_all
qed

lemma toggleAttachment_ok [tx_ok]:
  assumes "topo_ok s" "toggleAttachment_tx i s = Inr (r, s')"
  shows "topo_ok s'"
proof -
  have s: "sound nobody s" using assms(1) by (simp add: topo_ok_sound)
  obtain a where a: "mget (st_Attachments s) i = Some a"
    using assms(2) by (auto simp: toggleAttachment_tx_def split: option.splits)
  have aid: "at_ID a = i" "i \<noteq> []" using sound_keyed(5) [OF s a] by simp_all
  note refs = sound_refs(2,3,4) [OF s a]
  define b where "b = a\<lparr>at_Enabled := \<not> at_Enabled a\<rparr>"
  let ?s1 = "s\<lparr>st_Attachments := mput i b (st_Attachments s)\<rparr>"
  define s2 where "s2 = bumpGateway (at_GatewayID a) ?s1"
  define s3 where "s3 = (if at_AgentID a \<noteq> [] then bumpAgent (at_AgentID a) s2 else s2)"
  have s': "s' = (if at_Enabled b then s3 else unpublish (\<lambda>g. gr_AttachmentID g = i) s3)"
    using assms(2) unfolding toggleAttachment_tx_def a s3_def s2_def b_def
    by (cases "at_AgentID a = []"; cases "at_Enabled a") (auto simp: Let_def aid)
  have "sound (\<lambda>q. tq_route q = i \<and> \<not> at_Enabled b) ?s1"
    by (rule sound_mono [OF sound_put_route [OF s]]) (use a aid refs in \<open>auto simp: b_def\<close>)
  then have s2: "sound (\<lambda>q. tq_route q = i \<and> \<not> at_Enabled b) s2" unfolding s2_def using refs(1) by (intro sound_bump) simp_all
  then have "sound (\<lambda>q. tq_route q = i \<and> \<not> at_Enabled b) s3"
    unfolding s3_def using refs(2,3) by (cases "at_UpstreamID a = []") (auto simp: s2_def intro!: sound_bump(2))
  then have "sound nobody s'"
    unfolding s' by (auto elim!: sound_mono intro!: sound_unpublish [where R' = "\<lambda>q. tq_route q = i"] simp: grant_core_def)
  then show ?thesis by (simp add: topo_ok_sound)
qed

lemma deleteAttachment_ok [tx_ok]: "topo_ok s \<Longrightarrow> deleteAttachment_tx env i c s = Inr (r, s') \<Longrightarrow> topo_ok s'"
  by (auto simp: deleteAttachment_tx_def topo_ok_removeAttachment split: if_splits)

subsection \<open>Links\<close>

lemma has_link_on:
  "sound P s \<Longrightarrow> t_link_on (topo s) i = list_ex (\<lambda>l. lk_AttachmentID l = i \<and> lk_Enabled l) (mvals (st_Links s))"
  using soundD(1) [of P s] topo_link_on [of s i] by (simp add: maps_ok_def attachmentHasEnabledLink_def)

lemma sound_unpublishGrantsWithoutLink:
  assumes "sound (\<lambda>q. P q \<or> tq_route q = i \<and> \<not> t_link_on (topo s) i) s"
  shows "sound P (unpublishGrantsWithoutLink i s)"
proof -
  note on = has_link_on [OF assms, of i]
  show ?thesis
    unfolding unpublishGrantsWithoutLink_def on [symmetric]
    using assms by (auto elim!: sound_mono intro!: sound_unpublish [where R' = "\<lambda>q. tq_route q = i"] simp: grant_core_def)
qed

lemma unpublishGrantsWithoutLink_keep [simp]:
  "st_Gateways (unpublishGrantsWithoutLink i s) = st_Gateways s" "st_Agents (unpublishGrantsWithoutLink i s) = st_Agents s"
  "st_Attachments (unpublishGrantsWithoutLink i s) = st_Attachments s"
  by (simp_all add: unpublishGrantsWithoutLink_def)

text \<open>The route of a link, and that it can be bumped.\<close>

lemma link_route:
  assumes "sound P s" "mget (st_Links s) i = Some l"
  obtains r where "mget (st_Attachments s) (lk_AttachmentID l) = Some r" "at_UpstreamID r = []"
    "attachment_at s (lk_AttachmentID l) = r" "at_ID r = lk_AttachmentID l"
    "mget (st_Gateways s) (at_GatewayID r) \<noteq> None" "mget (st_Agents s) (at_AgentID r) \<noteq> None"
proof -
  obtain r where r: "mget (st_Attachments s) (lk_AttachmentID l) = Some r" "at_UpstreamID r = []"
    using sound_refs(5) [OF assms] by blast
  then show ?thesis
    using that sound_refs(2,3) [OF assms(1) r(1)] sound_keyed(5) [OF assms(1) r(1)] by (simp add: zget_Some)
qed

lemma toggleLink_ok [tx_ok]:
  assumes "topo_ok s" "toggleLink_tx i s = Inr (r, s')"
  shows "topo_ok s'"
proof -
  have s: "sound nobody s" using assms(1) by (simp add: topo_ok_sound)
  obtain l where l: "mget (st_Links s) i = Some l" using assms(2) by (auto simp: toggleLink_tx_def split: option.splits)
  have lid: "lk_ID l = i" using sound_keyed(6) [OF s l] .
  obtain a where a: "mget (st_Attachments s) (lk_AttachmentID l) = Some a" "at_UpstreamID a = []"
    "attachment_at s (lk_AttachmentID l) = a" "mget (st_Gateways s) (at_GatewayID a) \<noteq> None" "mget (st_Agents s) (at_AgentID a) \<noteq> None"
    using link_route [OF s l] by metis
  define b where "b = l\<lparr>lk_Enabled := \<not> lk_Enabled l\<rparr>"
  let ?s1 = "s\<lparr>st_Links := mput i b (st_Links s)\<rparr>"
  have s': "s' = bumpAgent (at_AgentID a) (bumpGateway (at_GatewayID a) (unpublishGrantsWithoutLink (lk_AttachmentID l) ?s1))"
    using assms(2) a(3) by (simp add: toggleLink_tx_def l Let_def lid b_def)
  have "sound (\<lambda>q. False \<or> tq_route q = lk_AttachmentID b \<and> \<not> t_link_on (topo ?s1) (lk_AttachmentID b)) ?s1"
    by (rule sound_put_link [OF s]) (use l lid a in \<open>auto simp: b_def\<close>)
  then have "sound nobody (unpublishGrantsWithoutLink (lk_AttachmentID l) ?s1)"
    by (intro sound_unpublishGrantsWithoutLink) (simp add: b_def)
  then show ?thesis unfolding s' topo_ok_sound using a(4,5) by (intro sound_bump) simp_all
qed

lemma updateLinkPolicy_ok [tx_ok]:
  assumes "topo_ok s" "updateLinkPolicy_tx i priority weight connections maxStreams s = Inr (r, s')"
  shows "topo_ok s'"
proof -
  have s: "sound nobody s" using assms(1) by (simp add: topo_ok_sound)
  obtain l where l: "mget (st_Links s) i = Some l" using assms(2) by (auto simp: updateLinkPolicy_tx_def split: option.splits)
  have lid: "lk_ID l = i" using sound_keyed(6) [OF s l] .
  obtain a where a: "attachment_at s (lk_AttachmentID l) = a" "mget (st_Gateways s) (at_GatewayID a) \<noteq> None"
    "mget (st_Agents s) (at_AgentID a) \<noteq> None"
    using link_route [OF s l] by metis
  let ?s1 = "s\<lparr>st_Links := mput i (l\<lparr>lk_Priority := priority, lk_Weight := weight, lk_Connections := connections,
    lk_MaxStreams := maxStreams\<rparr>) (st_Links s)\<rparr>"
  have "sound nobody ?s1" by (rule sound_put_link_same [OF s l]) (simp add: link_core_def)
  then show ?thesis
    using assms(2) a by (auto simp: updateLinkPolicy_tx_def l Let_def lid topo_ok_sound intro!: sound_bump)
qed

lemma createLink_ok [tx_ok]:
  assumes "topo_ok s" "createLink_tx env r l s = Inr (x, s')" and "mget (st_Links s) (lk_ID l) = None" "lk_Enabled l"
  shows "topo_ok s'"
proof -
  have s: "sound nobody s" using assms(1) by (simp add: topo_ok_sound)
  obtain a where a: "mget (st_Attachments s) (lk_AttachmentID l) = Some a" "at_UpstreamID a = []"
    using assms(2) by (auto simp: createLink_tx_def split: option.splits if_splits)
  obtain l' s1 gs where l': "lk_ID l' = lk_ID l" "lk_AttachmentID l' = lk_AttachmentID l" "lk_Enabled l'"
    and s1: "sound nobody s1" "s1 = s\<lparr>st_Gateways := gs\<rparr>"
      "map_option gateway_core \<circ> mget gs = map_option gateway_core \<circ> mget (st_Gateways s)"
    and s': "s' = bumpAgent (at_AgentID a) (bumpGateway (at_GatewayID a) (s1\<lparr>st_Links := mput (lk_ID l') l' (st_Links s1)\<rparr>))"
  proof (cases "has_prefix (lk_URL l) ''reality://''")
    case True
    then obtain u v s1 where p: "provisionReality env 1 (at_GatewayID a) (TrimSpace (FormValue r ''reality_target'')) (lk_URL l) s = Inr ((u, v), s1)"
      and s': "s' = bumpAgent (at_AgentID a) (bumpGateway (at_GatewayID a) (s1\<lparr>st_Links :=
        mput (lk_ID l) (l\<lparr>lk_RealityUUID := u, lk_RealityShortID := v\<rparr>) (st_Links s1)\<rparr>))"
      using assms(2) a by (auto simp: createLink_tx_def Let_def split: sum.splits prod.splits)
    show ?thesis
      using provisionReality_ok [OF p s] s' assms(4)
      by (auto intro: that [of "l\<lparr>lk_RealityUUID := u, lk_RealityShortID := v\<rparr>" s1])
  next
    case False
    then show ?thesis
      using assms(2,4) a s that [of l s "st_Gateways s"] by (auto simp: createLink_tx_def Let_def)
  qed
  have gs: "mget gs k \<noteq> None \<longleftrightarrow> mget (st_Gateways s) k \<noteq> None" for k
    using fun_cong [OF s1(3), of k] by (cases "mget gs k"; cases "mget (st_Gateways s) k") auto
  have "sound nobody (s1\<lparr>st_Links := mput (lk_ID l') l' (st_Links s1)\<rparr>)"
    by (rule sound_put_link_on [OF s1(1)]) (use l' s1(2) a assms(3) in auto)
  then show ?thesis
    unfolding s' topo_ok_sound using sound_refs(2,3) [OF s a(1)] a(2) gs
    by (intro sound_bump) (simp_all add: s1(2))
qed

lemma deleteLink_ok [tx_ok]:
  assumes "topo_ok s" "deleteLink_tx env i name s = Inr (r, s')"
  shows "topo_ok s'"
proof -
  have s: "sound nobody s" using assms(1) by (simp add: topo_ok_sound)
  obtain l where l: "mget (st_Links s) i = Some l" using assms(2) by (auto simp: deleteLink_tx_def split: option.splits)
  have lid: "lk_ID l = i" using sound_keyed(6) [OF s l] .
  obtain a where a: "attachment_at s (lk_AttachmentID l) = a" "at_ID a = lk_AttachmentID l"
    "mget (st_Gateways s) (at_GatewayID a) \<noteq> None" "mget (st_Agents s) (at_AgentID a) \<noteq> None"
    using link_route [OF s l] by metis
  let ?s1 = "removeLink (e_now env) i s"
  have s': "s' = bumpAgent (at_AgentID a) (bumpGateway (at_GatewayID a) (unpublishGrantsWithoutLink (lk_AttachmentID l) ?s1))"
    using assms(2) a by (auto simp: deleteLink_tx_def l Let_def lid split: if_splits)
  let ?T = "(topo s)\<lparr>t_links := (t_links (topo s))(i := None)\<rparr>"
  have view: "topo ?s1 = ?T" by (simp add: topo_def fun_eq_iff)
  have "t_ok (\<lambda>q. False \<or> tq_route q = lk_AttachmentID l \<and> \<not> t_link_on (topo ?s1) (lk_AttachmentID l)) (topo ?s1)"
    using t_ok_del_link [OF soundD(6) [OF s], of i "link_core l"] l unfolding view by (simp add: link_core_def)
  then have "sound (\<lambda>q. False \<or> tq_route q = lk_AttachmentID l \<and> \<not> t_link_on (topo ?s1) (lk_AttachmentID l)) ?s1"
    by (rule soundI [OF s, rotated 2]) (use soundD(1) [OF s] in \<open>simp_all add: maps_ok_def\<close>)
  then have "sound nobody (unpublishGrantsWithoutLink (lk_AttachmentID l) ?s1)"
    by (rule sound_unpublishGrantsWithoutLink)
  then show ?thesis unfolding s' topo_ok_sound using a(3,4) by (intro sound_bump) simp_all
qed

text \<open>
  \<open>editLink\<close> with a new REALITY target bumps the agent of every route of the gateway, external
  routes included, which have none. Without external routes on the link's gateway it keeps the
  invariants.
\<close>

definition no_external_routes :: "State \<Rightarrow> string \<Rightarrow> bool" where
  "no_external_routes s gatewayID =
     list_all (\<lambda>a. at_GatewayID a = gatewayID \<longrightarrow> at_UpstreamID a = []) (mvals (st_Attachments s))"

lemma retarget_reality_ok:
  assumes "retarget_reality env target url a s = Inr s'" "sound P s" "mget (st_Gateways s) (at_GatewayID a) = Some g"
    and "no_external_routes s (at_GatewayID a)"
  shows "sound P s'" and "st_Links s' = st_Links s" and "mget (st_Gateways s') k \<noteq> None \<longleftrightarrow> mget (st_Gateways s) k \<noteq> None"
    and "mget (st_Agents s) k \<noteq> None \<Longrightarrow> mget (st_Agents s') k \<noteq> None"
proof -
  have gid: "gw_ID g = at_GatewayID a" using sound_keyed(2) [OF assms(2,3)] by simp
  let ?put = "\<lambda>g'. s\<lparr>st_Gateways := mput (at_GatewayID a) g' (st_Gateways s)\<rparr>"
  let ?as = "filter (\<lambda>route. at_GatewayID route = at_GatewayID a) (mvals (st_Attachments s))"
  have s': "s' \<in> {s} \<union> (\<lambda>g'. fold (\<lambda>route. bumpAgent (at_AgentID route)) ?as (?put g')) ` {g'. gateway_core g' = gateway_core g}"
    using assms(1,3) gid
    by (auto simp: retarget_reality_def Let_def zget_def gateway_core_def split: if_splits sum.splits option.splits)
  have wf: "mwf (st_Attachments s)" using soundD(1) [OF assms(2)] by (simp add: maps_ok_def)
  have agents: "mget (st_Agents s) (at_AgentID b) \<noteq> None" if "b \<in> set ?as" for b
    using that assms(4) mvals_mget [OF wf, of b] sound_refs(3) [OF assms(2)]
    by (auto simp: no_external_routes_def list_all_iff)
  have fold: "sound P (fold (\<lambda>route. bumpAgent (at_AgentID route)) ?as (?put g')) \<and>
      st_Gateways (fold (\<lambda>route. bumpAgent (at_AgentID route)) ?as (?put g')) = st_Gateways (?put g') \<and>
      st_Links (fold (\<lambda>route. bumpAgent (at_AgentID route)) ?as (?put g')) = st_Links s"
    if "gateway_core g' = gateway_core g" for g'
    using sound_fold_bumpAgent [of P "?put g'" ?as at_AgentID] sound_put_gateway_same [OF assms(2,3) that] agents by simp
  have keep: "mget (st_Agents s1) k \<noteq> None \<Longrightarrow> mget (st_Agents (fold (\<lambda>route. bumpAgent (at_AgentID route)) as s1)) k \<noteq> None" for as s1
    by (induction as arbitrary: s1) auto
  show "sound P s'" "st_Links s' = st_Links s" "mget (st_Gateways s') k \<noteq> None \<longleftrightarrow> mget (st_Gateways s) k \<noteq> None"
    using s' fold assms(2,3) by (auto split: if_splits)
  show "mget (st_Agents s') k \<noteq> None" if "mget (st_Agents s) k \<noteq> None"
    using s' keep [of "?put _"] that by auto
qed

lemma finish_link_edit_ok:
  assumes "sound P s" "mget (st_Links s) i = Some l" "lk_ID l = i"
    and "mget (st_Gateways s) (at_GatewayID a) \<noteq> None" "mget (st_Agents s) (at_AgentID a) \<noteq> None"
  shows "sound P (finish_link_edit r name url l a s)"
  using sound_put_link_same [OF assms(1,2)] assms(3-5)
  by (auto simp: finish_link_edit_def Let_def link_core_def intro!: sound_bump)

lemma editLink_ok [tx_ok]:
  assumes "topo_ok s" "editLink_tx env r name url s = Inr (x, s')"
    and ext: "\<And>l. mget (st_Links s) (rq_id r) = Some l \<Longrightarrow>
      no_external_routes s (at_GatewayID (attachment_at s (lk_AttachmentID l)))"
  shows "topo_ok s'"
proof -
  have s: "sound nobody s" using assms(1) by (simp add: topo_ok_sound)
  obtain l where l: "mget (st_Links s) (rq_id r) = Some l" using assms(2) by (auto simp: editLink_tx_def split: option.splits)
  have lid: "lk_ID l = rq_id r" using sound_keyed(6) [OF s l] .
  obtain a where a: "attachment_at s (lk_AttachmentID l) = a" "mget (st_Gateways s) (at_GatewayID a) \<noteq> None"
    "mget (st_Agents s) (at_AgentID a) \<noteq> None"
    using link_route [OF s l] by metis
  obtain s1 where s1: "s1 = s \<or> (\<exists>t. retarget_reality env t url a s = Inr s1)"
    and s': "s' = finish_link_edit r name url l a s1"
    using assms(2) a(1) unfolding editLink_tx_def l by (auto simp: Let_def split: if_splits sum.splits)
  have "sound nobody s1 \<and> mget (st_Links s1) (rq_id r) = Some l \<and> mget (st_Gateways s1) (at_GatewayID a) \<noteq> None \<and>
      mget (st_Agents s1) (at_AgentID a) \<noteq> None"
    using s1
  proof
    assume "\<exists>t. retarget_reality env t url a s = Inr s1"
    then obtain t where t: "retarget_reality env t url a s = Inr s1" ..
    obtain g where g: "mget (st_Gateways s) (at_GatewayID a) = Some g" using a(2) by auto
    have "no_external_routes s (at_GatewayID a)" using ext [OF l] a(1) by simp
    note ok = retarget_reality_ok [OF t s g this]
    show ?thesis using ok(1,2) ok(3) [of "at_GatewayID a"] ok(4) [of "at_AgentID a"] a l by simp
  qed (use s l a in simp)
  then show ?thesis
    unfolding s' topo_ok_sound using lid by (auto intro!: finish_link_edit_ok [where i = "rq_id r"])
qed

subsection \<open>Grants\<close>

text \<open>A new grant, the HY2 secrets of its gateway, and the gateway stored back.\<close>

lemma issue_grant_ok:
  assumes s: "sound P s" and u: "mget (st_Users s) (gr_UserID q) \<noteq> None"
    and a: "mget (st_Attachments s) (gr_AttachmentID q) = Some a" and "\<not> gr_Published q" "gr_ID q = i"
    and c: "configureHY2 env k (gateway_at s (at_GatewayID a)) port (s\<lparr>st_Grants := mput i q (st_Grants s)\<rparr>) = Inr (g, s2)"
  shows "sound P (s2\<lparr>st_Gateways := mput (gw_ID g) g (st_Gateways s2)\<rparr>)" and "gw_ID g = at_GatewayID a"
    and "mget (st_Attachments s2) (gr_AttachmentID q) = Some a"
    and "st_Users s2 = st_Users s" and "st_Attachments s2 = st_Attachments s"
proof -
  have s1: "sound P (s\<lparr>st_Grants := mput i q (st_Grants s)\<rparr>)" by (rule sound_put_grant [OF s]) (use assms in auto)
  note h = configureHY2_ok [OF c s1]
  obtain g0 where g0: "mget (st_Gateways s) (at_GatewayID a) = Some g0" using sound_refs(2) [OF s a] by auto
  then show gid: "gw_ID g = at_GatewayID a" using h(3) sound_keyed(2) [OF s g0] by (simp add: zget_Some)
  show "sound P (s2\<lparr>st_Gateways := mput (gw_ID g) g (st_Gateways s2)\<rparr>)"
    using sound_put_gateway_same [OF h(1), of "at_GatewayID a" g0 g] h(2,4) g0 gid by (simp add: zget_Some)
  show "mget (st_Attachments s2) (gr_AttachmentID q) = Some a" "st_Users s2 = st_Users s" "st_Attachments s2 = st_Attachments s"
    using h(5,7) a by simp_all
qed

lemma createGrant_ok [tx_ok]:
  assumes "topo_ok s" "createGrant_tx env q s = Inr (r, s')" and "\<not> gr_Published q"
  shows "topo_ok s'"
proof -
  have s: "sound nobody s" using assms(1) by (simp add: topo_ok_sound)
  obtain a where u: "mget (st_Users s) (gr_UserID q) \<noteq> None" and a: "mget (st_Attachments s) (gr_AttachmentID q) = Some a"
    using assms(2) by (auto simp: createGrant_tx_def split: if_splits)
  obtain g s2 where c: "configureHY2 env 3 (gateway_at s (at_GatewayID a)) (gw_HY2Port (gateway_at s (at_GatewayID a)))
      (s\<lparr>st_Grants := mput (gr_ID q) q (st_Grants s)\<rparr>) = Inr (g, s2)"
    and s': "s' = bumpGatewayForAttachment (gr_AttachmentID q) (s2\<lparr>st_Gateways := mput (gw_ID g) g (st_Gateways s2)\<rparr>)"
    using assms(2) a by (auto simp: createGrant_tx_def Let_def zget_Some split: if_splits sum.splits)
  show ?thesis
    unfolding s' topo_ok_sound by (rule sound_bump_for [OF issue_grant_ok(1) [OF s u a assms(3) refl c]])
qed

lemma toggleGrant_ok [tx_ok]:
  assumes "topo_ok s" "toggleGrant_tx i s = Inr (r, s')"
  shows "topo_ok s'"
proof -
  have s: "sound nobody s" using assms(1) by (simp add: topo_ok_sound)
  obtain q where q: "mget (st_Grants s) i = Some q" using assms(2) by (auto simp: toggleGrant_tx_def split: option.splits)
  have "sound nobody (s\<lparr>st_Grants := mput i (q\<lparr>gr_Enabled := \<not> gr_Enabled q, gr_Published := False\<rparr>) (st_Grants s)\<rparr>)"
    by (rule sound_put_grant [OF s]) (use sound_keyed(7) [OF s q] sound_refs(6) [OF s q] in simp_all)
  then show ?thesis
    using assms(2) q sound_keyed(7) [OF s q] by (auto simp: toggleGrant_tx_def Let_def topo_ok_sound intro!: sound_bump_for)
qed

lemma sound_removeGrant: "sound P s \<Longrightarrow> sound P (removeGrant now i s)"
proof -
  assume s: "sound P s"
  have "topo (removeGrant now i s) = (topo s)\<lparr>t_grants := (t_grants (topo s))(i := None)\<rparr>"
    by (simp add: topo_def fun_eq_iff)
  then have "t_ok P (topo (removeGrant now i s))" using t_ok_del_grant [OF soundD(6) [OF s]] by simp
  then show ?thesis by (rule soundI [OF s, rotated 2]) (use soundD(1) [OF s] in \<open>simp_all add: maps_ok_def\<close>)
qed

lemma deleteGrant_ok [tx_ok]: "topo_ok s \<Longrightarrow> deleteGrant_tx env i c s = Inr (r, s') \<Longrightarrow> topo_ok s'"
  by (auto simp: deleteGrant_tx_def topo_ok_sound split: option.splits if_splits intro!: sound_bump_for sound_removeGrant)

text \<open>Opening a route for a user reuses a grant or issues one; it never publishes.\<close>

lemma open_route_ok:
  assumes "open_route env u k i counts s = Inr (counts', s')" "sound P s" "mget (st_Users s) u \<noteq> None"
  shows "sound P s' \<and> mget (st_Users s') u \<noteq> None"
proof -
  obtain a where a: "mget (st_Attachments s) i = Some a"
    using assms(1) by (auto simp: open_route_def split: option.splits)
  have gw: "mget (st_Gateways s) (at_GatewayID a) \<noteq> None" using sound_refs(2) [OF assms(2) a] .
  show ?thesis
  proof (cases "filter (\<lambda>(_, g). gr_UserID g = u \<and> gr_AttachmentID g = i) (st_Grants s)")
    case Nil
    then obtain j uuid password g s2 where c: "configureHY2 env (k + 3) (gateway_at s (at_GatewayID a))
        (gw_HY2Port (gateway_at s (at_GatewayID a))) (s\<lparr>st_Grants := mput j (new_grant env j u i uuid password) (st_Grants s)\<rparr>) = Inr (g, s2)"
      and s': "s' = bumpGateway (at_GatewayID a) (s2\<lparr>st_Gateways := mput (gw_ID g) g (st_Gateways s2)\<rparr>)"
      using assms(1) a by (auto simp: open_route_def Let_def split: if_splits sum.splits)
    note issue = issue_grant_ok [OF assms(2) _ _ _ _ c, simplified new_grant_def zero_Grant_def]
    have "sound P (s2\<lparr>st_Gateways := mput (gw_ID g) g (st_Gateways s2)\<rparr>)" "gw_ID g = at_GatewayID a" "st_Users s2 = st_Users s"
      using issue(1,2,4) assms(3) a by (simp_all add: new_grant_def zero_Grant_def)
    then show ?thesis unfolding s' using assms(3) by (auto intro!: sound_bump)
  next
    case (Cons p ps)
    obtain j q where p: "p = (j, q)" by fastforce
    have "(j, q) \<in> set (st_Grants s)" "gr_UserID q = u" "gr_AttachmentID q = i"
      using Cons p by (auto simp: filter_eq_Cons_iff)
    moreover have "mwf (st_Grants s)" using soundD(1) [OF assms(2)] by (simp add: maps_ok_def)
    ultimately have q: "mget (st_Grants s) j = Some q" using mget_in_iff by metis
    have "sound P (s\<lparr>st_Grants := mput j (q\<lparr>gr_Enabled := True, gr_Published := False\<rparr>) (st_Grants s)\<rparr>)"
      by (rule sound_put_grant [OF assms(2)]) (use sound_keyed(7) [OF assms(2) q] sound_refs(6) [OF assms(2) q] in simp_all)
    then show ?thesis
      using assms a gw Cons p by (auto simp: open_route_def split: if_splits intro!: sound_bump)
  qed
qed

lemma open_routes_ok:
  "open_routes env u k is counts s = Inr (counts', s') \<Longrightarrow> sound P s \<Longrightarrow> mget (st_Users s) u \<noteq> None \<Longrightarrow> sound P s'"
proof (induction env u k "is" counts s rule: open_routes.induct)
  case (2 env u k a as counts s)
  then obtain c1 s1 where o: "open_route env u k a counts s = Inr (c1, s1)" by (auto split: sum.splits)
  from open_route_ok [OF o 2(3,4)] show ?case using 2(1) [OF o refl] 2(2) o by simp
qed simp

lemma openSubscription_ok [tx_ok]: "topo_ok s \<Longrightarrow> openSubscription_tx env u sel s = Inr (r, s') \<Longrightarrow> topo_ok s'"
  by (auto simp: openSubscription_tx_def topo_ok_sound split: option.splits if_splits elim!: open_routes_ok)

subsection \<open>Connecting agents and gateways\<close>

text \<open>
  The tables of \<open>enableConnections\<close> describe the state it started from; every later state of the
  loop still has their routes and links, between the same ends.
\<close>

definition tables_ok :: "((string \<times> string) \<times> Attachment) list \<Rightarrow> Link gomap \<Rightarrow> State \<Rightarrow> bool" where
  "tables_ok routes links s \<longleftrightarrow>
     (\<forall>p a. mget routes p = Some a \<longrightarrow> p = (at_AgentID a, at_GatewayID a) \<and> at_UpstreamID a = [] \<and>
        (\<exists>b. mget (st_Attachments s) (at_ID a) = Some b \<and> at_GatewayID b = at_GatewayID a \<and> at_AgentID b = at_AgentID a \<and>
             at_UpstreamID b = [])) \<and>
     (\<forall>i l. mget links i = Some l \<longrightarrow> lk_AttachmentID l = i \<and>
        (\<exists>l'. mget (st_Links s) (lk_ID l) = Some l' \<and> lk_AttachmentID l' = i))"

lemma tables_okD:
  assumes "tables_ok routes links s"
  shows "mget routes p = Some a \<Longrightarrow> p = (at_AgentID a, at_GatewayID a) \<and> at_UpstreamID a = [] \<and>
      (\<exists>b. mget (st_Attachments s) (at_ID a) = Some b \<and> at_GatewayID b = at_GatewayID a \<and> at_AgentID b = at_AgentID a \<and>
             at_UpstreamID b = [])"
    and "mget links i = Some l \<Longrightarrow> lk_AttachmentID l = i \<and> (\<exists>l'. mget (st_Links s) (lk_ID l) = Some l' \<and> lk_AttachmentID l' = i)"
  using assms unfolding tables_ok_def by blast+

lemma route_fold:
  "mget (fold (\<lambda>route routes. let pair = (at_AgentID route, at_GatewayID route) in
       if at_AgentID route \<noteq> [] \<and> at_UpstreamID route = [] \<and> at_ID (zget zero_Attachment routes pair) = []
       then mput pair route routes else routes) xs m) p = Some a \<Longrightarrow>
   mget m p = Some a \<or> a \<in> set xs \<and> p = (at_AgentID a, at_GatewayID a) \<and> at_UpstreamID a = []"
proof (induction xs arbitrary: m)
  case (Cons x xs)
  from Cons.IH [OF Cons.prems [unfolded fold_simps]] show ?case by (auto simp: Let_def split: if_splits)
qed simp

lemma link_fold:
  "mget (fold (\<lambda>link links. let previous = zget zero_Link links (lk_AttachmentID link) in
       if lk_ID previous = [] \<or> \<not> lk_Enabled previous \<and> lk_Enabled link
       then mput (lk_AttachmentID link) link links else links) xs m) i = Some l \<Longrightarrow>
   mget m i = Some l \<or> l \<in> set xs \<and> lk_AttachmentID l = i"
proof (induction xs arbitrary: m)
  case (Cons x xs)
  from Cons.IH [OF Cons.prems [unfolded fold_simps]] show ?case by (auto simp: Let_def split: if_splits)
qed simp

lemma tables_start:
  assumes "sound P s"
  shows "tables_ok (route_table s) (link_table s) s"
proof -
  have wf: "mwf (st_Attachments s)" "mwf (st_Links s)" using soundD(1) [OF assms] by (simp_all add: maps_ok_def)
  show ?thesis
    unfolding tables_ok_def
  proof (intro conjI allI impI)
    fix p a
    assume "mget (route_table s) p = Some a"
    then have a: "a \<in> set (mvals (st_Attachments s))" "p = (at_AgentID a, at_GatewayID a)" "at_UpstreamID a = []"
      using route_fold [of "sortedAttachments s" "[]" p a] by (simp_all add: route_table_def sortedAttachments_def)
    obtain k where "mget (st_Attachments s) k = Some a" using mvals_mget [OF wf(1) a(1)] by blast
    then show "p = (at_AgentID a, at_GatewayID a)" "at_UpstreamID a = []"
      "\<exists>b. mget (st_Attachments s) (at_ID a) = Some b \<and> at_GatewayID b = at_GatewayID a \<and> at_AgentID b = at_AgentID a \<and> at_UpstreamID b = []"
      using a sound_keyed(5) [OF assms, of k a] by auto
  next
    fix i l
    assume "mget (link_table s) i = Some l"
    then have l: "l \<in> set (mvals (st_Links s))" "lk_AttachmentID l = i"
      using link_fold [of "sortedLinks s" "[]" i l] by (simp_all add: link_table_def sortedLinks_def)
    obtain k where "mget (st_Links s) k = Some l" using mvals_mget [OF wf(2) l(1)] by blast
    then show "lk_AttachmentID l = i" "\<exists>l'. mget (st_Links s) (lk_ID l) = Some l' \<and> lk_AttachmentID l' = i"
      using l sound_keyed(6) [OF assms, of k l] by auto
  qed
qed

text \<open>Identifiers drawn from index \<open>k\<close> on are not in use.\<close>

definition unused_from :: "Env \<Rightarrow> nat \<Rightarrow> State \<Rightarrow> bool" where
  "unused_from env k s \<longleftrightarrow>
     (\<forall>j i. k \<le> j \<longrightarrow> e_rand env j = Inr i \<longrightarrow> mget (st_Gateways s) (''gw_'' @ i) = None \<and>
        mget (st_Attachments s) (''node_'' @ i) = None \<and> mget (st_Links s) (''lnk_'' @ i) = None)"

definition fresh_ids :: "Env \<Rightarrow> State \<Rightarrow> bool" where
  "fresh_ids env s \<longleftrightarrow> unused_from env 0 s \<and> (\<forall>j k i. e_rand env j = Inr i \<longrightarrow> e_rand env k = Inr i \<longrightarrow> j = k)"

lemma newID_nonempty: "newID env k p = Inr i \<Longrightarrow> i \<noteq> []"
  by (auto simp: newID_def split: sum.splits)

lemma unused_fromD:
  assumes "unused_from env k s" "k \<le> j"
  shows "newID env j ''gw'' = Inr i \<Longrightarrow> mget (st_Gateways s) i = None"
    and "newID env j ''node'' = Inr i \<Longrightarrow> mget (st_Attachments s) i = None"
    and "newID env j ''lnk'' = Inr i \<Longrightarrow> mget (st_Links s) i = None"
  using assms unfolding unused_from_def by (auto simp: newID_def split: sum.splits)

lemma open_connection_ok:
  assumes o: "open_connection env target k ag gw a el counts s = Inr (c', s')" and s: "sound P s"
    and ag: "mget (st_Agents s) (ag_ID ag) \<noteq> None" and gw: "mget (st_Gateways s) (gw_ID gw) \<noteq> None"
    and a: "at_ID a \<noteq> []" "at_GatewayID a = gw_ID gw" "at_AgentID a = ag_ID ag" "at_UpstreamID a = []"
    and same: "\<And>b. mget (st_Attachments s) (at_ID a) = Some b \<Longrightarrow>
      at_GatewayID b = at_GatewayID a \<and> at_AgentID b = at_AgentID a \<and> at_UpstreamID b = []"
    and el: "lk_ID el \<noteq> [] \<Longrightarrow> lk_AttachmentID el = at_ID a \<and>
      (\<exists>l'. mget (st_Links s) (lk_ID el) = Some l' \<and> lk_AttachmentID l' = at_ID a)"
    and fresh: "\<And>i. newID env (k + 1) ''lnk'' = Inr i \<Longrightarrow> mget (st_Links s) i = None"
  shows "sound P s'" and "st_Attachments s' = mput (at_ID a) (a\<lparr>at_Enabled := True\<rparr>) (st_Attachments s)"
    and "\<exists>i l. st_Links s' = mput i l (st_Links s) \<and> lk_AttachmentID l = at_ID a \<and>
      (case mget (st_Links s) i of None \<Rightarrow> newID env (k + 1) ''lnk'' = Inr i | Some l0 \<Rightarrow> lk_AttachmentID l0 = at_ID a)"
    and "mget (st_Gateways s') j \<noteq> None \<longleftrightarrow> mget (st_Gateways s) j \<noteq> None"
proof -
  let ?a = "a\<lparr>at_Enabled := True\<rparr>"
  let ?s1 = "s\<lparr>st_Attachments := mput (at_ID a) ?a (st_Attachments s)\<rparr>"
  have s1: "sound P ?s1"
    by (rule sound_mono [OF sound_put_route [OF s]]) (use a ag gw same in auto)
  obtain s2 i l where s2: "sound P s2" "st_Attachments s2 = st_Attachments ?s1" "st_Links s2 = st_Links s" "st_Agents s2 = st_Agents s"
      "\<And>j. mget (st_Gateways s2) j \<noteq> None \<longleftrightarrow> mget (st_Gateways s) j \<noteq> None"
    and l: "lk_ID l = i" "lk_AttachmentID l = at_ID a" "lk_Enabled l"
      "mget (st_Links s) i = None \<and> newID env (k + 1) ''lnk'' = Inr i \<or>
       (\<exists>l'. mget (st_Links s) i = Some l' \<and> lk_AttachmentID l' = at_ID a)"
    and s': "s' = bumpAgent (ag_ID ag) (bumpGateway (gw_ID gw) (s2\<lparr>st_Links := mput i l (st_Links s2)\<rparr>))"
  proof (cases "lk_ID el = []")
    case False
    then show ?thesis
      using o s1 el by (intro that [of ?s1 "el\<lparr>lk_Enabled := True\<rparr>" "lk_ID el"]) (auto simp: open_connection_def)
  next
    case True
    let ?done = "\<lambda>s2 i l. bumpAgent (ag_ID ag) (bumpGateway (gw_ID gw) (s2\<lparr>st_Links := mput i l (st_Links s2)\<rparr>))"
    from True obtain i x y s2 t u where i: "newID env (k + 1) ''lnk'' = Inr i"
      and p: "provisionReality env (k + 2) (gw_ID gw) t u ?s1 = Inr ((x, y), s2)"
      and s': "?done s2 i (new_connection_link env ag gw (at_ID a) i x y) = s'"
      using o by (auto simp: open_connection_def Let_def split: sum.splits)
    define l where "l = new_connection_link env ag gw (at_ID a) i x y"
    have l: "lk_ID l = i" "lk_AttachmentID l = at_ID a" "lk_Enabled l" by (simp_all add: l_def new_connection_link_def)
    from provisionReality_ok [OF p s1] obtain gs where gs: "sound P s2" "s2 = ?s1\<lparr>st_Gateways := gs\<rparr>"
      "map_option gateway_core \<circ> mget gs = map_option gateway_core \<circ> mget (st_Gateways s)" by auto
    have "mget gs j \<noteq> None \<longleftrightarrow> mget (st_Gateways s) j \<noteq> None" for j
      using fun_cong [OF gs(3), of j] by (cases "mget gs j"; cases "mget (st_Gateways s) j") auto
    then show ?thesis using that [of s2 l i] gs(1,2) l s' [folded l_def] i fresh by auto
  qed
  have "sound P (s2\<lparr>st_Links := mput i l (st_Links s2)\<rparr>)"
    by (rule sound_put_link_on [OF s2(1), where r = ?a]) (use l s2(2,3) a(4) in auto)
  then show "sound P s'" unfolding s' using ag gw s2(4,5) by (intro sound_bump) simp_all
  show "st_Attachments s' = mput (at_ID a) ?a (st_Attachments s)" using s' s2(2) by simp
  show "\<exists>i l. st_Links s' = mput i l (st_Links s) \<and> lk_AttachmentID l = at_ID a \<and>
      (case mget (st_Links s) i of None \<Rightarrow> newID env (k + 1) ''lnk'' = Inr i | Some l0 \<Rightarrow> lk_AttachmentID l0 = at_ID a)"
    using s' s2(3) l by (intro exI [of _ i] exI [of _ l]) auto
  show "mget (st_Gateways s') j \<noteq> None \<longleftrightarrow> mget (st_Gateways s) j \<noteq> None"
    using s' s2(5) gw by auto
qed

lemma tables_keep:
  assumes "tables_ok routes links s" and "st_Attachments s' = mput i b (st_Attachments s)"
    and "st_Links s' = mput j l (st_Links s)"
    and "\<And>a. mget (st_Attachments s) i = Some a \<Longrightarrow>
      at_GatewayID b = at_GatewayID a \<and> at_AgentID b = at_AgentID a \<and> at_UpstreamID b = at_UpstreamID a"
    and "\<And>l0. mget (st_Links s) j = Some l0 \<Longrightarrow> lk_AttachmentID l = lk_AttachmentID l0"
  shows "tables_ok routes links s'"
  unfolding tables_ok_def
proof (intro conjI allI impI)
  fix p a
  assume "mget routes p = Some a"
  note t = tables_okD(1) [OF assms(1) this]
  from t show "p = (at_AgentID a, at_GatewayID a)" "at_UpstreamID a = []" by simp_all
  from t obtain b0 where "mget (st_Attachments s) (at_ID a) = Some b0" "at_GatewayID b0 = at_GatewayID a"
    "at_AgentID b0 = at_AgentID a" "at_UpstreamID b0 = []" by blast
  then show "\<exists>b. mget (st_Attachments s') (at_ID a) = Some b \<and> at_GatewayID b = at_GatewayID a \<and>
      at_AgentID b = at_AgentID a \<and> at_UpstreamID b = []"
    using assms(2,4) by auto
next
  fix k m
  assume "mget links k = Some m"
  note t = tables_okD(2) [OF assms(1) this]
  from t show "lk_AttachmentID m = k" by simp
  from t obtain m0 where "mget (st_Links s) (lk_ID m) = Some m0" "lk_AttachmentID m0 = k" by blast
  then show "\<exists>l'. mget (st_Links s') (lk_ID m) = Some l' \<and> lk_AttachmentID l' = k"
    using assms(3,5) by auto
qed

lemma enable_connection_ok:
  assumes e: "enable_connection env routes links target k p counts s = Inr (c', s')" and s: "sound P s"
    and t: "tables_ok routes links s" and un: "unused_from env k s"
    and inj: "\<forall>j k i. e_rand env j = Inr i \<longrightarrow> e_rand env k = Inr i \<longrightarrow> j = k"
  shows "sound P s' \<and> tables_ok routes links s' \<and> unused_from env (k + 4) s'"
proof -
  obtain ag gw where ag: "mget (st_Agents s) (fst p) = Some ag" and gw: "mget (st_Gateways s) (snd p) = Some gw"
    using e by (auto simp: enable_connection_def split: option.splits if_splits)
  have ids: "ag_ID ag = fst p" "gw_ID gw = snd p" using sound_keyed(2) [OF s gw] sound_keyed(3) [OF s ag] by simp_all
  have skip: "unused_from env (k + 4) s" using un add_leD1 unfolding unused_from_def by blast
  have step: "sound P s' \<and> tables_ok routes links s' \<and> unused_from env (k + 4) s'"
    if o: "open_connection env target k ag gw a el counts s = Inr (c', s')"
      and a: "at_ID a \<noteq> []" "at_GatewayID a = gw_ID gw" "at_AgentID a = ag_ID ag" "at_UpstreamID a = []"
      and same: "\<And>b. mget (st_Attachments s) (at_ID a) = Some b \<Longrightarrow>
        at_GatewayID b = at_GatewayID a \<and> at_AgentID b = at_AgentID a \<and> at_UpstreamID b = []"
      and el: "lk_ID el \<noteq> [] \<Longrightarrow> lk_AttachmentID el = at_ID a \<and>
        (\<exists>l'. mget (st_Links s) (lk_ID el) = Some l' \<and> lk_AttachmentID l' = at_ID a)"
      and new: "mget (st_Attachments s) (at_ID a) = None \<Longrightarrow> newID env k ''node'' = Inr (at_ID a)"
    for a el
  proof -
    have ag': "mget (st_Agents s) (ag_ID ag) \<noteq> None" and gw': "mget (st_Gateways s) (gw_ID gw) \<noteq> None"
      using ag gw ids by simp_all
    have fresh: "mget (st_Links s) i = None" if "newID env (k + 1) ''lnk'' = Inr i" for i
      using unused_fromD(3) [OF un _ that] by simp
    note ok = open_connection_ok [OF o s ag' gw' a same el fresh]
    obtain i l where l: "st_Links s' = mput i l (st_Links s)" "lk_AttachmentID l = at_ID a"
      "case mget (st_Links s) i of None \<Rightarrow> newID env (k + 1) ''lnk'' = Inr i | Some l0 \<Rightarrow> lk_AttachmentID l0 = at_ID a"
      using ok(3) by auto
    have "tables_ok routes links s'"
    proof (rule tables_keep [OF t _ l(1)])
      show "st_Attachments s' = mput (at_ID a) (a\<lparr>at_Enabled := True\<rparr>) (st_Attachments s)" using ok(2) by simp
    qed (use same a l in \<open>auto split: option.splits\<close>)
    moreover have "unused_from env (k + 4) s'"
      unfolding unused_from_def
    proof (intro allI impI)
      fix j x
      assume j: "k + 4 \<le> j" "e_rand env j = Inr x"
      have old: "mget (st_Gateways s) (''gw_'' @ x) = None" "mget (st_Attachments s) (''node_'' @ x) = None"
        "mget (st_Links s) (''lnk_'' @ x) = None"
        using un add_leD1 [OF j(1)] j(2) unfolding unused_from_def by blast+
      have other: "newID env m pre \<noteq> Inr (pre @ ''_'' @ x)" if "m < k + 4" for m pre
        using inj [rule_format, of j x m] j that by (auto simp: newID_def split: sum.splits)
      have "''node_'' @ x \<noteq> at_ID a" using old(2) new other [of k "''node''"] by auto
      moreover have "''lnk_'' @ x \<noteq> i" using old(3) l(3) other [of "k + 1" "''lnk''"] by auto
      ultimately show "mget (st_Gateways s') (''gw_'' @ x) = None \<and> mget (st_Attachments s') (''node_'' @ x) = None \<and>
          mget (st_Links s') (''lnk_'' @ x) = None"
        using old ok(4) [of "''gw_'' @ x"] ok(2) l(1) by auto
    qed
    ultimately show ?thesis using ok(1) by simp
  qed
  let ?a0 = "zget zero_Attachment routes p"
  show ?thesis
  proof (cases "at_ID ?a0 = []")
    case False
    then have a0: "mget routes p = Some ?a0" by (auto simp: zget_def zero_Attachment_def split: option.splits)
    note r = tables_okD(1) [OF t a0]
    let ?el = "zget zero_Link links (at_ID ?a0)"
    have el: "lk_AttachmentID ?el = at_ID ?a0 \<and> (\<exists>l'. mget (st_Links s) (lk_ID ?el) = Some l' \<and> lk_AttachmentID l' = at_ID ?a0)"
      if "lk_ID ?el \<noteq> []"
      using that tables_okD(2) [OF t, of "at_ID ?a0" ?el] by (auto simp: zget_def zero_Link_def split: option.splits)
    show ?thesis
    proof (cases "at_Enabled ?a0 \<and> lk_ID ?el \<noteq> [] \<and> lk_Enabled ?el")
      case True
      then have "s' = s" using e False by (auto simp: enable_connection_def ag gw Let_def split: if_splits)
      then show ?thesis using s t skip by simp
    next
      case closed': False
      have "open_connection env target k ag gw ?a0 ?el counts s = Inr (c', s')"
        using e False closed' by (auto simp: enable_connection_def ag gw Let_def split: if_splits)
      then show ?thesis
        by (rule step) (use r False ids el in \<open>auto simp: prod_eq_iff\<close>)
    qed
  next
    case True
    then obtain i where i: "newID env k ''node'' = Inr i"
      and o: "open_connection env target k ag gw (zero_Attachment\<lparr>at_ID := i, at_AgentID := ag_ID ag, at_GatewayID := gw_ID gw,
        at_CreatedAt := e_now env\<rparr>) zero_Link counts s = Inr (c', s')"
      using e by (auto simp: enable_connection_def ag gw Let_def split: if_splits sum.splits)
    show ?thesis
      by (rule step [OF o]) (use newID_nonempty [OF i] unused_fromD(2) [OF un _ i] i in \<open>auto simp: zero_Attachment_def zero_Link_def\<close>)
  qed
qed

lemma enable_pairs_ok:
  assumes inj: "\<forall>j k i. e_rand env j = Inr i \<longrightarrow> e_rand env k = Inr i \<longrightarrow> j = k"
  shows "enable_pairs env routes links target k ps counts s = Inr (c', s') \<Longrightarrow> sound P s \<Longrightarrow> tables_ok routes links s \<Longrightarrow>
    unused_from env k s \<Longrightarrow> sound P s'"
proof (induction ps arbitrary: k counts s)
  case (Cons p ps)
  then obtain c1 s1 where e: "enable_connection env routes links target k p counts s = Inr (c1, s1)"
    by (auto split: sum.splits)
  from enable_connection_ok [OF e Cons.prems(2-4) inj] show ?case using Cons e by simp
qed simp

lemma enableConnections_ok [tx_ok]:
  assumes "topo_ok s" "enableConnections env pairs target s = Inr (c, s')" "fresh_ids env s"
  shows "topo_ok s'"
  using assms enable_pairs_ok [of env "route_table s" "link_table s" target 0 _ _ s c s' nobody] tables_start [of nobody s]
  by (simp add: enableConnections_def topo_ok_sound fresh_ids_def)

end
