(* ===== verification/Setup_Invariant.thy ===== *)
theory Setup_Invariant
  imports Gateway_Setup Admin_Invariant
begin

text \<open>
  The address reports and the quick setup keep the integrity of the control plane, and an address
  is believed only on the word of two sources, or of a chain of trusted proxies.
\<close>

lemma record_address_core:
  "record_address env r ip sources ipv6 ipv6Sources g = (g', primary) \<Longrightarrow> gateway_core g' = gateway_core g"
  by (auto simp: record_address_def gateway_core_def Let_def split: if_splits)

lemma gatewayAddress_ok:
  assumes ok: "topo_ok s" and tx: "gatewayAddress_tx env r nodeID report ip sources ipv6 ipv6Sources s = Inr (x, s')"
  shows "topo_ok s'"
proof -
  have s: "sound nobody s" using ok by (simp add: topo_ok_sound)
  obtain g where g: "mget (st_Gateways s) nodeID = Some g"
    using tx by (auto simp: gatewayAddress_tx_def split: option.splits)
  obtain g1 primary where g1: "record_address env r ip sources ipv6 ipv6Sources g = (g1, primary)" by fastforce
  obtain g2 s1 where h: "(if gw_PublicHostAuto g1 \<and> gw_PublicHost g1 \<noteq> primary then changeGatewayHost env g1 primary s else (g1, s)) = (g2, s1)"
    by fastforce
  have s1: "sound nobody s1" "gateway_core g2 = gateway_core g" "st_Gateways s1 = st_Gateways s"
    using h changeGatewayHost_ok [OF _ s, of env g1 primary g2 s1] record_address_core [OF g1] s by (auto split: if_splits)
  consider (same) "s' = s1\<lparr>st_Gateways := mput nodeID g2 (st_Gateways s1)\<rparr>"
    | (moved) g3 s2 where "configureHY2 env 0 g2 (gw_HY2Port g2) s1 = Inr (g3, s2)"
        "s' = (unpublishGatewayGrants nodeID s2)\<lparr>st_Gateways := mput nodeID (g3\<lparr>gw_DesiredVersion := gw_DesiredVersion g3 + 1\<rparr>)
          (st_Gateways (unpublishGatewayGrants nodeID s2))\<rparr>"
    using tx unfolding gatewayAddress_tx_def
    by (auto simp: g g1 h Let_def split: if_splits sum.splits prod.splits)
  then have "sound nobody s'"
  proof cases
    case same
    then show ?thesis using sound_put_gateway_same [OF s1(1), of nodeID g g2] g s1(2,3) by simp
  next
    case moved
    note c = configureHY2_ok [OF moved(1) s1(1)]
    have "sound nobody (unpublishGatewayGrants nodeID s2)" by (rule unpublishGatewayGrants_ok [OF c(1)])
    moreover have "mget (st_Gateways (unpublishGatewayGrants nodeID s2)) nodeID = Some g"
      using c(4) s1(3) g by (simp add: unpublishGatewayGrants_def)
    moreover have "gateway_core (g3\<lparr>gw_DesiredVersion := gw_DesiredVersion g3 + 1\<rparr>) = gateway_core g"
      using c(2) s1(2) by (simp add: gateway_core_def)
    ultimately show ?thesis unfolding moved(2) by (rule sound_put_gateway_same)
  qed
  then show ?thesis by (simp add: topo_ok_sound)
qed

lemma quickSetup_ok:
  assumes ok: "topo_ok s" and tx: "quickSetup_tx env r q s = Inr (x, s')"
    and fresh: "mget (st_Gateways s) (qs_gwID q) = None" "mget (st_Agents s) (qs_agtID q) = None"
      "mget (st_Attachments s) (qs_attachmentID q) = None" "mget (st_Links s) (qs_linkID q) = None"
    and ids: "gateway_key (qs_gwID q)" "agent_key (qs_agtID q)" "qs_attachmentID q \<noteq> []"
  shows "topo_ok s'"
proof -
  let ?gw = "new_gateway env r (qs_gwID q) (qs_gwName q) (qs_publicHost q) (qs_address q) (qs_region q) (qs_vmessPort q) (qs_vmessPath q)"
  let ?s1 = "s\<lparr>st_Gateways := mput (qs_gwID q) ?gw (st_Gateways s)\<rparr>"
  have s: "sound nobody s" using ok by (simp add: topo_ok_sound)
  have s1: "sound nobody ?s1"
    by (rule sound_mono [OF sound_put_gateway [OF s _ ids(1)]])
      (use fresh(1) in \<open>auto simp: new_gateway_def t_gateway_le_def t_host_le_def\<close>)
  obtain g s2 where c: "configureHY2 env 4 (applyIngressSwitches r ?gw) (qs_hy2Port q) ?s1 = Inr (g, s2)"
    using tx by (auto simp: quickSetup_tx_def Let_def split: sum.splits)
  note c' = configureHY2_ok [OF c s1]
  define s3 where "s3 = s2\<lparr>st_Gateways := mput (qs_gwID q) g (st_Gateways s2)\<rparr>"
  define s4 where "s4 = s3\<lparr>st_Agents := mput (qs_agtID q) (quick_agent env q) (st_Agents s3)\<rparr>"
  define s5 where "s5 = s4\<lparr>st_Attachments := mput (qs_attachmentID q) (quick_route env q) (st_Attachments s4)\<rparr>"
  have s3: "sound nobody s3"
    unfolding s3_def by (rule sound_put_gateway_same [OF c'(1), of _ ?gw]) (use c'(2,4) in simp_all)
  have s4: "sound nobody s4"
    unfolding s4_def
    by (rule sound_mono [OF sound_put_agent [OF s3]])
      (use ids(2) fresh(2) c'(6) in \<open>auto simp: quick_agent_def zero_Agent_def t_agent_le_def s3_def\<close>)
  have s5: "sound nobody s5"
    unfolding s5_def
    by (rule sound_mono [OF sound_put_route [OF s4]])
      (use ids(3) fresh(3) c'(5) in \<open>auto simp: quick_route_def zero_Attachment_def s4_def s3_def\<close>)
  have finish: "sound nobody (finish_quick_link q l s6)"
    if "sound nobody s6" "st_Attachments s6 = st_Attachments s5" "st_Links s6 = st_Links s"
      and "lk_ID l = qs_linkID q" "lk_AttachmentID l = qs_attachmentID q" "lk_Enabled l" for l s6
    unfolding finish_quick_link_def Let_def
    by (rule sound_put_link_on [OF that(1), where r = "quick_route env q"])
      (use that fresh(4) in \<open>auto simp: s5_def quick_route_def zero_Attachment_def\<close>)
  have links: "st_Links s5 = st_Links s"
    using c'(8) by (simp add: s5_def s4_def s3_def)
  have "sound nobody s'"
  proof (cases "has_prefix (qs_linkURL q) ''reality://''")
    case True
    then obtain u v s6 where p: "provisionReality env 4 (qs_gwID q) (TrimSpace (FormValue r ''reality_target'')) (qs_linkURL q) s5 = Inr ((u, v), s6)"
      and s': "s' = finish_quick_link q ((quick_link env r q)\<lparr>lk_RealityUUID := u, lk_RealityShortID := v\<rparr>) s6"
      using tx c by (auto simp: quickSetup_tx_def Let_def s3_def s4_def s5_def split: sum.splits)
    have "sound nobody s6 \<and> st_Attachments s6 = st_Attachments s5 \<and> st_Links s6 = st_Links s5"
      using provisionReality_ok [OF p s5] by auto
    then show ?thesis unfolding s' by (intro finish) (simp_all add: links quick_link_def)
  next
    case False
    then have "s' = finish_quick_link q (quick_link env r q) s5"
      using tx c by (simp add: quickSetup_tx_def Let_def s3_def s4_def s5_def)
    then show ?thesis using s5 links by (simp add: finish quick_link_def)
  qed
  then show ?thesis by (simp add: topo_ok_sound)
qed

text \<open>An address is believed only when two independent sources confirm it. \<open>confirmedPublicIP\<close> accepts
  exactly the addresses that parse, have no zone and are public, with at least two different names of
  known sources and no unknown one; repeating a source does not help.\<close>

theorem confirmedPublicIP_iff:
  "(\<exists>out. confirmedPublicIP env v sources = Inr out) \<longleftrightarrow>
     set sources \<subseteq> {''ip.sb'', ''ipify'', ''ifconfig.co''} \<and> 2 \<le> card (set sources) \<and>
     (\<exists>ip. e_ParseAddr env v = Some ip \<and> addr_zone ip = [] \<and> addr_public ip)"
proof (cases "e_ParseAddr env v")
  case (Some ip)
  have known: "list_all (\<lambda>source. source \<in> fst ` set PublicIPSources) sources \<longleftrightarrow> set sources \<subseteq> {''ip.sb'', ''ipify'', ''ifconfig.co''}"
    by (simp add: PublicIPSources_def list_all_iff subset_eq)
  show ?thesis
    unfolding confirmedPublicIP_def known ParsePublicIP_def Some length_remdups_card_conv
    by (cases "set sources \<subseteq> {''ip.sb'', ''ipify'', ''ifconfig.co''}"; cases "addr_zone ip = [] \<and> addr_public ip")
      (simp_all only: if_True if_False option.case prod.case simp_thms bool.case, auto)
qed (auto simp: confirmedPublicIP_def ParsePublicIP_def)

lemma split_on_append_any: "split_on c (p @ c # q) = split_on c p @ split_on c q"
proof (induction p)
  case (Cons d p)
  obtain x xs where "split_on c p = x # xs" using split_on_nonempty [of c p] by (cases "split_on c p") auto
  with Cons show ?case by simp
qed simp

lemma walk_stops: "walk_hops env peer hops = Some ip \<Longrightarrow> \<not> trusted_proxy env ip \<Longrightarrow> walk_hops env peer (hops @ rest) = Some ip"
proof (induction env peer hops rule: walk_hops.induct)
  case (1 env peer)
  then show ?case by (cases rest) simp_all
next
  case (2 env peer hop hops)
  then show ?case by (auto split: if_splits option.splits)
qed

text \<open>C16. A client cannot forge its observed address. Suppose the hops that the trusted proxies
  appended lead to an address \<open>ip\<close> that is no trusted proxy. Then whatever the client put before them in
  the forwarding header, the observed address is \<open>ip\<close>, if that is public.\<close>

theorem forwarding_not_forged:
  assumes "e_SplitHostPort env (rq_RemoteAddr r) = Some (host, port)" and "e_ParseAddr env host = Some peer"
    and "walk_hops env peer (rev (split_on CHR '','' proxied)) = Some ip" and "\<not> trusted_proxy env ip"
    and "HeaderGet r ''X-Forwarded-For'' = forged @ '','' @ proxied" and "length (forged @ '','' @ proxied) \<le> 4096"
  shows "observedPublicIP env r = (if addr_zone ip = [] \<and> addr_public ip then addr_text ip else [])"
proof -
  have "walk_hops env peer (rev (split_on CHR '','' (forged @ '','' @ proxied))) = Some ip"
    using walk_stops [OF assms(3,4)] by (simp add: split_on_append_any)
  moreover have "peer = ip" if "\<not> trusted_proxy env peer"
    using that assms(3) by (cases "rev (split_on CHR '','' proxied)") (simp_all del: rev_is_Nil_conv)
  ultimately show ?thesis
    using assms(1,2,5,6) by (auto simp: observedPublicIP_def Let_def)
qed

definition proxy_ctx :: Env where
  "proxy_ctx = demo_ctx\<lparr>e_SplitHostPort := (\<lambda>a. Some (a, ''443'')),
     e_ParseAddr := (\<lambda>a. Some \<lparr>addr_text = a, addr_Is6 = False, addr_Is4 = True, addr_zone = [], addr_global = True,
        addr_private = False, addr_public = True\<rparr>),
     e_PrefixContains := (\<lambda>cidr ip. addr_text ip = ''127.0.0.1'')\<rparr>"

definition proxied_request :: Request where
  "proxied_request = \<lparr>rq_id = [], rq_form = [], rq_header = [(''X-Forwarded-For'', ''6.6.6.6,198.51.100.7'')], rq_RemoteAddr = ''127.0.0.1''\<rparr>"

theorem forwarding_not_forged_witness:
  "observedPublicIP proxy_ctx proxied_request = ''198.51.100.7''"
proof -
  let ?addr = "\<lambda>a. \<lparr>addr_text = a, addr_Is6 = False, addr_Is4 = True, addr_zone = [], addr_global = True,
    addr_private = False, addr_public = True\<rparr>"
  have "walk_hops proxy_ctx (?addr ''127.0.0.1'') (rev (split_on CHR '','' ''198.51.100.7'')) = Some (?addr ''198.51.100.7'')"
    "\<not> trusted_proxy proxy_ctx (?addr ''198.51.100.7'')"
    "HeaderGet proxied_request ''X-Forwarded-For'' = ''6.6.6.6'' @ '','' @ ''198.51.100.7''"
    by code_simp+
  then show ?thesis
    using forwarding_not_forged [of proxy_ctx proxied_request "''127.0.0.1''" "''443''" "?addr ''127.0.0.1''" "''198.51.100.7''"
        "?addr ''198.51.100.7''" "''6.6.6.6''"]
    by (simp add: proxy_ctx_def proxied_request_def)
qed

end
