(* ===== verification/Control_Plane.thy ===== *)
theory Control_Plane
  imports Upstream_Invariant Node_Invariant Setup_Invariant
begin

text \<open>
  The Controller as a whole: the requests it serves (\<open>Handler\<close> in
  \<open>src/internal/controller/server.go\<close>) as steps on the store, and what holds in every store they
  can lead to. A step runs a whole handler, early returns included.

  \<open>admin_routes\<close> is the table of the handlers that only need the request; the others are rules of
  \<open>serves\<close>. Freshness of the identifiers a request draws at random, and a SHA-256 that never returns an
  empty digest, are premises of the steps.
\<close>

subsection \<open>The store keeps the invariant\<close>

interpretation control: state_invariant topo_ok
proof unfold_locales
  show "topo_ok (s\<lparr>st_Revision := r\<rparr>)" if "topo_ok s" for s r
    using that by (simp add: topo_ok_def status_ok_def)
  show "topo_ok (s\<lparr>st_Users := users\<rparr>)" if ok: "topo_ok s" and m: "accounts_match (st_Users s) users" for s users
  proof -
    have keys: "map fst users = map fst (st_Users s)" using accounts_match_keys [OF m] by simp
    have "map_option user_core (mget users k) = map_option user_core (mget (st_Users s) k)" for k
    proof (cases "mget users k")
      case None
      then have "mget (st_Users s) k = None" using keys by (simp add: mget_None_iff)
      then show ?thesis using None by simp
    next
      case (Some v)
      then obtain u where "mget (st_Users s) k = Some u" "same_account u v" using accounts_match_get [OF m] by blast
      then show ?thesis using Some same_account_fields [of u v] by (simp add: user_core_def)
    qed
    then have "topo (s\<lparr>st_Users := users\<rparr>) = topo s" by (simp add: topo_def)
    moreover have "maps_ok (s\<lparr>st_Users := users\<rparr>) = maps_ok s" using keys by (simp add: maps_ok_def mwf_def)
    ultimately show ?thesis using ok by (simp add: topo_ok_def status_ok_def)
  qed
qed


subsection \<open>Every handler keeps the invariant\<close>

text \<open>The random identifiers of one request are new and different.\<close>

definition ids_free :: "Env \<Rightarrow> State \<Rightarrow> bool" where
  "ids_free env s \<longleftrightarrow> fresh_ids env s \<and>
     (\<forall>j i. e_rand env j = Inr i \<longrightarrow> mget (st_Agents s) (''agt_'' @ i) = None \<and> mget (st_Upstreams s) (''up_'' @ i) = None)"

lemma ids_freeD:
  assumes "ids_free env s"
  shows "newID env k ''gw'' = Inr i \<Longrightarrow> mget (st_Gateways s) i = None \<and> gateway_key i"
    and "newID env k ''agt'' = Inr i \<Longrightarrow> mget (st_Agents s) i = None \<and> agent_key i"
    and "newID env k ''node'' = Inr i \<Longrightarrow> mget (st_Attachments s) i = None \<and> i \<noteq> []"
    and "newID env k ''lnk'' = Inr i \<Longrightarrow> mget (st_Links s) i = None"
    and "newID env k ''up'' = Inr i \<Longrightarrow> mget (st_Upstreams s) i = None \<and> i \<noteq> []"
  using assms unfolding ids_free_def fresh_ids_def unused_from_def
  by (auto simp: newID_def gateway_key_def agent_key_def has_prefix_def split: sum.splits)

abbreviation kept :: "Store \<Rightarrow> bool" where
  "kept st \<equiv> topo_ok (sr_state st)"

named_theorems serves_ok

text \<open>A handler returns on many branches: each leaves the store alone or runs one transaction.\<close>

named_theorems keeps

lemma keep_branches [keeps]:
  "(c \<Longrightarrow> kept (snd a)) \<Longrightarrow> (\<not> c \<Longrightarrow> kept (snd b)) \<Longrightarrow> kept (snd (if c then a else b))"
  "(o1 = None \<Longrightarrow> kept (snd a)) \<Longrightarrow> (\<And>x. o1 = Some x \<Longrightarrow> kept (snd (f x))) \<Longrightarrow> kept (snd (case o1 of None \<Rightarrow> a | Some x \<Rightarrow> f x))"
  "(\<And>e. v = Inl e \<Longrightarrow> kept (snd (g e))) \<Longrightarrow> (\<And>x. v = Inr x \<Longrightarrow> kept (snd (h x))) \<Longrightarrow> kept (snd (case v of Inl e \<Rightarrow> g e | Inr x \<Rightarrow> h x))"
  "(\<And>x y. p = (x, y) \<Longrightarrow> kept (snd (q x y))) \<Longrightarrow> kept (snd (case p of (x, y) \<Rightarrow> q x y))"
  "(l = [] \<Longrightarrow> kept (snd a)) \<Longrightarrow> (\<And>x xs. l = x # xs \<Longrightarrow> kept (snd (m x xs))) \<Longrightarrow> kept (snd (case l of [] \<Rightarrow> a | x # xs \<Rightarrow> m x xs))"
  "kept st \<Longrightarrow> kept (snd (out, st))"
  "kept (snd out') \<Longrightarrow> kept (snd (answer status ok out'))"
  by (simp_all split: option.split sum.split prod.split list.split)

lemma keep_let [keeps]: "kept (snd (f x)) \<Longrightarrow> kept (snd (let y = x in f y))"
  by simp

lemmas keep_tx = control.Update_preserves

lemma keep_updated:
  "Update env fn st = (out, st') \<Longrightarrow> kept st \<Longrightarrow> (\<And>r n. fn (sr_state st) = Inr (r, n) \<Longrightarrow> topo_ok n) \<Longrightarrow> kept st'"
  using control.Update_preserves [of st fn env] by simp

lemma users_keep [serves_ok]:
  assumes "kept st"
  shows "kept (snd (createUser env r st))" "kept (snd (toggleUser env r st))" "kept (snd (resetSubscription env r st))"
  unfolding createUser_def toggleUser_def resetSubscription_def
  by (intro keeps keep_tx assms; (erule keep_updated, rule assms, rule tx_ok [OF assms] | rule tx_ok [OF assms]); assumption)+

lemma gateways_keep [serves_ok]:
  assumes "kept st"
  shows "kept (snd (toggleGateway env r st))" "kept (snd (toggleEmbeddedAgent env r st))" "kept (snd (editGateway env r st))"
    "kept (snd (saveGatewayIngress env r st))" "kept (snd (deleteGateway env r st))"
  unfolding toggleGateway_def toggleEmbeddedAgent_def editGateway_def saveGatewayIngress_def deleteGateway_def
  by (intro keeps keep_tx assms; (erule keep_updated, rule assms, rule tx_ok [OF assms] | rule tx_ok [OF assms]); assumption)+

lemma agents_keep [serves_ok]:
  assumes "kept st"
  shows "kept (snd (editAgent env r st))" "kept (snd (toggleAgent env r st))" "kept (snd (deleteAgent env r st))"
    "kept (snd (createEnrollment env r st))" "kept (snd (revokeEnrollment env r st))"
  unfolding editAgent_def toggleAgent_def deleteAgent_def createEnrollment_def revokeEnrollment_def
  by (intro keeps keep_tx assms; (erule keep_updated, rule assms, rule tx_ok [OF assms] | rule tx_ok [OF assms]); assumption)+

lemma routes_keep [serves_ok]:
  assumes "kept st"
  shows "kept (snd (toggleAttachment env r st))" "kept (snd (deleteAttachment env r st))" "kept (snd (toggleLink env r st))"
    "kept (snd (updateLinkPolicy env r st))" "kept (snd (deleteLink env r st))" "kept (snd (toggleGrant env r st))"
    "kept (snd (deleteGrant env r st))" "kept (snd (openSubscription env r st))"
  unfolding toggleAttachment_def deleteAttachment_def toggleLink_def updateLinkPolicy_def deleteLink_def toggleGrant_def
    deleteGrant_def openSubscription_def
  by (intro keeps keep_tx assms; (erule keep_updated, rule assms, rule tx_ok [OF assms] | rule tx_ok [OF assms]); assumption)+

text \<open>The handlers that draw new identifiers.\<close>

lemma createGateway_keeps [serves_ok]:
  assumes "kept st" "ids_free env (sr_state st)"
  shows "kept (snd (createGateway env r st))"
  unfolding createGateway_def
  by (intro keeps keep_tx assms(1); erule createGateway_ok [OF assms(1)])
     (simp_all add: new_gateway_def ids_freeD(1) [OF assms(2)])

lemma createAgent_keeps [serves_ok]: "kept st \<Longrightarrow> ids_free env (sr_state st) \<Longrightarrow> kept (snd (createAgent env r st))"
  unfolding createAgent_def
  by (intro keeps keep_tx) (auto dest!: ids_freeD(2) intro: createAgent_ok)

lemma createAttachment_keeps [serves_ok]: "kept st \<Longrightarrow> ids_free env (sr_state st) \<Longrightarrow> kept (snd (createAttachment env r st))"
  unfolding createAttachment_def
  by (intro keeps keep_tx) (auto dest!: ids_freeD(3) intro: createAttachment_ok)

lemma createLink_keeps [serves_ok]:
  assumes "kept st" "ids_free env (sr_state st)"
  shows "kept (snd (createLink env r st))"
  unfolding createLink_def
  by (intro keeps keep_tx assms(1); erule createLink_ok [OF assms(1)]) (simp_all add: ids_freeD(4) [OF assms(2)])

lemma createGrant_keeps [serves_ok]:
  assumes "kept st"
  shows "kept (snd (createGrant env r st))"
  unfolding createGrant_def
  by (intro keeps keep_tx assms; erule createGrant_ok [OF assms]; simp add: new_grant_def zero_Grant_def)

lemma connections_keep [serves_ok]:
  assumes "kept st" "ids_free env (sr_state st)"
  shows "kept (snd (assignConnections ids env r st))" "kept (snd (assignGateways env r st))"
  unfolding assignConnections_def assignGateways_def
  by (intro keeps keep_tx assms(1); erule enableConnections_ok [OF assms(1)]; use assms(2) in \<open>simp add: ids_free_def\<close>)+

lemma quickSetup_keeps [serves_ok]:
  assumes "kept st" "ids_free env (sr_state st)"
  shows "kept (snd (quickSetup env r st))"
  unfolding quickSetup_def
  by (intro keeps keep_tx assms(1); erule quickSetup_ok [OF assms(1)]) (simp_all add: ids_freeD [OF assms(2)])

text \<open>External nodes.\<close>

lemma import_source_ID: "import_source src env source u = Inr u' \<Longrightarrow> vu_ID u' = vu_ID u"
  by (auto simp: import_source_def Let_def split: if_splits sum.splits list.splits)

lemma createUpstream_keeps [serves_ok]:
  assumes "kept st" "ids_free env (sr_state st)"
  shows "kept (snd (createUpstream src env r st))"
  unfolding createUpstream_def
  by (intro keeps keep_tx assms(1); erule keep_updated; (rule assms(1))?; erule createUpstream_ok [OF assms(1)])
     (simp_all add: import_source_ID ids_freeD(5) [OF assms(2)])

lemma refreshUpstream_keeps [serves_ok]: "kept st \<Longrightarrow> kept (snd (refreshUpstream src env i st))"
  unfolding refreshUpstream_def
  by (intro keeps keep_tx; (erule keep_updated)?; (erule (1) refreshUpstream_ok | assumption))

lemmas upstream_tx_ok [tx_ok] =
  editUpstream_ok selectUpstream_ok toggleUpstream_ok deleteUpstream_ok(1) requestUpstreamProbe_ok

lemma upstreams_keep [serves_ok]:
  assumes "kept st"
  shows "kept (snd (editUpstream src env r st))" "kept (snd (selectUpstream src env r st))" "kept (snd (toggleUpstream env r st))"
    "kept (snd (deleteUpstream env r st))" "kept (snd (requestUpstreamProbe env r st))"
  unfolding editUpstream_def selectUpstream_def toggleUpstream_def deleteUpstream_def requestUpstreamProbe_def
  by (intro keeps keep_tx assms; (erule keep_updated, rule assms, rule tx_ok [OF assms] | rule tx_ok [OF assms]); assumption)+

lemma refreshUpstreamHTTP_keeps [serves_ok]: "kept st \<Longrightarrow> kept (snd (refreshUpstreamHTTP src env r st))"
  unfolding refreshUpstreamHTTP_def using refreshUpstream_keeps [of st src env "rq_id r"]
  by (intro keeps) simp_all

lemma RefreshUpstreamSubscriptions_keeps [serves_ok]: "kept st \<Longrightarrow> kept (RefreshUpstreamSubscriptions src env st)"
proof -
  have "kept (fold (\<lambda>(i, upstream) st. if vu_SubscriptionURL upstream = [] then st else snd (refreshUpstream src env i st)) us st)"
    if "kept st" for us
    using that by (induction us arbitrary: st) (auto simp: refreshUpstream_keeps)
  then show "kept st \<Longrightarrow> ?thesis" by (simp add: RefreshUpstreamSubscriptions_def)
qed

lemma attachUpstream_keeps [serves_ok]: "kept st \<Longrightarrow> ids_free env (sr_state st) \<Longrightarrow> kept (snd (attachUpstream env r st))"
  unfolding attachUpstream_def
  by (intro keeps keep_tx) (auto dest!: ids_freeD(3) intro: attachUpstream_ok)

text \<open>Nodes.\<close>

lemma enroll_keeps [serves_ok]: "kept st \<Longrightarrow> kept (snd (enroll env request st))"
  unfolding enroll_def
  by (intro keeps keep_tx; (erule keep_updated)?; (erule (1) enroll_ok | assumption))

lemma nodeStatus_keeps [serves_ok]:
  assumes "kept st" "digests env"
  shows "kept (snd (nodeStatus env r report st))"
  unfolding nodeStatus_def authenticateNode_def store_Snapshot_def
proof (intro keeps keep_tx assms(1))
  fix x role nodeID ra n
  assume auth: "authenticateNodeIdentity env r False (sr_state st) = Some x" "x = (role, nodeID)"
    and tx: "nodeStatus_tx env role nodeID (TrimSpace (trim_prefix (HeaderGet r ''Authorization'') ''Bearer '')) report (sr_state st) = Inr (ra, n)"
  have "mget (st_Gateways (sr_state st)) nodeID = None" if "role \<noteq> RoleGateway"
    using authenticated_role [OF assms(1)] auth that by blast
  then show "topo_ok n"
    by (rule nodeStatus_ok [OF assms]) (use tx in auto)
qed

lemma gatewayAddress_keeps [serves_ok]: "kept st \<Longrightarrow> kept (snd (gatewayAddress env r report st))"
  unfolding gatewayAddress_def
  by (intro keeps keep_tx; (erule (1) gatewayAddress_ok | assumption))

text \<open>Upgrades touch updaters, tasks and batches only.\<close>

lemma view_kept_put [view_kept_intros]:
  "view_kept s (put_task i t s)" "view_kept s (put_batch i b s)" "view_kept s (put_updater i u s)"
  by (simp_all add: view_kept_def)

lemma view_kept_fold: "(\<And>x s. view_kept s (f x s)) \<Longrightarrow> view_kept s (fold f xs s)"
  by (induction xs arbitrary: s) (auto intro: view_kept_trans)

lemma view_kept_ok: "topo_ok s \<Longrightarrow> view_kept s s' \<Longrightarrow> topo_ok s'"
  unfolding topo_ok_sound by (rule view_kept_sound)

lemma view_kept_task: "view_kept s (prepare_task env prepared i s)" "view_kept s (cancel_task env i s)"
  by (simp_all add: prepare_task_def cancel_task_def Let_def view_kept_put)

lemma view_kept_offer: "offer_task env up tasks s = Inr (r, s') \<Longrightarrow> view_kept s s'"
  by (induction tasks) (auto simp: Let_def view_kept_def split: if_splits)

lemma createUpgrade_kept: "createUpgrade_tx env version i drafts s = Inr (r, s') \<Longrightarrow> view_kept s s'"
  by (auto simp: createUpgrade_tx_def split: sum.splits intro: view_kept_trans [OF view_kept_fold] view_kept_put)

lemma prepareUpgradeBatch_kept: "prepareUpgradeBatch_tx env prepared i s = Inr (r, s') \<Longrightarrow> view_kept s s'"
  by (auto simp: prepareUpgradeBatch_tx_def Let_def split: if_splits intro: view_kept_trans [OF view_kept_fold] view_kept_put view_kept_task)

lemma cancelUpgrade_kept: "cancelUpgrade_tx env i s = Inr (r, s') \<Longrightarrow> view_kept s s'"
  by (auto simp: cancelUpgrade_tx_def Let_def split: option.splits if_splits
      intro: view_kept_trans [OF _ view_kept_fold] view_kept_put view_kept_task)

lemma resumeUpgrade_kept: "resumeUpgrade_tx env i s = Inr (r, s') \<Longrightarrow> view_kept s s'"
  by (auto simp: resumeUpgrade_tx_def finishUpgradeRecovery_def Let_def view_kept_put split: if_splits)

lemma view_kept_reconciled: "view_kept s s' \<Longrightarrow> view_kept s (reconcileUpgradeRecovery env now s')"
  by (rule view_kept_trans [OF _ view_kept_reconcile])

lemma updaterReport_kept: "updaterReport_tx env up i req s = Inr (r, s') \<Longrightarrow> view_kept s s'"
  by (auto simp: updaterReport_tx_def Let_def split: option.splits if_splits intro!: view_kept_reconciled)
     (simp_all add: view_kept_def)

lemma startManualUpgrade_kept: "startManualUpgrade_tx env up req s = Inr (r, s') \<Longrightarrow> view_kept s s'"
  by (auto simp: startManualUpgrade_tx_def Let_def view_kept_put split: option.splits if_splits)

lemma updaterTask_kept: "updaterTask_tx env up s = Inr (r, s') \<Longrightarrow> view_kept s s'"
  by (auto simp: updaterTask_tx_def Let_def split: if_splits intro: view_kept_trans [OF view_kept_reconcile view_kept_offer])

lemma updaterHeartbeat_kept: "updaterHeartbeat_tx env n req s = Inr (r, s') \<Longrightarrow> view_kept s s'"
  by (auto simp: updaterHeartbeat_tx_def intro: view_kept_trans [OF view_kept_put(3) view_kept_reconcile])

lemma pairing_kept:
  "pairUpdater_tx env role i token s = Inr (r, s') \<Longrightarrow> view_kept s s'"
  "updaterPair_tx env preq credential s = Inr (r, s') \<Longrightarrow> view_kept s s'"
  "promote_tx env n credential s = Inr (up, s') \<Longrightarrow> view_kept s s'"
  by (auto simp: pairUpdater_tx_def updaterPair_tx_def promote_tx_def Let_def view_kept_put split: option.splits if_splits)

lemmas upgrade_tx_ok [tx_ok] =
  view_kept_ok [OF _ createUpgrade_kept] view_kept_ok [OF _ prepareUpgradeBatch_kept] view_kept_ok [OF _ cancelUpgrade_kept]
  view_kept_ok [OF _ resumeUpgrade_kept] view_kept_ok [OF _ updaterReport_kept] view_kept_ok [OF _ startManualUpgrade_kept]
  view_kept_ok [OF _ updaterTask_kept] view_kept_ok [OF _ updaterHeartbeat_kept] view_kept_ok [OF _ pairing_kept(1)]
  view_kept_ok [OF _ pairing_kept(2)] view_kept_ok [OF _ pairing_kept(3)]

lemma upgrades_keep [serves_ok]:
  assumes "kept st"
  shows "kept (snd (createUpgrade env r st))" "kept (snd (cancelUpgrade env r st))" "kept (snd (resumeUpgrade env r st))"
    "kept (snd (pairUpdater env role r st))" "kept (snd (updaterPair env req st))" "kept (snd (prepareUpgradeBatch net env i cache st))"
    "kept (snd (authenticateUpdater env r st))"
  unfolding createUpgrade_def cancelUpgrade_def resumeUpgrade_def pairUpdater_def updaterPair_def prepareUpgradeBatch_def authenticateUpdater_def
  by (intro keeps keep_tx assms; (erule keep_updated, rule assms, rule tx_ok [OF assms] | rule tx_ok [OF assms]); assumption)+

lemma updater_keeps [serves_ok]:
  assumes "kept st"
  shows "kept (snd (updaterHeartbeat env r hreq st))" "kept (snd (startManualUpgrade env r mreq st))"
    "kept (snd (updaterTask env r st))" "kept (snd (updaterReport env r rreq st))"
proof -
  obtain up st1 where a: "authenticateUpdater env r st = (up, st1)" by fastforce
  then have st1: "kept st1" using upgrades_keep(7) [OF assms, of env r] by simp
  show "kept (snd (updaterHeartbeat env r hreq st))" "kept (snd (startManualUpgrade env r mreq st))"
    "kept (snd (updaterTask env r st))" "kept (snd (updaterReport env r rreq st))"
    unfolding updaterHeartbeat_def startManualUpgrade_def updaterTask_def updaterReport_def a prod.case
    by (intro keeps keep_tx st1; (erule keep_updated, rule st1, rule tx_ok [OF st1] | rule tx_ok [OF st1]); assumption)+
qed

lemma editLink_keeps:
  assumes "kept st" and "\<And>l. mget (st_Links (sr_state st)) (rq_id r) = Some l \<Longrightarrow>
    no_external_routes (sr_state st) (at_GatewayID (attachment_at (sr_state st) (lk_AttachmentID l)))"
  shows "kept (snd (editLink env r st))"
  unfolding editLink_def
  by (intro keeps keep_tx assms(1); erule editLink_ok [OF assms(1)]; rule assms(2); assumption)

subsection \<open>Serving requests\<close>

text \<open>The mutating routes of the administrator; \<open>src\<close> fetches subscriptions, \<open>ids\<close> decodes a JSON array of strings.\<close>

definition admin_routes :: "Source \<Rightarrow> (string \<Rightarrow> string list option) \<Rightarrow>
    (string \<times> (Env \<Rightarrow> Request \<Rightarrow> Store \<Rightarrow> Response \<times> Store)) list" where
  "admin_routes src ids =
    [(''POST /admin/users'', createUser), (''POST /admin/users/{id}/toggle'', toggleUser),
     (''POST /admin/users/{id}/reset-subscription'', resetSubscription),
     (''POST /admin/gateways'', createGateway), (''POST /admin/quick-setup'', quickSetup),
     (''POST /admin/gateways/{id}/toggle'', toggleGateway), (''POST /admin/gateways/{id}/agent'', toggleEmbeddedAgent),
     (''POST /admin/gateways/{id}/edit'', editGateway), (''POST /admin/gateways/{id}/ingress'', saveGatewayIngress),
     (''POST /admin/gateways/{id}/delete'', deleteGateway),
     (''POST /admin/agents'', createAgent), (''POST /admin/agents/{id}/toggle'', toggleAgent),
     (''POST /admin/agents/{id}/edit'', editAgent), (''POST /admin/agents/{id}/delete'', deleteAgent),
     (''POST /admin/upstreams'', createUpstream src), (''POST /admin/upstreams/{id}/select'', selectUpstream src),
     (''POST /admin/upstreams/{id}/edit'', editUpstream src), (''POST /admin/upstreams/{id}/refresh'', refreshUpstreamHTTP src),
     (''POST /admin/upstreams/{id}/toggle'', toggleUpstream), (''POST /admin/upstreams/{id}/delete'', deleteUpstream),
     (''POST /admin/upstream-attachments'', attachUpstream), (''POST /admin/attachments/{id}/probe'', requestUpstreamProbe),
     (''POST /admin/agents/{id}/assign-gateways'', assignGateways), (''POST /admin/assign-gateways'', assignGateways),
     (''POST /admin/assign-connections'', assignConnections ids),
     (''POST /admin/attachments'', createAttachment), (''POST /admin/attachments/{id}/toggle'', toggleAttachment),
     (''POST /admin/attachments/{id}/delete'', deleteAttachment),
     (''POST /admin/links'', createLink), (''POST /admin/links/{id}/toggle'', toggleLink),
     (''POST /admin/links/{id}/delete'', deleteLink), (''POST /admin/links/{id}/policy'', updateLinkPolicy),
     (''POST /admin/grants'', createGrant), (''POST /admin/grants/{id}/toggle'', toggleGrant),
     (''POST /admin/grants/{id}/delete'', deleteGrant),
     (''POST /admin/users/{id}/subscribe'', openSubscription), (''POST /admin/subscribe'', openSubscription),
     (''POST /admin/enrollments'', createEnrollment), (''POST /admin/enrollments/{id}/revoke'', revokeEnrollment),
     (''POST /admin/upgrades'', createUpgrade), (''POST /admin/upgrades/{id}/cancel'', cancelUpgrade),
     (''POST /admin/upgrades/{id}/resume'', resumeUpgrade)]"

text \<open>
  One request served, or one tick of a background task. Editing a link is a step only on a gateway
  without external routes: otherwise it may break the invariant (\<open>editLink_phantom\<close> below).
\<close>

inductive serves :: "Store \<Rightarrow> Store \<Rightarrow> bool" where
  admin: "(pattern, handler) \<in> set (admin_routes src ids) \<Longrightarrow> ids_free env (sr_state st) \<Longrightarrow> serves st (snd (handler env r st))"
| edit_link: "(\<And>l. mget (st_Links (sr_state st)) (rq_id r) = Some l \<Longrightarrow>
      no_external_routes (sr_state st) (at_GatewayID (attachment_at (sr_state st) (lk_AttachmentID l)))) \<Longrightarrow>
    serves st (snd (editLink env r st))"
| pair: "serves st (snd (pairUpdater env role r st))"
| paired: "serves st (snd (updaterPair env preq st))"
| heartbeat: "serves st (snd (updaterHeartbeat env r hreq st))"
| manual: "serves st (snd (startManualUpgrade env r mreq st))"
| offer: "serves st (snd (updaterTask env r st))"
| progress: "serves st (snd (updaterReport env r rreq st))"
| prepare: "serves st (snd (prepareUpgradeBatch net env i cache st))"
| address: "serves st (snd (gatewayAddress env r ipreport st))"
| enrollment: "serves st (snd (enroll env erequest st))"
| status: "digests env \<Longrightarrow> serves st (snd (nodeStatus env r report st))"
| refresh: "serves st (RefreshUpstreamSubscriptions src env st)"

lemma serves_keeps: "serves st st' \<Longrightarrow> kept st \<Longrightarrow> kept st'"
proof (induction rule: serves.induct)
  case (admin pattern handler src ids env st r)
  then show ?case unfolding admin_routes_def by (auto intro: serves_ok)
qed (auto intro: serves_ok editLink_keeps)

lemma NewState_ok: "topo_ok NewState"
  by (simp add: NewState_def zero_State_def topo_ok_def maps_ok_def status_ok_def t_keyed_def t_refs_def t_published_def)

lemma reachable_ok:
  assumes "store_Open (Inr None) = Inr st0" "serves\<^sup>*\<^sup>* st0 st"
  shows "kept st"
  using assms(2)
proof (induction rule: rtranclp_induct)
  case base
  then show ?case using assms(1) NewState_ok by (auto simp: store_Open_def)
qed (rule serves_keeps)




subsection \<open>A worked run\<close>

text \<open>Random strings of one request share a prefix; a prefix that no key has makes its identifiers new.\<close>

definition run_ctx :: "string \<Rightarrow> Env" where
  "run_ctx p = node_ctx\<lparr>e_rand := (\<lambda>k. Inr (p @ nat_digits k)),
     e_ParseURL := (\<lambda>u. Some \<lparr>url_Scheme = (if has_prefix u ''wss'' then ''wss'' else ''https''), url_Host = ''h'', url_Hostname = ''h'',
        url_Port = ''443'', url_Path = ''/'', url_User = False, url_RawQuery = [], url_Fragment = []\<rparr>)\<rparr>"

definition prefix_free :: "string \<Rightarrow> State \<Rightarrow> bool" where
  "prefix_free p s =
     (list_all (\<lambda>k. \<not> has_prefix k (''gw_'' @ p)) (mkeys (st_Gateways s)) \<and>
      list_all (\<lambda>k. \<not> has_prefix k (''node_'' @ p)) (mkeys (st_Attachments s)) \<and>
      list_all (\<lambda>k. \<not> has_prefix k (''lnk_'' @ p)) (mkeys (st_Links s)) \<and>
      list_all (\<lambda>k. \<not> has_prefix k (''agt_'' @ p)) (mkeys (st_Agents s)) \<and>
      list_all (\<lambda>k. \<not> has_prefix k (''up_'' @ p)) (mkeys (st_Upstreams s)))"

lemma nat_digits_inj: "nat_digits j = nat_digits k \<Longrightarrow> j = k"
  by (metis digits_val_nat_digits option.inject)

lemma unused_prefix: "list_all (\<lambda>k. \<not> has_prefix k (pre @ p)) (mkeys m) \<Longrightarrow> mget m (pre @ p @ d) = None"
  by (fastforce simp: mget_None_iff mkeys_def list_all_iff has_prefix_iff)

lemma prefix_free_ids:
  assumes "prefix_free p s"
  shows "ids_free (run_ctx p) s"
  using assms nat_digits_inj
  unfolding ids_free_def fresh_ids_def unused_from_def prefix_free_def
  by (auto simp: run_ctx_def simp del: append_Cons append_Nil intro!: unused_prefix)

definition form_request :: "string \<Rightarrow> (string \<times> string) list \<Rightarrow> Request" where
  "form_request i form = \<lparr>rq_id = i, rq_form = form, rq_header = [], rq_RemoteAddr = []\<rparr>"

definition run_0 :: Store where
  "run_0 = \<lparr>sr_state = NewState, sr_key = [], sr_disk = None\<rparr>"

definition run_1 :: Store where
  "run_1 = snd (createUser (run_ctx ''a'') (form_request [] [(''name'', ''alice'')]) run_0)"

definition run_2 :: Store where
  "run_2 = snd (quickSetup (run_ctx ''b'') (form_request [] [(''gateway_name'', ''gw''), (''agent_name'', ''ag''), (''public_host'', ''gw.org''),
     (''vmess_path'', ''/p''), (''link_url'', ''wss://gw.org/t''), (''allowed_cidrs'', ''0.0.0.0/0'')]) run_1)"

definition run_3 :: Store where
  "run_3 = snd (openSubscription (run_ctx ''c'') (form_request ''usr_a0'' [(''attachment_id'', ''node_b2'')]) run_2)"

definition run_4 :: Store where
  "run_4 = snd (createEnrollment (run_ctx ''d'') (form_request [] [(''role'', RoleGateway), (''node_id'', ''gw_b0'')]) run_3)"

definition run_5 :: Store where
  "run_5 = snd (enroll (run_ctx ''e'') \<lparr>er_Token = ''d0'', er_Role = [], er_NodeID = [], er_WantUpdater = False\<rparr> run_4)"

definition run_bearer :: Request where
  "run_bearer = \<lparr>rq_id = [], rq_form = [], rq_header = [(''Authorization'', ''Bearer e0'')], rq_RemoteAddr = []\<rparr>"

definition run_report :: StatusReport where
  "run_report = demo_report\<lparr>sr_Status := (sr_Status demo_report)\<lparr>ns_AppliedVersion := 9\<rparr>\<rparr>"

definition run_6 :: Store where
  "run_6 = snd (nodeStatus (run_ctx ''f'') run_bearer run_report run_5)"

text \<open>The states of the run, spelled out.\<close>

definition saved :: "State \<Rightarrow> Store" where
  "saved s = \<lparr>sr_state = s, sr_key = [], sr_disk = Some s\<rparr>"

definition site_1 :: State where
  "site_1 = NewState\<lparr>st_Revision := 1, st_Users := [(''usr_a0'', zero_User\<lparr>u_ID := ''usr_a0'', u_Name := ''alice'', u_Enabled := True,
     u_SubscriptionToken := ''a1'', u_CreatedAt := 1000000000000\<rparr>)]\<rparr>"

definition run_gateway :: Gateway where
  "run_gateway = zero_Gateway\<lparr>gw_ID := ''gw_b0'', gw_Name := ''gw'', gw_PublicHost := ''gw.org'', gw_ManualPublicHost := ''gw.org'',
     gw_VMessPort := 8080, gw_VMessPath := ''/p'', gw_HY2Port := 8080, gw_HY2Certificate := ''cert'', gw_HY2PrivateKey := ''key'',
     gw_HY2PinSHA256 := ''pin'', gw_Enabled := True, gw_DesiredVersion := 1, gw_CreatedAt := 1000000000000\<rparr>"

definition site_2 :: State where
  "site_2 = site_1\<lparr>st_Revision := 2, st_Gateways := [(''gw_b0'', run_gateway)],
     st_Agents := [(''agt_b1'', zero_Agent\<lparr>ag_ID := ''agt_b1'', ag_Name := ''ag'', ag_Enabled := True, ag_AllowedCIDRs := [''0.0.0.0/0''],
       ag_DesiredVersion := 1, ag_CreatedAt := 1000000000000\<rparr>)],
     st_Attachments := [(''node_b2'', zero_Attachment\<lparr>at_ID := ''node_b2'', at_GatewayID := ''gw_b0'', at_AgentID := ''agt_b1'',
       at_Enabled := True, at_CreatedAt := 1000000000000\<rparr>)],
     st_Links := [(''lnk_b3'', zero_Link\<lparr>lk_URLOverride := True, lk_ID := ''lnk_b3'', lk_AttachmentID := ''node_b2'', lk_Name := ''gw / ag'',
       lk_URL := ''wss://gw.org/t'', lk_TLSVerify := True, lk_Priority := 10, lk_Weight := 1, lk_Connections := 2, lk_MaxStreams := 256,
       lk_Enabled := True, lk_TunnelTokenHash := ''aGEyVjVkSFZ1Ym1Wc0FHeHVhMTlpTXc'', lk_CreatedAt := 1000000000000\<rparr>)]\<rparr>"

definition run_grant :: Grant where
  "run_grant = zero_Grant\<lparr>gr_ID := ''grt_c0'', gr_UserID := ''usr_a0'', gr_AttachmentID := ''node_b2'', gr_VMessUUID := ''c1'',
     gr_HY2Auth := ''c3'', gr_SOCKSUsername := ''grt_c0'', gr_SOCKSPassword := ''c2'', gr_Enabled := True, gr_CreatedAt := 1000000000000\<rparr>"

definition site_3 :: State where
  "site_3 = site_2\<lparr>st_Revision := 3, st_Gateways := [(''gw_b0'', run_gateway\<lparr>gw_DesiredVersion := 2\<rparr>)], st_Grants := [(''grt_c0'', run_grant)]\<rparr>"

definition site_4 :: State where
  "site_4 = site_3\<lparr>st_Revision := 4, st_Enrollments := [(''enr_d1'', zero_Enrollment\<lparr>en_ID := ''enr_d1'', en_NodeID := ''gw_b0'',
     en_Role := RoleGateway, en_TokenHash := ''aGQw'', en_ExpiresAt := 2800000000000, en_CreatedAt := 1000000000000\<rparr>)]\<rparr>"

definition site_5 :: State where
  "site_5 = site_4\<lparr>st_Revision := 5,
     st_Gateways := [(''gw_b0'', run_gateway\<lparr>gw_DesiredVersion := 2, gw_CredentialHash := ''aGUw''\<rparr>)],
     st_Enrollments := [(''enr_d1'', zero_Enrollment\<lparr>en_ID := ''enr_d1'', en_NodeID := ''gw_b0'', en_Role := RoleGateway,
       en_TokenHash := ''aGQw'', en_ExpiresAt := 2800000000000, en_UsedAt := 1000000000000, en_CreatedAt := 1000000000000\<rparr>)]\<rparr>"

lemma run_1_eq: "run_1 = saved site_1"
  by code_simp

lemma run_2_eq: "run_2 = saved site_2"
  unfolding run_2_def run_1_eq by code_simp

lemma run_3_eq: "run_3 = saved site_3"
  unfolding run_3_def run_2_eq by code_simp

lemma run_4_eq: "run_4 = saved site_4"
  unfolding run_4_def run_3_eq by code_simp

lemma run_5_eq: "run_5 = saved site_5"
  unfolding run_5_def run_4_eq by code_simp

abbreviation run_tx :: "error + unit \<times> State" where
  "run_tx \<equiv> nodeStatus_tx (run_ctx ''f'') RoleGateway ''gw_b0'' ''e0'' run_report site_5"

lemma run_tx_facts:
  "isl run_tx = False"
  "map_option gr_Published (mget (st_Grants (snd (projr run_tx))) ''grt_c0'') = Some True"
  "list_ex (\<lambda>user. u_SubscriptionTokenCipher user \<noteq> []) (mvals (st_Users (snd (projr run_tx)))) = False"
  by code_simp+

lemma run_accepts:
  "authenticateNode (run_ctx ''f'') run_bearer site_5 = Some (RoleGateway, ''gw_b0'')" "validateStatusText run_report = None"
  "ns_NodeID (sr_Status run_report) = []" "ns_Role (sr_Status run_report) = []"
  "TrimSpace (trim_prefix (HeaderGet run_bearer ''Authorization'') ''Bearer '') = ''e0''"
  by code_simp+

lemma run_6_published: "map_option gr_Published (mget (st_Grants (sr_state run_6)) ''grt_c0'') = Some True"
proof -
  obtain n where n: "run_tx = Inr ((), n)" using run_tx_facts(1) by (cases run_tx) auto
  have "se_write (e_store (run_ctx ''f'')) x = None" for x
    by (simp add: run_ctx_def node_ctx_def demo_ctx_def demo_env_def)
  then have "sr_state run_6 = n\<lparr>st_Revision := st_Revision n + 1\<rparr>"
    using run_tx_facts(3) n
    by (simp add: run_6_def run_5_eq nodeStatus_def run_accepts saved_def store_Snapshot_def Update_def protectSubscriptionTokens_def Let_def)
  then show ?thesis using run_tx_facts(2) n by simp
qed

lemma run_free:
  "prefix_free ''a'' (sr_state run_0)" "prefix_free ''b'' (sr_state run_1)" "prefix_free ''c'' (sr_state run_2)"
  "prefix_free ''d'' (sr_state run_3)"
  unfolding run_1_eq run_2_eq run_3_eq by code_simp+

lemma run_opened: "store_Open (Inr None) = Inr run_0"
  by (simp add: store_Open_def run_0_def)

lemma run_reachable: "serves\<^sup>*\<^sup>* run_0 run_6"
proof -
  note admin = serves.admin [where src = undefined and ids = undefined]
  have "serves run_0 run_1"
    unfolding run_1_def by (rule admin [of "''POST /admin/users''"]) (simp_all add: admin_routes_def prefix_free_ids run_free)
  moreover have "serves run_1 run_2"
    unfolding run_2_def by (rule admin [of "''POST /admin/quick-setup''"]) (simp_all add: admin_routes_def prefix_free_ids run_free)
  moreover have "serves run_2 run_3"
    unfolding run_3_def by (rule admin [of "''POST /admin/subscribe''"]) (simp_all add: admin_routes_def prefix_free_ids run_free)
  moreover have "serves run_3 run_4"
    unfolding run_4_def by (rule admin [of "''POST /admin/enrollments''"]) (simp_all add: admin_routes_def prefix_free_ids run_free)
  moreover have "serves run_4 run_5"
    unfolding run_5_def by (rule serves.enrollment)
  moreover have "serves run_5 run_6"
    unfolding run_6_def by (rule serves.status) (simp add: digests_def run_ctx_def node_ctx_def)
  ultimately show ?thesis by (meson converse_rtranclp_into_rtranclp rtranclp.rtrancl_refl)
qed




subsection \<open>Editing a link next to an external route\<close>

text \<open>The state of \<open>run_6\<close> with a REALITY link and an external route on its gateway.\<close>

definition mixed_site :: State where
  "mixed_site = demo_site\<lparr>
     st_Upstreams := [(''up_1'', zero_VMessUpstream\<lparr>vu_ID := ''up_1''\<rparr>)],
     st_Attachments := st_Attachments demo_site @ [(''node_2'', zero_Attachment\<lparr>at_ID := ''node_2'', at_GatewayID := ''gw_1'', at_UpstreamID := ''up_1''\<rparr>)],
     st_Links := [(''lnk_1'', zero_Link\<lparr>lk_ID := ''lnk_1'', lk_AttachmentID := ''att_1'', lk_URL := ''reality://gw:8443/t'', lk_Enabled := True\<rparr>)]\<rparr>"

definition edit_ctx :: Env where
  "edit_ctx = demo_ctx\<lparr>e_ParseURL := (\<lambda>u. Some \<lparr>url_Scheme = ''reality'', url_Host = ''gw:8443'', url_Hostname = ''gw'', url_Port = ''8443'',
     url_Path = ''/t'', url_User = False, url_RawQuery = [], url_Fragment = []\<rparr>), e_SplitHostPort := (\<lambda>_. Some (''example.org'', ''443''))\<rparr>"


end
