(* ===== verification/Access_Policy.thy ===== *)
theory Access_Policy
  imports Netip Http
begin

text \<open>
  What an exit node may connect to: the default port restrictions of
  \<open>src/internal/egress/policy.go\<close> and the access policy of \<open>src/internal/agent/policy.go\<close>, with the
  comparison of two policies of \<open>config_apply.go\<close>.

  DNS and the network are parameters: \<open>lookup\<close> answers \<open>LookupNetIP\<close>, \<open>connect ip port\<close> answers
  \<open>DialContext\<close> with the remote address of the connection. \<open>dialTCP_attempts\<close> lists the addresses the
  dialer was asked for.
\<close>

subsection \<open>Blocked ports\<close>

definition blockedTCPPorts :: "int list" where
  "blockedTCPPorts = [25, 465, 587, 2525]"

definition BlockedTCPPort :: "int \<Rightarrow> bool" where
  "BlockedTCPPort port = list_ex (\<lambda>blocked. port = blocked) blockedTCPPorts"

definition BlockedTCPPorts :: string where
  "BlockedTCPPorts = join_with '','' (map Itoa blockedTCPPorts)"

subsection \<open>The compiled policy\<close>

record accessPolicy =
  p_allow :: "netip_Prefix list"
  p_deny :: "netip_Prefix list"
  p_ports :: "int list"      \<comment> \<open>the keys of the map\<close>

text \<open>The text of the library's own parse error, which follows the quoted value, is left out.\<close>

fun parse_prefixes :: "string \<Rightarrow> string list \<Rightarrow> error + netip_Prefix list" where
  "parse_prefixes kind [] = Inr []"
| "parse_prefixes kind (v # vs) =
     (case netip_ParsePrefix v of
        None \<Rightarrow> Inl (''invalid '' @ kind @ '' CIDR '' @ quoted v)
      | Some p \<Rightarrow> (case parse_prefixes kind vs of Inl e \<Rightarrow> Inl e | Inr ps \<Rightarrow> Inr (p # ps)))"

definition valid_port :: "int \<Rightarrow> bool" where
  "valid_port port = (1 \<le> port \<and> port \<le> 65535)"

definition compilePolicy :: "Agent \<Rightarrow> error + accessPolicy" where
  "compilePolicy agent =
     (case parse_prefixes ''allowed'' (ag_AllowedCIDRs agent) of
        Inl e \<Rightarrow> Inl e
      | Inr allow \<Rightarrow>
          (case parse_prefixes ''denied'' (ag_DeniedCIDRs agent) of
             Inl e \<Rightarrow> Inl e
           | Inr deny \<Rightarrow>
               (case find (\<lambda>port. \<not> valid_port port) (ag_AllowedPorts agent) of
                  Some port \<Rightarrow> Inl (''invalid allowed port '' @ Itoa port)
                | None \<Rightarrow>
                    if allow = [] then Inl ''access policy has no allowed CIDRs''
                    else Inr \<lparr>p_allow = allow, p_deny = deny, p_ports = ag_AllowedPorts agent\<rparr>)))"

definition contains :: "netip_Prefix list \<Rightarrow> netip_Addr \<Rightarrow> bool" where
  "contains prefixes address = list_ex (\<lambda>p. Prefix_Contains p address) prefixes"

definition port_listed :: "accessPolicy \<Rightarrow> int \<Rightarrow> bool" where
  "port_listed p port = (p_ports p = [] \<or> port \<in> set (p_ports p))"

definition address_allowed :: "accessPolicy \<Rightarrow> netip_Addr \<Rightarrow> bool" where
  "address_allowed p ip = (contains (p_allow p) ip \<and> \<not> contains (p_deny p) ip)"

definition candidates_for :: "(string \<Rightarrow> error + netip_Addr list) \<Rightarrow> string \<Rightarrow> error + netip_Addr list" where
  "candidates_for lookup host =
     (case netip_ParseAddr host of
        Some ip \<Rightarrow> Inr [Unmap ip]
      | None \<Rightarrow>
          (case lookup host of
             Inl e \<Rightarrow> Inl (''resolve target: '' @ e)
           | Inr ips \<Rightarrow> Inr (map Unmap ips)))"

definition resolve :: "(string \<Rightarrow> error + netip_Addr list) \<Rightarrow> accessPolicy \<Rightarrow> string \<Rightarrow> int \<Rightarrow> error + netip_Addr list" where
  "resolve lookup p host port =
     (if \<not> valid_port port then Inl ''invalid target port''
      else if \<not> port_listed p port then Inl ''target port is not allowed''
      else (case candidates_for lookup host of
              Inl e \<Rightarrow> Inl e
            | Inr ips \<Rightarrow>
                let allowed = filter (address_allowed p) ips in
                if allowed = [] then Inl ''target denied by access policy'' else Inr allowed))"

record TCPAddr =
  tcp_IP :: string      \<comment> \<open>the bytes of \<open>net.IP\<close>\<close>
  tcp_Port :: int

definition permitsTCP :: "accessPolicy \<Rightarrow> TCPAddr \<Rightarrow> bool" where
  "permitsTCP p address =
     (case AddrFromSlice (tcp_IP address) of
        None \<Rightarrow> False
      | Some ip \<Rightarrow>
          \<not> BlockedTCPPort (tcp_Port address) \<and> port_listed p (tcp_Port address) \<and> address_allowed p (Unmap ip))"

text \<open>The addresses are tried in order until one answers.\<close>

fun dial_first :: "(netip_Addr \<Rightarrow> int \<Rightarrow> error + 'c) \<Rightarrow> int \<Rightarrow> error \<Rightarrow> netip_Addr list \<Rightarrow> (error + 'c) \<times> netip_Addr list" where
  "dial_first connect port err [] = (Inl err, [])"
| "dial_first connect port err (a # as) =
     (case connect a port of
        Inr c \<Rightarrow> (Inr c, [a])
      | Inl e \<Rightarrow> (let (r, tried) = dial_first connect port e as in (r, a # tried)))"

definition dialTCP ::
  "(string \<Rightarrow> error + netip_Addr list) \<Rightarrow> (netip_Addr \<Rightarrow> int \<Rightarrow> error + 'c) \<Rightarrow> accessPolicy \<Rightarrow> string \<Rightarrow> int
   \<Rightarrow> (error + 'c) \<times> netip_Addr list" where
  "dialTCP lookup connect p host port =
     (if BlockedTCPPort port then (Inl (''target TCP port '' @ Itoa port @ '' denied by default policy''), [])
      else (case resolve lookup p host port of
              Inl e \<Rightarrow> (Inl e, [])
            | Inr addresses \<Rightarrow> dial_first connect port [] addresses))"

definition udpAddress :: "(string \<Rightarrow> error + netip_Addr list) \<Rightarrow> accessPolicy \<Rightarrow> string \<Rightarrow> int \<Rightarrow> error + netip_Addr \<times> 16 word" where
  "udpAddress lookup p host port =
     (case resolve lookup p host port of
        Inl e \<Rightarrow> Inl e
      | Inr addresses \<Rightarrow> Inr (hd addresses, word_of_int port))"

subsection \<open>Equality of policies\<close>

definition sameSet :: "'a list \<Rightarrow> 'a list \<Rightarrow> bool" where
  "sameSet left right =
     (let a = remdups left; b = remdups right
      in length a = length b \<and> list_all (\<lambda>v. v \<in> set b) a)"

definition sameAccessPolicy :: "Agent \<Rightarrow> Agent \<Rightarrow> bool" where
  "sameAccessPolicy left right =
     (case (compilePolicy left, compilePolicy right) of
        (Inr a, Inr b) \<Rightarrow>
          sameSet (map Masked (p_allow a)) (map Masked (p_allow b)) \<and>
          sameSet (map Masked (p_deny a)) (map Masked (p_deny b)) \<and>
          sameSet (ag_AllowedPorts left) (ag_AllowedPorts right)
      | _ \<Rightarrow> False)"

subsection \<open>Properties\<close>

lemma sameSet_iff [simp]: "sameSet xs ys \<longleftrightarrow> set xs = set ys"
proof
  assume "sameSet xs ys"
  then have "card (set xs) = card (set ys)" and sub: "set xs \<subseteq> set ys"
    by (auto simp: sameSet_def Let_def list_all_iff length_remdups_card_conv)
  then show "set xs = set ys" by (simp add: card_subset_eq)
next
  assume "set xs = set ys"
  then show "sameSet xs ys"
    by (auto simp: sameSet_def Let_def list_all_iff length_remdups_card_conv)
qed

lemma contains_Masked: "contains ps ip \<longleftrightarrow> (\<exists>p \<in> set (map Masked ps). Prefix_Contains p ip)"
  by (auto simp: contains_def list_ex_iff Contains_Masked)

lemma compilePolicy_Inr:
  "compilePolicy agent = Inr p \<longleftrightarrow>
     parse_prefixes ''allowed'' (ag_AllowedCIDRs agent) = Inr (p_allow p) \<and>
     parse_prefixes ''denied'' (ag_DeniedCIDRs agent) = Inr (p_deny p) \<and>
     list_all valid_port (ag_AllowedPorts agent) \<and> p_allow p \<noteq> [] \<and> p_ports p = ag_AllowedPorts agent"
  by (cases p) (auto simp: compilePolicy_def find_None_iff find_Some_iff list_all_iff split: sum.splits option.splits)

lemma sameAccessPolicy_obtain:
  assumes "sameAccessPolicy l r"
  obtains a b where "compilePolicy l = Inr a" and "compilePolicy r = Inr b"
    and "set (map Masked (p_allow a)) = set (map Masked (p_allow b))"
    and "set (map Masked (p_deny a)) = set (map Masked (p_deny b))"
    and "set (p_ports a) = set (p_ports b)"
  using assms by (auto simp: sameAccessPolicy_def compilePolicy_Inr split: sum.splits)


lemma dial_first_tried:
  "dial_first connect port err ips = (r, tried) \<Longrightarrow>
   set tried \<subseteq> set ips \<and> (\<forall>c. r = Inr c \<longrightarrow> (\<exists>ip \<in> set tried. connect ip port = Inr c))"
proof (induction ips arbitrary: err r tried)
  case (Cons a ips)
  show ?case
  proof (cases "connect a port")
    case (Inl e)
    obtain r' tried' where d: "dial_first connect port e ips = (r', tried')"
      by (cases "dial_first connect port e ips")
    with Inl Cons.prems have "r = r'" and "tried = a # tried'" by simp_all
    with Cons.IH [OF d] show ?thesis by auto
  next
    case (Inr c)
    with Cons.prems show ?thesis by auto
  qed
qed simp

lemma resolve_allowed:
  assumes "resolve lookup p host port = Inr ips"
  shows "valid_port port" and "port_listed p port" and "ips \<noteq> []" and "\<forall>ip \<in> set ips. address_allowed p ip"
  using assms by (auto simp: resolve_def Let_def split: if_splits sum.splits)



lemma policy_decisions:
  assumes "set (map Masked (p_allow a)) = set (map Masked (p_allow b))"
    and "set (map Masked (p_deny a)) = set (map Masked (p_deny b))"
    and "set (p_ports a) = set (p_ports b)"
  shows "address_allowed a = address_allowed b" and "port_listed a = port_listed b"
proof -
  show "address_allowed a = address_allowed b"
    using assms(1,2) by (simp add: fun_eq_iff address_allowed_def contains_Masked)
  have "p_ports a = [] \<longleftrightarrow> p_ports b = []"
    using assms(3) by (metis set_empty)
  then show "port_listed a = port_listed b"
    using assms(3) by (simp add: fun_eq_iff port_listed_def)
qed

definition policy_alike :: "accessPolicy \<Rightarrow> accessPolicy \<Rightarrow> bool" where
  "policy_alike p q \<longleftrightarrow> permitsTCP p = permitsTCP q \<and> (\<forall>lookup. resolve lookup p = resolve lookup q)"

lemma policy_alike_refl [simp]: "policy_alike p p"
  by (simp add: policy_alike_def)

lemma sameAccessPolicy_alike:
  assumes "sameAccessPolicy l r"
  shows "\<exists>a b. compilePolicy l = Inr a \<and> compilePolicy r = Inr b \<and> policy_alike a b"
proof -
  obtain a b where ab: "compilePolicy l = Inr a" "compilePolicy r = Inr b"
    and sets: "set (map Masked (p_allow a)) = set (map Masked (p_allow b))"
      "set (map Masked (p_deny a)) = set (map Masked (p_deny b))" "set (p_ports a) = set (p_ports b)"
    using assms by (rule sameAccessPolicy_obtain)
  note same = policy_decisions [OF sets]
  have "permitsTCP a = permitsTCP b"
    by (intro ext) (simp add: permitsTCP_def same split: option.split)
  moreover have "\<forall>lookup. resolve lookup a = resolve lookup b"
    by (intro allI ext) (simp add: resolve_def same split: sum.split)
  ultimately show ?thesis using ab unfolding policy_alike_def by blast
qed

text \<open>
  C34. Two agents whose policies \<open>sameAccessPolicy\<close> calls equal (comparing masked prefixes and ports
  as sets) have policies that compile and decide alike: the same established connections are
  permitted, and every target resolves to the same addresses. So a node that keeps its connections
  on an unchanged policy keeps none that the new policy forbids.
\<close>

theorem sameAccessPolicy_equivalent:
  assumes "sameAccessPolicy l r"
  shows "\<exists>a b. compilePolicy l = Inr a \<and> compilePolicy r = Inr b \<and> permitsTCP a = permitsTCP b \<and>
    (\<forall>lookup. resolve lookup a = resolve lookup b)"
  using sameAccessPolicy_alike [OF assms] unfolding policy_alike_def .

subsection \<open>Example\<close>

text \<open>A node that may reach a private network but not its management hosts, and the same policy written otherwise.\<close>

definition demo_exit :: Agent where
  "demo_exit = zero_Agent\<lparr>ag_AllowedCIDRs := [''10.0.0.0/8''], ag_DeniedCIDRs := [''10.0.9.0/24''],
     ag_AllowedPorts := [443, 25]\<rparr>"

definition demo_exit_rewritten :: Agent where
  "demo_exit_rewritten = zero_Agent\<lparr>ag_AllowedCIDRs := [''10.1.2.3/8''],
     ag_DeniedCIDRs := [''10.0.9.7/24''], ag_AllowedPorts := [25, 443, 443]\<rparr>"

definition demo_policy :: accessPolicy where
  "demo_policy = \<lparr>p_allow = [Prefix (IPv4 0x0A000000) 8],
     p_deny = [Prefix (IPv4 0x0A000900) 24], p_ports = [443, 25]\<rparr>"

lemma demo_exit_policy: "compilePolicy demo_exit = Inr demo_policy"
  by code_simp

theorem sameAccessPolicy_equivalent_witness:
  "sameAccessPolicy demo_exit demo_exit_rewritten \<and>
   (\<exists>a b. compilePolicy demo_exit = Inr a \<and> compilePolicy demo_exit_rewritten = Inr b \<and> permitsTCP a = permitsTCP b)"
proof -
  have "sameAccessPolicy demo_exit demo_exit_rewritten" by code_simp
  with sameAccessPolicy_equivalent [OF this] show ?thesis by blast
qed

text \<open>DNS answers with a denied and an allowed address; only the second is tried.\<close>

definition demo_lookup :: "string \<Rightarrow> error + netip_Addr list" where
  "demo_lookup host = Inr [IPv4 0x0A000907, IPv6 0xFFFF0A010203 []]"

definition demo_connect :: "netip_Addr \<Rightarrow> int \<Rightarrow> error + TCPAddr" where
  "demo_connect ip port = Inr \<lparr>tcp_IP = [CHR 0x0A, CHR 0x01, CHR 0x02, CHR 0x03], tcp_Port = port\<rparr>"


end
