(* ===== verification/Agent_Runtime.thy ===== *)
theory Agent_Runtime
  imports Access_Policy Node_Api
begin

text \<open>
  The exit node (\<open>src/internal/agent/agent.go\<close>, \<open>config_apply.go\<close>, \<open>reality.go\<close>): the configuration
  it took from the Controller and until when it may act on it, the workers that hold its tunnels,
  the client streams they carry, and the REALITY cores they dial through.

  Every function is one critical section under the runtime's lock. A \<open>context.CancelFunc\<close> is the
  number of its context: \<open>w_ctx\<close> of a worker, with \<open>sa_ctx\<close> of a stream the worker whose context
  its own derives from, so that cancelling a worker cancels its streams; \<open>sa_cancelled\<close> says that the
  context of the stream is done. \<open>sa_policy\<close> is the policy that \<open>handleStream\<close> holds in a local
  variable. \<open>configFingerprint\<close> is written and never read, and is left out.
\<close>

definition ConfigLease :: duration where
  "ConfigLease = 5 * minute"

record worker =
  w_ctx :: nat
  w_link :: AgentLinkConfig

record streamAuthorization =
  sa_linkID :: string
  sa_grantID :: string
  sa_target :: "TCPAddr option"
  sa_ctx :: nat
  sa_policy :: "accessPolicy option"
  sa_cancelled :: bool

record AgentRuntime =
  r_NodeID :: string
  r_parentGatewayID :: string
  r_TunnelListen :: string
  r_TunnelPath :: string
  r_config :: AgentConfig
  r_authorizationUntil :: gotime
  r_authorizationEpoch :: uint64
  r_workers :: "worker gomap"
  r_activeStreams :: "(nat \<times> streamAuthorization) list"
  r_statuses :: "LinkStatus gomap"
  r_realities :: "string gomap"
  r_contexts :: nat          \<comment> \<open>the contexts created so far\<close>
  r_slots :: nat             \<comment> \<open>the length of \<open>streamSlots\<close>\<close>
  r_slotLimit :: nat         \<comment> \<open>its capacity\<close>
  r_tcpConnections :: int
  r_udpAssociations :: int
  r_lastError :: string

definition zero_AgentConfig :: AgentConfig where
  "zero_AgentConfig = \<lparr>ac_AuditGrants = [], ac_Revision = 0, ac_Agent = zero_Agent, ac_Links = [], ac_GrantIDs = []\<rparr>"

definition New_agent :: "string \<Rightarrow> int \<Rightarrow> string \<Rightarrow> string \<Rightarrow> gotime \<Rightarrow> AgentRuntime" where
  "New_agent node maxStreams listen path now =
     (let limit = (if maxStreams \<le> 0 then 1024 else maxStreams)
      in \<lparr>r_NodeID = node, r_parentGatewayID = [], r_TunnelListen = listen, r_TunnelPath = path,
          r_config = zero_AgentConfig, r_authorizationUntil = now + ConfigLease, r_authorizationEpoch = 0,
          r_workers = [], r_activeStreams = [], r_statuses = [], r_realities = [], r_contexts = 0,
          r_slots = 0, r_slotLimit = nat limit, r_tcpConnections = 0, r_udpAssociations = 0, r_lastError = []\<rparr>)"

text \<open>The exit inside a gateway runs under the gateway's identity.\<close>

definition NewEmbedded :: "string \<Rightarrow> int \<Rightarrow> string \<Rightarrow> string \<Rightarrow> gotime \<Rightarrow> AgentRuntime" where
  "NewEmbedded parent maxStreams listen path now =
     (New_agent (GatewayAgentID parent) maxStreams listen path now)\<lparr>r_parentGatewayID := parent\<rparr>"

subsection \<open>Authorization\<close>

definition grant_listed :: "AgentLinkConfig list \<Rightarrow> string \<Rightarrow> string \<Rightarrow> bool" where
  "grant_listed links linkID i =
     list_ex (\<lambda>l. lk_ID (al_Link l) = linkID \<and> lk_Enabled (al_Link l) \<and> i \<in> set (al_GrantIDs l)) links"

definition grantAllowedLocked :: "gotime \<Rightarrow> AgentRuntime \<Rightarrow> string \<Rightarrow> string \<Rightarrow> bool" where
  "grantAllowedLocked now r linkID i =
     (if i = [] \<or> \<not> ag_Enabled (ac_Agent (r_config r)) \<or> \<not> now < r_authorizationUntil r then False
      else grant_listed (ac_Links (r_config r)) linkID i)"

text \<open>Cancelling contexts: the streams derived from them are cancelled too.\<close>

definition cancel_contexts :: "nat set \<Rightarrow> AgentRuntime \<Rightarrow> AgentRuntime" where
  "cancel_contexts cs r =
     r\<lparr>r_activeStreams := map (\<lambda>(n, s). (n, if sa_ctx s \<in> cs then s\<lparr>sa_cancelled := True\<rparr> else s)) (r_activeStreams r)\<rparr>"

definition closeReality :: "string \<Rightarrow> AgentRuntime \<Rightarrow> AgentRuntime" where
  "closeReality i r = r\<lparr>r_realities := mdel i (r_realities r)\<rparr>"

definition closeRealities :: "AgentRuntime \<Rightarrow> AgentRuntime" where
  "closeRealities r = r\<lparr>r_realities := []\<rparr>"

definition stream_retired :: "gotime \<Rightarrow> bool \<Rightarrow> AgentRuntime \<Rightarrow> streamAuthorization \<Rightarrow> bool" where
  "stream_retired now policyChanged r s =
     (\<not> grantAllowedLocked now r (sa_linkID s) (sa_grantID s) \<or>
      policyChanged \<and>
      (case (compilePolicy (ac_Agent (r_config r)), sa_target s) of
         (Inr p, Some t) \<Rightarrow> \<not> permitsTCP p t
       | _ \<Rightarrow> True))"

definition retireStreamsLocked :: "gotime \<Rightarrow> bool \<Rightarrow> AgentRuntime \<Rightarrow> AgentRuntime" where
  "retireStreamsLocked now policyChanged r =
     r\<lparr>r_activeStreams :=
         map (\<lambda>(n, s). (n, if stream_retired now policyChanged r s then s\<lparr>sa_cancelled := True\<rparr> else s)) (r_activeStreams r)\<rparr>"

definition worker_contexts :: "worker gomap \<Rightarrow> nat set" where
  "worker_contexts ws = set (map (\<lambda>(k, w). w_ctx w) ws)"

definition stop_all_workers :: "AgentRuntime \<Rightarrow> AgentRuntime" where
  "stop_all_workers r = (cancel_contexts (worker_contexts (r_workers r)) r)\<lparr>r_workers := []\<rparr>"

definition stopWorkers :: "AgentRuntime \<Rightarrow> AgentRuntime" where
  "stopWorkers r = closeRealities (stop_all_workers r)"

definition invalidateAuthorizationLocked :: "gotime \<Rightarrow> AgentRuntime \<Rightarrow> AgentRuntime" where
  "invalidateAuthorizationLocked now r =
     (let config = r_config r;
          r = r\<lparr>r_authorizationEpoch := r_authorizationEpoch r + 1,
                r_config := config\<lparr>ac_Agent := (ac_Agent config)\<lparr>ag_Enabled := False\<rparr>, ac_Links := [], ac_GrantIDs := []\<rparr>\<rparr>;
          r = stop_all_workers r;
          r = retireStreamsLocked now False r
      in closeRealities r)"

text \<open>One tick of \<open>watchAuthorization\<close>.\<close>

definition watch_tick :: "gotime \<Rightarrow> AgentRuntime \<Rightarrow> AgentRuntime" where
  "watch_tick now r =
     (if ag_Enabled (ac_Agent (r_config r)) \<and> \<not> now < r_authorizationUntil r
      then invalidateAuthorizationLocked now r else r)"

subsection \<open>Installing a configuration\<close>

definition sameTunnel :: "AgentLinkConfig \<Rightarrow> AgentLinkConfig \<Rightarrow> bool" where
  "sameTunnel left right =
     (let l = al_Link left; r = al_Link right in
      if \<not> (lk_ID l = lk_ID r \<and> lk_AttachmentID l = lk_AttachmentID r \<and> al_GatewayID left = al_GatewayID right \<and>
            lk_URL l = lk_URL r \<and> al_TunnelToken left = al_TunnelToken right \<and> lk_HTTPHost l = lk_HTTPHost r)
      then False
      else if has_prefix (lk_URL l) ''reality://''
      then lk_RealityUUID l = lk_RealityUUID r \<and> lk_RealityShortID l = lk_RealityShortID r \<and>
           al_RealityPublicKey left = al_RealityPublicKey right \<and> al_RealityName left = al_RealityName right
      else lk_TLSServerName l = lk_TLSServerName r \<and> lk_TLSVerify l = lk_TLSVerify r)"

definition linkConfigs :: "AgentLinkConfig list \<Rightarrow> AgentLinkConfig gomap" where
  "linkConfigs links = fold (\<lambda>l. mput (lk_ID (al_Link l)) l) links []"

text \<open>The key of a worker is the link's ID, a hash sign and the index of the connection.\<close>

definition worker_key :: "string \<Rightarrow> int \<Rightarrow> string" where
  "worker_key i n = i @ ''#'' @ Itoa n"

definition worker_retired :: "AgentConfig \<Rightarrow> AgentLinkConfig gomap \<Rightarrow> AgentLinkConfig gomap \<Rightarrow> string \<Rightarrow> bool" where
  "worker_retired config oldLinks nextLinks key =
     (case last_index CHR ''#'' key of
        None \<Rightarrow> \<not> ag_Enabled (ac_Agent config)
      | Some separator \<Rightarrow>
          (case (mget oldLinks (take separator key), mget nextLinks (take separator key), ParseInt (drop (Suc separator) key)) of
             (Some old, Some nxt, Some index) \<Rightarrow>
               \<not> ag_Enabled (ac_Agent config) \<or> \<not> lk_Enabled (al_Link nxt) \<or>
               lk_Connections (al_Link nxt) \<le> index \<or> \<not> sameTunnel old nxt
           | _ \<Rightarrow> True))"

definition reality_retired :: "AgentConfig \<Rightarrow> AgentLinkConfig gomap \<Rightarrow> string \<Rightarrow> AgentLinkConfig \<Rightarrow> bool" where
  "reality_retired config nextLinks i old =
     (case mget nextLinks i of
        None \<Rightarrow> True
      | Some nxt \<Rightarrow> \<not> ag_Enabled (ac_Agent config) \<or> \<not> lk_Enabled (al_Link nxt) \<or> \<not> sameTunnel old nxt)"

text \<open>The loop that cancels and deletes the workers failing a test on their key.\<close>

definition keep_workers :: "(string \<Rightarrow> bool) \<Rightarrow> AgentRuntime \<Rightarrow> AgentRuntime" where
  "keep_workers keep r =
     (cancel_contexts (worker_contexts (mkeep (\<lambda>k w. \<not> keep k) (r_workers r))) r)
       \<lparr>r_workers := mkeep (\<lambda>k w. keep k) (r_workers r)\<rparr>"

definition retireWorkersLocked :: "AgentConfig \<Rightarrow> AgentRuntime \<Rightarrow> AgentRuntime" where
  "retireWorkersLocked config r =
     (let oldLinks = linkConfigs (ac_Links (r_config r)); nextLinks = linkConfigs (ac_Links config);
          r = keep_workers (\<lambda>k. \<not> worker_retired config oldLinks nextLinks k) r
      in fold (\<lambda>(i, old) r. if reality_retired config nextLinks i old then closeReality i r else r) oldLinks r)"

definition normalize_link :: "AgentLinkConfig \<Rightarrow> AgentLinkConfig" where
  "normalize_link l = l\<lparr>al_GrantIDs := sort_slice (<) (al_GrantIDs l)\<rparr>"

definition normalize_config :: "AgentConfig \<Rightarrow> AgentConfig" where
  "normalize_config config =
     config\<lparr>ac_Links := sort_slice (\<lambda>a b. lk_ID (al_Link a) < lk_ID (al_Link b)) (map normalize_link (ac_Links config)),
            ac_GrantIDs := sort_slice (<) (ac_GrantIDs config)\<rparr>"

definition install_config :: "AgentConfig \<Rightarrow> gotime \<Rightarrow> AgentRuntime \<Rightarrow> AgentRuntime" where
  "install_config config now r =
     (let r = retireWorkersLocked config r;
          policyChanged = (\<not> sameAccessPolicy (ac_Agent (r_config r)) (ac_Agent config));
          links = linkConfigs (ac_Links config);
          r = r\<lparr>r_config := config, r_statuses := mkeep (\<lambda>i _. mget links i \<noteq> None) (r_statuses r),
                r_authorizationUntil := now + ConfigLease\<rparr>;
          r = retireStreamsLocked now policyChanged r
      in r\<lparr>r_lastError := []\<rparr>)"

definition accepted_config :: "AgentConfig \<Rightarrow> error + AgentConfig" where
  "accepted_config config =
     (if ag_Enabled (ac_Agent config)
      then (case compilePolicy (ac_Agent config) of Inl e \<Rightarrow> Inl e | Inr _ \<Rightarrow> Inr config)
      else Inr (config\<lparr>ac_Links := [], ac_GrantIDs := []\<rparr>))"

definition applyConfig :: "AgentConfig \<Rightarrow> uint64 \<Rightarrow> gotime \<Rightarrow> AgentRuntime \<Rightarrow> error + AgentRuntime" where
  "applyConfig config epoch now r =
     (if ag_ID (ac_Agent config) \<noteq> r_NodeID r then Inl ''controller returned another agent identity''
      else (case accepted_config config of
              Inl e \<Rightarrow> Inl e
            | Inr config \<Rightarrow>
                if epoch \<noteq> r_authorizationEpoch r
                then Inl ''authorization changed while applying configuration''
                else Inr (install_config (normalize_config config) now r)))"

text \<open>The tunnel to the gateway that hosts this exit goes over the loopback interface.\<close>

fun embedded_links :: "Env \<Rightarrow> AgentRuntime \<Rightarrow> AgentLinkConfig list \<Rightarrow> error + AgentLinkConfig list" where
  "embedded_links env r [] = Inr []"
| "embedded_links env r (l # ls) =
     (let rest = embedded_links env r ls in
      if al_GatewayID l \<noteq> r_parentGatewayID r then map_sum id (\<lambda>ls. l # ls) rest
      else (case e_SplitHostPort env (r_TunnelListen r) of
              None \<Rightarrow> Inl ''embedded tunnel address''
            | Some (host, port) \<Rightarrow>
                let host = (if host \<in> {[], ''0.0.0.0'', ''::''} then ''127.0.0.1'' else host);
                    url = ''ws://'' @ e_JoinHostPort env host port @ r_TunnelPath r;
                    l = l\<lparr>al_Link := (al_Link l)\<lparr>lk_URL := url, lk_HTTPHost := [], lk_TLSServerName := []\<rparr>\<rparr>
                in map_sum id (\<lambda>ls. l # ls) rest))"

text \<open>The Controller's answer is a configuration or an error with its status code (0 without one).\<close>

definition AuthorizationRejected :: "nat \<Rightarrow> bool" where
  "AuthorizationRejected code = (code = 401 \<or> code = 403)"

text \<open>\<open>refresh\<close> reads the epoch, asks the Controller, then applies the answer; \<open>epoch\<close> is the value read.\<close>

definition refresh :: "Env \<Rightarrow> nat \<times> error + AgentConfig \<Rightarrow> uint64 \<Rightarrow> AgentRuntime \<Rightarrow> error option \<times> AgentRuntime" where
  "refresh env fetched epoch r =
     (case fetched of
        Inl (code, e) \<Rightarrow> (Some e, if AuthorizationRejected code then invalidateAuthorizationLocked (e_now env) r else r)
      | Inr config \<Rightarrow>
          (case (if r_parentGatewayID r = [] then Inr (ac_Links config) else embedded_links env r (ac_Links config)) of
             Inl e \<Rightarrow> (Some e, r)
           | Inr links \<Rightarrow>
               (case applyConfig (config\<lparr>ac_Links := links\<rparr>) epoch (e_now env) r of
                  Inl e \<Rightarrow> (Some e, r)
                | Inr r \<Rightarrow> (None, r))))"

subsection \<open>Workers\<close>

definition desired_workers :: "AgentRuntime \<Rightarrow> AgentLinkConfig gomap" where
  "desired_workers r =
     (if ag_Enabled (ac_Agent (r_config r)) then
        fold (\<lambda>l m. fold (\<lambda>n. mput (worker_key (lk_ID (al_Link l)) n) l) [0..lk_Connections (al_Link l) - 1] m)
          (filter (\<lambda>l. lk_Enabled (al_Link l)) (ac_Links (r_config r))) []
      else [])"

definition start_worker :: "string \<times> AgentLinkConfig \<Rightarrow> AgentRuntime \<Rightarrow> AgentRuntime" where
  "start_worker kl r =
     (case mget (r_workers r) (fst kl) of
        Some _ \<Rightarrow> r
      | None \<Rightarrow>
          let i = lk_ID (al_Link (snd kl)) in
          r\<lparr>r_workers := mput (fst kl) \<lparr>w_ctx = r_contexts r, w_link = snd kl\<rparr> (r_workers r),
            r_contexts := Suc (r_contexts r),
            r_statuses := (case mget (r_statuses r) i of
                             Some _ \<Rightarrow> r_statuses r
                           | None \<Rightarrow> mput i (zero_LinkStatus\<lparr>ls_LinkID := i\<rparr>) (r_statuses r))\<rparr>)"

definition reconcile :: "AgentRuntime \<Rightarrow> AgentRuntime" where
  "reconcile r =
     (let desired = desired_workers r;
          r = keep_workers (\<lambda>k. mget desired k \<noteq> None) r
      in fold start_worker desired r)"

definition reconnectDelay :: "duration \<Rightarrow> gotime \<Rightarrow> gotime \<Rightarrow> duration" where
  "reconnectDelay previous readyAt now =
     (if \<not> IsZero readyAt \<and> 30 * second \<le> time_sub now readyAt then second else min previous (30 * second))"

text \<open>
  The waiting times of \<open>linkLoop\<close>: for every session that ended, when it became ready (zero for
  never) and when it ended.
\<close>

fun link_delays :: "duration \<Rightarrow> (gotime \<times> gotime) list \<Rightarrow> duration list" where
  "link_delays backoff [] = []"
| "link_delays backoff ((readyAt, ended) # ss) =
     (let wait = reconnectDelay backoff readyAt ended
      in wait # link_delays (min (wait * 2) (30 * second)) ss)"

subsection \<open>Streams\<close>

definition acquireStreamSlot :: "AgentRuntime \<Rightarrow> bool \<times> AgentRuntime" where
  "acquireStreamSlot r = (if r_slots r < r_slotLimit r then (True, r\<lparr>r_slots := Suc (r_slots r)\<rparr>) else (False, r))"

definition releaseStreamSlot :: "AgentRuntime \<Rightarrow> AgentRuntime" where
  "releaseStreamSlot r = r\<lparr>r_slots := r_slots r - 1\<rparr>"

text \<open>
  The first critical section of \<open>handleStream\<close>, for stream number \<open>n\<close> on the worker with context \<open>c\<close>:
  the context is not done while the worker is in the table.
\<close>

definition admit_stream :: "gotime \<Rightarrow> nat \<Rightarrow> nat \<Rightarrow> string \<Rightarrow> string \<Rightarrow> AgentRuntime \<Rightarrow> bool \<times> AgentRuntime" where
  "admit_stream now n c linkID grantID r =
     (if grantAllowedLocked now r linkID grantID \<and> c \<in> worker_contexts (r_workers r)
      then (True, r\<lparr>r_activeStreams := mput n
                       \<lparr>sa_linkID = linkID, sa_grantID = grantID, sa_target = None, sa_ctx = c, sa_policy = None,
                        sa_cancelled = False\<rparr> (r_activeStreams r)\<rparr>)
      else (False, r))"

text \<open>\<open>handleStream\<close> then compiles the policy, which the handler of the stream keeps.\<close>

definition stream_policy :: "nat \<Rightarrow> AgentRuntime \<Rightarrow> error + AgentRuntime" where
  "stream_policy n r =
     (case mget (r_activeStreams r) n of
        None \<Rightarrow> Inr r
      | Some s \<Rightarrow>
          (case compilePolicy (ac_Agent (r_config r)) of
             Inl _ \<Rightarrow> Inl ''agent access policy is invalid''
           | Inr p \<Rightarrow> Inr (r\<lparr>r_activeStreams := mput n (s\<lparr>sa_policy := Some p\<rparr>) (r_activeStreams r)\<rparr>)))"

text \<open>The check of \<open>handleTCP\<close> after the connection to \<open>address\<close> was made.\<close>

definition confirm_target :: "gotime \<Rightarrow> nat \<Rightarrow> string \<Rightarrow> string \<Rightarrow> TCPAddr \<Rightarrow> AgentRuntime \<Rightarrow> bool \<times> AgentRuntime" where
  "confirm_target now n linkID grantID address r =
     (case (mget (r_activeStreams r) n, compilePolicy (ac_Agent (r_config r))) of
        (Some s, Inr p) \<Rightarrow>
          if \<not> sa_cancelled s \<and> grantAllowedLocked now r linkID grantID \<and> permitsTCP p address
          then (True, r\<lparr>r_activeStreams := mput n (s\<lparr>sa_target := Some address\<rparr>) (r_activeStreams r)\<rparr>)
          else (False, r)
      | _ \<Rightarrow> (False, r))"

definition finish_stream :: "nat \<Rightarrow> AgentRuntime \<Rightarrow> AgentRuntime" where
  "finish_stream n r = r\<lparr>r_activeStreams := mdel n (r_activeStreams r)\<rparr>"

subsection \<open>Status\<close>

definition updateStatus :: "string \<Rightarrow> (LinkStatus \<Rightarrow> LinkStatus) \<Rightarrow> AgentRuntime \<Rightarrow> AgentRuntime" where
  "updateStatus linkID f r =
     (case mget (r_statuses r) linkID of
        None \<Rightarrow> r | Some s \<Rightarrow> r\<lparr>r_statuses := mput linkID (f s) (r_statuses r)\<rparr>)"

definition addTraffic :: "string \<Rightarrow> uint64 \<Rightarrow> uint64 \<Rightarrow> AgentRuntime \<Rightarrow> AgentRuntime" where
  "addTraffic linkID up down =
     updateStatus linkID (\<lambda>s. s\<lparr>ls_UploadBytes := ls_UploadBytes s + up, ls_DownloadBytes := ls_DownloadBytes s + down\<rparr>)"

definition session_ready :: "string \<Rightarrow> uint64 \<Rightarrow> gotime \<Rightarrow> AgentRuntime \<Rightarrow> AgentRuntime" where
  "session_ready linkID generation now =
     updateStatus linkID (\<lambda>s. s\<lparr>ls_Online := True, ls_Ready := True, ls_Generation := generation,
       ls_Connections := ls_Connections s + 1, ls_LastSuccess := now, ls_LastError := []\<rparr>)"

definition session_ended :: "string \<Rightarrow> AgentRuntime \<Rightarrow> AgentRuntime" where
  "session_ended linkID =
     updateStatus linkID (\<lambda>s.
       let s = (if 0 < ls_Connections s then s\<lparr>ls_Connections := ls_Connections s - 1\<rparr> else s)
       in if ls_Connections s = 0 then s\<lparr>ls_Online := False, ls_Ready := False\<rparr> else s)"

definition session_failed :: "string \<Rightarrow> error option \<Rightarrow> AgentRuntime \<Rightarrow> AgentRuntime" where
  "session_failed linkID err =
     updateStatus linkID (\<lambda>s. s\<lparr>ls_Online := False, ls_Ready := False,
       ls_LastError := (case err of None \<Rightarrow> ''session ended'' | Some e \<Rightarrow> e)\<rparr>)"

definition agent_report :: "AgentRuntime \<Rightarrow> string \<Rightarrow> string \<Rightarrow> gotime \<Rightarrow> NodeStatus \<times> LinkStatus list" where
  "agent_report r version instanceID now =
     (let links = mvals (r_statuses r) in
      (zero_NodeStatus\<lparr>ns_NodeID := r_NodeID r, ns_Role := RoleAgent, ns_BinaryVersion := version, ns_InstanceID := instanceID,
         ns_Online := True, ns_Ready := list_ex ls_Ready links, ns_DesiredVersion := ac_Revision (r_config r),
         ns_AppliedVersion := ac_Revision (r_config r), ns_LastSeen := now,
         ns_TunnelConnections := sum_list (map ls_Connections links), ns_TCPConnections := r_tcpConnections r,
         ns_UDPAssociations := r_udpAssociations r, ns_LastError := r_lastError r\<rparr>, links))"

text \<open>The Controller's refusal of a report ends the authorization.\<close>

definition report_answered :: "(nat \<times> error) option \<Rightarrow> gotime \<Rightarrow> AgentRuntime \<Rightarrow> AgentRuntime" where
  "report_answered response now r =
     (case response of
        Some (code, _) \<Rightarrow> if AuthorizationRejected code then invalidateAuthorizationLocked now r else r
      | None \<Rightarrow> r)"

end
