(* ===== verification/Agent_Invariant.thy ===== *)
theory Agent_Invariant
  imports Agent_Runtime
begin

text \<open>
  The exit node as a state machine: \<open>agent_step\<close> is one critical section of one of its goroutines
  (the poll and status loops, the watch of the lease, the tunnels and the client streams), in any
  order. The invariant \<open>agent_ok\<close> holds in every reachable state: a stream that is not cancelled is
  authorized by the configuration in force, and a worker holds a tunnel that the configuration asks
  for. The configurations that are fetched list every link once, as the Controller builds them from
  a map.
\<close>

definition link_ids :: "AgentLinkConfig list \<Rightarrow> string list" where
  "link_ids links = map (\<lambda>l. lk_ID (al_Link l)) links"

definition one_each :: "'e + AgentConfig \<Rightarrow> bool" where
  "one_each fetched = (case fetched of Inl _ \<Rightarrow> True | Inr config \<Rightarrow> distinct (link_ids (ac_Links config)))"

inductive agent_step :: "AgentRuntime \<Rightarrow> AgentRuntime \<Rightarrow> bool" where
  step_refresh: "one_each fetched \<Longrightarrow> agent_step r (snd (refresh env fetched epoch r))"
| step_apply:
    "distinct (link_ids (ac_Links config)) \<Longrightarrow> applyConfig config epoch now r = Inr r' \<Longrightarrow> agent_step r r'"
| step_watch: "agent_step r (watch_tick now r)"
| step_report: "agent_step r (report_answered response now r)"
| step_reconcile: "agent_step r (reconcile r)"
| step_stop: "agent_step r (stopWorkers r)"
| step_admit: "mget (r_activeStreams r) n = None \<Longrightarrow> agent_step r (snd (admit_stream now n c linkID grantID r))"
| step_policy: "stream_policy n r = Inr r' \<Longrightarrow> agent_step r r'"
| step_confirm:
    "mget (r_activeStreams r) n = Some s \<Longrightarrow>
     agent_step r (snd (confirm_target now n (sa_linkID s) (sa_grantID s) address r))"
| step_finish: "agent_step r (finish_stream n r)"
| step_slot: "agent_step r (snd (acquireStreamSlot r))"
| step_free: "agent_step r (releaseStreamSlot r)"
| step_status: "agent_step r (updateStatus linkID f r)"
| step_counters: "agent_step r (r\<lparr>r_tcpConnections := a, r_udpAssociations := b, r_lastError := e, r_realities := m\<rparr>)"

subsection \<open>The invariant\<close>

text \<open>What holds of a stream that is not cancelled, under the agent and the links configured.\<close>

definition target_ok :: "Agent \<Rightarrow> streamAuthorization \<Rightarrow> bool" where
  "target_ok agent s =
     (case (sa_target s, sa_policy s) of
        (Some t, _) \<Rightarrow> (\<exists>p. compilePolicy agent = Inr p \<and> permitsTCP p t)
      | (None, Some q) \<Rightarrow> (\<exists>p. compilePolicy agent = Inr p \<and> policy_alike p q)
      | (None, None) \<Rightarrow> True)"

definition stream_ok :: "AgentRuntime \<Rightarrow> streamAuthorization \<Rightarrow> bool" where
  "stream_ok r s \<longleftrightarrow>
     sa_ctx s \<in> worker_contexts (r_workers r) \<and> sa_grantID s \<noteq> [] \<and> ag_Enabled (ac_Agent (r_config r)) \<and>
     grant_listed (ac_Links (r_config r)) (sa_linkID s) (sa_grantID s) \<and> target_ok (ac_Agent (r_config r)) s"

definition streams_ok :: "AgentRuntime \<Rightarrow> bool" where
  "streams_ok r \<longleftrightarrow> (\<forall>(n, s) \<in> set (r_activeStreams r). \<not> sa_cancelled s \<longrightarrow> stream_ok r s)"

definition worker_ok :: "AgentConfig \<Rightarrow> string \<Rightarrow> worker \<Rightarrow> bool" where
  "worker_ok config k w \<longleftrightarrow>
     ag_Enabled (ac_Agent config) \<and>
     (\<exists>l \<in> set (ac_Links config). \<exists>n. k = worker_key (lk_ID (al_Link l)) n \<and> 0 \<le> n \<and> n < lk_Connections (al_Link l) \<and>
        lk_Enabled (al_Link l) \<and> sameTunnel (w_link w) l)"

definition workers_ok :: "AgentRuntime \<Rightarrow> bool" where
  "workers_ok r \<longleftrightarrow>
     mwf (r_workers r) \<and> distinct (link_ids (ac_Links (r_config r))) \<and>
     (\<forall>(k, w) \<in> set (r_workers r). worker_ok (r_config r) k w)"

lemma streams_okI: "(\<And>n s. (n, s) \<in> set (r_activeStreams r) \<Longrightarrow> \<not> sa_cancelled s \<Longrightarrow> stream_ok r s) \<Longrightarrow> streams_ok r"
  by (auto simp: streams_ok_def)

lemma streams_okD: "streams_ok r \<Longrightarrow> (n, s) \<in> set (r_activeStreams r) \<Longrightarrow> \<not> sa_cancelled s \<Longrightarrow> stream_ok r s"
  by (auto simp: streams_ok_def)

lemma set_mput_cases: "(k', v') \<in> set (mput k v m) \<Longrightarrow> (k', v') = (k, v) \<or> (k', v') \<in> set m"
  by (induction k v m rule: mput.induct) (auto split: if_splits)

lemma set_mput_sub: "set (mput k v m) \<subseteq> insert (k, v) (set m)"
  using set_mput_cases by fastforce

subsection \<open>Cancelling\<close>

lemma cancel_contexts_live:
  assumes "(n, s) \<in> set (r_activeStreams (cancel_contexts cs r))" and "\<not> sa_cancelled s"
  shows "(n, s) \<in> set (r_activeStreams r)" and "sa_ctx s \<notin> cs"
  using assms by (auto simp: cancel_contexts_def split: if_splits)

lemma cancel_contexts_sel [simp]:
  "r_config (cancel_contexts cs r) = r_config r" "r_workers (cancel_contexts cs r) = r_workers r"
  "r_authorizationUntil (cancel_contexts cs r) = r_authorizationUntil r"
  "r_authorizationEpoch (cancel_contexts cs r) = r_authorizationEpoch r"
  "r_NodeID (cancel_contexts cs r) = r_NodeID r" "r_statuses (cancel_contexts cs r) = r_statuses r"
  by (simp_all add: cancel_contexts_def)

lemma keep_workers_sel [simp]:
  "r_config (keep_workers keep r) = r_config r" "r_workers (keep_workers keep r) = mkeep (\<lambda>k w. keep k) (r_workers r)"
  "r_authorizationUntil (keep_workers keep r) = r_authorizationUntil r"
  "r_authorizationEpoch (keep_workers keep r) = r_authorizationEpoch r"
  "r_statuses (keep_workers keep r) = r_statuses r"
  by (simp_all add: keep_workers_def)

lemma worker_contexts_split:
  "worker_contexts ws \<subseteq> worker_contexts (mkeep (\<lambda>k w. P k) ws) \<union> worker_contexts (mkeep (\<lambda>k w. \<not> P k) ws)"
  by (auto simp: worker_contexts_def mkeep_def image_iff)

text \<open>The live streams are on the workers that stay.\<close>

lemma keep_workers_streams:
  assumes "streams_ok r"
  shows "streams_ok (keep_workers keep r)"
proof (rule streams_okI)
  fix n s
  assume a: "(n, s) \<in> set (r_activeStreams (keep_workers keep r))" and live: "\<not> sa_cancelled s"
  from a have in_r: "(n, s) \<in> set (r_activeStreams r)"
    and out: "sa_ctx s \<notin> worker_contexts (mkeep (\<lambda>k w. \<not> keep k) (r_workers r))"
    unfolding keep_workers_def using cancel_contexts_live [OF _ live] by simp_all
  have ok: "stream_ok r s" using assms in_r live by (rule streams_okD)
  then have "sa_ctx s \<in> worker_contexts (mkeep (\<lambda>k w. keep k) (r_workers r))"
    using out worker_contexts_split [of "r_workers r" keep] by (auto simp: stream_ok_def)
  with ok show "stream_ok (keep_workers keep r) s"
    by (simp add: stream_ok_def)
qed

subsection \<open>Preservation: streams\<close>

lemma streams_ok_fields [simp]:
  "streams_ok (r\<lparr>r_realities := m\<rparr>) = streams_ok r"
  "streams_ok (r\<lparr>r_statuses := st\<rparr>) = streams_ok r"
  "streams_ok (r\<lparr>r_slots := k\<rparr>) = streams_ok r"
  "streams_ok (r\<lparr>r_lastError := e\<rparr>) = streams_ok r"
  "streams_ok (r\<lparr>r_tcpConnections := a\<rparr>) = streams_ok r"
  "streams_ok (r\<lparr>r_udpAssociations := a\<rparr>) = streams_ok r"
  "streams_ok (r\<lparr>r_contexts := k\<rparr>) = streams_ok r"
  "streams_ok (r\<lparr>r_authorizationUntil := t\<rparr>) = streams_ok r"
  "streams_ok (r\<lparr>r_authorizationEpoch := d\<rparr>) = streams_ok r"
  by (simp_all add: streams_ok_def stream_ok_def)

lemma fold_closeReality:
  "\<exists>m. fold (\<lambda>(i, old) r. if P i old then closeReality i r else r) ls r = r\<lparr>r_realities := m\<rparr>"
proof (induction ls arbitrary: r)
  case Nil
  show ?case by (rule exI [of _ "r_realities r"]) simp
next
  case (Cons il ls)
  show ?case using Cons.IH [of r] Cons.IH [of "closeReality (fst il) r"]
    by (auto simp: closeReality_def case_prod_beta)
qed

lemma retireWorkersLocked_eq:
  "\<exists>m. retireWorkersLocked config r =
    (keep_workers (\<lambda>k. \<not> worker_retired config (linkConfigs (ac_Links (r_config r))) (linkConfigs (ac_Links config)) k) r)
      \<lparr>r_realities := m\<rparr>"
  unfolding retireWorkersLocked_def Let_def by (rule fold_closeReality)

lemma retireWorkersLocked_streams:
  assumes "streams_ok r"
  shows "streams_ok (retireWorkersLocked config r)"
proof -
  obtain m where m: "retireWorkersLocked config r =
    (keep_workers (\<lambda>k. \<not> worker_retired config (linkConfigs (ac_Links (r_config r))) (linkConfigs (ac_Links config)) k) r)
      \<lparr>r_realities := m\<rparr>" using retireWorkersLocked_eq by blast
  show ?thesis unfolding m by (simp add: keep_workers_streams assms)
qed

lemma retireWorkersLocked_sel:
  "r_config (retireWorkersLocked config r) = r_config r"
  "r_workers (retireWorkersLocked config r) =
     mkeep (\<lambda>k w. \<not> worker_retired config (linkConfigs (ac_Links (r_config r))) (linkConfigs (ac_Links config)) k) (r_workers r)"
  "r_authorizationEpoch (retireWorkersLocked config r) = r_authorizationEpoch r"
proof -
  obtain m where m: "retireWorkersLocked config r =
    (keep_workers (\<lambda>k. \<not> worker_retired config (linkConfigs (ac_Links (r_config r))) (linkConfigs (ac_Links config)) k) r)
      \<lparr>r_realities := m\<rparr>" using retireWorkersLocked_eq by blast
  show "r_config (retireWorkersLocked config r) = r_config r"
    "r_workers (retireWorkersLocked config r) =
     mkeep (\<lambda>k w. \<not> worker_retired config (linkConfigs (ac_Links (r_config r))) (linkConfigs (ac_Links config)) k) (r_workers r)"
    "r_authorizationEpoch (retireWorkersLocked config r) = r_authorizationEpoch r"
    unfolding m by simp_all
qed

lemma retireStreamsLocked_sel [simp]:
  "r_config (retireStreamsLocked now b r) = r_config r" "r_workers (retireStreamsLocked now b r) = r_workers r"
  "r_authorizationEpoch (retireStreamsLocked now b r) = r_authorizationEpoch r"
  "r_authorizationUntil (retireStreamsLocked now b r) = r_authorizationUntil r"
  by (simp_all add: retireStreamsLocked_def)

lemma retireStreamsLocked_live:
  assumes "(n, s) \<in> set (r_activeStreams (retireStreamsLocked now b r))" and "\<not> sa_cancelled s"
  shows "(n, s) \<in> set (r_activeStreams r)" and "\<not> stream_retired now b r s"
  using assms by (auto simp: retireStreamsLocked_def split: if_splits)

lemma target_ok_same:
  assumes "sameAccessPolicy a b" and "target_ok a s"
  shows "target_ok b s"
proof -
  obtain p q where "compilePolicy a = Inr p" and "compilePolicy b = Inr q" and "policy_alike p q"
    using sameAccessPolicy_alike [OF assms(1)] by blast
  with assms(2) show ?thesis
    by (auto simp: target_ok_def policy_alike_def split: option.splits)
qed

lemma not_retired:
  assumes "\<not> stream_retired now b r s"
  shows "sa_grantID s \<noteq> []" and "ag_Enabled (ac_Agent (r_config r))"
    and "grant_listed (ac_Links (r_config r)) (sa_linkID s) (sa_grantID s)"
    and "b \<Longrightarrow> target_ok (ac_Agent (r_config r)) s"
  using assms by (auto simp: stream_retired_def grantAllowedLocked_def target_ok_def split: if_splits sum.splits option.splits)

lemma install_config_streams:
  assumes "streams_ok r"
  shows "streams_ok (install_config config now r)"
proof -
  define r1 where "r1 = retireWorkersLocked config r"
  define changed where "changed = (\<not> sameAccessPolicy (ac_Agent (r_config r)) (ac_Agent config))"
  define r2 where "r2 = r1\<lparr>r_config := config,
    r_statuses := mkeep (\<lambda>i _. mget (linkConfigs (ac_Links config)) i \<noteq> None) (r_statuses r1),
    r_authorizationUntil := now + ConfigLease\<rparr>"
  have r1: "streams_ok r1" and old: "r_config r1 = r_config r"
    using retireWorkersLocked_streams [OF assms] by (simp_all add: r1_def retireWorkersLocked_sel)
  have "streams_ok (retireStreamsLocked now changed r2)"
  proof (rule streams_okI)
    fix n s
    assume a: "(n, s) \<in> set (r_activeStreams (retireStreamsLocked now changed r2))" and live: "\<not> sa_cancelled s"
    have in1: "(n, s) \<in> set (r_activeStreams r1)" and kept: "\<not> stream_retired now changed r2 s"
      using retireStreamsLocked_live [OF a live] by (simp_all add: r2_def)
    have ok: "stream_ok r1 s" using r1 in1 live by (rule streams_okD)
    have "target_ok (ac_Agent config) s"
    proof (cases changed)
      case True
      with not_retired(4) [OF kept] show ?thesis by (simp add: r2_def)
    next
      case False
      with ok old show ?thesis unfolding changed_def stream_ok_def using target_ok_same by metis
    qed
    with ok not_retired(1-3) [OF kept] show "stream_ok (retireStreamsLocked now changed r2) s"
      by (simp add: stream_ok_def r2_def)
  qed
  then show ?thesis
    by (simp add: install_config_def Let_def r1_def r2_def changed_def old [unfolded r1_def])
qed

lemma invalidate_no_streams:
  assumes "(n, s) \<in> set (r_activeStreams (invalidateAuthorizationLocked now r))"
  shows "sa_cancelled s"
  using assms
  by (auto simp: invalidateAuthorizationLocked_def Let_def closeRealities_def retireStreamsLocked_def stream_retired_def
      grantAllowedLocked_def stop_all_workers_def split: if_splits)

lemma invalidate_streams: "streams_ok (invalidateAuthorizationLocked now r)"
  by (rule streams_okI) (blast dest: invalidate_no_streams)

lemma applyConfig_Inr:
  assumes "applyConfig config epoch now r = Inr r'"
  obtains config' where "accepted_config config = Inr config'" and "r' = install_config (normalize_config config') now r"
  using assms by (auto simp: applyConfig_def split: if_splits sum.splits)

lemma refresh_cases:
  obtains "snd (refresh env fetched epoch r) = r"
  | "snd (refresh env fetched epoch r) = invalidateAuthorizationLocked (e_now env) r"
  | config links config' where "fetched = Inr config"
    "links = ac_Links config \<or> embedded_links env r (ac_Links config) = Inr links"
    "accepted_config (config\<lparr>ac_Links := links\<rparr>) = Inr config'"
    "snd (refresh env fetched epoch r) = install_config (normalize_config config') (e_now env) r"
proof -
  consider code e where "fetched = Inl (code, e)" | config where "fetched = Inr config"
    by (cases fetched) auto
  then show thesis
  proof cases
    case 1
    then show ?thesis using that(1,2) by (cases "AuthorizationRejected code") (simp_all add: refresh_def)
  next
    case (2 config)
    show ?thesis
    proof (cases "if r_parentGatewayID r = [] then Inr (ac_Links config) else embedded_links env r (ac_Links config)")
      case (Inl e)
      with 2 that(1) show ?thesis by (simp add: refresh_def)
    next
      case (Inr links)
      then have links: "links = ac_Links config \<or> embedded_links env r (ac_Links config) = Inr links"
        by (auto split: if_splits)
      show ?thesis
      proof (cases "applyConfig (config\<lparr>ac_Links := links\<rparr>) epoch (e_now env) r")
        case (Inl e)
        with 2 Inr that(1) show ?thesis by (simp add: refresh_def)
      next
        case Inr': (Inr r')
        from Inr' obtain config' where "accepted_config (config\<lparr>ac_Links := links\<rparr>) = Inr config'"
          and "r' = install_config (normalize_config config') (e_now env) r" by (rule applyConfig_Inr)
        with 2 Inr Inr' links that(3) show ?thesis by (simp add: refresh_def)
      qed
    qed
  qed
qed

lemma start_worker_streams:
  assumes "streams_ok r"
  shows "streams_ok (start_worker kl r)"
proof (cases "mget (r_workers r) (fst kl)")
  case None
  have "worker_contexts ws \<subseteq> worker_contexts (mput k w ws)" if "mget ws k = None" for k w and ws :: "worker gomap"
    using that by (induction k w ws rule: mput.induct) (auto simp: worker_contexts_def split: if_splits)
  from this [OF None] assms None show ?thesis
    by (fastforce simp: start_worker_def Let_def streams_ok_def stream_ok_def)
qed (simp add: start_worker_def assms)

lemma reconcile_streams:
  assumes "streams_ok r"
  shows "streams_ok (reconcile r)"
proof -
  have "streams_ok (fold start_worker kls r')" if "streams_ok r'" for kls r'
    using that by (induction kls arbitrary: r') (auto intro: start_worker_streams)
  then show ?thesis using assms by (simp add: reconcile_def Let_def keep_workers_streams)
qed

lemma stopWorkers_streams: "streams_ok r \<Longrightarrow> streams_ok (stopWorkers r)"
proof -
  assume "streams_ok r"
  then have "streams_ok (keep_workers (\<lambda>k. False) r)" by (rule keep_workers_streams)
  then show ?thesis
    by (simp add: stopWorkers_def stop_all_workers_def closeRealities_def keep_workers_def mkeep_def)
qed

text \<open>Changes of the stream table.\<close>

lemma streams_ok_put:
  assumes "streams_ok r" and "\<not> sa_cancelled s \<Longrightarrow> stream_ok r s"
  shows "streams_ok (r\<lparr>r_activeStreams := mput n s (r_activeStreams r)\<rparr>)"
proof (rule streams_okI)
  fix m t
  assume "(m, t) \<in> set (r_activeStreams (r\<lparr>r_activeStreams := mput n s (r_activeStreams r)\<rparr>))" and live: "\<not> sa_cancelled t"
  then consider "t = s" | "(m, t) \<in> set (r_activeStreams r)" by (auto dest: set_mput_cases)
  then have "stream_ok r t"
    using assms live by cases (auto dest: streams_okD)
  then show "stream_ok (r\<lparr>r_activeStreams := mput n s (r_activeStreams r)\<rparr>) t"
    by (simp add: stream_ok_def)
qed

lemma admit_stream_streams:
  assumes "streams_ok r"
  shows "streams_ok (snd (admit_stream now n c linkID grantID r))"
proof (cases "grantAllowedLocked now r linkID grantID \<and> c \<in> worker_contexts (r_workers r)")
  case True
  then show ?thesis
    by (auto simp: admit_stream_def stream_ok_def target_ok_def grantAllowedLocked_def intro!: streams_ok_put assms split: if_splits)
next
  case False
  then show ?thesis by (auto simp: admit_stream_def assms)
qed

lemma stream_policy_streams:
  assumes "streams_ok r" and "stream_policy n r = Inr r'"
  shows "streams_ok r'"
proof (cases "mget (r_activeStreams r) n")
  case (Some s)
  with assms(2) obtain p where p: "compilePolicy (ac_Agent (r_config r)) = Inr p"
    and r': "r' = r\<lparr>r_activeStreams := mput n (s\<lparr>sa_policy := Some p\<rparr>) (r_activeStreams r)\<rparr>"
    by (auto simp: stream_policy_def split: sum.splits)
  have "stream_ok r s" if "\<not> sa_cancelled s"
    using assms(1) mget_Some_in [OF Some] that by (rule streams_okD)
  with p show ?thesis unfolding r'
    by (intro streams_ok_put assms) (auto simp: stream_ok_def target_ok_def split: option.splits)
qed (use assms in \<open>simp add: stream_policy_def\<close>)

lemma confirm_target_streams:
  assumes "streams_ok r" and s: "mget (r_activeStreams r) n = Some s"
  shows "streams_ok (snd (confirm_target now n (sa_linkID s) (sa_grantID s) address r))"
proof (cases "fst (confirm_target now n (sa_linkID s) (sa_grantID s) address r)")
  case True
  with s obtain p where p: "compilePolicy (ac_Agent (r_config r)) = Inr p" "permitsTCP p address" and live: "\<not> sa_cancelled s"
    and eq: "snd (confirm_target now n (sa_linkID s) (sa_grantID s) address r) =
      r\<lparr>r_activeStreams := mput n (s\<lparr>sa_target := Some address\<rparr>) (r_activeStreams r)\<rparr>"
    by (auto simp: confirm_target_def split: sum.splits if_splits)
  have "stream_ok r s" using assms(1) mget_Some_in [OF s] live by (rule streams_okD)
  with p show ?thesis unfolding eq
    by (intro streams_ok_put assms) (auto simp: stream_ok_def target_ok_def)
next
  case False
  then have "snd (confirm_target now n (sa_linkID s) (sa_grantID s) address r) = r"
    using s by (auto simp: confirm_target_def split: sum.splits if_splits)
  with assms(1) show ?thesis by simp
qed

lemma finish_stream_streams: "streams_ok r \<Longrightarrow> streams_ok (finish_stream n r)"
  by (auto simp: finish_stream_def streams_ok_def stream_ok_def mdel_def)

lemma updateStatus_eq: "\<exists>m. updateStatus linkID f r = r\<lparr>r_statuses := m\<rparr>"
  by (cases "mget (r_statuses r) linkID") (auto simp: updateStatus_def intro: exI [of _ "r_statuses r"])

lemma watch_tick_cases: "watch_tick now r = r \<or> watch_tick now r = invalidateAuthorizationLocked now r"
  by (simp add: watch_tick_def)

lemma report_answered_cases: "report_answered response now r = r \<or> report_answered response now r = invalidateAuthorizationLocked now r"
  by (auto simp: report_answered_def split: option.splits)

lemma agent_step_streams:
  assumes "agent_step r r'" and "streams_ok r"
  shows "streams_ok r'"
  using assms
proof (cases rule: agent_step.cases)
  case (step_refresh fetched env epoch)
  show ?thesis unfolding step_refresh(1)
    by (rule refresh_cases [of env fetched epoch r]) (simp_all add: assms invalidate_streams install_config_streams)
next
  case (step_apply config epoch now)
  from step_apply(2) show ?thesis
    by (rule applyConfig_Inr) (simp add: assms(2) install_config_streams)
next
  case (step_watch now)
  then show ?thesis using watch_tick_cases [of now r] assms(2) invalidate_streams by auto
next
  case (step_report response now)
  then show ?thesis using report_answered_cases [of response now r] assms(2) invalidate_streams by auto
next
  case (step_status linkID f)
  then show ?thesis using updateStatus_eq [of linkID f r] assms(2) by auto
next
  case (step_policy n)
  with assms(2) show ?thesis by (auto intro: stream_policy_streams)
next
  case (step_slot)
  then show ?thesis using assms(2) by (simp add: acquireStreamSlot_def)
next
  case (step_free)
  then show ?thesis using assms(2) by (simp add: releaseStreamSlot_def)
qed (auto simp: assms(2) intro: reconcile_streams stopWorkers_streams admit_stream_streams stream_policy_streams
    confirm_target_streams finish_stream_streams)

subsection \<open>Preservation: workers\<close>

lemma sameTunnel_refl [simp]: "sameTunnel l l"
  by (simp add: sameTunnel_def Let_def)

lemma sameTunnel_ID: "sameTunnel a b \<Longrightarrow> lk_ID (al_Link a) = lk_ID (al_Link b)"
  by (simp add: sameTunnel_def Let_def split: if_splits)

lemma sameTunnel_trans: "sameTunnel a b \<Longrightarrow> sameTunnel b c \<Longrightarrow> sameTunnel a c"
  unfolding sameTunnel_def Let_def by (simp split: if_splits)

lemma mget_linkConfigs:
  assumes "distinct (link_ids ls)"
  shows "mget (linkConfigs ls) i = Some l \<longleftrightarrow> l \<in> set ls \<and> lk_ID (al_Link l) = i"
proof -
  let ?kvs = "map (\<lambda>l. (lk_ID (al_Link l), l)) ls"
  have keys: "distinct (map fst ?kvs)" using assms by (simp add: link_ids_def comp_def)
  have "linkConfigs ls = fold (\<lambda>(k, v). mput k v) ?kvs []"
    by (simp add: linkConfigs_def fold_map comp_def)
  then have "mget (linkConfigs ls) i = map_of ?kvs i"
    using alist_map.get_fold_put [OF keys, of "[]"] by (simp add: map_add_def split: option.splits)
  then show ?thesis using map_of_eq_Some_iff [OF keys] by auto
qed

lemma Itoa_no_hash: "CHR ''#'' \<notin> set (Itoa n)"
  using digit_chars_nat_digits [of "CHR ''#''"]
  by (auto simp: Itoa_def digit_val_def)

lemma index_byte_append: "c \<notin> set xs \<Longrightarrow> index_byte c (xs @ c # ys) = Some (length xs)"
  by (induction xs) (auto simp: index_byte_def)

lemma worker_key_split:
  "last_index CHR ''#'' (worker_key i n) = Some (length i)"
  "take (length i) (worker_key i n) = i" "drop (Suc (length i)) (worker_key i n) = Itoa n"
proof -
  have "index_byte CHR ''#'' (rev (worker_key i n)) = Some (length (Itoa n))"
    using index_byte_append [of "CHR ''#''" "rev (Itoa n)" "rev i"] Itoa_no_hash [of n]
    by (simp add: worker_key_def)
  then show "last_index CHR ''#'' (worker_key i n) = Some (length i)"
    by (simp add: last_index_def worker_key_def)
qed (simp_all add: worker_key_def)

lemma ParseInt_Itoa_Some: "ParseInt (Itoa i) = Some m \<Longrightarrow> m = i"
  using nat_digits_head [of "nat i"] nat_digits_head [of "nat (- i)"]
    digits_val_nat_digits [of "nat i"] digits_val_nat_digits [of "nat (- i)"]
  by (auto simp: ParseInt_def Itoa_def Let_def split: list.splits if_splits)

lemma worker_ok_kept:
  assumes ok: "worker_ok old k w" and d: "distinct (link_ids (ac_Links old))" "distinct (link_ids (ac_Links new))"
    and kept: "\<not> worker_retired new (linkConfigs (ac_Links old)) (linkConfigs (ac_Links new)) k"
  shows "worker_ok new k w"
proof -
  obtain l n where l: "l \<in> set (ac_Links old)" and k: "k = worker_key (lk_ID (al_Link l)) n" and n: "0 \<le> n"
    and same: "sameTunnel (w_link w) l" using ok by (auto simp: worker_ok_def)
  let ?i = "lk_ID (al_Link l)"
  have "mget (linkConfigs (ac_Links old)) ?i = Some l" using l by (simp add: mget_linkConfigs [OF d(1)])
  with kept obtain nxt index where nxt: "mget (linkConfigs (ac_Links new)) ?i = Some nxt"
    and index: "ParseInt (Itoa n) = Some index" "index < lk_Connections (al_Link nxt)"
    and on: "ag_Enabled (ac_Agent new)" "lk_Enabled (al_Link nxt)" "sameTunnel l nxt"
    by (auto simp: worker_retired_def k worker_key_split split: option.splits)
  have "nxt \<in> set (ac_Links new)" and "lk_ID (al_Link nxt) = ?i"
    using nxt by (simp_all add: mget_linkConfigs [OF d(2)])
  moreover have "index = n" using index(1) by (rule ParseInt_Itoa_Some)
  ultimately show ?thesis
    unfolding worker_ok_def using on n index(2) k sameTunnel_trans [OF same on(3)]
    by (intro conjI bexI [of _ nxt] exI [of _ n]) simp_all
qed

lemma set_mkeep: "set (mkeep P m) = {(k, v). (k, v) \<in> set m \<and> P k v}"
  by (auto simp: mkeep_def)

lemma install_config_workers:
  assumes "workers_ok r" and "distinct (link_ids (ac_Links config))"
  shows "workers_ok (install_config config now r)"
  using assms unfolding workers_ok_def
  by (auto simp: install_config_def Let_def retireWorkersLocked_sel set_mkeep intro: worker_ok_kept)

lemma normalize_distinct:
  "distinct (link_ids (ac_Links (normalize_config config))) = distinct (link_ids (ac_Links config))"
proof -
  have "mset (link_ids (ac_Links (normalize_config config))) = mset (link_ids (ac_Links config))"
    by (simp add: normalize_config_def link_ids_def normalize_link_def image_mset.compositionality comp_def)
  then show ?thesis by (rule mset_eq_imp_distinct_iff)
qed

lemma embedded_links_ids: "embedded_links env r ls = Inr ls' \<Longrightarrow> link_ids ls' = link_ids ls"
proof (induction ls arbitrary: ls')
  case (Cons l ls)
  then show ?case
    by (cases "embedded_links env r ls") (auto simp: link_ids_def Let_def split: if_splits option.splits)
qed (simp add: link_ids_def)

lemma accepted_distinct:
  "accepted_config config = Inr config' \<Longrightarrow> distinct (link_ids (ac_Links config)) \<Longrightarrow> distinct (link_ids (ac_Links config'))"
  by (auto simp: accepted_config_def link_ids_def split: if_splits sum.splits)

lemma invalidate_sel:
  "r_workers (invalidateAuthorizationLocked now r) = []" "ac_Links (r_config (invalidateAuthorizationLocked now r)) = []"
  "\<not> ag_Enabled (ac_Agent (r_config (invalidateAuthorizationLocked now r)))"
  "r_authorizationEpoch (invalidateAuthorizationLocked now r) = r_authorizationEpoch r + 1"
  by (simp_all add: invalidateAuthorizationLocked_def Let_def closeRealities_def stop_all_workers_def)

lemma invalidate_workers: "workers_ok (invalidateAuthorizationLocked now r)"
  by (simp add: workers_ok_def invalidate_sel link_ids_def)

lemma refresh_workers:
  assumes "workers_ok r" and "one_each fetched"
  shows "workers_ok (snd (refresh env fetched epoch r))"
proof (rule refresh_cases [of env fetched epoch r])
  fix config links config'
  assume f: "fetched = Inr config" and l: "links = ac_Links config \<or> embedded_links env r (ac_Links config) = Inr links"
    and c: "accepted_config (config\<lparr>ac_Links := links\<rparr>) = Inr config'"
    and eq: "snd (refresh env fetched epoch r) = install_config (normalize_config config') (e_now env) r"
  have "distinct (link_ids links)" using l assms(2) f embedded_links_ids by (auto simp: one_each_def)
  then have "distinct (link_ids (ac_Links config'))" using accepted_distinct [OF c] by simp
  then show ?thesis unfolding eq by (intro install_config_workers assms) (simp add: normalize_distinct)
qed (simp_all add: assms invalidate_workers)

lemma desired_member:
  assumes "(k, l) \<in> set (desired_workers r)"
  shows "ag_Enabled (ac_Agent (r_config r))" and "l \<in> set (ac_Links (r_config r))" and "lk_Enabled (al_Link l)"
    and "\<exists>n. k = worker_key (lk_ID (al_Link l)) n \<and> 0 \<le> n \<and> n < lk_Connections (al_Link l)"
proof -
  have inner: "(k, l) \<in> set m \<or> l = l' \<and> (\<exists>n \<in> set ns. k = worker_key (lk_ID (al_Link l)) n)"
    if "(k, l) \<in> set (fold (\<lambda>n. mput (worker_key (lk_ID (al_Link l')) n) l') ns m)" for l' ns m
    using that by (induction ns arbitrary: m) (auto dest!: set_mput_cases)
  have outer: "(k, l) \<in> set m \<or>
      l \<in> set ls \<and> (\<exists>n. k = worker_key (lk_ID (al_Link l)) n \<and> 0 \<le> n \<and> n < lk_Connections (al_Link l))"
    if "(k, l) \<in> set (fold (\<lambda>l m. fold (\<lambda>n. mput (worker_key (lk_ID (al_Link l)) n) l) [0..lk_Connections (al_Link l) - 1] m) ls m)"
    for ls m
    using that
  proof (induction ls arbitrary: m)
    case (Cons l' ls)
    from Cons.IH [OF Cons.prems [simplified]] show ?case by (auto dest!: inner)
  qed simp
  have on: "ag_Enabled (ac_Agent (r_config r))" using assms by (simp add: desired_workers_def split: if_splits)
  then show "ag_Enabled (ac_Agent (r_config r))" .
  from outer [OF assms [unfolded desired_workers_def, simplified on if_True]]
  show "l \<in> set (ac_Links (r_config r))" and "lk_Enabled (al_Link l)"
    and "\<exists>n. k = worker_key (lk_ID (al_Link l)) n \<and> 0 \<le> n \<and> n < lk_Connections (al_Link l)" by auto
qed

lemma desired_complete:
  assumes "ag_Enabled (ac_Agent (r_config r))" and "l \<in> set (ac_Links (r_config r))" and "lk_Enabled (al_Link l)"
    and "0 \<le> n" and "n < lk_Connections (al_Link l)"
  shows "mget (desired_workers r) (worker_key (lk_ID (al_Link l)) n) \<noteq> None"
proof -
  have grow: "mget (fold (\<lambda>n. mput (key n) v) ns m) k \<noteq> None" if "mget m k \<noteq> None \<or> k \<in> key ` set ns"
    for key v ns m and k :: string
    using that by (induction ns arbitrary: m) auto
  have "mget (fold (\<lambda>l m. fold (\<lambda>n. mput (worker_key (lk_ID (al_Link l)) n) l) [0..lk_Connections (al_Link l) - 1] m) ls m)
      (worker_key (lk_ID (al_Link l)) n) \<noteq> None"
    if "mget m (worker_key (lk_ID (al_Link l)) n) \<noteq> None \<or> l \<in> set ls" for ls m
    using that
  proof (induction ls arbitrary: m)
    case (Cons l' ls)
    have "mget (fold (\<lambda>n. mput (worker_key (lk_ID (al_Link l')) n) l') [0..lk_Connections (al_Link l') - 1] m)
        (worker_key (lk_ID (al_Link l)) n) \<noteq> None \<or> l \<in> set ls"
    proof (cases "l \<in> set ls")
      case False
      with Cons.prems have "mget m (worker_key (lk_ID (al_Link l)) n) \<noteq> None \<or> l = l'" by auto
      then have "mget m (worker_key (lk_ID (al_Link l)) n) \<noteq> None \<or>
          worker_key (lk_ID (al_Link l)) n \<in> worker_key (lk_ID (al_Link l')) ` set [0..lk_Connections (al_Link l') - 1]"
        using assms(4,5) by auto
      from grow [OF this] show ?thesis ..
    qed simp
    then show ?case by (simp only: fold_simps comp_apply) (rule Cons.IH)
  qed simp
  from this [of "[]" "filter (\<lambda>l. lk_Enabled (al_Link l)) (ac_Links (r_config r))"] assms(1-3) show ?thesis
    by (simp add: desired_workers_def)
qed

lemma start_worker_get:
  "mget (r_workers (start_worker kl r)) k =
     (case mget (r_workers r) k of
        Some w \<Rightarrow> Some w
      | None \<Rightarrow> if k = fst kl then Some \<lparr>w_ctx = r_contexts r, w_link = snd kl\<rparr> else None)"
  by (auto simp: start_worker_def Let_def split: option.splits)

lemma start_worker_config [simp]: "r_config (start_worker kl r) = r_config r"
  by (auto simp: start_worker_def Let_def split: option.splits)

text \<open>Starting the missing workers: every desired key has one, and every worker is an old one or runs a desired link.\<close>

lemma start_workers:
  fixes kls :: "(string \<times> AgentLinkConfig) list"
  assumes "mwf (r_workers r)"
  shows "r_config (fold start_worker kls r) = r_config r \<and> mwf (r_workers (fold start_worker kls r)) \<and>
    (\<forall>k w. mget (r_workers (fold start_worker kls r)) k = Some w \<longrightarrow>
      mget (r_workers r) k = Some w \<or> (k, w_link w) \<in> set kls) \<and>
    (\<forall>k. mget (r_workers (fold start_worker kls r)) k \<noteq> None \<longleftrightarrow> mget (r_workers r) k \<noteq> None \<or> k \<in> fst ` set kls)"
  using assms
proof (induction kls arbitrary: r)
  case (Cons kl kls)
  let ?r = "start_worker kl r"
  have "mwf (r_workers ?r)"
    using Cons.prems by (auto simp: start_worker_def Let_def split: option.splits)
  note IH = Cons.IH [OF this]
  have new: "mget (r_workers r) k = Some w \<or> (k, w_link w) = kl" if "mget (r_workers ?r) k = Some w" for k w
    using that by (cases kl) (auto simp: start_worker_get split: option.splits if_splits)
  have keys: "mget (r_workers ?r) k \<noteq> None \<longleftrightarrow> mget (r_workers r) k \<noteq> None \<or> k = fst kl" for k
    by (auto simp: start_worker_get split: option.splits)
  have eq: "fold start_worker (kl # kls) r = fold start_worker kls ?r" by simp
  have "\<forall>k w. mget (r_workers (fold start_worker kls ?r)) k = Some w \<longrightarrow>
      mget (r_workers r) k = Some w \<or> (k, w_link w) \<in> set (kl # kls)"
    using IH new by (metis list.set_intros)
  moreover have "\<forall>k. mget (r_workers (fold start_worker kls ?r)) k \<noteq> None \<longleftrightarrow>
      mget (r_workers r) k \<noteq> None \<or> k \<in> fst ` set (kl # kls)"
    using IH keys by (auto simp del: not_None_eq)
  ultimately show ?case unfolding eq using IH by simp
qed simp

lemma reconcile_get:
  assumes "mwf (r_workers r)"
  shows "r_config (reconcile r) = r_config r" and "mwf (r_workers (reconcile r))"
    and "mget (r_workers (reconcile r)) k = Some w \<Longrightarrow> mget (r_workers r) k = Some w \<or> (k, w_link w) \<in> set (desired_workers r)"
    and "mget (r_workers (reconcile r)) k \<noteq> None \<longleftrightarrow> mget (desired_workers r) k \<noteq> None"
proof -
  let ?keep = "keep_workers (\<lambda>k. mget (desired_workers r) k \<noteq> None) r"
  have eq: "reconcile r = fold start_worker (desired_workers r) ?keep"
    by (simp add: reconcile_def Let_def)
  have "mwf (r_workers ?keep)" using assms by (simp del: not_None_eq)
  note start = start_workers [OF this, of "desired_workers r", folded eq]
  have kept: "mget (r_workers ?keep) k = (if mget (desired_workers r) k \<noteq> None then mget (r_workers r) k else None)" for k
    by (simp del: not_None_eq)
  show "r_config (reconcile r) = r_config r" and "mwf (r_workers (reconcile r))" using start by simp_all
  show "mget (r_workers r) k = Some w \<or> (k, w_link w) \<in> set (desired_workers r)"
    if "mget (r_workers (reconcile r)) k = Some w"
    using start that kept [of k] by (metis option.distinct(1))
  have "k \<in> fst ` set (desired_workers r) \<longleftrightarrow> mget (desired_workers r) k \<noteq> None"
    by (simp add: mget_None_iff)
  then show "mget (r_workers (reconcile r)) k \<noteq> None \<longleftrightarrow> mget (desired_workers r) k \<noteq> None"
    using start kept [of k] by (auto simp del: not_None_eq)
qed

lemma workers_ok_get: "workers_ok r \<Longrightarrow> mget (r_workers r) k = Some w \<Longrightarrow> worker_ok (r_config r) k w"
  by (auto simp: workers_ok_def dest: mget_Some_in)

lemma reconcile_workers:
  assumes "workers_ok r"
  shows "workers_ok (reconcile r)"
proof -
  have wf: "mwf (r_workers r)" using assms by (simp add: workers_ok_def)
  have "worker_ok (r_config r) k w" if "mget (r_workers (reconcile r)) k = Some w" for k w
    using reconcile_get(3) [OF wf that]
  proof
    assume "mget (r_workers r) k = Some w"
    with assms show ?thesis by (rule workers_ok_get)
  next
    assume "(k, w_link w) \<in> set (desired_workers r)"
    from desired_member [OF this] show ?thesis
      unfolding worker_ok_def by (blast intro: sameTunnel_refl)
  qed
  then show ?thesis
    using assms reconcile_get(1,2) [OF wf] by (auto simp: workers_ok_def mget_in_iff)
qed

lemma agent_step_workers:
  assumes "agent_step r r'" and "workers_ok r"
  shows "workers_ok r'"
  using assms
proof (cases rule: agent_step.cases)
  case (step_refresh fetched env epoch)
  then show ?thesis using assms(2) by (simp add: refresh_workers)
next
  case (step_apply config epoch now)
  from step_apply(2) show ?thesis
    by (rule applyConfig_Inr)
      (simp add: assms(2) install_config_workers normalize_distinct accepted_distinct [OF _ step_apply(1)])
next
  case (step_watch now)
  then show ?thesis using watch_tick_cases [of now r] assms(2) invalidate_workers by auto
next
  case (step_report response now)
  then show ?thesis using report_answered_cases [of response now r] assms(2) invalidate_workers by auto
next
  case step_reconcile
  then show ?thesis using assms(2) by (simp add: reconcile_workers)
next
  case (step_status linkID f)
  then show ?thesis using updateStatus_eq [of linkID f r] assms(2) by (auto simp: workers_ok_def)
next
  case step_stop
  then show ?thesis using assms(2) by (simp add: workers_ok_def stopWorkers_def closeRealities_def stop_all_workers_def)
qed (use assms(2) in \<open>auto simp: workers_ok_def admit_stream_def stream_policy_def confirm_target_def finish_stream_def
      acquireStreamSlot_def releaseStreamSlot_def split: option.splits sum.splits if_splits\<close>)

abbreviation "agent_reachable start r \<equiv> agent_step\<^sup>*\<^sup>* start r"

lemma agent_start_ok:
  assumes "start = New_agent node m listen path t \<or> start = NewEmbedded node m listen path t"
  shows "streams_ok start" and "workers_ok start"
  using assms by (auto simp: streams_ok_def workers_ok_def New_agent_def NewEmbedded_def Let_def zero_AgentConfig_def link_ids_def)

lemma agent_reachable_ok:
  assumes "start = New_agent node m listen path t \<or> start = NewEmbedded node m listen path t"
    and "agent_reachable start r"
  shows "streams_ok r \<and> workers_ok r"
  using assms(2)
proof (induction rule: rtranclp_induct)
  case base
  show ?case using agent_start_ok [OF assms(1)] by simp
qed (blast intro: agent_step_streams agent_step_workers)

subsection \<open>Properties\<close>

text \<open>
  C3. In every state an exit node reaches, a client stream that is not cancelled is authorized by the
  configuration in force: the node is enabled, the stream's grant is listed on its enabled link, its
  tunnel's worker is running, the address it is connected to is permitted by the current access
  policy, and a stream that is not connected yet (or carries UDP) resolves targets as the current
  policy does.
\<close>

theorem live_streams_authorized:
  assumes "start = New_agent node m listen path t \<or> start = NewEmbedded node m listen path t"
    and "agent_reachable start r" and "(n, s) \<in> set (r_activeStreams r)" and "\<not> sa_cancelled s"
  shows "ag_Enabled (ac_Agent (r_config r)) \<and> grant_listed (ac_Links (r_config r)) (sa_linkID s) (sa_grantID s) \<and>
    sa_ctx s \<in> worker_contexts (r_workers r) \<and>
    (\<forall>address. sa_target s = Some address \<longrightarrow>
      (\<exists>p. compilePolicy (ac_Agent (r_config r)) = Inr p \<and> permitsTCP p address)) \<and>
    (\<forall>q. sa_target s = None \<and> sa_policy s = Some q \<longrightarrow>
      (\<exists>p. compilePolicy (ac_Agent (r_config r)) = Inr p \<and> (\<forall>lookup. resolve lookup p = resolve lookup q)))"
proof -
  have "stream_ok r s"
    using agent_reachable_ok [OF assms(1,2)] assms(3,4) by (blast dest: streams_okD)
  then show ?thesis by (auto simp: stream_ok_def target_ok_def policy_alike_def split: option.splits)
qed

text \<open>
  C22. After \<open>reconcile\<close> the workers are the ones the configuration asks for: one per connection of
  every enabled link of an enabled agent, and no other; and every worker, also one that was kept over
  several configurations, dials with the parameters the current configuration has for its link.
\<close>

theorem reconcile_exact:
  assumes "start = New_agent node m listen path t \<or> start = NewEmbedded node m listen path t"
    and "agent_reachable start r"
  shows "set (mkeys (r_workers (reconcile r))) =
      {worker_key (lk_ID (al_Link l)) i |l i. ag_Enabled (ac_Agent (r_config r)) \<and> l \<in> set (ac_Links (r_config r)) \<and>
         lk_Enabled (al_Link l) \<and> 0 \<le> i \<and> i < lk_Connections (al_Link l)} \<and>
    (\<forall>(k, w) \<in> set (r_workers (reconcile r)). \<exists>l \<in> set (ac_Links (r_config r)). sameTunnel (w_link w) l)"
proof
  have ok: "workers_ok r" using agent_reachable_ok [OF assms] by simp
  then have wf: "mwf (r_workers r)" by (simp add: workers_ok_def)
  have keys: "k \<in> set (mkeys (r_workers (reconcile r))) \<longleftrightarrow> mget (desired_workers r) k \<noteq> None" for k
    using reconcile_get(4) [OF wf, of k] by (simp add: mkeys_def mget_None_iff)
  show "set (mkeys (r_workers (reconcile r))) =
      {worker_key (lk_ID (al_Link l)) i |l i. ag_Enabled (ac_Agent (r_config r)) \<and> l \<in> set (ac_Links (r_config r)) \<and>
         lk_Enabled (al_Link l) \<and> 0 \<le> i \<and> i < lk_Connections (al_Link l)}"
    (is "?A = ?B")
  proof (intro set_eqI iffI)
    fix k
    assume "k \<in> ?A"
    then obtain l where "(k, l) \<in> set (desired_workers r)" using keys [of k] by (auto dest: mget_Some_in)
    from desired_member [OF this] show "k \<in> ?B" by blast
  next
    fix k
    assume "k \<in> ?B"
    then have "mget (desired_workers r) k \<noteq> None" using desired_complete by blast
    with keys show "k \<in> ?A" by simp
  qed
  show "\<forall>(k, w) \<in> set (r_workers (reconcile r)). \<exists>l \<in> set (ac_Links (r_config r)). sameTunnel (w_link w) l"
    using reconcile_workers [OF ok] reconcile_get(1) [OF wf] by (auto simp: workers_ok_def worker_ok_def)
qed

text \<open>
  C18. A node that cannot reach the Controller loses its authorization with its lease: from the time
  the lease runs out no grant is allowed, and the next tick of the watch stops every worker and cancels
  every stream. A configuration that was requested before that is refused when it arrives.
\<close>

theorem expired_lease_cuts_access:
  assumes "r_authorizationUntil r \<le> now" and "ag_Enabled (ac_Agent (r_config r))"
  shows "\<not> grantAllowedLocked now r linkID grantID \<and> r_workers (watch_tick now r) = [] \<and>
    list_all (\<lambda>(n, s). sa_cancelled s) (r_activeStreams (watch_tick now r)) \<and>
    (\<exists>e. applyConfig config (r_authorizationEpoch r) later (watch_tick now r) = Inl e)"
proof -
  have tick: "watch_tick now r = invalidateAuthorizationLocked now r"
    using assms by (simp add: watch_tick_def)
  have "r_authorizationEpoch r \<noteq> r_authorizationEpoch r + 1" by simp
  then have "\<exists>e. applyConfig config (r_authorizationEpoch r) later (watch_tick now r) = Inl e"
    unfolding tick applyConfig_def by (auto simp: invalidate_sel split: sum.split)
  moreover have "list_all (\<lambda>(n, s). sa_cancelled s) (r_activeStreams (watch_tick now r))"
    unfolding tick by (auto simp: list_all_iff dest: invalidate_no_streams)
  ultimately show ?thesis
    using assms(1) by (simp add: tick invalidate_sel grantAllowedLocked_def)
qed

text \<open>
  The waiting time between two sessions of a tunnel stays between one and thirty seconds, and
  it is one second after a session that was ready for at least thirty seconds.
\<close>

theorem link_delays_bounded:
  assumes "second \<le> backoff"
  shows "(\<forall>d \<in> set (link_delays backoff sessions). second \<le> d \<and> d \<le> 30 * second) \<and>
    (\<forall>i < length sessions. \<not> IsZero (fst (sessions ! i)) \<and> 30 * second \<le> time_sub (snd (sessions ! i)) (fst (sessions ! i))
       \<longrightarrow> link_delays backoff sessions ! i = second)"
  using assms
proof (induction sessions arbitrary: backoff)
  case (Cons s sessions)
  obtain readyAt ended where s: "s = (readyAt, ended)" by (cases s)
  let ?wait = "reconnectDelay backoff readyAt ended"
  have wait: "second \<le> ?wait" "?wait \<le> 30 * second" using Cons.prems by (auto simp: reconnectDelay_def)
  then have "second \<le> min (?wait * 2) (30 * second)" by simp
  note IH = Cons.IH [OF this]
  have eq: "link_delays backoff (s # sessions) = ?wait # link_delays (min (?wait * 2) (30 * second)) sessions"
    by (simp add: s Let_def)
  have "link_delays backoff (s # sessions) ! i = second"
    if "i < length (s # sessions)" and stable: "\<not> IsZero (fst ((s # sessions) ! i))"
      "30 * second \<le> time_sub (snd ((s # sessions) ! i)) (fst ((s # sessions) ! i))" for i
  proof (cases i)
    case 0
    with stable s show ?thesis by (simp add: eq reconnectDelay_def)
  next
    case (Suc j)
    with that IH show ?thesis by (simp add: eq)
  qed
  with IH wait show ?case unfolding eq by simp
qed simp

subsection \<open>Example\<close>

text \<open>
  A node with one link of two connections takes its configuration, opens the tunnels, admits a client
  stream and connects it.
\<close>

definition demo_link :: AgentLinkConfig where
  "demo_link = \<lparr>al_Link = zero_Link\<lparr>lk_ID := ''lnk_1'', lk_URL := ''wss://gw/tunnel'', lk_Connections := 2, lk_Enabled := True\<rparr>,
     al_GrantIDs = [''grt_2'', ''grt_1''], al_GatewayID = ''gw_1'', al_TunnelToken = ''token'', al_RealityPublicKey = [],
     al_RealityName = []\<rparr>"

definition demo_agent_config :: AgentConfig where
  "demo_agent_config = \<lparr>ac_AuditGrants = [], ac_Revision = 1,
     ac_Agent = demo_exit\<lparr>ag_ID := ''agt_1'', ag_Enabled := True\<rparr>, ac_Links = [demo_link], ac_GrantIDs = [''grt_1'', ''grt_2'']\<rparr>"

definition demo_target :: TCPAddr where
  "demo_target = \<lparr>tcp_IP = [CHR 0x0A, CHR 0x01, CHR 0x02, CHR 0x03], tcp_Port = 443\<rparr>"

definition agent_0 :: AgentRuntime where
  "agent_0 = New_agent ''agt_1'' 0 '''' '''' 0"

definition agent_1 :: AgentRuntime where
  "agent_1 = agent_0\<lparr>r_config := normalize_config demo_agent_config, r_authorizationUntil := 1 + ConfigLease\<rparr>"

definition agent_2 :: AgentRuntime where
  "agent_2 = reconcile agent_1"

definition demo_stream :: streamAuthorization where
  "demo_stream = \<lparr>sa_linkID = ''lnk_1'', sa_grantID = ''grt_1'', sa_target = None, sa_ctx = 0, sa_policy = None, sa_cancelled = False\<rparr>"

definition agent_3 :: AgentRuntime where
  "agent_3 = agent_2\<lparr>r_activeStreams := [(7, demo_stream)]\<rparr>"

definition agent_4 :: AgentRuntime where
  "agent_4 = agent_2\<lparr>r_activeStreams := [(7, demo_stream\<lparr>sa_target := Some demo_target\<rparr>)]\<rparr>"

lemma agent_1_eq: "applyConfig demo_agent_config 0 1 agent_0 = Inr agent_1"
  by code_simp

lemma agent_3_eq: "snd (admit_stream 2 7 0 ''lnk_1'' ''grt_1'' agent_2) = agent_3"
  by code_simp

lemma agent_4_eq: "snd (confirm_target 3 7 (sa_linkID demo_stream) (sa_grantID demo_stream) demo_target agent_3) = agent_4"
  by code_simp

lemma agent_2_reachable: "agent_reachable agent_0 agent_2"
proof -
  have "distinct (link_ids (ac_Links demo_agent_config))" by code_simp
  with agent_1_eq have "agent_step agent_0 agent_1" by (rule step_apply [rotated])
  moreover have "agent_step agent_1 agent_2" unfolding agent_2_def by (rule step_reconcile)
  ultimately show ?thesis by (meson converse_rtranclp_into_rtranclp rtranclp.rtrancl_refl)
qed

lemma agent_4_reachable: "agent_reachable agent_0 agent_4"
proof -
  have "mget (r_activeStreams agent_2) 7 = None" by code_simp
  then have "agent_step agent_2 agent_3" unfolding agent_3_eq [symmetric] by (rule step_admit)
  moreover have "mget (r_activeStreams agent_3) 7 = Some demo_stream" by (simp add: agent_3_def)
  then have "agent_step agent_3 agent_4" unfolding agent_4_eq [symmetric] by (rule step_confirm)
  ultimately show ?thesis using agent_2_reachable by (meson rtranclp.rtrancl_into_rtrancl)
qed

lemma agent_0_start: "agent_0 = New_agent ''agt_1'' 0 '''' '''' 0 \<or> agent_0 = NewEmbedded ''agt_1'' 0 '''' '''' 0"
  by (simp add: agent_0_def)

theorem live_streams_authorized_witness:
  "agent_reachable agent_0 agent_4 \<and>
   (\<exists>p. compilePolicy (ac_Agent (r_config agent_4)) = Inr p \<and> permitsTCP p demo_target) \<and>
   grant_listed (ac_Links (r_config agent_4)) ''lnk_1'' ''grt_1''"
proof -
  have "(7, demo_stream\<lparr>sa_target := Some demo_target\<rparr>) \<in> set (r_activeStreams agent_4)"
    and "\<not> sa_cancelled (demo_stream\<lparr>sa_target := Some demo_target\<rparr>)" by (simp_all add: agent_4_def demo_stream_def)
  note live = live_streams_authorized [OF agent_0_start agent_4_reachable this]
  then show ?thesis using agent_4_reachable by (simp add: demo_stream_def)
qed

theorem reconcile_exact_witness:
  "agent_reachable agent_0 agent_2 \<and> set (mkeys (r_workers (reconcile agent_2))) = {''lnk_1#0'', ''lnk_1#1''} \<and>
   {worker_key (lk_ID (al_Link l)) i |l i. ag_Enabled (ac_Agent (r_config agent_2)) \<and> l \<in> set (ac_Links (r_config agent_2)) \<and>
      lk_Enabled (al_Link l) \<and> 0 \<le> i \<and> i < lk_Connections (al_Link l)} = {''lnk_1#0'', ''lnk_1#1''}"
proof -
  have "set (mkeys (r_workers (reconcile agent_2))) = {''lnk_1#0'', ''lnk_1#1''}" by code_simp
  with reconcile_exact [OF agent_0_start agent_2_reachable] agent_2_reachable show ?thesis by simp
qed

theorem expired_lease_cuts_access_witness:
  "\<not> grantAllowedLocked (2 + ConfigLease) agent_4 ''lnk_1'' ''grt_1'' \<and> r_workers (watch_tick (2 + ConfigLease) agent_4) = [] \<and>
   list_all (\<lambda>(n, s). sa_cancelled s) (r_activeStreams (watch_tick (2 + ConfigLease) agent_4)) \<and>
   grantAllowedLocked 3 agent_4 ''lnk_1'' ''grt_1''"
proof -
  have "r_authorizationUntil agent_4 \<le> 2 + ConfigLease" and "ag_Enabled (ac_Agent (r_config agent_4))"
    and "grantAllowedLocked 3 agent_4 ''lnk_1'' ''grt_1''" by code_simp+
  with expired_lease_cuts_access [of agent_4 "2 + ConfigLease" "''lnk_1''" "''grt_1''"] show ?thesis by blast
qed

theorem link_delays_bounded_witness:
  "link_delays second [(0, 5), (0, 9), (10 * second, 50 * second), (0, 60 * second)] = [second, 2 * second, second, 2 * second] \<and>
   list_all (\<lambda>d. d \<le> 30 * second) [second, 2 * second, second, 2 * second]"
proof -
  have e: "link_delays second [(0, 5), (0, 9), (10 * second, 50 * second), (0, 60 * second)] = [second, 2 * second, second, 2 * second]"
    by code_simp
  have "second \<le> second" by simp
  from link_delays_bounded [OF this, of "[(0, 5), (0, 9), (10 * second, 50 * second), (0, 60 * second)]"] e show ?thesis
    by (simp only: e list_all_iff) blast
qed

end
