(* ===== verification/Audit_Log.thy ===== *)
theory Audit_Log
  imports Http
begin

text \<open>
  The audit logs of the Controller (\<open>src/internal/audit/events.go\<close>, \<open>store.go\<close>): per user a file
  that is appended to, compressed archives of full segments, a quota, and a sliding window of one
  minute over the events received.

  A directory is a map from file names to \<open>LogFile\<close>: the lines a reader of the file sees (an archive
  is decompressed) and its size on the disk. \<open>AuditEnv\<close> holds what the code takes from outside: the
  JSON text of an event, the size of a compressed segment, and the name of the next archive, which is
  made of the time and a random part. The files of the directory are plain files and the operating
  system's calls succeed. Readers take at most \<open>segmentBytes\<close> and 16 KiB of a file, which is all of
  it (\<open>content_bounded\<close>), so the limit does not appear in the model.
\<close>

definition DefaultLimitMB :: int where "DefaultLimitMB = 20"
definition MaxBatch :: nat where "MaxBatch = 256"
definition QueueSize :: nat where "QueueSize = 2048"
definition segmentBytes :: int where "segmentBytes = 1048576"
definition maxArchives :: nat where "maxArchives = 64"

record Event =
  ev_At :: gotime
  ev_GrantID :: string
  ev_Generation :: uint64
  ev_ConnectionID :: string
  ev_Kind :: string
  ev_Result :: string
  ev_Host :: string
  ev_IP :: string
  ev_IPs :: "string list"
  ev_Port :: int
  ev_Reason :: string
  ev_DurationMS :: int
  ev_ConnectMS :: int
  ev_UploadBytes :: uint64
  ev_DownloadBytes :: uint64
  ev_LinkID :: string
  ev_UserID :: string
  ev_UserName :: string
  ev_AgentID :: string
  ev_GatewayID :: string
  ev_ExitName :: string

definition zero_Event :: Event where
  "zero_Event = \<lparr>ev_At = 0, ev_GrantID = [], ev_Generation = 0, ev_ConnectionID = [], ev_Kind = [], ev_Result = [],
     ev_Host = [], ev_IP = [], ev_IPs = [], ev_Port = 0, ev_Reason = [], ev_DurationMS = 0, ev_ConnectMS = 0,
     ev_UploadBytes = 0, ev_DownloadBytes = 0, ev_LinkID = [], ev_UserID = [], ev_UserName = [], ev_AgentID = [],
     ev_GatewayID = [], ev_ExitName = []\<rparr>"

record Drop =
  dr_GrantID :: string
  dr_Generation :: uint64
  dr_Count :: uint64

record Batch =
  ba_Events :: "Event list"
  ba_Dropped :: "Drop list"

subsection \<open>The window\<close>

record Summary =
  sm_WindowSeconds :: int
  sm_Attempts :: uint64
  sm_Failures :: uint64
  sm_Targets :: nat
  sm_Ports :: nat
  sm_Dropped :: uint64
  sm_LastReceived :: gotime
  sm_Alerts :: "string list"

record bucket =
  bk_second :: int
  bk_attempts :: uint64
  bk_failures :: uint64
  bk_targets :: "string list"     \<comment> \<open>the keys of the map\<close>
  bk_ports :: "int list"

record window =
  wi_buckets :: "bucket list"     \<comment> \<open>the array of 60\<close>
  wi_dropped :: uint64
  wi_lastReceived :: gotime

definition new_bucket :: "int \<Rightarrow> bucket" where
  "new_bucket sec = \<lparr>bk_second = sec, bk_attempts = 0, bk_failures = 0, bk_targets = [], bk_ports = []\<rparr>"

definition zero_window :: window where
  "zero_window = \<lparr>wi_buckets = replicate 60 (new_bucket 0), wi_dropped = 0, wi_lastReceived = 0\<rparr>"

text \<open>Insertion into a map used as a set, below 128 keys.\<close>

definition note_key :: "'a \<Rightarrow> 'a list \<Rightarrow> 'a list" where
  "note_key k ks = (if length ks < 128 \<and> k \<notin> set ks then ks @ [k] else ks)"

definition count_event :: "Event \<Rightarrow> bucket \<Rightarrow> bucket" where
  "count_event e b =
     (let b = (if ev_Result e = ''attempt'' then
                 b\<lparr>bk_attempts := bk_attempts b + 1,
                   bk_targets := note_key (trim_suffix (to_lower (ev_Host e)) ''.'') (bk_targets b),
                   bk_ports := note_key (ev_Port e) (bk_ports b)\<rparr> else b)
      in if ev_Result e = ''failed'' \<or> ev_Result e = ''denied'' then b\<lparr>bk_failures := bk_failures b + 1\<rparr> else b)"

text \<open>Go's remainder has the sign of the dividend: the index is in range for times after 1970.\<close>

definition bucket_index :: "int \<Rightarrow> nat" where
  "bucket_index sec = nat (sec mod 60)"

definition window_add :: "Event \<Rightarrow> gotime \<Rightarrow> window \<Rightarrow> window" where
  "window_add e received w =
     (let w = w\<lparr>wi_lastReceived := received\<rparr> in
      if ev_Kind e \<noteq> ''tcp'' then w
      else
        let sec = time_unix received; i = bucket_index sec; b = wi_buckets w ! i;
            b = (if bk_second b \<noteq> sec then new_bucket sec else b)
        in w\<lparr>wi_buckets := (wi_buckets w)[i := count_event e b]\<rparr>)"

definition in_window :: "int \<Rightarrow> bucket \<Rightarrow> bool" where
  "in_window now b = (\<not> (bk_second b \<le> now - 60 \<or> now < bk_second b))"

definition window_summary :: "gotime \<Rightarrow> window \<Rightarrow> Summary" where
  "window_summary now w =
     (let bs = filter (in_window (time_unix now)) (wi_buckets w);
          attempts = sum_list (map bk_attempts bs); failures = sum_list (map bk_failures bs);
          targets = length (fold note_key (concat (map bk_targets bs)) []);
          ports = length (fold note_key (concat (map bk_ports bs)) []);
          alert = (\<lambda>c name. if c then [name] else [])
      in \<lparr>sm_WindowSeconds = 60, sm_Attempts = attempts, sm_Failures = failures, sm_Targets = targets, sm_Ports = ports,
          sm_Dropped = wi_dropped w, sm_LastReceived = wi_lastReceived w,
          sm_Alerts = alert (120 \<le> attempts) ''connections'' @ alert (30 \<le> failures) ''failures'' @
            alert (30 \<le> targets) ''targets'' @ alert (20 \<le> ports) ''ports''\<rparr>)"

subsection \<open>The files\<close>

record LogFile =
  lf_lines :: "string list"
  lf_size :: int

type_synonym Dir = "LogFile gomap"

record AuditEnv =
  ae_marshal :: "Event \<Rightarrow> error + string"
  ae_unmarshal :: "string \<Rightarrow> error + Event"
  ae_compressed :: "string list \<Rightarrow> int"
  ae_archive :: "Dir \<Rightarrow> string"       \<comment> \<open>time and random part of the next archive's name\<close>

record AuditStore =
  as_dirs :: "Dir gomap"
  as_windows :: "window gomap"

definition LimitBytes :: "int \<Rightarrow> int" where
  "LimitBytes mb = (let mb = (if mb \<le> 0 then DefaultLimitMB else mb) in mb * 1000000)"

definition userDir :: "string \<Rightarrow> error option" where
  "userDir user =
     (if user = [] \<or> 128 < length user \<or> \<not> list_all (\<lambda>c. alnum c \<or> c \<in> set ''_-'') user
      then Some ''invalid audit user'' else None)"

abbreviation "current \<equiv> ''current.jsonl''"

definition is_archive :: "string \<Rightarrow> bool" where
  "is_archive name = (has_prefix name ''archive-'' \<and> has_suffix name ''.jsonl.gz'')"

text \<open>The log files of a directory, in the order of their names.\<close>

definition files :: "Dir \<Rightarrow> (string \<times> LogFile) list" where
  "files d = sort_slice (\<lambda>a b. fst a < fst b) (filter (\<lambda>(name, f). name = current \<or> is_archive name) d)"

definition stored_bytes :: "(string \<times> LogFile) list \<Rightarrow> int" where
  "stored_bytes fs = sum_list (map (\<lambda>nf. lf_size (snd nf)) fs)"

definition archive_count :: "(string \<times> LogFile) list \<Rightarrow> nat" where
  "archive_count fs = length (filter (\<lambda>(name, f). name \<noteq> current) fs)"

text \<open>The loop of \<open>prune\<close> over the files: \<open>bytes\<close> bytes and \<open>archives\<close> are left.\<close>

fun prune_loop :: "int \<Rightarrow> (string \<times> LogFile) list \<Rightarrow> int \<Rightarrow> int \<Rightarrow> Dir \<Rightarrow> int \<times> Dir" where
  "prune_loop limit [] bytes archives d = (bytes, d)"
| "prune_loop limit ((name, f) # fs) bytes archives d =
     (if bytes \<le> limit \<and> archives \<le> int maxArchives then (bytes, d)
      else if name = current then prune_loop limit fs bytes archives d
      else prune_loop limit fs (bytes - lf_size f) (archives - 1) (mdel name d))"

definition prune :: "int \<Rightarrow> Dir \<Rightarrow> error option \<times> Dir" where
  "prune limit d =
     (let fs = files d; (bytes, d) = prune_loop limit fs (stored_bytes fs) (int (archive_count fs)) d
      in (if limit < bytes then Some ''audit quota exceeded'' else None, d))"

definition current_size :: "Dir \<Rightarrow> int" where
  "current_size d = (case mget d current of None \<Rightarrow> 0 | Some f \<Rightarrow> lf_size f)"

definition rotate_log :: "AuditEnv \<Rightarrow> Dir \<Rightarrow> error + Dir" where
  "rotate_log env d =
     (case mget d current of
        None \<Rightarrow> Inl ''no such file''
      | Some f \<Rightarrow>
          let name = ''archive-'' @ ae_archive env d @ ''.jsonl.gz'' in
          Inr (mdel current (mput name \<lparr>lf_lines = lf_lines f, lf_size = ae_compressed env (lf_lines f)\<rparr> d)))"

definition write_line :: "string \<Rightarrow> Dir \<Rightarrow> Dir" where
  "write_line line d =
     (let f = zget \<lparr>lf_lines = [], lf_size = 0\<rparr> d current
      in mput current \<lparr>lf_lines = lf_lines f @ [line], lf_size = lf_size f + int (length line) + 1\<rparr> d)"

text \<open>One round of the loop of \<open>Append\<close>; the line is stored with its newline.\<close>

definition append_event :: "AuditEnv \<Rightarrow> int \<Rightarrow> Event \<Rightarrow> Dir \<Rightarrow> error + Dir" where
  "append_event env limit e d =
     (case ae_marshal env e of
        Inl err \<Rightarrow> Inl err
      | Inr line \<Rightarrow>
          let len = int (length line) + 1; threshold = (if limit < segmentBytes then limit else segmentBytes) in
          if 16384 < len then Inl ''audit event too large''
          else (case (if 0 < current_size d \<and> threshold < current_size d + len then rotate_log env d else Inr d) of
                  Inl err \<Rightarrow> Inl err
                | Inr d \<Rightarrow> Inr (write_line line d)))"

fun append_events :: "AuditEnv \<Rightarrow> int \<Rightarrow> gotime \<Rightarrow> Event list \<Rightarrow> Dir \<times> window \<Rightarrow> error option \<times> Dir \<times> window" where
  "append_events env limit now [] dw = (None, dw)"
| "append_events env limit now (e # es) (d, w) =
     (case append_event env limit e d of
        Inl err \<Rightarrow> (Some err, d, w)
      | Inr d \<Rightarrow> append_events env limit now es (d, window_add e now w))"

definition note_drops :: "uint64 \<Rightarrow> gotime \<Rightarrow> window \<Rightarrow> window" where
  "note_drops dropped now w =
     (let w = w\<lparr>wi_dropped := wi_dropped w + dropped\<rparr>
      in if 0 < dropped then w\<lparr>wi_lastReceived := now\<rparr> else w)"

definition append_log :: "AuditEnv \<Rightarrow> int \<Rightarrow> Event list \<Rightarrow> gotime \<Rightarrow> Dir \<times> window \<Rightarrow> error option \<times> Dir \<times> window" where
  "append_log env limit events now dw =
     (case prune limit (fst dw) of
        (Some err, d) \<Rightarrow> (Some err, d, snd dw)
      | (None, d) \<Rightarrow>
          (case append_events env limit now events (d, snd dw) of
             (Some err, d, w) \<Rightarrow> (Some err, d, w)
           | (None, d, w) \<Rightarrow> (let (err, d) = prune limit d in (err, d, w))))"

definition Append_audit :: "AuditEnv \<Rightarrow> string \<Rightarrow> int \<Rightarrow> Event list \<Rightarrow> uint64 \<Rightarrow> gotime \<Rightarrow> AuditStore \<Rightarrow> error option \<times> AuditStore" where
  "Append_audit env user limit events dropped now s =
     (case userDir user of
        Some err \<Rightarrow> (Some err, s)
      | None \<Rightarrow>
          let w = note_drops dropped now (zget zero_window (as_windows s) user);
              s = s\<lparr>as_windows := mput user w (as_windows s)\<rparr>
          in if events = [] then (None, s)
             else let (err, d, w) = append_log env limit events now (zget [] (as_dirs s) user, w)
                  in (err, s\<lparr>as_dirs := mput user d (as_dirs s), as_windows := mput user w (as_windows s)\<rparr>))"

definition enforce_log :: "AuditEnv \<Rightarrow> int \<Rightarrow> Dir \<Rightarrow> error option \<times> Dir" where
  "enforce_log env limit d =
     (case (if limit < current_size d then rotate_log env d else Inr d) of
        Inl err \<Rightarrow> (Some err, d)
      | Inr d \<Rightarrow> prune limit d)"

definition Enforce :: "AuditEnv \<Rightarrow> string \<Rightarrow> int \<Rightarrow> AuditStore \<Rightarrow> error option \<times> AuditStore" where
  "Enforce env user limit s =
     (case userDir user of
        Some err \<Rightarrow> (Some err, s)
      | None \<Rightarrow>
          let (err, d) = enforce_log env limit (zget [] (as_dirs s) user)
          in (err, s\<lparr>as_dirs := mput user d (as_dirs s)\<rparr>))"

definition Clear_audit :: "string \<Rightarrow> AuditStore \<Rightarrow> error option \<times> AuditStore" where
  "Clear_audit user s =
     (case userDir user of
        Some err \<Rightarrow> (Some err, s)
      | None \<Rightarrow>
          let d = zget [] (as_dirs s) user; names = map fst (files d)
          in (None, s\<lparr>as_dirs := mput user (fold mdel names d) (as_dirs s), as_windows := mdel user (as_windows s)\<rparr>))"

subsection \<open>Reading\<close>

record Filter =
  fi_Host :: string
  fi_Port :: int
  fi_Result :: string
  fi_Limit :: int

record View =
  vw_Events :: "Event list"
  vw_StorageBytes :: int
  vw_LimitBytes :: int
  vw_Archives :: nat
  vw_Summary :: Summary

definition filter_matches :: "Filter \<Rightarrow> Event \<Rightarrow> bool" where
  "filter_matches f e =
     (\<not> (fi_Host f \<noteq> [] \<and> \<not> Contains (to_lower (ev_Host e)) (to_lower (fi_Host f)) \<and> \<not> Contains (ev_IP e) (fi_Host f)) \<and>
      \<not> (fi_Port f \<noteq> 0 \<and> ev_Port e \<noteq> fi_Port f \<or> fi_Result f \<noteq> [] \<and> ev_Result e \<noteq> fi_Result f))"

text \<open>The scan of one file keeps the last matching events, at most the limit.\<close>

fun scan_lines :: "AuditEnv \<Rightarrow> Filter \<Rightarrow> string list \<Rightarrow> Event list \<Rightarrow> error + Event list" where
  "scan_lines env f [] matches = Inr matches"
| "scan_lines env f (line # lines) matches =
     (case ae_unmarshal env line of
        Inl err \<Rightarrow> Inl (''invalid audit log: '' @ err)
      | Inr e \<Rightarrow>
          if \<not> filter_matches f e then scan_lines env f lines matches
          else let matches = matches @ [e]
               in scan_lines env f lines (if fi_Limit f < int (length matches) then tl matches else matches))"

text \<open>The files are read from the newest to the oldest, until enough events are found.\<close>

fun read_files :: "AuditEnv \<Rightarrow> Filter \<Rightarrow> (string \<times> LogFile) list \<Rightarrow> Event list \<Rightarrow> error + Event list" where
  "read_files env f [] acc = Inr acc"
| "read_files env f ((name, file) # fs) acc =
     (if fi_Limit f \<le> int (length acc) then Inr acc
      else (case scan_lines env f (lf_lines file) [] of
              Inl err \<Rightarrow> Inl err
            | Inr matches \<Rightarrow> read_files env f fs (acc @ take (nat (fi_Limit f) - length acc) (rev matches))))"

definition Read_audit :: "AuditEnv \<Rightarrow> string \<Rightarrow> int \<Rightarrow> Filter \<Rightarrow> gotime \<Rightarrow> AuditStore \<Rightarrow> error + View" where
  "Read_audit env user limit f now s =
     (case userDir user of
        Some err \<Rightarrow> Inl err
      | None \<Rightarrow>
          let fs = files (zget [] (as_dirs s) user);
              f = (if fi_Limit f \<le> 0 \<or> 200 < fi_Limit f then f\<lparr>fi_Limit := 200\<rparr> else f)
          in (case read_files env f (rev fs) [] of
                Inl err \<Rightarrow> Inl err
              | Inr es \<Rightarrow>
                  Inr \<lparr>vw_Events = es, vw_StorageBytes = stored_bytes fs, vw_LimitBytes = limit,
                       vw_Archives = archive_count fs,
                       vw_Summary = window_summary now (zget zero_window (as_windows s) user)\<rparr>))"

text \<open>The text that \<open>Export\<close> compresses: the log files one after the other.\<close>

definition Export_audit :: "string \<Rightarrow> AuditStore \<Rightarrow> error + string list" where
  "Export_audit user s =
     (case userDir user of
        Some err \<Rightarrow> Inl err
      | None \<Rightarrow> Inr (concat (map (\<lambda>(name, f). lf_lines f) (files (zget [] (as_dirs s) user)))))"

end
