(* ===== verification/Audit_Refinement.thy ===== *)
theory Audit_Refinement
  imports Audit_Log
begin

text \<open>
  What the files of an audit log amount to: the archived segments from the oldest to the newest, and
  the open segment. \<open>log_abs\<close> reads that off a directory; the operations of \<open>Audit_Log\<close> on the
  directory implement the operations on segments (\<open>add_line\<close>, \<open>keep_newest\<close>), under the condition that
  an archive gets a name after the names in use, which is what the time in the name is for.
\<close>

subsection \<open>The specification\<close>

record Segments =
  sg_closed :: "LogFile list"
  sg_open :: "LogFile option"

definition open_size :: "Segments \<Rightarrow> int" where
  "open_size g = (case sg_open g of None \<Rightarrow> 0 | Some f \<Rightarrow> lf_size f)"

definition all_lines :: "Segments \<Rightarrow> string list" where
  "all_lines g = concat (map lf_lines (sg_closed g)) @ (case sg_open g of None \<Rightarrow> [] | Some f \<Rightarrow> lf_lines f)"

definition used_bytes :: "LogFile list \<Rightarrow> Segments \<Rightarrow> int" where
  "used_bytes fs g = sum_list (map lf_size fs) + open_size g"

text \<open>Forget the oldest closed segments until the quota and the number of archives are met.\<close>

fun keep_newest :: "int \<Rightarrow> Segments \<Rightarrow> LogFile list \<Rightarrow> LogFile list" where
  "keep_newest limit g [] = []"
| "keep_newest limit g (f # fs) =
     (if used_bytes (f # fs) g \<le> limit \<and> length (f # fs) \<le> maxArchives then f # fs else keep_newest limit g fs)"

definition spec_prune :: "int \<Rightarrow> Segments \<Rightarrow> Segments" where
  "spec_prune limit g = g\<lparr>sg_closed := keep_newest limit g (sg_closed g)\<rparr>"

text \<open>Close the open segment.\<close>

definition close_segment :: "(string list \<Rightarrow> int) \<Rightarrow> Segments \<Rightarrow> Segments" where
  "close_segment compressed g =
     (case sg_open g of
        None \<Rightarrow> g
      | Some f \<Rightarrow> \<lparr>sg_closed = sg_closed g @ [\<lparr>lf_lines = lf_lines f, lf_size = compressed (lf_lines f)\<rparr>], sg_open = None\<rparr>)"

definition add_line :: "(string list \<Rightarrow> int) \<Rightarrow> int \<Rightarrow> string \<Rightarrow> Segments \<Rightarrow> Segments" where
  "add_line compressed limit line g =
     (let g = (if 0 < open_size g \<and> min limit segmentBytes < open_size g + int (length line) + 1
               then close_segment compressed g else g)
      in g\<lparr>sg_open := Some (case sg_open g of
            None \<Rightarrow> \<lparr>lf_lines = [line], lf_size = int (length line) + 1\<rparr>
          | Some f \<Rightarrow> \<lparr>lf_lines = lf_lines f @ [line], lf_size = lf_size f + int (length line) + 1\<rparr>)\<rparr>)"

definition spec_append :: "(string list \<Rightarrow> int) \<Rightarrow> int \<Rightarrow> string list \<Rightarrow> Segments \<Rightarrow> Segments" where
  "spec_append compressed limit lines g = spec_prune limit (fold (add_line compressed limit) lines (spec_prune limit g))"

subsection \<open>Reading a directory\<close>

definition archives_of :: "Dir \<Rightarrow> (string \<times> LogFile) list" where
  "archives_of d = sort_slice (\<lambda>a b. fst a < fst b) (filter (\<lambda>(name, f). is_archive name) d)"

definition open_of :: "Dir \<Rightarrow> (string \<times> LogFile) list" where
  "open_of d = (case mget d current of None \<Rightarrow> [] | Some f \<Rightarrow> [(current, f)])"

definition log_abs :: "Dir \<Rightarrow> Segments" where
  "log_abs d = \<lparr>sg_closed = map snd (archives_of d), sg_open = mget d current\<rparr>"

text \<open>
  A directory of the store: a file per name, the names of log files, no negative sizes, the open file
  as long as its lines and not empty, and no file with more text than a segment.
\<close>

definition text_bytes :: "string list \<Rightarrow> int" where
  "text_bytes lines = sum_list (map (\<lambda>l. int (length l) + 1) lines)"

definition dir_ok :: "Dir \<Rightarrow> bool" where
  "dir_ok d \<longleftrightarrow> mwf d \<and> (\<forall>(name, f) \<in> set d. (name = current \<or> is_archive name) \<and> 0 \<le> lf_size f \<and>
     text_bytes (lf_lines f) \<le> segmentBytes \<and> (name = current \<longrightarrow> lf_size f = text_bytes (lf_lines f) \<and> lf_lines f \<noteq> []))"

definition archive_name :: "AuditEnv \<Rightarrow> Dir \<Rightarrow> string" where
  "archive_name env d = ''archive-'' @ ae_archive env d @ ''.jsonl.gz''"

definition names_after :: "AuditEnv \<Rightarrow> bool" where
  "names_after env \<longleftrightarrow> (\<forall>d. \<forall>name \<in> set (mkeys d). is_archive name \<longrightarrow> name < archive_name env d)"

definition sizes_ok :: "AuditEnv \<Rightarrow> bool" where
  "sizes_ok env \<longleftrightarrow> (\<forall>lines. 0 \<le> ae_compressed env lines)"

lemma is_archive_less: "is_archive name \<Longrightarrow> name < current"
  by (auto simp: is_archive_def has_prefix_iff)

lemma current_not_archive [simp]: "\<not> is_archive current"
  by (simp add: is_archive_def has_prefix_def)

lemma is_archive_name [simp]: "is_archive (archive_name env d)"
  unfolding is_archive_def archive_name_def has_prefix_iff has_suffix_iff by (metis append.assoc)

text \<open>A list sorted by distinct keys is determined by its elements.\<close>

lemma keyed_sorted_unique:
  assumes "sorted_wrt (<) (map fst xs)" and "sorted_wrt (<) (map fst ys)" and "set xs = set ys"
  shows "xs = (ys :: (string \<times> 'a) list)"
proof -
  have keys: "map fst xs = map fst ys"
    using assms by (metis list.set_map strict_sorted_equal)
  have d: "distinct (map fst xs)" "distinct (map fst ys)" using assms(1,2) by (simp_all add: strict_sorted_iff)
  have "map_of xs = map_of ys" using d assms(3) by (simp add: map_of_inject_set)
  moreover have "zs = map (\<lambda>k. (k, the (map_of zs k))) (map fst zs)" if "distinct (map fst zs)" for zs :: "(string \<times> 'a) list"
    using that by (auto simp: comp_def intro!: map_idI [symmetric])
  ultimately show ?thesis using d keys by metis
qed

lemma sort_by_name:
  assumes "mwf (d :: (string \<times> 'a) list)"
  shows "sorted_wrt (<) (map fst (sort_slice (\<lambda>a b. fst a < fst b) (filter P d)))"
proof -
  let ?s = "sort_slice (\<lambda>a b. fst a < fst b) (filter P d)"
  have "weak_order (\<lambda>a b. fst a < (fst b :: string))" by (rule string_weak_order)
  then have "sorted_wrt (\<lambda>a b. \<not> fst b < fst a) ?s" by (rule weak_order.sorted_sort_slice)
  then have "sorted (map fst ?s)" by (simp add: sorted_map not_less)
  moreover have "mset (map fst ?s) = mset (map fst (filter P d))" by simp
  then have "distinct (map fst ?s)"
    using assms mset_eq_imp_distinct_iff mwf_filter [of d P] unfolding mwf_def by blast
  ultimately show ?thesis by (simp add: strict_sorted_iff)
qed

lemma dir_ok_wf: "dir_ok d \<Longrightarrow> mwf d"
  by (simp add: dir_ok_def)

lemma archives_sorted: "dir_ok d \<Longrightarrow> sorted_wrt (<) (map fst (archives_of d))"
  unfolding archives_of_def by (rule sort_by_name) (rule dir_ok_wf)

lemma archives_set: "set (archives_of d) = {(name, f). (name, f) \<in> set d \<and> is_archive name}"
  by (auto simp: archives_of_def)

lemma archives_unique:
  assumes "dir_ok d" and "sorted_wrt (<) (map fst xs)" and "set xs = {(name, f). (name, f) \<in> set d \<and> is_archive name}"
  shows "archives_of d = xs"
  using archives_sorted [OF assms(1)] assms(2) by (rule keyed_sorted_unique) (simp add: archives_set assms(3))

text \<open>The open file comes after the archives.\<close>

lemma files_split:
  assumes "dir_ok d"
  shows "files d = archives_of d @ open_of d"
proof (rule keyed_sorted_unique)
  show "sorted_wrt (<) (map fst (files d))"
    unfolding files_def by (rule sort_by_name) (rule dir_ok_wf [OF assms])
  show "sorted_wrt (<) (map fst (archives_of d @ open_of d))"
    using archives_sorted [OF assms] is_archive_less
    by (auto simp: sorted_wrt_append open_of_def archives_set split: option.splits)
  show "set (files d) = set (archives_of d @ open_of d)"
    using dir_ok_wf [OF assms] by (auto simp: files_def archives_set open_of_def mget_in_iff [symmetric] mget_None_iff split: option.splits)
qed

subsection \<open>Pruning\<close>

lemma prune_loop_spec:
  assumes "\<forall>nf \<in> set A. fst nf \<noteq> current" and "C = [] \<or> (\<exists>f. C = [(current, f)])"
    and "open_size g = stored_bytes C"
  shows "\<exists>k. k \<le> length A \<and> keep_newest limit g (map snd A) = map snd (drop k A) \<and>
    prune_loop limit (A @ C) (stored_bytes (A @ C)) (int (length A)) d =
      (stored_bytes (drop k A @ C), fold mdel (map fst (take k A)) d) \<and>
    (k = length A \<or> stored_bytes (drop k A @ C) \<le> limit \<and> length A - k \<le> maxArchives)"
  using assms
proof (induction A arbitrary: d)
  case Nil
  then show ?case by auto
next
  case (Cons nf A)
  obtain n f where nf: "nf = (n, f)" by (cases nf)
  have bytes: "stored_bytes (nf # A @ C) = used_bytes (f # map snd A) g"
    using Cons.prems(3) by (simp add: stored_bytes_def used_bytes_def nf comp_def)
  show ?case
  proof (cases "stored_bytes (nf # A @ C) \<le> limit \<and> Suc (length A) \<le> maxArchives")
    case True
    then show ?thesis using bytes by (intro exI [of _ 0]) (simp add: nf)
  next
    case False
    obtain k where k: "k \<le> length A" "keep_newest limit g (map snd A) = map snd (drop k A)"
      "prune_loop limit (A @ C) (stored_bytes (A @ C)) (int (length A)) (mdel n d) =
        (stored_bytes (drop k A @ C), fold mdel (map fst (take k A)) (mdel n d))"
      "k = length A \<or> stored_bytes (drop k A @ C) \<le> limit \<and> length A - k \<le> maxArchives"
      using Cons.IH [of "mdel n d"] Cons.prems by auto
    have step: "prune_loop limit ((n, f) # A @ C) (stored_bytes ((n, f) # A @ C)) (int (length (nf # A))) d =
        prune_loop limit (A @ C) (stored_bytes (A @ C)) (int (length A)) (mdel n d)"
      using False Cons.prems(1) by (auto simp: nf stored_bytes_def)
    show ?thesis using k False bytes step by (intro exI [of _ "Suc k"]) (auto simp: nf)
  qed
qed

lemma mget_fold_mdel: "mget (fold mdel ks d) k = (if k \<in> set ks then None else mget d k)"
  by (rule alist_map.get_fold_del)

lemma set_fold_mdel: "set (fold mdel ks d) = {(n, f). (n, f) \<in> set d \<and> n \<notin> set ks}"
  by (induction ks arbitrary: d) (auto simp: mdel_def)

lemma open_of_size: "stored_bytes (open_of d) = current_size d"
  by (simp add: stored_bytes_def open_of_def current_size_def split: option.split)

lemma open_size_abs [simp]: "open_size (log_abs d) = current_size d"
  by (simp add: open_size_def log_abs_def current_size_def)

lemma stored_nonneg: "dir_ok d \<Longrightarrow> set fs \<subseteq> set d \<Longrightarrow> 0 \<le> stored_bytes fs"
  by (induction fs) (auto simp: stored_bytes_def dir_ok_def)

lemma archive_count_split: "dir_ok d \<Longrightarrow> archive_count (archives_of d @ open_of d) = length (archives_of d)"
proof -
  have "filter (\<lambda>(n, f). n \<noteq> current) (archives_of d) = archives_of d"
    by (rule filter_True) (auto simp: archives_set)
  then show ?thesis by (simp add: archive_count_def open_of_def split: option.split)
qed

text \<open>\<open>prune\<close> implements \<open>spec_prune\<close>; it fails exactly when the open file alone exceeds the quota.\<close>

lemma prune_refines:
  assumes ok: "dir_ok d" and p: "prune limit d = (err, d')"
  shows "log_abs d' = spec_prune limit (log_abs d)" and "dir_ok d'" and "current_size d' = current_size d"
    and "err = None \<longleftrightarrow> current_size d \<le> limit"
    and "err = None \<Longrightarrow> stored_bytes (files d') \<le> limit \<and> archive_count (files d') \<le> maxArchives"
proof -
  let ?A = "archives_of d" and ?C = "open_of d"
  have "\<forall>nf \<in> set ?A. fst nf \<noteq> current" by (auto simp: archives_set)
  moreover have "?C = [] \<or> (\<exists>f. ?C = [(current, f)])" by (simp add: open_of_def split: option.split)
  ultimately obtain k where k: "k \<le> length ?A"
    and keep: "keep_newest limit (log_abs d) (map snd ?A) = map snd (drop k ?A)"
    and loop: "prune_loop limit (?A @ ?C) (stored_bytes (?A @ ?C)) (int (length ?A)) d =
      (stored_bytes (drop k ?A @ ?C), fold mdel (map fst (take k ?A)) d)"
    and fits: "k = length ?A \<or> stored_bytes (drop k ?A @ ?C) \<le> limit \<and> length ?A - k \<le> maxArchives"
    using prune_loop_spec [of ?A ?C "log_abs d" limit d] by (auto simp: open_of_size)
  have d': "d' = fold mdel (map fst (take k ?A)) d"
    and err: "err = (if limit < stored_bytes (drop k ?A @ ?C) then Some ''audit quota exceeded'' else None)"
    using p loop by (simp_all add: prune_def Let_def files_split [OF ok] archive_count_split [OF ok])
  have notin: "current \<notin> set (map fst (take k ?A))" by (auto simp: archives_set dest!: in_set_takeD)
  then have cur: "mget d' current = mget d current" by (simp add: d' mget_fold_mdel)
  show ok': "dir_ok d'"
    using ok by (auto simp: dir_ok_def d' set_fold_mdel intro!: alist_map.wf_fold_del)
  have "sorted_wrt (<) (map fst (take k ?A @ drop k ?A))" using archives_sorted [OF ok] by simp
  then have sorted: "sorted_wrt (<) (map fst (drop k ?A))"
    and apart: "n \<in> set (map fst (take k ?A)) \<Longrightarrow> n \<notin> set (map fst (drop k ?A))" for n
    by (fastforce simp: sorted_wrt_append simp del: append_take_drop_id)+
  have split: "set ?A = set (take k ?A) \<union> set (drop k ?A)" by (metis append_take_drop_id set_append)
  have "(n, f) \<in> set (drop k ?A) \<longleftrightarrow> (n, f) \<in> set d' \<and> is_archive n" for n f
  proof -
    have "(n, f) \<in> set ?A \<longleftrightarrow> (n, f) \<in> set d \<and> is_archive n" by (simp add: archives_set)
    moreover have "(n, f) \<in> set (drop k ?A) \<longleftrightarrow> (n, f) \<in> set ?A \<and> n \<notin> set (map fst (take k ?A))"
      using split apart [of n] by force
    ultimately show ?thesis unfolding d' set_fold_mdel by auto
  qed
  then have A': "archives_of d' = drop k ?A" by (intro archives_unique [OF ok' sorted]) auto
  show "log_abs d' = spec_prune limit (log_abs d)"
    using keep by (simp add: log_abs_def spec_prune_def A' cur)
  show size: "current_size d' = current_size d" by (simp add: current_size_def cur)
  have "open_of d' = ?C" by (simp add: open_of_def cur)
  then have fs: "files d' = drop k ?A @ ?C" by (simp add: files_split [OF ok'] A')
  have total: "stored_bytes (drop k ?A @ ?C) = stored_bytes (drop k ?A) + current_size d"
    by (simp add: open_of_size [symmetric]) (simp add: stored_bytes_def)
  have "0 \<le> stored_bytes (drop k ?A)" using ok by (rule stored_nonneg) (auto simp: archives_set dest: in_set_dropD)
  then show iff: "err = None \<longleftrightarrow> current_size d \<le> limit"
    using fits total by (auto simp: err stored_bytes_def)
  assume "err = None"
  then have "stored_bytes (files d') \<le> limit" using err fs by (auto split: if_splits)
  moreover have "archive_count (files d') \<le> maxArchives"
    using fits archive_count_split [OF ok'] A' by (auto simp: files_split [OF ok'])
  ultimately show "stored_bytes (files d') \<le> limit \<and> archive_count (files d') \<le> maxArchives" ..
qed

subsection \<open>Appending\<close>

lemma dir_okD:
  assumes "dir_ok d" and "mget d name = Some f"
  shows "name = current \<or> is_archive name" and "0 \<le> lf_size f" and "text_bytes (lf_lines f) \<le> segmentBytes"
    and "name = current \<Longrightarrow> lf_size f = text_bytes (lf_lines f) \<and> lf_lines f \<noteq> []"
  using assms mget_Some_in [OF assms(2)] by (auto simp: dir_ok_def)

lemma dir_ok_mget:
  "dir_ok d \<longleftrightarrow> mwf d \<and> (\<forall>name f. mget d name = Some f \<longrightarrow> (name = current \<or> is_archive name) \<and> 0 \<le> lf_size f \<and>
     text_bytes (lf_lines f) \<le> segmentBytes \<and> (name = current \<longrightarrow> lf_size f = text_bytes (lf_lines f) \<and> lf_lines f \<noteq> []))"
  by (cases "mwf d") (simp_all add: dir_ok_def mget_in_iff Ball_def split_paired_All)

lemma text_bytes_nonneg: "0 \<le> text_bytes lines"
  unfolding text_bytes_def by (rule sum_list_nonneg) auto

lemma text_bytes_pos: "lines \<noteq> [] \<Longrightarrow> 0 < text_bytes lines"
proof (cases lines)
  case (Cons l ls)
  with text_bytes_nonneg [of ls] show ?thesis by (simp add: text_bytes_def)
qed simp

lemma current_size_pos: "dir_ok d \<Longrightarrow> 0 < current_size d \<longleftrightarrow> mget d current \<noteq> None"
  using dir_okD [of d current] text_bytes_pos by (auto simp: current_size_def split: option.split)

text \<open>A file of another name does not change the archives.\<close>

lemma archives_of_cong:
  assumes "dir_ok d" and "dir_ok d'" and "\<And>name. is_archive name \<Longrightarrow> mget d' name = mget d name"
  shows "archives_of d' = archives_of d"
  using assms(2) archives_sorted [OF assms(1)]
proof (rule archives_unique)
  show "set (archives_of d) = {(name, f). (name, f) \<in> set d' \<and> is_archive name}"
    using assms(3) by (auto simp: archives_set mget_in_iff [OF dir_ok_wf [OF assms(1)], symmetric]
        mget_in_iff [OF dir_ok_wf [OF assms(2)], symmetric])
qed

lemma rotate_refines:
  assumes ok: "dir_ok d" and names: "names_after env" and sizes: "sizes_ok env" and f: "mget d current = Some f"
  obtains d' where "rotate_log env d = Inr d'" and "dir_ok d'" and "mget d' current = None"
    and "log_abs d' = close_segment (ae_compressed env) (log_abs d)"
proof -
  let ?n = "archive_name env d" and ?f = "\<lparr>lf_lines = lf_lines f, lf_size = ae_compressed env (lf_lines f)\<rparr>"
  define d' where "d' = mdel current (mput ?n ?f d)"
  have eq: "rotate_log env d = Inr d'" using f by (simp add: rotate_log_def Let_def d'_def archive_name_def)
  have after: "name < ?n" if "mget d name = Some g" "is_archive name" for name g
    using names mget_key_in [OF that(1)] that(2) by (auto simp: names_after_def)
  have ne: "?n \<noteq> current" using is_archive_name [of env d] by (metis current_not_archive)
  have get: "mget d' name = (if name = current then None else if name = ?n then Some ?f else mget d name)" for name
    by (simp add: d'_def)
  have ok': "dir_ok d'"
    unfolding dir_ok_mget using ok dir_okD [OF ok f] sizes ne
    by (auto simp: d'_def dir_ok_mget sizes_ok_def split: if_splits)
  have A: "archives_of d' = archives_of d @ [(?n, ?f)]"
    using ok'
  proof (rule archives_unique)
    show "sorted_wrt (<) (map fst (archives_of d @ [(?n, ?f)]))"
      using archives_sorted [OF ok] after
      by (auto simp: sorted_wrt_append archives_set mget_in_iff [OF dir_ok_wf [OF ok], symmetric])
    show "set (archives_of d @ [(?n, ?f)]) = {(name, g). (name, g) \<in> set d' \<and> is_archive name}"
      using after [of ?n] ne by (auto simp: archives_set mget_in_iff [OF dir_ok_wf [OF ok], symmetric]
          mget_in_iff [OF dir_ok_wf [OF ok'], symmetric] get split: if_splits)
  qed
  have "log_abs d' = close_segment (ae_compressed env) (log_abs d)"
    by (simp add: log_abs_def close_segment_def A f get)
  with that eq ok' get show thesis by simp
qed

definition short_line :: "AuditEnv \<Rightarrow> Event \<Rightarrow> bool" where
  "short_line env e = (case ae_marshal env e of Inl _ \<Rightarrow> False | Inr line \<Rightarrow> length line < 16384)"

definition line_of :: "AuditEnv \<Rightarrow> Event \<Rightarrow> string" where
  "line_of env e = (case ae_marshal env e of Inl _ \<Rightarrow> [] | Inr line \<Rightarrow> line)"

lemma write_line_refines:
  assumes ok: "dir_ok d" and fits: "current_size d + int (length line) + 1 \<le> segmentBytes"
  shows "dir_ok (write_line line d)" and "current_size (write_line line d) = current_size d + int (length line) + 1"
    and "log_abs (write_line line d) = (log_abs d)\<lparr>sg_open := Some (case sg_open (log_abs d) of
            None \<Rightarrow> \<lparr>lf_lines = [line], lf_size = int (length line) + 1\<rparr>
          | Some f \<Rightarrow> \<lparr>lf_lines = lf_lines f @ [line], lf_size = lf_size f + int (length line) + 1\<rparr>)\<rparr>"
proof -
  show ok': "dir_ok (write_line line d)"
  proof (cases "mget d current")
    case None
    with ok fits show ?thesis
      by (auto simp: dir_ok_mget write_line_def Let_def zget_def current_size_def text_bytes_def)
  next
    case (Some f)
    with ok fits dir_okD [OF ok Some] show ?thesis
      by (auto simp: dir_ok_mget write_line_def Let_def zget_def current_size_def text_bytes_def)
  qed
  show "current_size (write_line line d) = current_size d + int (length line) + 1"
    by (simp add: current_size_def write_line_def Let_def zget_def split: option.split)
  have "archives_of (write_line line d) = archives_of d"
    using ok ok' by (rule archives_of_cong) (auto simp: write_line_def Let_def)
  then show "log_abs (write_line line d) = (log_abs d)\<lparr>sg_open := Some (case sg_open (log_abs d) of
            None \<Rightarrow> \<lparr>lf_lines = [line], lf_size = int (length line) + 1\<rparr>
          | Some f \<Rightarrow> \<lparr>lf_lines = lf_lines f @ [line], lf_size = lf_size f + int (length line) + 1\<rparr>)\<rparr>"
    by (simp add: log_abs_def write_line_def Let_def zget_def split: option.split)
qed

lemma append_event_refines:
  assumes ok: "dir_ok d" and names: "names_after env" and sizes: "sizes_ok env" and short: "short_line env e"
    and limit: "16384 \<le> limit" "current_size d \<le> limit"
  obtains d' where "append_event env limit e d = Inr d'" and "dir_ok d'" and "current_size d' \<le> limit"
    and "log_abs d' = add_line (ae_compressed env) limit (line_of env e) (log_abs d)"
proof -
  obtain line where line: "ae_marshal env e = Inr line" "length line < 16384"
    using short by (auto simp: short_line_def split: sum.splits)
  let ?len = "int (length line) + 1"
  have small: "\<not> 16384 < ?len" using line(2) by simp
  have seg: "(if limit < segmentBytes then limit else segmentBytes) = min limit segmentBytes" by (simp add: min_def)
  show thesis
  proof (cases "0 < current_size d \<and> min limit segmentBytes < current_size d + ?len")
    case True
    then obtain f where f: "mget d current = Some f" using current_size_pos [OF ok] by auto
    obtain d1 where r: "rotate_log env d = Inr d1" "dir_ok d1" "mget d1 current = None"
      "log_abs d1 = close_segment (ae_compressed env) (log_abs d)"
      using rotate_refines [OF ok names sizes f] .
    have zero: "current_size d1 = 0" using r(3) by (simp add: current_size_def)
    have fits: "current_size d1 + int (length line) + 1 \<le> segmentBytes" using line(2) zero by (simp add: segmentBytes_def)
    note w = write_line_refines [OF r(2) fits]
    have "append_event env limit e d = Inr (write_line line d1)"
      using line small True r(1) by (simp add: append_event_def Let_def seg)
    moreover have "log_abs (write_line line d1) = add_line (ae_compressed env) limit (line_of env e) (log_abs d)"
      using w(3) True r(4) by (simp add: add_line_def Let_def line_of_def line(1) add.assoc)
    ultimately show ?thesis using that [of "write_line line d1"] w(1,2) zero line(2) limit(1) by simp
  next
    case False
    have "0 \<le> current_size d" using dir_okD(2) [OF ok] by (auto simp: current_size_def split: option.split)
    then have fits: "current_size d + int (length line) + 1 \<le> segmentBytes"
      and le: "current_size d + int (length line) + 1 \<le> limit"
      using False line(2) limit(1) by (auto simp: segmentBytes_def)
    note w = write_line_refines [OF ok fits]
    have "append_event env limit e d = Inr (write_line line d)"
      using line small False by (auto simp: append_event_def Let_def seg)
    moreover have "log_abs (write_line line d) = add_line (ae_compressed env) limit (line_of env e) (log_abs d)"
      using w(3) False by (auto simp: add_line_def Let_def line_of_def line(1) add.assoc)
    ultimately show ?thesis using that [of "write_line line d"] w(1,2) le by simp
  qed
qed

lemma append_events_refines:
  assumes "dir_ok d" and "names_after env" and "sizes_ok env" and "list_all (short_line env) es"
    and "16384 \<le> limit" and "current_size d \<le> limit"
  shows "\<exists>d' w'. append_events env limit now es (d, w) = (None, d', w') \<and> dir_ok d' \<and> current_size d' \<le> limit \<and>
    log_abs d' = fold (add_line (ae_compressed env) limit) (map (line_of env) es) (log_abs d) \<and>
    w' = fold (\<lambda>e. window_add e now) es w"
  using assms(1,4,6)
proof (induction es arbitrary: d w)
  case (Cons e es)
  obtain d1 where d1: "append_event env limit e d = Inr d1" "dir_ok d1" "current_size d1 \<le> limit"
    "log_abs d1 = add_line (ae_compressed env) limit (line_of env e) (log_abs d)"
    using append_event_refines [OF Cons.prems(1) assms(2,3) _ assms(5) Cons.prems(3)] Cons.prems(2) by auto
  from Cons.IH [OF d1(2) _ d1(3), of "window_add e now w"] Cons.prems(2) d1 show ?case by auto
qed simp

subsection \<open>The history that is kept\<close>

lemma keep_newest_drop: "\<exists>k \<le> length fs. keep_newest limit g fs = drop k fs"
proof (induction fs)
  case (Cons f fs)
  then obtain k where "k \<le> length fs" "keep_newest limit g fs = drop k fs" by blast
  then show ?case by (cases "used_bytes (f # fs) g \<le> limit \<and> length (f # fs) \<le> maxArchives")
      (auto intro: exI [of _ 0] exI [of _ "Suc k"])
qed simp

lemma all_lines_prune: "\<exists>old. all_lines g = old @ all_lines (spec_prune limit g)"
proof -
  obtain k where k: "keep_newest limit g (sg_closed g) = drop k (sg_closed g)" using keep_newest_drop by blast
  have "concat (map lf_lines (sg_closed g)) = concat (map lf_lines (take k (sg_closed g))) @ concat (map lf_lines (drop k (sg_closed g)))"
    by (metis append_take_drop_id concat_append map_append)
  then show ?thesis by (auto simp: all_lines_def spec_prune_def k)
qed

lemma all_lines_add: "all_lines (add_line c limit line g) = all_lines g @ [line]"
  by (auto simp: all_lines_def add_line_def Let_def close_segment_def split: option.split)

lemma all_lines_fold: "all_lines (fold (add_line c limit) lines g) = all_lines g @ lines"
  by (induction lines arbitrary: g) (auto simp: all_lines_add)

lemma open_fold:
  assumes "lines \<noteq> []"
  shows "\<exists>f. sg_open (fold (add_line c limit) lines g) = Some f \<and> lf_lines f \<noteq> [] \<and> last (lf_lines f) = last lines"
proof -
  obtain front l where lines: "lines = front @ [l]" using assms by (metis append_butlast_last_id)
  have "\<exists>f. sg_open (add_line c limit l h) = Some f \<and> lf_lines f \<noteq> [] \<and> last (lf_lines f) = l" for h
    by (auto simp: add_line_def Let_def split: option.split)
  then show ?thesis by (simp add: lines)
qed

text \<open>Nothing is forgotten but a front part of the history, and never the last line.\<close>

lemma spec_append_history:
  "\<exists>old. all_lines g @ lines = old @ all_lines (spec_append c limit lines g)"
  "lines \<noteq> [] \<Longrightarrow> last (all_lines (spec_append c limit lines g)) = last lines"
proof -
  let ?h = "fold (add_line c limit) lines (spec_prune limit g)"
  obtain old1 where 1: "all_lines g = old1 @ all_lines (spec_prune limit g)" using all_lines_prune by blast
  obtain old2 where 2: "all_lines ?h = old2 @ all_lines (spec_prune limit ?h)" using all_lines_prune by blast
  show "\<exists>old. all_lines g @ lines = old @ all_lines (spec_append c limit lines g)"
    using 1 2 by (intro exI [of _ "old1 @ old2"]) (simp add: spec_append_def all_lines_fold)
  assume "lines \<noteq> []"
  then obtain f where "sg_open ?h = Some f" "lf_lines f \<noteq> []" "last (lf_lines f) = last lines" using open_fold by blast
  then show "last (all_lines (spec_append c limit lines g)) = last lines"
    by (simp add: spec_append_def spec_prune_def all_lines_def)
qed

lemma append_log_refines:
  assumes "dir_ok d" and "names_after env" and "sizes_ok env" and "list_all (short_line env) es"
    and "16384 \<le> limit" and "current_size d \<le> limit"
  obtains d' where "append_log env limit es now (d, w) = (None, d', fold (\<lambda>e. window_add e now) es w)" and "dir_ok d'"
    and "log_abs d' = spec_append (ae_compressed env) limit (map (line_of env) es) (log_abs d)"
    and "stored_bytes (files d') \<le> limit" and "archive_count (files d') \<le> maxArchives" and "current_size d' \<le> limit"
proof -
  obtain err1 d1 where p1: "prune limit d = (err1, d1)" by (cases "prune limit d")
  note r1 = prune_refines [OF assms(1) p1]
  obtain d2 where a: "append_events env limit now es (d1, w) = (None, d2, fold (\<lambda>e. window_add e now) es w)" "dir_ok d2"
    "current_size d2 \<le> limit"
    "log_abs d2 = fold (add_line (ae_compressed env) limit) (map (line_of env) es) (log_abs d1)"
    using append_events_refines [OF r1(2) assms(2,3,4,5), of now w] r1(3) assms(6) by auto
  obtain err2 d3 where p2: "prune limit d2 = (err2, d3)" by (cases "prune limit d2")
  note r2 = prune_refines [OF a(2) p2]
  have "err1 = None" and err2: "err2 = None" using r1(4) r2(4) a(3) assms(6) by auto
  then have "append_log env limit es now (d, w) = (None, d3, fold (\<lambda>e. window_add e now) es w)"
    using p1 p2 a(1) by (simp add: append_log_def)
  with that [of d3] r1 r2 a r2(5) [OF err2] show thesis by (simp add: spec_append_def)
qed

text \<open>
  C15. Appending events to a user's audit log succeeds while no event is longer than 16 KiB and the
  quota is at least that, and implements the specification on segments: the lines are added at the end,
  full segments are closed, and the oldest segments, no more than necessary, are forgotten. The result
  meets the quota and the number of archives; the history kept is an end part of the whole history that
  has the newest event.
\<close>

theorem append_log_implements:
  assumes "dir_ok d" and "names_after env" and "sizes_ok env" and "list_all (short_line env) es"
    and "16384 \<le> limit" and "current_size d \<le> limit"
  shows "\<exists>d' w'. append_log env limit es now (d, w) = (None, d', w') \<and>
    log_abs d' = spec_append (ae_compressed env) limit (map (line_of env) es) (log_abs d) \<and>
    stored_bytes (files d') \<le> limit \<and> archive_count (files d') \<le> maxArchives \<and>
    (\<exists>old. all_lines (log_abs d) @ map (line_of env) es = old @ all_lines (log_abs d')) \<and>
    (es \<noteq> [] \<longrightarrow> last (all_lines (log_abs d')) = line_of env (last es))"
proof -
  obtain d' where d': "append_log env limit es now (d, w) = (None, d', fold (\<lambda>e. window_add e now) es w)"
    "log_abs d' = spec_append (ae_compressed env) limit (map (line_of env) es) (log_abs d)"
    "stored_bytes (files d') \<le> limit" "archive_count (files d') \<le> maxArchives"
    using append_log_refines [OF assms] .
  show ?thesis
    using d' spec_append_history [where g = "log_abs d" and lines = "map (line_of env) es" and c = "ae_compressed env" and limit = limit]
    by (intro exI [of _ d'] exI [of _ "fold (\<lambda>e. window_add e now) es w"]) (simp add: last_map)
qed

text \<open>Reducing the quota keeps to it at once, also when the open file has to be closed.\<close>

lemma enforce_quota:
  assumes "dir_ok d" and "names_after env" and "sizes_ok env" and "0 \<le> limit"
  obtains d' where "enforce_log env limit d = (None, d')" and "dir_ok d'" and "stored_bytes (files d') \<le> limit"
    and "archive_count (files d') \<le> maxArchives"
proof (cases "limit < current_size d")
  case True
  then have "0 < current_size d" using assms(4) by simp
  then obtain f where f: "mget d current = Some f" using current_size_pos [OF assms(1)] by auto
  obtain d1 where r: "rotate_log env d = Inr d1" "dir_ok d1" "mget d1 current = None"
    using rotate_refines [OF assms(1-3) f] by metis
  obtain err d2 where p: "prune limit d1 = (err, d2)" by (cases "prune limit d1")
  note q = prune_refines [OF r(2) p]
  have "err = None" using q(4) r(3) assms(4) by (simp add: current_size_def)
  with that [of d2] q(2,5) p True r(1) show thesis by (simp add: enforce_log_def)
next
  case False
  obtain err d2 where p: "prune limit d = (err, d2)" by (cases "prune limit d")
  note q = prune_refines [OF assms(1) p]
  have "err = None" using q(4) False by simp
  with that [of d2] q(2,5) p False show thesis by (simp add: enforce_log_def)
qed

lemma content_bounded: "dir_ok d \<Longrightarrow> (name, f) \<in> set d \<Longrightarrow> text_bytes (lf_lines f) \<le> segmentBytes"
  by (auto simp: dir_ok_def)

subsection \<open>The window counts the last minute\<close>

text \<open>
  \<open>received\<close> lists the events with the time they were received. The window keeps sixty buckets, one per
  second modulo sixty; the reference counts the events themselves.
\<close>

definition hits :: "(Event \<Rightarrow> bool) \<Rightarrow> (int \<Rightarrow> bool) \<Rightarrow> (Event \<times> gotime) list \<Rightarrow> nat" where
  "hits P T received = length (filter (\<lambda>(e, t). ev_Kind e = ''tcp'' \<and> P e \<and> T (time_unix t)) received)"

abbreviation "attempted e \<equiv> ev_Result e = ''attempt''"
abbreviation "failed_or_denied e \<equiv> ev_Result e = ''failed'' \<or> ev_Result e = ''denied''"

definition window_of :: "(Event \<times> gotime) list \<Rightarrow> window" where
  "window_of received = fold (\<lambda>(e, t). window_add e t) received zero_window"

text \<open>Bucket \<open>i\<close> counts the events of its second; later seconds of the same index have replaced earlier ones.\<close>

definition bucket_ok :: "(Event \<times> gotime) list \<Rightarrow> int \<Rightarrow> nat \<Rightarrow> bucket \<Rightarrow> bool" where
  "bucket_ok received latest i b \<longleftrightarrow>
     bk_attempts b = of_nat (hits attempted (\<lambda>s. s = bk_second b \<and> bucket_index s = i) received) \<and>
     bk_failures b = of_nat (hits failed_or_denied (\<lambda>s. s = bk_second b \<and> bucket_index s = i) received) \<and>
     bk_second b \<le> latest \<and>
     (\<forall>(e, t) \<in> set received. ev_Kind e = ''tcp'' \<and> bucket_index (time_unix t) = i \<longrightarrow>
        time_unix t \<le> bk_second b \<and> bucket_index (bk_second b) = i)"

definition window_ok :: "(Event \<times> gotime) list \<Rightarrow> int \<Rightarrow> window \<Rightarrow> bool" where
  "window_ok received latest w \<longleftrightarrow>
     length (wi_buckets w) = 60 \<and> (\<forall>i < 60. bucket_ok received latest i (wi_buckets w ! i))"

lemma hits_snoc:
  "hits P T (received @ [(e, t)]) = hits P T received + (if ev_Kind e = ''tcp'' \<and> P e \<and> T (time_unix t) then 1 else 0)"
  by (simp add: hits_def)

lemma hits_none: "(\<And>e t. (e, t) \<in> set received \<Longrightarrow> ev_Kind e = ''tcp'' \<Longrightarrow> \<not> T (time_unix t)) \<Longrightarrow> hits P T received = 0"
  by (auto simp: hits_def filter_empty_conv)

lemma bucket_index_less: "bucket_index s < 60"
  by (simp add: bucket_index_def nat_less_iff)

lemma bucket_index_eq: "bucket_index s = bucket_index t \<longleftrightarrow> s mod 60 = t mod 60"
  by (simp add: bucket_index_def eq_nat_nat_iff)

lemma count_event_fields:
  "bk_second (count_event e b) = bk_second b"
  "bk_attempts (count_event e b) = bk_attempts b + (if attempted e then 1 else 0)"
  "bk_failures (count_event e b) = bk_failures b + (if failed_or_denied e then 1 else 0)"
  by (auto simp: count_event_def Let_def)

lemma bucket_ok_other:
  assumes "bucket_ok received latest i b" and "ev_Kind e = ''tcp'' \<Longrightarrow> bucket_index (time_unix t) \<noteq> i" and "latest \<le> latest'"
  shows "bucket_ok (received @ [(e, t)]) latest' i b"
  using assms by (auto simp: bucket_ok_def hits_snoc)

text \<open>The bucket that an event goes to, emptied when it is of another second.\<close>

lemma bucket_ok_current:
  assumes "bucket_ok received latest i b" and "latest \<le> s" and i: "bucket_index s = i"
  shows "bucket_ok received s i (if bk_second b \<noteq> s then new_bucket s else b)" (is "bucket_ok _ _ _ ?b")
proof (cases "bk_second b = s")
  case False
  then have "bk_second b < s" using assms by (auto simp: bucket_ok_def)
  then have old: "time_unix t < s" if "(e, t) \<in> set received" "ev_Kind e = ''tcp''" "bucket_index (time_unix t) = i" for e t
    using assms(1) that by (fastforce simp: bucket_ok_def)
  have none: "hits P (\<lambda>u. u = s \<and> bucket_index u = i) received = 0" for P
    by (rule hits_none) (use old i in force)
  show ?thesis using False old none i by (auto simp: bucket_ok_def new_bucket_def less_imp_le)
qed (use assms in \<open>auto simp: bucket_ok_def\<close>)

lemma bucket_ok_count:
  assumes "bucket_ok received s i b" and "bk_second b = s" and "bucket_index s = i" and "s = time_unix t" and "ev_Kind e = ''tcp''"
  shows "bucket_ok (received @ [(e, t)]) s i (count_event e b)"
  using assms by (auto simp: bucket_ok_def count_event_fields hits_snoc)

lemma window_add_ok:
  assumes ok: "window_ok received latest w" and "latest \<le> time_unix t"
  shows "window_ok (received @ [(e, t)]) (time_unix t) (window_add e t w)"
proof (cases "ev_Kind e = ''tcp''")
  case False
  with assms show ?thesis by (auto simp: window_ok_def window_add_def intro: bucket_ok_other)
next
  case True
  let ?s = "time_unix t" and ?i = "bucket_index (time_unix t)"
  let ?b = "if bk_second (wi_buckets w ! ?i) \<noteq> ?s then new_bucket ?s else wi_buckets w ! ?i"
  have eq: "wi_buckets (window_add e t w) = (wi_buckets w)[?i := count_event e ?b]"
    using True by (simp add: window_add_def Let_def)
  have len: "length (wi_buckets w) = 60" using ok by (simp add: window_ok_def)
  have "bucket_ok received latest ?i (wi_buckets w ! ?i)" using ok bucket_index_less by (simp add: window_ok_def)
  then have "bucket_ok received ?s ?i ?b" using assms(2) by (rule bucket_ok_current) simp
  then have here: "bucket_ok (received @ [(e, t)]) ?s ?i (count_event e ?b)"
    by (rule bucket_ok_count) (simp_all add: new_bucket_def True)
  have "bucket_ok (received @ [(e, t)]) ?s i ((wi_buckets w)[?i := count_event e ?b] ! i)" if "i < 60" for i
  proof (cases "i = ?i")
    case True
    with here len that show ?thesis by simp
  next
    case False
    with ok that assms(2) show ?thesis by (auto simp: window_ok_def intro: bucket_ok_other)
  qed
  with len show ?thesis by (simp add: window_ok_def eq)
qed

lemma window_of_ok:
  assumes "sorted (map (\<lambda>(e, t). time_unix t) received)" and "\<forall>(e, t) \<in> set received. 0 \<le> time_unix t"
  shows "window_ok received (if received = [] then 0 else time_unix (snd (last received))) (window_of received)"
  using assms
proof (induction received rule: rev_induct)
  case Nil
  show ?case by (auto simp: window_ok_def bucket_ok_def window_of_def zero_window_def new_bucket_def hits_def)
next
  case (snoc et received)
  obtain e t where et: "et = (e, t)" by (cases et)
  from snoc.prems have s: "sorted (map (\<lambda>(e, t). time_unix t) received)" "\<forall>(e, t) \<in> set received. 0 \<le> time_unix t"
    by (auto simp: sorted_append et)
  have "time_unix (snd (last received)) \<le> time_unix t" if "received \<noteq> []"
    using snoc.prems(1) last_in_set [OF that] by (auto simp: sorted_append et case_prod_beta)
  then have later: "(if received = [] then 0 else time_unix (snd (last received))) \<le> time_unix t"
    using snoc.prems(2) by (simp add: et)
  from window_add_ok [OF snoc.IH [OF s] later, of e] show ?case by (simp add: window_of_def et)
qed

text \<open>Counting by index adds up to counting all.\<close>

lemma hits_by_index: "hits P T received = (\<Sum>i<60. hits P (\<lambda>s. T s \<and> bucket_index s = i) received)"
proof (induction received)
  case (Cons et received)
  obtain e t where et: "et = (e, t)" by (cases et)
  have one: "(\<Sum>i<60. if bucket_index (time_unix t) = i then 1 else 0) = (1 :: nat)"
    using bucket_index_less [of "time_unix t"] by (simp add: sum.delta')
  have cons: "hits P T' (et # received) = (if ev_Kind e = ''tcp'' \<and> P e \<and> T' (time_unix t) then 1 else 0) + hits P T' received" for T'
    by (simp add: hits_def et)
  show ?case
  proof (cases "ev_Kind e = ''tcp'' \<and> P e \<and> T (time_unix t)")
    case True
    then show ?thesis using one by (simp add: cons sum.distrib Cons.IH [symmetric])
  next
    case False
    then have "hits P (\<lambda>s. T s \<and> bucket_index s = i) (et # received) = hits P (\<lambda>s. T s \<and> bucket_index s = i) received" for i
      by (auto simp: cons)
    with False show ?thesis by (simp add: cons Cons.IH [symmetric])
  qed
qed (simp add: hits_def)

lemma sum_list_filter_nth:
  "sum_list (map f (filter P xs)) = (\<Sum>i<length xs. if P (xs ! i) then f (xs ! i) else (0 :: 'a::comm_monoid_add))"
proof (induction xs rule: rev_induct)
  case (snoc x xs)
  have "(\<Sum>i<length xs. if P ((xs @ [x]) ! i) then f ((xs @ [x]) ! i) else 0) = (\<Sum>i<length xs. if P (xs ! i) then f (xs ! i) else 0)"
    by (rule sum.cong) (auto simp: nth_append)
  with snoc show ?case by (simp del: nth_append)
qed simp

text \<open>A bucket in the window counts the events of the window with its index, and a bucket outside none.\<close>

lemma bucket_in_window:
  assumes ok: "bucket_ok received latest i b" and "latest \<le> now"
  shows "(if in_window now b then hits P (\<lambda>s. s = bk_second b \<and> bucket_index s = i) received else 0) =
    hits P (\<lambda>s. (now - 60 < s \<and> s \<le> now) \<and> bucket_index s = i) received"
proof -
  have up: "time_unix t \<le> bk_second b" "bucket_index (bk_second b) = i"
    if "(e, t) \<in> set received" "ev_Kind e = ''tcp''" "bucket_index (time_unix t) = i" for e t
    using ok that by (auto simp: bucket_ok_def)
  have le: "bk_second b \<le> now" using ok assms(2) by (simp add: bucket_ok_def)
  show ?thesis
  proof (cases "in_window now b")
    case True
    have near: "s = u" if "s mod 60 = u mod 60" "s \<le> u" "u \<le> now" "now - 60 < s" for s u :: int
    proof -
      have "(u - s) mod 60 = 0" using that(1) by (metis mod_eq_dvd_iff mod_0_imp_dvd dvd_imp_mod_0)
      moreover have "0 \<le> u - s" "u - s < 60" using that(2-4) by simp_all
      ultimately show ?thesis by (simp add: mod_pos_pos_trivial)
    qed
    have "(time_unix t = bk_second b \<and> bucket_index (time_unix t) = i) =
        ((now - 60 < time_unix t \<and> time_unix t \<le> now) \<and> bucket_index (time_unix t) = i)"
      if et: "(e, t) \<in> set received" "ev_Kind e = ''tcp''" for e t
    proof (cases "bucket_index (time_unix t) = i")
      case same: True
      then have "time_unix t mod 60 = bk_second b mod 60" using up(2) [OF et same] bucket_index_eq by metis
      then have "now - 60 < time_unix t \<Longrightarrow> time_unix t = bk_second b" using near up(1) [OF et same] le by blast
      with True same show ?thesis by (auto simp: in_window_def)
    qed simp
    then show ?thesis using True unfolding hits_def by (auto intro!: arg_cong [where f = length] filter_cong)
  next
    case False
    have "\<not> ((now - 60 < time_unix t \<and> time_unix t \<le> now) \<and> bucket_index (time_unix t) = i)"
      if "(e, t) \<in> set received" "ev_Kind e = ''tcp''" for e t
      using False up(1) [OF that] le by (auto simp: in_window_def)
    then show ?thesis using False hits_none [of received "\<lambda>s. (now - 60 < s \<and> s \<le> now) \<and> bucket_index s = i" P] by simp
  qed
qed

lemma window_sum:
  assumes "window_ok received latest w" and "latest \<le> now"
    and "\<And>i. i < 60 \<Longrightarrow> f (wi_buckets w ! i) = (of_nat (hits P (\<lambda>s. s = bk_second (wi_buckets w ! i) \<and> bucket_index s = i) received) :: uint64)"
  shows "sum_list (map f (filter (in_window now) (wi_buckets w))) = of_nat (hits P (\<lambda>s. now - 60 < s \<and> s \<le> now) received)"
proof -
  have len: "length (wi_buckets w) = 60" using assms(1) by (simp add: window_ok_def)
  have "sum_list (map f (filter (in_window now) (wi_buckets w))) =
      (\<Sum>i<60. if in_window now (wi_buckets w ! i) then f (wi_buckets w ! i) else 0)"
    unfolding sum_list_filter_nth len ..
  also have "\<dots> = (\<Sum>i<60. of_nat (hits P (\<lambda>s. (now - 60 < s \<and> s \<le> now) \<and> bucket_index s = i) received))"
  proof (rule sum.cong)
    fix i :: nat
    assume i: "i \<in> {..<60}"
    then have "bucket_ok received latest i (wi_buckets w ! i)" using assms(1) by (simp add: window_ok_def)
    from bucket_in_window [OF this assms(2), of P, symmetric] i
    show "(if in_window now (wi_buckets w ! i) then f (wi_buckets w ! i) else 0) =
        of_nat (hits P (\<lambda>s. (now - 60 < s \<and> s \<le> now) \<and> bucket_index s = i) received)"
      by (simp add: assms(3))
  qed simp
  also have "\<dots> = of_nat (hits P (\<lambda>s. now - 60 < s \<and> s \<le> now) received)"
    by (simp add: hits_by_index [of P "\<lambda>s. now - 60 < s \<and> s \<le> now"])
  finally show ?thesis .
qed

text \<open>
  C33. The summary of a user's window counts the connection attempts and the failures of the last
  sixty seconds: the sixty buckets, indexed by the second modulo sixty and reused, give the same numbers
  as counting the received events themselves, for events received in the order of time.
\<close>

theorem window_counts_last_minute:
  assumes "sorted (map (\<lambda>(e, t). time_unix t) received)" and "list_all (\<lambda>(e, t). 0 \<le> time_unix t \<and> time_unix t \<le> time_unix now) received"
    and "0 \<le> time_unix now"
  shows "sm_Attempts (window_summary now (window_of received)) =
      of_nat (hits attempted (\<lambda>s. time_unix now - 60 < s \<and> s \<le> time_unix now) received) \<and>
    sm_Failures (window_summary now (window_of received)) =
      of_nat (hits failed_or_denied (\<lambda>s. time_unix now - 60 < s \<and> s \<le> time_unix now) received)"
proof -
  let ?latest = "if received = [] then 0 else time_unix (snd (last received))"
  have ok: "window_ok received ?latest (window_of received)"
    using assms(1,2) by (intro window_of_ok) (auto simp: list_all_iff)
  have le: "?latest \<le> time_unix now"
    using assms(2,3) by (auto simp: list_all_iff case_prod_beta dest: last_in_set)
  have "bucket_ok received ?latest i (wi_buckets (window_of received) ! i)" if "i < 60" for i
    using ok that by (simp add: window_ok_def)
  then show ?thesis
    using window_sum [OF ok le, of bk_attempts attempted] window_sum [OF ok le, of bk_failures failed_or_denied]
    by (simp add: window_summary_def Let_def bucket_ok_def)
qed

subsection \<open>Examples\<close>

definition demo_audit_env :: AuditEnv where
  "demo_audit_env = \<lparr>ae_marshal = (\<lambda>e. Inr (ev_Host e)), ae_unmarshal = (\<lambda>l. Inr (zero_Event\<lparr>ev_Host := l\<rparr>)),
     ae_compressed = (\<lambda>lines. int (length (concat lines))),
     ae_archive = (\<lambda>d. replicate (Suc (fold (\<lambda>nf n. max (length (fst nf)) n) d 0)) (CHR 0xFF))\<rparr>"

lemma above_all: "length m \<le> n \<Longrightarrow> m @ CHR ''.'' # s < replicate (Suc n) (CHR 0xFF) @ t"
proof (induction m arbitrary: n)
  case Nil
  show ?case by (simp add: less_char_def)
next
  case (Cons c m)
  then obtain k where n: "n = Suc k" "length m \<le> k" by (cases n) auto
  have top: "(of_char (CHR 0xFF) :: nat) = 255" by simp
  have "(of_char c :: nat) < 256" by simp
  then consider "(of_char c :: nat) < of_char (CHR 0xFF)" | "(of_char c :: nat) = of_char (CHR 0xFF)" unfolding top by linarith
  then have "c < CHR 0xFF \<or> c = CHR 0xFF" by cases (simp_all only: less_char_def of_char_eq_iff simp_thms)
  then show ?case using Cons.IH [OF n(2)] n(1) by auto
qed

lemma append_less_prefix: "m < m @ [c] @ (r :: string)"
  by (induction m) simp_all

definition event_to :: "string \<Rightarrow> string \<Rightarrow> Event" where
  "event_to host result = zero_Event\<lparr>ev_Kind := ''tcp'', ev_Result := result, ev_Host := host, ev_Port := 443\<rparr>"


lemma demo_audit_names: "names_after demo_audit_env" "sizes_ok demo_audit_env"
proof -
  have bound: "length name \<le> fold (\<lambda>nf n. max (length (fst nf)) n) d k \<and> k \<le> fold (\<lambda>nf n. max (length (fst nf)) n) d k"
    if "name \<in> set (mkeys d)" for name k and d :: Dir
    using that
  proof (induction d arbitrary: k)
    case (Cons nf d)
    have grow: "k \<le> fold (\<lambda>nf n. max (length (fst nf)) n) ds k" for k and ds :: Dir
    proof (induction ds arbitrary: k)
      case (Cons nf ds)
      from Cons.IH [of "max (length (fst nf)) k"] show ?case by simp
    qed simp
    show ?case using Cons grow [of "max (length (fst nf)) k" d] by (auto simp: mkeys_def)
  qed (simp add: mkeys_def)
  show "names_after demo_audit_env" unfolding names_after_def
  proof (intro allI ballI impI)
    fix d :: Dir and name
    assume name: "name \<in> set (mkeys d)" "is_archive name"
    then obtain m where m: "name = ''archive-'' @ m" by (auto simp: is_archive_def has_prefix_iff)
    have "length name \<le> fold (\<lambda>nf n. max (length (fst nf)) n) d 0" using bound [OF name(1)] by blast
    then have long: "length m \<le> fold (\<lambda>nf n. max (length (fst nf)) n) d 0" using m by simp
    have "m < ae_archive demo_audit_env d @ ''.jsonl.gz''"
      using less_trans [OF append_less_prefix [of m "CHR ''.''" "[]"], simplified, OF above_all [OF long, of "[]" "''.jsonl.gz''"]]
      by (simp add: demo_audit_env_def)
    then show "name < archive_name demo_audit_env d" by (simp add: m archive_name_def)
  qed
  show "sizes_ok demo_audit_env" by (simp add: sizes_ok_def demo_audit_env_def)
qed


definition demo_dir :: Dir where
  "demo_dir = [(''archive-1.jsonl.gz'', \<lparr>lf_lines = [''old''], lf_size = 16380\<rparr>),
     (current, \<lparr>lf_lines = [''mid''], lf_size = 4\<rparr>)]"

text \<open>The quota has room for the open file but not for the archive beside a new line.\<close>

theorem append_log_implements_witness:
  "dir_ok demo_dir \<and> all_lines (log_abs demo_dir) = [''old'', ''mid''] \<and>
   (\<exists>d' w'. append_log demo_audit_env 16384 [event_to ''new'' ''attempt''] 0 (demo_dir, zero_window) = (None, d', w') \<and>
     stored_bytes (files d') \<le> 16384 \<and> all_lines (log_abs d') = [''mid'', ''new''])"
proof -
  have ok: "dir_ok demo_dir"
    by (auto simp: dir_ok_def demo_dir_def mwf_def is_archive_def has_prefix_def has_suffix_def text_bytes_def segmentBytes_def)
  have "list_all (short_line demo_audit_env) [event_to ''new'' ''attempt'']"
    by (simp add: short_line_def demo_audit_env_def event_to_def)
  moreover have "current_size demo_dir \<le> 16384" by (simp add: current_size_def demo_dir_def)
  ultimately obtain d' w' where d': "append_log demo_audit_env 16384 [event_to ''new'' ''attempt''] 0 (demo_dir, zero_window) = (None, d', w')"
    "log_abs d' = spec_append (ae_compressed demo_audit_env) 16384 (map (line_of demo_audit_env) [event_to ''new'' ''attempt'']) (log_abs demo_dir)"
    "stored_bytes (files d') \<le> 16384"
    using append_log_implements [OF ok demo_audit_names] by blast
  have "all_lines (log_abs demo_dir) = [''old'', ''mid'']" by code_simp
  moreover have "all_lines (spec_append (ae_compressed demo_audit_env) 16384 (map (line_of demo_audit_env) [event_to ''new'' ''attempt''])
      (log_abs demo_dir)) = [''mid'', ''new'']" by code_simp
  ultimately show ?thesis using ok d' by metis
qed

text \<open>Of four events three fall in the last minute, two of them attempts and one a failure.\<close>

definition demo_received :: "(Event \<times> gotime) list" where
  "demo_received =
     [(event_to ''a'' ''attempt'', (62135596800 + 100) * second), (event_to ''a'' ''attempt'', (62135596800 + 160) * second),
      (event_to ''a'' ''failed'', (62135596800 + 161) * second), (event_to ''b'' ''attempt'', (62135596800 + 161) * second)]"

theorem window_counts_last_minute_witness:
  "sm_Attempts (window_summary ((62135596800 + 165) * second) (window_of demo_received)) = 2 \<and>
   sm_Failures (window_summary ((62135596800 + 165) * second) (window_of demo_received)) = 1"
proof -
  have "sorted (map (\<lambda>(e, t). time_unix t) demo_received)"
    and "list_all (\<lambda>(e, t). 0 \<le> time_unix t \<and> time_unix t \<le> time_unix ((62135596800 + 165) * second)) demo_received"
    and "0 \<le> time_unix ((62135596800 + 165) * second)"
    by (simp_all add: demo_received_def time_unix_def)
  from window_counts_last_minute [OF this] show ?thesis
    by (simp add: hits_def demo_received_def time_unix_def event_to_def)
qed

end
