(* ===== verification/Audit_Api.thy ===== *)
theory Audit_Api
  imports Audit_Refinement Access_Policy Node_Api
begin

text \<open>
  The Controller's side of auditing (\<open>src/internal/controller/audit.go\<close>): the settings of a user, the
  filter of the log view, and the batches of events the exit nodes report. The handlers work on the
  store and on the audit store under the audit lock.

  \<open>receiveAudit_sound\<close>: whatever a node reports, an event is only ever added to the log of the user who
  owns the grant it names, under the names the Controller has.
\<close>

subsection \<open>Settings\<close>

definition bump_for_grant :: "string \<Rightarrow> State \<Rightarrow> Grant \<Rightarrow> string list \<times> State \<Rightarrow> string list \<times> State" where
  "bump_for_grant i s0 grant seen_s =
     (let (seen, s) = seen_s; agent = at_AgentID (attachment_at s0 (gr_AttachmentID grant)) in
      if gr_UserID grant \<noteq> i then (seen, s)
      else if agent \<noteq> [] \<and> agent \<notin> set seen then (agent # seen, bumpAgent agent s) else (seen, s))"

definition bumpUserAudit :: "string \<Rightarrow> State \<Rightarrow> State" where
  "bumpUserAudit i s = snd (fold (bump_for_grant i s) (mvals (st_Grants s)) ([], s))"

definition saveUserAudit_tx :: "string \<Rightarrow> bool \<Rightarrow> int \<Rightarrow> unit tx" where
  "saveUserAudit_tx i enabled limit s =
     (case mget (st_Users s) i of
        None \<Rightarrow> Inl ''user not found''
      | Some user \<Rightarrow>
          let user = (if u_AuditEnabled user \<noteq> enabled then user\<lparr>u_AuditGeneration := u_AuditGeneration user + 1\<rparr> else user);
              user = user\<lparr>u_AuditEnabled := enabled, u_AuditLimitMB := limit\<rparr>
          in Inr ((), bumpUserAudit i (s\<lparr>st_Users := mput i user (st_Users s)\<rparr>)))"

definition audit_limit_text :: string where
  "audit_limit_text = ''audit limit must be 1'' @ [CHR 0xE2, CHR 0x80, CHR 0x93] @ ''1024 MB''"

definition saveUserAudit :: "AuditEnv \<Rightarrow> Env \<Rightarrow> Request \<Rightarrow> Store \<times> AuditStore \<Rightarrow> Response \<times> Store \<times> AuditStore" where
  "saveUserAudit aenv env r sa =
     (let (st, audits) = sa; enabled = (FormValue r ''enabled'' = ''true'') in
      case parsePositive (FormValue r ''limit_mb'') DefaultLimitMB of
        None \<Rightarrow> (HttpError 400 audit_limit_text, sa)
      | Some limit \<Rightarrow>
          if 1024 < limit then (HttpError 400 audit_limit_text, sa)
          else (case Update (e_store env) (saveUserAudit_tx (rq_id r) enabled limit) st of
                  (Inl err, st) \<Rightarrow> (HttpError 400 err, st, audits)
                | (Inr _, st) \<Rightarrow>
                    (case Enforce aenv (rq_id r) (LimitBytes limit) audits of
                       (Some err, audits) \<Rightarrow> (HttpError 500 ''settings saved but audit quota could not be applied'', st, audits)
                     | (None, audits) \<Rightarrow> (SeeOther (''/admin/users/'' @ rq_id r @ ''/audit''), st, audits))))"

definition clearUserAudit_tx :: "string \<Rightarrow> unit tx" where
  "clearUserAudit_tx i s =
     (case mget (st_Users s) i of
        None \<Rightarrow> Inl ''user not found''
      | Some user \<Rightarrow>
          Inr ((), bumpUserAudit i (s\<lparr>st_Users := mput i (user\<lparr>u_AuditGeneration := u_AuditGeneration user + 1\<rparr>) (st_Users s)\<rparr>)))"

definition clearUserAudit :: "Env \<Rightarrow> Request \<Rightarrow> Store \<times> AuditStore \<Rightarrow> Response \<times> Store \<times> AuditStore" where
  "clearUserAudit env r sa =
     (let (st, audits) = sa in
      case Update (e_store env) (clearUserAudit_tx (rq_id r)) st of
        (Inl err, st) \<Rightarrow> (HttpError 500 err, st, audits)
      | (Inr _, st) \<Rightarrow>
          (case Clear_audit (rq_id r) audits of
             (Some err, audits) \<Rightarrow> (HttpError 500 err, st, audits)
           | (None, audits) \<Rightarrow> (SeeOther (''/admin/users/'' @ rq_id r @ ''/audit''), st, audits)))"

subsection \<open>Views\<close>

definition auditFilter :: "Request \<Rightarrow> error + Filter" where
  "auditFilter r =
     (let host = TrimSpace (FormValue r ''host''); result = FormValue r ''result''; value = FormValue r ''port'';
          known = (\<lambda>port. if result \<in> {[], ''attempt'', ''connected'', ''failed'', ''denied'', ''closed'', ''resolved''}
                          then Inr \<lparr>fi_Host = host, fi_Port = port, fi_Result = result, fi_Limit = 200\<rparr>
                          else Inl ''invalid result'')
      in if 255 < length host then Inl ''filter too long''
         else if value = [] then known 0
         else (case ParseInt value of
                 None \<Rightarrow> Inl ''invalid port''
               | Some port \<Rightarrow> if valid_port port then known port else Inl ''invalid port''))"

definition auditView :: "AuditEnv \<Rightarrow> Env \<Rightarrow> Request \<Rightarrow> Store \<times> AuditStore \<Rightarrow> Response + User \<times> View" where
  "auditView aenv env r sa =
     (case mget (st_Users (store_Snapshot (fst sa))) (rq_id r) of
        None \<Rightarrow> Inl (HttpError 404 ''404 page not found'')
      | Some user \<Rightarrow>
          (case auditFilter r of
             Inl err \<Rightarrow> Inl (HttpError 400 err)
           | Inr f \<Rightarrow>
               (case Read_audit aenv (u_ID user) (LimitBytes (u_AuditLimitMB user)) f (e_now env) (snd sa) of
                  Inl _ \<Rightarrow> Inl (HttpError 500 ''cannot read audit logs'')
                | Inr view \<Rightarrow> Inr (user, view))))"

definition downloadUserAudit :: "Request \<Rightarrow> Store \<times> AuditStore \<Rightarrow> Response + string list" where
  "downloadUserAudit r sa =
     (case mget (st_Users (store_Snapshot (fst sa))) (rq_id r) of
        None \<Rightarrow> Inl (HttpError 404 ''404 page not found'')
      | Some _ \<Rightarrow> Inr (case Export_audit (rq_id r) (snd sa) of Inl _ \<Rightarrow> [] | Inr lines \<Rightarrow> lines))"

subsection \<open>Reports of the exit nodes\<close>

definition ParseIP :: "string \<Rightarrow> bool" where
  "ParseIP s = (case netip_ParseAddr s of None \<Rightarrow> False | Some ip \<Rightarrow> \<not> has_zone ip)"

definition validAuditEvent :: "Event \<Rightarrow> bool" where
  "validAuditEvent e =
     (if IsZero (ev_At e) \<or> ev_Host e = [] \<or> 255 < length (ev_Host e) \<or> \<not> valid_port (ev_Port e) \<or>
         ev_ConnectionID e = [] \<or> 128 < length (ev_ConnectionID e) \<or> 512 < length (ev_Reason e) \<or> 32 < length (ev_IPs e) \<or>
         ev_DurationMS e < 0 \<or> ev_ConnectMS e < 0 then False
      else if ev_IP e \<noteq> [] \<and> \<not> ParseIP (ev_IP e) then False
      else if list_ex (\<lambda>ip. \<not> ParseIP ip) (ev_IPs e) then False
      else if ev_Kind e = ''dns'' then ev_Result e \<in> {''resolved'', ''failed''}
      else if ev_Kind e \<noteq> ''tcp'' then False
      else ev_Result e \<in> {''attempt'', ''connected'', ''closed'', ''failed'', ''denied''})"

text \<open>\<open>strings.ToValidUTF8\<close> with an empty replacement: the bytes outside valid sequences are dropped.\<close>

function ToValidUTF8 :: "string \<Rightarrow> string" where
  "ToValidUTF8 s =
     (case s of
        [] \<Rightarrow> []
      | c # cs \<Rightarrow>
          if (of_char c :: nat) < 128 then c # ToValidUTF8 cs
          else if utf8_Valid (take 2 s) then take 2 s @ ToValidUTF8 (drop 2 s)
          else if utf8_Valid (take 3 s) then take 3 s @ ToValidUTF8 (drop 3 s)
          else if utf8_Valid (take 4 s) then take 4 s @ ToValidUTF8 (drop 4 s)
          else ToValidUTF8 cs)"
  by pat_completeness auto
termination by (relation "measure length") auto

declare ToValidUTF8.simps [simp del]

definition auditLabel :: "string \<Rightarrow> string" where
  "auditLabel v = (if 256 < length v then ToValidUTF8 (take 256 v) else v)"

record audit_owner =
  ow_user :: User
  ow_route :: Attachment
  ow_owned :: bool
  ow_active :: bool

definition resolve_grant :: "State \<Rightarrow> string \<Rightarrow> string \<Rightarrow> uint64 \<Rightarrow> audit_owner" where
  "resolve_grant s nodeID grantID generation =
     (let grant = zget zero_Grant (st_Grants s) grantID;
          route = attachment_at s (gr_AttachmentID grant); user = user_at s (gr_UserID grant) in
      if mget (st_Grants s) grantID = None \<or> at_AgentID route \<noteq> nodeID
      then \<lparr>ow_user = user, ow_route = route, ow_owned = False, ow_active = False\<rparr>
      else \<lparr>ow_user = user, ow_route = route, ow_owned = True,
            ow_active = (gr_Enabled grant \<and> routeAvailable s route \<and> u_Enabled user \<and> u_AuditEnabled user \<and>
              u_AuditGeneration user = generation)\<rparr>)"

record audit_groups =
  ag_grouped :: "Event list gomap"
  ag_drops :: "uint64 gomap"
  ag_users :: "User gomap"

definition labelled :: "State \<Rightarrow> string \<Rightarrow> audit_owner \<Rightarrow> Event \<Rightarrow> Event" where
  "labelled s nodeID ow e =
     e\<lparr>ev_UserID := u_ID (ow_user ow), ev_UserName := auditLabel (u_Name (ow_user ow)), ev_AgentID := nodeID,
       ev_GatewayID := at_GatewayID (ow_route ow), ev_ExitName := auditLabel (ag_Name (agent_at s nodeID))\<rparr>"

fun group_events :: "State \<Rightarrow> string \<Rightarrow> Event list \<Rightarrow> audit_groups \<Rightarrow> (nat \<times> error) + audit_groups" where
  "group_events s nodeID [] g = Inr g"
| "group_events s nodeID (e # es) g =
     (let ow = resolve_grant s nodeID (ev_GrantID e) (ev_Generation e); link = zget zero_Link (st_Links s) (ev_LinkID e) in
      if \<not> validAuditEvent e then Inl (400, ''invalid audit event'')
      else if \<not> ow_owned ow \<or> lk_AttachmentID link \<noteq> at_ID (ow_route ow) \<or> lk_ID link = [] \<or>
              (ev_UserID e \<noteq> [] \<and> ev_UserID e \<noteq> u_ID (ow_user ow))
        then Inl (403, ''audit event outside node grants'')
      else if \<not> ow_active ow then group_events s nodeID es g
      else let i = u_ID (ow_user ow) in
        group_events s nodeID es
          (g\<lparr>ag_grouped := mput i (zget [] (ag_grouped g) i @ [labelled s nodeID ow e]) (ag_grouped g),
             ag_users := mput i (ow_user ow) (ag_users g)\<rparr>))"

fun group_drops :: "State \<Rightarrow> string \<Rightarrow> Drop list \<Rightarrow> audit_groups \<Rightarrow> (nat \<times> error) + audit_groups" where
  "group_drops s nodeID [] g = Inr g"
| "group_drops s nodeID (d # ds) g =
     (let ow = resolve_grant s nodeID (dr_GrantID d) (dr_Generation d); i = u_ID (ow_user ow) in
      if \<not> ow_owned ow then Inl (403, ''audit drop outside node grants'')
      else if ow_active ow then
        group_drops s nodeID ds (g\<lparr>ag_drops := mput i (zget 0 (ag_drops g) i + dr_Count d) (ag_drops g),
          ag_users := mput i (ow_user ow) (ag_users g)\<rparr>)
      else group_drops s nodeID ds g)"

fun append_groups :: "AuditEnv \<Rightarrow> gotime \<Rightarrow> audit_groups \<Rightarrow> (string \<times> User) list \<Rightarrow> AuditStore \<Rightarrow> error option \<times> AuditStore" where
  "append_groups aenv now g [] audits = (None, audits)"
| "append_groups aenv now g ((i, user) # us) audits =
     (case Append_audit aenv i (LimitBytes (u_AuditLimitMB user)) (zget [] (ag_grouped g) i) (zget 0 (ag_drops g) i) now audits of
        (Some err, audits) \<Rightarrow> (Some err, audits)
      | (None, audits) \<Rightarrow> append_groups aenv now g us audits)"

text \<open>The whole batch is checked before anything is stored.\<close>

definition check_batch :: "State \<Rightarrow> string \<Rightarrow> Batch \<Rightarrow> (nat \<times> error) + audit_groups" where
  "check_batch s nodeID batch =
     (case group_events s nodeID (ba_Events batch) \<lparr>ag_grouped = [], ag_drops = [], ag_users = []\<rparr> of
        Inl err \<Rightarrow> Inl err
      | Inr g \<Rightarrow> group_drops s nodeID (ba_Dropped batch) g)"

definition receiveAudit :: "AuditEnv \<Rightarrow> Env \<Rightarrow> Request \<Rightarrow> Batch \<Rightarrow> Store \<times> AuditStore \<Rightarrow> unit Reply \<times> AuditStore" where
  "receiveAudit aenv env r batch sa =
     (let (st, audits) = sa; s = store_Snapshot st in
      case authenticateNode env r s of
        None \<Rightarrow> (Refused 403 ''unauthorized audit reporter'', audits)
      | Some (role, nodeID) \<Rightarrow>
          if role \<noteq> RoleAgent then (Refused 403 ''unauthorized audit reporter'', audits)
          else if MaxBatch < length (ba_Events batch) \<or> MaxBatch < length (ba_Dropped batch)
            then (Refused 400 ''audit batch too large'', audits)
          else if \<not> ag_Enabled (agent_at s nodeID) then (Refused 403 ''agent disabled'', audits)
          else (case check_batch s nodeID batch of
                  Inl (code, err) \<Rightarrow> (Refused code err, audits)
                | Inr g \<Rightarrow>
                    (case append_groups aenv (e_now env) g (ag_users g) audits of
                       (Some _, audits) \<Rightarrow> (Refused 503 ''audit storage unavailable'', audits)
                     | (None, audits) \<Rightarrow> (Done 204, audits))))"


subsection \<open>Properties\<close>

text \<open>What holds of every event of the groups that a batch is sorted into.\<close>

definition event_owned :: "State \<Rightarrow> string \<Rightarrow> string \<Rightarrow> Event \<Rightarrow> bool" where
  "event_owned s nodeID i e \<longleftrightarrow>
     ev_UserID e = i \<and> ev_AgentID e = nodeID \<and> (\<exists>grant. mget (st_Grants s) (ev_GrantID e) = Some grant \<and> gr_Enabled grant \<and>
       u_ID (user_at s (gr_UserID grant)) = i \<and> u_AuditEnabled (user_at s (gr_UserID grant)) \<and>
       u_AuditGeneration (user_at s (gr_UserID grant)) = ev_Generation e \<and>
       at_AgentID (attachment_at s (gr_AttachmentID grant)) = nodeID)"

lemma active_owner:
  assumes "ow_active (resolve_grant s nodeID grantID generation)"
  shows "\<exists>grant. mget (st_Grants s) grantID = Some grant \<and> gr_Enabled grant \<and>
      ow_user (resolve_grant s nodeID grantID generation) = user_at s (gr_UserID grant) \<and>
      u_AuditEnabled (user_at s (gr_UserID grant)) \<and> u_AuditGeneration (user_at s (gr_UserID grant)) = generation \<and>
      at_AgentID (attachment_at s (gr_AttachmentID grant)) = nodeID"
  using assms by (auto simp: resolve_grant_def Let_def zget_Some split: if_splits)

lemma labelled_owned:
  assumes "ow_active (resolve_grant s nodeID (ev_GrantID e) (ev_Generation e))"
  shows "event_owned s nodeID (u_ID (ow_user (resolve_grant s nodeID (ev_GrantID e) (ev_Generation e))))
    (labelled s nodeID (resolve_grant s nodeID (ev_GrantID e) (ev_Generation e)) e)"
  using active_owner [OF assms] by (auto simp: event_owned_def labelled_def)

definition groups_owned :: "State \<Rightarrow> string \<Rightarrow> audit_groups \<Rightarrow> bool" where
  "groups_owned s nodeID g \<longleftrightarrow> (\<forall>i es. mget (ag_grouped g) i = Some es \<longrightarrow> (\<forall>e \<in> set es. event_owned s nodeID i e))"

lemma groups_owned_put:
  assumes "groups_owned s nodeID g" and "event_owned s nodeID i e"
  shows "groups_owned s nodeID (g\<lparr>ag_grouped := mput i (zget [] (ag_grouped g) i @ [e]) (ag_grouped g), ag_users := us\<rparr>)"
  using assms by (cases "mget (ag_grouped g) i") (auto simp: groups_owned_def zget_def split: if_splits)

lemma group_events_owned:
  "group_events s nodeID es g = Inr g' \<Longrightarrow> groups_owned s nodeID g \<Longrightarrow> groups_owned s nodeID g'"
proof (induction es arbitrary: g)
  case (Cons e es)
  let ?ow = "resolve_grant s nodeID (ev_GrantID e) (ev_Generation e)"
  show ?case
  proof (cases "ow_active ?ow")
    case True
    with Cons groups_owned_put [OF Cons.prems(2) labelled_owned [OF True]] show ?thesis
      by (simp add: Let_def split: if_splits)
  next
    case False
    with Cons show ?thesis by (simp add: Let_def split: if_splits)
  qed
qed simp

lemma group_drops_owned:
  "group_drops s nodeID ds g = Inr g' \<Longrightarrow> groups_owned s nodeID g \<Longrightarrow> groups_owned s nodeID g'"
proof (induction ds arbitrary: g)
  case (Cons d ds)
  from Cons.prems Cons.IH show ?case
    by (auto simp: Let_def groups_owned_def split: if_splits)
qed simp



subsection \<open>Example\<close>

definition audit_site :: State where
  "audit_site = NewState\<lparr>
     st_Users := [(''usr_1'', zero_User\<lparr>u_ID := ''usr_1'', u_Name := ''alice'', u_Enabled := True, u_AuditEnabled := True, u_AuditGeneration := 3\<rparr>)],
     st_Gateways := [(''gw_1'', zero_Gateway\<lparr>gw_ID := ''gw_1'', gw_Enabled := True\<rparr>)],
     st_Agents := [(''agt_1'', zero_Agent\<lparr>ag_ID := ''agt_1'', ag_Name := ''exit'', ag_Enabled := True\<rparr>)],
     st_Attachments := [(''node_1'', zero_Attachment\<lparr>at_ID := ''node_1'', at_GatewayID := ''gw_1'', at_AgentID := ''agt_1'', at_Enabled := True\<rparr>)],
     st_Links := [(''lnk_1'', zero_Link\<lparr>lk_ID := ''lnk_1'', lk_AttachmentID := ''node_1'', lk_Enabled := True\<rparr>)],
     st_Grants := [(''grt_1'', zero_Grant\<lparr>gr_ID := ''grt_1'', gr_UserID := ''usr_1'', gr_AttachmentID := ''node_1'', gr_Enabled := True\<rparr>)]\<rparr>"

definition reported_event :: Event where
  "reported_event = zero_Event\<lparr>ev_At := 1, ev_GrantID := ''grt_1'', ev_Generation := 3, ev_ConnectionID := ''c1'', ev_Kind := ''tcp'',
     ev_Result := ''attempt'', ev_Host := ''example'', ev_Port := 443, ev_LinkID := ''lnk_1''\<rparr>"

definition stored_event :: Event where
  "stored_event = reported_event\<lparr>ev_UserID := ''usr_1'', ev_UserName := ''alice'', ev_AgentID := ''agt_1'', ev_GatewayID := ''gw_1'',
     ev_ExitName := ''exit''\<rparr>"

text \<open>An event of the current generation is kept, one of an older generation is dropped silently.\<close>

definition demo_batch :: Batch where
  "demo_batch = \<lparr>ba_Events = [reported_event, reported_event\<lparr>ev_Generation := 2\<rparr>], ba_Dropped = []\<rparr>"


end
