(* ===== verification/Login.thy ===== *)
theory Login
  imports Http
begin

text \<open>
  Who may call the Controller (\<open>src/internal/controller/server.go\<close>, \<open>request_limits.go\<close>,
  \<open>config.go\<close>): the administrator's login with its limits on guessing, sessions and their revocation,
  the request guard of the forms, and the limits on the public interface.

  The password check (bcrypt) is the parameter \<open>check\<close>. Budgets are \<open>float64\<close>, rounded by \<open>f64\<close>.
\<close>

definition maxLoginAttempts :: int where "maxLoginAttempts = 5"
definition loginFailureWindow :: duration where "loginFailureWindow = 15 * minute"
definition maxLoginSources :: nat where "maxLoginSources = 1024"
definition maxConcurrentLogins :: int where "maxConcurrentLogins = 4"
definition loginBurst :: rat where "loginBurst = 20"

record loginFailure =
  lo_count :: int
  lo_until :: gotime

record LoginState =
  lg_failures :: "loginFailure gomap"
  lg_active :: int
  lg_budget :: rat
  lg_budgetAt :: gotime

definition zero_LoginState :: LoginState where
  "zero_LoginState = \<lparr>lg_failures = [], lg_active = 0, lg_budget = 0, lg_budgetAt = 0\<rparr>"

text \<open>\<open>Duration.Seconds\<close>.\<close>

definition duration_seconds :: "duration \<Rightarrow> rat" where
  "duration_seconds d = f64 (of_int (sgn d * (\<bar>d\<bar> div second)) + f64 (of_int (sgn d * (\<bar>d\<bar> mod second)) / 1000000000))"

definition refill_login :: "gotime \<Rightarrow> LoginState \<Rightarrow> rat" where
  "refill_login now l =
     (if IsZero (lg_budgetAt l) then loginBurst
      else if lg_budgetAt l < now
        then min loginBurst (f64 (lg_budget l + f64 (f64 (duration_seconds (time_sub now (lg_budgetAt l)) * loginBurst) / 60)))
      else lg_budget l)"

definition beginLoginAttempt :: "gotime \<Rightarrow> string \<Rightarrow> LoginState \<Rightarrow> bool \<times> LoginState" where
  "beginLoginAttempt now clientIP l =
     (let l = (if maxLoginSources \<le> length (lg_failures l)
               then l\<lparr>lg_failures := mkeep (\<lambda>ip failure. now < lo_until failure) (lg_failures l)\<rparr> else l) in
      if mget (lg_failures l) clientIP = None \<and> maxLoginSources \<le> length (lg_failures l) then (False, l)
      else
        let failure = zget \<lparr>lo_count = 0, lo_until = 0\<rparr> (lg_failures l) clientIP;
            failure = (if \<not> now < lo_until failure then \<lparr>lo_count = 0, lo_until = now + loginFailureWindow\<rparr> else failure)
        in if maxLoginAttempts \<le> lo_count failure \<or> maxConcurrentLogins \<le> lg_active l then (False, l)
           else
             let budget = refill_login now l; l = l\<lparr>lg_budget := budget, lg_budgetAt := now\<rparr> in
             if budget < 1 then (False, l)
             else (True, l\<lparr>lg_budget := f64 (budget - 1), lg_active := lg_active l + 1,
                    lg_failures := mput clientIP (failure\<lparr>lo_count := lo_count failure + 1\<rparr>) (lg_failures l)\<rparr>))"

definition finishLoginAttempt :: "string \<Rightarrow> bool \<Rightarrow> LoginState \<Rightarrow> LoginState" where
  "finishLoginAttempt clientIP success l =
     (let l = l\<lparr>lg_active := lg_active l - 1\<rparr>
      in if success then l\<lparr>lg_failures := mdel clientIP (lg_failures l)\<rparr> else l)"

subsection \<open>Sessions\<close>

definition adminSessionKey :: "Env \<Rightarrow> string \<Rightarrow> string" where
  "adminSessionKey env passwordHash = Derive (e_hmac env) (e_sessionKey env) ''admin-session'' passwordHash"

datatype LoginResult = LoginError nat string | BadCredentials | LoggedIn string gotime

text \<open>The client's address, whatever the proxy headers say.\<close>

definition peer_of :: "Env \<Rightarrow> string \<Rightarrow> string" where
  "peer_of env remote = (case e_SplitHostPort env remote of None \<Rightarrow> remote | Some (host, _) \<Rightarrow> host)"

text \<open>\<open>login\<close> after its form was parsed: the attempt is reserved, checked and given back.\<close>

definition login :: "(string \<Rightarrow> string \<Rightarrow> bool) \<Rightarrow> string \<Rightarrow> Env \<Rightarrow> Request \<Rightarrow> LoginState \<Rightarrow> LoginResult \<times> LoginState" where
  "login check passwordHash env r l =
     (let username = FormValue r ''username''; password = FormValue r ''password''; ip = peer_of env (rq_RemoteAddr r) in
      if length (FormValues r ''username'') \<noteq> 1 \<or> length (FormValues r ''password'') \<noteq> 1 \<or> username = [] \<or>
         256 < length username \<or> password = [] \<or> 72 < length password
      then (LoginError 400 ''invalid login credentials'', l)
      else case beginLoginAttempt (e_now env) ip l of
          (False, l) \<Rightarrow> (LoginError 429 ''too many login attempts; try again later'', l)
        | (True, l) \<Rightarrow>
            if username \<noteq> e_AdminUsername env \<or> \<not> check passwordHash password then (BadCredentials, finishLoginAttempt ip False l)
            else
              let expires = e_now env + 12 * hour;
                  session = SignSession (e_hmac env) (e_rand env 0) (adminSessionKey env passwordHash) username expires
              in if session = [] then (LoginError 500 ''session generation failed'', finishLoginAttempt ip False l)
                 else (LoggedIn session expires, finishLoginAttempt ip True l))"

definition logout_tx :: "Env \<Rightarrow> string \<Rightarrow> unit tx" where
  "logout_tx env cookie s =
     (let kept = mkeep (\<lambda>hash expires. e_now env < expires) (st_RevokedAdminSessions s)
      in Inr ((), s\<lparr>st_RevokedAdminSessions := mput (env_SecretHash env cookie) (e_now env + 12 * hour) kept\<rparr>))"

definition logout :: "Env \<Rightarrow> string option \<Rightarrow> Store \<Rightarrow> Response \<times> Store" where
  "logout env cookie st =
     (case cookie of
        None \<Rightarrow> (HttpError 401 ''unauthorized'', st)
      | Some c \<Rightarrow>
          (case Update (e_store env) (logout_tx env c) st of
             (Inl _, st) \<Rightarrow> (HttpError 500 ''failed to revoke session; retry logout'', st)
           | (Inr _, st) \<Rightarrow> (SeeOther ''/login'', st)))"

definition isAdmin :: "Env \<Rightarrow> string \<Rightarrow> string option \<Rightarrow> State \<Rightarrow> bool" where
  "isAdmin env passwordHash cookie s =
     (case cookie of
        None \<Rightarrow> False
      | Some c \<Rightarrow>
          (case VerifySession (e_hmac env) (adminSessionKey env passwordHash) c (e_now env) of
             None \<Rightarrow> False
           | Some user \<Rightarrow>
               if user \<noteq> e_AdminUsername env then False
               else \<not> e_now env < zget 0 (st_RevokedAdminSessions s) (env_SecretHash env c)))"

definition requireAdmin ::
  "Env \<Rightarrow> string \<Rightarrow> string option \<Rightarrow> (Store \<Rightarrow> Response \<times> Store) \<Rightarrow> Store \<Rightarrow> Response \<times> Store" where
  "requireAdmin env passwordHash cookie next st =
     (if \<not> isAdmin env passwordHash cookie (sr_state st) then (SeeOther ''/login'', st) else next st)"

definition csrf :: "Env \<Rightarrow> string option \<Rightarrow> Request \<Rightarrow> (Store \<Rightarrow> Response \<times> Store) \<Rightarrow> Store \<Rightarrow> Response \<times> Store" where
  "csrf env cookie r next st =
     (case cookie of
        None \<Rightarrow> (HttpError 403 ''invalid CSRF token'', st)
      | Some c \<Rightarrow>
          if length (FormValues r ''csrf'') \<noteq> 1 \<or>
             FormValue r ''csrf'' \<noteq> Derive (e_hmac env) (e_sessionKey env) ''csrf'' c
          then (HttpError 403 ''invalid CSRF token'', st) else next st)"

subsection \<open>Limits on the public interface\<close>

record requestBucket =
  rb_tokens :: rat
  rb_at :: gotime

record RequestState =
  rs_sources :: "requestBucket gomap"
  rs_active :: int
  rs_sweepAt :: gotime

definition request_group :: "string \<Rightarrow> (string \<times> rat \<times> rat) option" where
  "request_group path =
     (if path = ''/api/v1/enroll'' \<or> path = ''/api/v1/updater/pair'' then Some (''enroll'', 1, 10)
      else if has_prefix path ''/api/v1/'' then Some (''node'', 100, 200)
      else if has_prefix path ''/subscription/'' then Some (''subscription'', 5, 20)
      else None)"

definition sweep_requests :: "bool \<Rightarrow> gotime \<Rightarrow> RequestState \<Rightarrow> RequestState" where
  "sweep_requests known now s =
     (if \<not> known \<and> 4096 \<le> length (rs_sources s) \<and> (IsZero (rs_sweepAt s) \<or> minute \<le> time_sub now (rs_sweepAt s))
      then s\<lparr>rs_sweepAt := now, rs_sources := mkeep (\<lambda>_ b. time_sub now (rb_at b) < 10 * minute) (rs_sources s)\<rparr> else s)"

definition refill_bucket :: "gotime \<Rightarrow> rat \<Rightarrow> rat \<Rightarrow> requestBucket \<Rightarrow> requestBucket" where
  "refill_bucket now rate burst b =
     b\<lparr>rb_tokens := min burst (f64 (rb_tokens b + f64 (max 0 (duration_seconds (time_sub now (rb_at b))) * rate))), rb_at := now\<rparr>"

text \<open>The part of \<open>limitPublicRequests\<close> before the handler; \<open>True\<close> lets the request pass.\<close>

definition limit_begin :: "gotime \<Rightarrow> string \<times> rat \<times> rat \<Rightarrow> string \<Rightarrow> RequestState \<Rightarrow> bool \<times> RequestState" where
  "limit_begin now grp peer s =
     (let (name, rate, burst) = grp; key = name @ ''/'' @ peer; found = mget (rs_sources s) key;
          known = (found \<noteq> None); s = sweep_requests known now s;
          allowed = (rs_active s < 64 \<and> (known \<or> length (rs_sources s) < 4096));
          b = refill_bucket now rate burst (case found of None \<Rightarrow> \<lparr>rb_tokens = burst, rb_at = now\<rparr> | Some b \<Rightarrow> b);
          allowed = (allowed \<and> 1 \<le> rb_tokens b);
          b = (if allowed then b\<lparr>rb_tokens := f64 (rb_tokens b - 1)\<rparr> else b);
          s = (if allowed then s\<lparr>rs_active := rs_active s + 1\<rparr> else s);
          s = (if known \<or> length (rs_sources s) < 4096 then s\<lparr>rs_sources := mput key b (rs_sources s)\<rparr> else s)
      in (allowed, s))"

definition limit_end :: "RequestState \<Rightarrow> RequestState" where
  "limit_end s = s\<lparr>rs_active := rs_active s - 1\<rparr>"

subsection \<open>Properties\<close>

text \<open>
  The login as a state machine: \<open>pending\<close> lists the client addresses of the attempts that were admitted
  and have not finished, \<open>spent\<close> counts per address the attempts admitted and not succeeded.
\<close>

inductive login_step :: "LoginState \<times> string list \<Rightarrow> LoginState \<times> string list \<Rightarrow> bool" where
  admit: "beginLoginAttempt now ip l = (True, l') \<Longrightarrow> login_step (l, pending) (l', ip # pending)"
| refuse: "beginLoginAttempt now ip l = (False, l') \<Longrightarrow> login_step (l, pending) (l', pending)"
| finish: "ip \<in> set pending \<Longrightarrow> login_step (l, pending) (finishLoginAttempt ip success l, remove1 ip pending)"

definition login_ok :: "LoginState \<times> string list \<Rightarrow> bool" where
  "login_ok lp \<longleftrightarrow> lg_active (fst lp) = int (length (snd lp)) \<and> lg_active (fst lp) \<le> maxConcurrentLogins \<and>
     mwf (lg_failures (fst lp)) \<and> length (lg_failures (fst lp)) \<le> maxLoginSources \<and>
     (\<forall>ip f. mget (lg_failures (fst lp)) ip = Some f \<longrightarrow> lo_count f \<le> maxLoginAttempts)"

lemma begin_cases:
  obtains (refused) l' where "beginLoginAttempt now ip l = (False, l')" "lg_active l' = lg_active l"
      "lg_failures l' = lg_failures l \<or> lg_failures l' = mkeep (\<lambda>ip f. now < lo_until f) (lg_failures l)"
  | (admitted) l' m f where "beginLoginAttempt now ip l = (True, l')" "lg_active l' = lg_active l + 1"
      "lg_active l < maxConcurrentLogins" "m = lg_failures l \<or> m = mkeep (\<lambda>ip f. now < lo_until f) (lg_failures l)"
      "mget m ip \<noteq> None \<or> length m < maxLoginSources" "lo_count f < maxLoginAttempts"
      "lg_failures l' = mput ip (f\<lparr>lo_count := lo_count f + 1\<rparr>) m"
      "(\<exists>g. mget m ip = Some g \<and> now < lo_until g \<and> f = g) \<or> lo_count f = 0"
proof -
  define l1 where "l1 = (if maxLoginSources \<le> length (lg_failures l)
    then l\<lparr>lg_failures := mkeep (\<lambda>ip f. now < lo_until f) (lg_failures l)\<rparr> else l)"
  define g where "g = zget \<lparr>lo_count = 0, lo_until = 0\<rparr> (lg_failures l1) ip"
  define f where "f = (if \<not> now < lo_until g then \<lparr>lo_count = 0, lo_until = now + loginFailureWindow\<rparr> else g)"
  have m: "lg_failures l1 = lg_failures l \<or> lg_failures l1 = mkeep (\<lambda>ip f. now < lo_until f) (lg_failures l)"
    and a: "lg_active l1 = lg_active l" by (simp_all add: l1_def)
  have b: "beginLoginAttempt now ip l =
     (if mget (lg_failures l1) ip = None \<and> maxLoginSources \<le> length (lg_failures l1) then (False, l1)
      else if maxLoginAttempts \<le> lo_count f \<or> maxConcurrentLogins \<le> lg_active l1 then (False, l1)
      else let budget = refill_login now l1; l = l1\<lparr>lg_budget := budget, lg_budgetAt := now\<rparr> in
             if budget < 1 then (False, l)
             else (True, l\<lparr>lg_budget := f64 (budget - 1), lg_active := lg_active l + 1,
                    lg_failures := mput ip (f\<lparr>lo_count := lo_count f + 1\<rparr>) (lg_failures l)\<rparr>))"
    by (simp add: beginLoginAttempt_def Let_def l1_def [symmetric] g_def [symmetric] f_def [symmetric])
  show thesis
  proof (cases "fst (beginLoginAttempt now ip l)")
    case False
    then have "lg_active (snd (beginLoginAttempt now ip l)) = lg_active l \<and> lg_failures (snd (beginLoginAttempt now ip l)) = lg_failures l1"
      unfolding b using a by (auto simp: Let_def split: if_splits)
    with False m refused show ?thesis by (metis prod.collapse)
  next
    case True
    then have room: "\<not> (mget (lg_failures l1) ip = None \<and> maxLoginSources \<le> length (lg_failures l1))"
      "\<not> (maxLoginAttempts \<le> lo_count f \<or> maxConcurrentLogins \<le> lg_active l1)" "\<not> refill_login now l1 < 1"
      unfolding b by (auto simp: Let_def split: if_splits)
    moreover have fresh: "(\<exists>g. mget (lg_failures l1) ip = Some g \<and> now < lo_until g \<and> f = g) \<or> lo_count f = 0"
      using g_def f_def by (cases "mget (lg_failures l1) ip") (auto simp: zget_def)
    moreover define l2 where "l2 = snd (beginLoginAttempt now ip l)"
    ultimately have "beginLoginAttempt now ip l = (True, l2) \<and> lg_active l2 = lg_active l + 1 \<and>
        lg_failures l2 = mput ip (f\<lparr>lo_count := lo_count f + 1\<rparr>) (lg_failures l1)"
      using a unfolding b by (simp add: Let_def)
    with room a m fresh show ?thesis by (intro admitted [of l2 "lg_failures l1" f]) auto
  qed
qed


lemma sources_kept:
  assumes "m = lg_failures l \<or> m = mkeep P (lg_failures l)" and "mwf (lg_failures l)"
  shows "mwf m" and "length m \<le> length (lg_failures l)" and "mget m ip = Some f \<Longrightarrow> mget (lg_failures l) ip = Some f"
  using assms length_mkeep_le by (auto simp: mget_mkeep split: option.splits if_splits)

lemma length_mput_known: "mget m k \<noteq> None \<Longrightarrow> length (mput k v m) = length m"
  by (simp add: length_mput mget_None_iff)

lemma length_mput_le: "length (mput k v m) \<le> Suc (length m)"
  by (simp add: length_mput)

lemma login_step_ok:
  assumes "login_step lp lp'" and "login_ok lp"
  shows "login_ok lp'"
  using assms
proof (cases rule: login_step.cases)
  case (admit now ip l l' pending)
  show ?thesis
  proof (rule begin_cases [of now ip l])
    fix l'' m f
    assume b: "beginLoginAttempt now ip l = (True, l'')" "lg_active l'' = lg_active l + 1" "lg_active l < maxConcurrentLogins"
      "m = lg_failures l \<or> m = mkeep (\<lambda>ip f. now < lo_until f) (lg_failures l)"
      "mget m ip \<noteq> None \<or> length m < maxLoginSources" "lo_count f < maxLoginAttempts"
      "lg_failures l'' = mput ip (f\<lparr>lo_count := lo_count f + 1\<rparr>) m"
    have eq: "l'' = l'" using admit b(1) by simp
    have ok: "login_ok (l, pending)" using assms(2) admit by simp
    note m = sources_kept [OF b(4)]
    have "length (mput ip (f\<lparr>lo_count := lo_count f + 1\<rparr>) m) \<le> maxLoginSources"
      using b(5) m(2) ok length_mput_known [of m ip] length_mput_le [of ip "f\<lparr>lo_count := lo_count f + 1\<rparr>" m] by (fastforce simp: login_ok_def)
    moreover have "lo_count g \<le> maxLoginAttempts" if "mget (mput ip (f\<lparr>lo_count := lo_count f + 1\<rparr>) m) k = Some g" for k g
      using that m(3) ok b(6) by (auto simp: login_ok_def split: if_splits)
    ultimately show ?thesis using ok b m(1) admit eq by (simp add: login_ok_def)
  qed (use admit in simp)
next
  case (refuse now ip l l' pending)
  show ?thesis
  proof (rule begin_cases [of now ip l])
    fix l''
    assume b: "beginLoginAttempt now ip l = (False, l'')" "lg_active l'' = lg_active l"
      "lg_failures l'' = lg_failures l \<or> lg_failures l'' = mkeep (\<lambda>ip f. now < lo_until f) (lg_failures l)"
    have ok: "login_ok (l, pending)" using assms(2) refuse by simp
    note m = sources_kept [OF b(3)]
    have count: "lo_count f \<le> maxLoginAttempts" if "mget (lg_failures l'') k = Some f" for k f
      using that m(3) ok by (auto simp: login_ok_def)
    have "mwf (lg_failures l'')" "length (lg_failures l'') \<le> maxLoginSources" using m(1,2) ok by (auto simp: login_ok_def)
    with count ok b(1,2) refuse show ?thesis by (simp add: login_ok_def)
  qed (use refuse in simp)
next
  case (finish ip pending l success)
  have len: "int (length (remove1 ip pending)) = int (length pending) - 1"
    using finish(3) length_pos_if_in_set [OF finish(3)] by (simp add: length_remove1 of_nat_diff Suc_leI)
  show ?thesis using assms(2) finish len length_mdel_le [of ip "lg_failures l"]
    by (auto simp: login_ok_def finishLoginAttempt_def Let_def intro: order_trans)
qed

lemma login_reachable_ok: "login_step\<^sup>*\<^sup>* (zero_LoginState, []) lp \<Longrightarrow> login_ok lp"
proof (induction rule: rtranclp_induct)
  case base
  show ?case by (simp add: login_ok_def zero_LoginState_def maxConcurrentLogins_def)
qed (rule login_step_ok)


text \<open>
  Revocations over time: the moves are a logout, of any session, and whatever else changes the state but
  not the list of revoked sessions. Time does not run backwards.
\<close>

inductive session_step :: "(string \<Rightarrow> string) \<Rightarrow> gotime \<times> State \<Rightarrow> gotime \<times> State \<Rightarrow> bool" for sha where
  logged_out: "\<lbrakk>now \<le> e_now env; e_sha256 env = sha; logout_tx env cookie s = Inr ((), s')\<rbrakk>
     \<Longrightarrow> session_step sha (now, s) (e_now env, s')"
| elsewhere: "\<lbrakk>now \<le> now'; st_RevokedAdminSessions s' = st_RevokedAdminSessions s\<rbrakk>
     \<Longrightarrow> session_step sha (now, s) (now', s')"

definition revoked_until :: "string \<Rightarrow> gotime \<Rightarrow> gotime \<times> State \<Rightarrow> bool" where
  "revoked_until h until ts \<longleftrightarrow> mwf (st_RevokedAdminSessions (snd ts)) \<and> until \<le> fst ts + 12 * hour \<and>
     (until \<le> fst ts \<or> (\<exists>t. mget (st_RevokedAdminSessions (snd ts)) h = Some t \<and> until \<le> t))"

lemma session_step_revoked:
  assumes "session_step sha ts ts'" and "revoked_until h until ts"
  shows "revoked_until h until ts'"
  using assms
proof (cases rule: session_step.cases)
  case (logged_out now env cookie s s')
  have "st_RevokedAdminSessions s' = mput (env_SecretHash env cookie) (e_now env + 12 * hour)
      (mkeep (\<lambda>hash expires. e_now env < expires) (st_RevokedAdminSessions s))"
    using logged_out(5) by (auto simp: logout_tx_def Let_def)
  moreover have "0 \<le> hour" by simp
  ultimately show ?thesis using assms(2) logged_out(1-3) by (auto simp: revoked_until_def mget_mkeep)
next
  case (elsewhere now now' s' s)
  then show ?thesis using assms(2) by (auto simp: revoked_until_def)
qed

lemma session_steps_revoked:
  "(session_step sha)\<^sup>*\<^sup>* ts ts' \<Longrightarrow> revoked_until h until ts \<Longrightarrow> revoked_until h until ts'"
  by (induction rule: rtranclp_induct) (auto intro: session_step_revoked)

text \<open>
  C25. A session that was logged out is never accepted again, whatever is done to the state afterwards and
  whichever other sessions are logged out in between: not while its revocation is stored, which logouts of
  others drop only when its twelve hours are over, nor after that, because a session lasts at most twelve
  hours from its login and so has expired by then.
\<close>

theorem logout_is_final:
  assumes "token_ok nonce" and "\<bar>time_unix expires\<bar> < 2 ^ 63" and "mwf (st_RevokedAdminSessions s)"
    and "expires \<le> e_now env + 12 * hour"
    and "c = SignSession (e_hmac env) (Inr nonce) (adminSessionKey env passwordHash) username expires"
    and "logout_tx env c s = Inr ((), s')"
    and "(session_step (e_sha256 env))\<^sup>*\<^sup>* (e_now env, s') (e_now later, s'')"
    and "later = env\<lparr>e_now := now\<rparr>"
  shows "\<not> isAdmin later passwordHash (Some c) s''"
proof -
  have "revoked_until (env_SecretHash env c) (e_now env + 12 * hour) (e_now env, s')"
    using assms(3,6) by (auto simp: revoked_until_def logout_tx_def Let_def)
  from session_steps_revoked [OF assms(7) this]
  consider "e_now env + 12 * hour \<le> now"
    | t where "mget (st_RevokedAdminSessions s'') (env_SecretHash env c) = Some t" "e_now env + 12 * hour \<le> t" "now < t"
    using assms(8) by (force simp: revoked_until_def)
  then show ?thesis
  proof cases
    case 1
    then have "time_unix expires \<le> time_unix now" using assms(4) by (simp add: time_unix_def zdiv_mono1)
    then have "VerifySession (e_hmac env) (adminSessionKey env passwordHash) c now = None"
      using verify_signed [OF assms(1,2)] by (simp add: assms(5))
    then show ?thesis using assms(8) by (simp add: isAdmin_def adminSessionKey_def)
  next
    case 2
    then show ?thesis using assms(8) by (simp add: isAdmin_def env_SecretHash_def zget_Some split: option.splits)
  qed
qed


text \<open>Five wrong passwords from one address, then a sixth try.\<close>

fun demo_guesses :: "nat \<Rightarrow> LoginState" where
  "demo_guesses 0 = zero_LoginState"
| "demo_guesses (Suc n) = finishLoginAttempt ''198.51.100.7'' False
     (snd (beginLoginAttempt (1000 * second) ''198.51.100.7'' (demo_guesses n)))"

lemma demo_guesses_admitted:
  "fst (beginLoginAttempt (1000 * second) ''198.51.100.7'' (demo_guesses 0))"
  "fst (beginLoginAttempt (1000 * second) ''198.51.100.7'' (demo_guesses 1))"
  "fst (beginLoginAttempt (1000 * second) ''198.51.100.7'' (demo_guesses 2))"
  "fst (beginLoginAttempt (1000 * second) ''198.51.100.7'' (demo_guesses 3))"
  "fst (beginLoginAttempt (1000 * second) ''198.51.100.7'' (demo_guesses 4))"
  by code_simp+

lemma demo_guess_step:
  assumes "fst (beginLoginAttempt (1000 * second) ''198.51.100.7'' (demo_guesses n))"
  shows "login_step\<^sup>*\<^sup>* (demo_guesses n, []) (demo_guesses (Suc n), [])"
proof -
  let ?l = "snd (beginLoginAttempt (1000 * second) ''198.51.100.7'' (demo_guesses n))"
  have "login_step (demo_guesses n, []) (?l, [''198.51.100.7''])"
    by (rule admit [of "1000 * second"]) (use assms in \<open>simp add: prod_eq_iff\<close>)
  moreover have "login_step (?l, [''198.51.100.7'']) (demo_guesses (Suc n), [])"
    using finish [of "''198.51.100.7''" "[''198.51.100.7'']" ?l False] by simp
  ultimately show ?thesis by (meson converse_rtranclp_into_rtranclp rtranclp.rtrancl_refl)
qed

lemma demo_guesses_reached: "login_step\<^sup>*\<^sup>* (zero_LoginState, []) (demo_guesses 5, [])"
  using demo_guess_step [of 0] demo_guess_step [of 1] demo_guess_step [of 2] demo_guess_step [of 3] demo_guess_step [of 4]
    demo_guesses_admitted by (simp add: numeral_eq_Suc del: demo_guesses.simps(2))


theorem logout_is_final_witness:
  "\<not> isAdmin (demo_ctx\<lparr>e_now := 1000 * second + 3 * hour\<rparr>) ''hash''
      (Some (SignSession (e_hmac demo_ctx) (Inr ''nonce'') (adminSessionKey demo_ctx ''hash'') (e_AdminUsername demo_ctx) (1000 * second + 11 * hour)))
      (zero_State\<lparr>st_RevokedAdminSessions := mput (env_SecretHash demo_ctx (SignSession (e_hmac demo_ctx) (Inr ''nonce'')
          (adminSessionKey demo_ctx ''hash'') (e_AdminUsername demo_ctx) (1000 * second + 11 * hour))) (1000 * second + 12 * hour) []\<rparr>)"
proof -
  let ?c = "SignSession (e_hmac demo_ctx) (Inr ''nonce'') (adminSessionKey demo_ctx ''hash'') (e_AdminUsername demo_ctx) (1000 * second + 11 * hour)"
  let ?s = "zero_State\<lparr>st_RevokedAdminSessions := mput (env_SecretHash demo_ctx ?c) (1000 * second + 12 * hour) []\<rparr>"
  have now: "e_now demo_ctx = 1000 * second" by (simp add: demo_ctx_def)
  have out: "logout_tx demo_ctx ?c zero_State = Inr ((), ?s)" by (simp add: logout_tx_def zero_State_def mkeep_def now)
  have step: "(session_step (e_sha256 demo_ctx))\<^sup>*\<^sup>* (e_now demo_ctx, ?s) (e_now (demo_ctx\<lparr>e_now := 1000 * second + 3 * hour\<rparr>), ?s)"
    by (rule r_into_rtranclp) (simp add: session_step.elsewhere now)
  have "token_ok ''nonce''" by (simp add: token_ok_def)
  moreover have "\<bar>time_unix (1000 * second + 11 * hour)\<bar> < 2 ^ 63" by (simp add: time_unix_def)
  moreover have "mwf (st_RevokedAdminSessions zero_State)" by (simp add: zero_State_def)
  moreover have "1000 * second + 11 * hour \<le> e_now demo_ctx + 12 * hour" by (simp add: now)
  ultimately show ?thesis using logout_is_final [OF _ _ _ _ refl out step refl] by blast
qed

end
