(* ===== verification/Updater.thy ===== *)
theory Updater
  imports Http
begin

text \<open>
  The updater of a node (\<open>src/internal/updater/updater.go\<close>, \<open>executor.go\<close>): it downloads a release,
  keeps copies of the installed files, switches the service over, watches the new version and restores the
  old one when it does not become healthy. A journal written before every step lets the next process
  finish or undo what an interrupted one began.

  \<open>World\<close> is what survives the updater's process: the files, the journals of the jobs, and the clock. The
  work directory holds the files \<open>JobFile id name\<close> of the jobs and is apart from the files \<open>Installed path\<close>
  of the node. Whatever the updater does not decide comes from \<open>Host\<close>, indexed by the number of the
  effect: how long it takes, the answers of the Controller, the output of commands, the outcome of file
  operations, and whether the process is still alive. A process that was killed (\<open>w_dead\<close>) has no further
  effects, so a property of the world after an operation is a property at every point of it.

  A file is replaced by renaming a synced temporary file over it: the replacement is atomic, but it can
  report an error after it has happened (\<open>IoAfter\<close>). Reading a file that exists succeeds. The time limits
  of single requests and commands are errors of those. The lock that keeps a second updater out, the
  heartbeats and the endless loop around \<open>tick\<close> are not modelled.
\<close>

datatype uerr = Plain string | is_StatusUnavailable: StatusUnavailable string | is_UpgradeRolledBack: UpgradeRolledBack string

fun uerr_text :: "uerr \<Rightarrow> string" where
  "uerr_text (Plain s) = s"
| "uerr_text (StatusUnavailable s) = ''controller status temporarily unavailable: '' @ s"
| "uerr_text (UpgradeRolledBack s) = ''upgrade rolled back: '' @ s"

record UpdConfig =
  uc_ControllerURL :: string
  uc_NodeID :: string
  uc_Role :: string
  uc_Credential :: string
  uc_Mode :: string
  uc_InstallDir :: string
  uc_WorkDir :: string

definition validateConfig :: "UpdConfig \<Rightarrow> uerr option" where
  "validateConfig c =
     (if \<not> has_prefix (uc_ControllerURL c) ''https://'' \<or> uc_NodeID c = [] \<or> uc_Credential c = [] \<or>
         (uc_Role c \<noteq> ''gateway'' \<and> uc_Role c \<noteq> ''agent'') then Some (Plain ''invalid updater identity'')
      else if uc_Mode c \<noteq> ''systemd'' \<and> uc_Mode c \<noteq> ''docker'' then Some (Plain ''updater mode must be systemd or docker'')
      else if uc_Mode c = ''docker'' \<and> (uc_InstallDir c = [] \<or> \<not> has_prefix (uc_InstallDir c) ''/'')
        then Some (Plain ''Docker install directory must be absolute'')
      else None)"

record UpdClient =
  cl_cfg :: UpdConfig
  cl_localArchive :: string

record journal =
  jo_Task :: UpgradeTask
  jo_Phase :: string
  jo_Result :: string
  jo_Reported :: bool
  jo_Local :: bool
  jo_Error :: string
  jo_OldImage :: string
  jo_OldInstance :: string
  jo_SwitchAt :: gotime

datatype place = Installed string | JobFile string string

record World =
  w_files :: "(place \<times> string) list"
  w_journals :: "journal gomap"
  w_now :: gotime
  w_step :: nat
  w_dead :: bool

datatype io = IoOk | IoBefore string | IoAfter string

text \<open>The requests of the updater and what comes back: the status code and line, the body, and what
  decoding it as a task gives.\<close>

datatype Call = GetTask | PostManual string string string string string string | PostReport string string string int
  | GetStatus string | GetAsset string

record Reply =
  rp_code :: nat
  rp_status :: string
  rp_body :: string
  rp_task :: "error + UpgradeTask"
  rp_node :: "error + NodeStatus"

record Host =
  h_alive :: "nat \<Rightarrow> bool"
  h_takes :: "nat \<Rightarrow> nat"
  h_cancelled :: "nat \<Rightarrow> bool"
  h_io :: "nat \<Rightarrow> io"
  h_cmd :: "nat \<Rightarrow> string list \<Rightarrow> error + string"
  h_http :: "nat \<Rightarrow> Call \<Rightarrow> error + Reply"
  h_untar :: "nat \<Rightarrow> string \<Rightarrow> (string \<times> string) list \<times> error option"
  h_regular :: "nat \<Rightarrow> string \<Rightarrow> bool"
  h_token :: "nat \<Rightarrow> error + string"
  h_credential :: "string \<Rightarrow> error + string"
  h_sha256 :: "string \<Rightarrow> string"
  h_arch :: string

subsection \<open>Effects\<close>

text \<open>One effect: nothing happens when the process is dead or dies now; otherwise time passes and the
  \<open>k\<close>-th answers of the host apply.\<close>

definition effect :: "Host \<Rightarrow> 'a \<Rightarrow> (nat \<Rightarrow> World \<Rightarrow> 'a \<times> World) \<Rightarrow> World \<Rightarrow> 'a \<times> World" where
  "effect h killed f w =
     (if w_dead w then (killed, w)
      else if \<not> h_alive h (w_step w) then (killed, w\<lparr>w_dead := True\<rparr>)
      else f (w_step w) (w\<lparr>w_step := w_step w + 1, w_now := w_now w + int (h_takes h (w_step w))\<rparr>))"

abbreviation "killed \<equiv> Some (Plain ''killed'')"

text \<open>\<open>if err := f(); err != nil { return err }\<close> followed by the rest.\<close>

definition and_then ::
  "(World \<Rightarrow> uerr option \<times> World) \<Rightarrow> (World \<Rightarrow> uerr option \<times> World) \<Rightarrow> World \<Rightarrow> uerr option \<times> World" where
  "and_then f g w = (case f w of (Some err, w) \<Rightarrow> (Some err, w) | (None, w) \<Rightarrow> g w)"

definition fail :: "string \<Rightarrow> World \<Rightarrow> uerr option \<times> World" where
  "fail msg w = (Some (Plain msg), w)"

definition put_file :: "place \<Rightarrow> string \<Rightarrow> World \<Rightarrow> World" where
  "put_file p content w = w\<lparr>w_files := mput p content (w_files w)\<rparr>"

definition replace_file :: "Host \<Rightarrow> place \<Rightarrow> string \<Rightarrow> World \<Rightarrow> uerr option \<times> World" where
  "replace_file h dst content =
     effect h killed (\<lambda>k w. case h_io h k of
        IoOk \<Rightarrow> (None, put_file dst content w)
      | IoBefore err \<Rightarrow> (Some (Plain err), w)
      | IoAfter err \<Rightarrow> (Some (Plain err), put_file dst content w))"

definition copyFile :: "Host \<Rightarrow> place \<Rightarrow> place \<Rightarrow> World \<Rightarrow> uerr option \<times> World" where
  "copyFile h src dst w =
     (case mget (w_files w) src of
        None \<Rightarrow> fail ''no such file'' w
      | Some content \<Rightarrow> replace_file h dst content w)"

definition saveJournal :: "Host \<Rightarrow> string \<Rightarrow> journal \<Rightarrow> World \<Rightarrow> uerr option \<times> World" where
  "saveJournal h dir j =
     effect h killed (\<lambda>k w. case h_io h k of
        IoOk \<Rightarrow> (None, w\<lparr>w_journals := mput dir j (w_journals w)\<rparr>)
      | IoBefore err \<Rightarrow> (Some (Plain err), w)
      | IoAfter err \<Rightarrow> (Some (Plain err), w\<lparr>w_journals := mput dir j (w_journals w)\<rparr>))"

text \<open>A command and its output.\<close>

definition cmd_output :: "Host \<Rightarrow> string list \<Rightarrow> World \<Rightarrow> (uerr + string) \<times> World" where
  "cmd_output h args =
     effect h (Inl (Plain ''killed'')) (\<lambda>k w. (case h_cmd h k args of Inl err \<Rightarrow> Inl (Plain err) | Inr out \<Rightarrow> Inr out, w))"

definition command :: "Host \<Rightarrow> string list \<Rightarrow> World \<Rightarrow> uerr option \<times> World" where
  "command h args w =
     (case cmd_output h args w of
        (Inl err, w) \<Rightarrow> (Some (Plain (join_with '' '' args @ '': '' @ uerr_text err)), w)
      | (Inr _, w) \<Rightarrow> (None, w))"

text \<open>\<open>time.After(3 * time.Second)\<close>, or the end of the context.\<close>

definition sleep3 :: "Host \<Rightarrow> World \<Rightarrow> uerr option \<times> World" where
  "sleep3 h =
     effect h killed (\<lambda>k w. if h_cancelled h k then (Some (Plain ''context canceled''), w)
                            else (None, w\<lparr>w_now := w_now w + 3 * second\<rparr>))"

definition send :: "Host \<Rightarrow> Call \<Rightarrow> World \<Rightarrow> (uerr + Reply) \<times> World" where
  "send h call =
     effect h (Inl (Plain ''killed'')) (\<lambda>k w. (case h_http h k call of Inl err \<Rightarrow> Inl (Plain err) | Inr r \<Rightarrow> Inr r, w))"

text \<open>\<open>client.request\<close>: the status code, the error, and the task that was decoded.\<close>

definition request :: "Host \<Rightarrow> Call \<Rightarrow> World \<Rightarrow> (nat \<times> uerr option \<times> UpgradeTask) \<times> World" where
  "request h call w =
     (case send h call w of
        (Inl err, w) \<Rightarrow> ((0, Some err, zero_UpgradeTask), w)
      | (Inr r, w) \<Rightarrow>
          if 400 \<le> rp_code r
          then ((rp_code r, Some (Plain (''controller '' @ rp_status r @ '': '' @ TrimSpace (rp_body r))), zero_UpgradeTask), w)
          else case call of
              PostReport _ _ _ _ \<Rightarrow> ((rp_code r, None, zero_UpgradeTask), w)
            | _ \<Rightarrow> if rp_code r = 200
                   then (case rp_task r of Inl err \<Rightarrow> ((rp_code r, Some (Plain err), zero_UpgradeTask), w)
                         | Inr task \<Rightarrow> ((rp_code r, None, task), w))
                   else ((rp_code r, None, zero_UpgradeTask), w))"

definition report :: "Host \<Rightarrow> journal \<Rightarrow> string \<Rightarrow> string \<Rightarrow> World \<Rightarrow> uerr option \<times> World" where
  "report h j stage detail w =
     (case request h (PostReport (ut_ID (jo_Task j)) stage detail (ut_Attempt (jo_Task j))) w of
        ((_, err, _), w) \<Rightarrow> (err, w))"

definition reportTerminal :: "Host \<Rightarrow> string \<Rightarrow> journal \<Rightarrow> World \<Rightarrow> (uerr option \<times> journal) \<times> World" where
  "reportTerminal h dir j w =
     (if jo_Reported j then ((None, j), w)
      else case report h j (jo_Result j) (jo_Error j) w of
          (Some err, w) \<Rightarrow> ((Some err, j), w)
        | (None, w) \<Rightarrow>
            let j = j\<lparr>jo_Reported := True\<rparr>
            in (case saveJournal h dir j w of (err, w) \<Rightarrow> ((err, j), w)))"

subsection \<open>The node\<close>

definition systemdXmeshPath :: string where "systemdXmeshPath = ''/usr/local/bin/xmesh''"
definition systemdXrayPath :: string where "systemdXrayPath = ''/usr/local/lib/xmesh/xray''"
definition systemdService :: string where "systemdService = ''xmesh.service''"
definition systemdNodeConfigPath :: string where "systemdNodeConfigPath = ''/etc/xmesh/node.json''"

definition install_path :: "UpdConfig \<Rightarrow> string \<Rightarrow> place" where
  "install_path c name = Installed (uc_InstallDir c @ ''/'' @ name)"

definition nodeConfigPath :: "UpdConfig \<Rightarrow> place" where
  "nodeConfigPath c = (if uc_Mode c = ''docker'' then install_path c ''config/node.json'' else Installed systemdNodeConfigPath)"

definition nodeCredential :: "Host \<Rightarrow> UpdConfig \<Rightarrow> World \<Rightarrow> uerr + string" where
  "nodeCredential h c w =
     (case mget (w_files w) (nodeConfigPath c) of
        None \<Rightarrow> Inl (Plain ''no such file'')
      | Some text' \<Rightarrow>
          (case h_credential h text' of
             Inl err \<Rightarrow> Inl (Plain err)
           | Inr cred \<Rightarrow> if cred = [] then Inl (Plain ''node credential missing'') else Inr cred))"

definition nodeStatus_of :: "Host \<Rightarrow> UpdConfig \<Rightarrow> World \<Rightarrow> (uerr + NodeStatus) \<times> World" where
  "nodeStatus_of h c w =
     (case nodeCredential h c w of
        Inl err \<Rightarrow> (Inl err, w)
      | Inr cred \<Rightarrow>
          (case send h (GetStatus cred) w of
             (Inl err, w) \<Rightarrow> (Inl err, w)
           | (Inr r, w) \<Rightarrow>
               if rp_code r \<noteq> 200 then (Inl (Plain (''node status '' @ rp_status r)), w)
               else (case rp_node r of Inl err \<Rightarrow> (Inl (Plain err), w) | Inr st \<Rightarrow> (Inr st, w))))"

definition composeContainer :: "Host \<Rightarrow> World \<Rightarrow> (uerr + string) \<times> World" where
  "composeContainer h w =
     (case cmd_output h [''docker'', ''compose'', ''ps'', ''-q'', ''xmesh''] w of
        (Inl err, w) \<Rightarrow> (Inl err, w)
      | (Inr out, w) \<Rightarrow>
          let i = TrimSpace out in if i = [] then (Inl (Plain ''xmesh container missing''), w) else (Inr i, w))"

definition serviceRunning :: "Host \<Rightarrow> UpdConfig \<Rightarrow> World \<Rightarrow> uerr option \<times> World" where
  "serviceRunning h c w =
     (if uc_Mode c = ''systemd'' then command h [''systemctl'', ''is-active'', ''--quiet'', systemdService] w
      else case composeContainer h w of
          (Inl err, w) \<Rightarrow> (Some err, w)
        | (Inr i, w) \<Rightarrow>
            (case cmd_output h [''docker'', ''inspect'', ''-f'', ''{{.State.Running}}'', i] w of
               (Inl err, w) \<Rightarrow> (Some err, w)
             | (Inr out, w) \<Rightarrow>
                 if TrimSpace out \<noteq> ''true'' then fail ''xmesh container not running'' w else (None, w)))"

definition localVersion :: "Host \<Rightarrow> UpdConfig \<Rightarrow> World \<Rightarrow> (uerr + string) \<times> World" where
  "localVersion h c w =
     (case (if uc_Mode c = ''systemd'' then (Inr [systemdXmeshPath, ''version''], w)
            else case composeContainer h w of
                (Inl err, w) \<Rightarrow> (Inl err, w)
              | (Inr i, w) \<Rightarrow> (Inr [''docker'', ''exec'', i, ''/usr/local/bin/xmesh'', ''version''], w)) of
        (Inl err, w) \<Rightarrow> (Inl err, w)
      | (Inr args, w) \<Rightarrow>
          (case cmd_output h args w of (Inl err, w) \<Rightarrow> (Inl err, w) | (Inr out, w) \<Rightarrow> (Inr (TrimSpace out), w)))"

subsection \<open>Watching a version\<close>

definition fresh_fault :: "journal \<Rightarrow> NodeStatus \<Rightarrow> bool" where
  "fresh_fault j st = (jo_SwitchAt j < ns_LastSeen st \<and>
     (ns_BinaryVersion st \<noteq> ut_TargetVersion (jo_Task j) \<or> ns_ApplyError st \<noteq> [] \<or> ns_XrayError st \<noteq> []))"

definition healthy :: "UpdConfig \<Rightarrow> journal \<Rightarrow> NodeStatus \<Rightarrow> bool" where
  "healthy c j st = (ns_InstanceID st \<noteq> [] \<and> ns_InstanceID st \<noteq> jo_OldInstance j \<and>
     ns_BinaryVersion st = ut_TargetVersion (jo_Task j) \<and> jo_SwitchAt j < ns_LastSeen st \<and>
     ns_DesiredVersion st \<le> ns_AppliedVersion st \<and> ns_ApplyError st = [] \<and> ns_XrayError st = [] \<and>
     (uc_Role c \<noteq> ''gateway'' \<or> ns_XrayReady st \<and> ns_Ready st))"

definition recovered :: "UpdConfig \<Rightarrow> journal \<Rightarrow> NodeStatus \<Rightarrow> bool" where
  "recovered c j st = (ns_BinaryVersion st = ut_FromVersion (jo_Task j) \<and> jo_SwitchAt j < ns_LastSeen st \<and>
     ns_DesiredVersion st \<le> ns_AppliedVersion st \<and> ns_ApplyError st = [] \<and> ns_XrayError st = [] \<and>
     (uc_Role c \<noteq> ''gateway'' \<or> ns_XrayReady st))"

text \<open>Effects that leave files and journals alone and do not turn the clock back.\<close>

definition quiet :: "World \<Rightarrow> World \<Rightarrow> bool" where
  "quiet w w' \<longleftrightarrow> w_files w' = w_files w \<and> w_journals w' = w_journals w \<and> w_now w \<le> w_now w' \<and> (w_dead w \<longrightarrow> w' = w)"

lemma quiet_refl [simp]: "quiet w w"
  by (simp add: quiet_def)

lemma quiet_trans: "quiet w w' \<Longrightarrow> quiet w' w'' \<Longrightarrow> quiet w w''"
  by (auto simp: quiet_def)

lemma effect_quiet:
  assumes "\<And>k v. \<not> w_dead v \<Longrightarrow> quiet v (snd (f k v))"
  shows "quiet w (snd (effect h x f w))"
proof (cases "w_dead w")
  case False
  then have "quiet (w\<lparr>w_step := w_step w + 1, w_now := w_now w + int (h_takes h (w_step w))\<rparr>)
    (snd (f (w_step w) (w\<lparr>w_step := w_step w + 1, w_now := w_now w + int (h_takes h (w_step w))\<rparr>)))" by (intro assms) simp
  with False show ?thesis by (auto simp: effect_def quiet_def)
qed (simp add: effect_def)

lemma quiet_cmd_output: "quiet w (snd (cmd_output h args w))"
  unfolding cmd_output_def by (rule effect_quiet) simp

lemma quiet_send: "quiet w (snd (send h call w))"
  unfolding send_def by (rule effect_quiet) simp

lemma quiet_sleep3: "quiet w (snd (sleep3 h w))"
  unfolding sleep3_def by (rule effect_quiet) (simp add: quiet_def)

lemma quiet_chain:
  assumes "quiet w (snd r)" and "\<And>x v. quiet v (snd (g x v))"
  shows "quiet w (snd (case r of (x, v) \<Rightarrow> g x v))"
  using assms by (cases r) (auto intro: quiet_trans)

lemmas chain_cmd = quiet_chain [OF quiet_cmd_output] and chain_send = quiet_chain [OF quiet_send]

lemma quiet_command: "quiet w (snd (command h args w))"
  unfolding command_def by (auto intro!: chain_cmd split: sum.split)

lemma quiet_request: "quiet w (snd (request h call w))"
  unfolding request_def by (auto intro!: chain_send split: sum.split Call.split)

lemma quiet_report: "quiet w (snd (report h j stage detail w))"
  unfolding report_def by (auto intro!: quiet_chain [OF quiet_request])

lemma quiet_nodeStatus_of: "quiet w (snd (nodeStatus_of h c w))"
  unfolding nodeStatus_of_def by (auto intro!: chain_send split: sum.split)

lemma quiet_composeContainer: "quiet w (snd (composeContainer h w))"
  unfolding composeContainer_def by (auto intro!: chain_cmd simp: Let_def split: sum.split)

lemma quiet_serviceRunning: "quiet w (snd (serviceRunning h c w))"
  unfolding serviceRunning_def
  by (auto intro!: quiet_command quiet_chain [OF quiet_composeContainer] chain_cmd simp: fail_def split: sum.split)

lemma quiet_localVersion: "quiet w (snd (localVersion h c w))"
proof -
  let ?args = "if uc_Mode c = ''systemd'' then (Inr [systemdXmeshPath, ''version''], w)
            else case composeContainer h w of
                (Inl err, w) \<Rightarrow> (Inl err, w)
              | (Inr i, w) \<Rightarrow> (Inr [''docker'', ''exec'', i, ''/usr/local/bin/xmesh'', ''version''], w)"
  have "quiet w (snd ?args)" by (auto intro!: quiet_chain [OF quiet_composeContainer] split: sum.split)
  from quiet_chain [OF this] show ?thesis
    unfolding localVersion_def by (rule meta_mp) (auto intro!: chain_cmd split: sum.split)
qed

lemma sleep3_time: "sleep3 h w = (None, w') \<Longrightarrow> w_now w + 3 * second \<le> w_now w'"
  by (auto simp: sleep3_def effect_def split: if_splits)

lemma round_idle:
  assumes "(e, w1) = serviceRunning h c w" and "(None, w3) = sleep3 h w1"
  shows "w_now w < w_now w3"
  using quiet_serviceRunning [of w h c] sleep3_time [of h w1 w3] assms by (cases "serviceRunning h c w") (auto simp: quiet_def)

lemma round_status:
  assumes "(e, w1) = serviceRunning h c w" and "(s, w2) = nodeStatus_of h c w1" and "(None, w3) = sleep3 h w2"
  shows "w_now w < w_now w3"
proof -
  have "quiet w w1" using quiet_serviceRunning [of w h c] by (simp flip: assms(1))
  moreover have "quiet w1 w2" using quiet_nodeStatus_of [of w1 h c] by (simp flip: assms(2))
  ultimately show ?thesis using sleep3_time [of h w2 w3] assms(3) by (simp add: quiet_def)
qed

text \<open>The loop of \<open>verify\<close>: it ends because the clock moves on by three seconds a round.\<close>

function verify_loop ::
  "Host \<Rightarrow> UpdConfig \<Rightarrow> journal \<Rightarrow> gotime \<Rightarrow> gotime \<Rightarrow> uerr option \<Rightarrow> bool \<Rightarrow> World \<Rightarrow> uerr option \<times> World" where
  "verify_loop h c j deadline stableAt lastErr bad w =
     (if \<not> w_now w < deadline then
        (case lastErr of
           Some err \<Rightarrow> if \<not> bad then (Some (StatusUnavailable (uerr_text err)), w)
                       else fail ''new process did not report healthy for 30 seconds'' w
         | None \<Rightarrow> fail ''new process did not report healthy for 30 seconds'' w)
      else case serviceRunning h c w of
          (Some err, w1) \<Rightarrow> (Some err, w1)
        | (None, w1) \<Rightarrow>
            (case nodeStatus_of h c w1 of
               (Inl err, w2) \<Rightarrow>
                 (case sleep3 h w2 of
                    (Some err', w3) \<Rightarrow> (Some err', w3)
                  | (None, w3) \<Rightarrow> verify_loop h c j deadline stableAt (Some err) bad w3)
             | (Inr st, w2) \<Rightarrow>
                 let bad = (bad \<or> fresh_fault j st);
                     stableAt = (if healthy c j st then (if IsZero stableAt then w_now w2 else stableAt) else 0)
                 in if healthy c j st \<and> 30 * second \<le> time_sub (w_now w2) stableAt then (None, w2)
                    else (case sleep3 h w2 of
                            (Some err', w3) \<Rightarrow> (Some err', w3)
                          | (None, w3) \<Rightarrow> verify_loop h c j deadline stableAt lastErr bad w3)))"
  by pat_completeness auto

termination
proof (relation "measure (\<lambda>(h, c, j, deadline, stableAt, lastErr, bad, w). nat (deadline - w_now w))")
qed (auto intro: round_status round_idle)

definition verify :: "Host \<Rightarrow> UpdClient \<Rightarrow> journal \<Rightarrow> World \<Rightarrow> uerr option \<times> World" where
  "verify h c j w = verify_loop h (cl_cfg c) j (w_now w + 90 * second) 0 None False w"

function verifyRollback_loop ::
  "Host \<Rightarrow> UpdConfig \<Rightarrow> journal \<Rightarrow> gotime \<Rightarrow> bool \<Rightarrow> World \<Rightarrow> uerr option \<times> World" where
  "verifyRollback_loop h c j deadline unavailable w =
     (if \<not> w_now w < deadline then
        (case (if unavailable then serviceRunning h c w else (killed, w)) of
           (Some _, w1) \<Rightarrow> fail ''old version did not recover'' w1
         | (None, w1) \<Rightarrow>
             (case localVersion h c w1 of
                (Inr version, w2) \<Rightarrow>
                  if version = ut_FromVersion (jo_Task j) then (None, w2) else fail ''old version did not recover'' w2
              | (Inl _, w2) \<Rightarrow> fail ''old version did not recover'' w2))
      else case serviceRunning h c w of
          (Some err, w1) \<Rightarrow>
            (case sleep3 h w1 of
               (Some err', w3) \<Rightarrow> (Some err', w3)
             | (None, w3) \<Rightarrow> verifyRollback_loop h c j deadline unavailable w3)
        | (None, w1) \<Rightarrow>
            (case nodeStatus_of h c w1 of
               (r, w2) \<Rightarrow>
                 let unavailable = (unavailable \<or> isl r) in
                 if \<not> isl r \<and> recovered c j (projr r) then (None, w2)
                 else (case sleep3 h w2 of
                         (Some err', w3) \<Rightarrow> (Some err', w3)
                       | (None, w3) \<Rightarrow> verifyRollback_loop h c j deadline unavailable w3)))"
  by pat_completeness auto

termination
proof (relation "measure (\<lambda>(h, c, j, deadline, unavailable, w). nat (deadline - w_now w))")
qed (auto intro: round_status round_idle)

definition verifyRollback :: "Host \<Rightarrow> UpdClient \<Rightarrow> journal \<Rightarrow> World \<Rightarrow> uerr option \<times> World" where
  "verifyRollback h c j w = verifyRollback_loop h (cl_cfg c) j (w_now w + 60 * second) False w"

declare verify_loop.simps [simp del] verifyRollback_loop.simps [simp del]

subsection \<open>Switching versions\<close>

fun copy_all :: "Host \<Rightarrow> (place \<times> place) list \<Rightarrow> World \<Rightarrow> uerr option \<times> World" where
  "copy_all h [] w = (None, w)"
| "copy_all h ((src, dst) # rest) w = and_then (copyFile h src dst) (copy_all h rest) w"

text \<open>\<open>composeImage\<close>: the lines after \<open>found\<close> image directives were met, at most one.\<close>

definition is_blank :: "char \<Rightarrow> bool" where
  "is_blank ch = (ch = CHR '' '' \<or> ch = CHR 0x09)"

fun compose_lines :: "string \<Rightarrow> bool \<Rightarrow> string list \<Rightarrow> error + (bool \<times> string list)" where
  "compose_lines img found [] = Inr (found, [])"
| "compose_lines img found (line # ls) =
     (let trim = TrimSpace line in
      if has_prefix trim ''build:'' then compose_lines img found ls
      else if has_prefix trim ''image:'' then
        (if found then Inl ''multiple image directives''
         else case compose_lines img True ls of
                Inl err \<Rightarrow> Inl err
              | Inr (f, out) \<Rightarrow> Inr (f, (takeWhile is_blank line @ ''image: '' @ img) # out))
      else case compose_lines img found ls of
             Inl err \<Rightarrow> Inl err
           | Inr (f, out) \<Rightarrow> Inr (f, line # out))"

definition composeImage :: "string \<Rightarrow> string \<Rightarrow> error + string" where
  "composeImage source img =
     (case compose_lines img False (split_on CHR 0x0A source) of
        Inl err \<Rightarrow> Inl err
      | Inr (found, out) \<Rightarrow>
          if \<not> found then Inl ''Compose definition has no image directive'' else Inr (join_with [CHR 0x0A] out))"

definition docker_backups :: "UpdConfig \<Rightarrow> string \<Rightarrow> (place \<times> place) list" where
  "docker_backups c dir =
     map (\<lambda>name. (install_path c name, JobFile dir (''old/'' @ name)))
       [''compose.yaml'', ''image/xmesh'', ''image/xray'', ''image/Dockerfile'']"

definition prepare :: "Host \<Rightarrow> UpdClient \<Rightarrow> string \<Rightarrow> journal \<Rightarrow> World \<Rightarrow> (uerr option \<times> journal) \<times> World" where
  "prepare h c dir j w =
     (if uc_Mode (cl_cfg c) = ''systemd'' then
        (case and_then (copyFile h (Installed systemdXmeshPath) (JobFile dir ''old/xmesh''))
           (\<lambda>w. if mget (w_files w) (Installed systemdXrayPath) \<noteq> None
                then copyFile h (Installed systemdXrayPath) (JobFile dir ''old/xray'') w else (None, w)) w of
           (err, w) \<Rightarrow> ((err, j), w))
      else case composeContainer h w of
          (Inl err, w) \<Rightarrow> ((Some err, j), w)
        | (Inr container, w) \<Rightarrow>
            (case cmd_output h [''docker'', ''inspect'', ''-f'', ''{{.Image}}'', container] w of
               (Inl err, w) \<Rightarrow> ((Some err, j), w)
             | (Inr out, w) \<Rightarrow>
                 let j = j\<lparr>jo_OldImage := TrimSpace out\<rparr> in
                 if jo_OldImage j = [] then ((Some (Plain ''old image missing''), j), w)
                 else (case and_then (command h [''docker'', ''tag'', jo_OldImage j, ''xmesh-rollback:'' @ ut_ID (jo_Task j)])
                         (and_then (copy_all h (docker_backups (cl_cfg c) dir))
                           (and_then (copyFile h (install_path (cl_cfg c) ''image/Dockerfile'') (JobFile dir ''new/Dockerfile''))
                             (command h [''docker'', ''build'', ''--tag'', ''xmesh-upgrade:'' @ ut_ID (jo_Task j),
                                uc_WorkDir (cl_cfg c) @ ''/'' @ dir @ ''/new'']))) w of
                         (err, w) \<Rightarrow> ((err, j), w))))"

definition compose_up :: "Host \<Rightarrow> World \<Rightarrow> uerr option \<times> World" where
  "compose_up h = command h [''docker'', ''compose'', ''up'', ''-d'', ''--no-build'', ''--force-recreate'']"

text \<open>The Compose file of a job with another image, written beside it and put in place.\<close>

definition install_compose :: "Host \<Rightarrow> UpdConfig \<Rightarrow> string \<Rightarrow> string \<Rightarrow> string \<Rightarrow> string \<Rightarrow> World \<Rightarrow> uerr option \<times> World" where
  "install_compose h c dir old img name w =
     (case composeImage old img of
        Inl err \<Rightarrow> fail err w
      | Inr updated \<Rightarrow>
          and_then (replace_file h (JobFile dir name) updated)
            (copyFile h (JobFile dir name) (install_path c ''compose.yaml'')) w)"

definition switchVersion :: "Host \<Rightarrow> UpdClient \<Rightarrow> string \<Rightarrow> journal \<Rightarrow> World \<Rightarrow> uerr option \<times> World" where
  "switchVersion h c dir j w =
     (if uc_Mode (cl_cfg c) = ''systemd'' then
        and_then (command h [''systemctl'', ''stop'', systemdService])
          (and_then (copyFile h (JobFile dir ''new/xmesh'') (Installed systemdXmeshPath))
            (and_then (if uc_Role (cl_cfg c) = ''gateway''
                       then copyFile h (JobFile dir ''new/xray'') (Installed systemdXrayPath) else Pair None)
              (command h [''systemctl'', ''start'', systemdService]))) w
      else case mget (w_files w) (JobFile dir ''old/compose.yaml'') of
          None \<Rightarrow> fail ''no such file'' w
        | Some old \<Rightarrow>
            and_then (install_compose h (cl_cfg c) dir old (''xmesh-upgrade:'' @ ut_ID (jo_Task j)) ''new-compose.yaml'') (compose_up h) w)"

definition docker_images :: "UpdConfig \<Rightarrow> string \<Rightarrow> (place \<times> place) list" where
  "docker_images c dir =
     map (\<lambda>name. (JobFile dir (''old/image/'' @ name), install_path c (''image/'' @ name))) [''xmesh'', ''xray'', ''Dockerfile'']"

definition restore :: "Host \<Rightarrow> UpdClient \<Rightarrow> string \<Rightarrow> journal \<Rightarrow> World \<Rightarrow> uerr option \<times> World" where
  "restore h c dir j w =
     (if uc_Mode (cl_cfg c) = ''systemd'' then
        (case command h [''systemctl'', ''stop'', systemdService] w of
           (_, w) \<Rightarrow>
             and_then (copyFile h (JobFile dir ''old/xmesh'') (Installed systemdXmeshPath))
               (and_then (\<lambda>w. if mget (w_files w) (JobFile dir ''old/xray'') \<noteq> None
                              then copyFile h (JobFile dir ''old/xray'') (Installed systemdXrayPath) w else (None, w))
                 (command h [''systemctl'', ''start'', systemdService])) w)
      else case mget (w_files w) (JobFile dir ''old/compose.yaml'') of
          None \<Rightarrow> fail ''no such file'' w
        | Some old \<Rightarrow>
            if jo_OldImage j = [] then fail ''old image ID missing'' w
            else and_then (install_compose h (cl_cfg c) dir old (''xmesh-rollback:'' @ ut_ID (jo_Task j)) ''rollback-compose.yaml'')
                   (and_then (copy_all h (docker_images (cl_cfg c) dir))
                     (and_then (compose_up h)
                       (copyFile h (JobFile dir ''old/compose.yaml'') (install_path (cl_cfg c) ''compose.yaml'')))) w)"

definition finishDocker :: "Host \<Rightarrow> UpdConfig \<Rightarrow> string \<Rightarrow> World \<Rightarrow> uerr option \<times> World" where
  "finishDocker h c dir =
     (if uc_Mode c \<noteq> ''docker'' then Pair None
      else copy_all h (map (\<lambda>name. (JobFile dir (''new/'' @ name), install_path c (''image/'' @ name))) [''xmesh'', ''xray'']))"

subsection \<open>The download\<close>

definition asset_source :: "Host \<Rightarrow> UpdClient \<Rightarrow> UpgradeTask \<Rightarrow> World \<Rightarrow> (uerr + string) \<times> World" where
  "asset_source h c task w =
     (if cl_localArchive c \<noteq> [] then
        (case mget (w_files w) (Installed (cl_localArchive c)) of
           None \<Rightarrow> (Inl (Plain ''no such file''), w) | Some content \<Rightarrow> (Inr content, w))
      else case send h (GetAsset (trim_suffix (uc_ControllerURL (cl_cfg c)) ''/'' @ ''/releases/'' @ ut_TargetVersion task @ ''/'' @ ut_Asset task)) w of
          (Inl err, w) \<Rightarrow> (Inl err, w)
        | (Inr r, w) \<Rightarrow>
            if rp_code r \<noteq> 200 then (Inl (Plain (''release download: '' @ rp_status r)), w) else (Inr (rp_body r), w))"

text \<open>Syncing the archive and making the directory of its members.\<close>

definition io_step :: "Host \<Rightarrow> World \<Rightarrow> uerr option \<times> World" where
  "io_step h = effect h killed (\<lambda>k w. case h_io h k of
     IoOk \<Rightarrow> (None, w) | IoBefore err \<Rightarrow> (Some (Plain err), w) | IoAfter err \<Rightarrow> (Some (Plain err), w))"

definition put_member :: "string \<Rightarrow> string \<times> string \<Rightarrow> World \<Rightarrow> World" where
  "put_member dir m = put_file (JobFile dir (''new/'' @ fst m)) (snd m)"

definition unpack :: "Host \<Rightarrow> string \<Rightarrow> string \<Rightarrow> World \<Rightarrow> uerr option \<times> World" where
  "unpack h dir archive =
     effect h killed (\<lambda>k w. case h_untar h k archive of
        (members, err) \<Rightarrow> (map_option Plain err, fold (put_member dir) members w))"

fun check_members :: "Host \<Rightarrow> string \<Rightarrow> string list \<Rightarrow> World \<Rightarrow> uerr option \<times> World" where
  "check_members h dir [] w = (None, w)"
| "check_members h dir (name # names) w =
     (case mget (w_files w) (JobFile dir (''new/'' @ name)) of
        None \<Rightarrow> fail ''no such file'' w
      | Some _ \<Rightarrow> if \<not> h_regular h (w_step w) name then fail ''invalid archive member'' w else check_members h dir names w)"

text \<open>\<open>io.LimitReader\<close>: the first bytes of a stream.\<close>

definition limit_reader :: "int \<Rightarrow> string \<Rightarrow> string" where
  "limit_reader n s = (if int (length s) \<le> n then s else take (nat n) s)"

definition download :: "Host \<Rightarrow> UpdClient \<Rightarrow> string \<Rightarrow> UpgradeTask \<Rightarrow> World \<Rightarrow> uerr option \<times> World" where
  "download h c dir task w =
     (if ut_Asset task \<noteq> ''xmesh-'' @ ut_TargetVersion task @ ''-linux-'' @ ut_Arch task @ ''.tar.gz'' \<or> length (ut_SHA256 task) \<noteq> 64
      then fail ''invalid release asset'' w
      else case asset_source h c task w of
          (Inl err, w) \<Rightarrow> (Some err, w)
        | (Inr source, w) \<Rightarrow>
            let archive = limit_reader 268435457 source in
            and_then (replace_file h (JobFile dir ''release.tar.gz'') archive)
              (\<lambda>w. if 268435456 < int (length archive) then fail ''archive too large'' w
                   else if h_sha256 h archive \<noteq> ut_SHA256 task then fail ''archive SHA256 mismatch'' w
                   else and_then (and_then (io_step h) (and_then (io_step h) (unpack h dir archive)))
                     (and_then (check_members h dir [''xmesh'', ''xray''])
                       (\<lambda>w. case cmd_output h [uc_WorkDir (cl_cfg c) @ ''/'' @ dir @ ''/new/xmesh'', ''version''] w of
                              (Inl err, w) \<Rightarrow> (Some err, w)
                            | (Inr out, w) \<Rightarrow>
                                if TrimSpace out \<noteq> ut_TargetVersion task then fail ''archive binary version mismatch'' w
                                else (None, w))) w) w)"

subsection \<open>Jobs\<close>

text \<open>The journal is a variable that these functions change: they return it, as the process goes on with
  it, which is not always what is on the disk.\<close>

definition failBeforeSwitch :: "Host \<Rightarrow> string \<Rightarrow> journal \<Rightarrow> uerr \<Rightarrow> World \<Rightarrow> uerr option \<times> World" where
  "failBeforeSwitch h dir j cause =
     (let j = j\<lparr>jo_Phase := ''done'', jo_Result := ''failed'', jo_Error := uerr_text cause\<rparr>
      in and_then (saveJournal h dir j) (\<lambda>w. (Some cause, snd (reportTerminal h dir j w))))"

text \<open>\<open>rollback\<close> after its first journal entry: the outcome is written down and reported.\<close>

definition rollback_done :: "Host \<Rightarrow> string \<Rightarrow> journal \<Rightarrow> uerr option \<Rightarrow> World \<Rightarrow> (uerr option \<times> journal) \<times> World" where
  "rollback_done h dir j err w =
     (let j = (case err of
                 Some e \<Rightarrow> j\<lparr>jo_Result := ''manual_intervention'', jo_Error := TrimSpace (jo_Error j @ ''; rollback: '' @ uerr_text e)\<rparr>
               | None \<Rightarrow> j\<lparr>jo_Result := ''rolled_back''\<rparr>);
          j = j\<lparr>jo_Phase := ''done''\<rparr>
      in case saveJournal h dir j w of
           (Some saveErr, w) \<Rightarrow> ((Some saveErr, j), w)
         | (None, w) \<Rightarrow>
             (case reportTerminal h dir j w of
                ((_, j), w) \<Rightarrow> ((case err of Some e \<Rightarrow> Some e | None \<Rightarrow> Some (UpgradeRolledBack (jo_Error j)), j), w)))"

definition rollback :: "Host \<Rightarrow> UpdClient \<Rightarrow> string \<Rightarrow> journal \<Rightarrow> World \<Rightarrow> (uerr option \<times> journal) \<times> World" where
  "rollback h c dir j w =
     (let j = j\<lparr>jo_Phase := ''rolling_back''\<rparr>
      in case saveJournal h dir j w of
           (Some err, w) \<Rightarrow> ((Some err, j), w)
         | (None, w) \<Rightarrow>
             (case and_then (restore h c dir j) (verifyRollback h c j) (snd (report h j ''rolling_back'' (jo_Error j) w)) of
                (err, w) \<Rightarrow> rollback_done h dir j err w))"

definition rollbackWithCause :: "Host \<Rightarrow> UpdClient \<Rightarrow> string \<Rightarrow> journal \<Rightarrow> uerr \<Rightarrow> World \<Rightarrow> (uerr option \<times> journal) \<times> World" where
  "rollbackWithCause h c dir j cause = rollback h c dir (j\<lparr>jo_Error := uerr_text cause\<rparr>)"

definition resumeVerification :: "Host \<Rightarrow> UpdClient \<Rightarrow> string \<Rightarrow> journal \<Rightarrow> World \<Rightarrow> (uerr option \<times> journal) \<times> World" where
  "resumeVerification h c dir j w =
     (case verify h c j w of
        (Some err, w) \<Rightarrow>
          if is_StatusUnavailable err then ((Some err, j), snd (report h j ''uncertain'' (uerr_text err) w))
          else rollbackWithCause h c dir j err w
      | (None, w) \<Rightarrow>
          (case finishDocker h (cl_cfg c) dir w of
             (Some err, w) \<Rightarrow> rollbackWithCause h c dir j err w
           | (None, w) \<Rightarrow>
               let j = j\<lparr>jo_Result := ''succeeded'', jo_Phase := ''done''\<rparr>
               in (case saveJournal h dir j w of
                     (Some err, w) \<Rightarrow> ((Some err, j), w)
                   | (None, w) \<Rightarrow> reportTerminal h dir j w)))"

text \<open>For callers that do not look at the journal any more.\<close>

definition drop_journal :: "(uerr option \<times> journal) \<times> World \<Rightarrow> uerr option \<times> World" where
  "drop_journal r = (fst (fst r), snd r)"

text \<open>\<open>execute\<close> from the prepared job on.\<close>

definition switch_over :: "Host \<Rightarrow> UpdClient \<Rightarrow> string \<Rightarrow> journal \<Rightarrow> World \<Rightarrow> uerr option \<times> World" where
  "switch_over h c dir j =
     and_then (saveJournal h dir (j\<lparr>jo_Phase := ''prepared''\<rparr>))
       (\<lambda>w. let w = snd (report h j ''prepared'' [] w); j = j\<lparr>jo_Phase := ''switching'', jo_SwitchAt := w_now w\<rparr> in
            and_then (saveJournal h dir j)
              (\<lambda>w. case switchVersion h c dir j (snd (report h j ''switching'' [] w)) of
                     (Some err, w) \<Rightarrow> drop_journal (rollbackWithCause h c dir j err w)
                   | (None, w) \<Rightarrow>
                       let j = j\<lparr>jo_Phase := ''verifying''\<rparr> in
                       (case saveJournal h dir j w of
                          (Some err, w) \<Rightarrow> drop_journal (rollbackWithCause h c dir j err w)
                        | (None, w) \<Rightarrow> drop_journal (resumeVerification h c dir j (snd (report h j ''verifying'' [] w))))) w)"

definition start_job :: "Host \<Rightarrow> UpdClient \<Rightarrow> string \<Rightarrow> UpgradeTask \<Rightarrow> World \<Rightarrow> uerr option \<times> World" where
  "start_job h c dir task =
     (let j = \<lparr>jo_Task = task, jo_Phase = ''downloading'', jo_Result = [], jo_Reported = False, jo_Local = (cl_localArchive c \<noteq> []),
               jo_Error = [], jo_OldImage = [], jo_OldInstance = [], jo_SwitchAt = 0\<rparr>
      in and_then (saveJournal h dir j)
        (\<lambda>w. case nodeStatus_of h (cl_cfg c) w of
           (Inl err, w) \<Rightarrow> failBeforeSwitch h dir j err w
         | (Inr old, w) \<Rightarrow>
             if ut_FromVersion task \<noteq> [] \<and> ns_BinaryVersion old \<noteq> ut_FromVersion task
             then failBeforeSwitch h dir j (Plain (''node version changed from '' @ ut_FromVersion task @ '' to '' @ ns_BinaryVersion old)) w
             else let j = j\<lparr>jo_OldInstance := ns_InstanceID old\<rparr> in
               and_then (saveJournal h dir j)
                 (\<lambda>w. case download h c dir task (snd (report h j ''downloading'' [] w)) of
                        (Some err, w) \<Rightarrow> failBeforeSwitch h dir j err w
                      | (None, w) \<Rightarrow>
                          (case prepare h c dir j w of
                             ((Some err, j), w) \<Rightarrow> failBeforeSwitch h dir j err w
                           | ((None, j), w) \<Rightarrow> switch_over h c dir j w)) w))"

definition execute :: "Host \<Rightarrow> UpdClient \<Rightarrow> UpgradeTask \<Rightarrow> World \<Rightarrow> uerr option \<times> World" where
  "execute h c task w =
     (let dir = ut_ID task in
      if CHR ''/'' \<in> set dir \<or> dir = [] \<or> dir = ''.'' \<or> dir = ''..'' then fail ''invalid task ID'' w
      else case mget (w_journals w) dir of
          None \<Rightarrow> start_job h c dir task w
        | Some j \<Rightarrow>
            if ut_ID (jo_Task j) \<noteq> ut_ID task \<or> ut_Attempt (jo_Task j) \<noteq> ut_Attempt task then fail ''task journal mismatch'' w
            else if jo_Phase j = ''reserving'' \<and> ut_Manual (jo_Task j) \<and> ut_Manual task then start_job h c dir task w
            else if jo_Result j \<noteq> [] then drop_journal (reportTerminal h dir j w)
            else if jo_Phase j = ''verifying'' then drop_journal (resumeVerification h c dir j w)
            else fail ''unfinished job requires recovery'' w)"

definition manual_call :: "UpgradeTask \<Rightarrow> Call" where
  "manual_call task = PostManual (ut_ID task) (ut_FromVersion task) (ut_TargetVersion task) (ut_SHA256 task) (ut_Mode task) (ut_Arch task)"

text \<open>One journal of \<open>recoverJobs\<close>: the reservation of a manual upgrade, then the job itself, then its report.
  The first two return the journal as it stands, or the error that ends \<open>recoverJobs\<close>.\<close>

definition recover_reservation :: "Host \<Rightarrow> UpdClient \<Rightarrow> string \<Rightarrow> journal \<Rightarrow> World \<Rightarrow> (uerr + journal) \<times> World" where
  "recover_reservation h c dir j w =
     (if jo_Phase j = ''reserving'' \<and> ut_Manual (jo_Task j) then
        (case request h (manual_call (jo_Task j)) w of
           ((status, err, registered), w) \<Rightarrow>
             if err \<noteq> None \<and> status \<noteq> 409 then (Inl (the err), w)
             else if err = None \<and> (ut_ID registered \<noteq> ut_ID (jo_Task j) \<or> \<not> ut_Manual registered \<or>
                     ut_NodeID registered \<noteq> uc_NodeID (cl_cfg c)) then (Inl (Plain ''manual reservation recovery mismatch''), w)
             else
               let j = (if err = None then j\<lparr>jo_Task := registered\<rparr> else j);
                   j = j\<lparr>jo_Phase := ''done'', jo_Result := ''failed'', jo_Error := ''manual installer stopped before switching'',
                         jo_Reported := (status = 409)\<rparr>
               in (case saveJournal h dir j w of (Some err, w) \<Rightarrow> (Inl err, w) | (None, w) \<Rightarrow> (Inr j, w)))
      else (Inr j, w))"

definition recover_switch :: "Host \<Rightarrow> UpdClient \<Rightarrow> string \<Rightarrow> journal \<Rightarrow> World \<Rightarrow> (uerr + journal) \<times> World" where
  "recover_switch h c dir j w =
     (if jo_Phase j = ''verifying'' then
        (case resumeVerification h c dir j w of
           ((Some err, j), w) \<Rightarrow> if \<not> is_StatusUnavailable err then (Inl err, w) else (Inr j, w)
         | ((None, j), w) \<Rightarrow> (Inr j, w))
      else if jo_Phase j = ''switching'' \<or> jo_Phase j = ''rolling_back'' then
        (case rollback h c dir j w of
           ((Some err, j), w) \<Rightarrow> if \<not> is_UpgradeRolledBack err then (Inl err, w) else (Inr j, w)
         | ((None, j), w) \<Rightarrow> (Inr j, w))
      else (Inr j, w))"

definition recover_end :: "Host \<Rightarrow> string \<Rightarrow> journal \<Rightarrow> World \<Rightarrow> uerr option \<times> World" where
  "recover_end h dir j w =
     (let interrupted = ((jo_Phase j = ''downloading'' \<or> jo_Phase j = ''prepared'') \<and> jo_Result j = []);
          j' = (if interrupted then j\<lparr>jo_Phase := ''done'', jo_Result := ''failed'', jo_Error := ''updater interrupted before switching''\<rparr> else j)
      in and_then (if interrupted then saveJournal h dir j' else Pair None)
           (\<lambda>w. if jo_Result j' \<noteq> [] \<and> \<not> jo_Reported j' then (None, snd (reportTerminal h dir j' w)) else (None, w)) w)"

definition recover_job :: "Host \<Rightarrow> UpdClient \<Rightarrow> string \<Rightarrow> World \<Rightarrow> uerr option \<times> World" where
  "recover_job h c dir w =
     (case mget (w_journals w) dir of
        None \<Rightarrow> (None, w)
      | Some j \<Rightarrow>
          if ut_NodeID (jo_Task j) \<noteq> uc_NodeID (cl_cfg c) then fail ''foreign job in updater directory'' w
          else case recover_reservation h c dir j w of
              (Inl err, w) \<Rightarrow> (Some err, w)
            | (Inr j, w) \<Rightarrow>
                (case recover_switch h c dir j w of
                   (Inl err, w) \<Rightarrow> (Some err, w)
                 | (Inr j, w) \<Rightarrow> recover_end h dir j w))"

fun recover_dirs :: "Host \<Rightarrow> UpdClient \<Rightarrow> string list \<Rightarrow> World \<Rightarrow> uerr option \<times> World" where
  "recover_dirs h c [] w = (None, w)"
| "recover_dirs h c (dir # dirs) w = and_then (recover_job h c dir) (recover_dirs h c dirs) w"

definition recoverJobs :: "Host \<Rightarrow> UpdClient \<Rightarrow> World \<Rightarrow> uerr option \<times> World" where
  "recoverJobs h c w = recover_dirs h c (sort_slice (<) (mkeys (w_journals w))) w"

definition tick :: "Host \<Rightarrow> UpdClient \<Rightarrow> World \<Rightarrow> uerr option \<times> World" where
  "tick h c w =
     (if h_arch h \<noteq> ''amd64'' \<and> h_arch h \<noteq> ''arm64'' then fail ''unsupported architecture'' w
      else case request h GetTask w of
          ((status, Some err, task), w) \<Rightarrow> (Some err, w)
        | ((status, None, task), w) \<Rightarrow>
            if status = 204 then (None, w)
            else if ut_NodeID task \<noteq> uc_NodeID (cl_cfg c) \<or> ut_Role task \<noteq> uc_Role (cl_cfg c) \<or> ut_Mode task \<noteq> uc_Mode (cl_cfg c) \<or>
                    ut_Arch task \<noteq> h_arch h \<or> ut_Attempt task < 1 \<or> ut_SHA256 task = []
              then fail ''task does not match this installation'' w
            else execute h c task w)"

text \<open>The pattern \<open>^v[0-9]+\.[0-9]+\.[0-9]+([-._][A-Za-z0-9._-]+)?$\<close>.\<close>

definition span_digits :: "string \<Rightarrow> (string \<times> string) option" where
  "span_digits s = (let ds = takeWhile (\<lambda>ch. digit_val ch \<noteq> None) s in if ds = [] then None else Some (ds, drop (length ds) s))"

definition localVersionPattern :: "string \<Rightarrow> bool" where
  "localVersionPattern v =
     (case v of
        [] \<Rightarrow> False
      | ch # s \<Rightarrow>
          ch = CHR ''v'' \<and>
          (case span_digits s of
             Some (_, CHR ''.'' # s) \<Rightarrow>
               (case span_digits s of
                  Some (_, CHR ''.'' # s) \<Rightarrow>
                    (case span_digits s of
                       Some (_, []) \<Rightarrow> True
                     | Some (_, ch # s) \<Rightarrow> ch \<in> set ''-._'' \<and> s \<noteq> [] \<and> list_all (\<lambda>ch. alnum ch \<or> ch \<in> set ''._-'') s
                     | None \<Rightarrow> False)
                | _ \<Rightarrow> False)
           | _ \<Rightarrow> False))"

definition default_workdir :: "UpdConfig \<Rightarrow> UpdConfig" where
  "default_workdir cfg =
     (if uc_WorkDir cfg \<noteq> [] then cfg
      else if uc_Mode cfg = ''docker'' then cfg\<lparr>uc_WorkDir := uc_InstallDir cfg @ ''/updater/jobs''\<rparr>
      else cfg\<lparr>uc_WorkDir := ''/var/lib/xmesh-updater/jobs''\<rparr>)"

definition fresh_status :: "UpdConfig \<Rightarrow> gotime \<Rightarrow> NodeStatus \<Rightarrow> bool" where
  "fresh_status cfg now old = (\<not> (ns_NodeID old \<noteq> uc_NodeID cfg \<or> ns_Role old \<noteq> uc_Role cfg \<or> ns_BinaryVersion old = [] \<or>
     IsZero (ns_LastSeen old) \<or> 45 * second < time_sub now (ns_LastSeen old) \<or> now + 5 * second < ns_LastSeen old))"

definition matches_reservation :: "UpgradeTask \<Rightarrow> UpgradeTask \<Rightarrow> bool" where
  "matches_reservation r task = (ut_ID task = ut_ID r \<and> ut_NodeID task = ut_NodeID r \<and> ut_Role task = ut_Role r \<and> ut_Manual task \<and>
     ut_FromVersion task = ut_FromVersion r \<and> ut_TargetVersion task = ut_TargetVersion r \<and> ut_Mode task = ut_Mode r \<and>
     ut_Arch task = ut_Arch r \<and> ut_SHA256 task = ut_SHA256 r)"

definition reserve :: "Host \<Rightarrow> UpdClient \<Rightarrow> UpgradeTask \<Rightarrow> World \<Rightarrow> uerr option \<times> World" where
  "reserve h c reservation =
     and_then (saveJournal h (ut_ID reservation)
         \<lparr>jo_Task = reservation, jo_Phase = ''reserving'', jo_Result = [], jo_Reported = False, jo_Local = True,
          jo_Error = [], jo_OldImage = [], jo_OldInstance = [], jo_SwitchAt = 0\<rparr>)
       (\<lambda>w. case request h (manual_call reservation) w of
              ((_, Some err, task), w) \<Rightarrow> (Some err, w)
            | ((_, None, task), w) \<Rightarrow>
                if \<not> matches_reservation reservation task then fail ''controller returned a mismatched manual upgrade task'' w
                else execute h c task w)"

definition localUpgrade :: "Host \<Rightarrow> UpdConfig \<Rightarrow> string \<Rightarrow> string \<Rightarrow> string \<Rightarrow> World \<Rightarrow> uerr option \<times> World" where
  "localUpgrade h cfg target archive expectedHash w =
     (case validateConfig cfg of
        Some err \<Rightarrow> (Some err, w)
      | None \<Rightarrow>
          if \<not> localVersionPattern target \<or> length expectedHash \<noteq> 64 \<or> \<not> has_prefix archive ''/''
          then fail ''invalid local upgrade parameters'' w
          else let cfg = default_workdir cfg; c = \<lparr>cl_cfg = cfg, cl_localArchive = archive\<rparr> in
            and_then (io_step h) (and_then (recoverJobs h c)
              (\<lambda>w. case nodeStatus_of h cfg w of
                 (Inl err, w) \<Rightarrow> (Some err, w)
               | (Inr old, w) \<Rightarrow>
                   if \<not> fresh_status cfg (w_now w) old then fail ''node has no fresh version status; manual upgrade refused'' w
                   else case h_token h (w_step w) of
                       Inl err \<Rightarrow> fail err w
                     | Inr i \<Rightarrow> reserve h c (zero_UpgradeTask\<lparr>ut_ID := i, ut_Manual := True, ut_NodeID := uc_NodeID cfg, ut_Role := uc_Role cfg,
                         ut_FromVersion := ns_BinaryVersion old, ut_TargetVersion := target, ut_SHA256 := to_lower expectedHash,
                         ut_Mode := uc_Mode cfg, ut_Arch := h_arch h, ut_Attempt := 1\<rparr>) w)) w)"

end
