(* ===== verification/Updater_Invariant.thy ===== *)
theory Updater_Invariant
  imports Updater
begin

text \<open>
  Upgrades are all or nothing, however often the updater is killed and whatever fails: the invariant ties
  the journal of a job to the installed files and their copies, and every operation keeps it at every
  point, because a dead process has no effects. The loops that watch a version end in time.
\<close>

subsection \<open>What operations write\<close>

definition writes :: "place set \<Rightarrow> World \<Rightarrow> World \<Rightarrow> bool" where
  "writes S w w' \<longleftrightarrow> w_journals w' = w_journals w \<and> (\<forall>p. p \<notin> S \<longrightarrow> mget (w_files w') p = mget (w_files w) p)"

lemma writes_refl [simp]: "writes S w w"
  by (simp add: writes_def)

lemma writes_trans: "writes S w w' \<Longrightarrow> writes S w' w'' \<Longrightarrow> writes S w w''"
  by (auto simp: writes_def)

lemma quiet_writes: "quiet w w' \<Longrightarrow> writes S w w'"
  by (simp add: quiet_def writes_def)

lemma writes_keep: "writes S w w' \<Longrightarrow> p \<notin> S \<Longrightarrow> mget (w_files w') p = mget (w_files w) p"
  by (simp add: writes_def)

lemma writes_journals: "writes S w w' \<Longrightarrow> w_journals w' = w_journals w"
  by (simp add: writes_def)

lemma writes_effect:
  assumes "\<And>k v. writes S v (snd (f k v))"
  shows "writes S w (snd (effect h x f w))"
  using assms [of "w\<lparr>w_step := w_step w + 1, w_now := w_now w + int (h_takes h (w_step w))\<rparr>" "w_step w"]
  by (simp add: effect_def writes_def)

lemma writes_chain:
  assumes "writes S w (snd r)" and "\<And>x v. writes S v (snd (g x v))"
  shows "writes S w (snd (case r of (x, v) \<Rightarrow> g x v))"
  using assms by (cases r) (auto intro: writes_trans)

lemma writes_and_then:
  assumes "\<And>v. writes S v (snd (f v))" and "\<And>v. writes S v (snd (g v))"
  shows "writes S w (snd (and_then f g w))"
  unfolding and_then_def by (rule writes_chain [OF assms(1)]) (simp split: option.split add: assms(2))

lemma writes_replace_file: "dst \<in> S \<Longrightarrow> writes S w (snd (replace_file h dst content w))"
  unfolding replace_file_def by (rule writes_effect) (simp add: writes_def put_file_def split: io.split)

lemma writes_copyFile: "dst \<in> S \<Longrightarrow> writes S w (snd (copyFile h src dst w))"
  by (simp add: copyFile_def fail_def writes_replace_file split: option.split)

lemma writes_copy_all: "snd ` set ps \<subseteq> S \<Longrightarrow> writes S w (snd (copy_all h ps w))"
proof (induction ps arbitrary: w)
  case (Cons p ps)
  then show ?case by (cases p) (auto intro!: writes_and_then writes_copyFile)
qed simp

lemmas writes_quiet = quiet_writes [OF quiet_command] quiet_writes [OF quiet_cmd_output] quiet_writes [OF quiet_send]
  quiet_writes [OF quiet_report] quiet_writes [OF quiet_composeContainer]

lemma writes_fail [simp]: "writes S w (snd (fail msg w))"
  by (simp add: fail_def)

lemma writes_io_step: "writes S w (snd (io_step h w))"
  unfolding io_step_def by (rule writes_effect) (simp split: io.split)

subsection \<open>Successful steps\<close>

lemma and_then_None: "and_then f g w = (None, w') \<longleftrightarrow> (\<exists>v. f w = (None, v) \<and> g v = (None, w'))"
  by (auto simp: and_then_def split: prod.splits option.splits)

lemma effect_None:
  assumes "effect h (Some e) f w = (None, w')"
  shows "\<exists>v. f (w_step w) v = (None, w') \<and> w_files v = w_files w \<and> w_journals v = w_journals w"
  using assms by (auto simp: effect_def split: if_splits intro!: exI [of _ "w\<lparr>w_step := w_step w + 1, w_now := w_now w + int (h_takes h (w_step w))\<rparr>"])

lemma replace_file_None: "replace_file h dst content w = (None, w') \<Longrightarrow> w_files w' = mput dst content (w_files w)"
  unfolding replace_file_def by (drule effect_None, cases "h_io h (w_step w)") (auto simp: put_file_def)

lemma copyFile_None:
  "copyFile h src dst w = (None, w') \<Longrightarrow> \<exists>content. mget (w_files w) src = Some content \<and> w_files w' = mput dst content (w_files w)"
  by (auto simp: copyFile_def fail_def dest: replace_file_None split: option.splits)

lemma saveJournal_None:
  "saveJournal h dir j w = (None, w') \<Longrightarrow> w_journals w' = mput dir j (w_journals w) \<and> w_files w' = w_files w"
  unfolding saveJournal_def by (drule effect_None, cases "h_io h (w_step w)") auto

lemma saveJournal_cases:
  "w_files (snd (saveJournal h dir j w)) = w_files w \<and>
   (w_journals (snd (saveJournal h dir j w)) = w_journals w \<or>
    w_journals (snd (saveJournal h dir j w)) = mput dir j (w_journals w))"
  by (simp add: saveJournal_def effect_def split: io.split)

lemma command_files: "command h args w = (e, w') \<Longrightarrow> w_files w' = w_files w"
  using quiet_command [of w h args] by (simp add: quiet_def)

subsection \<open>The invariant of a job\<close>

type_synonym file_map = "(place \<times> string) list"

text \<open>The files of the node that an upgrade may change, with the place of their copies.\<close>

definition assets :: "UpdConfig \<Rightarrow> string \<Rightarrow> (place \<times> place) list" where
  "assets c dir =
     (if uc_Mode c = ''systemd''
      then [(Installed systemdXmeshPath, JobFile dir ''old/xmesh''), (Installed systemdXrayPath, JobFile dir ''old/xray'')]
      else docker_backups c dir)"

definition intact :: "UpdConfig \<Rightarrow> (place \<Rightarrow> string option) \<Rightarrow> string \<Rightarrow> file_map \<Rightarrow> bool" where
  "intact c orig dir fs \<longleftrightarrow> (\<forall>(p, b) \<in> set (assets c dir). mget fs p = orig p)"

definition saved :: "UpdConfig \<Rightarrow> (place \<Rightarrow> string option) \<Rightarrow> string \<Rightarrow> file_map \<Rightarrow> bool" where
  "saved c orig dir fs \<longleftrightarrow> (\<forall>(p, b) \<in> set (assets c dir). orig p \<noteq> None \<longrightarrow> mget fs b = orig p)"

definition restored :: "UpdConfig \<Rightarrow> (place \<Rightarrow> string option) \<Rightarrow> string \<Rightarrow> file_map \<Rightarrow> bool" where
  "restored c orig dir fs \<longleftrightarrow> (\<forall>(p, b) \<in> set (assets c dir). orig p \<noteq> None \<longrightarrow> mget fs p = orig p)"

text \<open>The new binaries are in place; the archive they were unpacked from has the checksum of the task.\<close>

definition new_binaries :: "UpdConfig \<Rightarrow> string \<Rightarrow> (place \<times> place) list" where
  "new_binaries c dir =
     (if uc_Mode c = ''systemd''
      then (Installed systemdXmeshPath, JobFile dir ''new/xmesh'') #
           (if uc_Role c = ''gateway'' then [(Installed systemdXrayPath, JobFile dir ''new/xray'')] else [])
      else map (\<lambda>name. (install_path c (''image/'' @ name), JobFile dir (''new/'' @ name))) [''xmesh'', ''xray''])"

definition switched :: "UpdConfig \<Rightarrow> string \<Rightarrow> file_map \<Rightarrow> bool" where
  "switched c dir fs \<longleftrightarrow> (\<forall>(p, n) \<in> set (new_binaries c dir). mget fs p = mget fs n \<and> mget fs n \<noteq> None)"

definition checked_archive :: "(string \<Rightarrow> string) \<Rightarrow> string \<Rightarrow> string \<Rightarrow> file_map \<Rightarrow> bool" where
  "checked_archive sha digest dir fs \<longleftrightarrow> (\<exists>a. mget fs (JobFile dir ''release.tar.gz'') = Some a \<and> sha a = digest)"

definition stage :: "journal \<Rightarrow> string \<times> string" where
  "stage j = (jo_Phase j, jo_Result j)"

record Job =
  jb_cfg :: UpdConfig
  jb_orig :: "place \<Rightarrow> string option"
  jb_dir :: string
  jb_sha :: "string \<Rightarrow> string"
  jb_digest :: string

abbreviation "job_intact J fs \<equiv> intact (jb_cfg J) (jb_orig J) (jb_dir J) fs"
abbreviation "job_saved J fs \<equiv> saved (jb_cfg J) (jb_orig J) (jb_dir J) fs \<and> checked_archive (jb_sha J) (jb_digest J) (jb_dir J) fs"

definition stage_ok :: "Job \<Rightarrow> string \<times> string \<Rightarrow> file_map \<Rightarrow> bool" where
  "stage_ok J st fs \<longleftrightarrow>
     st \<in> {(''reserving'', []), (''downloading'', []), (''done'', ''failed'')} \<and> job_intact J fs \<or>
     st = (''prepared'', []) \<and> job_intact J fs \<and> job_saved J fs \<or>
     st \<in> {(''switching'', []), (''rolling_back'', []), (''done'', ''manual_intervention'')} \<and> job_saved J fs \<or>
     st = (''verifying'', []) \<and> job_saved J fs \<and> (uc_Mode (jb_cfg J) = ''systemd'' \<longrightarrow> switched (jb_cfg J) (jb_dir J) fs) \<or>
     st = (''done'', ''rolled_back'') \<and> job_saved J fs \<and> restored (jb_cfg J) (jb_orig J) (jb_dir J) fs \<or>
     st = (''done'', ''succeeded'') \<and> job_saved J fs \<and> switched (jb_cfg J) (jb_dir J) fs"

definition job_inv :: "Job \<Rightarrow> World \<Rightarrow> bool" where
  "job_inv J w \<longleftrightarrow>
     (case mget (w_journals w) (jb_dir J) of None \<Rightarrow> job_intact J (w_files w) | Some j \<Rightarrow> stage_ok J (stage j) (w_files w))"

definition on_disk :: "string \<Rightarrow> journal \<Rightarrow> World \<Rightarrow> bool" where
  "on_disk dir j w \<longleftrightarrow> (\<exists>jd. mget (w_journals w) dir = Some jd \<and> stage jd = stage j)"

lemma job_inv_on_disk: "job_inv J w \<Longrightarrow> on_disk (jb_dir J) j w \<Longrightarrow> stage_ok J (stage j) (w_files w)"
  by (auto simp: job_inv_def on_disk_def)

lemma quiet_inv: "quiet w w' \<Longrightarrow> job_inv J w' = job_inv J w"
  by (simp add: quiet_def job_inv_def split: option.split)

lemma quiet_on_disk: "quiet w w' \<Longrightarrow> on_disk dir j w' = on_disk dir j w"
  by (simp add: quiet_def on_disk_def)

lemma quiet_files: "quiet w w' \<Longrightarrow> w_files w' = w_files w"
  by (simp add: quiet_def)

lemma saveJournal_inv:
  assumes "job_inv J w" and "stage_ok J (stage j) (w_files w)"
  shows "job_inv J (snd (saveJournal h (jb_dir J) j w))"
  using saveJournal_cases [of h "jb_dir J" j w] assms by (auto simp: job_inv_def split: option.splits)

lemma saveJournal_disk: "saveJournal h dir j w = (None, w') \<Longrightarrow> on_disk dir j w'"
  by (auto dest!: saveJournal_None simp: on_disk_def)

subsection \<open>The steps of a job\<close>

text \<open>The files of a job's directory, and among them those that are not copies of installed ones.\<close>

definition job_files :: "string \<Rightarrow> place set" where
  "job_files dir = range (JobFile dir)"

definition installed :: "UpdConfig \<Rightarrow> string \<Rightarrow> place set" where
  "installed c dir = fst ` set (assets c dir)"

definition members :: "string \<Rightarrow> place set" where
  "members dir = range (\<lambda>name. JobFile dir (''new/'' @ name))"

lemma writes_put_members: "writes (members dir) w (fold (put_member dir) ms w)"
proof (induction ms arbitrary: w)
  case (Cons m ms)
  have "writes (members dir) w (put_member dir m w)" by (auto simp: writes_def put_member_def put_file_def members_def)
  then show ?case using Cons by (auto intro: writes_trans)
qed simp

lemma writes_unpack: "writes (members dir) w (snd (unpack h dir archive w))"
  unfolding unpack_def by (rule writes_effect) (simp add: writes_put_members split: prod.split)

lemma writes_check_members: "writes S w (snd (check_members h dir names w))"
  by (induction names arbitrary: w) (auto split: option.split)

lemma writes_mono: "writes S w w' \<Longrightarrow> S \<subseteq> T \<Longrightarrow> writes T w w'"
  by (auto simp: writes_def)

lemma writes_asset_source: "writes S w (snd (asset_source h c task w))"
  unfolding asset_source_def
  by (auto split: option.split sum.split intro!: writes_chain [OF writes_quiet(3)])

lemma writes_download: "writes (job_files dir) w (snd (download h c dir task w))"
proof -
  have unpack: "writes (job_files dir) v (snd (unpack h dir a v))" for v a
    by (rule writes_mono [OF writes_unpack]) (auto simp: job_files_def members_def)
  have fresh: "writes (job_files dir) v (snd (replace_file h (JobFile dir x) a v))" for v x a
    by (rule writes_replace_file) (simp add: job_files_def)
  show ?thesis unfolding download_def Let_def
    by (auto split: sum.split intro!: writes_chain [OF writes_asset_source] writes_and_then fresh unpack
        writes_io_step writes_check_members writes_chain [OF writes_quiet(2)])
qed

text \<open>A download that succeeds leaves an archive with the checksum of the task.\<close>

lemma download_checked:
  assumes "download h c dir task w = (None, w')"
  shows "checked_archive (h_sha256 h) (ut_SHA256 task) dir (w_files w')"
proof -
  obtain source w1 where s: "asset_source h c task w = (Inr source, w1)"
    using assms by (auto simp: download_def fail_def split: if_splits prod.splits sum.splits)
  define a where "a = limit_reader 268435457 source"
  define g where "g = and_then (and_then (io_step h) (and_then (io_step h) (unpack h dir a)))
       (and_then (check_members h dir [''xmesh'', ''xray''])
         (\<lambda>w. case cmd_output h [uc_WorkDir (cl_cfg c) @ ''/'' @ dir @ ''/new/xmesh'', ''version''] w of
                (Inl err, w) \<Rightarrow> (Some err, w)
              | (Inr out, w) \<Rightarrow>
                  if TrimSpace out \<noteq> ut_TargetVersion task then fail ''archive binary version mismatch'' w else (None, w)))"
  obtain w2 where w2: "replace_file h (JobFile dir ''release.tar.gz'') a w1 = (None, w2)"
    and sha: "h_sha256 h a = ut_SHA256 task" and rest: "g w2 = (None, w')"
    using assms s unfolding download_def Let_def a_def g_def
    by (auto simp: fail_def and_then_None split: if_splits)
  have "writes (members dir) w2 (snd (g w2))"
    unfolding g_def
    by (auto split: sum.split intro!: writes_and_then writes_unpack writes_io_step writes_check_members writes_chain [OF writes_quiet(2)])
  then have "mget (w_files w') (JobFile dir ''release.tar.gz'') = mget (w_files w2) (JobFile dir ''release.tar.gz'')"
    using rest by (intro writes_keep [of "members dir"]) (auto simp: members_def)
  with replace_file_None [OF w2] sha show ?thesis by (simp add: checked_archive_def)
qed

text \<open>\<open>prepare\<close> copies every installed file that exists.\<close>

definition copies :: "string \<Rightarrow> place set" where
  "copies dir = insert (JobFile dir ''new/Dockerfile'') (range (\<lambda>name. JobFile dir (''old/'' @ name)))"

lemma writes_prepare: "writes (copies dir) w (snd (prepare h c dir j w))"
  unfolding prepare_def Let_def
  by (auto split: sum.split if_splits intro!: writes_chain [OF writes_quiet(5)] writes_chain [OF writes_quiet(2)] writes_chain writes_and_then
      writes_copyFile writes_copy_all writes_quiet simp: copies_def docker_backups_def)

lemma copy_all_None:
  assumes "copy_all h ps w = (None, w')" and "distinct (map snd ps)" and "fst ` set ps \<inter> snd ` set ps = {}" and "(s, d) \<in> set ps"
  shows "mget (w_files w') d = mget (w_files w) s \<and> mget (w_files w) s \<noteq> None"
  using assms
proof (induction ps arbitrary: w)
  case (Cons p ps)
  obtain s0 d0 where p: "p = (s0, d0)" by (cases p)
  obtain v where v: "copyFile h s0 d0 w = (None, v)" "copy_all h ps v = (None, w')"
    using Cons.prems(1) p by (auto simp: and_then_None)
  obtain m where m: "mget (w_files w) s0 = Some m" "w_files v = mput d0 m (w_files w)" using copyFile_None [OF v(1)] by blast
  show ?case
  proof (cases "(s, d) \<in> set ps")
    case True
    then have "mget (w_files w') d = mget (w_files v) s \<and> mget (w_files v) s \<noteq> None"
      using Cons.IH [OF v(2)] Cons.prems(2,3) by auto
    moreover have "s \<noteq> d0" using True Cons.prems(3) p by force
    ultimately show ?thesis using m by simp
  next
    case False
    then have e: "s = s0" "d = d0" using Cons.prems(4) p by auto
    have "mget (w_files w') d0 = mget (w_files v) d0"
      using writes_keep [OF writes_copy_all [of ps "snd ` set ps" v h], of d0] v(2) Cons.prems(2) p by force
    then show ?thesis using e m by simp
  qed
qed simp

lemma prepare_saves:
  assumes "prepare h c dir j w = ((None, j'), w')"
  shows "saved (cl_cfg c) (mget (w_files w)) dir (w_files w')"
proof (cases "uc_Mode (cl_cfg c) = ''systemd''")
  case True
  then obtain v where v: "copyFile h (Installed systemdXmeshPath) (JobFile dir ''old/xmesh'') w = (None, v)"
    and x: "(if mget (w_files v) (Installed systemdXrayPath) \<noteq> None
             then copyFile h (Installed systemdXrayPath) (JobFile dir ''old/xray'') v else (None, v)) = (None, w')"
    using assms by (auto simp: prepare_def and_then_None split: prod.splits)
  obtain m where m: "mget (w_files w) (Installed systemdXmeshPath) = Some m" "w_files v = mput (JobFile dir ''old/xmesh'') m (w_files w)"
    using copyFile_None [OF v] by blast
  show ?thesis
  proof (cases "mget (w_files w) (Installed systemdXrayPath)")
    case None
    then show ?thesis using True x m by (auto simp: saved_def assets_def)
  next
    case (Some xr)
    then have "copyFile h (Installed systemdXrayPath) (JobFile dir ''old/xray'') v = (None, w')" using x m by simp
    from copyFile_None [OF this] Some m have "w_files w' = mput (JobFile dir ''old/xray'') xr (w_files v)" by auto
    then show ?thesis using True Some m by (auto simp: saved_def assets_def)
  qed
next
  case False
  obtain container w1 where c: "composeContainer h w = (Inr container, w1)"
    using assms False by (auto simp: prepare_def split: prod.splits sum.splits)
  obtain out w2 where o: "cmd_output h [''docker'', ''inspect'', ''-f'', ''{{.Image}}'', container] w1 = (Inr out, w2)"
    using assms False c by (auto simp: prepare_def split: prod.splits sum.splits)
  obtain args v v' v'' where v: "command h args w2 = (None, v)" "copy_all h (docker_backups (cl_cfg c) dir) v = (None, v')"
      "copyFile h (install_path (cl_cfg c) ''image/Dockerfile'') (JobFile dir ''new/Dockerfile'') v' = (None, v'')"
    and b: "\<exists>args. command h args v'' = (None, w')"
    using assms False c o by (clarsimp simp: prepare_def Let_def and_then_None split: if_splits prod.splits) blast
  have q: "w_files v = w_files w"
    using quiet_composeContainer [of w h] quiet_cmd_output [of w1 h "[''docker'', ''inspect'', ''-f'', ''{{.Image}}'', container]"]
      command_files [OF v(1)] c o by (simp add: quiet_def)
  have f: "w_files w' = w_files v''" using b command_files by blast
  have "mget (w_files w') b = mget (w_files v') b" if "b \<noteq> JobFile dir ''new/Dockerfile''" for b
    using copyFile_None [OF v(3)] f that by auto
  then show ?thesis using False copy_all_None [OF v(2)] q
    by (auto simp: saved_def assets_def docker_backups_def install_path_def)
qed

text \<open>Switching, restoring and finishing write the installed files, and beside them only a Compose file of
  the job: the copies survive.\<close>

definition swap_files :: "UpdConfig \<Rightarrow> string \<Rightarrow> place set" where
  "swap_files c dir = installed c dir \<union> {JobFile dir ''new-compose.yaml'', JobFile dir ''rollback-compose.yaml''}"

lemma swap_files_systemd:
  "uc_Mode c = ''systemd'' \<Longrightarrow> Installed systemdXmeshPath \<in> swap_files c dir \<and> Installed systemdXrayPath \<in> swap_files c dir"
  by (simp add: swap_files_def installed_def assets_def)

lemma swap_files_docker:
  assumes "uc_Mode c \<noteq> ''systemd''"
  shows "install_path c ''compose.yaml'' \<in> swap_files c dir" and "install_path c ''image/xmesh'' \<in> swap_files c dir"
    and "install_path c ''image/xray'' \<in> swap_files c dir" and "install_path c ''image/Dockerfile'' \<in> swap_files c dir"
  using assms by (simp_all add: swap_files_def installed_def assets_def docker_backups_def)

lemma saved_kept:
  assumes "writes (swap_files c dir) w w'"
  shows "saved c orig dir (w_files w') = saved c orig dir (w_files w)"
    and "checked_archive sha digest dir (w_files w') = checked_archive sha digest dir (w_files w)"
proof -
  have "JobFile dir x \<notin> swap_files c dir" if "x \<noteq> ''new-compose.yaml''" "x \<noteq> ''rollback-compose.yaml''" for x
    using that by (auto simp: swap_files_def installed_def assets_def docker_backups_def install_path_def)
  then have "mget (w_files w') (JobFile dir x) = mget (w_files w) (JobFile dir x)"
    if "x \<noteq> ''new-compose.yaml''" "x \<noteq> ''rollback-compose.yaml''" for x
    using that by (intro writes_keep [OF assms]) auto
  then show "saved c orig dir (w_files w') = saved c orig dir (w_files w)"
    and "checked_archive sha digest dir (w_files w') = checked_archive sha digest dir (w_files w)"
    by (simp_all add: saved_def assets_def docker_backups_def checked_archive_def)
qed

lemma writes_install_compose:
  assumes "uc_Mode c \<noteq> ''systemd''" and "JobFile dir name \<in> swap_files c dir"
  shows "writes (swap_files c dir) w (snd (install_compose h c dir old img name w))"
  unfolding install_compose_def using assms swap_files_docker(1) [OF assms(1), of dir]
  by (auto split: sum.split intro!: writes_and_then writes_replace_file writes_copyFile)

lemma writes_switchVersion: "writes (swap_files (cl_cfg c) dir) w (snd (switchVersion h c dir j w))"
proof (cases "uc_Mode (cl_cfg c) = ''systemd''")
  case True
  then show ?thesis using swap_files_systemd [OF True]
    by (auto simp: switchVersion_def intro!: writes_and_then writes_copyFile writes_quiet)
next
  case False
  have "writes (swap_files (cl_cfg c) dir) v (snd (install_compose h (cl_cfg c) dir old img ''new-compose.yaml'' v))" for v old img
    by (rule writes_install_compose [OF False]) (simp add: swap_files_def)
  with False show ?thesis
    by (auto simp: switchVersion_def compose_up_def split: option.split intro!: writes_and_then writes_quiet)
qed

lemma writes_restore: "writes (swap_files (cl_cfg c) dir) w (snd (restore h c dir j w))"
proof (cases "uc_Mode (cl_cfg c) = ''systemd''")
  case True
  then show ?thesis using swap_files_systemd [OF True]
    by (auto simp: restore_def intro!: writes_chain [OF writes_quiet(1)] writes_and_then writes_copyFile writes_quiet)
next
  case False
  have "writes (swap_files (cl_cfg c) dir) v (snd (install_compose h (cl_cfg c) dir old img ''rollback-compose.yaml'' v))" for v old img
    by (rule writes_install_compose [OF False]) (simp add: swap_files_def)
  moreover have "writes (swap_files (cl_cfg c) dir) v (snd (copy_all h (docker_images (cl_cfg c) dir) v))" for v
    using swap_files_docker [OF False, of dir] by (intro writes_copy_all) (auto simp: docker_images_def)
  ultimately show ?thesis using False swap_files_docker [OF False, of dir]
    by (auto simp: restore_def compose_up_def split: option.split intro!: writes_and_then writes_quiet writes_copyFile)
qed

lemma writes_finishDocker: "writes (swap_files c dir) w (snd (finishDocker h c dir w))"
proof (cases "uc_Mode c = ''docker''")
  case True
  then have "uc_Mode c \<noteq> ''systemd''" by simp
  from swap_files_docker [OF this, of dir] True show ?thesis
    by (auto simp: finishDocker_def intro!: writes_and_then writes_copyFile)
qed (simp add: finishDocker_def)

lemma switchVersion_switched:
  assumes "switchVersion h c dir j w = (None, w')" and "uc_Mode (cl_cfg c) = ''systemd''"
  shows "switched (cl_cfg c) dir (w_files w')"
proof -
  let ?gw = "uc_Role (cl_cfg c) = ''gateway''"
  obtain v v1 v2 where v: "command h [''systemctl'', ''stop'', systemdService] w = (None, v)"
    and c: "copyFile h (JobFile dir ''new/xmesh'') (Installed systemdXmeshPath) v = (None, v1)"
    and x: "(if ?gw then copyFile h (JobFile dir ''new/xray'') (Installed systemdXrayPath) else Pair None) v1 = (None, v2)"
    and s: "command h [''systemctl'', ''start'', systemdService] v2 = (None, w')"
    using assms by (auto simp: switchVersion_def and_then_None)
  have "mget (w_files v1) (Installed systemdXmeshPath) = mget (w_files v1) (JobFile dir ''new/xmesh'') \<and>
      mget (w_files v1) (JobFile dir ''new/xmesh'') \<noteq> None" using copyFile_None [OF c] by auto
  moreover have "w_files v2 = w_files v1 \<and> \<not> ?gw \<or>
      (?gw \<and> (\<exists>m. mget (w_files v1) (JobFile dir ''new/xray'') = Some m \<and> w_files v2 = mput (Installed systemdXrayPath) m (w_files v1)))"
    using x copyFile_None [of h "JobFile dir ''new/xray''" "Installed systemdXrayPath" v1 v2] by (cases ?gw) auto
  ultimately show ?thesis using assms(2) command_files [OF s]
    by (auto simp: switched_def new_binaries_def systemdXmeshPath_def systemdXrayPath_def)
qed

lemma finishDocker_switched:
  assumes "finishDocker h c dir w = (None, w')" and "uc_Mode c = ''systemd'' \<longrightarrow> switched c dir (w_files w)"
    and "uc_Mode c = ''systemd'' \<or> uc_Mode c = ''docker''"
  shows "switched c dir (w_files w')"
proof (cases "uc_Mode c = ''docker''")
  case True
  let ?ps = "map (\<lambda>name. (JobFile dir (''new/'' @ name), install_path c (''image/'' @ name))) [''xmesh'', ''xray'']"
  have ca: "copy_all h ?ps w = (None, w')" using assms(1) True by (simp add: finishDocker_def)
  have "mget (w_files w') (JobFile dir x) = mget (w_files w) (JobFile dir x)" for x
    using writes_keep [OF writes_copy_all [of ?ps "snd ` set ?ps" w h], of "JobFile dir x"] ca by (simp add: install_path_def)
  with copy_all_None [OF ca] True show ?thesis by (auto simp: switched_def new_binaries_def install_path_def)
next
  case False
  then show ?thesis using assms by (simp add: finishDocker_def)
qed

lemma restore_restores:
  assumes "restore h c dir j w = (None, w')" and "saved (cl_cfg c) orig dir (w_files w)"
  shows "restored (cl_cfg c) orig dir (w_files w')"
proof (cases "uc_Mode (cl_cfg c) = ''systemd''")
  case True
  obtain e v where v: "command h [''systemctl'', ''stop'', systemdService] w = (e, v)" by (cases "command h [''systemctl'', ''stop'', systemdService] w")
  obtain v1 v2 where c: "copyFile h (JobFile dir ''old/xmesh'') (Installed systemdXmeshPath) v = (None, v1)"
    and x: "(if mget (w_files v1) (JobFile dir ''old/xray'') \<noteq> None
             then copyFile h (JobFile dir ''old/xray'') (Installed systemdXrayPath) v1 else (None, v1)) = (None, v2)"
    and s: "command h [''systemctl'', ''start'', systemdService] v2 = (None, w')"
    using assms(1) True v by (auto simp: restore_def and_then_None)
  obtain m where m: "mget (w_files v) (JobFile dir ''old/xmesh'') = Some m" "w_files v1 = mput (Installed systemdXmeshPath) m (w_files v)"
    using copyFile_None [OF c] by blast
  have "mget (w_files v2) (Installed systemdXmeshPath) = Some m \<and>
      (orig (Installed systemdXrayPath) \<noteq> None \<longrightarrow> mget (w_files v2) (Installed systemdXrayPath) = mget (w_files v) (JobFile dir ''old/xray''))"
    using x m assms(2) True command_files [OF v] copyFile_None [of h "JobFile dir ''old/xray''" "Installed systemdXrayPath" v1 v2]
    by (auto simp: saved_def assets_def systemdXmeshPath_def systemdXrayPath_def split: if_splits)
  then show ?thesis using assms(2) True m(1) command_files [OF v] command_files [OF s]
    by (auto simp: restored_def saved_def assets_def)
next
  case False
  obtain old where old: "mget (w_files w) (JobFile dir ''old/compose.yaml'') = Some old"
    using assms(1) False by (auto simp: restore_def fail_def split: option.splits)
  obtain v v1 v2 where v: "install_compose h (cl_cfg c) dir old (''xmesh-rollback:'' @ ut_ID (jo_Task j)) ''rollback-compose.yaml'' w = (None, v)"
    and i: "copy_all h (docker_images (cl_cfg c) dir) v = (None, v1)" and u: "compose_up h v1 = (None, v2)"
    and l: "copyFile h (JobFile dir ''old/compose.yaml'') (install_path (cl_cfg c) ''compose.yaml'') v2 = (None, w')"
    using assms(1) False old by (auto simp: restore_def fail_def and_then_None split: if_splits)
  have "writes (swap_files (cl_cfg c) dir) w v"
    using writes_install_compose [OF False, of dir "''rollback-compose.yaml''" w h old "''xmesh-rollback:'' @ ut_ID (jo_Task j)"] v
    by (simp add: swap_files_def)
  moreover have "writes (swap_files (cl_cfg c) dir) v v1"
    using writes_copy_all [of "docker_images (cl_cfg c) dir" "swap_files (cl_cfg c) dir" v h] i swap_files_docker [OF False, of dir]
    by (simp add: docker_images_def)
  moreover have f: "w_files v2 = w_files v1" using u command_files by (auto simp: compose_up_def)
  ultimately have sv: "saved (cl_cfg c) orig dir (w_files v)" "saved (cl_cfg c) orig dir (w_files v2)"
    using assms(2) saved_kept(1) by (metis, metis)
  obtain m where m: "mget (w_files v2) (JobFile dir ''old/compose.yaml'') = Some m"
      "w_files w' = mput (install_path (cl_cfg c) ''compose.yaml'') m (w_files v2)" using copyFile_None [OF l] by blast
  show ?thesis using copy_all_None [OF i] sv m f False
    by (auto simp: restored_def saved_def assets_def docker_backups_def docker_images_def install_path_def)
qed

subsection \<open>Whole operations\<close>

definition fits :: "Job \<Rightarrow> Host \<Rightarrow> UpdClient \<Rightarrow> bool" where
  "fits J h c \<longleftrightarrow> jb_cfg J = cl_cfg c \<and> jb_sha J = h_sha256 h \<and> (uc_Mode (cl_cfg c) = ''systemd'' \<or> uc_Mode (cl_cfg c) = ''docker'')"

lemma saveJournal_Plain: "saveJournal h dir j w = (Some e, w') \<Longrightarrow> \<exists>s. e = Plain s"
  by (auto simp: saveJournal_def effect_def split: if_splits io.splits)

lemma disk_inv: "on_disk (jb_dir J) j w \<Longrightarrow> stage_ok J (stage j) (w_files w) \<Longrightarrow> job_inv J w"
  by (auto simp: on_disk_def job_inv_def)

lemma saveJournal_on_disk:
  assumes "on_disk dir j' w" and "stage j' = stage j"
  shows "on_disk dir j (snd (saveJournal h dir j w))"
  using saveJournal_cases [of h dir j w] assms by (auto simp: on_disk_def)

lemma reportTerminal_ok:
  assumes "reportTerminal h dir j w = ((e, j'), w')" and "on_disk dir j w"
  shows "on_disk dir j' w'" and "stage j' = stage j" and "w_files w' = w_files w"
proof -
  obtain e1 v where r: "report h j (jo_Result j) (jo_Error j) w = (e1, v)" by (cases "report h j (jo_Result j) (jo_Error j) w")
  have q: "quiet w v" using quiet_report [of w h j] r by (metis snd_conv)
  then have v: "on_disk dir j v" using assms(2) by (simp add: quiet_on_disk)
  have st: "stage (j\<lparr>jo_Reported := True\<rparr>) = stage j" by (simp add: stage_def)
  have "on_disk dir (j\<lparr>jo_Reported := True\<rparr>) (snd (saveJournal h dir (j\<lparr>jo_Reported := True\<rparr>) v))"
    using saveJournal_on_disk [OF v] st by simp
  moreover note saveJournal_cases [of h dir "j\<lparr>jo_Reported := True\<rparr>" v] quiet_files [OF q]
  ultimately show "on_disk dir j' w'" and "stage j' = stage j" and "w_files w' = w_files w"
    using assms r v st by (auto simp: reportTerminal_def Let_def split: if_splits option.splits prod.splits)
qed

lemma reportTerminal_inv:
  assumes "job_inv J w" and "on_disk (jb_dir J) j w"
  shows "job_inv J (snd (reportTerminal h (jb_dir J) j w))"
proof -
  obtain e j' w' where r: "reportTerminal h (jb_dir J) j w = ((e, j'), w')" by (metis prod.collapse)
  note ok = reportTerminal_ok [OF r assms(2)]
  have "stage_ok J (stage j') (w_files w')" using job_inv_on_disk [OF assms] ok(2,3) by simp
  then show ?thesis using disk_inv ok(1) r by simp
qed

lemma failBeforeSwitch_inv:
  assumes "job_inv J w" and "job_intact J (w_files w)"
  shows "job_inv J (snd (failBeforeSwitch h (jb_dir J) j cause w))"
proof -
  define j' where "j' = j\<lparr>jo_Phase := ''done'', jo_Result := ''failed'', jo_Error := uerr_text cause\<rparr>"
  have ok: "stage_ok J (stage j') (w_files w)" using assms(2) by (simp add: stage_ok_def stage_def j'_def)
  obtain e v where s: "saveJournal h (jb_dir J) j' w = (e, v)" by (cases "saveJournal h (jb_dir J) j' w")
  have inv: "job_inv J v" using saveJournal_inv [OF assms(1) ok, of h] s by simp
  then show ?thesis using s reportTerminal_inv [of J v j' h] saveJournal_disk [of h "jb_dir J" j' w v]
    by (auto simp: failBeforeSwitch_def Let_def and_then_def j'_def [symmetric] split: option.split)
qed

text \<open>What a rollback or a verification returns: unless a plain error ends it, the journal in the variable is
  the one on the disk.\<close>

definition settled_return :: "string \<Rightarrow> (uerr option \<times> journal) \<times> World \<Rightarrow> bool" where
  "settled_return dir r \<longleftrightarrow> (\<exists>s. fst (fst r) = Some (Plain s)) \<or> on_disk dir (snd (fst r)) (snd r)"

lemma rollback_done_inv:
  assumes "job_inv J w" and "job_saved J (w_files w)" and "err = None \<Longrightarrow> restored (jb_cfg J) (jb_orig J) (jb_dir J) (w_files w)"
  shows "job_inv J (snd (rollback_done h (jb_dir J) j err w)) \<and> settled_return (jb_dir J) (rollback_done h (jb_dir J) j err w)"
proof -
  define j1 where "j1 = (case err of
      Some e \<Rightarrow> j\<lparr>jo_Result := ''manual_intervention'', jo_Error := TrimSpace (jo_Error j @ ''; rollback: '' @ uerr_text e)\<rparr>
    | None \<Rightarrow> j\<lparr>jo_Result := ''rolled_back''\<rparr>)\<lparr>jo_Phase := ''done''\<rparr>"
  have ok: "stage_ok J (stage j1) (w_files w)"
    using assms(2,3) by (cases err) (simp_all add: stage_ok_def stage_def j1_def)
  obtain e v where s: "saveJournal h (jb_dir J) j1 w = (e, v)" by (cases "saveJournal h (jb_dir J) j1 w")
  have inv: "job_inv J v" using saveJournal_inv [OF assms(1) ok, of h] s by simp
  have eq: "rollback_done h (jb_dir J) j err w =
      (case e of Some saveErr \<Rightarrow> ((Some saveErr, j1), v)
       | None \<Rightarrow> (case reportTerminal h (jb_dir J) j1 v of
                ((_, j), w) \<Rightarrow> ((case err of Some e \<Rightarrow> Some e | None \<Rightarrow> Some (UpgradeRolledBack (jo_Error j)), j), w)))"
    by (simp add: rollback_done_def Let_def j1_def [symmetric] s split: option.split)
  show ?thesis
  proof (cases e)
    case None
    obtain e' j' w' where r: "reportTerminal h (jb_dir J) j1 v = ((e', j'), w')" by (metis prod.collapse)
    have d: "on_disk (jb_dir J) j1 v" using s None saveJournal_disk by simp
    show ?thesis using None eq r reportTerminal_inv [OF inv d, of h] reportTerminal_ok(1) [OF r d] by (simp add: settled_return_def)
  next
    case (Some saveErr)
    then show ?thesis using eq inv s saveJournal_Plain by (fastforce simp: settled_return_def)
  qed
qed

lemma quiet_verify_loop: "quiet w (snd (verify_loop h c j deadline s0 l b w))"
proof (induction h c j deadline s0 l b w rule: verify_loop.induct)
  case (1 h c j deadline s0 l b w)
  obtain e1 w1 where s: "serviceRunning h c w = (e1, w1)" by (cases "serviceRunning h c w")
  obtain r w2 where n: "nodeStatus_of h c w1 = (r, w2)" by (cases "nodeStatus_of h c w1")
  obtain e3 w3 where z: "sleep3 h w2 = (e3, w3)" by (cases "sleep3 h w2")
  have q1: "quiet w w1" using quiet_serviceRunning [of w h c] s by simp
  have q2: "quiet w w2" using q1 quiet_nodeStatus_of [of w1 h c] n by (auto intro: quiet_trans)
  have q3: "quiet w w3" using q2 quiet_sleep3 [of w2 h] z by (auto intro: quiet_trans)
  show ?case
  proof (cases "w_now w < deadline \<and> e1 = None \<and> e3 = None")
    case True
    show ?thesis
    proof (cases r)
      case (Inl err)
      have "quiet w3 (snd (verify_loop h c j deadline s0 (Some err) b w3))"
        using 1(1) [OF _ s [symmetric] _ n [symmetric] _ z [symmetric]] True Inl by simp
      with q3 have "quiet w (snd (verify_loop h c j deadline s0 (Some err) b w3))" by (rule quiet_trans)
      then show ?thesis using True Inl s n z by (subst verify_loop.simps) simp
    next
      case (Inr st)
      let ?s = "if healthy c j st then if IsZero s0 then w_now w2 else s0 else 0"
      have "quiet w3 (snd (verify_loop h c j deadline ?s l (b \<or> fresh_fault j st) w3))"
        if "\<not> (healthy c j st \<and> 30 * second \<le> time_sub (w_now w2) ?s)"
        using 1(2) [OF _ s [symmetric] _ n [symmetric] _ refl refl _ z [symmetric]] True Inr that by simp
      then have "quiet w (snd (verify_loop h c j deadline ?s l (b \<or> fresh_fault j st) w3))"
        if "\<not> (healthy c j st \<and> 30 * second \<le> time_sub (w_now w2) ?s)"
        using q3 that quiet_trans by blast
      then show ?thesis using True Inr s n z q2 by (subst verify_loop.simps) (simp add: Let_def)
    qed
  next
    case False
    then show ?thesis using s n z q1 q2 q3
      by (subst verify_loop.simps) (auto simp: fail_def Let_def split: option.splits sum.splits)
  qed
qed

lemma quiet_verify: "quiet w (snd (verify h c j w))"
  by (simp add: verify_def quiet_verify_loop)

lemma quiet_verifyRollback_loop: "quiet w (snd (verifyRollback_loop h c j deadline u w))"
proof (induction h c j deadline u w rule: verifyRollback_loop.induct)
  case (1 h c j deadline u w)
  obtain e1 w1 where s: "serviceRunning h c w = (e1, w1)" by (cases "serviceRunning h c w")
  obtain r w2 where n: "nodeStatus_of h c w1 = (r, w2)" by (cases "nodeStatus_of h c w1")
  obtain r' w2' where l: "localVersion h c w1 = (r', w2')" by (cases "localVersion h c w1")
  have q1: "quiet w w1" using quiet_serviceRunning [of w h c] s by simp
  have q2: "quiet w w2" using q1 quiet_nodeStatus_of [of w1 h c] n by (auto intro: quiet_trans)
  have ql: "quiet w w2'" using q1 quiet_localVersion [of w1 h c] l by (auto intro: quiet_trans)
  show ?case
  proof (cases "w_now w < deadline")
    case False
    then show ?thesis using s l q1 ql
      by (subst verifyRollback_loop.simps) (auto simp: fail_def split: option.splits sum.splits)
  next
    case True
    show ?thesis
    proof (cases e1)
      case (Some err)
      obtain e3 w3 where z: "sleep3 h w1 = (e3, w3)" by (cases "sleep3 h w1")
      have q3: "quiet w w3" using q1 quiet_sleep3 [of w1 h] z by (auto intro: quiet_trans)
      have "e3 = None \<Longrightarrow> quiet w3 (snd (verifyRollback_loop h c j deadline u w3))"
        using 1(2) [OF _ s [symmetric] _ z [symmetric]] True Some by simp
      then have "e3 = None \<Longrightarrow> quiet w (snd (verifyRollback_loop h c j deadline u w3))" using q3 quiet_trans by blast
      then show ?thesis using True Some s z q3 by (subst verifyRollback_loop.simps) (simp split: option.split)
    next
      case None
      obtain e3 w3 where z: "sleep3 h w2 = (e3, w3)" by (cases "sleep3 h w2")
      have q3: "quiet w w3" using q2 quiet_sleep3 [of w2 h] z by (auto intro: quiet_trans)
      have "quiet w3 (snd (verifyRollback_loop h c j deadline (u \<or> isl r) w3))"
        if "e3 = None" "\<not> (\<not> isl r \<and> recovered c j (projr r))"
        using 1(1) [OF _ s [symmetric] _ n [symmetric] refl _ z [symmetric]] True None that by simp
      then have "quiet w (snd (verifyRollback_loop h c j deadline (u \<or> isl r) w3))"
        if "e3 = None" "\<not> (\<not> isl r \<and> recovered c j (projr r))" using that q3 quiet_trans by blast
      then show ?thesis using True None s n z q2 q3 by (subst verifyRollback_loop.simps) (cases "isl r"; simp add: Let_def split: option.split)
    qed
  qed
qed

lemma quiet_verifyRollback: "quiet w (snd (verifyRollback h c j w))"
  by (simp add: verifyRollback_def quiet_verifyRollback_loop)

lemma writes_undo: "writes (swap_files (cl_cfg c) dir) w (snd (and_then (restore h c dir j) (verifyRollback h c j) w))"
  by (intro writes_and_then writes_restore quiet_writes quiet_verifyRollback)

lemma undo_restores:
  assumes "and_then (restore h c dir j) (verifyRollback h c j) w = (None, w')" and "saved (cl_cfg c) orig dir (w_files w)"
  shows "restored (cl_cfg c) orig dir (w_files w')"
proof -
  obtain v where r: "restore h c dir j w = (None, v)" "verifyRollback h c j v = (None, w')" using assms(1) by (auto simp: and_then_None)
  have "w_files w' = w_files v" using quiet_files [OF quiet_verifyRollback, of h c j v] r(2) by simp
  then show ?thesis using restore_restores [OF r(1) assms(2)] by simp
qed

lemma rollback_inv:
  assumes "fits J h c" and "job_inv J w" and "job_saved J (w_files w)" and "jo_Result j = []"
  shows "job_inv J (snd (rollback h c (jb_dir J) j w)) \<and> settled_return (jb_dir J) (rollback h c (jb_dir J) j w)"
proof -
  define j1 where "j1 = j\<lparr>jo_Phase := ''rolling_back''\<rparr>"
  have ok: "stage_ok J (stage j1) (w_files w)" using assms(3,4) by (simp add: stage_ok_def stage_def j1_def)
  obtain e v where s: "saveJournal h (jb_dir J) j1 w = (e, v)" by (cases "saveJournal h (jb_dir J) j1 w")
  have inv: "job_inv J v" using saveJournal_inv [OF assms(2) ok, of h] s by simp
  show ?thesis
  proof (cases e)
    case (Some err)
    then have "rollback h c (jb_dir J) j w = ((Some err, j1), v)" using s by (simp add: rollback_def Let_def j1_def)
    then show ?thesis using inv s Some saveJournal_Plain by (fastforce simp: settled_return_def)
  next
    case None
    define v1 where "v1 = snd (report h j1 ''rolling_back'' (jo_Error j1) v)"
    have q: "quiet v v1" by (simp add: v1_def quiet_report)
    obtain e2 v2 where t: "and_then (restore h c (jb_dir J) j1) (verifyRollback h c j1) v1 = (e2, v2)"
      by (cases "and_then (restore h c (jb_dir J) j1) (verifyRollback h c j1) v1")
    have wr: "writes (swap_files (cl_cfg c) (jb_dir J)) v1 v2"
      using writes_undo [of c "jb_dir J" v1 h j1] t by simp
    have fv: "w_files v1 = w_files w" using saveJournal_None [of h "jb_dir J" j1 w v] s None quiet_files [OF q] by simp
    have sv: "job_saved J (w_files v2)"
      using assms(1,3) saved_kept [OF wr] fv by (simp add: fits_def)
    have d: "on_disk (jb_dir J) j1 v2"
      using saveJournal_disk [of h "jb_dir J" j1 w v] s None quiet_on_disk [OF q] writes_journals [OF wr] by (simp add: on_disk_def)
    have inv2: "job_inv J v2" by (rule disk_inv [OF d]) (use sv assms(4) in \<open>simp add: stage_ok_def stage_def j1_def\<close>)
    have "restored (jb_cfg J) (jb_orig J) (jb_dir J) (w_files v2)" if "e2 = None"
      using undo_restores [of h c "jb_dir J" j1 v1 v2] t that assms(1,3) fv by (simp add: fits_def)
    from rollback_done_inv [where h = h and j = j1, OF inv2 sv this] show ?thesis
      using s None t by (simp add: rollback_def Let_def j1_def v1_def)
  qed
qed


lemma succeed_inv:
  fixes h :: Host and j :: journal
  assumes "job_inv J w" and "job_saved J (w_files w)" and "switched (jb_cfg J) (jb_dir J) (w_files w)"
  defines "j1 \<equiv> j\<lparr>jo_Result := ''succeeded'', jo_Phase := ''done''\<rparr>"
  defines "r \<equiv> (case saveJournal h (jb_dir J) j1 w of (Some err, w) \<Rightarrow> ((Some err, j1), w) | (None, w) \<Rightarrow> reportTerminal h (jb_dir J) j1 w)"
  shows "job_inv J (snd r) \<and> settled_return (jb_dir J) r"
proof -
  have ok: "stage_ok J (stage j1) (w_files w)" using assms(2,3) by (simp add: stage_ok_def stage_def j1_def)
  obtain e v where s: "saveJournal h (jb_dir J) j1 w = (e, v)" by (cases "saveJournal h (jb_dir J) j1 w")
  have inv: "job_inv J v" using saveJournal_inv [OF assms(1) ok, of h] s by simp
  show ?thesis
  proof (cases e)
    case (Some err)
    then show ?thesis using s inv saveJournal_Plain by (fastforce simp: r_def settled_return_def)
  next
    case None
    obtain e' j' w' where p: "reportTerminal h (jb_dir J) j1 v = ((e', j'), w')" by (metis prod.collapse)
    have d: "on_disk (jb_dir J) j1 v" using s None saveJournal_disk by simp
    show ?thesis using s None p reportTerminal_inv [OF inv d, of h] reportTerminal_ok(1) [OF p d] by (simp add: r_def settled_return_def)
  qed
qed

lemma resumeVerification_inv:
  assumes "fits J h c" and "job_inv J w" and "on_disk (jb_dir J) j w" and "stage j = (''verifying'', [])"
  shows "job_inv J (snd (resumeVerification h c (jb_dir J) j w)) \<and> settled_return (jb_dir J) (resumeVerification h c (jb_dir J) j w)"
proof -
  let ?c = "cl_cfg c"
  have res: "jo_Result j = []" using assms(4) by (simp add: stage_def)
  have ok: "stage_ok J (''verifying'', []) (w_files w)" using job_inv_on_disk [OF assms(2,3)] assms(4) by simp
  have cause: "job_inv J (snd (rollbackWithCause h c (jb_dir J) j err v)) \<and> settled_return (jb_dir J) (rollbackWithCause h c (jb_dir J) j err v)"
    if "job_inv J v" "job_saved J (w_files v)" for err v
    unfolding rollbackWithCause_def using that res by (intro rollback_inv [OF assms(1)]) auto
  obtain e v where t: "verify h c j w = (e, v)" by (cases "verify h c j w")
  have q: "quiet w v" using quiet_verify [of w h c j] t by simp
  have inv: "job_inv J v" and sv: "job_saved J (w_files v)" and d: "on_disk (jb_dir J) j v"
    and sw: "uc_Mode ?c = ''systemd'' \<longrightarrow> switched ?c (jb_dir J) (w_files v)"
    using assms(1,2,3) ok quiet_inv [OF q] quiet_files [OF q] quiet_on_disk [OF q] by (auto simp: stage_ok_def fits_def)
  show ?thesis
  proof (cases e)
    case (Some err)
    have "quiet v (snd (report h j ''uncertain'' (uerr_text err) v))" by (rule quiet_report)
    then show ?thesis using Some t inv d cause [OF inv sv, of err]
      by (simp add: resumeVerification_def quiet_inv quiet_on_disk settled_return_def)
  next
    case None
    obtain e2 v2 where f: "finishDocker h ?c (jb_dir J) v = (e2, v2)" by (cases "finishDocker h ?c (jb_dir J) v")
    have wr: "writes (swap_files ?c (jb_dir J)) v v2" using writes_finishDocker [of ?c "jb_dir J" v h] f by simp
    have sv2: "job_saved J (w_files v2)" using assms(1) sv saved_kept [OF wr] by (simp add: fits_def)
    have same: "uc_Mode ?c = ''systemd'' \<longrightarrow> v2 = v" using f by (auto simp: finishDocker_def)
    have d2: "on_disk (jb_dir J) j v2" using d writes_journals [OF wr] by (simp add: on_disk_def)
    have inv2: "job_inv J v2"
      by (rule disk_inv [OF d2]) (use sv2 same sw assms(1,4) in \<open>auto simp: stage_ok_def fits_def\<close>)
    show ?thesis
    proof (cases e2)
      case (Some err)
      then show ?thesis using \<open>e = None\<close> t f cause [OF inv2 sv2, of err] by (simp add: resumeVerification_def)
    next
      case e2: None
      have "switched (jb_cfg J) (jb_dir J) (w_files v2)"
        using finishDocker_switched [of h ?c "jb_dir J" v v2] f e2 sw assms(1) by (simp add: fits_def)
      from succeed_inv [where h = h and j = j, OF inv2 sv2 this] show ?thesis using \<open>e = None\<close> e2 t f by (simp add: resumeVerification_def Let_def)
    qed
  qed
qed

lemma snd_drop_journal [simp]: "snd (drop_journal r) = snd r"
  by (simp add: drop_journal_def)

lemma rollbackWithCause_inv:
  assumes "fits J h c" and "job_inv J w" and "job_saved J (w_files w)" and "jo_Result j = []"
  shows "job_inv J (snd (rollbackWithCause h c (jb_dir J) j err w))"
  unfolding rollbackWithCause_def using rollback_inv [OF assms(1-3), of "j\<lparr>jo_Error := uerr_text err\<rparr>"] assms(4) by simp

text \<open>After the switch: the new version is watched, or the old one restored.\<close>

lemma after_switch_inv:
  assumes "fits J h c" and "on_disk (jb_dir J) j w" and "stage j = (''switching'', [])" and "job_saved J (w_files w)"
    and "e = None \<Longrightarrow> uc_Mode (cl_cfg c) = ''systemd'' \<longrightarrow> switched (cl_cfg c) (jb_dir J) (w_files w)"
  shows "job_inv J (snd (case e of
      Some err \<Rightarrow> drop_journal (rollbackWithCause h c (jb_dir J) j err w)
    | None \<Rightarrow> let j = j\<lparr>jo_Phase := ''verifying''\<rparr> in
        (case saveJournal h (jb_dir J) j w of
           (Some err, w) \<Rightarrow> drop_journal (rollbackWithCause h c (jb_dir J) j err w)
         | (None, w) \<Rightarrow> drop_journal (resumeVerification h c (jb_dir J) j (snd (report h j ''verifying'' [] w))))))"
proof -
  have res: "jo_Result j = []" using assms(3) by (simp add: stage_def)
  have inv: "job_inv J w" by (rule disk_inv [OF assms(2)]) (use assms(3,4) in \<open>simp add: stage_ok_def\<close>)
  show ?thesis
  proof (cases e)
    case (Some err)
    then show ?thesis using rollbackWithCause_inv [OF assms(1) inv assms(4) res] by simp
  next
    case None
    define j1 where "j1 = j\<lparr>jo_Phase := ''verifying''\<rparr>"
    have st: "stage j1 = (''verifying'', [])" using res by (simp add: j1_def stage_def)
    have ok: "stage_ok J (stage j1) (w_files w)" using st assms(1,4,5) None by (simp add: stage_ok_def fits_def)
    obtain e2 v where s: "saveJournal h (jb_dir J) j1 w = (e2, v)" by (cases "saveJournal h (jb_dir J) j1 w")
    have f: "w_files v = w_files w" using saveJournal_cases [of h "jb_dir J" j1 w] s by simp
    have inv2: "job_inv J v" using saveJournal_inv [OF inv ok, of h] s by simp
    have "job_inv J (snd (resumeVerification h c (jb_dir J) j1 (snd (report h j1 ''verifying'' [] v))))" if "e2 = None"
    proof -
      have q: "quiet v (snd (report h j1 ''verifying'' [] v))" by (rule quiet_report)
      have "on_disk (jb_dir J) j1 v" using saveJournal_disk [of h "jb_dir J" j1 w v] s that by simp
      then show ?thesis using resumeVerification_inv [OF assms(1) _ _ st] quiet_inv [OF q] quiet_on_disk [OF q] inv2 by blast
    qed
    moreover have "job_inv J (snd (rollbackWithCause h c (jb_dir J) j1 err v))" for err
      using rollbackWithCause_inv [OF assms(1) inv2, of j1 err] assms(4) f res by (simp add: j1_def)
    ultimately show ?thesis using None s by (simp add: j1_def Let_def split: option.split)
  qed
qed

lemma switch_over_inv:
  assumes "fits J h c" and "job_inv J w" and "job_intact J (w_files w)" and "job_saved J (w_files w)" and "jo_Result j = []"
  shows "job_inv J (snd (switch_over h c (jb_dir J) j w))"
proof -
  define j0 where "j0 = j\<lparr>jo_Phase := ''prepared''\<rparr>"
  have ok0: "stage_ok J (stage j0) (w_files w)" using assms(3-5) by (simp add: stage_ok_def stage_def j0_def)
  obtain e v where s: "saveJournal h (jb_dir J) j0 w = (e, v)" by (cases "saveJournal h (jb_dir J) j0 w")
  have inv: "job_inv J v" and f: "w_files v = w_files w"
    using saveJournal_inv [OF assms(2) ok0, of h] saveJournal_cases [of h "jb_dir J" j0 w] s by simp_all
  define v1 where "v1 = snd (report h j ''prepared'' [] v)"
  have q1: "quiet v v1" by (simp add: v1_def quiet_report)
  define j1 where "j1 = j\<lparr>jo_Phase := ''switching'', jo_SwitchAt := w_now v1\<rparr>"
  have st1: "stage j1 = (''switching'', [])" using assms(5) by (simp add: stage_def j1_def)
  have ok1: "stage_ok J (stage j1) (w_files v1)" using st1 assms(4) f quiet_files [OF q1] by (simp add: stage_ok_def)
  obtain e1 v2 where s1: "saveJournal h (jb_dir J) j1 v1 = (e1, v2)" by (cases "saveJournal h (jb_dir J) j1 v1")
  have inv2: "job_inv J v2" and f2: "w_files v2 = w_files w"
    using saveJournal_inv [OF _ ok1, of h] saveJournal_cases [of h "jb_dir J" j1 v1] s1 quiet_inv [OF q1] inv f quiet_files [OF q1] by simp_all
  define v3 where "v3 = snd (report h j1 ''switching'' [] v2)"
  have q3: "quiet v2 v3" by (simp add: v3_def quiet_report)
  obtain e4 v4 where s4: "switchVersion h c (jb_dir J) j1 v3 = (e4, v4)" by (cases "switchVersion h c (jb_dir J) j1 v3")
  have wr: "writes (swap_files (cl_cfg c) (jb_dir J)) v3 v4" using writes_switchVersion [of c "jb_dir J" v3 h j1] s4 by simp
  have sv: "job_saved J (w_files v4)" using assms(1,4) saved_kept [OF wr] quiet_files [OF q3] f2 by (simp add: fits_def)
  have "on_disk (jb_dir J) j1 v4" if "e1 = None"
    using saveJournal_disk [of h "jb_dir J" j1 v1 v2] s1 that quiet_on_disk [OF q3] writes_journals [OF wr] by (simp add: on_disk_def)
  moreover have "e4 = None \<Longrightarrow> uc_Mode (cl_cfg c) = ''systemd'' \<longrightarrow> switched (cl_cfg c) (jb_dir J) (w_files v4)"
    using switchVersion_switched [of h c "jb_dir J" j1 v3 v4] s4 by simp
  ultimately have "e1 = None \<Longrightarrow> job_inv J (snd (case e4 of
      Some err \<Rightarrow> drop_journal (rollbackWithCause h c (jb_dir J) j1 err v4)
    | None \<Rightarrow> let j = j1\<lparr>jo_Phase := ''verifying''\<rparr> in
        (case saveJournal h (jb_dir J) j v4 of
           (Some err, w) \<Rightarrow> drop_journal (rollbackWithCause h c (jb_dir J) j err w)
         | (None, w) \<Rightarrow> drop_journal (resumeVerification h c (jb_dir J) j (snd (report h j ''verifying'' [] w))))))"
    by (intro after_switch_inv [OF assms(1) _ st1 sv])
  then show ?thesis using s s1 s4 inv inv2
    by (cases e; cases e1; cases e4) (simp_all add: switch_over_def and_then_def Let_def j0_def v1_def j1_def v3_def)
qed

lemma intact_kept:
  assumes "writes S w w'" and "\<And>p. Installed p \<notin> S"
  shows "intact c orig dir (w_files w') = intact c orig dir (w_files w)"
proof -
  have "mget (w_files w') (Installed p) = mget (w_files w) (Installed p)" for p by (rule writes_keep [OF assms])
  then show ?thesis by (simp add: intact_def assets_def docker_backups_def install_path_def)
qed

lemma saved_intact: "saved c (mget fs) dir fs' \<Longrightarrow> intact c orig dir fs \<Longrightarrow> saved c orig dir fs'"
  by (fastforce simp: saved_def intact_def)

lemma prepare_journal: "prepare h c dir j w = ((e, j'), w') \<Longrightarrow> stage j' = stage j"
  by (auto simp: prepare_def stage_def Let_def split: if_splits prod.splits sum.splits)

lemma downloading_inv: "on_disk (jb_dir J) j w \<Longrightarrow> stage j = (''downloading'', []) \<Longrightarrow> job_intact J (w_files w) \<Longrightarrow> job_inv J w"
  by (erule disk_inv) (simp add: stage_ok_def)

lemma fetch_inv:
  assumes "fits J h c" and "on_disk (jb_dir J) j w" and "stage j = (''downloading'', [])" and "job_intact J (w_files w)"
    and "jb_digest J = ut_SHA256 task"
  shows "job_inv J (snd (case download h c (jb_dir J) task w of
      (Some err, w) \<Rightarrow> failBeforeSwitch h (jb_dir J) j err w
    | (None, w) \<Rightarrow> (case prepare h c (jb_dir J) j w of
         ((Some err, j), w) \<Rightarrow> failBeforeSwitch h (jb_dir J) j err w
       | ((None, j), w) \<Rightarrow> switch_over h c (jb_dir J) j w)))"
proof -
  obtain e v where d: "download h c (jb_dir J) task w = (e, v)" by (cases "download h c (jb_dir J) task w")
  have wr: "writes (job_files (jb_dir J)) w v" using writes_download [of "jb_dir J" w h c task] d by simp
  have i: "job_intact J (w_files v)" using assms(4) intact_kept [OF wr] by (auto simp: job_files_def)
  have dv: "on_disk (jb_dir J) j v" using assms(2) writes_journals [OF wr] by (simp add: on_disk_def)
  obtain e2 j' v2 where p: "prepare h c (jb_dir J) j v = ((e2, j'), v2)" by (metis prod.collapse)
  have wr2: "writes (copies (jb_dir J)) v v2" using writes_prepare [of "jb_dir J" v h c j] p by simp
  have i2: "job_intact J (w_files v2)" using i intact_kept [OF wr2] by (auto simp: copies_def)
  have st: "stage j' = stage j" using prepare_journal [OF p] .
  have d2: "on_disk (jb_dir J) j' v2" using dv st writes_journals [OF wr2] by (simp add: on_disk_def)
  have inv: "job_inv J v" "job_inv J v2" using downloading_inv dv d2 i i2 assms(3) st by auto
  have "job_saved J (w_files v2)" if "e = None" "e2 = None"
  proof
    show "saved (jb_cfg J) (jb_orig J) (jb_dir J) (w_files v2)"
      using saved_intact [OF _ i] prepare_saves [of h c "jb_dir J" j v j' v2] p that assms(1) by (simp add: fits_def)
    have "mget (w_files v2) (JobFile (jb_dir J) ''release.tar.gz'') = mget (w_files v) (JobFile (jb_dir J) ''release.tar.gz'')"
      by (rule writes_keep [OF wr2]) (auto simp: copies_def)
    then show "checked_archive (jb_sha J) (jb_digest J) (jb_dir J) (w_files v2)"
      using download_checked [of h c "jb_dir J" task w v] d that assms(1,5) by (simp add: fits_def checked_archive_def)
  qed
  then have "e = None \<Longrightarrow> e2 = None \<Longrightarrow> job_inv J (snd (switch_over h c (jb_dir J) j' v2))"
    using switch_over_inv [OF assms(1) inv(2) i2, of j'] assms(3) st by (simp add: stage_def)
  then show ?thesis using d p failBeforeSwitch_inv [OF inv(1) i] failBeforeSwitch_inv [OF inv(2) i2]
    by (cases e; cases e2) simp_all
qed

lemma start_job_inv:
  assumes "fits J h c" and "job_inv J w" and "job_intact J (w_files w)" and "jb_digest J = ut_SHA256 task"
  shows "job_inv J (snd (start_job h c (jb_dir J) task w))"
proof -
  define j where "j = \<lparr>jo_Task = task, jo_Phase = ''downloading'', jo_Result = [], jo_Reported = False, jo_Local = (cl_localArchive c \<noteq> []),
               jo_Error = [], jo_OldImage = [], jo_OldInstance = [], jo_SwitchAt = 0\<rparr>"
  have st: "stage (j\<lparr>jo_OldInstance := x\<rparr>) = (''downloading'', [])" for x by (simp add: j_def stage_def)
  have ok: "stage_ok J (stage j) (w_files w)" using assms(3) by (simp add: stage_ok_def j_def stage_def)
  obtain e v where s: "saveJournal h (jb_dir J) j w = (e, v)" by (cases "saveJournal h (jb_dir J) j w")
  have inv: "job_inv J v" and f: "w_files v = w_files w"
    using saveJournal_inv [OF assms(2) ok, of h] saveJournal_cases [of h "jb_dir J" j w] s by simp_all
  obtain r v1 where n: "nodeStatus_of h (cl_cfg c) v = (r, v1)" by (cases "nodeStatus_of h (cl_cfg c) v")
  have q: "quiet v v1" using quiet_nodeStatus_of [of v h "cl_cfg c"] n by simp
  have inv1: "job_inv J v1" and i1: "job_intact J (w_files v1)" using inv quiet_inv [OF q] quiet_files [OF q] f assms(3) by simp_all
  have "job_inv J (snd (and_then (saveJournal h (jb_dir J) (j\<lparr>jo_OldInstance := x\<rparr>))
      (\<lambda>w. case download h c (jb_dir J) task (snd (report h (j\<lparr>jo_OldInstance := x\<rparr>) ''downloading'' [] w)) of
             (Some err, w) \<Rightarrow> failBeforeSwitch h (jb_dir J) (j\<lparr>jo_OldInstance := x\<rparr>) err w
           | (None, w) \<Rightarrow> (case prepare h c (jb_dir J) (j\<lparr>jo_OldInstance := x\<rparr>) w of
                ((Some err, j), w) \<Rightarrow> failBeforeSwitch h (jb_dir J) j err w
              | ((None, j), w) \<Rightarrow> switch_over h c (jb_dir J) j w)) v1))" for x
  proof -
    let ?j = "j\<lparr>jo_OldInstance := x\<rparr>"
    obtain e2 v2 where s2: "saveJournal h (jb_dir J) ?j v1 = (e2, v2)" by (cases "saveJournal h (jb_dir J) ?j v1")
    have inv2: "job_inv J v2" and f2: "w_files v2 = w_files v1"
      using saveJournal_inv [OF inv1, of ?j h] st [of x] i1 saveJournal_cases [of h "jb_dir J" ?j v1] s2 by (simp_all add: stage_ok_def)
    have q2: "quiet v2 (snd (report h ?j ''downloading'' [] v2))" by (rule quiet_report)
    have "e2 = None \<Longrightarrow> on_disk (jb_dir J) ?j (snd (report h ?j ''downloading'' [] v2))"
      using saveJournal_disk [of h "jb_dir J" ?j v1 v2] s2 quiet_on_disk [OF q2] by simp
    from fetch_inv [OF assms(1) this st _ assms(4)] show ?thesis
      using s2 inv2 i1 f2 quiet_files [OF q2] by (cases e2) (simp_all add: and_then_def)
  qed
  then show ?thesis using s n inv failBeforeSwitch_inv [OF inv1 i1]
    by (cases e; cases r) (simp_all add: start_job_def and_then_def Let_def flip: j_def)
qed

lemma execute_inv:
  assumes "fits J h c" and "job_inv J w" and "jb_dir J = ut_ID task" and "jb_digest J = ut_SHA256 task"
  shows "job_inv J (snd (execute h c task w))"
proof (cases "mget (w_journals w) (ut_ID task)")
  case None
  then have "job_intact J (w_files w)" using assms(2,3) by (simp add: job_inv_def)
  then show ?thesis using None start_job_inv [OF assms(1,2) _ assms(4)] assms(2,3) by (simp add: execute_def Let_def fail_def)
next
  case (Some j)
  have d: "on_disk (jb_dir J) j w" using Some assms(3) by (simp add: on_disk_def)
  have ok: "stage_ok J (stage j) (w_files w)" using Some assms(2,3) by (simp add: job_inv_def)
  have "jo_Phase j = ''reserving'' \<Longrightarrow> job_intact J (w_files w)" using ok by (auto simp: stage_ok_def stage_def)
  moreover have "jo_Phase j = ''verifying'' \<Longrightarrow> jo_Result j = [] \<Longrightarrow> stage j = (''verifying'', [])" by (simp add: stage_def)
  ultimately show ?thesis
    using Some assms(2) start_job_inv [OF assms(1,2) _ assms(4)] reportTerminal_inv [OF assms(2) d, of h] resumeVerification_inv [OF assms(1,2) d] assms(3)
    by (auto simp: execute_def Let_def fail_def)
qed

subsection \<open>Other jobs\<close>

definition keeps_others :: "string \<Rightarrow> World \<Rightarrow> World \<Rightarrow> bool" where
  "keeps_others dir w w' \<longleftrightarrow> (\<forall>d. d \<noteq> dir \<longrightarrow> mget (w_journals w') d = mget (w_journals w) d)"

lemma keeps_refl [simp]: "keeps_others dir w w"
  by (simp add: keeps_others_def)

lemma keeps_trans: "keeps_others dir w w' \<Longrightarrow> keeps_others dir w' w'' \<Longrightarrow> keeps_others dir w w''"
  by (simp add: keeps_others_def)

lemma keeps_chain:
  assumes "keeps_others dir w (snd r)" and "\<And>x v. keeps_others dir v (snd (g x v))"
  shows "keeps_others dir w (snd (case r of (x, v) \<Rightarrow> g x v))"
  using assms by (cases r) (auto intro: keeps_trans)

lemma keeps_and_then:
  assumes "\<And>v. keeps_others dir v (snd (f v))" and "\<And>v. keeps_others dir v (snd (g v))"
  shows "keeps_others dir w (snd (and_then f g w))"
  unfolding and_then_def by (rule keeps_chain [OF assms(1)]) (simp split: option.split add: assms(2))

lemma keeps_after: "quiet w v \<Longrightarrow> keeps_others dir v w' \<Longrightarrow> keeps_others dir w w'"
  by (simp add: quiet_def keeps_others_def)

lemma keeps_writes: "writes S w w' \<Longrightarrow> keeps_others dir w w'"
  by (simp add: writes_def keeps_others_def)

lemma keeps_saveJournal: "keeps_others dir w (snd (saveJournal h dir j w))"
  using saveJournal_cases [of h dir j w] by (auto simp: keeps_others_def)

lemma keeps_reportTerminal: "keeps_others dir w (snd (reportTerminal h dir j w))"
  unfolding reportTerminal_def Let_def
  by (auto split: option.split intro!: keeps_chain [OF keeps_writes [OF quiet_writes [OF quiet_report]]] keeps_chain [OF keeps_saveJournal])

lemma keeps_failBeforeSwitch: "keeps_others dir w (snd (failBeforeSwitch h dir j cause w))"
  unfolding failBeforeSwitch_def Let_def by (rule keeps_and_then) (simp_all add: keeps_saveJournal keeps_reportTerminal)

lemma keeps_rollback_done: "keeps_others dir w (snd (rollback_done h dir j err w))"
  unfolding rollback_done_def Let_def
  by (auto split: option.split intro!: keeps_chain [OF keeps_saveJournal] keeps_chain [OF keeps_reportTerminal])

lemma keeps_rollback: "keeps_others dir w (snd (rollback h c dir j w))"
  unfolding rollback_def Let_def
  by (auto split: option.split intro!: keeps_chain [OF keeps_saveJournal]
      keeps_chain [OF keeps_after [OF quiet_report keeps_writes [OF writes_undo]]] keeps_rollback_done)

lemma keeps_rollbackWithCause: "keeps_others dir w (snd (rollbackWithCause h c dir j err w))"
  by (simp add: rollbackWithCause_def keeps_rollback)

lemma keeps_resumeVerification: "keeps_others dir w (snd (resumeVerification h c dir j w))"
  unfolding resumeVerification_def Let_def
  by (auto split: option.split intro!: keeps_chain [OF keeps_writes [OF quiet_writes [OF quiet_verify]]] keeps_writes [OF quiet_writes [OF quiet_report]]
      keeps_rollbackWithCause keeps_chain [OF keeps_writes [OF writes_finishDocker]] keeps_chain [OF keeps_saveJournal] keeps_reportTerminal)

lemma keeps_switch_over: "keeps_others dir w (snd (switch_over h c dir j w))"
  unfolding switch_over_def Let_def
  by (auto split: option.split intro!: keeps_and_then keeps_saveJournal keeps_after [OF quiet_report keeps_and_then]
      keeps_chain [OF keeps_after [OF quiet_report keeps_writes [OF writes_switchVersion]]] keeps_chain [OF keeps_saveJournal]
      keeps_rollbackWithCause keeps_after [OF quiet_report keeps_resumeVerification])

lemma keeps_start_job: "keeps_others dir w (snd (start_job h c dir task w))"
  unfolding start_job_def Let_def
  by (auto split: option.split sum.split intro!: keeps_and_then keeps_saveJournal keeps_chain [OF keeps_writes [OF quiet_writes [OF quiet_nodeStatus_of]]]
      keeps_failBeforeSwitch keeps_chain [OF keeps_after [OF quiet_report keeps_writes [OF writes_download]]]
      keeps_chain [OF keeps_writes [OF writes_prepare]] keeps_switch_over)

lemma keeps_execute: "keeps_others (ut_ID task) w (snd (execute h c task w))"
  by (auto simp: execute_def Let_def fail_def split: option.split
      intro: keeps_start_job keeps_reportTerminal keeps_resumeVerification)

end
