(* ===== verification/Updater_Recovery.thy ===== *)
theory Updater_Recovery
  imports Updater_Invariant
begin

text \<open>
  Runs of the updater over restarts: recovery keeps the invariant of a job, whatever was interrupted, and
  ends every job it can. The waiting loops make a bounded number of rounds.
\<close>

lemma recover_reservation_inv:
  assumes "job_inv J w" and "on_disk (jb_dir J) j w" and "recover_reservation h c (jb_dir J) j w = (r, w')"
  shows "job_inv J w'" and "r = Inr j' \<Longrightarrow> on_disk (jb_dir J) j' w'"
proof -
  have ok: "stage_ok J (stage j) (w_files w)" using job_inv_on_disk [OF assms(1,2)] .
  have i: "jo_Phase j = ''reserving'' \<Longrightarrow> job_intact J (w_files w)" using ok by (auto simp: stage_ok_def stage_def)
  obtain status err reg v where q: "request h (manual_call (jo_Task j)) w = ((status, err, reg), v)" by (metis prod.collapse)
  have quiet: "quiet w v" using quiet_request [of w h "manual_call (jo_Task j)"] q by simp
  define j1 where "j1 = (if err = None then j\<lparr>jo_Task := reg\<rparr> else j)\<lparr>jo_Phase := ''done'', jo_Result := ''failed'',
      jo_Error := ''manual installer stopped before switching'', jo_Reported := (status = 409)\<rparr>"
  obtain e v' where s: "saveJournal h (jb_dir J) j1 v = (e, v')" by (cases "saveJournal h (jb_dir J) j1 v")
  have invv: "job_inv J v" using assms(1) quiet_inv [OF quiet] by simp
  have inv': "job_inv J v'" if "jo_Phase j = ''reserving''"
    using saveJournal_inv [OF invv, of j1 h] s i [OF that] quiet_files [OF quiet] by (simp add: stage_ok_def stage_def j1_def)
  have eq: "recover_reservation h c (jb_dir J) j w =
      (if jo_Phase j = ''reserving'' \<and> ut_Manual (jo_Task j) then
         (if err \<noteq> None \<and> status \<noteq> 409 then (Inl (the err), v)
          else if err = None \<and> (ut_ID reg \<noteq> ut_ID (jo_Task j) \<or> \<not> ut_Manual reg \<or> ut_NodeID reg \<noteq> uc_NodeID (cl_cfg c))
            then (Inl (Plain ''manual reservation recovery mismatch''), v)
          else (case e of Some err \<Rightarrow> (Inl err, v') | None \<Rightarrow> (Inr j1, v')))
       else (Inr j, w))"
    unfolding recover_reservation_def q Let_def prod.case j1_def [symmetric] s by (simp split: option.split)
  show "job_inv J w'" using assms(1,3) eq invv inv' by (auto split: if_splits option.splits)
  show "on_disk (jb_dir J) j' w'" if "r = Inr j'"
    using assms(2,3) eq that saveJournal_disk [of h "jb_dir J" j1 v v'] s by (auto split: if_splits option.splits)
qed

lemma recover_switch_inv:
  assumes "fits J h c" and "job_inv J w" and "on_disk (jb_dir J) j w" and "recover_switch h c (jb_dir J) j w = (r, w')"
  shows "job_inv J w'" and "r = Inr j' \<Longrightarrow> on_disk (jb_dir J) j' w'"
proof -
  have ok: "stage_ok J (stage j) (w_files w)" using job_inv_on_disk [OF assms(2,3)] .
  obtain e jv v where rv: "resumeVerification h c (jb_dir J) j w = ((e, jv), v)" by (metis prod.collapse)
  obtain e2 jr v2 where rr: "rollback h c (jb_dir J) j w = ((e2, jr), v2)" by (metis prod.collapse)
  have 1: "job_inv J v \<and> ((\<exists>s. e = Some (Plain s)) \<or> on_disk (jb_dir J) jv v)" if "jo_Phase j = ''verifying''"
    using resumeVerification_inv [OF assms(1-3)] rv ok that by (auto simp: stage_ok_def stage_def settled_return_def)
  have 2: "job_inv J v2 \<and> ((\<exists>s. e2 = Some (Plain s)) \<or> on_disk (jb_dir J) jr v2)"
    if "jo_Phase j = ''switching'' \<or> jo_Phase j = ''rolling_back''"
    using rollback_inv [OF assms(1,2), of j] rr ok that by (auto simp: stage_ok_def stage_def settled_return_def)
  have eq: "recover_switch h c (jb_dir J) j w =
      (if jo_Phase j = ''verifying'' then
         (case e of Some err \<Rightarrow> if \<not> is_StatusUnavailable err then (Inl err, v) else (Inr jv, v) | None \<Rightarrow> (Inr jv, v))
       else if jo_Phase j = ''switching'' \<or> jo_Phase j = ''rolling_back'' then
         (case e2 of Some err \<Rightarrow> if \<not> is_UpgradeRolledBack err then (Inl err, v2) else (Inr jr, v2) | None \<Rightarrow> (Inr jr, v2))
       else (Inr j, w))"
    by (simp add: recover_switch_def rv rr split: option.split)
  show "job_inv J w'" using assms(2,4) eq 1 2 by (auto split: if_splits option.splits)
  show "on_disk (jb_dir J) j' w'" if "r = Inr j'"
    using assms(3,4) eq 1 2 that by (auto split: if_splits option.splits)
qed

lemma recover_end_inv:
  assumes "job_inv J w" and "on_disk (jb_dir J) j w"
  shows "job_inv J (snd (recover_end h (jb_dir J) j w))"
proof (cases "(jo_Phase j = ''downloading'' \<or> jo_Phase j = ''prepared'') \<and> jo_Result j = []")
  case False
  then show ?thesis using assms reportTerminal_inv [OF assms, of h] by (auto simp: recover_end_def Let_def and_then_def)
next
  case True
  define j1 where "j1 = j\<lparr>jo_Phase := ''done'', jo_Result := ''failed'', jo_Error := ''updater interrupted before switching''\<rparr>"
  have "job_intact J (w_files w)" using job_inv_on_disk [OF assms] True by (auto simp: stage_ok_def stage_def)
  then have ok: "stage_ok J (stage j1) (w_files w)" by (simp add: stage_ok_def stage_def j1_def)
  obtain e v where s: "saveJournal h (jb_dir J) j1 w = (e, v)" by (cases "saveJournal h (jb_dir J) j1 w")
  have inv: "job_inv J v" using saveJournal_inv [OF assms(1) ok, of h] s by simp
  then show ?thesis using True s reportTerminal_inv [of J v j1 h] saveJournal_disk [of h "jb_dir J" j1 w v]
    by (auto simp: recover_end_def Let_def and_then_def j1_def [symmetric] split: option.split)
qed

lemma recover_job_inv:
  assumes "fits J h c" and "job_inv J w"
  shows "job_inv J (snd (recover_job h c (jb_dir J) w))"
proof (cases "mget (w_journals w) (jb_dir J)")
  case (Some j)
  then have d: "on_disk (jb_dir J) j w" by (simp add: on_disk_def)
  obtain r v where r: "recover_reservation h c (jb_dir J) j w = (r, v)" by (cases "recover_reservation h c (jb_dir J) j w")
  note rr = recover_reservation_inv [OF assms(2) d r]
  have "job_inv J (snd (case recover_switch h c (jb_dir J) j1 v of (Inl err, w) \<Rightarrow> (Some err, w) | (Inr j, w) \<Rightarrow> recover_end h (jb_dir J) j w))"
    if "r = Inr j1" for j1
  proof -
    obtain r2 v2 where r2: "recover_switch h c (jb_dir J) j1 v = (r2, v2)" by (cases "recover_switch h c (jb_dir J) j1 v")
    note sw = recover_switch_inv [OF assms(1) rr(1) rr(2) [OF that] r2]
    show ?thesis using r2 sw recover_end_inv [OF sw(1)] by (auto split: sum.split)
  qed
  then show ?thesis using Some assms(2) r rr(1) by (auto simp: recover_job_def fail_def split: sum.split)
qed (simp add: recover_job_def assms)

subsection \<open>Runs over restarts\<close>

definition settled :: "journal \<Rightarrow> bool" where
  "settled j \<longleftrightarrow> jo_Phase j = ''done'' \<and> jo_Result j \<noteq> []"

definition others_settled :: "string \<Rightarrow> World \<Rightarrow> bool" where
  "others_settled dir w \<longleftrightarrow> (\<forall>d j. d \<noteq> dir \<longrightarrow> mget (w_journals w) d = Some j \<longrightarrow> settled j)"

lemma others_kept: "keeps_others dir w w' \<Longrightarrow> others_settled dir w \<Longrightarrow> others_settled dir w'"
  by (simp add: keeps_others_def others_settled_def)

lemma keeps_recover_job: "keeps_others dir w (snd (recover_job h c dir w))"
proof -
  have "keeps_others dir v (snd (recover_reservation h c dir j v))" for j v
    unfolding recover_reservation_def Let_def
    by (auto split: option.split intro!: keeps_chain [OF keeps_writes [OF quiet_writes [OF quiet_request]]] keeps_chain [OF keeps_saveJournal])
  moreover have "keeps_others dir v (snd (recover_switch h c dir j v))" for j v
    unfolding recover_switch_def
    by (auto split: option.split intro!: keeps_chain [OF keeps_resumeVerification] keeps_chain [OF keeps_rollback])
  moreover have "keeps_others dir v (snd (recover_end h dir j v))" for j v
    unfolding recover_end_def Let_def
    by (auto intro!: keeps_and_then keeps_saveJournal keeps_reportTerminal)
  ultimately show ?thesis unfolding recover_job_def
    by (auto simp: fail_def split: option.split sum.split intro!: keeps_chain)
qed

lemma recover_settled:
  assumes "mget (w_journals w) d = Some j" and "settled j"
  shows "snd (recover_job h c d w) = w \<or> snd (recover_job h c d w) = snd (reportTerminal h d j w)"
  using assms by (simp add: recover_job_def settled_def recover_reservation_def recover_switch_def recover_end_def and_then_def fail_def)

lemma recover_other:
  assumes "d \<noteq> jb_dir J" and "job_inv J w" and "others_settled (jb_dir J) w"
  shows "job_inv J (snd (recover_job h c d w)) \<and> others_settled (jb_dir J) (snd (recover_job h c d w))"
proof (cases "mget (w_journals w) d")
  case (Some j)
  have st: "settled j" using assms(1,3) Some by (auto simp: others_settled_def)
  have d: "on_disk d j w" using Some by (simp add: on_disk_def)
  obtain e j' w' where r: "reportTerminal h d j w = ((e, j'), w')" by (metis prod.collapse)
  note ok = reportTerminal_ok [OF r d]
  have k: "keeps_others d w w'" using keeps_reportTerminal [of d w h j] r by simp
  have "job_inv J w'" using assms(1,2) k ok(3) by (simp add: job_inv_def keeps_others_def split: option.splits)
  moreover obtain jd where jd: "mget (w_journals w') d = Some jd" "stage jd = stage j" using ok(1,2) by (auto simp: on_disk_def)
  have "settled jd" using jd(2) st by (simp add: settled_def stage_def)
  then have "others_settled (jb_dir J) w'"
    using assms(3) k jd(1) unfolding others_settled_def keeps_others_def by (metis option.inject)
  ultimately show ?thesis using recover_settled [OF Some st, of h c] assms(2,3) r by auto
qed (simp add: recover_job_def assms)

lemma recover_dirs_inv:
  assumes "fits J h c" and "job_inv J w" and "others_settled (jb_dir J) w"
  shows "job_inv J (snd (recover_dirs h c dirs w)) \<and> others_settled (jb_dir J) (snd (recover_dirs h c dirs w))"
  using assms(2,3)
proof (induction dirs arbitrary: w)
  case (Cons d dirs)
  have "job_inv J (snd (recover_job h c d w)) \<and> others_settled (jb_dir J) (snd (recover_job h c d w))"
  proof (cases "d = jb_dir J")
    case True
    then show ?thesis using recover_job_inv [OF assms(1) Cons.prems(1)] others_kept [OF keeps_recover_job Cons.prems(2)] by simp
  qed (rule recover_other [OF _ Cons.prems])
  then show ?case using Cons.IH [of "snd (recover_job h c d w)"]
    by (cases "recover_job h c d w") (auto simp: and_then_def split: option.split)
qed simp

text \<open>
  The life of one upgrade. Each move has its own host, so its own failures, and may be cut short at any
  effect; a killed process has no effects until the next one starts with recovery.
\<close>

inductive upd_step :: "Job \<Rightarrow> World \<Rightarrow> World \<Rightarrow> bool" for J where
  run_task: "\<lbrakk>fits J h c; ut_ID task = jb_dir J; ut_SHA256 task = jb_digest J\<rbrakk> \<Longrightarrow> upd_step J w (snd (execute h c task w))"
| restart: "fits J h c \<Longrightarrow> upd_step J w (snd (recoverJobs h c (w\<lparr>w_dead := False\<rparr>)))"
| manual: "\<lbrakk>fits J h c; ut_ID r = jb_dir J; ut_SHA256 r = jb_digest J; mget (w_journals w) (jb_dir J) = None\<rbrakk>
     \<Longrightarrow> upd_step J w (snd (reserve h c r w))"

lemma reserve_inv:
  assumes "fits J h c" and "job_inv J w" and "ut_ID r = jb_dir J" and "ut_SHA256 r = jb_digest J" and "mget (w_journals w) (jb_dir J) = None"
  shows "job_inv J (snd (reserve h c r w))" and "keeps_others (jb_dir J) w (snd (reserve h c r w))"
proof -
  define j where "j = \<lparr>jo_Task = r, jo_Phase = ''reserving'', jo_Result = [], jo_Reported = False, jo_Local = True,
          jo_Error = [], jo_OldImage = [], jo_OldInstance = [], jo_SwitchAt = 0\<rparr>"
  have ok: "stage_ok J (stage j) (w_files w)" using assms(2,5) by (simp add: job_inv_def stage_ok_def stage_def j_def)
  obtain e v where s: "saveJournal h (jb_dir J) j w = (e, v)" by (cases "saveJournal h (jb_dir J) j w")
  obtain status err task v1 where q: "request h (manual_call r) v = ((status, err, task), v1)" by (metis prod.collapse)
  have quiet: "quiet v v1" using quiet_request [of v h "manual_call r"] q by simp
  have inv: "job_inv J v" "job_inv J v1" using saveJournal_inv [OF assms(2) ok, of h] s quiet_inv [OF quiet] by simp_all
  have k: "keeps_others (jb_dir J) w v" using keeps_saveJournal [of "jb_dir J" w h j] s by simp
  have m: "matches_reservation r task \<Longrightarrow> ut_ID task = jb_dir J \<and> ut_SHA256 task = jb_digest J"
    using assms(3,4) by (simp add: matches_reservation_def)
  have eq: "snd (reserve h c r w) = (if e \<noteq> None then v else if err \<noteq> None \<or> \<not> matches_reservation r task then v1 else snd (execute h c task v1))"
    using s q assms(3) by (cases e; cases err) (auto simp: reserve_def and_then_def fail_def j_def)
  have "keeps_others (jb_dir J) w v1" using k quiet by (simp add: keeps_others_def quiet_def)
  then show "keeps_others (jb_dir J) w (snd (reserve h c r w))"
    using eq k m keeps_execute [of task v1 h c] by (auto intro: keeps_trans)
  show "job_inv J (snd (reserve h c r w))" using eq inv m execute_inv [OF assms(1) inv(2), of task] by auto
qed

lemma upd_step_inv:
  assumes "upd_step J w w'" and "job_inv J w \<and> others_settled (jb_dir J) w"
  shows "job_inv J w' \<and> others_settled (jb_dir J) w'"
  using assms
proof (cases rule: upd_step.cases)
  case (run_task h c task)
  then show ?thesis using assms(2) execute_inv [of J h c w task] others_kept [OF keeps_execute [of task w h c]] by auto
next
  case (restart h c)
  have "job_inv J (w\<lparr>w_dead := False\<rparr>)" "others_settled (jb_dir J) (w\<lparr>w_dead := False\<rparr>)"
    using assms(2) by (simp_all add: job_inv_def others_settled_def split: option.splits)
  then show ?thesis using restart recover_dirs_inv [OF restart(2)] by (simp add: recoverJobs_def)
next
  case (manual h c r)
  then show ?thesis using assms(2) reserve_inv [of J h c w r] others_kept by auto
qed


text \<open>
  C6. An upgrade happens entirely or not at all, however often the updater or the machine stops, whichever
  command, request or file operation fails, and however often the task is handed out again: a job that ended
  as failed or rolled back has left every file it may change as it was; one that succeeded has put the new
  binaries in place, from an archive with the announced checksum; and as long as neither is certain (while it
  switches, watches or restores, and when it asks for manual intervention) the copies of the old files are complete.
\<close>

theorem upgrade_all_or_nothing:
  assumes "(upd_step J)\<^sup>*\<^sup>* w0 w" and "mget (w_journals w0) (jb_dir J) = None" and "others_settled (jb_dir J) w0"
    and "jb_orig J = mget (w_files w0)" and "mget (w_journals w) (jb_dir J) = Some j"
  shows "(jo_Result j = ''failed'' \<or> jo_Result j = ''rolled_back'' \<longrightarrow>
      (\<forall>(p, copy) \<in> set (assets (jb_cfg J) (jb_dir J)). mget (w_files w0) p \<noteq> None \<longrightarrow> mget (w_files w) p = mget (w_files w0) p)) \<and>
    (jo_Result j = ''succeeded'' \<longrightarrow>
      (\<forall>(p, new) \<in> set (new_binaries (jb_cfg J) (jb_dir J)). mget (w_files w) p = mget (w_files w) new \<and> mget (w_files w) new \<noteq> None) \<and>
      (\<exists>a. mget (w_files w) (JobFile (jb_dir J) ''release.tar.gz'') = Some a \<and> jb_sha J a = jb_digest J)) \<and>
    (jo_Phase j \<in> {''switching'', ''verifying'', ''rolling_back''} \<or> jo_Result j = ''manual_intervention'' \<longrightarrow>
      (\<forall>(p, copy) \<in> set (assets (jb_cfg J) (jb_dir J)). mget (w_files w0) p \<noteq> None \<longrightarrow> mget (w_files w) copy = mget (w_files w0) p))"
proof -
  have start: "job_inv J w0 \<and> others_settled (jb_dir J) w0" using assms(2-4) by (simp add: job_inv_def intact_def)
  have "job_inv J w \<and> others_settled (jb_dir J) w"
    using assms(1) start by (induction rule: rtranclp_induct) (simp, metis upd_step_inv)
  then have ok: "stage_ok J (jo_Phase j, jo_Result j) (w_files w)" using assms(5) by (simp add: job_inv_def stage_def)
  show ?thesis
  proof (intro conjI impI)
    assume "jo_Result j = ''failed'' \<or> jo_Result j = ''rolled_back''"
    with ok show "\<forall>(p, copy) \<in> set (assets (jb_cfg J) (jb_dir J)). mget (w_files w0) p \<noteq> None \<longrightarrow> mget (w_files w) p = mget (w_files w0) p"
      by (auto simp: stage_ok_def intact_def restored_def assms(4))
  next
    assume "jo_Result j = ''succeeded''"
    with ok show "\<forall>(p, new) \<in> set (new_binaries (jb_cfg J) (jb_dir J)). mget (w_files w) p = mget (w_files w) new \<and> mget (w_files w) new \<noteq> None"
      and "\<exists>a. mget (w_files w) (JobFile (jb_dir J) ''release.tar.gz'') = Some a \<and> jb_sha J a = jb_digest J"
      by (auto simp: stage_ok_def switched_def checked_archive_def)
  next
    assume "jo_Phase j \<in> {''switching'', ''verifying'', ''rolling_back''} \<or> jo_Result j = ''manual_intervention''"
    with ok show "\<forall>(p, copy) \<in> set (assets (jb_cfg J) (jb_dir J)). mget (w_files w0) p \<noteq> None \<longrightarrow> mget (w_files w) copy = mget (w_files w0) p"
      by (auto simp: stage_ok_def saved_def assms(4))
  qed
qed

subsection \<open>The waiting loops end\<close>

definition uses :: "nat \<Rightarrow> World \<Rightarrow> World \<Rightarrow> bool" where
  "uses n w w' \<longleftrightarrow> w_step w' \<le> w_step w + n"

lemma uses_refl [simp]: "uses n w w"
  by (simp add: uses_def)

lemma uses_trans: "uses n w v \<Longrightarrow> uses m v w' \<Longrightarrow> uses (n + m) w w'"
  by (simp add: uses_def)

lemma uses_mono: "uses n w w' \<Longrightarrow> n \<le> m \<Longrightarrow> uses m w w'"
  by (simp add: uses_def)

lemma uses_effect:
  assumes "\<And>k v. w_step (snd (f k v)) = w_step v"
  shows "uses 1 w (snd (effect h x f w))"
  using assms by (simp add: effect_def uses_def)

lemma uses_basic:
  shows "uses 1 w (snd (cmd_output h args w))" and "uses 1 w (snd (send h call w))" and "uses 1 w (snd (sleep3 h w))"
  unfolding cmd_output_def send_def sleep3_def by (rule uses_effect, simp)+

lemma uses_chain:
  assumes "uses n w (snd r)" and "\<And>x v. r = (x, v) \<Longrightarrow> uses m v (snd (g x v))" and "n + m \<le> k"
  shows "uses k w (snd (case r of (x, v) \<Rightarrow> g x v))"
  using assms by (cases r) (auto intro: uses_trans uses_mono)

lemma uses_command: "uses 1 w (snd (command h args w))"
  unfolding command_def by (rule uses_chain [OF uses_basic(1), where m = 0]) (auto split: sum.split)

lemma uses_composeContainer: "uses 1 w (snd (composeContainer h w))"
  unfolding composeContainer_def by (rule uses_chain [OF uses_basic(1), where m = 0]) (auto simp: Let_def split: sum.split)

lemma uses_nodeStatus_of: "uses 1 w (snd (nodeStatus_of h c w))"
  unfolding nodeStatus_of_def by (auto split: sum.split intro!: uses_chain [OF uses_basic(2), where m = 0])

lemma uses_serviceRunning: "uses 2 w (snd (serviceRunning h c w))"
proof -
  have "uses 2 w (snd (command h args w))" for args using uses_command by (rule uses_mono) simp
  moreover have "uses 1 v (snd (case cmd_output h args v of (Inl err, w) \<Rightarrow> (Some err, w)
      | (Inr out, w) \<Rightarrow> if TrimSpace out \<noteq> ''true'' then fail ''xmesh container not running'' w else (None, w)))" for v args
    by (rule uses_chain [OF uses_basic(1), where m = 0]) (auto simp: fail_def split: sum.split)
  ultimately show ?thesis unfolding serviceRunning_def
    by (auto split: sum.split intro!: uses_chain [OF uses_composeContainer, where m = 1])
qed

lemma uses_localVersion: "uses 2 w (snd (localVersion h c w))"
proof -
  let ?args = "if uc_Mode c = ''systemd'' then (Inr [systemdXmeshPath, ''version''], w)
            else case composeContainer h w of
                (Inl err, w) \<Rightarrow> (Inl err, w)
              | (Inr i, w) \<Rightarrow> (Inr [''docker'', ''exec'', i, ''/usr/local/bin/xmesh'', ''version''], w)"
  have "uses 1 w (snd ?args)" by (auto split: sum.split intro!: uses_chain [OF uses_composeContainer, where m = 0])
  then show ?thesis unfolding localVersion_def
    by (rule uses_chain [where m = 1]) (auto split: sum.split intro!: uses_chain [OF uses_basic(1), where m = 0])
qed

text \<open>The rounds left before the deadline.\<close>

definition rounds :: "gotime \<Rightarrow> World \<Rightarrow> nat" where
  "rounds deadline w = nat ((deadline - w_now w + (3 * second - 1)) div (3 * second))"

lemma rounds_less:
  assumes "w_now w < deadline" and "w_now w + 3 * second \<le> w_now w'"
  shows "Suc (rounds deadline w') \<le> rounds deadline w"
proof -
  have "(deadline - w_now w' + (3 * second - 1)) div (3 * second) \<le> (deadline - w_now w + (3 * second - 1) - 3 * second) div (3 * second)"
    using assms(2) by (intro zdiv_mono1) auto
  also have "\<dots> = (deadline - w_now w + (3 * second - 1)) div (3 * second) - 1"
    using div_add_self2 [of "3 * second" "deadline - w_now w + (3 * second - 1) - 3 * second"] by simp
  finally have "(deadline - w_now w' + (3 * second - 1)) div (3 * second) + 1 \<le> (deadline - w_now w + (3 * second - 1)) div (3 * second)" by simp
  moreover have "1 \<le> (deadline - w_now w + (3 * second - 1)) div (3 * second)" using assms(1) by simp
  ultimately show ?thesis by (simp add: rounds_def)
qed


lemma round_steps:
  assumes "serviceRunning h c w = (e1, w1)" and "w2 = w1 \<or> nodeStatus_of h c w1 = (r, w2)" and "sleep3 h w2 = (e3, w3)"
  shows "uses 4 w w1" and "uses 4 w w2" and "uses 4 w w3"
    and "e3 = None \<Longrightarrow> w_now w < deadline \<Longrightarrow> Suc (rounds deadline w3) \<le> rounds deadline w"
proof -
  have u: "uses 2 w w1" "uses 1 w1 w2" "uses 1 w2 w3"
    using uses_serviceRunning [of w h c] uses_nodeStatus_of [of w1 h c] uses_basic(3) [of w2 h] assms by auto
  then show "uses 4 w w1" "uses 4 w w2" "uses 4 w w3" by (simp_all add: uses_def)
  have q: "quiet w w1" "quiet w1 w2"
    using quiet_serviceRunning [of w h c] quiet_nodeStatus_of [of w1 h c] assms by auto
  then have "w_now w \<le> w_now w2" by (simp add: quiet_def)
  then show "Suc (rounds deadline w3) \<le> rounds deadline w" if "e3 = None" "w_now w < deadline"
    using rounds_less [OF that(2), of w3] sleep3_time [of h w2 w3] assms(3) that(1) by simp
qed

lemma uses_rounds:
  assumes "uses 4 w w3" and "uses (4 * rounds deadline w3 + n) w3 w'" and "Suc (rounds deadline w3) \<le> rounds deadline w"
  shows "uses (4 * rounds deadline w + n) w w'"
  using assms by (simp add: uses_def)

lemma rounds_pos: "w_now w < deadline \<Longrightarrow> 1 \<le> rounds deadline w"
  by (simp add: rounds_def)

lemma uses_verify_loop: "uses (4 * rounds deadline w) w (snd (verify_loop h c j deadline s0 l b w))"
proof (induction h c j deadline s0 l b w rule: verify_loop.induct)
  case (1 h c j deadline s0 l b w)
  obtain e1 w1 where s: "serviceRunning h c w = (e1, w1)" by (cases "serviceRunning h c w")
  obtain r w2 where n: "nodeStatus_of h c w1 = (r, w2)" by (cases "nodeStatus_of h c w1")
  obtain e3 w3 where z: "sleep3 h w2 = (e3, w3)" by (cases "sleep3 h w2")
  note steps = round_steps [OF s disjI2 [OF n] z]
  have one: "uses (4 * rounds deadline w) w v" if "uses 4 w v" "w_now w < deadline" for v
    using that(1) rounds_pos [OF that(2)] by (auto intro: uses_mono)
  show ?case
  proof (cases "w_now w < deadline \<and> e1 = None \<and> e3 = None")
    case True
    note more = uses_rounds [where n = 0, OF steps(3) _ steps(4), simplified]
    show ?thesis
    proof (cases r)
      case (Inl err)
      have "uses (4 * rounds deadline w3) w3 (snd (verify_loop h c j deadline s0 (Some err) b w3))"
        using 1(1) [OF _ s [symmetric] _ n [symmetric] _ z [symmetric]] True Inl by simp
      then show ?thesis using more True Inl s n z by (subst verify_loop.simps) simp
    next
      case (Inr st)
      let ?s = "if healthy c j st then if IsZero s0 then w_now w2 else s0 else 0"
      have "uses (4 * rounds deadline w3) w3 (snd (verify_loop h c j deadline ?s l (b \<or> fresh_fault j st) w3))"
        if "\<not> (healthy c j st \<and> 30 * second \<le> time_sub (w_now w2) ?s)"
        using 1(2) [OF _ s [symmetric] _ n [symmetric] _ refl refl _ z [symmetric]] True Inr that by simp
      then show ?thesis using more True Inr s n z one [OF steps(2)] by (subst verify_loop.simps) (simp add: Let_def)
    qed
  next
    case False
    then show ?thesis using s n z one [OF steps(1)] one [OF steps(2)] one [OF steps(3)]
      by (subst verify_loop.simps) (auto simp: fail_def Let_def split: option.splits sum.splits)
  qed
qed

lemma uses_verifyRollback_loop: "uses (4 * rounds deadline w + 4) w (snd (verifyRollback_loop h c j deadline u w))"
proof (induction h c j deadline u w rule: verifyRollback_loop.induct)
  case (1 h c j deadline u w)
  obtain e1 w1 where s: "serviceRunning h c w = (e1, w1)" by (cases "serviceRunning h c w")
  obtain r w2 where n: "nodeStatus_of h c w1 = (r, w2)" by (cases "nodeStatus_of h c w1")
  obtain l v where l: "localVersion h c w1 = (l, v)" by (cases "localVersion h c w1")
  have lv: "uses 4 w v" "uses 4 w w1"
    using uses_serviceRunning [of w h c] uses_localVersion [of w1 h c] s l by (auto simp: uses_def)
  have one: "uses (4 * rounds deadline w + 4) w v" if "uses 4 w v" for v using that by (rule uses_mono) simp
  show ?case
  proof (cases "w_now w < deadline")
    case False
    then show ?thesis using s l one [OF lv(1)] one [OF lv(2)]
      by (subst verifyRollback_loop.simps) (auto simp: fail_def split: option.splits sum.splits)
  next
    case True
    show ?thesis
    proof (cases e1)
      case (Some err)
      obtain e3 w3 where z: "sleep3 h w1 = (e3, w3)" by (cases "sleep3 h w1")
      note steps = round_steps [OF s disjI1 [OF refl] z]
      have "e3 = None \<Longrightarrow> uses (4 * rounds deadline w3 + 4) w3 (snd (verifyRollback_loop h c j deadline u w3))"
        using 1(2) [OF _ s [symmetric] _ z [symmetric]] True Some by simp
      then show ?thesis using uses_rounds [OF steps(3) _ steps(4)] True Some s z one [OF steps(3)]
        by (subst verifyRollback_loop.simps) (simp split: option.split)
    next
      case None
      obtain e3 w3 where z: "sleep3 h w2 = (e3, w3)" by (cases "sleep3 h w2")
      note steps = round_steps [OF s disjI2 [OF n] z]
      have "uses (4 * rounds deadline w3 + 4) w3 (snd (verifyRollback_loop h c j deadline (u \<or> isl r) w3))"
        if "e3 = None" "\<not> (\<not> isl r \<and> recovered c j (projr r))"
        using 1(1) [OF _ s [symmetric] _ n [symmetric] refl _ z [symmetric]] True None that by simp
      then show ?thesis using uses_rounds [OF steps(3) _ steps(4)] True None s n z one [OF steps(2)] one [OF steps(3)]
        by (subst verifyRollback_loop.simps) (cases "isl r"; simp add: Let_def split: option.split)
    qed
  qed
qed

text \<open>
  C35. Watching a version ends, whatever the host answers: \<open>verify\<close> gives up or decides after at most 30
  rounds of four effects, and \<open>verifyRollback\<close> after at most 20 rounds and a last look at the binary. Neither
  touches a file or a journal.
\<close>

theorem verification_ends:
  "w_step (snd (verify h c j w)) \<le> w_step w + 120 \<and> w_step (snd (verifyRollback h c j w)) \<le> w_step w + 84 \<and>
   w_files (snd (verify h c j w)) = w_files w \<and> w_files (snd (verifyRollback h c j w)) = w_files w \<and>
   w_journals (snd (verify h c j w)) = w_journals w \<and> w_journals (snd (verifyRollback h c j w)) = w_journals w"
proof -
  have "rounds (w_now w + 90 * second) w = 30" "rounds (w_now w + 60 * second) w = 20" by (simp_all add: rounds_def)
  then have "uses 120 w (snd (verify h c j w))" "uses 84 w (snd (verifyRollback h c j w))"
    using uses_verify_loop [of "w_now w + 90 * second" w h "cl_cfg c" j 0 None False]
      uses_verifyRollback_loop [of "w_now w + 60 * second" w h "cl_cfg c" j False]
    by (simp_all add: verify_def verifyRollback_def)
  then show ?thesis using quiet_verify [of w h c j] quiet_verifyRollback [of w h c j] by (simp add: uses_def quiet_def)
qed

text \<open>A node that is updated from \<open>v1\<close>, whose new version never reports: the process is killed while it copies the
  new binary, and the next one restores the old files.\<close>

definition demo_status :: NodeStatus where
  "demo_status = zero_NodeStatus\<lparr>ns_NodeID := ''n'', ns_BinaryVersion := ''v1'', ns_InstanceID := ''a'', ns_LastSeen := 1000 * hour\<rparr>"

definition demo_host :: "(nat \<Rightarrow> bool) \<Rightarrow> Host" where
  "demo_host alive = \<lparr>h_alive = alive, h_takes = (\<lambda>_. 1000), h_cancelled = (\<lambda>_. False), h_io = (\<lambda>_. IoOk),
     h_cmd = (\<lambda>_ args. Inr (if args = [''/jobs/t/new/xmesh'', ''version''] then ''v2'' else [])),
     h_http = (\<lambda>_ call. Inr \<lparr>rp_code = 200, rp_status = ''200 OK'', rp_body = ''archive'', rp_task = Inl [], rp_node = Inr demo_status\<rparr>),
     h_untar = (\<lambda>_ _. ([(''xmesh'', ''new binary''), (''xray'', ''new xray'')], None)), h_regular = (\<lambda>_ _. True),
     h_token = (\<lambda>_. Inl []), h_credential = (\<lambda>s. Inr s), h_sha256 = (\<lambda>_. replicate 64 CHR ''0''), h_arch = ''amd64''\<rparr>"

definition demo_client :: UpdClient where
  "demo_client = \<lparr>cl_cfg = \<lparr>uc_ControllerURL = ''https://c'', uc_NodeID = ''n'', uc_Role = ''agent'', uc_Credential = ''k'',
     uc_Mode = ''systemd'', uc_InstallDir = [], uc_WorkDir = ''/jobs''\<rparr>, cl_localArchive = []\<rparr>"

definition demo_task :: UpgradeTask where
  "demo_task = zero_UpgradeTask\<lparr>ut_ID := ''t'', ut_NodeID := ''n'', ut_Role := ''agent'', ut_FromVersion := ''v1'', ut_TargetVersion := ''v2'',
     ut_Asset := ''xmesh-v2-linux-amd64.tar.gz'', ut_SHA256 := replicate 64 CHR ''0'', ut_Mode := ''systemd'', ut_Arch := ''amd64'', ut_Attempt := 1\<rparr>"

definition demo_node :: World where
  "demo_node = \<lparr>w_files = [(Installed systemdXmeshPath, ''old binary''), (Installed systemdNodeConfigPath, ''credential'')],
     w_journals = [], w_now = 100 * hour, w_step = 0, w_dead = False\<rparr>"

definition demo_killed :: World where
  "demo_killed = snd (execute (demo_host (\<lambda>k. k < 18)) demo_client demo_task demo_node)"

definition demo_recovered :: World where
  "demo_recovered = snd (recoverJobs (demo_host (\<lambda>_. True)) demo_client (demo_killed\<lparr>w_dead := False\<rparr>))"

definition demo_job :: Job where
  "demo_job = \<lparr>jb_cfg = cl_cfg demo_client, jb_orig = mget (w_files demo_node), jb_dir = ''t'',
     jb_sha = (\<lambda>_. replicate 64 CHR ''0''), jb_digest = replicate 64 CHR ''0''\<rparr>"

lemma demo_interrupted:
  "map_option jo_Phase (mget (w_journals demo_killed) ''t'') = Some ''switching'' \<and>
   mget (w_files demo_killed) (Installed systemdXmeshPath) = Some ''new binary''"
  by code_simp

lemma demo_outcome: "map_option jo_Result (mget (w_journals demo_recovered) ''t'') = Some ''rolled_back''"
  by code_simp

theorem upgrade_all_or_nothing_witness:
  "mget (w_files demo_killed) (Installed systemdXmeshPath) = Some ''new binary'' \<and>
   mget (w_files demo_recovered) (Installed systemdXmeshPath) = Some ''old binary''"
proof -
  have fits: "fits demo_job (demo_host a) demo_client" for a by (simp add: fits_def demo_job_def demo_host_def demo_client_def)
  have "upd_step demo_job demo_node demo_killed"
    unfolding demo_killed_def by (rule run_task [OF fits]) (simp_all add: demo_task_def demo_job_def)
  moreover have "upd_step demo_job demo_killed demo_recovered" unfolding demo_recovered_def by (rule restart [OF fits])
  ultimately have run: "(upd_step demo_job)\<^sup>*\<^sup>* demo_node demo_recovered" by simp
  obtain j where j: "mget (w_journals demo_recovered) (jb_dir demo_job) = Some j" "jo_Result j = ''rolled_back''"
    using demo_outcome by (auto simp: demo_job_def)
  have "mget (w_journals demo_node) (jb_dir demo_job) = None" "others_settled (jb_dir demo_job) demo_node"
    by (simp_all add: demo_node_def others_settled_def)
  from upgrade_all_or_nothing [OF run this _ j(1)] j(2) show ?thesis using demo_interrupted
    by (simp add: demo_job_def assets_def demo_client_def demo_node_def)
qed

end
