(* ===== verification/Gateway_Runtime.thy ===== *)
theory Gateway_Runtime
  imports Scheduler Protocol Node_Api Upstreams
begin

text \<open>
  The runtime of a Gateway (\<open>src/internal/gateway/gateway.go\<close>, the admission of \<open>socks.go\<close>, the counters of
  \<open>xray_stats.go\<close>): the configuration it serves and how long, the client connections and tunnel sessions it
  admits under it, the streams it opens through the scheduler's pool, and what it reports.

  One critical section of the lock is one step, except that \<open>openStream\<close> looks at the configuration and acquires a
  session in one step, and that \<open>refresh\<close>, which only the control loop calls, is one step between the answer of the
  Controller and the new configuration: whatever takes authority away in between advances the epoch it compares. Connections and multiplexer sessions are handles: a connection
  that was closed by the gateway is marked, and the handles of closed sessions are in \<open>gx_closed\<close>. The
  configuration of Xray is rendered and validated outside (\<open>payload\<close>, \<open>candidate\<close>); its process is seen through
  \<open>gx_xrayReady\<close> and \<open>gx_running\<close>.
\<close>

definition ConfigLease :: duration where "ConfigLease = 5 * minute"
definition pendingStatsLifetime :: duration where "pendingStatsLifetime = 7 * 24 * hour"

record authorizedConnection =
  cn_grant :: Grant
  cn_cancelled :: bool

record grantCounters =
  ct_upload :: uint64
  ct_download :: uint64
  ct_tcp :: int
  ct_udp :: int

definition zero_counters :: grantCounters where
  "zero_counters = \<lparr>ct_upload = 0, ct_download = 0, ct_tcp = 0, ct_udp = 0\<rparr>"

record pendingStatsConfig =
  pd_config :: GatewayConfig
  pd_expiresAt :: gotime

record GatewayRuntime =
  gx_nodeID :: string
  gx_config :: GatewayConfig
  gx_generation :: uint64
  gx_until :: gotime
  gx_epoch :: uint64
  gx_connections :: "(nat \<times> authorizedConnection) list"
  gx_pool :: Pool
  gx_closed :: "nat set"
  gx_xrayStatsConfig :: GatewayConfig
  gx_running :: string
  gx_xrayReady :: bool
  gx_xrayError :: string
  gx_xrayAppliedRevision :: uint64
  gx_xrayApply :: bool
  gx_xrayCancel :: bool          \<comment> \<open>a process of Xray has been started\<close>
  gx_xrayCancelled :: bool
  gx_pendingStats :: "(uint64 \<times> pendingStatsConfig) list"
  gx_lastError :: string
  gx_grantStats :: "grantCounters gomap"
  gx_grantLinks :: "grantCounters gomap gomap"
  gx_tcp :: int
  gx_udp :: int
  gx_queueDrops :: uint64

definition zero_GatewayConfig :: GatewayConfig where
  "zero_GatewayConfig = \<lparr>gc_Revision = 0, gc_Gateway = zero_Gateway, gc_Grants = [], gc_Links = [], gc_Upstreams = []\<rparr>"

definition New_gateway :: "string \<Rightarrow> (addr \<Rightarrow> Session) \<Rightarrow> gotime \<Rightarrow> GatewayRuntime" where
  "New_gateway nodeID heap now =
     \<lparr>gx_nodeID = nodeID, gx_config = zero_GatewayConfig, gx_generation = 0, gx_until = now + ConfigLease, gx_epoch = 0,
      gx_connections = [], gx_pool = NewPool heap, gx_closed = {}, gx_xrayStatsConfig = zero_GatewayConfig, gx_running = [],
      gx_xrayReady = False, gx_xrayError = [], gx_xrayAppliedRevision = 0, gx_xrayApply = False, gx_xrayCancel = False, gx_xrayCancelled = False,
      gx_pendingStats = [], gx_lastError = [], gx_grantStats = [], gx_grantLinks = [], gx_tcp = 0, gx_udp = 0, gx_queueDrops = 0\<rparr>"

abbreviation enabled :: "GatewayConfig \<Rightarrow> bool" where
  "enabled config \<equiv> gw_Enabled (gc_Gateway config)"

subsection \<open>Authorization\<close>

definition setXray :: "bool \<Rightarrow> string \<Rightarrow> GatewayRuntime \<Rightarrow> GatewayRuntime" where
  "setXray ready message r = r\<lparr>gx_xrayReady := ready, gx_xrayError := message\<rparr>"

text \<open>The same credentials on the same route.\<close>

definition same_grant :: "Grant \<Rightarrow> Grant \<Rightarrow> bool" where
  "same_grant grant previous = (gr_ID grant = gr_ID previous \<and> gr_AttachmentID grant = gr_AttachmentID previous \<and>
     gr_SOCKSUsername grant = gr_SOCKSUsername previous \<and> gr_SOCKSPassword grant = gr_SOCKSPassword previous \<and>
     gr_VMessUUID grant = gr_VMessUUID previous)"

definition grant_current :: "GatewayConfig \<Rightarrow> Grant \<Rightarrow> bool" where
  "grant_current config previous =
     list_ex (\<lambda>grant. enabled config \<and> gr_Enabled grant \<and> same_grant grant previous) (gc_Grants config)"

definition retireConnectionsLocked :: "GatewayConfig \<Rightarrow> GatewayRuntime \<Rightarrow> GatewayRuntime" where
  "retireConnectionsLocked config r =
     r\<lparr>gx_connections := map (\<lambda>(conn, active).
          (conn, if \<not> grant_current config (cn_grant active) then active\<lparr>cn_cancelled := True\<rparr> else active)) (gx_connections r)\<rparr>"

definition close_sessions :: "(Session \<Rightarrow> bool) \<Rightarrow> GatewayRuntime \<Rightarrow> GatewayRuntime" where
  "close_sessions P r =
     r\<lparr>gx_closed := gx_closed r \<union> (\<Union>s \<in> set (filter P (Snapshot (gx_pool r))). set_option (ss_SMux s))\<rparr>"

definition invalidateAuthorizationLocked :: "GatewayRuntime \<Rightarrow> GatewayRuntime" where
  "invalidateAuthorizationLocked r =
     (let r = r\<lparr>gx_epoch := gx_epoch r + 1, gx_xrayCancelled := (gx_xrayCancelled r \<or> gx_xrayCancel r),
               gx_config := (gx_config r)\<lparr>gc_Gateway := (gc_Gateway (gx_config r))\<lparr>gw_Enabled := False\<rparr>\<rparr>\<rparr>;
          r = setXray False ''gateway authorization revoked'' r;
          r = r\<lparr>gx_config := (gx_config r)\<lparr>gc_Grants := [], gc_Links := [], gc_Upstreams := []\<rparr>\<rparr>;
          r = close_sessions (\<lambda>_. True) (retireConnectionsLocked (gx_config r) r)
      in r\<lparr>gx_xrayApply := True\<rparr>)"

definition watch_tick :: "gotime \<Rightarrow> GatewayRuntime \<Rightarrow> GatewayRuntime" where
  "watch_tick now r =
     (if enabled (gx_config r) \<and> \<not> now < gx_until r then invalidateAuthorizationLocked r else r)"

definition AuthorizationRejected :: "nat \<Rightarrow> bool" where
  "AuthorizationRejected code = (code = 401 \<or> code = 403)"

subsection \<open>Tunnels\<close>

definition token_matches :: "Env \<Rightarrow> string \<Rightarrow> string \<Rightarrow> bool" where
  "token_matches env token offered = EqualSecretHash (e_sha256 env) (env_SecretHash env token) offered"

definition authorizeTunnelLocked :: "Env \<Rightarrow> Message \<Rightarrow> GatewayRuntime \<Rightarrow> GatewayLinkConfig option" where
  "authorizeTunnelLocked env registration r =
     (if \<not> enabled (gx_config r) \<or> \<not> e_now env < gx_until r then None
      else find (\<lambda>link. lk_Enabled (gk_Link link) \<and> lk_ID (gk_Link link) = m_LinkID registration \<and>
             gk_AgentID link = m_AgentID registration \<and> token_matches env (gk_TunnelToken link) (m_Token registration)) (gc_Links (gx_config r)))"

definition refusal :: "string \<Rightarrow> string \<Rightarrow> Message" where
  "refusal code text' = zero_Message\<lparr>m_Type := ''response'', m_Version := Version, m_ErrorCode := code, m_Error := text'\<rparr>"

text \<open>\<open>acceptTunnel\<close> up to the answer to the registration message that was read.\<close>

definition tunnel_answer :: "Env \<Rightarrow> error + Message \<Rightarrow> GatewayRuntime \<Rightarrow> Message \<times> bool" where
  "tunnel_answer env read r =
     (case read of
        Inl _ \<Rightarrow> (refusal ''invalid_registration'' ''invalid tunnel registration'', False)
      | Inr registration \<Rightarrow>
          if m_Type registration \<noteq> ''register'' \<or> m_Version registration \<noteq> Version
          then (refusal ''invalid_registration'' ''invalid tunnel registration'', False)
          else if authorizeTunnelLocked env registration r = None then (refusal ''unauthorized'' ''invalid tunnel identity'', False)
          else (zero_Message\<lparr>m_Type := ''ready'', m_Version := Version, m_Success := True\<rparr>, True))"

text \<open>The session of the tunnel, an object at \<open>a\<close> with the handle \<open>c\<close>, enters the pool if the registration is still authorized.\<close>

definition register_tunnel :: "Env \<Rightarrow> addr \<Rightarrow> nat \<Rightarrow> Session \<Rightarrow> Message \<Rightarrow> GatewayRuntime \<Rightarrow> (string option) \<times> GatewayRuntime" where
  "register_tunnel env a c blank registration r =
     (case (if m_SessionID registration \<noteq> [] then Inr (m_SessionID registration) else e_rand env 0) of
        Inl _ \<Rightarrow> (None, r\<lparr>gx_closed := insert c (gx_closed r)\<rparr>)
      | Inr client \<Rightarrow>
          (case authorizeTunnelLocked env registration r of
             None \<Rightarrow> (None, r\<lparr>gx_closed := insert c (gx_closed r)\<rparr>)
           | Some link \<Rightarrow>
               let sessionID = m_AgentID registration @ ''/'' @ m_LinkID registration @ ''/'' @ client;
                   entry = blank\<lparr>ss_ID := sessionID, ss_AgentID := m_AgentID registration, ss_LinkID := m_LinkID registration,
                     ss_Priority := lk_Priority (gk_Link link), ss_Weight := lk_Weight (gk_Link link), ss_MaxStreams := lk_MaxStreams (gk_Link link),
                     ss_SMux := Some c, ss_Generation := m_Generation registration, ss_Ready := True, ss_LastOK := e_now env\<rparr>;
                   (previous, pool) = Add a (set_obj a entry (gx_pool r));
                   closing = (case previous of None \<Rightarrow> {} | Some b \<Rightarrow> set_option (ss_SMux (p_heap pool b)))
               in (Some sessionID, r\<lparr>gx_pool := pool, gx_closed := gx_closed r \<union> closing\<rparr>)))"

text \<open>The end of \<open>acceptTunnel\<close>.\<close>

definition tunnel_ended :: "string \<Rightarrow> addr \<Rightarrow> nat \<Rightarrow> GatewayRuntime \<Rightarrow> GatewayRuntime" where
  "tunnel_ended sessionID a c r = r\<lparr>gx_pool := Remove sessionID (Some a) (gx_pool r), gx_closed := insert c (gx_closed r)\<rparr>"

definition probe_answer :: "error + Message \<Rightarrow> error option" where
  "probe_answer got =
     (case got of Inl err \<Rightarrow> Some err | Inr m \<Rightarrow> if m_Type m \<noteq> ''pong'' then Some ''invalid probe response'' else None)"

definition probe_done :: "gotime \<Rightarrow> addr \<Rightarrow> duration \<Rightarrow> error + Message \<Rightarrow> GatewayRuntime \<Rightarrow> GatewayRuntime" where
  "probe_done now a rtt got r = r\<lparr>gx_pool := UpdateProbe now (Some a) rtt (probe_answer got) (gx_pool r)\<rparr>"

subsection \<open>Clients\<close>

definition find_grant :: "string \<Rightarrow> string \<Rightarrow> gotime \<Rightarrow> GatewayRuntime \<Rightarrow> (Grant \<times> string) option" where
  "find_grant username password now r =
     (if \<not> enabled (gx_config r) \<or> \<not> now < gx_until r then None
      else let links = gc_Links (gx_config r);
               route = (\<lambda>grant. find (\<lambda>link. lk_AttachmentID (gk_Link link) = gr_AttachmentID grant) links)
           in map_option (\<lambda>grant. (grant, gk_AgentID (the (route grant))))
                (find (\<lambda>grant. gr_SOCKSUsername grant = username \<and> gr_SOCKSPassword grant = password \<and> gr_Enabled grant \<and> route grant \<noteq> None)
                  (gc_Grants (gx_config r))))"

text \<open>The second look at the grant in \<open>handleSOCKS\<close>, with which the connection becomes known.\<close>

definition admit_connection :: "gotime \<Rightarrow> nat \<Rightarrow> Grant \<Rightarrow> GatewayRuntime \<Rightarrow> bool \<times> GatewayRuntime" where
  "admit_connection now conn grant r =
     (if now < gx_until r \<and> grant_current (gx_config r) grant
      then (True, r\<lparr>gx_connections := mput conn \<lparr>cn_grant = grant, cn_cancelled = False\<rparr> (gx_connections r)\<rparr>)
      else (False, r))"

definition connection_ended :: "nat \<Rightarrow> GatewayRuntime \<Rightarrow> GatewayRuntime" where
  "connection_ended conn r = r\<lparr>gx_connections := mdel conn (gx_connections r)\<rparr>"

subsection \<open>Streams\<close>

text \<open>What happens on the chosen session: the stream cannot be opened, the request cannot be written or its
  answer read, or the answer is read.\<close>

datatype Exchange = OpenFailed error | ExchangeFailed error | Answered Message

definition allowed_links :: "string \<Rightarrow> string \<Rightarrow> GatewayConfig \<Rightarrow> bool gomap" where
  "allowed_links agentID grantID config =
     (case find (\<lambda>grant. gr_ID grant = grantID \<and> gr_Enabled grant) (gc_Grants config) of
        None \<Rightarrow> []
      | Some grant \<Rightarrow> fold (\<lambda>link m. if gk_AgentID link = agentID \<and> lk_AttachmentID (gk_Link link) = gr_AttachmentID grant
                              then mput (lk_ID (gk_Link link)) True m else m) (gc_Links config) [])"

definition open_exchange :: "gotime \<Rightarrow> Exchange \<Rightarrow> Lease \<Rightarrow> Pool \<Rightarrow> (error + Lease) \<times> Pool" where
  "open_exchange now exchange lease pool =
     (case exchange of
        OpenFailed err \<Rightarrow>
          let sid = ss_ID (p_heap pool (le_Session lease))
          in (Inl err, SetReady now sid False err (snd (Release lease pool)))
      | ExchangeFailed err \<Rightarrow> (Inl err, snd (Release lease pool))
      | Answered response \<Rightarrow>
          if m_Type response \<noteq> ''response'' \<or> \<not> m_Success response
          then (Inl (m_ErrorCode response @ '': '' @ m_Error response), snd (Release lease pool))
          else (Inr lease, pool))"

definition openStream :: "gotime \<Rightarrow> string \<Rightarrow> string \<Rightarrow> Exchange \<Rightarrow> GatewayRuntime \<Rightarrow> (error + Lease) \<times> GatewayRuntime" where
  "openStream now agentID grantID exchange r =
     (if \<not> enabled (gx_config r) \<or> \<not> now < gx_until r then (Inl ''gateway authorization expired or disabled'', r)
      else case AcquireLinks (\<lambda>c. c \<in> gx_closed r) now agentID (Some (allowed_links agentID grantID (gx_config r))) (gx_pool r) of
          Inl err \<Rightarrow> (Inl err, r)
        | Inr (lease, pool) \<Rightarrow>
            (case open_exchange now exchange lease pool of (result, pool) \<Rightarrow> (result, r\<lparr>gx_pool := pool\<rparr>)))"

subsection \<open>Counters and reports\<close>

definition grantCounters_at :: "string \<Rightarrow> GatewayRuntime \<Rightarrow> grantCounters" where
  "grantCounters_at i r = zget zero_counters (gx_grantStats r) i"

definition grantLinkCounters_at :: "string \<Rightarrow> string \<Rightarrow> GatewayRuntime \<Rightarrow> grantCounters" where
  "grantLinkCounters_at grantID linkID r = zget zero_counters (zget [] (gx_grantLinks r) grantID) linkID"

text \<open>Bytes of a grant on a link, in both directions: the counters of the grant and of the grant on the link.\<close>

definition count_traffic :: "string \<Rightarrow> string \<Rightarrow> uint64 \<Rightarrow> uint64 \<Rightarrow> GatewayRuntime \<Rightarrow> GatewayRuntime" where
  "count_traffic grantID linkID up down r =
     (let add = (\<lambda>ct. ct\<lparr>ct_upload := ct_upload ct + up, ct_download := ct_download ct + down\<rparr>)
      in r\<lparr>gx_grantStats := mput grantID (add (grantCounters_at grantID r)) (gx_grantStats r),
           gx_grantLinks := mput grantID (mput linkID (add (grantLinkCounters_at grantID linkID r)) (zget [] (gx_grantLinks r) grantID))
             (gx_grantLinks r)\<rparr>)"

text \<open>The statistics of Xray since they were last read, folded into the counters: \<open>user>>>grant-ID>>>traffic>>>uplink\<close>.\<close>

fun split_stat :: "string \<Rightarrow> string \<Rightarrow> string list" where
  "split_stat part [] = [rev part]"
| "split_stat part (c # s) =
     (if has_prefix (c # s) ''>>>'' then rev part # split_stat [] (drop 2 s) else split_stat (c # part) s)"

definition stat_parts :: "string \<Rightarrow> string list" where
  "stat_parts name = split_stat [] name"

definition stat_grants :: "GatewayConfig \<Rightarrow> string gomap" where
  "stat_grants config =
     fold (\<lambda>grant m. if gr_AttachmentID grant \<in> gu_AttachmentID ` set (gc_Upstreams config)
                     then mput (''grant-'' @ gr_ID grant) (gr_AttachmentID grant) m else m) (gc_Grants config) []"

definition count_stat :: "string gomap \<Rightarrow> string \<times> int \<Rightarrow> GatewayRuntime \<Rightarrow> GatewayRuntime" where
  "count_stat grants stat r =
     (case stat_parts (fst stat) of
        [p0, p1, p2, p3] \<Rightarrow>
          if p0 \<noteq> ''user'' \<or> p2 \<noteq> ''traffic'' \<or> snd stat \<le> 0 then r
          else (case mget grants p1 of
                  None \<Rightarrow> r
                | Some attachmentID \<Rightarrow>
                    let grantID = trim_prefix p1 ''grant-'' in
                    if p3 = ''uplink'' then count_traffic grantID attachmentID (word_of_int (snd stat)) 0 r
                    else if p3 = ''downlink'' then count_traffic grantID attachmentID 0 (word_of_int (snd stat)) r
                    else count_traffic grantID attachmentID 0 0 r)
      | _ \<Rightarrow> r)"

definition collectXrayStats :: "bool \<Rightarrow> error + (string \<times> int) list \<Rightarrow> GatewayRuntime \<Rightarrow> GatewayRuntime" where
  "collectXrayStats listening response r =
     (if \<not> gx_xrayReady r \<or> \<not> listening \<or> gc_Upstreams (gx_xrayStatsConfig r) = [] then r
      else case response of
          Inl _ \<Rightarrow> r
        | Inr stats \<Rightarrow> fold (count_stat (stat_grants (gx_xrayStatsConfig r))) stats r)"

definition grant_usage :: "GatewayRuntime \<Rightarrow> string \<times> grantCounters \<Rightarrow> GrantStatus" where
  "grant_usage r ic =
     (case ic of (i, ct) \<Rightarrow>
        zero_GrantStatus\<lparr>gs_GrantID := i, gs_UploadBytes := ct_upload ct, gs_DownloadBytes := ct_download ct,
          gs_TCPConnections := ct_tcp ct, gs_UDPAssociations := ct_udp ct,
          gs_Links := map (\<lambda>(linkID, c). \<lparr>gl_LinkID = linkID, gl_UploadBytes = ct_upload c, gl_DownloadBytes = ct_download c\<rparr>)
            (zget [] (gx_grantLinks r) i)\<rparr>)"

definition add_usage :: "GrantLinkUsage \<Rightarrow> GrantLinkUsage gomap \<Rightarrow> GrantLinkUsage gomap" where
  "add_usage usage totals =
     (let t = zget zero_GrantLinkUsage totals (gl_LinkID usage)
      in mput (gl_LinkID usage) \<lparr>gl_LinkID = gl_LinkID usage, gl_UploadBytes = gl_UploadBytes t + gl_UploadBytes usage,
           gl_DownloadBytes = gl_DownloadBytes t + gl_DownloadBytes usage\<rparr> totals)"

definition trafficSnapshot :: "GatewayRuntime \<Rightarrow> GrantStatus list \<times> GrantLinkUsage gomap \<times> uint64 \<times> uint64" where
  "trafficSnapshot r =
     (let grants = map (grant_usage r) (gx_grantStats r)
      in (grants, fold add_usage (concat (map gs_Links grants)) [], sum_list (map gs_UploadBytes grants), sum_list (map gs_DownloadBytes grants)))"

definition expire_pending :: "gotime \<Rightarrow> GatewayRuntime \<Rightarrow> GatewayRuntime" where
  "expire_pending now r = r\<lparr>gx_pendingStats := filter (\<lambda>(_, item). \<not> pd_expiresAt item < now) (gx_pendingStats r)\<rparr>"

definition note_link :: "string \<Rightarrow> bool \<Rightarrow> LinkStatus gomap \<Rightarrow> LinkStatus gomap" where
  "note_link i up links =
     (if mget links i \<noteq> None then links else mput i (zero_LinkStatus\<lparr>ls_LinkID := i, ls_Online := up, ls_Ready := up\<rparr>) links)"

text \<open>The links and routes a report is about: those of the configuration, of the one Xray runs, and of those
  whose last traffic is still to be reported.\<close>

definition known_links :: "GatewayRuntime \<Rightarrow> LinkStatus gomap" where
  "known_links r =
     (let ids = map (\<lambda>l. lk_ID (gk_Link l)); ups = map gu_AttachmentID; running = gx_xrayStatsConfig r;
          links = fold (\<lambda>i m. mput i (zero_LinkStatus\<lparr>ls_LinkID := i\<rparr>) m) (ids (gc_Links (gx_config r))) [];
          links = fold (\<lambda>i. note_link i False) (ids (gc_Links running)) links;
          links = fold (\<lambda>i m. mput i (zero_LinkStatus\<lparr>ls_LinkID := i, ls_Online := gx_xrayReady r, ls_Ready := gx_xrayReady r\<rparr>) m)
                    (ups (gc_Upstreams (gx_config r))) links;
          links = fold (\<lambda>i. note_link i (gx_xrayReady r)) (ups (gc_Upstreams running)) links
      in fold (\<lambda>(_, old) links. fold (\<lambda>i. note_link i False) (ups (gc_Upstreams (pd_config old)))
                (fold (\<lambda>i. note_link i False) (ids (gc_Links (pd_config old))) links)) (gx_pendingStats r) links)"

definition add_session :: "nat set \<Rightarrow> Session \<Rightarrow> LinkStatus gomap \<Rightarrow> LinkStatus gomap" where
  "add_session shut session links =
     (case mget links (ss_LinkID session) of
        None \<Rightarrow> links
      | Some status \<Rightarrow>
          mput (ss_LinkID session) (status\<lparr>ls_LinkID := ss_LinkID session, ls_Connections := ls_Connections status + 1,
            ls_ActiveStreams := ls_ActiveStreams status + ss_ActiveStreams session,
            ls_Online := (ls_Online status \<or> the (ss_SMux session) \<notin> shut), ls_Ready := (ls_Ready status \<or> ss_Ready session),
            ls_Generation := max (ls_Generation status) (ss_Generation session),
            ls_LastSuccess := (if ls_LastSuccess status < ss_LastOK session then ss_LastOK session else ls_LastSuccess status),
            ls_LastError := (if ss_LastError session \<noteq> [] then ss_LastError session else ls_LastError status),
            ls_RTTMillis := (if 0 < ss_RTTMillis session then ss_RTTMillis session else ls_RTTMillis status),
            ls_ProbeTimeouts := ls_ProbeTimeouts status + ss_ProbeTimeouts session,
            ls_WriteBlockedMillis := ls_WriteBlockedMillis status + ss_WriteBlockedMillis session,
            ls_WriteStalls := ls_WriteStalls status + ss_WriteStalls session\<rparr>) links)"

definition active_grants :: "GatewayRuntime \<Rightarrow> string set" where
  "active_grants r = gr_ID ` set (gc_Grants (gx_config r)) \<union> gr_ID ` set (gc_Grants (gx_xrayStatsConfig r)) \<union>
     (\<Union>(_, old) \<in> set (gx_pendingStats r). gr_ID ` set (gc_Grants (pd_config old)))"

definition filter_grants :: "string set \<Rightarrow> LinkStatus gomap \<Rightarrow> GrantStatus list \<Rightarrow> GrantStatus list" where
  "filter_grants active links grants =
     map (\<lambda>g. g\<lparr>gs_Links := filter (\<lambda>u. mget links (gl_LinkID u) \<noteq> None) (gs_Links g)\<rparr>)
       (filter (\<lambda>g. gs_GrantID g \<in> active) grants)"

definition put_usage :: "GrantLinkUsage gomap \<Rightarrow> LinkStatus gomap \<Rightarrow> LinkStatus gomap" where
  "put_usage usage links =
     mmap (\<lambda>i status. case mget usage i of
             None \<Rightarrow> status
           | Some u \<Rightarrow> status\<lparr>ls_UploadBytes := gl_UploadBytes u, ls_DownloadBytes := gl_DownloadBytes u\<rparr>) links"

definition gateway_status :: "Env \<Rightarrow> string \<Rightarrow> string \<Rightarrow> int \<Rightarrow> int \<Rightarrow> uint64 \<Rightarrow> uint64 \<Rightarrow> GatewayRuntime \<Rightarrow> NodeStatus" where
  "gateway_status env version inst probeSeconds tunnels upload download r =
     (let applied = (gx_xrayReady r \<and> gx_xrayAppliedRevision r = gc_Revision (gx_config r)); running = gc_Gateway (gx_xrayStatsConfig r)
      in zero_NodeStatus\<lparr>ns_NodeID := gx_nodeID r, ns_Role := ''gateway'', ns_BinaryVersion := version, ns_InstanceID := inst, ns_Online := True,
           ns_Ready := (gx_lastError r = [] \<and> gx_xrayReady r), ns_DesiredVersion := gc_Revision (gx_config r),
           ns_AppliedVersion := gx_xrayAppliedRevision r, ns_XrayReady := gx_xrayReady r, ns_XrayError := gx_xrayError r, ns_ExternalUpstreams := True,
           ns_LastSeen := e_now env, ns_TunnelConnections := tunnels, ns_TCPConnections := gx_tcp r, ns_UDPAssociations := gx_udp r,
           ns_UploadBytes := upload, ns_DownloadBytes := download, ns_LastError := gx_lastError r,
           ns_FailureCounters := [(''udp_queue_drops'', gx_queueDrops r)], ns_IngressControls := True, ns_EmbeddedAgent := True, ns_UpstreamProbes := True,
           ns_UpstreamProbeIntervalSeconds := probeSeconds, ns_HY2Ready := (applied \<and> HY2Enabled running),
           ns_IPv6IngressReady := (applied \<and> IPv6IngressHost env running \<noteq> [])\<rparr>)"

definition gateway_report :: "Env \<Rightarrow> string \<Rightarrow> string \<Rightarrow> int \<Rightarrow> GatewayRuntime \<Rightarrow> NodeStatus \<times> LinkStatus list \<times> GrantStatus list" where
  "gateway_report env version inst probeSeconds r =
     (let (grants, usage, upload, download) = trafficSnapshot r;
          links = fold (add_session (gx_closed r)) (Snapshot (gx_pool r)) (known_links r);
          tunnels = sum_list (map ls_Connections (mvals links))
      in (gateway_status env version inst probeSeconds tunnels upload download r, mvals (put_usage usage links),
          filter_grants (active_grants r) links grants))"

text \<open>The answer to a report that was built in state \<open>sent\<close>: traffic that has been reported is no longer pending.\<close>

definition report_answered :: "GatewayRuntime \<Rightarrow> (nat \<times> error) option \<Rightarrow> GatewayRuntime \<Rightarrow> error option \<times> GatewayRuntime" where
  "report_answered sent response r =
     (case response of
        Some (code, err) \<Rightarrow> (Some err, if AuthorizationRejected code then invalidateAuthorizationLocked r else r)
      | None \<Rightarrow>
          (None, r\<lparr>gx_pendingStats := filter (\<lambda>(revision, item). \<not> (case map_of (gx_pendingStats sent) revision of
                     None \<Rightarrow> False | Some old \<Rightarrow> pd_expiresAt old = pd_expiresAt item)) (gx_pendingStats r)\<rparr>))"

subsection \<open>Configurations\<close>

text \<open>A session is kept if its link is still served by the same exit node under the same token.\<close>

definition session_kept :: "GatewayConfig \<Rightarrow> GatewayConfig \<Rightarrow> Session \<Rightarrow> bool" where
  "session_kept old config session =
     list_ex (\<lambda>link. enabled config \<and> lk_Enabled (gk_Link link) \<and> lk_ID (gk_Link link) = ss_LinkID session \<and> gk_AgentID link = ss_AgentID session \<and>
        list_ex (\<lambda>o'. lk_ID (gk_Link o') = lk_ID (gk_Link link) \<and> gk_TunnelToken o' = gk_TunnelToken link) (gc_Links old)) (gc_Links config)"

definition install_gateway :: "bool \<Rightarrow> string \<Rightarrow> GatewayConfig \<Rightarrow> gotime \<Rightarrow> GatewayRuntime \<Rightarrow> GatewayRuntime" where
  "install_gateway reload nextPayload config now r =
     (let r = retireConnectionsLocked config r;
          r = r\<lparr>gx_pool := fold (\<lambda>link. UpdatePolicy (lk_ID (gk_Link link)) (gk_AgentID link) (lk_Priority (gk_Link link))
                 (lk_Weight (gk_Link link)) (lk_MaxStreams (gk_Link link))) (gc_Links config) (gx_pool r)\<rparr>;
          r = close_sessions (\<lambda>session. \<not> session_kept (gx_config r) config session) r;
          r = r\<lparr>gx_config := config, gx_generation := gx_generation r + 1, gx_until := now + ConfigLease\<rparr>;
          r = (if \<not> enabled config \<and> gx_xrayCancel r then setXray False ''gateway is disabled'' (r\<lparr>gx_xrayCancelled := True\<rparr>) else r);
          r = (if \<not> reload \<and> gx_xrayReady r \<and> gx_running r = nextPayload
               then r\<lparr>gx_xrayStatsConfig := config, gx_xrayAppliedRevision := gc_Revision config\<rparr> else r);
          r = (if reload then r\<lparr>gx_xrayApply := True\<rparr> else r)
      in r\<lparr>gx_lastError := []\<rparr>)"

definition config_changed :: "GatewayConfig \<Rightarrow> GatewayConfig \<Rightarrow> bool" where
  "config_changed previous config = (gc_Revision previous \<noteq> gc_Revision config \<or> gw_ID (gc_Gateway previous) = [] \<or>
     enabled previous \<noteq> enabled config)"

text \<open>Whether Xray must take over the configuration, and its rendering.\<close>

definition xray_reload :: "(GatewayConfig \<Rightarrow> error + string) \<Rightarrow> GatewayConfig \<Rightarrow> GatewayConfig \<Rightarrow> error + bool \<times> string" where
  "xray_reload payload previous config =
     (if \<not> enabled config then Inr (config_changed previous config, [])
      else case payload config of
          Inl err \<Rightarrow> Inl err
        | Inr nextPayload \<Rightarrow>
            Inr (if gw_ID (gc_Gateway previous) \<noteq> [] \<and> enabled previous then payload previous \<noteq> Inr nextPayload
                 else config_changed previous config, nextPayload))"

text \<open>
  \<open>refresh\<close>: \<open>epoch\<close> was read before the Controller was asked; \<open>candidate\<close> is the verdict on the rendered
  configuration, and \<open>reported\<close> the answer to the report before an update of Xray, which is made when it runs.
\<close>

definition refresh_gateway ::
  "uint64 \<Rightarrow> nat \<times> error + GatewayConfig \<Rightarrow> (GatewayConfig \<Rightarrow> error + string) \<Rightarrow> error option \<Rightarrow> (nat \<times> error) option \<Rightarrow> gotime \<Rightarrow>
   GatewayRuntime \<Rightarrow> error option \<times> GatewayRuntime" where
  "refresh_gateway epoch fetched payload candidate reported now r =
     (case fetched of
        Inl (code, err) \<Rightarrow> (Some err, if AuthorizationRejected code then invalidateAuthorizationLocked r else r)
      | Inr config \<Rightarrow>
          if gw_ID (gc_Gateway config) \<noteq> gx_nodeID r then (Some ''controller returned another gateway identity'', r)
          else if epoch \<noteq> gx_epoch r then (Some ''authorization changed while fetching configuration'', r)
          else (case xray_reload payload (gx_config r) config of
             Inl err \<Rightarrow> (Some err, r)
           | Inr (reload, nextPayload) \<Rightarrow>
               if reload \<and> enabled config \<and> candidate \<noteq> None then (candidate, r)
               else
                 let (err, r) = (if reload \<and> enabled config \<and> gx_xrayReady r then report_answered (expire_pending now r) reported (expire_pending now r) else (None, r)) in
                 if err \<noteq> None \<and> reported \<noteq> None \<and> AuthorizationRejected (fst (the reported)) then (err, r)
                 else if epoch \<noteq> gx_epoch r then (Some ''authorization changed while applying configuration'', r)
                 else (None, install_gateway reload nextPayload config now r)))"

end
