(* ===== verification/Gateway_Invariant.thy ===== *)
theory Gateway_Invariant
  imports Gateway_Runtime
begin

text \<open>
  What a Gateway serves in every state it can reach: connections and tunnels of the configuration in force, streams
  on the tunnels of the route of their user, and counters that agree.

  A step is one critical section of \<open>src/internal/gateway\<close>. The tunnels ever accepted are kept beside the runtime
  with the token their link had then.
\<close>

subsection \<open>Operations that keep the identity of sessions\<close>

definition session_ident :: "Session \<Rightarrow> string \<times> string \<times> string \<times> nat option" where
  "session_ident s = (ss_ID s, ss_AgentID s, ss_LinkID s, ss_SMux s)"

definition same_sessions :: "Pool \<Rightarrow> Pool \<Rightarrow> bool" where
  "same_sessions p p' = (p_sessions p' = p_sessions p \<and> (pool_wf p \<longrightarrow> pool_wf p') \<and>
     (\<forall>a. session_ident (p_heap p' a) = session_ident (p_heap p a)))"

lemma same_sessions_refl [simp]: "same_sessions p p"
  by (simp add: same_sessions_def)

lemma same_sessions_trans: "same_sessions p q \<Longrightarrow> same_sessions q r \<Longrightarrow> same_sessions p r"
  by (auto simp: same_sessions_def)

text \<open>Rewriting one object.\<close>

lemma same_sessions_set_obj:
  assumes "session_ident s = session_ident (p_heap p a)"
    and "0 < ss_Weight (p_heap p a) \<Longrightarrow> 0 < ss_Weight s" "0 < ss_MaxStreams (p_heap p a) \<Longrightarrow> 0 < ss_MaxStreams s"
    and "ss_Priority (p_heap p a) \<le> max_int \<Longrightarrow> ss_Priority s \<le> max_int"
  shows "same_sessions p (set_obj a s p)"
  using assms registered_wf [of p a]
  by (auto simp: same_sessions_def session_ident_def intro!: pool_wf_set_obj)

lemma ident_probe [simp]: "session_ident (probe_session now rtt e s) = session_ident s"
  by (auto simp: session_ident_def probe_session_def Let_def split: option.splits)

lemma ident_observe [simp]: "session_ident (ObserveWrite now d s) = session_ident s"
  by (auto simp: session_ident_def ObserveWrite_def split: option.splits)

lemma ident_normalize [simp]: "session_ident (normalize_session s) = session_ident s"
  by (auto simp: session_ident_def normalize_session_def Let_def)

lemma same_Observe: "same_sessions p (set_obj a (ObserveWrite now d (p_heap p a)) p)"
  by (rule same_sessions_set_obj) auto

lemma same_UpdateProbe: "same_sessions p (UpdateProbe now expected rtt e p)"
  by (auto simp: UpdateProbe_def split: option.splits intro!: same_sessions_set_obj)

lemma same_SetReady: "same_sessions p (SetReady now i b err p)"
  by (auto simp: SetReady_def Let_def session_ident_def split: option.splits intro!: same_sessions_set_obj)

lemma same_Release: "same_sessions p (snd (Release l p))"
  by (auto simp: Release_def Let_def session_ident_def intro!: same_sessions_set_obj)

lemma same_AcquireLinks:
  "AcquireLinks isClosed now agentID allowed p = Inr (l, p') \<Longrightarrow> same_sessions p p'"
  by (auto simp: AcquireLinks_eq Let_def session_ident_def split: if_splits intro!: same_sessions_set_obj)

lemma same_fold:
  assumes "\<And>x q. x \<in> set xs \<Longrightarrow> same_sessions q (f x q)"
  shows "same_sessions p (fold f xs p)"
  using assms
proof (induction xs arbitrary: p)
  case (Cons x xs)
  then show ?case by (auto intro: same_sessions_trans [of p "f x p"])
qed simp

lemma same_UpdatePolicy:
  "priority \<le> max_int \<Longrightarrow> same_sessions p (UpdatePolicy linkID agentID priority weight maxStreams p)"
  unfolding UpdatePolicy_eq
  by (auto simp: policy_obj_def session_ident_def intro!: same_fold same_sessions_set_obj)

lemma same_open_exchange:
  assumes "open_exchange now exchange lease p = (result, p')"
  shows "same_sessions p p'"
proof (cases exchange)
  case (OpenFailed err)
  then have "p' = SetReady now (ss_ID (p_heap p (le_Session lease))) False err (snd (Release lease p))"
    using assms by (simp add: open_exchange_def Let_def)
  then show ?thesis using same_sessions_trans [OF same_Release same_SetReady] by simp
next
  case ExchangeFailed
  with assms same_Release show ?thesis by (auto simp: open_exchange_def)
next
  case Answered
  with assms same_Release show ?thesis by (auto simp: open_exchange_def split: if_splits)
qed

lemma same_openStream: "same_sessions (gx_pool r) (gx_pool (snd (openStream now agentID grantID exchange r)))"
  by (auto simp: openStream_def split: sum.splits prod.splits
      intro: same_sessions_trans [OF same_AcquireLinks same_open_exchange])

subsection \<open>The invariant\<close>

text \<open>The links of a configuration have names of their own and priorities that are machine integers.\<close>

definition links_ok :: "GatewayConfig \<Rightarrow> bool" where
  "links_ok config = (distinct (map (lk_ID \<circ> gk_Link) (gc_Links config)) \<and>
     list_all (\<lambda>link. lk_Priority (gk_Link link) \<le> max_int) (gc_Links config))"

definition serves_session :: "GatewayConfig \<Rightarrow> Session \<Rightarrow> string \<Rightarrow> GatewayLinkConfig \<Rightarrow> bool" where
  "serves_session config s token link = (link \<in> set (gc_Links config) \<and> enabled config \<and> lk_Enabled (gk_Link link) \<and>
     lk_ID (gk_Link link) = ss_LinkID s \<and> gk_AgentID link = ss_AgentID s \<and> gk_TunnelToken link = token)"

definition clients_ok :: "GatewayRuntime \<Rightarrow> bool" where
  "clients_ok r = list_all (\<lambda>(_, active). cn_cancelled active \<or> grant_current (gx_config r) (cn_grant active)) (gx_connections r)"

type_synonym tunnels = "(addr \<times> nat \<times> string) list"

text \<open>A tunnel that is not closed is in the pool, on a link of the configuration; and the pool holds nothing else.\<close>

definition tunnels_ok :: "tunnels \<Rightarrow> GatewayRuntime \<Rightarrow> bool" where
  "tunnels_ok opened r =
     ((\<forall>(a, c, token) \<in> set opened. c \<in> gx_closed r \<or> a \<in> registered (gx_pool r) \<and> ss_SMux (p_heap (gx_pool r) a) = Some c \<and>
         (\<exists>link. serves_session (gx_config r) (p_heap (gx_pool r) a) token link)) \<and>
      (\<forall>a \<in> registered (gx_pool r). \<exists>c token. (a, c, token) \<in> set opened \<and> ss_SMux (p_heap (gx_pool r) a) = Some c))"

definition gateway_inv :: "tunnels \<Rightarrow> GatewayRuntime \<Rightarrow> bool" where
  "gateway_inv opened r = (pool_wf (gx_pool r) \<and> links_ok (gx_config r) \<and> clients_ok r \<and> tunnels_ok opened r)"

definition authority :: "GatewayRuntime \<Rightarrow> GatewayConfig \<times> (nat \<times> authorizedConnection) list \<times> Pool \<times> nat set" where
  "authority r = (gx_config r, gx_connections r, gx_pool r, gx_closed r)"

lemma inv_authority: "authority r' = authority r \<Longrightarrow> gateway_inv opened r \<Longrightarrow> gateway_inv opened r'"
  by (simp add: authority_def gateway_inv_def clients_ok_def tunnels_ok_def)

lemma serves_ident: "session_ident s = session_ident s' \<Longrightarrow> serves_session config s = serves_session config s'"
  by (auto simp: session_ident_def serves_session_def fun_eq_iff)

lemma inv_same_sessions:
  assumes "gateway_inv opened r" "same_sessions (gx_pool r) p"
  shows "gateway_inv opened (r\<lparr>gx_pool := p\<rparr>)"
proof -
  have "registered p = registered (gx_pool r)"
    using assms(2) by (simp add: same_sessions_def registered_def)
  moreover have ident: "session_ident (p_heap p a) = session_ident (p_heap (gx_pool r) a)" for a
    using assms(2) by (simp add: same_sessions_def)
  then have "ss_SMux (p_heap p a) = ss_SMux (p_heap (gx_pool r) a)" for a
    by (simp add: session_ident_def)
  moreover note serves_ident [OF ident]
  moreover have "pool_wf p"
    using assms by (simp add: same_sessions_def gateway_inv_def)
  ultimately show ?thesis
    using assms(1) by (simp add: gateway_inv_def clients_ok_def tunnels_ok_def)
qed

lemma inv_closed:
  assumes "gateway_inv opened r"
  shows "gateway_inv opened (r\<lparr>gx_closed := gx_closed r \<union> shut\<rparr>)"
  using assms by (fastforce simp: gateway_inv_def clients_ok_def tunnels_ok_def)

lemmas inv_keeps = inv_authority inv_same_sessions inv_closed

subsection \<open>A new configuration\<close>

lemma Snapshot_ident:
  "session_ident ` set (Snapshot p) = session_ident ` p_heap p ` registered p"
  by (auto simp: Snapshot_def registered_def session_ident_def Let_def image_image split: option.splits
      intro!: image_cong)

lemma Snapshot_of_registered:
  assumes "a \<in> registered p"
  obtains s where "s \<in> set (Snapshot p)" "session_ident s = session_ident (p_heap p a)"
  using assms Snapshot_ident [of p] by (metis imageE imageI)

lemma clients_retired:
  "gx_config r' = config \<Longrightarrow> gx_connections r' = gx_connections (retireConnectionsLocked config r) \<Longrightarrow> clients_ok r'"
  by (auto simp: clients_ok_def retireConnectionsLocked_def list_all_iff)

lemma same_link:
  "links_ok config \<Longrightarrow> link \<in> set (gc_Links config) \<Longrightarrow> link' \<in> set (gc_Links config) \<Longrightarrow>
     lk_ID (gk_Link link) = lk_ID (gk_Link link') \<Longrightarrow> link = link'"
  unfolding links_ok_def distinct_map by (metis comp_apply inj_onD)

lemma kept_serves:
  assumes "links_ok old" "serves_session old s token link" "session_kept old config s"
  shows "\<exists>link. serves_session config s token link"
proof -
  obtain link' link'' where new: "link' \<in> set (gc_Links config)" "enabled config" "lk_Enabled (gk_Link link')"
      "lk_ID (gk_Link link') = ss_LinkID s" "gk_AgentID link' = ss_AgentID s"
    and old: "link'' \<in> set (gc_Links old)" "lk_ID (gk_Link link'') = lk_ID (gk_Link link')" "gk_TunnelToken link'' = gk_TunnelToken link'"
    using assms(3) by (auto simp: session_kept_def list_ex_iff)
  have "link'' = link"
    using assms(2) old new by (intro same_link [OF assms(1)]) (auto simp: serves_session_def)
  with assms(2) new old show ?thesis by (auto simp: serves_session_def)
qed

text \<open>A configuration takes effect with the sessions closed that it does not keep.\<close>

lemma inv_config:
  assumes inv: "gateway_inv opened r" and ok: "links_ok config"
    and keep: "\<And>s. \<not> P s \<Longrightarrow> session_kept (gx_config r) config s"
    and P: "\<And>s s'. session_ident s = session_ident s' \<Longrightarrow> P s = P s'"
    and r': "gx_config r' = config" "gx_connections r' = gx_connections (retireConnectionsLocked config r)"
      "gx_pool r' = gx_pool r" "gx_closed r' = gx_closed (close_sessions P r)"
  shows "gateway_inv opened r'"
proof -
  let ?h = "p_heap (gx_pool r)"
  have "\<exists>link. serves_session config (?h a) token link"
    if a: "(a, c, token) \<in> set opened" "c \<notin> gx_closed r'" for a c token
  proof -
    have open': "a \<in> registered (gx_pool r)" "ss_SMux (?h a) = Some c" "\<exists>link. serves_session (gx_config r) (?h a) token link"
      using inv a r'(4) by (auto simp: gateway_inv_def tunnels_ok_def close_sessions_def)
    obtain s where s: "s \<in> set (Snapshot (gx_pool r))" "session_ident s = session_ident (?h a)"
      using open'(1) by (rule Snapshot_of_registered)
    then have "\<not> P (?h a)"
      using P [OF s(2)] open'(2) a(2) r'(4) by (auto simp: close_sessions_def session_ident_def)
    with keep open'(3) inv kept_serves show ?thesis by (auto simp: gateway_inv_def)
  qed
  then have "tunnels_ok opened r'"
    using inv r' by (fastforce simp: gateway_inv_def tunnels_ok_def close_sessions_def)
  then show ?thesis
    using inv ok r' clients_retired [of r' config r] by (simp add: gateway_inv_def)
qed

lemma session_kept_ident: "session_ident s = session_ident s' \<Longrightarrow> session_kept old config s = session_kept old config s'"
  by (simp add: session_kept_def session_ident_def)

lemma authority_setXray [simp]: "authority (setXray b m r) = authority r"
  by (simp add: authority_def setXray_def)

lemma inv_invalidate:
  assumes "gateway_inv opened r"
  shows "gateway_inv opened (invalidateAuthorizationLocked r)"
proof -
  let ?config = "(gx_config r)\<lparr>gc_Gateway := (gc_Gateway (gx_config r))\<lparr>gw_Enabled := False\<rparr>, gc_Grants := [], gc_Links := [], gc_Upstreams := []\<rparr>"
  show ?thesis
    by (rule inv_config [OF assms, of ?config "\<lambda>_. True"])
      (auto simp: links_ok_def invalidateAuthorizationLocked_def setXray_def retireConnectionsLocked_def close_sessions_def Let_def)
qed

lemma inv_watch_tick: "gateway_inv opened r \<Longrightarrow> gateway_inv opened (watch_tick now r)"
  by (simp add: watch_tick_def inv_invalidate)

lemma inv_report_answered: "gateway_inv opened r \<Longrightarrow> gateway_inv opened (snd (report_answered sent response r))"
  by (auto simp: report_answered_def authority_def inv_invalidate split: option.splits intro: inv_authority)

lemma inv_expire_pending: "gateway_inv opened r \<Longrightarrow> gateway_inv opened (expire_pending now r)"
  by (rule inv_authority) (auto simp: authority_def expire_pending_def)

abbreviation new_policy :: "GatewayConfig \<Rightarrow> Pool \<Rightarrow> Pool" where
  "new_policy config \<equiv> fold (\<lambda>link. UpdatePolicy (lk_ID (gk_Link link)) (gk_AgentID link) (lk_Priority (gk_Link link))
     (lk_Weight (gk_Link link)) (lk_MaxStreams (gk_Link link))) (gc_Links config)"

lemma install_fields:
  fixes r config defines "q \<equiv> r\<lparr>gx_pool := new_policy config (gx_pool r)\<rparr>"
  shows "gx_config (install_gateway reload nextPayload config now r) = config"
    "gx_connections (install_gateway reload nextPayload config now r) = gx_connections (retireConnectionsLocked config q)"
    "gx_pool (install_gateway reload nextPayload config now r) = gx_pool q"
    "gx_closed (install_gateway reload nextPayload config now r) = gx_closed (close_sessions (\<lambda>s. \<not> session_kept (gx_config q) config s) q)"
    "gx_epoch (install_gateway reload nextPayload config now r) = gx_epoch r"
    "gx_until (install_gateway reload nextPayload config now r) = now + ConfigLease"
  by (simp_all add: q_def install_gateway_def setXray_def retireConnectionsLocked_def close_sessions_def Let_def)

lemma inv_install:
  assumes inv: "gateway_inv opened r" and ok: "links_ok config"
  shows "gateway_inv opened (install_gateway reload nextPayload config now r)"
proof -
  have "same_sessions (gx_pool r) (new_policy config (gx_pool r))"
    using ok by (intro same_fold same_UpdatePolicy) (auto simp: links_ok_def list_all_iff)
  with inv have "gateway_inv opened (r\<lparr>gx_pool := new_policy config (gx_pool r)\<rparr>)" by (rule inv_same_sessions)
  from this ok _ _ install_fields(1-4) show ?thesis
    by (rule inv_config) (auto dest: session_kept_ident)
qed

lemma gateway_refresh_cases:
  assumes "refresh_gateway epoch fetched payload candidate reported now r = (err, r')"
  obtains (kept) "r' = r" "err \<noteq> None"
  | (rejected) "r' = invalidateAuthorizationLocked r" "err \<noteq> None"
  | (pre_reported) sent where "err \<noteq> None" "r' = snd (report_answered sent reported (expire_pending now r))"
  | (installed) config reload nextPayload r1 where "fetched = Inr config" "r' = install_gateway reload nextPayload config now r1" "err = None"
      "gx_epoch r1 = epoch" "r1 = r \<or> r1 = snd (report_answered (expire_pending now r) reported (expire_pending now r))"
proof (cases fetched)
  case (Inl e)
  then have "err \<noteq> None \<and> (r' = r \<or> r' = invalidateAuthorizationLocked r)"
    using assms by (cases e) (auto simp: refresh_gateway_def split: if_split_asm)
  then show ?thesis using that(1,2) by blast
next
  case (Inr config)
  show ?thesis
  proof (cases "gw_ID (gc_Gateway config) \<noteq> gx_nodeID r \<or> epoch \<noteq> gx_epoch r")
    case True
    with Inr show ?thesis using assms by (intro that(1)) (auto simp: refresh_gateway_def split: if_splits)
  next
    case False
    show ?thesis
    proof (cases "xray_reload payload (gx_config r) config")
      case (Inl e)
      with Inr False show ?thesis using assms by (intro that(1)) (auto simp: refresh_gateway_def)
    next
      case reload: (Inr rp)
      obtain reload nextPayload where rp: "rp = (reload, nextPayload)" by (cases rp)
      let ?r = "if reload \<and> enabled config \<and> gx_xrayReady r then report_answered (expire_pending now r) reported (expire_pending now r) else (None, r)"
      obtain e1 r1 where r1: "?r = (e1, r1)" by (cases ?r)
      then have r1': "r1 = r \<or> r1 = snd (report_answered (expire_pending now r) reported (expire_pending now r))"
        by (metis prod.sel(2))
      have "err \<noteq> None \<and> (r' = r \<or> r' = r1) \<or> r' = install_gateway reload nextPayload config now r1 \<and> err = None \<and> gx_epoch r1 = epoch"
        using assms Inr False reload unfolding rp refresh_gateway_def by (simp add: r1 split: if_split_asm) (erule conjE, hypsubst, simp)+
      then show ?thesis using r1' Inr that(1,3) that(4) [of config reload nextPayload r1] by blast
    qed
  qed
qed

lemma inv_refresh:
  assumes inv: "gateway_inv opened r" and ok: "\<And>config. fetched = Inr config \<Longrightarrow> links_ok config"
  shows "gateway_inv opened (snd (refresh_gateway epoch fetched payload candidate reported now r))"
proof -
  obtain err r' where r': "refresh_gateway epoch fetched payload candidate reported now r = (err, r')"
    by (cases "refresh_gateway epoch fetched payload candidate reported now r")
  then have "gateway_inv opened r'"
    by (cases rule: gateway_refresh_cases)
      (use inv ok in \<open>auto intro!: inv_install inv_report_answered inv_expire_pending inv_invalidate\<close>)
  with r' show ?thesis by simp
qed

subsection \<open>Tunnels and clients come and go\<close>

lemma registered_Add:
  assumes wf: "pool_wf p" and new: "a \<notin> registered p" "ss_Priority (p_heap p a) \<le> max_int"
  shows "registered (snd (Add a p)) = insert a (registered p - {b. ss_ID (p_heap p b) = ss_ID (p_heap p a)})"
proof -
  have "b \<in> registered (snd (Add a p)) \<longleftrightarrow> b \<in> insert a (registered p - {b. ss_ID (p_heap p b) = ss_ID (p_heap p a)})" for b
    unfolding registered_iff [OF pool_wf_Add [OF assms]] using registered_iff [OF wf] by (auto simp: Add_def Let_def)
  then show ?thesis by blast
qed

lemma registered_Remove:
  assumes wf: "pool_wf p"
  shows "registered p - {a} \<subseteq> registered (Remove i (Some a) p)" "registered (Remove i (Some a) p) \<subseteq> registered p"
proof -
  have "p_heap (Remove i (Some a) p) = p_heap p" by (simp add: Remove_def)
  then show "registered p - {a} \<subseteq> registered (Remove i (Some a) p)"
    unfolding subset_iff Diff_iff registered_iff [OF wf] registered_iff [OF pool_wf_Remove [OF wf]]
    by (auto simp: Remove_def)
qed (auto simp: Remove_def registered_def mvals_def mdel_def)

lemma authorized_link:
  assumes "authorizeTunnelLocked env registration r = Some link"
  shows "link \<in> set (gc_Links (gx_config r))" "enabled (gx_config r)" "lk_Enabled (gk_Link link)"
    "lk_ID (gk_Link link) = m_LinkID registration" "gk_AgentID link = m_AgentID registration"
    "token_matches env (gk_TunnelToken link) (m_Token registration)" "e_now env < gx_until r"
  using assms by (auto simp: authorizeTunnelLocked_def find_Some_iff split: if_splits)

text \<open>The session of an accepted tunnel.\<close>

definition tunnel_entry :: "Env \<Rightarrow> nat \<Rightarrow> Session \<Rightarrow> Message \<Rightarrow> string \<Rightarrow> GatewayLinkConfig \<Rightarrow> Session" where
  "tunnel_entry env c blank registration sessionID link =
     blank\<lparr>ss_ID := sessionID, ss_AgentID := m_AgentID registration, ss_LinkID := m_LinkID registration,
       ss_Priority := lk_Priority (gk_Link link), ss_Weight := lk_Weight (gk_Link link), ss_MaxStreams := lk_MaxStreams (gk_Link link),
       ss_SMux := Some c, ss_Generation := m_Generation registration, ss_Ready := True, ss_LastOK := e_now env\<rparr>"

lemma register_tunnel_Some:
  assumes "register_tunnel env a c blank registration r = (Some sessionID, r')"
  obtains link p' closing where "authorizeTunnelLocked env registration r = Some link"
    "p' = snd (Add a (set_obj a (tunnel_entry env c blank registration sessionID link) (gx_pool r)))"
    "closing = (case mget (p_sessions (gx_pool r)) sessionID of None \<Rightarrow> {} | Some b \<Rightarrow> set_option (ss_SMux (p_heap p' b)))"
    "r' = r\<lparr>gx_pool := p', gx_closed := gx_closed r \<union> closing\<rparr>"
  using assms by (auto simp: register_tunnel_def tunnel_entry_def Let_def Add_def split: sum.splits option.splits prod.splits)

lemma inv_register:
  assumes inv: "gateway_inv opened r" and fresh: "a \<notin> fst ` set opened"
    and up: "register_tunnel env a c blank registration r = (Some sessionID, r')"
  shows "gateway_inv ((a, c, gk_TunnelToken (the (authorizeTunnelLocked env registration r))) # opened) r'"
proof -
  from up obtain link p' closing where auth: "authorizeTunnelLocked env registration r = Some link"
    and p': "p' = snd (Add a (set_obj a (tunnel_entry env c blank registration sessionID link) (gx_pool r)))"
    and closing: "closing = (case mget (p_sessions (gx_pool r)) sessionID of None \<Rightarrow> {} | Some b \<Rightarrow> set_option (ss_SMux (p_heap p' b)))"
    and r': "r' = r\<lparr>gx_pool := p', gx_closed := gx_closed r \<union> closing\<rparr>"
    by (rule register_tunnel_Some)
  let ?e = "tunnel_entry env c blank registration sessionID link" and ?p = "gx_pool r"
  have wf: "pool_wf ?p" and links: "links_ok (gx_config r)" and new: "a \<notin> registered ?p"
    using inv fresh by (force simp: gateway_inv_def tunnels_ok_def)+
  have e: "ss_ID ?e = sessionID" "ss_SMux ?e = Some c" "ss_Priority ?e = lk_Priority (gk_Link link)"
    "ss_LinkID ?e = m_LinkID registration" "ss_AgentID ?e = m_AgentID registration"
    by (simp_all add: tunnel_entry_def)
  have wf1: "pool_wf (set_obj a ?e ?p)" and pri: "ss_Priority ?e \<le> max_int"
    using wf new links authorized_link(1) [OF auth] by (auto simp: e links_ok_def list_all_iff intro: pool_wf_set_obj)
  have ident: "session_ident (p_heap p' b) = session_ident (if b = a then ?e else p_heap ?p b)" for b
    by (simp add: p' Add_def Let_def)
  then have mux: "ss_SMux (p_heap p' b) = (if b = a then Some c else ss_SMux (p_heap ?p b))" for b
    by (simp add: session_ident_def e split: if_splits)
  have reg: "registered p' = insert a (registered ?p - {b. ss_ID (p_heap ?p b) = sessionID})"
    unfolding p' using registered_Add [OF wf1, of a] new pri by (auto simp: e)
  have here: "serves_session (gx_config r) (p_heap p' a) (gk_TunnelToken link) link"
    using authorized_link [OF auth] by (simp add: serves_ident [OF ident] serves_session_def e)
  have others: "b \<in> registered p' \<and> ss_SMux (p_heap p' b) = Some cb \<and> (\<exists>link. serves_session (gx_config r) (p_heap p' b) token link)"
    if b: "(b, cb, token) \<in> set opened" "cb \<notin> gx_closed r'" for b cb token
  proof -
    have b': "b \<in> registered ?p" "ss_SMux (p_heap ?p b) = Some cb" "\<exists>link. serves_session (gx_config r) (p_heap ?p b) token link" "b \<noteq> a"
      using inv b fresh r' by (force simp: gateway_inv_def tunnels_ok_def)+
    have "ss_ID (p_heap ?p b) \<noteq> sessionID"
      using b(2) b' mux registered_iff [OF wf, of b] by (auto simp: r' closing)
    with b' reg mux serves_ident [OF ident, of _ b] show ?thesis by simp
  qed
  have "tunnels_ok ((a, c, gk_TunnelToken link) # opened) r'"
    using inv here others reg mux unfolding tunnels_ok_def r' gateway_inv_def by auto
  then show ?thesis
    using inv pool_wf_Add [OF wf1] new pri by (simp add: auth gateway_inv_def clients_ok_def r' p' e)
qed

lemma inv_refused:
  assumes "gateway_inv opened r" "register_tunnel env a c blank registration r = (None, r')"
  shows "gateway_inv opened r'"
  using assms inv_closed [OF assms(1), of "{c}"]
  by (auto simp: register_tunnel_def Let_def split: sum.splits option.splits prod.splits)

lemma inv_tunnel_ended:
  assumes inv: "gateway_inv opened r" and one: "(a, c, token) \<in> set opened" "distinct (map fst opened)"
  shows "gateway_inv opened (tunnel_ended sessionID a c r)"
proof -
  let ?p = "Remove sessionID (Some a) (gx_pool r)"
  have wf: "pool_wf (gx_pool r)" using inv by (simp add: gateway_inv_def)
  have heap: "p_heap ?p = p_heap (gx_pool r)" by (simp add: Remove_def)
  have keep: "b \<in> registered ?p" if "(b, cb, token') \<in> set opened" "cb \<noteq> c" "b \<in> registered (gx_pool r)" for b cb token'
  proof -
    have "b \<noteq> a" using one that(1,2) by (metis eq_key_imp_eq_value prod.inject)
    then show ?thesis using that(3) registered_Remove(1) [OF wf] by blast
  qed
  have "tunnels_ok opened (tunnel_ended sessionID a c r)"
    using inv keep registered_Remove(2) [OF wf, THEN subsetD]
    unfolding tunnels_ok_def tunnel_ended_def gateway_inv_def by (auto simp: heap)
  then show ?thesis
    using inv pool_wf_Remove [OF wf] by (simp add: gateway_inv_def clients_ok_def tunnel_ended_def)
qed

lemma inv_admit: "gateway_inv opened r \<Longrightarrow> gateway_inv opened (snd (admit_connection now conn grant r))"
  by (auto simp: gateway_inv_def clients_ok_def tunnels_ok_def admit_connection_def list_all_iff dest!: set_mput [THEN subsetD])

lemma inv_connection_ended: "gateway_inv opened r \<Longrightarrow> gateway_inv opened (connection_ended conn r)"
  by (auto simp: gateway_inv_def clients_ok_def tunnels_ok_def connection_ended_def list_all_iff mdel_def)

subsection \<open>Runs of a Gateway\<close>

text \<open>
  The state of Xray's process is changed by its own loop, outside the steps below: \<open>xray\<close> allows any change of it.
  \<open>fetched\<close> is what the Controller answered; the names of its links are those of a map. A tunnel that comes up
  is a new object with a new connection; a connection may also be closed from the other side.
\<close>

inductive gateway_step :: "tunnels \<times> GatewayRuntime \<Rightarrow> tunnels \<times> GatewayRuntime \<Rightarrow> bool" where
  refresh: "(\<And>config. fetched = Inr config \<Longrightarrow> links_ok config) \<Longrightarrow>
    gateway_step (opened, r) (opened, snd (refresh_gateway epoch fetched payload candidate reported now r))"
| tick: "gateway_step (opened, r) (opened, watch_tick now r)"
| answer_report: "gateway_step (opened, r) (opened, snd (report_answered sent response r))"
| expire: "gateway_step (opened, r) (opened, expire_pending now r)"
| collect: "gateway_step (opened, r) (opened, collectXrayStats listening stats r)"
| traffic: "gateway_step (opened, r) (opened, count_traffic grantID linkID up down r)"
| xray: "gateway_step (opened, r) (opened, r\<lparr>gx_running := running, gx_xrayReady := ready, gx_xrayError := err,
    gx_xrayAppliedRevision := revision, gx_xrayStatsConfig := config, gx_xrayCancel := cancel, gx_xrayCancelled := cancelled,
    gx_xrayApply := apply', gx_pendingStats := pending\<rparr>)"
| admit: "gateway_step (opened, r) (opened, snd (admit_connection now conn grant r))"
| client_gone: "gateway_step (opened, r) (opened, connection_ended conn r)"
| tunnel_up: "a \<notin> fst ` set opened \<Longrightarrow> register_tunnel env a c blank registration r = (Some sessionID, r') \<Longrightarrow>
    gateway_step (opened, r) ((a, c, gk_TunnelToken (the (authorizeTunnelLocked env registration r))) # opened, r')"
| tunnel_refused: "register_tunnel env a c blank registration r = (None, r') \<Longrightarrow> gateway_step (opened, r) (opened, r')"
| tunnel_down: "(a, c, token) \<in> set opened \<Longrightarrow> gateway_step (opened, r) (opened, tunnel_ended sessionID a c r)"
| hang_up: "gateway_step (opened, r) (opened, r\<lparr>gx_closed := insert c (gx_closed r)\<rparr>)"
| probe: "gateway_step (opened, r) (opened, probe_done now a rtt got r)"
| observe: "gateway_step (opened, r) (opened, r\<lparr>gx_pool := set_obj a (ObserveWrite now d (p_heap (gx_pool r) a)) (gx_pool r)\<rparr>)"
| stream: "gateway_step (opened, r) (opened, snd (openStream now agentID grantID exchange r))"
| stream_done: "gateway_step (opened, r) (opened, r\<lparr>gx_pool := snd (Release lease (gx_pool r))\<rparr>)"

inductive gateway_run :: "tunnels \<times> GatewayRuntime \<Rightarrow> bool" where
  start: "gateway_run ([], New_gateway nodeID heap now)"
| step: "gateway_run x \<Longrightarrow> gateway_step x y \<Longrightarrow> gateway_run y"

lemma authority_count_traffic: "authority (count_traffic grantID linkID up down r) = authority r"
  by (simp add: authority_def count_traffic_def Let_def)

lemma authority_count_stat: "authority (count_stat grants stat r) = authority r"
  by (simp add: count_stat_def authority_count_traffic Let_def split: list.splits option.splits)

lemma authority_collect: "authority (collectXrayStats listening stats r) = authority r"
proof -
  have "authority (fold (count_stat grants) xs q) = authority q" for grants xs q
    by (induction xs arbitrary: q) (simp_all add: authority_count_stat)
  then show ?thesis by (simp add: collectXrayStats_def split: sum.splits)
qed

lemma openStream_pool: "snd (openStream now agentID grantID exchange r) = r\<lparr>gx_pool := gx_pool (snd (openStream now agentID grantID exchange r))\<rparr>"
  by (auto simp: openStream_def split: sum.splits prod.splits)

lemma inv_openStream: "gateway_inv opened r \<Longrightarrow> gateway_inv opened (snd (openStream now agentID grantID exchange r))"
  by (subst openStream_pool) (rule inv_same_sessions [OF _ same_openStream])

lemma distinct_step: "gateway_step x y \<Longrightarrow> distinct (map fst (fst x)) \<Longrightarrow> distinct (map fst (fst y))"
  by (cases rule: gateway_step.cases) auto

lemma step_inv:
  assumes "gateway_step x y" "distinct (map fst (fst x))" "gateway_inv (fst x) (snd x)"
  shows "gateway_inv (fst y) (snd y)"
  using assms
proof (cases rule: gateway_step.cases)
  case (refresh fetched opened r epoch payload candidate reported now)
  with assms show ?thesis by (auto intro: inv_refresh)
next
  case (tunnel_up a opened env c blank registration r sessionID r')
  with assms show ?thesis by (auto intro: inv_register)
next
  case (tunnel_refused env a c blank registration r r' opened)
  with assms show ?thesis by (auto intro: inv_refused)
next
  case (tunnel_down a c token opened r sessionID)
  with assms show ?thesis by (auto intro: inv_tunnel_ended)
next
  case (hang_up opened r c)
  with assms inv_closed [of opened r "{c}"] show ?thesis by simp
next
  case (stream opened r now agentID grantID exchange)
  with assms show ?thesis by (auto intro: inv_openStream)
next
  case (probe opened r now a rtt got)
  with assms show ?thesis by (auto simp: probe_done_def intro: inv_same_sessions same_UpdateProbe)
next
  case (xray opened r)
  with assms show ?thesis by (auto simp: authority_def intro: inv_authority)
next
  case (collect opened r listening stats)
  with assms show ?thesis by (auto intro: inv_authority authority_collect)
next
  case (traffic opened r grantID linkID up down)
  with assms show ?thesis by (auto intro: inv_authority authority_count_traffic)
qed (auto intro: inv_watch_tick inv_report_answered inv_expire_pending inv_admit inv_connection_ended
      inv_same_sessions same_Observe same_Release)

lemma run_inv: "gateway_run x \<Longrightarrow> distinct (map fst (fst x)) \<and> gateway_inv (fst x) (snd x)"
proof (induction rule: gateway_run.induct)
  case start
  show ?case
    by (simp add: gateway_inv_def clients_ok_def tunnels_ok_def links_ok_def New_gateway_def NewPool_def pool_wf_def
        registered_def mvals_def zero_GatewayConfig_def)
next
  case step
  then show ?case by (blast intro: step_inv distinct_step)
qed

subsection \<open>What the Gateway serves\<close>

lemma allowed_links_iff:
  "zget False (allowed_links agentID grantID config) i \<longleftrightarrow>
    (\<exists>grant link. find (\<lambda>grant. gr_ID grant = grantID \<and> gr_Enabled grant) (gc_Grants config) = Some grant \<and> link \<in> set (gc_Links config) \<and>
       lk_ID (gk_Link link) = i \<and> gk_AgentID link = agentID \<and> lk_AttachmentID (gk_Link link) = gr_AttachmentID grant)"
proof -
  have "zget False (fold (\<lambda>link m. if Q link then mput (lk_ID (gk_Link link)) True m else m) links m) i \<longleftrightarrow>
      zget False m i \<or> (\<exists>link \<in> set links. Q link \<and> lk_ID (gk_Link link) = i)" for Q links and m :: "bool gomap"
    by (induction links arbitrary: m) (auto simp: zget_def)
  note fold_iff = this
  have none: "\<not> zget False [] i" by (simp add: zget_def)
  show ?thesis
    by (cases "find (\<lambda>grant. gr_ID grant = grantID \<and> gr_Enabled grant) (gc_Grants config)")
      (auto simp: allowed_links_def fold_iff none)
qed

lemma client_current:
  assumes "gateway_inv opened r" "(conn, active) \<in> set (gx_connections r)" "\<not> cn_cancelled active"
  shows "enabled (gx_config r)" "\<exists>grant. grant \<in> set (gc_Grants (gx_config r)) \<and> gr_Enabled grant \<and> same_grant grant (cn_grant active)"
proof -
  have "grant_current (gx_config r) (cn_grant active)"
    using assms by (auto simp: gateway_inv_def clients_ok_def list_all_iff)
  then show "enabled (gx_config r)" "\<exists>grant. grant \<in> set (gc_Grants (gx_config r)) \<and> gr_Enabled grant \<and> same_grant grant (cn_grant active)"
    unfolding grant_current_def list_ex_iff by blast+
qed

lemma tunnel_current:
  assumes "gateway_inv opened r" "(a, c, token) \<in> set opened" "c \<notin> gx_closed r"
  shows "a \<in> registered (gx_pool r)" "\<exists>link. serves_session (gx_config r) (p_heap (gx_pool r) a) token link"
  using assms unfolding gateway_inv_def tunnels_ok_def by auto

lemma openStream_Inr:
  assumes "openStream now agentID grantID exchange r = (Inr lease, r')"
  obtains p' where "enabled (gx_config r)" "now < gx_until r"
    "AcquireLinks (\<lambda>c. c \<in> gx_closed r) now agentID (Some (allowed_links agentID grantID (gx_config r))) (gx_pool r) = Inr (lease, p')"
  using assms
  by (auto simp: openStream_def open_exchange_def Let_def split: if_splits sum.splits prod.splits Exchange.splits)

lemma acquired_eligible:
  assumes "pool_wf p" "AcquireLinks isClosed now agentID allowed p = Inr (lease, p')"
  shows "le_Session lease \<in> registered p" "eligible isClosed agentID allowed (p_heap p (le_Session lease))"
proof -
  let ?cs = "candidates_of isClosed agentID allowed p"
  have "?cs \<noteq> []" "le_Session lease = hd (sort_slice (session_less now (p_heap p)) ?cs)"
    using assms(2) by (auto simp: AcquireLinks_eq Let_def split: if_splits)
  then have "le_Session lease \<in> set ?cs" using chosen_in by metis
  then show "le_Session lease \<in> registered p" "eligible isClosed agentID allowed (p_heap p (le_Session lease))"
    by (auto simp: candidates_of_iff [OF assms(1)])
qed

text \<open>A stream is opened on the route of its grant.\<close>

lemma openStream_route:
  assumes inv: "gateway_inv opened r" and ok: "openStream now agentID grantID exchange r = (Inr lease, r')"
  shows "now < gx_until r \<and> (\<exists>grant link c token. grant \<in> set (gc_Grants (gx_config r)) \<and> gr_ID grant = grantID \<and> gr_Enabled grant \<and>
    (le_Session lease, c, token) \<in> set opened \<and> c \<notin> gx_closed r \<and>
    serves_session (gx_config r) (p_heap (gx_pool r) (le_Session lease)) token link \<and>
    lk_AttachmentID (gk_Link link) = gr_AttachmentID grant \<and> gk_AgentID link = agentID)"
proof -
  let ?a = "le_Session lease" and ?config = "gx_config r"
  let ?s = "p_heap (gx_pool r) ?a"
  from ok obtain p' where live: "now < gx_until r"
    and got: "AcquireLinks (\<lambda>c. c \<in> gx_closed r) now agentID (Some (allowed_links agentID grantID ?config)) (gx_pool r) = Inr (lease, p')"
    by (rule openStream_Inr)
  have wf: "pool_wf (gx_pool r)" and links: "links_ok ?config" using inv by (simp_all add: gateway_inv_def)
  have reg: "?a \<in> registered (gx_pool r)" and agent: "ss_AgentID ?s = agentID"
    and allowed: "zget False (allowed_links agentID grantID ?config) (ss_LinkID ?s)"
    and alive: "\<And>c. ss_SMux ?s = Some c \<Longrightarrow> c \<notin> gx_closed r"
    using acquired_eligible [OF wf got] by (auto simp: eligible_def)
  obtain c token where c: "(?a, c, token) \<in> set opened" "ss_SMux ?s = Some c"
    using inv reg by (auto simp: gateway_inv_def tunnels_ok_def)
  then obtain link where link: "serves_session ?config ?s token link"
    using tunnel_current(2) [OF inv] alive by blast
  obtain grant link' where grant: "find (\<lambda>grant. gr_ID grant = grantID \<and> gr_Enabled grant) (gc_Grants ?config) = Some grant"
    and link': "link' \<in> set (gc_Links ?config)" "lk_ID (gk_Link link') = ss_LinkID ?s" "lk_AttachmentID (gk_Link link') = gr_AttachmentID grant"
    using allowed unfolding allowed_links_iff by blast
  have "link' = link" using link link' by (intro same_link [OF links]) (auto simp: serves_session_def)
  moreover have "grant \<in> set (gc_Grants ?config)" "gr_ID grant = grantID" "gr_Enabled grant"
    using grant by (auto simp: find_Some_iff)
  ultimately show ?thesis
    using live c alive link link'(3) agent by (fastforce simp: serves_session_def)
qed


text \<open>
  C19. When the lease of a Gateway ends before the Controller confirmed it again, the next tick of the watch cuts
  every client and closes every tunnel; afterwards no client is admitted, no tunnel registered and no stream opened,
  at any time, and an answer of the Controller to a request made before cannot bring the old authorization back.
\<close>

theorem expired_gateway_serves_nothing:
  assumes run: "gateway_run (opened, r)" and late: "enabled (gx_config r)" "\<not> now < gx_until r"
  defines "r' \<equiv> watch_tick now r"
  shows "(\<forall>conn active. (conn, active) \<in> set (gx_connections r') \<longrightarrow> cn_cancelled active) \<and>
    (\<forall>a c token. (a, c, token) \<in> set opened \<longrightarrow> c \<in> gx_closed r') \<and>
    find_grant username password t r' = None \<and> authorizeTunnelLocked env registration r' = None \<and>
    openStream t agentID grantID exchange r' = (Inl ''gateway authorization expired or disabled'', r') \<and>
    (\<exists>err. refresh_gateway (gx_epoch r) (Inr config) payload candidate reported t r' = (Some err, r'))"
proof -
  have "gateway_inv opened r'" unfolding r'_def using run_inv [OF run] by (simp add: inv_watch_tick)
  note current = client_current [OF this] tunnel_current [OF this]
  have r': "gc_Grants (gx_config r') = []" "gc_Links (gx_config r') = []" "\<not> enabled (gx_config r')" "gx_epoch r' = gx_epoch r + 1"
    using late by (auto simp: r'_def watch_tick_def invalidateAuthorizationLocked_def setXray_def retireConnectionsLocked_def
        close_sessions_def Let_def)
  have "find_grant username password t r' = None" "authorizeTunnelLocked env registration r' = None"
    "openStream t agentID grantID exchange r' = (Inl ''gateway authorization expired or disabled'', r')"
    "\<exists>err. refresh_gateway (gx_epoch r) (Inr config) payload candidate reported t r' = (Some err, r')"
    using r' by (simp_all add: find_grant_def authorizeTunnelLocked_def openStream_def refresh_gateway_def)
  with current r'(3) show ?thesis unfolding serves_session_def by blast
qed

text \<open>
  C29. A stream that cannot be opened leaves nothing behind: the runtime is unchanged except for the pool, the pool
  has the same sessions and every session the number of active streams it had before; and if it was the session that
  refused the stream, that session is not ready any more, so that the next stream takes another one.
\<close>

theorem failed_stream_leaves_no_lease:
  assumes wf: "pool_wf (gx_pool r)" and failed: "openStream now agentID grantID exchange r = (Inl err, r')"
  shows "r'\<lparr>gx_pool := gx_pool r\<rparr> = r \<and> p_sessions (gx_pool r') = p_sessions (gx_pool r) \<and>
    (\<forall>a. ss_active (p_heap (gx_pool r') a) = ss_active (p_heap (gx_pool r) a)) \<and>
    (\<forall>lease p' e. AcquireLinks (\<lambda>c. c \<in> gx_closed r) now agentID (Some (allowed_links agentID grantID (gx_config r))) (gx_pool r) = Inr (lease, p') \<and>
       enabled (gx_config r) \<and> now < gx_until r \<and> exchange = OpenFailed e \<longrightarrow> \<not> ss_Ready (p_heap (gx_pool r') (le_Session lease)))"
proof (cases "\<not> enabled (gx_config r) \<or> \<not> now < gx_until r")
  case True
  then show ?thesis using failed by (auto simp: openStream_def)
next
  case on: False
  let ?got = "AcquireLinks (\<lambda>c. c \<in> gx_closed r) now agentID (Some (allowed_links agentID grantID (gx_config r))) (gx_pool r)"
  show ?thesis
  proof (cases ?got)
    case (Inl e)
    then show ?thesis using failed on by (auto simp: openStream_def)
  next
    case (Inr lp)
    obtain lease p1 where lp: "lp = (lease, p1)" by (cases lp)
    let ?a = "le_Session lease" and ?p = "gx_pool r"
    have a: "mget (p_sessions ?p) (ss_ID (p_heap ?p ?a)) = Some ?a"
      using acquired_eligible(1) [OF wf] registered_iff [OF wf] Inr lp by blast
    have p1: "p1 = set_obj ?a ((p_heap ?p ?a)\<lparr>ss_active := ss_active (p_heap ?p ?a) + 1\<rparr>) ?p" "\<not> le_released lease"
      using Inr unfolding lp by (auto simp: AcquireLinks_eq Let_def split: if_splits)
    show ?thesis
      using failed on Inr lp p1 a
      by (auto simp: openStream_def open_exchange_def Release_def SetReady_def Let_def split: Exchange.splits if_splits)
  qed
qed

subsection \<open>Counters that agree\<close>

lemma sum_mput:
  fixes f :: "'v \<Rightarrow> 'a::ab_group_add"
  shows "sum_list (map f (mvals (mput k v m))) = sum_list (map f (mvals m)) + (f v - (case mget m k of None \<Rightarrow> 0 | Some w \<Rightarrow> f w))"
  by (induction k v m rule: mput.induct) (auto simp: mvals_def algebra_simps)

definition counters_ok :: "GatewayRuntime \<Rightarrow> bool" where
  "counters_ok r = (mwf (gx_grantStats r) \<and>
     (\<forall>i. ct_upload (grantCounters_at i r) = sum_list (map ct_upload (mvals (zget [] (gx_grantLinks r) i))) \<and>
          ct_download (grantCounters_at i r) = sum_list (map ct_download (mvals (zget [] (gx_grantLinks r) i)))))"

lemma counters_frame:
  "gx_grantStats r' = gx_grantStats r \<Longrightarrow> gx_grantLinks r' = gx_grantLinks r \<Longrightarrow> counters_ok r \<Longrightarrow> counters_ok r'"
  by (simp add: counters_ok_def grantCounters_at_def)

lemma zget_word: "f z = (0::uint64) \<Longrightarrow> (case mget m k of None \<Rightarrow> 0 | Some w \<Rightarrow> f w) = f (zget z m k)"
  by (simp add: zget_def split: option.splits)

lemma zero_counter_fields: "ct_upload zero_counters = 0" "ct_download zero_counters = 0"
  by (simp_all add: zero_counters_def)

lemma counters_traffic:
  assumes "counters_ok r"
  shows "counters_ok (count_traffic grantID linkID up down r)"
  using assms unfolding counters_ok_def
  by (simp add: count_traffic_def grantCounters_at_def grantLinkCounters_at_def Let_def sum_mput
      zget_word [where z = zero_counters and f = ct_upload] zget_word [where z = zero_counters and f = ct_download] zero_counter_fields)

lemma counters_collect:
  assumes "counters_ok r"
  shows "counters_ok (collectXrayStats listening stats r)"
proof -
  have one: "counters_ok (count_stat grants stat q)" if "counters_ok q" for grants stat q
    using that by (auto simp: count_stat_def Let_def counters_traffic split: list.splits option.splits)
  have "counters_ok (fold (count_stat grants) xs q)" if "counters_ok q" for grants xs q
    using that by (induction xs arbitrary: q) (simp_all add: one)
  then show ?thesis using assms by (simp add: collectXrayStats_def split: sum.splits)
qed

lemma counters_invalidate: "counters_ok (invalidateAuthorizationLocked r) = counters_ok r"
  by (simp add: counters_ok_def grantCounters_at_def invalidateAuthorizationLocked_def setXray_def retireConnectionsLocked_def
      close_sessions_def Let_def)

lemma counters_answered: "counters_ok r \<Longrightarrow> counters_ok (snd (report_answered sent response r))"
  by (auto simp: report_answered_def counters_invalidate split: option.splits intro: counters_frame)

lemma counters_expire: "counters_ok r \<Longrightarrow> counters_ok (expire_pending now r)"
  by (rule counters_frame) (simp_all add: expire_pending_def)

lemma counters_install: "counters_ok r \<Longrightarrow> counters_ok (install_gateway reload nextPayload config now r)"
  by (rule counters_frame) (simp_all add: install_gateway_def setXray_def retireConnectionsLocked_def close_sessions_def Let_def)

lemma counters_refresh:
  assumes "counters_ok r"
  shows "counters_ok (snd (refresh_gateway epoch fetched payload candidate reported now r))"
proof -
  obtain err r' where r': "refresh_gateway epoch fetched payload candidate reported now r = (err, r')"
    by (cases "refresh_gateway epoch fetched payload candidate reported now r")
  then have "counters_ok r'"
    by (cases rule: gateway_refresh_cases)
      (use assms in \<open>auto simp: counters_invalidate intro!: counters_install counters_answered counters_expire\<close>)
  with r' show ?thesis by simp
qed

lemma counters_register: "register_tunnel env a c blank registration r = (x, r') \<Longrightarrow> counters_ok r \<Longrightarrow> counters_ok r'"
  by (rule counters_frame) (auto simp: register_tunnel_def Let_def split: sum.splits option.splits prod.splits)

lemma step_counters:
  assumes "gateway_step x y" "counters_ok (snd x)"
  shows "counters_ok (snd y)"
  using assms
proof (cases rule: gateway_step.cases)
  case (stream opened r now agentID grantID exchange)
  with assms(2) show ?thesis
    by (auto intro: counters_frame simp: openStream_def split: sum.splits prod.splits)
qed (auto simp: counters_refresh counters_answered counters_expire counters_traffic counters_collect counters_register
      watch_tick_def counters_invalidate admit_connection_def connection_ended_def tunnel_ended_def probe_done_def
      intro: counters_frame)

lemma run_counters: "gateway_run x \<Longrightarrow> counters_ok (snd x)"
proof (induction rule: gateway_run.induct)
  case start
  show ?case by (simp add: counters_ok_def New_gateway_def grantCounters_at_def zero_counters_def mvals_def mwf_def)
qed (blast intro: step_counters)

lemma sum_add_usage:
  "sum_list (map gl_UploadBytes (mvals (fold add_usage us t))) = sum_list (map gl_UploadBytes (mvals t)) + sum_list (map gl_UploadBytes us)"
  "sum_list (map gl_DownloadBytes (mvals (fold add_usage us t))) = sum_list (map gl_DownloadBytes (mvals t)) + sum_list (map gl_DownloadBytes us)"
  by (induction us arbitrary: t)
    (simp_all add: add_usage_def Let_def sum_mput zget_word [where z = zero_GrantLinkUsage] zero_GrantLinkUsage_def)

lemma grant_usage_sums:
  assumes "counters_ok r" "g \<in> set (map (grant_usage r) (gx_grantStats r))"
  shows "gs_UploadBytes g = sum_list (map gl_UploadBytes (gs_Links g))" "gs_DownloadBytes g = sum_list (map gl_DownloadBytes (gs_Links g))"
proof -
  obtain i ct where ct: "(i, ct) \<in> set (gx_grantStats r)" and g: "g = grant_usage r (i, ct)" using assms(2) by auto
  have "ct = grantCounters_at i r"
    using assms(1) ct mget_in_iff [of "gx_grantStats r" i ct] by (simp add: counters_ok_def grantCounters_at_def zget_def)
  then show "gs_UploadBytes g = sum_list (map gl_UploadBytes (gs_Links g))" "gs_DownloadBytes g = sum_list (map gl_DownloadBytes (gs_Links g))"
    using assms(1) by (simp_all add: g grant_usage_def counters_ok_def mvals_def comp_def case_prod_unfold)
qed

lemma sum_concat_map:
  fixes f :: "'a \<Rightarrow> uint64"
  shows "(\<And>g. g \<in> set gs \<Longrightarrow> h g = sum_list (map f (links g))) \<Longrightarrow> sum_list (map h gs) = sum_list (map f (concat (map links gs)))"
  by (induction gs) auto


subsection \<open>A Gateway with one user\<close>

definition demo_gateway_config :: GatewayConfig where
  "demo_gateway_config = \<lparr>gc_Revision = 1, gc_Gateway = zero_Gateway\<lparr>gw_ID := ''gw_1'', gw_Enabled := True\<rparr>,
     gc_Grants = [zero_Grant\<lparr>gr_ID := ''grt_1'', gr_AttachmentID := ''att_1'', gr_SOCKSUsername := ''u'', gr_SOCKSPassword := ''p'', gr_Enabled := True\<rparr>],
     gc_Links = [\<lparr>gk_Link = zero_Link\<lparr>lk_ID := ''lnk_1'', lk_AttachmentID := ''att_1'', lk_Enabled := True, lk_Priority := 10, lk_Weight := 1, lk_MaxStreams := 2\<rparr>,
                   gk_AgentID = ''agt_1'', gk_TunnelToken = ''secret''\<rparr>],
     gc_Upstreams = []\<rparr>"

definition demo_registration :: Message where
  "demo_registration = zero_Message\<lparr>m_Type := ''register'', m_Version := Version, m_LinkID := ''lnk_1'', m_AgentID := ''agt_1'',
     m_Token := ''secret'', m_SessionID := ''s1''\<rparr>"

definition demo_started :: GatewayRuntime where
  "demo_started = snd (refresh_gateway 0 (Inr demo_gateway_config) (\<lambda>_. Inr []) None None (1000 * second)
     (New_gateway ''gw_1'' (\<lambda>_. demo_session '''' 1) (990 * second)))"

definition demo_tunnel :: GatewayRuntime where
  "demo_tunnel = snd (register_tunnel demo_ctx 5 7 (demo_session '''' 1) demo_registration demo_started)"

definition demo_serving :: GatewayRuntime where
  "demo_serving = count_traffic ''grt_1'' ''lnk_1'' 300 4000
     (snd (admit_connection (1000 * second) 3 (hd (gc_Grants demo_gateway_config)) demo_tunnel))"

lemma demo_up: "fst (register_tunnel demo_ctx 5 7 (demo_session '''' 1) demo_registration demo_started) = Some ''agt_1/lnk_1/s1''"
  and demo_token: "map_option gk_TunnelToken (authorizeTunnelLocked demo_ctx demo_registration demo_started) = Some ''secret''"
  by code_simp+

lemma demo_serving_run: "gateway_run ([(5, 7, ''secret'')], demo_serving)"
proof -
  have "links_ok demo_gateway_config" by code_simp
  then have "gateway_run ([], demo_started)"
    unfolding demo_started_def by (intro gateway_run.step [OF gateway_run.start gateway_step.refresh]) auto
  moreover have "gateway_step ([], demo_started) ([(5, 7, ''secret'')], demo_tunnel)"
    using gateway_step.tunnel_up [of 5 "[]" demo_ctx 7 "demo_session '''' 1" demo_registration demo_started _ demo_tunnel] demo_up demo_token
    by (cases "register_tunnel demo_ctx 5 7 (demo_session '''' 1) demo_registration demo_started") (auto simp: demo_tunnel_def)
  ultimately have "gateway_run ([(5, 7, ''secret'')], demo_tunnel)" by (rule gateway_run.step)
  then show ?thesis
    unfolding demo_serving_def by (blast intro: gateway_run.step gateway_step.admit gateway_step.traffic)
qed

definition demo_open :: "Exchange \<Rightarrow> (error + Lease) \<times> GatewayRuntime" where
  "demo_open exchange = openStream (1001 * second) ''agt_1'' ''grt_1'' exchange demo_serving"

lemma demo_opens:
  "fst (demo_open (Answered (zero_Message\<lparr>m_Type := ''response'', m_Success := True\<rparr>))) = Inr \<lparr>le_Session = 5, le_released = False\<rparr>"
  "fst (demo_open (OpenFailed ''broken'')) = Inl ''broken''"
  "map fst (gx_connections demo_serving) = [3]" "\<not> cn_cancelled (snd (hd (gx_connections demo_serving)))" "7 \<notin> gx_closed demo_serving"
  by code_simp+


theorem expired_gateway_serves_nothing_witness:
  "let r' = watch_tick (1300 * second) demo_serving in
   7 \<in> gx_closed r' \<and> cn_cancelled (snd (hd (gx_connections r'))) \<and> find_grant ''u'' ''p'' (1300 * second) r' = None"
proof -
  let ?r = "watch_tick (1300 * second) demo_serving"
  have late: "enabled (gx_config demo_serving)" "\<not> 1300 * second < gx_until demo_serving"
    and one: "map fst (gx_connections ?r) = [3]" by code_simp+
  have "(3, snd (hd (gx_connections ?r))) \<in> set (gx_connections ?r)"
    using one by (cases "gx_connections ?r") auto
  then show ?thesis
    using expired_gateway_serves_nothing [OF demo_serving_run late, of "''u''" "''p''" "1300 * second"] by (auto simp: Let_def)
qed

theorem failed_stream_leaves_no_lease_witness:
  "let r' = snd (demo_open (OpenFailed ''broken'')) in
   ss_active (p_heap (gx_pool r') 5) = 0 \<and> \<not> ss_Ready (p_heap (gx_pool r') 5) \<and> ss_Ready (p_heap (gx_pool demo_serving) 5)"
proof -
  let ?r = "snd (demo_open (OpenFailed ''broken''))"
  have wf: "pool_wf (gx_pool demo_serving)" using run_inv [OF demo_serving_run] by (simp add: gateway_inv_def)
  have failed: "openStream (1001 * second) ''agt_1'' ''grt_1'' (OpenFailed ''broken'') demo_serving = (Inl ''broken'', ?r)"
    unfolding demo_open_def [symmetric] using demo_opens(2) by (metis prod.collapse)
  have before: "ss_active (p_heap (gx_pool demo_serving) 5) = 0" "ss_Ready (p_heap (gx_pool demo_serving) 5)"
    "enabled (gx_config demo_serving)" "1001 * second < gx_until demo_serving" by code_simp+
  have "map_sum id fst (AcquireLinks (\<lambda>c. c \<in> gx_closed demo_serving) (1001 * second) ''agt_1''
      (Some (allowed_links ''agt_1'' ''grt_1'' (gx_config demo_serving))) (gx_pool demo_serving)) = Inr \<lparr>le_Session = 5, le_released = False\<rparr>"
    by code_simp
  then obtain p' where "AcquireLinks (\<lambda>c. c \<in> gx_closed demo_serving) (1001 * second) ''agt_1''
      (Some (allowed_links ''agt_1'' ''grt_1'' (gx_config demo_serving))) (gx_pool demo_serving) = Inr (\<lparr>le_Session = 5, le_released = False\<rparr>, p')"
    by (auto simp: map_sum_def split: sum.splits)
  then show ?thesis
    using failed_stream_leaves_no_lease [OF wf failed] before by (fastforce simp: Let_def)
qed


end
