(* ===== verification/Revocation.thy ===== *)
theory Revocation
  imports Node_Invariant Gateway_Invariant
begin

text \<open>
  The Controller and a Gateway together: what a Gateway still serves once it has taken over the configuration that
  the Controller computes (\<open>configForGateway\<close> of \<open>src/internal/controller/api_handlers.go\<close>, \<open>refresh\<close> of
  \<open>src/internal/gateway/gateway.go\<close>). The transport between them is the JSON of \<open>encoding/json\<close> over HTTPS and is
  taken to deliver the configuration as it was sent.
\<close>

text \<open>A configuration lists each link once.\<close>

lemma gateway_config_links:
  assumes "topo_ok s" "enabled (gateway_config env controls nodeID s)"
  defines "routes \<equiv> filter (\<lambda>a. at_GatewayID a = nodeID \<and> at_Enabled a) (mvals (st_Attachments s))"
  shows "gc_Links (gateway_config env controls nodeID s) =
    sort_slice (\<lambda>a b. lk_ID (gk_Link a) < lk_ID (gk_Link b)) (concat (map (route_links env s) routes))"
  using assms(2) by (auto simp: gateway_config_def routes_def Let_def zero_Gateway_def split: if_splits)

lemma disabled_config: "\<not> enabled (gateway_config env controls nodeID s) \<Longrightarrow>
    gc_Links (gateway_config env controls nodeID s) = [] \<and> gc_Grants (gateway_config env controls nodeID s) = []"
  by (auto simp: gateway_config_def Let_def split: if_splits)

lemma route_links_ids:
  "map (lk_ID \<circ> gk_Link) (route_links env s a) =
    map lk_ID (filter (\<lambda>link. lk_AttachmentID link = at_ID a \<and> (at_UpstreamID a = [] \<and> lk_Enabled link)) (mvals (st_Links s)))"
  by (simp add: route_links_def comp_def)

lemma config_links_ok:
  assumes ok: "topo_ok s" and ints: "\<And>k link. mget (st_Links s) k = Some link \<Longrightarrow> lk_Priority link \<le> max_int"
  shows "links_ok (gateway_config env controls nodeID s)"
proof (cases "enabled (gateway_config env controls nodeID s)")
  case True
  let ?routes = "filter (\<lambda>a. at_GatewayID a = nodeID \<and> at_Enabled a) (mvals (st_Attachments s))"
  let ?links = "concat (map (route_links env s) ?routes)"
  have s: "sound nobody s" using ok by (simp add: topo_ok_sound)
  have wf: "mwf (st_Attachments s)" "mwf (st_Links s)" using soundD(1) [OF s] by (simp_all add: maps_ok_def)
  have keys: "distinct (map lk_ID (mvals (st_Links s)))" "distinct (map at_ID (mvals (st_Attachments s)))"
    using keyed_distinct wf sound_keyed(5,6) [OF s] by metis+
  have "mset (map (lk_ID \<circ> gk_Link) (gc_Links (gateway_config env controls nodeID s))) = mset (map (lk_ID \<circ> gk_Link) ?links)"
    by (simp only: gateway_config_links [OF ok True] mset_map mset_sort_slice)
  moreover have "distinct (map (lk_ID \<circ> gk_Link) ?links)"
  proof -
    let ?picked = "concat (map (\<lambda>a. filter (\<lambda>link. lk_AttachmentID link = at_ID a \<and> (at_UpstreamID a = [] \<and> lk_Enabled link)) (mvals (st_Links s))) ?routes)"
    have "distinct ?picked"
      by (rule distinct_routed) (use keys in \<open>auto simp: distinct_map intro: inj_on_subset\<close>)
    moreover have "inj_on lk_ID (set ?picked)"
      using keys(1) by (auto simp: distinct_map intro: inj_on_subset)
    ultimately have "distinct (map lk_ID ?picked)" by (simp add: distinct_map)
    moreover have "map (lk_ID \<circ> gk_Link) (concat (map (route_links env s) as)) = map lk_ID (concat (map (\<lambda>a. filter (\<lambda>link.
        lk_AttachmentID link = at_ID a \<and> (at_UpstreamID a = [] \<and> lk_Enabled link)) (mvals (st_Links s))) as))" for as
      by (induction as) (simp_all only: route_links_ids list.map concat.simps map_append)
    ultimately show ?thesis by simp
  qed
  ultimately have "distinct (map (lk_ID \<circ> gk_Link) (gc_Links (gateway_config env controls nodeID s)))"
    using mset_eq_imp_distinct_iff by blast
  moreover have "lk_Priority (gk_Link link) \<le> max_int" if link: "link \<in> set (gc_Links (gateway_config env controls nodeID s))" for link
  proof -
    obtain l where "l \<in> set (mvals (st_Links s))" "lk_Priority (gk_Link link) = lk_Priority l"
      using link unfolding gateway_config_links [OF ok True] by (auto simp: route_links_def split: if_splits)
    with mvals_mget [OF wf(2)] ints show ?thesis by metis
  qed
  ultimately show ?thesis by (simp add: links_ok_def list_all_iff)
qed (simp add: links_ok_def disabled_config)

lemma config_link_live:
  assumes ok: "topo_ok s" and link: "link \<in> set (gc_Links (gateway_config env controls nodeID s))"
  shows "\<exists>l a. mget (st_Links s) (lk_ID (gk_Link link)) = Some l \<and> lk_Enabled l \<and> mget (st_Attachments s) (lk_AttachmentID l) = Some a \<and>
    at_Enabled a \<and> at_GatewayID a = nodeID \<and> at_AgentID a = gk_AgentID link \<and> gk_TunnelToken link = tunnel_token env (lk_ID l)"
proof -
  have s: "sound nobody s" using ok by (simp add: topo_ok_sound)
  have wf: "mwf (st_Attachments s)" "mwf (st_Links s)" using soundD(1) [OF s] by (simp_all add: maps_ok_def)
  have "enabled (gateway_config env controls nodeID s)" using link disabled_config by fastforce
  with link obtain a l where a: "a \<in> set (mvals (st_Attachments s))" "at_GatewayID a = nodeID" "at_Enabled a"
    and l: "l \<in> set (mvals (st_Links s))" "lk_AttachmentID l = at_ID a" "lk_Enabled l"
    and link': "link = \<lparr>gk_Link = l\<lparr>lk_TunnelTokenHash := []\<rparr>, gk_AgentID = at_AgentID a, gk_TunnelToken = tunnel_token env (lk_ID l)\<rparr>"
    by (auto simp: gateway_config_links [OF ok] route_links_def split: if_splits)
  obtain i j where "mget (st_Attachments s) i = Some a" "mget (st_Links s) j = Some l"
    using mvals_mget [OF wf(1) a(1)] mvals_mget [OF wf(2) l(1)] by blast
  then show ?thesis
    using sound_keyed(5) [OF s] sound_keyed(6) [OF s] a l by (auto simp: link')
qed

lemma config_grant_live:
  assumes ok: "topo_ok s" and grant: "grant \<in> set (gc_Grants (gateway_config env controls nodeID s))"
  shows "\<exists>k. mget (st_Grants s) k = Some grant" "servable s nodeID grant"
proof -
  let ?routes = "filter (\<lambda>a. at_GatewayID a = nodeID \<and> at_Enabled a) (mvals (st_Attachments s))"
  have s: "sound nobody s" using ok by (simp add: topo_ok_sound)
  have "\<exists>ingress. grant \<in> set (concat (map (route_grants s ingress) ?routes))"
    using grant by (auto simp: gateway_config_def Let_def split: if_splits)
  then show "\<exists>k. mget (st_Grants s) k = Some grant" "servable s nodeID grant"
    using route_grants_iff [OF s refl] by blast+
qed

text \<open>
  C5. Revocation reaches the Gateway. When a Gateway has taken over the configuration that the Controller computes from its
  state, every client connection that is still open belongs to a grant of that state whose route leads
  through this Gateway and which is enabled, of an enabled user, on an available route, with unchanged credentials; and
  every tunnel that is still open is on an enabled link of an enabled route of this Gateway, from the exit node of
  that route, under the token derived for the link.
\<close>

theorem revocation_reaches_gateway:
  assumes ok: "topo_ok s" and ints: "list_all (\<lambda>link. lk_Priority link \<le> max_int) (mvals (st_Links s))"
    and run: "gateway_run (opened, r)"
    and applied: "refresh_gateway epoch (Inr (gateway_config env controls nodeID s)) payload candidate reported now r = (None, r')"
  shows "(\<forall>conn active. (conn, active) \<in> set (gx_connections r') \<and> \<not> cn_cancelled active \<longrightarrow>
      (\<exists>k grant. mget (st_Grants s) k = Some grant \<and> servable s nodeID grant \<and> same_grant grant (cn_grant active))) \<and>
    (\<forall>a c token. (a, c, token) \<in> set opened \<and> c \<notin> gx_closed r' \<longrightarrow>
      (\<exists>link route. mget (st_Links s) (ss_LinkID (p_heap (gx_pool r') a)) = Some link \<and> lk_Enabled link \<and>
         mget (st_Attachments s) (lk_AttachmentID link) = Some route \<and> at_Enabled route \<and> at_GatewayID route = nodeID \<and>
         at_AgentID route = ss_AgentID (p_heap (gx_pool r') a) \<and> token = tunnel_token env (lk_ID link)))"
proof -
  let ?config = "gateway_config env controls nodeID s"
  have links: "links_ok ?config" using ok by (rule config_links_ok) (use ints in \<open>auto simp: list_all_iff dest: mget_val_in\<close>)
  have inv: "gateway_inv opened r'"
    using inv_refresh [of opened r "Inr ?config" epoch payload candidate reported now] run_inv [OF run] links applied by simp
  have config: "gx_config r' = ?config"
    using applied by (cases rule: gateway_refresh_cases) (auto simp: install_fields)
  have "\<exists>k grant. mget (st_Grants s) k = Some grant \<and> servable s nodeID grant \<and> same_grant grant (cn_grant active)"
    if "(conn, active) \<in> set (gx_connections r')" "\<not> cn_cancelled active" for conn active
    using client_current(2) [OF inv that] config_grant_live [OF ok] unfolding config by blast
  moreover have "\<exists>link route. mget (st_Links s) (ss_LinkID (p_heap (gx_pool r') a)) = Some link \<and> lk_Enabled link \<and>
         mget (st_Attachments s) (lk_AttachmentID link) = Some route \<and> at_Enabled route \<and> at_GatewayID route = nodeID \<and>
         at_AgentID route = ss_AgentID (p_heap (gx_pool r') a) \<and> token = tunnel_token env (lk_ID link)"
    if "(a, c, token) \<in> set opened" "c \<notin> gx_closed r'" for a c token
    using tunnel_current(2) [OF inv that] config_link_live [OF ok, of _ env controls nodeID] unfolding config serves_session_def by metis
  ultimately show ?thesis by blast
qed

subsection \<open>A user is disabled\<close>

definition demo_revoked :: State where
  "demo_revoked = demo_site\<lparr>st_Users := [(''usr_1'', zero_User\<lparr>u_ID := ''usr_1''\<rparr>)]\<rparr>"

lemma demo_revoked_ok: "topo_ok demo_revoked"
  by (auto simp: topo_ok_def maps_ok_def status_ok_def t_keyed_def t_refs_def t_published_def demo_revoked_def demo_site_def mwf_def
      zero_State_def zero_User_def zero_Gateway_def zero_Agent_def zero_Attachment_def zero_Link_def zero_Grant_def
      user_core_def gateway_core_def agent_core_def route_core_def link_core_def grant_core_def gateway_key_def agent_key_def
      has_prefix_def split: if_splits)

definition demo_client_of_site :: GatewayRuntime where
  "demo_client_of_site = snd (admit_connection (1000 * second) 3 (snd (hd (st_Grants demo_site)))
     (snd (refresh_gateway 0 (Inr (gateway_config node_ctx True ''gw_1'' demo_site)) (\<lambda>_. Inr []) None None (1000 * second)
        (New_gateway ''gw_1'' (\<lambda>_. demo_session '''' 1) (990 * second)))))"

definition demo_after :: "error option \<times> GatewayRuntime" where
  "demo_after = refresh_gateway 0 (Inr (gateway_config node_ctx True ''gw_1'' demo_revoked)) (\<lambda>_. Inr []) None None (1015 * second) demo_client_of_site"

lemma demo_client_run: "gateway_run ([], demo_client_of_site)"
proof -
  have "links_ok (gateway_config node_ctx True ''gw_1'' demo_site)" by code_simp
  then show ?thesis
    unfolding demo_client_of_site_def
    by (intro gateway_run.step [OF gateway_run.step [OF gateway_run.start gateway_step.refresh] gateway_step.admit]) auto
qed

theorem revocation_reaches_gateway_witness:
  "map (cn_cancelled \<circ> snd) (gx_connections demo_client_of_site) = [False] \<and> fst demo_after = None \<and>
   cn_cancelled (snd (hd (gx_connections (snd demo_after))))"
proof -
  let ?r = "snd demo_after"
  have before: "map (cn_cancelled \<circ> snd) (gx_connections demo_client_of_site) = [False]" and none: "fst demo_after = None"
    and one: "map fst (gx_connections ?r) = [3]" by code_simp+
  have applied: "refresh_gateway 0 (Inr (gateway_config node_ctx True ''gw_1'' demo_revoked)) (\<lambda>_. Inr []) None None (1015 * second) demo_client_of_site = (None, ?r)"
    using none unfolding demo_after_def by (metis prod.collapse)
  have ints: "list_all (\<lambda>link. lk_Priority link \<le> max_int) (mvals (st_Links demo_revoked))" by code_simp
  have "\<not> servable demo_revoked ''gw_1'' grant" if "mget (st_Grants demo_revoked) k = Some grant" for k grant
    using that by (auto simp: demo_revoked_def demo_site_def servable_def zget_def zero_Grant_def zero_User_def Let_def split: if_splits)
  moreover have "(3, snd (hd (gx_connections ?r))) \<in> set (gx_connections ?r)"
    using one by (cases "gx_connections ?r") auto
  ultimately have "cn_cancelled (snd (hd (gx_connections ?r)))"
    using revocation_reaches_gateway [OF demo_revoked_ok ints demo_client_run applied] by blast
  with before none show ?thesis by blast
qed

end
