(* ===== verification/Xray_Config.thy ===== *)
theory Xray_Config
  imports Node_Api Access_Policy
begin

text \<open>
  The configuration that a Gateway renders for Xray (\<open>src/internal/gateway/xray.go\<close>), the accounts of its own probes
  (\<open>upstream_probe.go\<close>) and the plan with which a running Xray is extended (\<open>xray_hot.go\<close>).

  The values are the structs before \<open>encoding/json\<close> renders them and after it reads them back; the sources compare and
  exchange the rendered text, which is the same for equal structs. \<open>local\<close> gathers the listen addresses of the
  node's configuration file. Texts of errors of the standard library are abbreviated.
\<close>

subsection \<open>The structs\<close>

record xrayClient =
  xc_ID :: string
  xc_Auth :: string
  xc_Email :: string
  xc_AlterID :: int

record xraySOCKSUser =
  xsu_User :: string
  xsu_Pass :: string

record xrayInboundSettings =
  xis_Auth :: string
  xis_Accounts :: "xraySOCKSUser list"
  xis_Clients :: "xrayClient list"
  xis_Version :: int
  xis_Decryption :: string
  xis_Address :: string

record xrayWSSettings =
  xws_Path :: string
  xws_Host :: string

record xrayRealitySettings =
  xrs_Target :: string
  xrs_ServerNames :: "string list"
  xrs_PrivateKey :: string
  xrs_ShortIDs :: "string list"

record xrayRealityClientSettings =
  xrc_ServerName :: string
  xrc_Fingerprint :: string
  xrc_Password :: string
  xrc_ShortID :: string
  xrc_SpiderX :: string

text \<open>The field \<open>RealitySettings any\<close>.\<close>

datatype realitySettings = NoReality | RealityServer xrayRealitySettings | RealityClient xrayRealityClientSettings

record xrayTLSCertificate =
  xtc_Certificate :: "string list"
  xtc_Key :: "string list"

record xrayTLSSettings =
  xts_ServerName :: string
  xts_ALPN :: "string list"
  xts_MinVersion :: string
  xts_Certificates :: "xrayTLSCertificate list"

record xrayHY2Masquerade =
  xhm_Type :: string
  xhm_Content :: string
  xhm_StatusCode :: int

record xrayHysteriaSettings =
  xhs_Version :: int
  xhs_Masquerade :: xrayHY2Masquerade

record xrayStreamSettings =
  xss_Network :: string
  xss_Security :: string
  xss_WSSettings :: xrayWSSettings
  xss_RealitySettings :: realitySettings
  xss_TLSSettings :: "xrayTLSSettings option"
  xss_HysteriaSettings :: "xrayHysteriaSettings option"

record xrayInbound =
  xi_Listen :: string
  xi_Port :: int
  xi_Protocol :: string
  xi_Tag :: string
  xi_Settings :: xrayInboundSettings
  xi_StreamSettings :: "xrayStreamSettings option"

record xrayFreedomFinalRule =
  xff_Action :: string
  xff_Network :: string
  xff_IP :: "string list"
  xff_Port :: string

record xrayVMessUser =
  xvu_ID :: string
  xvu_AlterID :: int
  xvu_Security :: string

record xrayVMessServer =
  xvs_Address :: string
  xvs_Port :: int
  xvs_Users :: "xrayVMessUser list"

record xraySOCKSServer =
  xsv_Address :: string
  xsv_Port :: int
  xsv_Users :: "xraySOCKSUser list"

record xrayOutboundSettings =
  xos_FinalRules :: "xrayFreedomFinalRule list"
  xos_Servers :: "xraySOCKSServer list"
  xos_Redirect :: string
  xos_VNext :: "xrayVMessServer list"
  xos_Address :: string
  xos_Port :: int
  xos_ID :: string
  xos_Encryption :: string
  xos_Flow :: string

record xrayOutbound =
  xo_Protocol :: string
  xo_Tag :: string
  xo_Settings :: xrayOutboundSettings
  xo_StreamSettings :: "xrayStreamSettings option"

record xrayRule =
  xr_Type :: string
  xr_InboundTag :: "string list"
  xr_User :: "string list"
  xr_Network :: string
  xr_Port :: string
  xr_OutboundTag :: string

record xrayRouting =
  xrt_DomainStrategy :: string
  xrt_Rules :: "xrayRule list"

record xrayAPI =
  xa_Tag :: string
  xa_Services :: "string list"

record xrayPolicy =
  xp_Levels :: "bool gomap gomap"

record xrayConfig =
  x_Log :: "string gomap"
  x_Inbounds :: "xrayInbound list"
  x_Outbounds :: "xrayOutbound list"
  x_Routing :: xrayRouting
  x_API :: "xrayAPI option"
  x_Stats :: bool
  x_Policy :: "xrayPolicy option"

definition zero_xrayClient :: xrayClient where
  "zero_xrayClient = \<lparr>xc_ID = [], xc_Auth = [], xc_Email = [], xc_AlterID = 0\<rparr>"

definition zero_InboundSettings :: xrayInboundSettings where
  "zero_InboundSettings = \<lparr>xis_Auth = [], xis_Accounts = [], xis_Clients = [], xis_Version = 0, xis_Decryption = [], xis_Address = []\<rparr>"

definition zero_StreamSettings :: xrayStreamSettings where
  "zero_StreamSettings = \<lparr>xss_Network = [], xss_Security = [], xss_WSSettings = \<lparr>xws_Path = [], xws_Host = []\<rparr>,
     xss_RealitySettings = NoReality, xss_TLSSettings = None, xss_HysteriaSettings = None\<rparr>"

definition zero_OutboundSettings :: xrayOutboundSettings where
  "zero_OutboundSettings = \<lparr>xos_FinalRules = [], xos_Servers = [], xos_Redirect = [], xos_VNext = [], xos_Address = [], xos_Port = 0,
     xos_ID = [], xos_Encryption = [], xos_Flow = []\<rparr>"

definition field_rule :: "string list \<Rightarrow> string list \<Rightarrow> string \<Rightarrow> xrayRule" where
  "field_rule inbounds users tag = \<lparr>xr_Type = ''field'', xr_InboundTag = inbounds, xr_User = users, xr_Network = [], xr_Port = [], xr_OutboundTag = tag\<rparr>"

subsection \<open>Rendering\<close>

definition deny_outbound :: xrayOutbound where
  "deny_outbound = \<lparr>xo_Protocol = ''blackhole'', xo_Tag = ''xmesh-deny'', xo_Settings = zero_OutboundSettings, xo_StreamSettings = None\<rparr>"

definition upstream_outbound :: "GatewayUpstreamConfig \<Rightarrow> error + xrayOutbound" where
  "upstream_outbound upstream =
     (let e = gu_Endpoint upstream; tag = ''upstream-'' @ gu_AttachmentID upstream in
      if gu_AttachmentID upstream = [] \<or> ve_UUID e = [] then Inl ''invalid external upstream''
      else if ve_Protocol e = ''vless'' then
        if ve_Flow e \<noteq> ''xtls-rprx-vision'' \<or> ve_Network e \<noteq> ''raw'' \<or> ve_PublicKey e = [] \<or> ve_ServerName e = []
        then Inl ''invalid VLESS REALITY upstream''
        else Inr \<lparr>xo_Protocol = ''vless'', xo_Tag = tag,
               xo_Settings = zero_OutboundSettings\<lparr>xos_Address := ve_Address e, xos_Port := ve_Port e, xos_ID := ve_UUID e,
                 xos_Encryption := ''none'', xos_Flow := ve_Flow e\<rparr>,
               xo_StreamSettings = Some (zero_StreamSettings\<lparr>xss_Network := ''raw'', xss_Security := ''reality'',
                 xss_RealitySettings := RealityClient \<lparr>xrc_ServerName = ve_ServerName e, xrc_Fingerprint = ve_Fingerprint e,
                   xrc_Password = ve_PublicKey e, xrc_ShortID = ve_ShortID e, xrc_SpiderX = ve_SpiderX e\<rparr>\<rparr>)\<rparr>
      else if ve_Protocol e \<noteq> [] \<and> ve_Protocol e \<noteq> ''vmess'' then Inl ''unsupported external upstream protocol''
      else
        let cipher = (if ve_Cipher e = [] then ''auto'' else ve_Cipher e);
            stream = zero_StreamSettings\<lparr>xss_Network := ve_Network e, xss_Security := ''none''\<rparr>;
            stream = (if ve_Network e = ''ws'' then stream\<lparr>xss_WSSettings := \<lparr>xws_Path = ve_Path e, xws_Host = ve_Host e\<rparr>\<rparr> else stream);
            stream = (if ve_TLS e then stream\<lparr>xss_Security := ''tls'', xss_TLSSettings := Some \<lparr>xts_ServerName = ve_ServerName e,
                        xts_ALPN = [], xts_MinVersion = [], xts_Certificates = []\<rparr>\<rparr> else stream)
        in Inr \<lparr>xo_Protocol = ''vmess'', xo_Tag = tag,
             xo_Settings = zero_OutboundSettings\<lparr>xos_VNext := [\<lparr>xvs_Address = ve_Address e, xvs_Port = ve_Port e,
               xvs_Users = [\<lparr>xvu_ID = ve_UUID e, xvu_AlterID = 0, xvu_Security = cipher\<rparr>]\<rparr>]\<rparr>,
             xo_StreamSettings = Some stream\<rparr>)"

fun upstream_outbounds :: "GatewayUpstreamConfig list \<Rightarrow> error + xrayOutbound list" where
  "upstream_outbounds [] = Inr []"
| "upstream_outbounds (u # us) =
     (case upstream_outbound u of
        Inl err \<Rightarrow> Inl err
      | Inr out \<Rightarrow> (case upstream_outbounds us of Inl err \<Rightarrow> Inl err | Inr outs \<Rightarrow> Inr (out # outs)))"

text \<open>\<open>net.ParseIP\<close>, which knows no zones, and \<open>strings.Trim(s, "[]")\<close>.\<close>

definition net_ParseIP :: "Env \<Rightarrow> string \<Rightarrow> Addr option" where
  "net_ParseIP env s = (case e_ParseAddr env s of None \<Rightarrow> None | Some ip \<Rightarrow> if addr_zone ip = [] then Some ip else None)"

definition trim_brackets :: "string \<Rightarrow> string" where
  "trim_brackets s = rev (dropWhile (\<lambda>c. c \<in> set ''[]'') (rev (dropWhile (\<lambda>c. c \<in> set ''[]'') s)))"

definition ingress_host :: "Env \<Rightarrow> Gateway \<Rightarrow> string" where
  "ingress_host env g =
     (if IPv6IngressHost env g \<noteq> [] then ''::''
      else case net_ParseIP env (trim_brackets (gw_PublicHost g)) of
          None \<Rightarrow> ''0.0.0.0''
        | Some ip \<Rightarrow> if \<not> addr_Is4 ip then ''::'' else ''0.0.0.0'')"

definition vmess_inbound :: "string \<Rightarrow> Gateway \<Rightarrow> xrayClient list \<Rightarrow> xrayInbound" where
  "vmess_inbound host g clients = \<lparr>xi_Listen = host, xi_Port = gw_VMessPort g, xi_Protocol = ''vmess'', xi_Tag = ''xmesh-vmess'',
     xi_Settings = zero_InboundSettings\<lparr>xis_Clients := clients\<rparr>,
     xi_StreamSettings = Some (zero_StreamSettings\<lparr>xss_Network := ''ws'', xss_Security := ''none'',
       xss_WSSettings := \<lparr>xws_Path = gw_VMessPath g, xws_Host = gw_VMessHost g\<rparr>\<rparr>)\<rparr>"

definition hy2_inbound :: "string \<Rightarrow> Gateway \<Rightarrow> xrayClient list \<Rightarrow> xrayInbound" where
  "hy2_inbound host g clients = \<lparr>xi_Listen = host, xi_Port = gw_HY2Port g, xi_Protocol = ''hysteria'', xi_Tag = ''xmesh-hy2'',
     xi_Settings = zero_InboundSettings\<lparr>xis_Version := 2, xis_Clients := clients\<rparr>,
     xi_StreamSettings = Some (zero_StreamSettings\<lparr>xss_Network := ''hysteria'', xss_Security := ''tls'',
       xss_HysteriaSettings := Some \<lparr>xhs_Version = 2, xhs_Masquerade = \<lparr>xhm_Type = ''string'', xhm_Content = ''Not Found'', xhm_StatusCode = 404\<rparr>\<rparr>,
       xss_TLSSettings := Some \<lparr>xts_ServerName = [], xts_ALPN = [''h3''], xts_MinVersion = ''1.3'', xts_Certificates =
         [\<lparr>xtc_Certificate = split_on CHR 0x0A (TrimSpace (gw_HY2Certificate g)), xtc_Key = split_on CHR 0x0A (TrimSpace (gw_HY2PrivateKey g))\<rparr>]\<rparr>\<rparr>)\<rparr>"

definition hy2_problem :: "Env \<Rightarrow> Gateway \<Rightarrow> error option" where
  "hy2_problem env g =
     (let validate = (\<lambda>host. e_hy2Validate env (gw_HY2Certificate g) (gw_HY2PrivateKey g) (gw_HY2PinSHA256 g) host (e_now env));
          extra = IPv6IngressHost env g in
      if \<not> HY2Enabled g then None
      else if gw_HY2Port g < 1 \<or> 65535 < gw_HY2Port g then Some ''invalid HY2 UDP port''
      else case validate (gw_PublicHost g) of
          Some err \<Rightarrow> Some err
        | None \<Rightarrow> if extra \<noteq> [] then validate extra else None)"

record GrantParts =
  gp_vmess :: "xrayClient list"
  gp_hy2 :: "xrayClient list"
  gp_outbounds :: "xrayOutbound list"
  gp_rules :: "xrayRule list"

definition grant_email :: "Grant \<Rightarrow> string" where
  "grant_email grant = ''grant-'' @ gr_ID grant"

definition ingress_tags :: "bool \<Rightarrow> bool \<Rightarrow> string list" where
  "ingress_tags vmess hy2 = (if vmess then [''xmesh-vmess''] else []) @ (if hy2 then [''xmesh-hy2''] else [])"

definition grant_tag :: "string list \<Rightarrow> Grant \<Rightarrow> string" where
  "grant_tag external grant =
     (if gr_AttachmentID grant \<in> set external then ''upstream-'' @ gr_AttachmentID grant else grant_email grant)"

definition socks_outbound :: "string \<Rightarrow> int \<Rightarrow> Grant \<Rightarrow> xrayOutbound" where
  "socks_outbound host port grant = \<lparr>xo_Protocol = ''socks'', xo_Tag = grant_email grant,
     xo_Settings = zero_OutboundSettings\<lparr>xos_Servers := [\<lparr>xsv_Address = host, xsv_Port = port,
       xsv_Users = [\<lparr>xsu_User = gr_SOCKSUsername grant, xsu_Pass = gr_SOCKSPassword grant\<rparr>]\<rparr>]\<rparr>,
     xo_StreamSettings = None\<rparr>"

text \<open>The loop over the grants; \<open>seen\<close> are the HY2 secrets so far.\<close>

fun grant_parts :: "bool \<Rightarrow> bool \<Rightarrow> string list \<Rightarrow> string \<Rightarrow> int \<Rightarrow> string list \<Rightarrow> Grant list \<Rightarrow> error + GrantParts" where
  "grant_parts vmess hy2 external host port seen [] = Inr \<lparr>gp_vmess = [], gp_hy2 = [], gp_outbounds = [], gp_rules = []\<rparr>"
| "grant_parts vmess hy2 external host port seen (grant # grants) =
     (if \<not> gr_Enabled grant then grant_parts vmess hy2 external host port seen grants
      else if hy2 \<and> (gr_HY2Auth grant = [] \<or> gr_HY2Auth grant \<in> set seen) then Inl ''HY2 requires a unique credential for each Grant''
      else case grant_parts vmess hy2 external host port (if hy2 then gr_HY2Auth grant # seen else seen) grants of
          Inl err \<Rightarrow> Inl err
        | Inr p \<Rightarrow>
            let email = grant_email grant; tags = ingress_tags vmess hy2 in
            if tags = [] then Inr p
            else Inr \<lparr>gp_vmess = (if vmess then [\<lparr>xc_ID = gr_VMessUUID grant, xc_Auth = [], xc_Email = email, xc_AlterID = 0\<rparr>] else []) @ gp_vmess p,
                   gp_hy2 = (if hy2 then [\<lparr>xc_ID = [], xc_Auth = gr_HY2Auth grant, xc_Email = email, xc_AlterID = 0\<rparr>] else []) @ gp_hy2 p,
                   gp_outbounds = (if gr_AttachmentID grant \<in> set external then [] else [socks_outbound host port grant]) @ gp_outbounds p,
                   gp_rules = field_rule tags [email] (grant_tag external grant) # gp_rules p\<rparr>)"

definition deny_rules :: "string list \<Rightarrow> xrayRule list" where
  "deny_rules tags =
     (if tags = [] then []
      else [\<lparr>xr_Type = ''field'', xr_InboundTag = tags, xr_User = [], xr_Network = ''tcp'', xr_Port = BlockedTCPPorts, xr_OutboundTag = ''xmesh-deny''\<rparr>])"

text \<open>The inbound, API and rule of the statistics, when they are on.\<close>

definition add_stats :: "Env \<Rightarrow> string \<Rightarrow> xrayConfig \<Rightarrow> error + xrayConfig" where
  "add_stats env statsAddress x =
     (if statsAddress = [] then Inr x
      else case e_SplitHostPort env statsAddress of
          None \<Rightarrow> Inl ''Xray stats must listen on 127.0.0.1''
        | Some (host, portText) \<Rightarrow>
            if host \<noteq> ''127.0.0.1'' then Inl ''Xray stats must listen on 127.0.0.1''
            else case ParseInt portText of
                None \<Rightarrow> Inl ''invalid Xray stats port''
              | Some port \<Rightarrow>
                  if port < 1 \<or> 65535 < port then Inl ''invalid Xray stats port''
                  else Inr (x\<lparr>x_Inbounds := x_Inbounds x @ [\<lparr>xi_Listen = host, xi_Port = port, xi_Protocol = ''dokodemo-door'', xi_Tag = ''xmesh-stats-api'',
                              xi_Settings = zero_InboundSettings\<lparr>xis_Address := host\<rparr>, xi_StreamSettings = None\<rparr>],
                            x_API := Some \<lparr>xa_Tag = ''xmesh-api'', xa_Services = [''StatsService'', ''HandlerService'', ''RoutingService'']\<rparr>,
                            x_Stats := True,
                            x_Policy := Some \<lparr>xp_Levels = [(''0'', [(''statsUserUplink'', True), (''statsUserDownlink'', True)])]\<rparr>,
                            x_Routing := (x_Routing x)\<lparr>xrt_Rules := xrt_Rules (x_Routing x) @ [field_rule [''xmesh-stats-api''] [] ''xmesh-api'']\<rparr>\<rparr>))"

definition reality_links :: "GatewayLinkConfig list \<Rightarrow> Link list" where
  "reality_links links = filter (\<lambda>link. lk_Enabled link \<and> lk_RealityUUID link \<noteq> []) (map gk_Link links)"

definition reality_inbound :: "string \<Rightarrow> int \<Rightarrow> Gateway \<Rightarrow> Link list \<Rightarrow> xrayInbound" where
  "reality_inbound host port g links = \<lparr>xi_Listen = host, xi_Port = port, xi_Protocol = ''vless'', xi_Tag = ''xmesh-reality'',
     xi_Settings = zero_InboundSettings\<lparr>xis_Decryption := ''none'',
       xis_Clients := map (\<lambda>link. \<lparr>xc_ID = lk_RealityUUID link, xc_Auth = [], xc_Email = ''link-'' @ lk_ID link, xc_AlterID = 0\<rparr>) links\<rparr>,
     xi_StreamSettings = Some (zero_StreamSettings\<lparr>xss_Network := ''raw'', xss_Security := ''reality'',
       xss_RealitySettings := RealityServer \<lparr>xrs_Target = gw_RealityTarget g, xrs_ServerNames = [gw_RealityName g],
         xrs_PrivateKey = gw_RealityPrivateKey g, xrs_ShortIDs = map lk_RealityShortID links\<rparr>\<rparr>)\<rparr>"

text \<open>The address that tunnels over REALITY are redirected to, and the one it is restricted to.\<close>

definition local_target :: "Env \<Rightarrow> string \<Rightarrow> string \<times> string list" where
  "local_target env tunnelHost =
     (let host = (if tunnelHost = [] then ''127.0.0.1'' else tunnelHost) in
      case net_ParseIP env host of
        None \<Rightarrow> (host, [])
      | Some ip \<Rightarrow>
          let host = (if addr_text ip \<in> {''0.0.0.0'', ''::''} then if addr_Is4 ip then ''127.0.0.1'' else ''::1'' else addr_text ip)
          in (host, [host]))"

definition reality_outbound :: "Env \<Rightarrow> string \<Rightarrow> string \<Rightarrow> xrayOutbound" where
  "reality_outbound env tunnelHost tunnelPort =
     (let (host, ips) = local_target env tunnelHost
      in \<lparr>xo_Protocol = ''freedom'', xo_Tag = ''xmesh-reality-local'',
          xo_Settings = zero_OutboundSettings\<lparr>xos_Redirect := e_JoinHostPort env host tunnelPort,
            xos_FinalRules := [\<lparr>xff_Action = ''allow'', xff_Network = ''tcp'', xff_IP = ips, xff_Port = tunnelPort\<rparr>]\<rparr>,
          xo_StreamSettings = None\<rparr>)"

definition add_reality :: "Env \<Rightarrow> string \<Rightarrow> string \<Rightarrow> string \<Rightarrow> Gateway \<Rightarrow> GatewayLinkConfig list \<Rightarrow> xrayConfig \<Rightarrow> error + xrayConfig" where
  "add_reality env ingress realityAddress tunnelAddress g links x =
     (if gw_RealityPrivateKey g = [] then Inr x
      else case e_SplitHostPort env realityAddress of
          None \<Rightarrow> Inl ''REALITY listen''
        | Some (host, portText) \<Rightarrow>
            (case ParseInt portText of
               None \<Rightarrow> Inl ''invalid REALITY listen port''
             | Some port \<Rightarrow>
                 if port \<le> 0 \<or> 65535 < port then Inl ''invalid REALITY listen port''
                 else case e_SplitHostPort env tunnelAddress of
                     None \<Rightarrow> Inl ''tunnel listen''
                   | Some (tunnelHost, tunnelPort) \<Rightarrow>
                       let host = (if host = [] \<or> host = ''0.0.0.0'' then ingress else host); used = reality_links links in
                       if used = [] then Inr x
                       else Inr (x\<lparr>x_Inbounds := x_Inbounds x @ [reality_inbound host port g used],
                              x_Outbounds := x_Outbounds x @ [reality_outbound env tunnelHost tunnelPort],
                              x_Routing := (x_Routing x)\<lparr>xrt_Rules := xrt_Rules (x_Routing x) @
                                [field_rule [''xmesh-reality''] [] ''xmesh-reality-local'']\<rparr>\<rparr>)))"

definition canonical_config :: "GatewayConfig \<Rightarrow> GatewayConfig" where
  "canonical_config config = config\<lparr>gc_Grants := sort_slice (\<lambda>a b. gr_ID a < gr_ID b) (gc_Grants config),
     gc_Links := sort_slice (\<lambda>a b. lk_ID (gk_Link a) < lk_ID (gk_Link b)) (gc_Links config),
     gc_Upstreams := sort_slice (\<lambda>a b. gu_AttachmentID a < gu_AttachmentID b) (gc_Upstreams config)\<rparr>"

text \<open>The part of the configuration that serves users, before statistics and REALITY are added.\<close>

definition client_config :: "Gateway \<Rightarrow> string \<Rightarrow> xrayOutbound list \<Rightarrow> GrantParts \<Rightarrow> xrayConfig" where
  "client_config g host outbounds p =
     \<lparr>x_Log = [(''loglevel'', ''warning''), (''access'', ''none'')],
      x_Inbounds = (if VMessEnabled g then [vmess_inbound host g (gp_vmess p)] else []) @ (if HY2Enabled g then [hy2_inbound host g (gp_hy2 p)] else []),
      x_Outbounds = deny_outbound # outbounds @ gp_outbounds p,
      x_Routing = \<lparr>xrt_DomainStrategy = ''AsIs'', xrt_Rules = deny_rules (ingress_tags (VMessEnabled g) (HY2Enabled g)) @ gp_rules p\<rparr>,
      x_API = None, x_Stats = False, x_Policy = None\<rparr>"

definition buildXrayConfigWithStats :: "Env \<Rightarrow> GatewayConfig \<Rightarrow> string \<Rightarrow> string \<Rightarrow> string \<Rightarrow> string \<Rightarrow> error + xrayConfig" where
  "buildXrayConfigWithStats env config socksAddress realityAddress tunnelAddress statsAddress =
     (let config = canonical_config config; g = gc_Gateway config in
      case e_SplitHostPort env socksAddress of
        None \<Rightarrow> Inl ''SOCKS listen''
      | Some (host, portText) \<Rightarrow>
          (case ParseInt portText of
             None \<Rightarrow> Inl ''SOCKS port''
           | Some port \<Rightarrow>
               (case upstream_outbounds (gc_Upstreams config) of
                  Inl err \<Rightarrow> Inl err
                | Inr outbounds \<Rightarrow>
                    (case hy2_problem env g of
                       Some err \<Rightarrow> Inl err
                     | None \<Rightarrow>
                         (case grant_parts (VMessEnabled g) (HY2Enabled g) (map gu_AttachmentID (gc_Upstreams config)) host port [] (gc_Grants config) of
                            Inl err \<Rightarrow> Inl err
                          | Inr p \<Rightarrow>
                              (case add_stats env statsAddress (client_config g (ingress_host env g) outbounds p) of
                                 Inl err \<Rightarrow> Inl err
                               | Inr x \<Rightarrow> add_reality env (ingress_host env g) realityAddress tunnelAddress g (gc_Links config) x))))))"

subsection \<open>Probes of the external nodes\<close>

definition upstreamProbeAuth :: "Env \<Rightarrow> string \<Rightarrow> string \<Rightarrow> string \<times> string" where
  "upstreamProbeAuth env secret attachment = (''probe-'' @ attachment, hex_string (e_hmac env secret (''upstream-probe/'' @ attachment)))"

definition addUpstreamProbeInbound :: "Env \<Rightarrow> xrayConfig \<Rightarrow> GatewayConfig \<Rightarrow> string \<Rightarrow> string \<Rightarrow> error + xrayConfig" where
  "addUpstreamProbeInbound env x config address secret =
     (if gc_Upstreams config = [] \<or> address = [] then Inr x
      else case e_SplitHostPort env address of
          None \<Rightarrow> Inl ''upstream probe requires an authenticated 127.0.0.1 listener''
        | Some (host, portText) \<Rightarrow>
            if host \<noteq> ''127.0.0.1'' \<or> secret = [] then Inl ''upstream probe requires an authenticated 127.0.0.1 listener''
            else case ParseInt portText of
                None \<Rightarrow> Inl ''invalid upstream probe port''
              | Some port \<Rightarrow>
                  if port < 1 \<or> 65535 < port then Inl ''invalid upstream probe port''
                  else
                    let ids = map gu_AttachmentID (sort_slice (\<lambda>a b. gu_AttachmentID a < gu_AttachmentID b) (gc_Upstreams config));
                        accounts = map (\<lambda>i. case upstreamProbeAuth env secret i of (user, pass) \<Rightarrow> \<lparr>xsu_User = user, xsu_Pass = pass\<rparr>) ids;
                        rules = map (\<lambda>i. field_rule [''xmesh-upstream-probe''] [fst (upstreamProbeAuth env secret i)] (''upstream-'' @ i)) ids
                    in if list_ex (\<lambda>i. 255 < length (fst (upstreamProbeAuth env secret i))) ids then Inl ''upstream probe account is too long''
                       else Inr (x\<lparr>x_Inbounds := x_Inbounds x @ [\<lparr>xi_Listen = host, xi_Port = port, xi_Protocol = ''socks'', xi_Tag = ''xmesh-upstream-probe'',
                                   xi_Settings = zero_InboundSettings\<lparr>xis_Auth := ''password'', xis_Accounts := accounts\<rparr>, xi_StreamSettings = None\<rparr>],
                                 x_Routing := (x_Routing x)\<lparr>xrt_Rules := rules @ xrt_Rules (x_Routing x)\<rparr>\<rparr>))"

record LocalGateway =
  lg_SOCKSListen :: string
  lg_RealityListen :: string
  lg_TunnelListen :: string
  lg_StatsListen :: string
  lg_UpstreamProbeListen :: string
  lg_Credential :: string

definition xrayPayload :: "Env \<Rightarrow> LocalGateway \<Rightarrow> GatewayConfig \<Rightarrow> error + xrayConfig" where
  "xrayPayload env loc config =
     (case buildXrayConfigWithStats env config (lg_SOCKSListen loc) (lg_RealityListen loc) (lg_TunnelListen loc) (lg_StatsListen loc) of
        Inl err \<Rightarrow> Inl err
      | Inr x \<Rightarrow> addUpstreamProbeInbound env x config (lg_UpstreamProbeListen loc) (lg_Credential loc))"

subsection \<open>Extending a running Xray\<close>

datatype xrayAccount = VMessAccount string | HY2Account string

record xrayUserAddition =
  xua_tag :: string
  xua_email :: string
  xua_account :: xrayAccount

record xrayAddition =
  xad_users :: "xrayUserAddition list"
  xad_outbounds :: "xrayOutbound list"
  xad_routing :: xrayRouting

definition zero_xrayOutbound :: xrayOutbound where
  "zero_xrayOutbound = \<lparr>xo_Protocol = [], xo_Tag = [], xo_Settings = zero_OutboundSettings, xo_StreamSettings = None\<rparr>"

abbreviation inbound_clients :: "xrayInbound \<Rightarrow> xrayClient list" where
  "inbound_clients inbound \<equiv> xis_Clients (xi_Settings inbound)"

definition without_clients :: "xrayInbound \<Rightarrow> xrayInbound" where
  "without_clients inbound = inbound\<lparr>xi_Settings := (xi_Settings inbound)\<lparr>xis_Clients := []\<rparr>\<rparr>"

definition extensible :: "xrayInbound \<Rightarrow> bool" where
  "extensible inbound = (xi_Protocol inbound = ''vmess'' \<or> xi_Protocol inbound = ''hysteria'')"

text \<open>The table of the desired clients, unless one has no name or the name of another; then the old ones struck off.\<close>

fun client_table :: "xrayClient list \<Rightarrow> xrayClient gomap \<Rightarrow> xrayClient gomap option" where
  "client_table [] m = Some m"
| "client_table (c # cs) m =
     (if mget m (xc_Email c) \<noteq> None \<or> xc_Email c = [] then None else client_table cs (mput (xc_Email c) c m))"

fun strike_clients :: "xrayClient list \<Rightarrow> xrayClient gomap \<Rightarrow> xrayClient gomap option" where
  "strike_clients [] m = Some m"
| "strike_clients (c # cs) m =
     (if zget zero_xrayClient m (xc_Email c) \<noteq> c then None else strike_clients cs (mdel (xc_Email c) m))"

definition user_addition :: "xrayInbound \<Rightarrow> xrayInbound \<Rightarrow> xrayClient \<Rightarrow> xrayUserAddition" where
  "user_addition inbound candidate client = \<lparr>xua_tag = xi_Tag candidate, xua_email = xc_Email client,
     xua_account = (if xi_Protocol inbound = ''vmess'' then VMessAccount (xc_ID client) else HY2Account (xc_Auth client))\<rparr>"

definition plan_inbound :: "xrayInbound \<Rightarrow> xrayInbound \<Rightarrow> xrayUserAddition list option" where
  "plan_inbound inbound candidate =
     (if \<not> extensible inbound then (if inbound = candidate then Some [] else None)
      else case client_table (inbound_clients candidate) [] of
          None \<Rightarrow> None
        | Some clients \<Rightarrow>
            (case strike_clients (inbound_clients inbound) clients of
               None \<Rightarrow> None
             | Some clients \<Rightarrow>
                 if without_clients inbound \<noteq> without_clients candidate then None
                 else Some (map (user_addition inbound candidate)
                        (filter (\<lambda>client. mget clients (xc_Email client) \<noteq> None) (inbound_clients candidate)))))"

fun plan_inbounds :: "(xrayInbound \<times> xrayInbound) list \<Rightarrow> xrayUserAddition list option" where
  "plan_inbounds [] = Some []"
| "plan_inbounds ((inbound, candidate) # rest) =
     (case plan_inbound inbound candidate of
        None \<Rightarrow> None
      | Some users \<Rightarrow> map_option ((@) users) (plan_inbounds rest))"

fun strike_outbounds :: "xrayOutbound list \<Rightarrow> xrayOutbound gomap \<Rightarrow> xrayOutbound gomap option" where
  "strike_outbounds [] m = Some m"
| "strike_outbounds (out # outs) m =
     (if zget zero_xrayOutbound m (xo_Tag out) \<noteq> out then None else strike_outbounds outs (mdel (xo_Tag out) m))"

text \<open>The old rules that are not found in order among the desired ones.\<close>

fun rules_left :: "xrayRule list \<Rightarrow> xrayRule list \<Rightarrow> xrayRule list" where
  "rules_left old [] = old"
| "rules_left [] (rule # rules) = []"
| "rules_left (o' # old) (rule # rules) = (if rule = o' then rules_left old rules else rules_left (o' # old) rules)"

definition planXrayAddition :: "xrayConfig \<Rightarrow> xrayConfig \<Rightarrow> xrayAddition option" where
  "planXrayAddition old desired =
     (if (case x_API old of None \<Rightarrow> True
          | Some api \<Rightarrow> ''HandlerService'' \<notin> set (xa_Services api) \<or> ''RoutingService'' \<notin> set (xa_Services api)) then None
      else if length (x_Inbounds old) \<noteq> length (x_Inbounds desired) then None
      else case plan_inbounds (zip (x_Inbounds old) (x_Inbounds desired)) of
          None \<Rightarrow> None
        | Some users \<Rightarrow>
            (case strike_outbounds (x_Outbounds old) (fold (\<lambda>out. mput (xo_Tag out) out) (x_Outbounds desired) []) of
               None \<Rightarrow> None
             | Some remaining \<Rightarrow>
                 if rules_left (xrt_Rules (x_Routing old)) (xrt_Rules (x_Routing desired)) \<noteq> [] \<or>
                    xrt_DomainStrategy (x_Routing old) \<noteq> xrt_DomainStrategy (x_Routing desired) then None
                 else if (x_Log old, x_API old, x_Stats old, x_Policy old) \<noteq> (x_Log desired, x_API desired, x_Stats desired, x_Policy desired) then None
                 else Some \<lparr>xad_users = users,
                        xad_outbounds = filter (\<lambda>out. mget remaining (xo_Tag out) \<noteq> None) (x_Outbounds desired),
                        xad_routing = x_Routing desired\<rparr>))"

end
