(* ===== verification/Xray_Routing.thy ===== *)
theory Xray_Routing
  imports Xray_Config Gateway_Runtime "HOL-Library.Sublist"
begin

text \<open>
  What the rendered configuration of Xray gives to whom: every grant its own way out, whatever the others are; the same
  configuration for the same grants, links and nodes in any order; and additions to a running Xray that only add.
\<close>

subsection \<open>The parts of a configuration\<close>

definition enabled_grants :: "GatewayConfig \<Rightarrow> Grant list" where
  "enabled_grants config = filter gr_Enabled (gc_Grants (canonical_config config))"

definition vmess_client :: "Grant \<Rightarrow> xrayClient" where
  "vmess_client grant = \<lparr>xc_ID = gr_VMessUUID grant, xc_Auth = [], xc_Email = grant_email grant, xc_AlterID = 0\<rparr>"

definition hy2_client :: "Grant \<Rightarrow> xrayClient" where
  "hy2_client grant = \<lparr>xc_ID = [], xc_Auth = gr_HY2Auth grant, xc_Email = grant_email grant, xc_AlterID = 0\<rparr>"

text \<open>The loop over the grants, in closed form.\<close>

lemma grant_parts_eq:
  assumes "grant_parts vmess hy2 external host port seen grants = Inr p" "vmess \<or> hy2"
  defines "es \<equiv> filter gr_Enabled grants"
  shows "gp_rules p = map (\<lambda>g. field_rule (ingress_tags vmess hy2) [grant_email g] (grant_tag external g)) es"
    "gp_outbounds p = map (socks_outbound host port) (filter (\<lambda>g. gr_AttachmentID g \<notin> set external) es)"
    "gp_vmess p = (if vmess then map vmess_client es else [])" "gp_hy2 p = (if hy2 then map hy2_client es else [])"
    "hy2 \<Longrightarrow> distinct (map gr_HY2Auth es) \<and> set (map gr_HY2Auth es) \<inter> insert [] (set seen) = {}"
proof -
  have "gp_rules p = map (\<lambda>g. field_rule (ingress_tags vmess hy2) [grant_email g] (grant_tag external g)) es \<and>
    gp_outbounds p = map (socks_outbound host port) (filter (\<lambda>g. gr_AttachmentID g \<notin> set external) es) \<and>
    gp_vmess p = (if vmess then map vmess_client es else []) \<and> gp_hy2 p = (if hy2 then map hy2_client es else []) \<and>
    (hy2 \<longrightarrow> distinct (map gr_HY2Auth es) \<and> set (map gr_HY2Auth es) \<inter> insert [] (set seen) = {})"
    using assms(1) unfolding es_def
  proof (induction grants arbitrary: seen p)
    case (Cons grant grants)
    show ?case
    proof (cases "gr_Enabled grant")
      case True
      let ?seen = "if hy2 then gr_HY2Auth grant # seen else seen"
      have tags: "ingress_tags vmess hy2 \<noteq> []" using assms(2) by (auto simp: ingress_tags_def)
      obtain q where q: "grant_parts vmess hy2 external host port ?seen grants = Inr q"
        and new: "hy2 \<Longrightarrow> gr_HY2Auth grant \<noteq> [] \<and> gr_HY2Auth grant \<notin> set seen"
        using Cons.prems True by (auto split: if_splits sum.splits)
      show ?thesis
        using Cons.prems True tags q new Cons.IH [OF q]
        by (auto simp: Let_def vmess_client_def hy2_client_def split: if_splits)
    next
      case False
      with Cons.prems Cons.IH [of seen p] show ?thesis by simp
    qed
  qed simp
  then show "gp_rules p = map (\<lambda>g. field_rule (ingress_tags vmess hy2) [grant_email g] (grant_tag external g)) es"
    "gp_outbounds p = map (socks_outbound host port) (filter (\<lambda>g. gr_AttachmentID g \<notin> set external) es)"
    "gp_vmess p = (if vmess then map vmess_client es else [])" "gp_hy2 p = (if hy2 then map hy2_client es else [])"
    "hy2 \<Longrightarrow> distinct (map gr_HY2Auth es) \<and> set (map gr_HY2Auth es) \<inter> insert [] (set seen) = {}"
    by blast+
qed

lemma upstream_outbound_tag: "upstream_outbound u = Inr out \<Longrightarrow> xo_Tag out = ''upstream-'' @ gu_AttachmentID u"
  by (auto simp: upstream_outbound_def Let_def split: if_splits)

lemma upstream_outbounds_of: "upstream_outbounds us = Inr outs \<Longrightarrow> out \<in> set outs \<Longrightarrow> \<exists>u. u \<in> set us \<and> upstream_outbound u = Inr out"
  by (induction us arbitrary: outs) (fastforce split: sum.splits)+

lemma upstream_outbounds_tags: "upstream_outbounds us = Inr outs \<Longrightarrow> map xo_Tag outs = map (\<lambda>u. ''upstream-'' @ gu_AttachmentID u) us"
  by (induction us arbitrary: outs) (auto simp: upstream_outbound_tag split: sum.splits)

text \<open>Statistics, REALITY and probes add inbounds, outbounds and rules of their own around those of the users.\<close>

definition around :: "xrayRule list \<Rightarrow> xrayOutbound list \<Rightarrow> xrayInbound list \<Rightarrow> xrayRule list \<Rightarrow> xrayConfig \<Rightarrow> xrayConfig \<Rightarrow> bool" where
  "around pre outs ins post x y \<longleftrightarrow> x_Inbounds y = x_Inbounds x @ ins \<and> x_Outbounds y = x_Outbounds x @ outs \<and>
     xrt_Rules (x_Routing y) = pre @ xrt_Rules (x_Routing x) @ post"

definition own_rule :: "xrayRule \<Rightarrow> bool" where
  "own_rule r = (xr_User r = [] \<and> (xr_InboundTag r = [''xmesh-stats-api''] \<or> xr_InboundTag r = [''xmesh-reality'']))"

lemma add_stats_around:
  "add_stats env addr x = Inr y \<Longrightarrow> \<exists>ins post. around [] [] ins post x y \<and> list_all own_rule post \<and> list_all (\<lambda>i. xi_Tag i = ''xmesh-stats-api'') ins"
  by (auto simp: add_stats_def around_def own_rule_def field_rule_def split: if_splits option.splits prod.splits)

lemma add_reality_around:
  "add_reality env ingress ra ta g links x = Inr y \<Longrightarrow> \<exists>outs ins post. around [] outs ins post x y \<and> list_all own_rule post \<and>
     list_all (\<lambda>i. xi_Tag i = ''xmesh-reality'') ins \<and> list_all (\<lambda>out. xo_Tag out = ''xmesh-reality-local'') outs"
  by (auto simp: add_reality_def around_def own_rule_def field_rule_def reality_inbound_def reality_outbound_def Let_def
      split: if_splits option.splits prod.splits)

lemma addUpstreamProbeInbound_around:
  "addUpstreamProbeInbound env x config addr secret = Inr y \<Longrightarrow> \<exists>pre ins. around pre [] ins [] x y \<and>
     list_all (\<lambda>r. xr_InboundTag r = [''xmesh-upstream-probe''] \<and> (\<exists>i. xr_User r = [''probe-'' @ i])) pre \<and> list_all (\<lambda>i. xi_Tag i = ''xmesh-upstream-probe'') ins"
  by (fastforce simp: addUpstreamProbeInbound_def around_def field_rule_def upstreamProbeAuth_def Let_def list_all_iff
      split: if_splits option.splits prod.splits)

subsection \<open>A way out of its own\<close>

lemma filter_key: "distinct (map f xs) \<Longrightarrow> x \<in> set xs \<Longrightarrow> filter (\<lambda>y. f y = f x) xs = [x]"
  by (induction xs) (auto simp: filter_empty_conv image_iff)

lemma sorted_by_key:
  fixes key :: "'a \<Rightarrow> string"
  assumes "distinct (map key xs)" "mset xs = mset ys"
  shows "sort_slice (\<lambda>a b. key a < key b) xs = sort_slice (\<lambda>a b. key a < key b) ys"
proof -
  let ?s = "sort_slice (\<lambda>a b. key a < key b)"
  have sorted: "sorted_wrt (\<lambda>x y. \<not> y < x) (map key (?s zs))" for zs
    using weak_order.sorted_sort_slice [OF string_weak_order, of key zs] by (simp add: sorted_wrt_map)
  have "map key (?s xs) = map key (?s ys)"
    by (rule string_order.sorted_unique [OF sorted sorted]) (simp add: assms(2))
  moreover have "inj_on key (set (?s xs) \<union> set (?s ys))"
    using assms(1) mset_eq_setD [OF assms(2)] by (simp add: distinct_map)
  ultimately show ?thesis by (rule map_inj_on)
qed

lemma distinct_map_mset: "mset xs = mset ys \<Longrightarrow> distinct (map f xs) = distinct (map f ys)"
  by (metis mset_map mset_eq_imp_distinct_iff)

lemma canonical_fields [simp]:
  "gc_Gateway (canonical_config config) = gc_Gateway config"
  "set (gc_Grants (canonical_config config)) = set (gc_Grants config)"
  "set (gc_Upstreams (canonical_config config)) = set (gc_Upstreams config)"
  by (simp_all add: canonical_config_def)

lemma distinct_canonical:
  "distinct (map gr_ID (gc_Grants config)) \<Longrightarrow> distinct (map gr_ID (gc_Grants (canonical_config config)))"
  "distinct (map gu_AttachmentID (gc_Upstreams config)) \<Longrightarrow> distinct (map gu_AttachmentID (gc_Upstreams (canonical_config config)))"
  by (simp_all add: canonical_config_def distinct_map_mset [OF mset_sort_slice])

abbreviation client_tags :: "GatewayConfig \<Rightarrow> string list" where
  "client_tags config \<equiv> ingress_tags (VMessEnabled (gc_Gateway config)) (HY2Enabled (gc_Gateway config))"

abbreviation external_routes :: "GatewayConfig \<Rightarrow> string list" where
  "external_routes config \<equiv> map gu_AttachmentID (gc_Upstreams (canonical_config config))"

text \<open>The anatomy of a rendered configuration that serves users.\<close>

lemma xrayPayload_parts:
  assumes "xrayPayload env loc config = Inr x" "VMessEnabled (gc_Gateway config) \<or> HY2Enabled (gc_Gateway config)"
  obtains host port listen outbounds pre post outs ins where
    "upstream_outbounds (gc_Upstreams (canonical_config config)) = Inr outbounds"
    "x_Outbounds x = deny_outbound # outbounds @ map (socks_outbound host port)
       (filter (\<lambda>g. gr_AttachmentID g \<notin> set (external_routes config)) (enabled_grants config)) @ outs"
    "list_all (\<lambda>out. xo_Tag out = ''xmesh-reality-local'') outs"
    "xrt_Rules (x_Routing x) = pre @ deny_rules (client_tags config) @
       map (\<lambda>g. field_rule (client_tags config) [grant_email g] (grant_tag (external_routes config) g)) (enabled_grants config) @ post"
    "list_all (\<lambda>r. xr_InboundTag r = [''xmesh-upstream-probe''] \<and> (\<exists>i. xr_User r = [''probe-'' @ i])) pre" "list_all own_rule post"
    "x_Inbounds x = (if VMessEnabled (gc_Gateway config) then [vmess_inbound listen (gc_Gateway config) (map vmess_client (enabled_grants config))] else []) @
       (if HY2Enabled (gc_Gateway config) then [hy2_inbound listen (gc_Gateway config) (map hy2_client (enabled_grants config))] else []) @ ins"
    "list_all (\<lambda>i. xi_Tag i \<in> {''xmesh-stats-api'', ''xmesh-reality'', ''xmesh-upstream-probe''}) ins"
proof -
  let ?c = "canonical_config config" and ?g = "gc_Gateway config"
  obtain x2 where x2: "buildXrayConfigWithStats env config (lg_SOCKSListen loc) (lg_RealityListen loc) (lg_TunnelListen loc) (lg_StatsListen loc) = Inr x2"
    and x: "addUpstreamProbeInbound env x2 config (lg_UpstreamProbeListen loc) (lg_Credential loc) = Inr x"
    using assms(1) by (auto simp: xrayPayload_def split: sum.splits)
  obtain host port outbounds p x1 where outbounds: "upstream_outbounds (gc_Upstreams ?c) = Inr outbounds"
    and p: "grant_parts (VMessEnabled ?g) (HY2Enabled ?g) (external_routes config) host port [] (gc_Grants ?c) = Inr p"
    and x1: "add_stats env (lg_StatsListen loc) (client_config ?g (ingress_host env ?g) outbounds p) = Inr x1"
    and x2': "add_reality env (ingress_host env ?g) (lg_RealityListen loc) (lg_TunnelListen loc) ?g (gc_Links ?c) x1 = Inr x2"
    using x2 by (auto simp: buildXrayConfigWithStats_def Let_def split: sum.splits option.splits prod.splits)
  note parts = grant_parts_eq [OF p assms(2), folded enabled_grants_def]
  obtain ins1 post1 where s1: "around [] [] ins1 post1 (client_config ?g (ingress_host env ?g) outbounds p) x1" "list_all own_rule post1"
    "list_all (\<lambda>i. xi_Tag i = ''xmesh-stats-api'') ins1" using add_stats_around [OF x1] by blast
  obtain outs ins2 post2 where s2: "around [] outs ins2 post2 x1 x2" "list_all own_rule post2" "list_all (\<lambda>i. xi_Tag i = ''xmesh-reality'') ins2"
    "list_all (\<lambda>out. xo_Tag out = ''xmesh-reality-local'') outs" using add_reality_around [OF x2'] by blast
  obtain pre ins3 where s3: "around pre [] ins3 [] x2 x"
    "list_all (\<lambda>r. xr_InboundTag r = [''xmesh-upstream-probe''] \<and> (\<exists>i. xr_User r = [''probe-'' @ i])) pre"
    "list_all (\<lambda>i. xi_Tag i = ''xmesh-upstream-probe'') ins3" using addUpstreamProbeInbound_around [OF x] by blast
  show thesis
    by (rule that [of outbounds host port outs pre "post1 @ post2" "ingress_host env ?g" "ins1 @ ins2 @ ins3"])
      (use outbounds s1 s2 s3 parts in \<open>auto simp: around_def client_config_def list_all_iff\<close>)
qed

lemma email_eq [simp]: "grant_email g = grant_email g' \<longleftrightarrow> gr_ID g = gr_ID g'"
  by (simp add: grant_email_def)

lemma own_tags_differ:
  "grant_email g \<noteq> ''upstream-'' @ i" "grant_email g \<noteq> ''xmesh-'' @ i" "grant_email g \<noteq> ''probe-'' @ i" "''upstream-'' @ i \<noteq> ''xmesh-'' @ j"
  by (simp_all add: grant_email_def)

text \<open>The rules for a user.\<close>

lemma user_rules:
  assumes rules: "rules = pre @ deny_rules tags @ map (\<lambda>g. field_rule tags [grant_email g] (f g)) es @ post"
    and pre: "list_all (\<lambda>r. xr_InboundTag r = [''xmesh-upstream-probe''] \<and> (\<exists>i. xr_User r = [''probe-'' @ i])) pre" and post: "list_all own_rule post"
    and es: "distinct (map gr_ID es)" "grant \<in> set es"
  shows "filter (\<lambda>r. grant_email grant \<in> set (xr_User r)) rules = [field_rule tags [grant_email grant] (f grant)]"
proof -
  have "filter (\<lambda>r. grant_email grant \<in> set (xr_User r)) pre = []" "filter (\<lambda>r. grant_email grant \<in> set (xr_User r)) post = []"
    "filter (\<lambda>r. grant_email grant \<in> set (xr_User r)) (deny_rules tags) = []"
    using pre post own_tags_differ(3) [of grant] by (auto simp: filter_empty_conv list_all_iff own_rule_def deny_rules_def)
  moreover have "filter (\<lambda>r. grant_email grant \<in> set (xr_User r)) (map (\<lambda>g. field_rule tags [grant_email g] (f g)) es) =
      map (\<lambda>g. field_rule tags [grant_email g] (f g)) (filter (\<lambda>g. gr_ID g = gr_ID grant) es)"
    by (auto simp: filter_map comp_def field_rule_def intro!: arg_cong [where f = "map _"] filter_cong)
  ultimately show ?thesis
    using filter_key [OF es] by (simp add: rules)
qed

text \<open>The outbound with a given tag.\<close>

lemma user_outbound:
  assumes outs: "outbounds = deny_outbound # ups @ map (socks_outbound host port) (filter (\<lambda>g. gr_AttachmentID g \<notin> set external) es) @ own"
    and own: "list_all (\<lambda>out. xo_Tag out = ''xmesh-reality-local'') own"
    and ups: "upstream_outbounds us = Inr ups" "external = map gu_AttachmentID us" "distinct external"
    and es: "distinct (map gr_ID es)" "grant \<in> set es"
  obtains out where "filter (\<lambda>out'. xo_Tag out' = xo_Tag out) outbounds = [out]" "xo_Tag out = grant_tag external grant"
    "if gr_AttachmentID grant \<in> set external then \<exists>u. u \<in> set us \<and> gu_AttachmentID u = gr_AttachmentID grant \<and> upstream_outbound u = Inr out
     else out = socks_outbound host port grant"
proof -
  let ?socks = "map (socks_outbound host port) (filter (\<lambda>g. gr_AttachmentID g \<notin> set external) es)"
  have tags: "map xo_Tag ups = map ((@) ''upstream-'') external"
    using upstream_outbounds_tags [OF ups(1)] by (simp add: ups(2))
  then have uptags: "xo_Tag ` set ups = (@) ''upstream-'' ` set external" by (metis list.set_map)
  show thesis
  proof (cases "gr_AttachmentID grant \<in> set external")
    case True
    then have "grant_tag external grant \<in> xo_Tag ` set ups" unfolding uptags by (simp add: grant_tag_def)
    then obtain out where out: "out \<in> set ups" "xo_Tag out = grant_tag external grant" by auto
    then obtain u where u: "u \<in> set us" "upstream_outbound u = Inr out"
      using upstream_outbounds_of [OF ups(1)] by blast
    have "distinct (map xo_Tag ups)" using ups(3) by (simp add: tags distinct_map inj_on_def)
    then have "filter (\<lambda>out'. xo_Tag out' = xo_Tag out) ups = [out]" using out(1) by (rule filter_key)
    moreover have "filter (\<lambda>out'. xo_Tag out' = xo_Tag out) ?socks = []"
      using True by (auto simp: filter_empty_conv socks_outbound_def out(2) grant_tag_def grant_email_def)
    moreover have "filter (\<lambda>out'. xo_Tag out' = xo_Tag out) own = []" "xo_Tag deny_outbound \<noteq> xo_Tag out"
      using own True by (auto simp: filter_empty_conv out(2) deny_outbound_def grant_tag_def grant_email_def list_all_iff)
    moreover have "gu_AttachmentID u = gr_AttachmentID grant"
      using upstream_outbound_tag [OF u(2)] out(2) True by (simp add: grant_tag_def)
    ultimately show thesis using that [of out] out(2) u True by (auto simp: outs)
  next
    case False
    let ?out = "socks_outbound host port grant"
    have tag: "xo_Tag ?out = grant_email grant" by (simp add: socks_outbound_def)
    have "filter (\<lambda>out'. xo_Tag out' = xo_Tag ?out) ?socks = map (socks_outbound host port) (filter (\<lambda>g. gr_ID g = gr_ID grant) (filter (\<lambda>g. gr_AttachmentID g \<notin> set external) es))"
      by (simp add: filter_map comp_def socks_outbound_def)
    also have "\<dots> = [?out]"
      using filter_key [of gr_ID "filter (\<lambda>g. gr_AttachmentID g \<notin> set external) es" grant] es False
      by (simp add: distinct_map inj_on_def)
    finally have "filter (\<lambda>out'. xo_Tag out' = xo_Tag ?out) ?socks = [?out]" .
    moreover have "xo_Tag out' \<noteq> grant_email grant" if "out' \<in> set ups" for out'
    proof -
      have "xo_Tag out' \<in> (@) ''upstream-'' ` set external" using that unfolding uptags [symmetric] by (rule imageI)
      then show ?thesis by (auto simp: grant_email_def)
    qed
    then have "filter (\<lambda>out'. xo_Tag out' = xo_Tag ?out) ups = []" by (simp add: filter_empty_conv tag)
    moreover have "filter (\<lambda>out'. xo_Tag out' = xo_Tag ?out) own = []" "xo_Tag deny_outbound \<noteq> xo_Tag ?out"
      using own by (auto simp: filter_empty_conv tag deny_outbound_def grant_email_def list_all_iff)
    ultimately show thesis using that [of ?out] False by (simp add: outs tag grant_tag_def)
  qed
qed

lemma user_client:
  "distinct (map gr_ID es) \<Longrightarrow> grant \<in> set es \<Longrightarrow> (\<And>g. xc_Email (f g) = grant_email g) \<Longrightarrow>
     filter (\<lambda>client. xc_Email client = grant_email grant) (map f es) = [f grant]"
  using filter_key [of gr_ID es grant] by (simp add: filter_map comp_def)

text \<open>
  C14. Every user leaves by the way of his own grant. In a configuration rendered for Xray, whatever the other grants are: each
  enabled grant is one client, with its own credentials, of every inbound for users; exactly one rule is about it,
  and it leads to the one outbound with that tag: the external node of the grant's route if it has one, and
  otherwise the Gateway's SOCKS5 listener with the credentials of this grant. Before any rule of a user comes the one that
  denies the blocked ports to all inbounds for users, only rules of the local probes precede it, and the outbound taken when no
  rule matches denies.
\<close>

theorem xray_routes_isolated:
  assumes x: "xrayPayload env loc config = Inr x" and on: "VMessEnabled (gc_Gateway config) \<or> HY2Enabled (gc_Gateway config)"
    and ids: "distinct (map gr_ID (gc_Grants config))" "distinct (map gu_AttachmentID (gc_Upstreams config))"
    and grant: "grant \<in> set (gc_Grants config)" "gr_Enabled grant"
  shows "\<exists>out pre post.
    filter (\<lambda>r. grant_email grant \<in> set (xr_User r)) (xrt_Rules (x_Routing x)) = [field_rule (client_tags config) [grant_email grant] (xo_Tag out)] \<and>
    filter (\<lambda>out'. xo_Tag out' = xo_Tag out) (x_Outbounds x) = [out] \<and>
    ((\<exists>u. u \<in> set (gc_Upstreams config) \<and> gu_AttachmentID u = gr_AttachmentID grant \<and> upstream_outbound u = Inr out) \<or>
     gr_AttachmentID grant \<notin> gu_AttachmentID ` set (gc_Upstreams config) \<and> (\<exists>host port. out = socks_outbound host port grant)) \<and>
    xrt_Rules (x_Routing x) = pre @ \<lparr>xr_Type = ''field'', xr_InboundTag = client_tags config, xr_User = [], xr_Network = ''tcp'', xr_Port = BlockedTCPPorts,
      xr_OutboundTag = xo_Tag (hd (x_Outbounds x))\<rparr> # post \<and> (\<forall>r. r \<in> set pre \<longrightarrow> xr_InboundTag r = [''xmesh-upstream-probe'']) \<and>
    xo_Protocol (hd (x_Outbounds x)) = ''blackhole'' \<and>
    (\<forall>inbound. inbound \<in> set (x_Inbounds x) \<and> xi_Tag inbound \<in> set (client_tags config) \<longrightarrow>
       filter (\<lambda>client. xc_Email client = grant_email grant) (inbound_clients inbound) =
         [if xi_Tag inbound = ''xmesh-vmess'' then vmess_client grant else hy2_client grant])"
proof -
  from x on obtain host port listen outbounds pre post outs ins where
    ups: "upstream_outbounds (gc_Upstreams (canonical_config config)) = Inr outbounds"
    and os: "x_Outbounds x = deny_outbound # outbounds @ map (socks_outbound host port)
       (filter (\<lambda>g. gr_AttachmentID g \<notin> set (external_routes config)) (enabled_grants config)) @ outs"
      "list_all (\<lambda>out. xo_Tag out = ''xmesh-reality-local'') outs"
    and rules: "xrt_Rules (x_Routing x) = pre @ deny_rules (client_tags config) @
       map (\<lambda>g. field_rule (client_tags config) [grant_email g] (grant_tag (external_routes config) g)) (enabled_grants config) @ post"
      "list_all (\<lambda>r. xr_InboundTag r = [''xmesh-upstream-probe''] \<and> (\<exists>i. xr_User r = [''probe-'' @ i])) pre" "list_all own_rule post"
    and ins: "x_Inbounds x = (if VMessEnabled (gc_Gateway config) then [vmess_inbound listen (gc_Gateway config) (map vmess_client (enabled_grants config))] else []) @
       (if HY2Enabled (gc_Gateway config) then [hy2_inbound listen (gc_Gateway config) (map hy2_client (enabled_grants config))] else []) @ ins"
      "list_all (\<lambda>i. xi_Tag i \<in> {''xmesh-stats-api'', ''xmesh-reality'', ''xmesh-upstream-probe''}) ins"
    by (rule xrayPayload_parts)
  have es: "distinct (map gr_ID (enabled_grants config))" "grant \<in> set (enabled_grants config)"
    using distinct_canonical(1) [OF ids(1)] grant by (auto simp: enabled_grants_def distinct_map_filter)
  obtain out where out: "filter (\<lambda>out'. xo_Tag out' = xo_Tag out) (x_Outbounds x) = [out]" "xo_Tag out = grant_tag (external_routes config) grant"
    "if gr_AttachmentID grant \<in> set (external_routes config)
     then \<exists>u. u \<in> set (gc_Upstreams (canonical_config config)) \<and> gu_AttachmentID u = gr_AttachmentID grant \<and> upstream_outbound u = Inr out
     else out = socks_outbound host port grant"
    using user_outbound [OF os ups refl distinct_canonical(2) [OF ids(2)] es] by blast
  have "filter (\<lambda>client. xc_Email client = grant_email grant) (inbound_clients inbound) =
      [if xi_Tag inbound = ''xmesh-vmess'' then vmess_client grant else hy2_client grant]"
    if "inbound \<in> set (x_Inbounds x)" "xi_Tag inbound \<in> set (client_tags config)" for inbound
    using that ins(2) user_client [OF es, of vmess_client] user_client [OF es, of hy2_client]
    by (auto simp: ins(1) list_all_iff ingress_tags_def vmess_inbound_def hy2_inbound_def vmess_client_def hy2_client_def split: if_splits)
  moreover have "(\<exists>u. u \<in> set (gc_Upstreams config) \<and> gu_AttachmentID u = gr_AttachmentID grant \<and> upstream_outbound u = Inr out) \<or>
     gr_AttachmentID grant \<notin> gu_AttachmentID ` set (gc_Upstreams config) \<and> (\<exists>host port. out = socks_outbound host port grant)"
    using out(3) by (auto split: if_splits)
  moreover have "filter (\<lambda>r. grant_email grant \<in> set (xr_User r)) (xrt_Rules (x_Routing x)) =
      [field_rule (client_tags config) [grant_email grant] (xo_Tag out)]"
    unfolding out(2) by (rule user_rules [OF rules es])
  moreover have "\<forall>r. r \<in> set pre \<longrightarrow> xr_InboundTag r = [''xmesh-upstream-probe'']" using rules(2) by (simp add: list_all_iff)
  moreover have hd: "hd (x_Outbounds x) = deny_outbound" by (simp add: os(1))
  moreover have "deny_rules (client_tags config) = [\<lparr>xr_Type = ''field'', xr_InboundTag = client_tags config, xr_User = [], xr_Network = ''tcp'',
      xr_Port = BlockedTCPPorts, xr_OutboundTag = xo_Tag (hd (x_Outbounds x))\<rparr>]"
    using on by (auto simp: deny_rules_def hd deny_outbound_def ingress_tags_def)
  then have "xrt_Rules (x_Routing x) = pre @ \<lparr>xr_Type = ''field'', xr_InboundTag = client_tags config, xr_User = [], xr_Network = ''tcp'',
      xr_Port = BlockedTCPPorts, xr_OutboundTag = xo_Tag (hd (x_Outbounds x))\<rparr> #
      map (\<lambda>g. field_rule (client_tags config) [grant_email g] (grant_tag (external_routes config) g)) (enabled_grants config) @ post"
    unfolding rules(1) by simp
  moreover have "xo_Protocol (hd (x_Outbounds x)) = ''blackhole''" by (simp add: hd deny_outbound_def)
  ultimately show ?thesis using out(1) by blast
qed

subsection \<open>The same configuration in any order\<close>

text \<open>What a rendering reads: the gateway but for its name, region and version, and the sets of grants, links and external nodes.\<close>

definition same_service :: "GatewayConfig \<Rightarrow> GatewayConfig \<Rightarrow> bool" where
  "same_service previous config \<longleftrightarrow>
     (\<exists>name region version. gc_Gateway config = (gc_Gateway previous)\<lparr>gw_Name := name, gw_Region := region, gw_DesiredVersion := version\<rparr>) \<and>
     mset (gc_Grants config) = mset (gc_Grants previous) \<and> mset (gc_Links config) = mset (gc_Links previous) \<and>
     mset (gc_Upstreams config) = mset (gc_Upstreams previous)"

definition named_once :: "GatewayConfig \<Rightarrow> bool" where
  "named_once config \<longleftrightarrow> distinct (map gr_ID (gc_Grants config)) \<and> distinct (map (\<lambda>link. lk_ID (gk_Link link)) (gc_Links config)) \<and>
     distinct (map gu_AttachmentID (gc_Upstreams config))"

lemma same_canonical:
  assumes "same_service previous config" "named_once previous"
  shows "gc_Grants (canonical_config config) = gc_Grants (canonical_config previous)"
    "gc_Links (canonical_config config) = gc_Links (canonical_config previous)"
    "gc_Upstreams (canonical_config config) = gc_Upstreams (canonical_config previous)"
  using assms by (auto simp: canonical_config_def same_service_def named_once_def intro!: sorted_by_key [symmetric])

lemma rendered_IPv6: "IPv6IngressHost env (g\<lparr>gw_Name := name, gw_Region := region, gw_DesiredVersion := version\<rparr>) = IPv6IngressHost env g"
  by (simp add: IPv6IngressHost_def cong: option.case_cong)

lemma rendered_gateway:
  assumes "h = g\<lparr>gw_Name := name, gw_Region := region, gw_DesiredVersion := version\<rparr>"
  shows "ingress_host env h = ingress_host env g" "hy2_problem env h = hy2_problem env g" "VMessEnabled h = VMessEnabled g" "HY2Enabled h = HY2Enabled g"
    "vmess_inbound host h = vmess_inbound host g" "hy2_inbound host h = hy2_inbound host g"
    "reality_inbound host port h = reality_inbound host port g" "gw_RealityPrivateKey h = gw_RealityPrivateKey g"
  by (simp_all add: assms fun_eq_iff ingress_host_def hy2_problem_def VMessEnabled_def HY2Enabled_def vmess_inbound_def hy2_inbound_def
      reality_inbound_def rendered_IPv6 Let_def cong: option.case_cong)

lemma same_payload:
  assumes "same_service previous config" "named_once previous"
  shows "xrayPayload env loc config = xrayPayload env loc previous"
proof -
  obtain name region version where
    g: "gc_Gateway config = (gc_Gateway previous)\<lparr>gw_Name := name, gw_Region := region, gw_DesiredVersion := version\<rparr>"
    using assms(1) by (auto simp: same_service_def)
  note gw = rendered_gateway [OF g]
  have client: "client_config (gc_Gateway config) = client_config (gc_Gateway previous)"
    and reality: "add_reality env i ra ta (gc_Gateway config) = add_reality env i ra ta (gc_Gateway previous)" for i ra ta
    unfolding client_config_def add_reality_def gw fun_eq_iff by simp_all
  have "buildXrayConfigWithStats env config s ra ta st = buildXrayConfigWithStats env previous s ra ta st" for s ra ta st
    unfolding buildXrayConfigWithStats_def canonical_fields same_canonical [OF assms] Let_def gw client reality ..
  moreover have none: "gc_Upstreams config = [] \<longleftrightarrow> gc_Upstreams previous = []"
    using assms(1) by (auto simp: same_service_def)
  have sorted: "sort_slice (\<lambda>a b. gu_AttachmentID a < gu_AttachmentID b) (gc_Upstreams config) =
      sort_slice (\<lambda>a b. gu_AttachmentID a < gu_AttachmentID b) (gc_Upstreams previous)"
    using same_canonical(3) [OF assms] by (simp add: canonical_config_def)
  have "addUpstreamProbeInbound env x config a s = addUpstreamProbeInbound env x previous a s" for x a s
    unfolding addUpstreamProbeInbound_def none sorted ..
  ultimately show ?thesis by (simp add: xrayPayload_def cong: sum.case_cong)
qed

text \<open>
  C32. A configuration that differs from the one in force only in its revision, in the order in which the Controller lists grants, links and external
  nodes, or in names that Xray does not see, renders to the same text, so that the running Xray is neither
  restarted nor changed.
\<close>

theorem reordered_config_keeps_xray:
  assumes "same_service previous config" "named_once previous" "gw_ID (gc_Gateway previous) \<noteq> []" "enabled previous"
    and "xrayPayload env loc previous = Inr x"
  shows "xray_reload (\<lambda>c. map_sum id render (xrayPayload env loc c)) previous config = Inr (False, render x)"
proof -
  have "enabled config" using assms(1,4) by (auto simp: same_service_def)
  then show ?thesis
    using assms(3-5) same_payload [OF assms(1,2)] by (simp add: xray_reload_def)
qed

subsection \<open>Additions only add\<close>

lemma client_table_get:
  "client_table cs m = Some t \<Longrightarrow> mget t e = Some c \<longleftrightarrow> c \<in> set cs \<and> xc_Email c = e \<or> mget m e = Some c"
  by (induction cs arbitrary: m) (auto split: if_splits)

lemma client_table_named: "client_table cs m = Some t \<Longrightarrow> c \<in> set cs \<Longrightarrow> xc_Email c \<noteq> []"
  by (induction cs arbitrary: m) (auto split: if_splits)

lemma strike_clients_get:
  "strike_clients cs t = Some u \<Longrightarrow> mget u e = (if e \<in> xc_Email ` set cs then None else mget t e)"
  by (induction cs arbitrary: t) (auto split: if_splits)

lemma strike_clients_found:
  "strike_clients cs t = Some u \<Longrightarrow> c \<in> set cs \<Longrightarrow> xc_Email c \<noteq> [] \<Longrightarrow> mget t (xc_Email c) = Some c"
proof (induction cs arbitrary: t)
  case (Cons d cs)
  then show ?case
    using Cons.IH [of "mdel (xc_Email d) t"]
    by (cases "c = d") (auto simp: zget_def zero_xrayClient_def split: if_splits option.splits)
qed simp

lemma plan_inbound_Some:
  assumes "plan_inbound a b = Some users"
  shows "without_clients a = without_clients b \<and> (\<forall>c. c \<in> set (inbound_clients a) \<and> xc_Email c \<noteq> [] \<longrightarrow> c \<in> set (inbound_clients b)) \<and>
    users = map (user_addition a b) (filter (\<lambda>c. c \<notin> set (inbound_clients a)) (inbound_clients b))"
proof (cases "extensible a")
  case False
  with assms show ?thesis by (auto simp: plan_inbound_def split: if_splits)
next
  case True
  with assms obtain t u where t: "client_table (inbound_clients b) [] = Some t" and u: "strike_clients (inbound_clients a) t = Some u"
    and same: "without_clients a = without_clients b"
    and users: "users = map (user_addition a b) (filter (\<lambda>c. mget u (xc_Email c) \<noteq> None) (inbound_clients b))"
    by (auto simp: plan_inbound_def split: option.splits if_splits)
  have old: "c \<in> set (inbound_clients b)" if "c \<in> set (inbound_clients a)" "xc_Email c \<noteq> []" for c
    using strike_clients_found [OF u that] client_table_get [OF t] by simp
  have "mget u (xc_Email c) \<noteq> None \<longleftrightarrow> c \<notin> set (inbound_clients a)" if c: "c \<in> set (inbound_clients b)" for c
  proof -
    have t_c: "mget t (xc_Email c) = Some c" using client_table_get [OF t] c by simp
    have "c \<in> set (inbound_clients a)" if img: "xc_Email c \<in> xc_Email ` set (inbound_clients a)"
    proof -
      obtain c' where c': "c' \<in> set (inbound_clients a)" "xc_Email c' = xc_Email c" using img by (metis imageE)
      have "mget t (xc_Email c') = Some c'"
        by (rule strike_clients_found [OF u c'(1)]) (simp add: c'(2) client_table_named [OF t c])
      then have "Some c' = Some c" unfolding c'(2) t_c by (rule sym)
      with c'(1) show ?thesis by (simp only: option.inject)
    qed
    then have "xc_Email c \<in> xc_Email ` set (inbound_clients a) \<longleftrightarrow> c \<in> set (inbound_clients a)" by blast
    then show ?thesis using strike_clients_get [OF u, of "xc_Email c"] t_c by simp
  qed
  then have "filter (\<lambda>c. mget u (xc_Email c) \<noteq> None) (inbound_clients b) = filter (\<lambda>c. c \<notin> set (inbound_clients a)) (inbound_clients b)"
    by (rule filter_cong [OF refl])
  with old same users show ?thesis by simp
qed

lemma plan_inbounds_Some:
  assumes "plan_inbounds pairs = Some users" "(a, b) \<in> set pairs"
  shows "\<exists>us. plan_inbound a b = Some us"
  using assms by (induction pairs arbitrary: users rule: plan_inbounds.induct) (auto split: option.splits)

lemma plan_inbounds_users:
  "plan_inbounds pairs = Some users \<Longrightarrow> users = concat (map (\<lambda>(a, b). map (user_addition a b)
     (filter (\<lambda>c. c \<notin> set (inbound_clients a)) (inbound_clients b))) pairs)"
proof (induction pairs arbitrary: users)
  case (Cons ab pairs)
  then show ?case by (cases ab) (auto split: option.splits dest!: plan_inbound_Some)
qed simp

lemma strike_outbounds_get:
  "strike_outbounds outs m = Some r \<Longrightarrow> mget r tag = (if tag \<in> xo_Tag ` set outs then None else mget m tag)"
  by (induction outs arbitrary: m) (auto split: if_splits)

lemma strike_outbounds_found:
  "strike_outbounds outs m = Some r \<Longrightarrow> out \<in> set outs \<Longrightarrow> xo_Tag out \<noteq> [] \<Longrightarrow> mget m (xo_Tag out) = Some out"
proof (induction outs arbitrary: m)
  case (Cons out' outs)
  then show ?case
    using Cons.IH [of "mdel (xo_Tag out') m"]
    by (cases "out = out'") (auto simp: zget_def zero_xrayOutbound_def split: if_splits option.splits)
qed simp

lemma outbound_table_get:
  "distinct (map xo_Tag outs) \<Longrightarrow> mget (fold (\<lambda>out. mput (xo_Tag out) out) outs m) tag = Some out \<longleftrightarrow>
     out \<in> set outs \<and> xo_Tag out = tag \<or> tag \<notin> xo_Tag ` set outs \<and> mget m tag = Some out"
  by (induction outs arbitrary: m) (auto simp: image_iff)

lemma rules_left_subseq: "rules_left old new = [] \<Longrightarrow> subseq old new"
  by (induction old new rule: rules_left.induct) (auto split: if_splits)

lemma outbounds_added:
  assumes r: "strike_outbounds old (fold (\<lambda>out. mput (xo_Tag out) out) new []) = Some r"
    and tags: "distinct (map xo_Tag new)" "[] \<notin> set (map xo_Tag new)"
  shows "filter (\<lambda>out. mget r (xo_Tag out) \<noteq> None) new = filter (\<lambda>out. out \<notin> set old) new"
    "\<And>out. out \<in> set old \<Longrightarrow> xo_Tag out \<noteq> [] \<Longrightarrow> out \<in> set new"
proof -
  note table = outbound_table_get [OF tags(1), of "[]"]
  show old: "\<And>out. out \<in> set old \<Longrightarrow> xo_Tag out \<noteq> [] \<Longrightarrow> out \<in> set new"
    using strike_outbounds_found [OF r] table by auto
  have "mget r (xo_Tag out) \<noteq> None \<longleftrightarrow> out \<notin> set old" if out: "out \<in> set new" for out
  proof -
    have named: "xo_Tag out \<noteq> []" using tags(2) out by (metis image_eqI list.set_map)
    have "out \<in> set old" if img: "xo_Tag out \<in> xo_Tag ` set old"
    proof -
      obtain out' where out': "out' \<in> set old" "xo_Tag out' = xo_Tag out" using img by (metis imageE)
      then have "out' \<in> set new" using old named by simp
      then have "out' = out" using tags(1) out out'(2) by (auto simp: distinct_map dest: inj_onD)
      with out'(1) show ?thesis by simp
    qed
    then have "xo_Tag out \<in> xo_Tag ` set old \<longleftrightarrow> out \<in> set old" by blast
    moreover have "mget (fold (\<lambda>out. mput (xo_Tag out) out) new []) (xo_Tag out) = Some out" using table out by simp
    ultimately show ?thesis using strike_outbounds_get [OF r, of "xo_Tag out"] by simp
  qed
  then show "filter (\<lambda>out. mget r (xo_Tag out) \<noteq> None) new = filter (\<lambda>out. out \<notin> set old) new"
    by (rule filter_cong [OF refl])
qed

text \<open>
  C31. A running Xray is extended in place only if nothing is taken from it: the inbounds are the same but for their clients, every named client
  with his credentials and every named outbound of the running configuration is in the desired one, the old
  rules are among the new in their order, and the rest is equal. The plan then holds exactly what is missing. So
  a revoked or changed credential always leads to a restart, which ends the connections made with it.
\<close>

theorem hot_addition_only_adds:
  assumes plan: "planXrayAddition old desired = Some plan"
    and tags: "distinct (map xo_Tag (x_Outbounds desired))" "[] \<notin> set (map xo_Tag (x_Outbounds desired))"
  shows "map without_clients (x_Inbounds old) = map without_clients (x_Inbounds desired) \<and>
    (\<forall>a b c. (a, b) \<in> set (zip (x_Inbounds old) (x_Inbounds desired)) \<and> c \<in> set (inbound_clients a) \<and> xc_Email c \<noteq> [] \<longrightarrow> c \<in> set (inbound_clients b)) \<and>
    (\<forall>out. out \<in> set (x_Outbounds old) \<and> xo_Tag out \<noteq> [] \<longrightarrow> out \<in> set (x_Outbounds desired)) \<and>
    subseq (xrt_Rules (x_Routing old)) (xrt_Rules (x_Routing desired)) \<and>
    (x_Log old, x_API old, x_Stats old, x_Policy old) = (x_Log desired, x_API desired, x_Stats desired, x_Policy desired) \<and>
    xad_users plan = concat (map (\<lambda>(a, b). map (user_addition a b) (filter (\<lambda>c. c \<notin> set (inbound_clients a)) (inbound_clients b)))
      (zip (x_Inbounds old) (x_Inbounds desired))) \<and>
    xad_outbounds plan = filter (\<lambda>out. out \<notin> set (x_Outbounds old)) (x_Outbounds desired) \<and> xad_routing plan = x_Routing desired"
proof -
  let ?pairs = "zip (x_Inbounds old) (x_Inbounds desired)"
  obtain users r where len: "length (x_Inbounds old) = length (x_Inbounds desired)" and users: "plan_inbounds ?pairs = Some users"
    and r: "strike_outbounds (x_Outbounds old) (fold (\<lambda>out. mput (xo_Tag out) out) (x_Outbounds desired) []) = Some r"
    and rules: "rules_left (xrt_Rules (x_Routing old)) (xrt_Rules (x_Routing desired)) = []"
    and rest: "(x_Log old, x_API old, x_Stats old, x_Policy old) = (x_Log desired, x_API desired, x_Stats desired, x_Policy desired)"
    and p: "plan = \<lparr>xad_users = users, xad_outbounds = filter (\<lambda>out. mget r (xo_Tag out) \<noteq> None) (x_Outbounds desired), xad_routing = x_Routing desired\<rparr>"
    using plan by (auto simp: planXrayAddition_def split: if_splits option.splits)
  have pair: "without_clients a = without_clients b" "\<forall>c. c \<in> set (inbound_clients a) \<and> xc_Email c \<noteq> [] \<longrightarrow> c \<in> set (inbound_clients b)"
    if "(a, b) \<in> set ?pairs" for a b
    using plan_inbounds_Some [OF users that] plan_inbound_Some by blast+
  have "map without_clients (x_Inbounds old) = map without_clients (x_Inbounds desired)"
    by (rule nth_equalityI) (use len pair(1) in \<open>auto simp: set_zip\<close>)
  moreover note outs = outbounds_added [OF r tags]
  ultimately show ?thesis
    using pair(2) outs(2) rules_left_subseq [OF rules] rest plan_inbounds_users [OF users] unfolding p xrayAddition.simps outs(1) by blast
qed

subsection \<open>Two users, one of them on an external node\<close>

definition xray_ctx :: Env where
  "xray_ctx = demo_ctx\<lparr>e_SplitHostPort := (\<lambda>_. Some (''127.0.0.1'', ''1080''))\<rparr>"

definition xray_local :: LocalGateway where
  "xray_local = \<lparr>lg_SOCKSListen = ''s'', lg_RealityListen = ''r'', lg_TunnelListen = ''t'', lg_StatsListen = ''a'', lg_UpstreamProbeListen = ''p'', lg_Credential = ''c''\<rparr>"

definition xray_grant :: "string \<Rightarrow> string \<Rightarrow> Grant" where
  "xray_grant i route = zero_Grant\<lparr>gr_ID := i, gr_AttachmentID := route, gr_VMessUUID := ''uuid-'' @ i, gr_SOCKSUsername := i, gr_SOCKSPassword := ''pw'', gr_Enabled := True\<rparr>"

definition xray_site :: "Grant list \<Rightarrow> GatewayConfig" where
  "xray_site grants = \<lparr>gc_Revision = 1, gc_Gateway = zero_Gateway\<lparr>gw_ID := ''gw_1'', gw_Enabled := True, gw_VMessPort := 443\<rparr>, gc_Grants = grants, gc_Links = [],
     gc_Upstreams = [\<lparr>gu_ProbeRequestID = [], gu_AttachmentID = ''att_2'', gu_UpstreamID = ''up_1'',
       gu_Endpoint = zero_VMessEndpoint\<lparr>ve_Protocol := ''vmess'', ve_Address := ''ext.org'', ve_Port := 443, ve_UUID := ''u'', ve_Network := ''ws''\<rparr>\<rparr>]\<rparr>"

abbreviation xray_pair :: GatewayConfig where
  "xray_pair \<equiv> xray_site [xray_grant ''grt_2'' ''att_2'', xray_grant ''grt_1'' ''att_1'']"

definition rendered :: "GatewayConfig \<Rightarrow> xrayConfig" where
  "rendered config = projr (xrayPayload xray_ctx xray_local config)"

lemma xray_renders: "xrayPayload xray_ctx xray_local xray_pair = Inr (rendered xray_pair)"
proof -
  have "\<not> isl (xrayPayload xray_ctx xray_local xray_pair)" by code_simp
  then show ?thesis by (simp add: rendered_def sum.expand)
qed

theorem xray_routes_isolated_witness:
  "\<exists>out. filter (\<lambda>r. ''grant-grt_2'' \<in> set (xr_User r)) (xrt_Rules (x_Routing (rendered xray_pair))) = [field_rule [''xmesh-vmess''] [''grant-grt_2''] (xo_Tag out)] \<and>
     filter (\<lambda>out'. xo_Tag out' = xo_Tag out) (x_Outbounds (rendered xray_pair)) = [out] \<and>
     (\<exists>u. u \<in> set (gc_Upstreams xray_pair) \<and> gu_AttachmentID u = ''att_2'' \<and> upstream_outbound u = Inr out)"
proof -
  let ?g = "xray_grant ''grt_2'' ''att_2''"
  have on: "VMessEnabled (gc_Gateway xray_pair) \<or> HY2Enabled (gc_Gateway xray_pair)" by code_simp
  have ids: "distinct (map gr_ID (gc_Grants xray_pair))" "distinct (map gu_AttachmentID (gc_Upstreams xray_pair))" by code_simp+
  have grant: "?g \<in> set (gc_Grants xray_pair)" "gr_Enabled ?g" by (simp_all add: xray_site_def xray_grant_def)
  have facts: "grant_email ?g = ''grant-grt_2''" "client_tags xray_pair = [''xmesh-vmess'']" "gr_AttachmentID ?g = ''att_2''"
    "''att_2'' \<in> gu_AttachmentID ` set (gc_Upstreams xray_pair)" by code_simp+
  from xray_routes_isolated [OF xray_renders on ids grant] show ?thesis unfolding facts(1-3) using facts(4) by blast
qed

theorem reordered_config_keeps_xray_witness:
  "xray_reload (\<lambda>c. map_sum id (\<lambda>x. concat (map xo_Tag (x_Outbounds x))) (xrayPayload xray_ctx xray_local c)) xray_pair
     ((xray_site [xray_grant ''grt_1'' ''att_1'', xray_grant ''grt_2'' ''att_2''])\<lparr>gc_Revision := 2\<rparr>) = Inr (False, ''xmesh-denyupstream-att_2grant-grt_1'')"
proof -
  let ?next = "(xray_site [xray_grant ''grt_1'' ''att_1'', xray_grant ''grt_2'' ''att_2''])\<lparr>gc_Revision := 2\<rparr>"
  have "gc_Gateway ?next = (gc_Gateway xray_pair)\<lparr>gw_Name := [], gw_Region := [], gw_DesiredVersion := 0\<rparr>"
    by (simp add: xray_site_def zero_Gateway_def)
  then have same: "same_service xray_pair ?next" unfolding same_service_def by (auto simp: xray_site_def)
  have "named_once xray_pair" by code_simp
  moreover have "gw_ID (gc_Gateway xray_pair) \<noteq> []" "enabled xray_pair"
    "concat (map xo_Tag (x_Outbounds (rendered xray_pair))) = ''xmesh-denyupstream-att_2grant-grt_1''" by code_simp+
  ultimately show ?thesis using reordered_config_keeps_xray [OF same _ _ _ xray_renders] by simp
qed

definition small_xray :: "Grant list \<Rightarrow> xrayConfig" where
  "small_xray grants = (client_config (gc_Gateway xray_pair) [] [] \<lparr>gp_vmess = map vmess_client grants, gp_hy2 = [],
     gp_outbounds = map (socks_outbound ''127.0.0.1'' 1080) grants, gp_rules = map (\<lambda>g. field_rule [''xmesh-vmess''] [grant_email g] (grant_email g)) grants\<rparr>)
   \<lparr>x_API := Some \<lparr>xa_Tag = ''xmesh-api'', xa_Services = [''HandlerService'', ''RoutingService'']\<rparr>\<rparr>"

theorem hot_addition_only_adds_witness:
  "\<exists>plan. planXrayAddition (small_xray [xray_grant ''b'' ''r'']) (small_xray [xray_grant ''a'' ''r'', xray_grant ''b'' ''r'']) = Some plan \<and>
     xad_outbounds plan = [socks_outbound ''127.0.0.1'' 1080 (xray_grant ''a'' ''r'')]"
proof -
  let ?old = "small_xray [xray_grant ''b'' ''r'']" and ?new = "small_xray [xray_grant ''a'' ''r'', xray_grant ''b'' ''r'']"
  have tags: "distinct (map xo_Tag (x_Outbounds ?new))" "[] \<notin> set (map xo_Tag (x_Outbounds ?new))" by code_simp+
  have some: "planXrayAddition ?old ?new \<noteq> None" by code_simp
  have outs: "filter (\<lambda>out. out \<notin> set (x_Outbounds ?old)) (x_Outbounds ?new) = [socks_outbound ''127.0.0.1'' 1080 (xray_grant ''a'' ''r'')]" by code_simp
  obtain plan where plan: "planXrayAddition ?old ?new = Some plan" using some by blast
  with hot_addition_only_adds [OF plan tags] outs show ?thesis by metis
qed

end
